(* ===== verification/Prelude.thy ===== *)
theory Prelude
  imports Main "HOL-Library.Product_Lexorder" "HOL-Library.Sublist"
begin

text \<open>
  Shared vocabulary of the development: the error type of \<open>src/error.rs\<close>, results as sums,
  Rust strings as UTF-8 byte strings with the standard-library functions the code calls on them,
  SQL statements over tables kept as lists of rows, and the lemma collections the component
  theories use.
\<close>

named_theorems sql "unfolding rules for SQL statements over tables"
named_theorems svc "unfolding rules for the service combinators"

section \<open>Identifiers, time, JSON\<close>

text \<open>
  A UUID is its 128-bit value: \<open>Uuid\<close>'s order and PostgreSQL's order on \<open>uuid\<close> both compare
  the sixteen bytes lexicographically, which is the order of that number. A \<open>DateTime<Utc>\<close> is
  the number of microseconds since the epoch (the resolution of \<open>timestamptz\<close>).
\<close>

type_synonym uuid = nat
type_synonym time = int

definition seconds :: "int \<Rightarrow> time" where "seconds n = n * 1000000"
definition hours :: "int \<Rightarrow> time" where "hours n = seconds (n * 3600)"
definition days :: "int \<Rightarrow> time" where "days n = seconds (n * 86400)"

definition timestamp :: "time \<Rightarrow> int" where "timestamp t = t div 1000000"

text \<open>
  \<open>serde_json::Value\<close>. A UUID or a time placed in a \<open>json!\<close> literal becomes a JSON string; the
  model keeps which one it was (\<open>JUuid\<close>, \<open>JTime\<close>) instead of its text.
\<close>

datatype json =
    JNull
  | JBool bool
  | JNumber int
  | JString string
  | JUuid uuid
  | JTime time
  | JArray "json list"
  | JObject "(string \<times> json) list"

definition json_opt :: "('a \<Rightarrow> json) \<Rightarrow> 'a option \<Rightarrow> json" where
  "json_opt f x = (case x of None \<Rightarrow> JNull | Some y \<Rightarrow> f y)"

fun json_get :: "json \<Rightarrow> string \<Rightarrow> json option" where
  "json_get (JObject kvs) k = map_of kvs k"
| "json_get _ _ = None"

fun json_as_str :: "json \<Rightarrow> string option" where
  "json_as_str (JString s) = Some s"
| "json_as_str _ = None"

section \<open>Errors and results\<close>

datatype app_error =
    Validation string
  | Unauthorized string
  | Forbidden string
  | NotFound string
  | Conflict string
  | PayloadTooLarge string
  | RateLimited string
  | Internal string

type_synonym 'a result = "app_error + 'a"

fun error_code :: "app_error \<Rightarrow> string" where
  "error_code (Validation _) = ''validation_error''"
| "error_code (Unauthorized _) = ''unauthorized''"
| "error_code (Forbidden _) = ''forbidden''"
| "error_code (NotFound _) = ''not_found''"
| "error_code (Conflict _) = ''conflict''"
| "error_code (PayloadTooLarge _) = ''payload_too_large''"
| "error_code (RateLimited _) = ''rate_limited''"
| "error_code (Internal _) = ''internal_error''"

fun error_status :: "app_error \<Rightarrow> nat" where
  "error_status (Validation _) = 400"
| "error_status (Unauthorized _) = 401"
| "error_status (Forbidden _) = 403"
| "error_status (NotFound _) = 404"
| "error_status (Conflict _) = 409"
| "error_status (PayloadTooLarge _) = 413"
| "error_status (RateLimited _) = 429"
| "error_status (Internal _) = 500"

text \<open>\<open>Display\<close>: the message.\<close>

fun error_text :: "app_error \<Rightarrow> string" where
  "error_text (Validation m) = m"
| "error_text (Unauthorized m) = m"
| "error_text (Forbidden m) = m"
| "error_text (NotFound m) = m"
| "error_text (Conflict m) = m"
| "error_text (PayloadTooLarge m) = m"
| "error_text (RateLimited m) = m"
| "error_text (Internal m) = m"

text \<open>
  \<open>From<sqlx::Error>\<close>: SQLSTATE 23505 (unique violation) is a conflict, every other database
  error is internal. The database errors the modelled statements can raise are the unique
  violation, the foreign-key violation (23503) and the check violation (23514). PostgreSQL tests
  them in the order check, unique, foreign key.
\<close>

datatype sql_state = UniqueViolation | ForeignKeyViolation | CheckViolation

fun from_sqlx :: "sql_state \<Rightarrow> app_error" where
  "from_sqlx UniqueViolation = Conflict ''resource already exists''"
| "from_sqlx ForeignKeyViolation = Internal ''database error: foreign key violation''"
| "from_sqlx CheckViolation = Internal ''database error: check violation''"

definition ok_or :: "'a option \<Rightarrow> app_error \<Rightarrow> 'a result" where
  "ok_or x e = (case x of None \<Rightarrow> Inl e | Some y \<Rightarrow> Inr y)"

definition try_then :: "'a result \<Rightarrow> ('a \<Rightarrow> 'b result) \<Rightarrow> 'b result" where
  "try_then r f = (case r of Inl e \<Rightarrow> Inl e | Inr x \<Rightarrow> f x)"

definition map_ok :: "('a \<Rightarrow> 'b) \<Rightarrow> 'a result \<Rightarrow> 'b result" where
  "map_ok f r = (case r of Inl e \<Rightarrow> Inl e | Inr x \<Rightarrow> Inr (f x))"

text \<open>\<open>Option::map(f).transpose()\<close> and \<open>iter().map(f).collect::<AppResult<Vec<_>>>()\<close>.\<close>

definition transpose_opt :: "('a \<Rightarrow> 'b result) \<Rightarrow> 'a option \<Rightarrow> 'b option result" where
  "transpose_opt f x = (case x of None \<Rightarrow> Inr None | Some y \<Rightarrow> map_ok Some (f y))"

fun collect_results :: "('a \<Rightarrow> 'b result) \<Rightarrow> 'a list \<Rightarrow> 'b list result" where
  "collect_results f [] = Inr []"
| "collect_results f (x # xs) =
     (case f x of Inl e \<Rightarrow> Inl e
      | Inr y \<Rightarrow> (case collect_results f xs of Inl e \<Rightarrow> Inl e | Inr ys \<Rightarrow> Inr (y # ys)))"

lemma ok_or_simps [simp]: "ok_or None e = Inl e" "ok_or (Some x) e = Inr x"
  by (simp_all add: ok_or_def)

lemma try_then_simps [simp]: "try_then (Inl e) f = Inl e" "try_then (Inr x) f = f x"
  by (simp_all add: try_then_def)

lemma map_ok_simps [simp]: "map_ok f (Inl e) = Inl e" "map_ok f (Inr x) = Inr (f x)"
  by (simp_all add: map_ok_def)

lemma transpose_opt_simps [simp]:
  "transpose_opt f None = Inr None" "transpose_opt f (Some x) = map_ok Some (f x)"
  by (simp_all add: transpose_opt_def)

lemma ok_or_Inr [simp]: "ok_or x e = Inr y \<longleftrightarrow> x = Some y"
  by (cases x) auto

lemma ok_or_Inl [simp]: "ok_or x e = Inl e' \<longleftrightarrow> x = None \<and> e' = e"
  by (cases x) auto

lemma try_then_Inr: "try_then r f = Inr y \<longleftrightarrow> (\<exists>x. r = Inr x \<and> f x = Inr y)"
  by (cases r) auto

lemma map_ok_Inr: "map_ok f r = Inr y \<longleftrightarrow> (\<exists>x. r = Inr x \<and> y = f x)"
  by (cases r) auto

lemma collect_results_length: "collect_results f xs = Inr ys \<Longrightarrow> length ys = length xs"
  by (induction xs arbitrary: ys) (auto split: sum.splits)

lemma collect_results_ok:
  "(\<And>x. x \<in> set xs \<Longrightarrow> f x = Inr (g x)) \<Longrightarrow> collect_results f xs = Inr (map g xs)"
  by (induction xs) auto

section \<open>Rust strings\<close>

text \<open>
  A Rust \<open>str\<close> is its UTF-8 bytes, so \<open>length\<close> is \<open>str::len\<close>, \<open>char_count\<close> is
  \<open>chars().count()\<close> (the bytes that are not continuation bytes), and \<open>trim\<close> removes the
  characters with the Unicode \<open>White_Space\<close> property in their one, two and three byte encodings.
\<close>

definition byte :: "char \<Rightarrow> nat" where "byte c = of_char c"

definition is_continuation :: "char \<Rightarrow> bool" where
  "is_continuation c \<longleftrightarrow> 128 \<le> byte c \<and> byte c < 192"

definition char_count :: "string \<Rightarrow> nat" where
  "char_count s = length (filter (\<lambda>c. \<not> is_continuation c) s)"

definition ws1 :: "char \<Rightarrow> bool" where
  "ws1 a \<longleftrightarrow> (9 \<le> byte a \<and> byte a \<le> 13) \<or> byte a = 32"

definition ws2 :: "char \<Rightarrow> char \<Rightarrow> bool" where
  "ws2 a b \<longleftrightarrow> byte a = 194 \<and> (byte b = 133 \<or> byte b = 160)"

definition ws3 :: "char \<Rightarrow> char \<Rightarrow> char \<Rightarrow> bool" where
  "ws3 a b c \<longleftrightarrow>
     (byte a = 225 \<and> byte b = 154 \<and> byte c = 128)
   \<or> (byte a = 226 \<and> byte b = 128 \<and>
        ((128 \<le> byte c \<and> byte c \<le> 138) \<or> byte c = 168 \<or> byte c = 169 \<or> byte c = 175))
   \<or> (byte a = 226 \<and> byte b = 129 \<and> byte c = 159)
   \<or> (byte a = 227 \<and> byte b = 128 \<and> byte c = 128)"

fun trim_start :: "string \<Rightarrow> string" where
  "trim_start [] = []"
| "trim_start [a] = (if ws1 a then [] else [a])"
| "trim_start [a, b] = (if ws1 a then trim_start [b] else if ws2 a b then [] else [a, b])"
| "trim_start (a # b # c # s) =
     (if ws1 a then trim_start (b # c # s)
      else if ws2 a b then trim_start (c # s)
      else if ws3 a b c then trim_start s
      else a # b # c # s)"

fun trim_end_rev :: "string \<Rightarrow> string" where
  "trim_end_rev [] = []"
| "trim_end_rev [a] = (if ws1 a then [] else [a])"
| "trim_end_rev [b, a] = (if ws1 b then trim_end_rev [a] else if ws2 a b then [] else [b, a])"
| "trim_end_rev (c # b # a # s) =
     (if ws1 c then trim_end_rev (b # a # s)
      else if ws2 b c then trim_end_rev (a # s)
      else if ws3 a b c then trim_end_rev s
      else c # b # a # s)"

definition trim :: "string \<Rightarrow> string" where
  "trim s = rev (trim_end_rev (rev (trim_start s)))"

definition is_upper_ascii :: "char \<Rightarrow> bool" where
  "is_upper_ascii c \<longleftrightarrow> 65 \<le> byte c \<and> byte c \<le> 90"

definition is_lower_ascii :: "char \<Rightarrow> bool" where
  "is_lower_ascii c \<longleftrightarrow> 97 \<le> byte c \<and> byte c \<le> 122"

definition is_digit_ascii :: "char \<Rightarrow> bool" where
  "is_digit_ascii c \<longleftrightarrow> 48 \<le> byte c \<and> byte c \<le> 57"

definition is_alnum_ascii :: "char \<Rightarrow> bool" where
  "is_alnum_ascii c \<longleftrightarrow> is_upper_ascii c \<or> is_lower_ascii c \<or> is_digit_ascii c"

definition is_hexdigit_ascii :: "char \<Rightarrow> bool" where
  "is_hexdigit_ascii c \<longleftrightarrow>
     is_digit_ascii c \<or> (65 \<le> byte c \<and> byte c \<le> 70) \<or> (97 \<le> byte c \<and> byte c \<le> 102)"

definition is_graphic_ascii :: "char \<Rightarrow> bool" where
  "is_graphic_ascii c \<longleftrightarrow> 33 \<le> byte c \<and> byte c \<le> 126"

definition lower_char :: "char \<Rightarrow> char" where
  "lower_char c = (if is_upper_ascii c then char_of (byte c + 32) else c)"

definition to_ascii_lowercase :: "string \<Rightarrow> string" where
  "to_ascii_lowercase s = map lower_char s"

definition eq_ignore_ascii_case :: "string \<Rightarrow> string \<Rightarrow> bool" where
  "eq_ignore_ascii_case a b \<longleftrightarrow> to_ascii_lowercase a = to_ascii_lowercase b"

text \<open>\<open>str::split\<close> on an ASCII character: always at least one piece.\<close>

fun split_on :: "char \<Rightarrow> string \<Rightarrow> string list" where
  "split_on c [] = [[]]"
| "split_on c (x # xs) =
     (if x = c then [] # split_on c xs
      else (case split_on c xs of [] \<Rightarrow> [[x]] | p # ps \<Rightarrow> (x # p) # ps))"

fun join_with :: "string \<Rightarrow> string list \<Rightarrow> string" where
  "join_with sep [] = []"
| "join_with sep [x] = x"
| "join_with sep (x # y # ys) = x @ sep @ join_with sep (y # ys)"

lemma split_on_nonempty [simp]: "split_on c s \<noteq> []"
  by (induction s) (auto split: list.splits)

lemma join_split_on: "join_with [c] (split_on c s) = s"
proof (induction s)
  case Nil
  then show ?case by simp
next
  case (Cons x xs)
  obtain p ps where ps: "split_on c xs = p # ps"
    by (cases "split_on c xs") auto
  show ?case
    using Cons ps by (cases ps) auto
qed

lemma split_on_no_sep: "p \<in> set (split_on c s) \<Longrightarrow> c \<notin> set p"
proof (induction s arbitrary: p)
  case Nil
  then show ?case by simp
next
  case (Cons x xs)
  then show ?case
    by (cases "split_on c xs") (auto split: if_splits)
qed

lemma lower_char_idem [simp]: "lower_char (lower_char c) = lower_char c"
proof (cases "is_upper_ascii c")
  case True
  then have "byte (char_of (byte c + 32)) = byte c + 32"
    by (auto simp: byte_def is_upper_ascii_def)
  with True show ?thesis
    by (auto simp: lower_char_def is_upper_ascii_def)
next
  case False
  then show ?thesis by (simp add: lower_char_def)
qed

lemma to_ascii_lowercase_idem [simp]:
  "to_ascii_lowercase (to_ascii_lowercase s) = to_ascii_lowercase s"
  by (simp add: to_ascii_lowercase_def)

lemma length_to_ascii_lowercase [simp]: "length (to_ascii_lowercase s) = length s"
  by (simp add: to_ascii_lowercase_def)

text \<open>Trimming leaves nothing to trim: no white space at either end, and it is idempotent.\<close>

lemma trim_start_idem [simp]: "trim_start (trim_start s) = trim_start s"
  by (induction s rule: trim_start.induct) auto

lemma trim_end_rev_idem [simp]: "trim_end_rev (trim_end_rev s) = trim_end_rev s"
  by (induction s rule: trim_end_rev.induct) auto

lemma suffix_trim_end_rev: "suffix (trim_end_rev s) s"
  by (induction s rule: trim_end_rev.induct) (simp_all add: suffix_ConsI)

lemma suffix_trim_start: "suffix (trim_start s) s"
  by (induction s rule: trim_start.induct) (simp_all add: suffix_ConsI)

lemma trim_end_rev_suffix: "\<exists>p. s = p @ trim_end_rev s"
  using suffix_trim_end_rev [of s] by (auto simp: suffix_def)

lemma trim_start_suffix: "\<exists>p. s = p @ trim_start s"
  using suffix_trim_start [of s] by (auto simp: suffix_def)

lemma set_trim_start: "set (trim_start s) \<subseteq> set s"
  using trim_start_suffix [of s] by (metis set_append sup_ge2)

lemma set_trim: "set (trim s) \<subseteq> set s"
proof -
  obtain p where "rev (trim_start s) = p @ trim_end_rev (rev (trim_start s))"
    using trim_end_rev_suffix by blast
  then have "set (trim s) \<subseteq> set (trim_start s)"
    unfolding trim_def by (metis set_append set_rev sup_ge2)
  then show ?thesis using set_trim_start by blast
qed

lemma length_trim: "length (trim s) \<le> length s"
proof -
  obtain p q where "rev (trim_start s) = p @ trim_end_rev (rev (trim_start s))"
    and "s = q @ trim_start s"
    using trim_end_rev_suffix trim_start_suffix by blast
  then have "length (trim_start s) = length p + length (trim s)"
    and "length s = length q + length (trim_start s)"
    unfolding trim_def by (metis length_append length_rev)+
  then show ?thesis by simp
qed

lemma trim_start_length: "length (trim_start s) \<le> length s"
  using trim_start_suffix [of s] by (metis length_append le_add2)

text \<open>A prefix of a string that starts with no white space starts with none.\<close>

lemma trim_start_prefix: "trim_start (p @ q) = p @ q \<Longrightarrow> trim_start p = p"
proof (induction p rule: trim_start.induct)
  case (2 a)
  have "\<not> ws1 a"
  proof
    assume w: "ws1 a"
    then have "length (trim_start (a # q)) \<le> length q"
    proof (cases q)
      case Nil
      then show ?thesis using w by simp
    next
      case (Cons b r)
      then show ?thesis
      proof (cases r)
        case Nil
        then show ?thesis using w Cons trim_start_length [of q] by simp
      next
        case (Cons c t)
        then show ?thesis using w \<open>q = b # r\<close> trim_start_length [of q] by simp
      qed
    qed
    with 2 show False by simp
  qed
  then show ?case by simp
next
  case (3 a b)
  have "\<not> ws1 a \<and> \<not> ws2 a b"
  proof (rule ccontr)
    assume w: "\<not> ?thesis"
    have "length (trim_start (a # b # q)) \<le> length q + 1"
    proof (cases q)
      case Nil
      then show ?thesis using w trim_start_length [of "[b]"] by auto
    next
      case (Cons c t)
      then show ?thesis
        using w trim_start_length [of "b # q"] trim_start_length [of q] by auto
    qed
    with 3 show False by simp
  qed
  then show ?case by simp
next
  case (4 a b c s)
  have "\<not> ws1 a \<and> \<not> ws2 a b \<and> \<not> ws3 a b c"
  proof (rule ccontr)
    assume w: "\<not> ?thesis"
    have "length (trim_start (a # b # c # s @ q)) \<le> length (s @ q) + 2"
      using w trim_start_length [of "b # c # s @ q"] trim_start_length [of "c # s @ q"]
        trim_start_length [of "s @ q"] by auto
    with "4.prems" show False by simp
  qed
  then show ?case by simp
qed simp

theorem trim_idem [simp]: "trim (trim s) = trim s"
proof -
  let ?a = "trim_start s"
  let ?b = "rev (trim_end_rev (rev ?a))"
  obtain p where "rev ?a = p @ trim_end_rev (rev ?a)"
    using trim_end_rev_suffix by blast
  then have "?a = ?b @ rev p" by (metis rev_append rev_rev_ident)
  then have "trim_start ?b = ?b"
    by (metis trim_start_idem trim_start_prefix)
  then show ?thesis by (simp add: trim_def)
qed

section \<open>SQL over tables\<close>

text \<open>
  A table is the list of its rows. A statement of the code is one of these: a filter for
  \<open>SELECT .. WHERE\<close>, the first match for \<open>fetch_optional\<close> on a key, an update of the rows a
  predicate selects with the updated rows as \<open>RETURNING\<close>, a deletion. \<open>order_desc\<close> is
  \<open>ORDER BY key DESC\<close>.
\<close>

definition select_where :: "('r \<Rightarrow> bool) \<Rightarrow> 'r list \<Rightarrow> 'r list" where
  "select_where P t = filter P t"

definition fetch_optional :: "('r \<Rightarrow> bool) \<Rightarrow> 'r list \<Rightarrow> 'r option" where
  "fetch_optional P t = find P t"

definition update_where :: "('r \<Rightarrow> bool) \<Rightarrow> ('r \<Rightarrow> 'r) \<Rightarrow> 'r list \<Rightarrow> 'r list" where
  "update_where P f t = map (\<lambda>r. if P r then f r else r) t"

definition returning :: "('r \<Rightarrow> bool) \<Rightarrow> ('r \<Rightarrow> 'r) \<Rightarrow> 'r list \<Rightarrow> 'r list" where
  "returning P f t = map f (filter P t)"

definition delete_where :: "('r \<Rightarrow> bool) \<Rightarrow> 'r list \<Rightarrow> 'r list" where
  "delete_where P t = filter (\<lambda>r. \<not> P r) t"

definition row_exists :: "('r \<Rightarrow> bool) \<Rightarrow> 'r list \<Rightarrow> bool" where
  "row_exists P t = list_ex P t"

definition first_row :: "'r list \<Rightarrow> 'r option" where
  "first_row t = (case t of [] \<Rightarrow> None | r # _ \<Rightarrow> Some r)"

definition count_where :: "('r \<Rightarrow> bool) \<Rightarrow> 'r list \<Rightarrow> nat" where
  "count_where P t = length (filter P t)"

definition order_asc :: "('r \<Rightarrow> 'k::linorder) \<Rightarrow> 'r list \<Rightarrow> 'r list" where
  "order_asc key t = sort_key key t"

definition order_desc :: "('r \<Rightarrow> 'k::linorder) \<Rightarrow> 'r list \<Rightarrow> 'r list" where
  "order_desc key t = rev (sort_key key t)"

lemma row_exists_iff: "row_exists P t \<longleftrightarrow> (\<exists>r \<in> set t. P r)"
  by (simp add: row_exists_def list_ex_iff)

lemma fetch_optional_None: "fetch_optional P t = None \<longleftrightarrow> (\<forall>r \<in> set t. \<not> P r)"
  by (auto simp: fetch_optional_def find_None_iff)

lemma fetch_optional_SomeD: "fetch_optional P t = Some r \<Longrightarrow> r \<in> set t \<and> P r"
  by (auto simp: fetch_optional_def find_Some_iff)

lemma fetch_optional_last:
  "(\<And>x. x \<in> set xs \<Longrightarrow> \<not> P x) \<Longrightarrow> P r \<Longrightarrow> fetch_optional P (xs @ [r]) = Some r"
  by (induction xs) (auto simp: fetch_optional_def)

lemma fetch_optional_Some_key:
  assumes "distinct (map key t)"
    and "\<And>r. r \<in> set t \<Longrightarrow> P r \<Longrightarrow> key r = k"
    and "r \<in> set t" and "P r"
  shows "fetch_optional P t = Some r"
proof (cases "fetch_optional P t")
  case None
  with assms(3,4) show ?thesis by (auto simp: fetch_optional_None)
next
  case (Some r')
  then have "r' \<in> set t" "P r'" by (auto dest: fetch_optional_SomeD)
  with assms have "key r' = key r" by auto
  with assms(1,3) \<open>r' \<in> set t\<close> have "r' = r"
    by (auto simp: distinct_map inj_on_def)
  with Some show ?thesis by simp
qed

lemma key_unique:
  assumes "distinct (map key t)" and "r \<in> set t" and "s \<in> set t" and "key r = key s"
  shows "r = s"
proof -
  have "inj_on key (set t)" using assms(1) by (simp add: distinct_map)
  from inj_onD [OF this assms(4,2,3)] show ?thesis .
qed

lemma first_row_simps [simp]: "first_row [] = None" "first_row (r # t) = Some r"
  by (simp_all add: first_row_def)

lemma first_row_None [simp]: "first_row t = None \<longleftrightarrow> t = []"
  by (cases t) auto

lemma first_row_SomeD: "first_row t = Some r \<Longrightarrow> r \<in> set t"
  by (cases t) auto

lemma set_update_where:
  "set (update_where P f t) = {r \<in> set t. \<not> P r} \<union> f ` {r \<in> set t. P r}"
  by (auto simp: update_where_def)

lemma in_update_where:
  "r \<in> set (update_where P f t) \<longleftrightarrow> (r \<in> set t \<and> \<not> P r) \<or> (\<exists>x \<in> set t. P x \<and> r = f x)"
  by (auto simp: update_where_def)

lemma map_key_update_where:
  "(\<And>r. key (f r) = key r) \<Longrightarrow> map key (update_where P f t) = map key t"
  by (simp add: update_where_def)

lemma length_update_where [simp]: "length (update_where P f t) = length t"
  by (simp add: update_where_def)

lemma set_delete_where [simp]: "set (delete_where P t) = {r \<in> set t. \<not> P r}"
  by (auto simp: delete_where_def)

lemma distinct_map_delete_where:
  "distinct (map key t) \<Longrightarrow> distinct (map key (delete_where P t))"
  by (auto simp: delete_where_def distinct_map inj_on_def)

lemma update_where_no_match: "(\<And>r. r \<in> set t \<Longrightarrow> \<not> P r) \<Longrightarrow> update_where P f t = t"
  by (auto simp: update_where_def intro: map_idI)

lemma filter_update_where_other:
  assumes "\<And>r. Q (f r) = Q r" and "\<And>r. P r \<Longrightarrow> \<not> Q r"
  shows "filter Q (update_where P f t) = filter Q t"
  by (induction t) (auto simp: update_where_def assms)

lemma count_where_append [simp]: "count_where P (t @ u) = count_where P t + count_where P u"
  by (simp add: count_where_def)

lemma count_where_pos: "0 < count_where P t \<longleftrightarrow> (\<exists>r \<in> set t. P r)"
  by (auto simp: count_where_def filter_empty_conv)

lemma count_where_delete: "count_where Q (delete_where P t) \<le> count_where Q t"
  by (induction t) (auto simp: count_where_def delete_where_def)

lemma set_order_desc [simp]: "set (order_desc key t) = set t"
  by (simp add: order_desc_def)

lemma set_order_asc [simp]: "set (order_asc key t) = set t"
  by (simp add: order_asc_def)

lemma length_order_desc [simp]: "length (order_desc key t) = length t"
  by (simp add: order_desc_def)

lemma order_desc_Nil [simp]: "order_desc key t = [] \<longleftrightarrow> t = []"
  by (simp add: order_desc_def) (metis length_0_conv length_sort)

lemma distinct_order_desc [simp]: "distinct (order_desc key t) \<longleftrightarrow> distinct t"
  by (simp add: order_desc_def)

lemma sorted_order_desc: "sorted_wrt (\<lambda>a b. key b \<le> key a) (order_desc key t)"
  unfolding order_desc_def sorted_wrt_rev
  using sorted_sort_key [of key t] by (simp add: sorted_map)

text \<open>
  \<open>INSERT\<close> into a table whose primary key (or unique index) is \<open>key\<close>, and the check of a
  foreign key.
\<close>

definition insert_row :: "('r \<Rightarrow> 'k) \<Rightarrow> 'r \<Rightarrow> 'r list \<Rightarrow> 'r list result" where
  "insert_row key r t =
     (if row_exists (\<lambda>x. key x = key r) t then Inl (from_sqlx UniqueViolation) else Inr (t @ [r]))"

definition require_fk :: "bool \<Rightarrow> unit result" where
  "require_fk b = (if b then Inr () else Inl (from_sqlx ForeignKeyViolation))"

definition require_check :: "bool \<Rightarrow> unit result" where
  "require_check b = (if b then Inr () else Inl (from_sqlx CheckViolation))"

definition ensure :: "bool \<Rightarrow> app_error \<Rightarrow> unit result" where
  "ensure b e = (if b then Inr () else Inl e)"

lemma insert_row_Inr [sql]:
  "insert_row key r t = Inr t' \<longleftrightarrow> t' = t @ [r] \<and> key r \<notin> key ` set t"
  by (auto simp: insert_row_def row_exists_iff image_iff eq_commute)

lemma insert_row_fresh: "key r \<notin> key ` set t \<Longrightarrow> insert_row key r t = Inr (t @ [r])"
  by (simp add: insert_row_Inr)

lemma insert_row_Inl [sql]:
  "insert_row key r t = Inl e \<longleftrightarrow> e = from_sqlx UniqueViolation \<and> key r \<in> key ` set t"
  by (auto simp: insert_row_def row_exists_iff image_iff eq_commute)

lemma require_fk_simps [simp]:
  "require_fk True = Inr ()" "require_fk False = Inl (from_sqlx ForeignKeyViolation)"
  by (simp_all add: require_fk_def)

lemma require_fk_Inr [simp]: "require_fk b = Inr u \<longleftrightarrow> b"
  by (simp add: require_fk_def)

lemma require_check_Inr [simp]: "require_check b = Inr u \<longleftrightarrow> b"
  by (simp add: require_check_def)

lemma ensure_simps [simp]: "ensure True e = Inr ()" "ensure False e = Inl e"
  by (simp_all add: ensure_def)

lemma ensure_Inr [simp]: "ensure b e = Inr u \<longleftrightarrow> b"
  by (simp add: ensure_def)

lemma ensure_Inl [simp]: "ensure b e = Inl e' \<longleftrightarrow> \<not> b \<and> e' = e"
  by (auto simp: ensure_def)

lemma update_where_one:
  assumes "distinct (map key t)" and "r \<in> set t" and "P r"
    and "\<And>x. x \<in> set t \<Longrightarrow> P x \<Longrightarrow> key x = key r"
  shows "filter P t = [r]"
proof -
  have all: "x = r" if x: "x \<in> set (filter P t)" for x
  proof -
    from x have "x \<in> set t" "P x" by auto
    then show ?thesis using assms(1,2) assms(4) [of x] unfolding distinct_map inj_on_def by blast
  qed
  have dist: "distinct (filter P t)" using assms(1) by (simp add: distinct_map)
  show ?thesis
  proof (cases "filter P t")
    case Nil
    with assms(2,3) show ?thesis by (auto simp: filter_empty_conv)
  next
    case (Cons y ys)
    then have y: "y = r" using all [of y] by simp
    have "ys = []"
    proof (cases ys)
      case (Cons z zs)
      then have "z = r" using all [of z] \<open>filter P t = y # ys\<close> by simp
      with y Cons \<open>filter P t = y # ys\<close> dist show ?thesis by simp
    qed simp
    with y Cons show ?thesis by simp
  qed
qed

text \<open>\<open>UPDATE .. RETURNING\<close> with \<open>fetch_optional\<close> and an error when no row matches.\<close>

definition update_returning ::
  "('r \<Rightarrow> bool) \<Rightarrow> ('r \<Rightarrow> 'r) \<Rightarrow> app_error \<Rightarrow> 'r list \<Rightarrow> ('r \<times> 'r list) result" where
  "update_returning P f e t =
     (case returning P f t of [] \<Rightarrow> Inl e | r # _ \<Rightarrow> Inr (r, update_where P f t))"

lemma update_returning_Inl:
  "update_returning P f e t = Inl e' \<longleftrightarrow> e' = e \<and> (\<forall>r \<in> set t. \<not> P r)"
  by (cases "filter P t") (auto simp: update_returning_def returning_def filter_empty_conv
      dest: filter_eq_ConsD)

lemma update_returning_InrD:
  assumes "update_returning P f e t = Inr (r, t')"
  shows "t' = update_where P f t \<and> (\<exists>q \<in> set t. P q \<and> r = f q)"
proof (cases "filter P t")
  case Nil
  with assms show ?thesis by (simp add: update_returning_def returning_def)
next
  case (Cons q qs)
  then have "q \<in> set (filter P t)" by simp
  then have "q \<in> set t" "P q" by simp_all
  moreover have "r = f q" "t' = update_where P f t"
    using assms Cons by (simp_all add: update_returning_def returning_def)
  ultimately show ?thesis by (intro conjI bexI [of _ q])
qed

lemma update_returning_key:
  assumes "distinct (map key t)" and "q \<in> set t" and "P q"
    and "\<And>x. x \<in> set t \<Longrightarrow> P x \<Longrightarrow> key x = key q"
  shows "update_returning P f e t = Inr (f q, update_where P f t)"
proof -
  have "filter P t = [q]"
    by (rule update_where_one [where key = key and P = P, OF assms(1-3)]) (rule assms(4))
  then show ?thesis by (simp add: update_returning_def returning_def)
qed

text \<open>\<open>DELETE .. RETURNING\<close> with \<open>fetch_optional\<close> and an error when no row matches.\<close>

definition delete_returning ::
  "('r \<Rightarrow> bool) \<Rightarrow> app_error \<Rightarrow> 'r list \<Rightarrow> ('r \<times> 'r list) result" where
  "delete_returning P e t = (case filter P t of [] \<Rightarrow> Inl e | r # _ \<Rightarrow> Inr (r, delete_where P t))"

lemma delete_returning_Inl: "delete_returning P e t = Inl e' \<longleftrightarrow> e' = e \<and> (\<forall>r \<in> set t. \<not> P r)"
  by (auto simp: delete_returning_def filter_empty_conv dest: filter_eq_ConsD split: list.splits)

lemma delete_returning_InrD:
  assumes "delete_returning P e t = Inr (r, t')"
  shows "t' = delete_where P t \<and> r \<in> set t \<and> P r"
proof (cases "filter P t")
  case Nil
  with assms show ?thesis by (simp add: delete_returning_def)
next
  case (Cons q qs)
  then have "q \<in> set (filter P t)" by simp
  then have "q \<in> set t" "P q" by simp_all
  with Cons assms show ?thesis by (simp add: delete_returning_def)
qed

section \<open>Services\<close>

text \<open>
  A service threads the state of the process's stores through its calls. An error returned by one
  call ends the service (\<open>?\<close>) and keeps what the calls before it did: there is no transaction
  around a service.
\<close>

type_synonym ('s, 'a) svc = "'s \<Rightarrow> 'a result \<times> 's"

definition ret :: "'a \<Rightarrow> ('s, 'a) svc" where "ret x s = (Inr x, s)"
definition fail :: "app_error \<Rightarrow> ('s, 'a) svc" where "fail e s = (Inl e, s)"
definition lift_result :: "'a result \<Rightarrow> ('s, 'a) svc" where "lift_result r s = (r, s)"

definition then_do :: "('s, 'a) svc \<Rightarrow> ('a \<Rightarrow> ('s, 'b) svc) \<Rightarrow> ('s, 'b) svc" where
  "then_do m f s = (case m s of (Inl e, s') \<Rightarrow> (Inl e, s') | (Inr x, s') \<Rightarrow> f x s')"

text \<open>A call whose error is matched or logged instead of returned.\<close>

definition attempt :: "('s, 'a) svc \<Rightarrow> ('s, 'a result) svc" where
  "attempt m s = (case m s of (r, s') \<Rightarrow> (Inr r, s'))"

lemma svc_simps [simp]:
  "ret x s = (Inr x, s)" "fail e s = (Inl e, s)" "lift_result r s = (r, s)"
  by (simp_all add: ret_def fail_def lift_result_def)

lemma then_do_simps [simp]:
  "m s = (Inl e, s') \<Longrightarrow> then_do m f s = (Inl e, s')"
  "m s = (Inr x, s') \<Longrightarrow> then_do m f s = f x s'"
  by (simp_all add: then_do_def)

lemma then_do_Inr [svc]:
  "then_do m f s = (Inr y, s'') \<longleftrightarrow> (\<exists>x s'. m s = (Inr x, s') \<and> f x s' = (Inr y, s''))"
  by (auto simp: then_do_def split: prod.splits sum.splits)

text \<open>A part of the state that every call of a service leaves alone.\<close>

lemma then_do_keeps:
  assumes "\<And>s. T (snd (m s)) = T s" and "\<And>x s. T (snd (f x s)) = T s"
  shows "T (snd (then_do m f s)) = T s"
  using assms(1) [of s] assms(2)
  by (cases "m s") (auto simp: then_do_def split: sum.splits)

lemma then_do_assoc: "then_do (then_do m f) g = then_do m (\<lambda>x. then_do (f x) g)"
  by (rule ext) (auto simp: then_do_def split: prod.splits sum.splits)

lemma attempt_simps [simp]: "m s = (r, s') \<Longrightarrow> attempt m s = (Inr r, s')"
  by (simp add: attempt_def)

lemma attempt_Inr: "attempt m s = (x, s') \<longleftrightarrow> (\<exists>r. m s = (r, s') \<and> x = Inr r)"
  by (auto simp: attempt_def split: prod.splits)

end
