(* ===== verification/Enums.thy ===== *)
theory Enums
  imports Prelude
begin

text \<open>
  The string-backed enumerations of \<open>src/domain\<close>: task status and priority, membership role, job
  status and type, export format. The database stores their text, so every row read back goes
  through \<open>FromStr\<close>. The locale states what that pair of functions promises.
\<close>

section \<open>The interface\<close>

locale string_enum =
  fixes as_str :: "'e \<Rightarrow> string"
    and parse :: "string \<Rightarrow> 'e result"
  assumes parse_as_str: "parse (as_str e) = Inr e"
    and parse_sound: "parse s = Inr e \<Longrightarrow> as_str e = s"
    and parse_error: "parse s = Inl err \<Longrightarrow> \<exists>m. err = Validation m"
begin

lemma as_str_inj: "as_str a = as_str b \<longleftrightarrow> a = b"
  by (metis parse_as_str sum.inject(2))

lemma parse_iff: "parse s = Inr e \<longleftrightarrow> s = as_str e"
  using parse_as_str parse_sound by metis

lemma parse_total: "(\<exists>e. s = as_str e \<and> parse s = Inr e) \<or> (\<exists>m. parse s = Inl (Validation m))"
  using parse_error parse_sound by (cases "parse s") metis+

end

section \<open>Task status\<close>

datatype task_status = StOpen | StInProgress | StDone | StArchived

fun task_status_str :: "task_status \<Rightarrow> string" where
  "task_status_str StOpen = ''open''"
| "task_status_str StInProgress = ''in_progress''"
| "task_status_str StDone = ''done''"
| "task_status_str StArchived = ''archived''"

definition task_status_from_str :: "string \<Rightarrow> task_status result" where
  "task_status_from_str v =
     (if v = ''open'' then Inr StOpen
      else if v = ''in_progress'' then Inr StInProgress
      else if v = ''done'' then Inr StDone
      else if v = ''archived'' then Inr StArchived
      else Inl (Validation (''unsupported task status: '' @ v)))"

section \<open>Task priority\<close>

datatype task_priority = PrLow | PrMedium | PrHigh | PrUrgent

fun task_priority_str :: "task_priority \<Rightarrow> string" where
  "task_priority_str PrLow = ''low''"
| "task_priority_str PrMedium = ''medium''"
| "task_priority_str PrHigh = ''high''"
| "task_priority_str PrUrgent = ''urgent''"

definition task_priority_from_str :: "string \<Rightarrow> task_priority result" where
  "task_priority_from_str v =
     (if v = ''low'' then Inr PrLow
      else if v = ''medium'' then Inr PrMedium
      else if v = ''high'' then Inr PrHigh
      else if v = ''urgent'' then Inr PrUrgent
      else Inl (Validation (''unsupported task priority: '' @ v)))"

section \<open>Membership role\<close>

datatype membership_role = Owner | Admin | Member

fun role_str :: "membership_role \<Rightarrow> string" where
  "role_str Owner = ''owner''"
| "role_str Admin = ''admin''"
| "role_str Member = ''member''"

definition role_from_str :: "string \<Rightarrow> membership_role result" where
  "role_from_str v =
     (if v = ''owner'' then Inr Owner
      else if v = ''admin'' then Inr Admin
      else if v = ''member'' then Inr Member
      else Inl (Validation (''unsupported role: '' @ v)))"

section \<open>Background jobs\<close>

datatype job_status = JQueued | JRunning | JCompleted | JDeadLetter

fun job_status_str :: "job_status \<Rightarrow> string" where
  "job_status_str JQueued = ''queued''"
| "job_status_str JRunning = ''running''"
| "job_status_str JCompleted = ''completed''"
| "job_status_str JDeadLetter = ''dead_letter''"

definition job_status_from_str :: "string \<Rightarrow> job_status result" where
  "job_status_from_str v =
     (if v = ''queued'' then Inr JQueued
      else if v = ''running'' then Inr JRunning
      else if v = ''completed'' then Inr JCompleted
      else if v = ''dead_letter'' then Inr JDeadLetter
      else Inl (Validation (''unsupported job status: '' @ v)))"

datatype job_type = TaskExport | DueReminderSweep | RetentionSweep

fun job_type_str :: "job_type \<Rightarrow> string" where
  "job_type_str TaskExport = ''task_export''"
| "job_type_str DueReminderSweep = ''due_reminder_sweep''"
| "job_type_str RetentionSweep = ''retention_sweep''"

definition job_type_from_str :: "string \<Rightarrow> job_type result" where
  "job_type_from_str v =
     (if v = ''task_export'' then Inr TaskExport
      else if v = ''due_reminder_sweep'' then Inr DueReminderSweep
      else if v = ''retention_sweep'' then Inr RetentionSweep
      else Inl (Validation (''unsupported job type: '' @ v)))"

datatype export_format = FmtJson | FmtCsv

fun export_format_str :: "export_format \<Rightarrow> string" where
  "export_format_str FmtJson = ''json''"
| "export_format_str FmtCsv = ''csv''"

fun export_content_type :: "export_format \<Rightarrow> string" where
  "export_content_type FmtJson = ''application/json''"
| "export_content_type FmtCsv = ''text/csv''"

definition export_format_from_str :: "string \<Rightarrow> export_format result" where
  "export_format_from_str v =
     (if v = ''json'' then Inr FmtJson
      else if v = ''csv'' then Inr FmtCsv
      else Inl (Validation (''unsupported export format: '' @ v @ '' (expected json or csv)'')))"

section \<open>Every enumeration meets the interface\<close>

lemmas from_str_defs =
  task_status_from_str_def task_priority_from_str_def role_from_str_def
  job_status_from_str_def job_type_from_str_def export_format_from_str_def

interpretation task_status_enum: string_enum task_status_str task_status_from_str
proof
  show "task_status_from_str (task_status_str e) = Inr e" for e
    by (cases e) (simp_all add: from_str_defs)
qed (auto simp: from_str_defs split: if_splits)

interpretation task_priority_enum: string_enum task_priority_str task_priority_from_str
proof
  show "task_priority_from_str (task_priority_str e) = Inr e" for e
    by (cases e) (simp_all add: from_str_defs)
qed (auto simp: from_str_defs split: if_splits)

interpretation role_enum: string_enum role_str role_from_str
proof
  show "role_from_str (role_str e) = Inr e" for e
    by (cases e) (simp_all add: from_str_defs)
qed (auto simp: from_str_defs split: if_splits)

interpretation job_status_enum: string_enum job_status_str job_status_from_str
proof
  show "job_status_from_str (job_status_str e) = Inr e" for e
    by (cases e) (simp_all add: from_str_defs)
qed (auto simp: from_str_defs split: if_splits)

interpretation job_type_enum: string_enum job_type_str job_type_from_str
proof
  show "job_type_from_str (job_type_str e) = Inr e" for e
    by (cases e) (simp_all add: from_str_defs)
qed (auto simp: from_str_defs split: if_splits)

interpretation export_format_enum: string_enum export_format_str export_format_from_str
proof
  show "export_format_from_str (export_format_str e) = Inr e" for e
    by (cases e) (simp_all add: from_str_defs)
qed (auto simp: from_str_defs split: if_splits)

declare task_status_enum.parse_as_str [simp] task_priority_enum.parse_as_str [simp]
  role_enum.parse_as_str [simp] job_status_enum.parse_as_str [simp]
  job_type_enum.parse_as_str [simp] export_format_enum.parse_as_str [simp]

text \<open>The role comparison of \<open>src/http/helpers.rs\<close> and the services.\<close>

definition is_admin_role :: "membership_role \<Rightarrow> bool" where
  "is_admin_role r \<longleftrightarrow> r = Owner \<or> r = Admin"

definition ensure_admin_role :: "membership_role \<Rightarrow> unit result" where
  "ensure_admin_role r =
     (case r of Owner \<Rightarrow> Inr () | Admin \<Rightarrow> Inr ()
      | Member \<Rightarrow> Inl (Forbidden ''owner or admin role required for this action''))"

definition ensure_task_write_role :: "membership_role \<Rightarrow> unit result" where
  "ensure_task_write_role r = (case r of Owner \<Rightarrow> Inr () | Admin \<Rightarrow> Inr () | Member \<Rightarrow> Inr ())"

lemma ensure_admin_role_ok [simp]: "ensure_admin_role r = Inr () \<longleftrightarrow> is_admin_role r"
  by (cases r) (simp_all add: ensure_admin_role_def is_admin_role_def)

lemma ensure_task_write_role_ok [simp]: "ensure_task_write_role r = Inr ()"
  by (cases r) (simp_all add: ensure_task_write_role_def)

end
