(* ===== verification/Schema.thy ===== *)
theory Schema
  imports Enums
begin

text \<open>
  The rows of \<open>src/domain\<close> and of \<open>migrations\<close> as records (every field of the Rust struct, in
  its order), the database as the record of its tables, and the constraints of the schema the
  statements can run into: primary keys, unique indexes and foreign keys. Users and tenants are
  never deleted by the program, so no foreign key ever dangles once it has been checked.
\<close>

section \<open>Accounts\<close>

record user_record =
  us_id :: uuid
  us_email :: string
  us_password_hash :: string
  us_display_name :: "string option"
  us_email_verified_at :: "time option"
  us_created_at :: time

record tenant_record =
  tn_id :: uuid
  tn_name :: string
  tn_created_at :: time

record membership_row =
  mb_tenant_id :: uuid
  mb_user_id :: uuid
  mb_role :: string
  mb_created_at :: time

record membership_record =
  mr_tenant_id :: uuid
  mr_tenant_name :: string
  mr_user_id :: uuid
  mr_role :: string
  mr_created_at :: time

record tenant_member_record =
  tm_user_id :: uuid
  tm_email :: string
  tm_display_name :: "string option"
  tm_role :: string
  tm_joined_at :: time

record refresh_token_record =
  rt_id :: uuid
  rt_user_id :: uuid
  rt_tenant_id :: uuid
  rt_expires_at :: time
  rt_revoked_at :: "time option"
  rt_replaced_by :: "uuid option"
  rt_created_at :: time

record invitation_record =
  iv_id :: uuid
  iv_tenant_id :: uuid
  iv_email :: string
  iv_role :: string
  iv_token_hash :: string
  iv_expires_at :: time
  iv_accepted_at :: "time option"
  iv_revoked_at :: "time option"
  iv_created_by :: uuid
  iv_created_at :: time

record user_token_record =
  ut_id :: uuid
  ut_user_id :: uuid
  ut_kind :: string
  ut_token_hash :: string
  ut_expires_at :: time
  ut_used_at :: "time option"
  ut_created_at :: time

record oauth_account_row =
  oa_id :: uuid
  oa_user_id :: uuid
  oa_provider :: string
  oa_provider_subject :: string
  oa_created_at :: time

section \<open>Work items\<close>

record project_record =
  pj_id :: uuid
  pj_tenant_id :: uuid
  pj_name :: string
  pj_description :: "string option"
  pj_created_by :: uuid
  pj_updated_by :: uuid
  pj_created_at :: time
  pj_updated_at :: time
  pj_archived_at :: "time option"

record task_record =
  tk_id :: uuid
  tk_tenant_id :: uuid
  tk_project_id :: "uuid option"
  tk_title :: string
  tk_description :: "string option"
  tk_status :: string
  tk_priority :: string
  tk_assignee_id :: "uuid option"
  tk_due_at :: "time option"
  tk_created_by :: uuid
  tk_updated_by :: uuid
  tk_created_at :: time
  tk_updated_at :: time

record task_audit_record =
  ta_id :: uuid
  ta_task_id :: "uuid option"
  ta_tenant_id :: uuid
  ta_actor_user_id :: uuid
  ta_event_type :: string
  ta_payload :: json
  ta_created_at :: time

record label_record =
  lb_id :: uuid
  lb_tenant_id :: uuid
  lb_name :: string
  lb_color :: "string option"
  lb_created_by :: uuid
  lb_updated_by :: uuid
  lb_created_at :: time
  lb_updated_at :: time

record task_label_row =
  tl_task_id :: uuid
  tl_label_id :: uuid

record comment_record =
  cm_id :: uuid
  cm_task_id :: uuid
  cm_tenant_id :: uuid
  cm_author_id :: uuid
  cm_body :: string
  cm_created_at :: time
  cm_updated_at :: time

record attachment_record =
  at_id :: uuid
  at_task_id :: uuid
  at_tenant_id :: uuid
  at_uploaded_by :: uuid
  at_file_name :: string
  at_content_type :: string
  at_size_bytes :: int
  at_storage_key :: string
  at_created_at :: time

section \<open>Outboxes, audit and jobs\<close>

record webhook_record =
  wh_id :: uuid
  wh_tenant_id :: uuid
  wh_url :: string
  wh_secret :: string
  wh_events :: "string list"
  wh_is_active :: bool
  wh_created_by :: uuid
  wh_created_at :: time
  wh_updated_at :: time

record webhook_delivery_record =
  wd_id :: uuid
  wd_webhook_id :: uuid
  wd_tenant_id :: uuid
  wd_event_type :: string
  wd_payload :: json
  wd_status :: string
  wd_attempts :: int
  wd_max_attempts :: int
  wd_scheduled_at :: time
  wd_delivered_at :: "time option"
  wd_last_error :: "string option"
  wd_created_at :: time

record notification_record =
  nt_id :: uuid
  nt_tenant_id :: "uuid option"
  nt_user_id :: "uuid option"
  nt_kind :: string
  nt_recipient :: string
  nt_payload :: json
  nt_status :: string
  nt_attempts :: int
  nt_max_attempts :: int
  nt_scheduled_at :: time
  nt_sent_at :: "time option"
  nt_last_error :: "string option"
  nt_dedupe_key :: "string option"
  nt_read_at :: "time option"
  nt_created_at :: time

record new_notification =
  nn_tenant_id :: "uuid option"
  nn_user_id :: "uuid option"
  nn_kind :: string
  nn_recipient :: string
  nn_payload :: json
  nn_dedupe_key :: "string option"

record preference_row =
  np_user_id :: uuid
  np_kind :: string
  np_enabled :: bool
  np_updated_at :: time

record audit_event_record =
  ae_id :: uuid
  ae_tenant_id :: "uuid option"
  ae_actor_user_id :: "uuid option"
  ae_subject_type :: string
  ae_subject_id :: "uuid option"
  ae_event_type :: string
  ae_payload :: json
  ae_created_at :: time

record background_job_record =
  jb_id :: uuid
  jb_tenant_id :: "uuid option"
  jb_job_type :: string
  jb_status :: string
  jb_attempts :: int
  jb_max_attempts :: int
  jb_scheduled_at :: time
  jb_started_at :: "time option"
  jb_finished_at :: "time option"
  jb_payload :: json
  jb_result_payload :: "json option"
  jb_last_error :: "string option"

section \<open>The database\<close>

record db =
  users :: "user_record list"
  tenants :: "tenant_record list"
  memberships :: "membership_row list"
  refresh_tokens :: "refresh_token_record list"
  user_tokens :: "user_token_record list"
  invitations :: "invitation_record list"
  oauth_accounts :: "oauth_account_row list"
  projects :: "project_record list"
  tasks :: "task_record list"
  task_audit :: "task_audit_record list"
  labels :: "label_record list"
  task_labels :: "task_label_row list"
  comments :: "comment_record list"
  attachments :: "attachment_record list"
  webhooks :: "webhook_record list"
  deliveries :: "webhook_delivery_record list"
  notifications :: "notification_record list"
  preferences :: "preference_row list"
  audit_log :: "audit_event_record list"
  background_jobs :: "background_job_record list"

definition empty_db :: db where
  "empty_db = \<lparr>users = [], tenants = [], memberships = [], refresh_tokens = [], user_tokens = [],
     invitations = [], oauth_accounts = [], projects = [], tasks = [], task_audit = [],
     labels = [], task_labels = [], comments = [], attachments = [], webhooks = [],
     deliveries = [], notifications = [], preferences = [], audit_log = [],
     background_jobs = []\<rparr>"

text \<open>
  A database operation that is one statement or one transaction: an error leaves the database as
  it was (PostgreSQL rolls the transaction back when it is dropped without a commit).
\<close>

type_synonym 'a dbop = "db \<Rightarrow> ('a \<times> db) result"

definition user_exists :: "db \<Rightarrow> uuid \<Rightarrow> bool" where
  "user_exists d u = row_exists (\<lambda>r. us_id r = u) (users d)"

definition tenant_exists :: "db \<Rightarrow> uuid \<Rightarrow> bool" where
  "tenant_exists d t = row_exists (\<lambda>r. tn_id r = t) (tenants d)"

definition task_exists :: "db \<Rightarrow> uuid \<Rightarrow> bool" where
  "task_exists d t = row_exists (\<lambda>r. tk_id r = t) (tasks d)"

definition project_exists :: "db \<Rightarrow> uuid \<Rightarrow> bool" where
  "project_exists d p = row_exists (\<lambda>r. pj_id r = p) (projects d)"

definition fk_opt :: "('k \<Rightarrow> bool) \<Rightarrow> 'k option \<Rightarrow> bool" where
  "fk_opt P x = (case x of None \<Rightarrow> True | Some k \<Rightarrow> P k)"

lemma fk_opt_simps [simp]: "fk_opt P None" "fk_opt P (Some k) = P k"
  by (simp_all add: fk_opt_def)

section \<open>Well-formed databases\<close>

text \<open>The schema's keys: every primary key and unique index holds in every table.\<close>

definition wf_db :: "db \<Rightarrow> bool" where
  "wf_db d \<longleftrightarrow>
     distinct (map us_id (users d)) \<and> distinct (map us_email (users d))
   \<and> distinct (map tn_id (tenants d))
   \<and> distinct (map (\<lambda>m. (mb_tenant_id m, mb_user_id m)) (memberships d))
   \<and> distinct (map rt_id (refresh_tokens d))
   \<and> distinct (map ut_id (user_tokens d)) \<and> distinct (map ut_token_hash (user_tokens d))
   \<and> distinct (map iv_id (invitations d)) \<and> distinct (map iv_token_hash (invitations d))
   \<and> distinct (map pj_id (projects d)) \<and> distinct (map tk_id (tasks d))"

end
