(* ===== verification/Pagination.thy ===== *)
theory Pagination
  imports Schema
begin

text \<open>
  \<open>src/pagination.rs\<close> and the keyset pagination every listing of \<open>src/db\<close> writes out:
  \<open>WHERE (t < c.t OR (t = c.t AND id < c.id)) ORDER BY t DESC, id DESC LIMIT limit + 1\<close>, then
  \<open>truncate(limit)\<close> and the cursor of the last row when there was one row more. A cursor is the
  pair of its two fields. The locale states what such a listing promises, and proves that a client
  that follows the cursors sees every row once, in order.
\<close>

type_synonym cursor = "time \<times> uuid"

section \<open>Cursor tokens\<close>

text \<open>
  \<open>serde_json\<close> and \<open>base64\<close> are third-party: their four functions are fields of a record the
  encoder and decoder take.
\<close>

record cursor_codec =
  cc_to_vec :: "cursor \<Rightarrow> string option"
  cc_from_slice :: "string \<Rightarrow> cursor option"
  cc_b64_encode :: "string \<Rightarrow> string"
  cc_b64_decode :: "string \<Rightarrow> string option"

definition cursor_encode :: "cursor_codec \<Rightarrow> cursor \<Rightarrow> string result" where
  "cursor_encode cc c =
     (case cc_to_vec cc c of
        None \<Rightarrow> Inl (Internal ''failed to encode cursor'')
      | Some bytes \<Rightarrow> Inr (cc_b64_encode cc bytes))"

definition cursor_decode :: "cursor_codec \<Rightarrow> string \<Rightarrow> cursor result" where
  "cursor_decode cc v =
     (case cc_b64_decode cc v of
        None \<Rightarrow> Inl (Validation ''invalid cursor encoding'')
      | Some bytes \<Rightarrow>
          (case cc_from_slice cc bytes of
             None \<Rightarrow> Inl (Validation ''invalid cursor payload'')
           | Some c \<Rightarrow> Inr c))"

lemma cursor_roundtrip:
  assumes b64: "\<And>s. cc_b64_decode cc (cc_b64_encode cc s) = Some s"
    and serde: "\<And>c s. cc_to_vec cc c = Some s \<Longrightarrow> cc_from_slice cc s = Some c"
    and enc: "cursor_encode cc c = Inr tok"
  shows "cursor_decode cc tok = Inr c"
proof -
  from enc obtain s where s: "cc_to_vec cc c = Some s" "tok = cc_b64_encode cc s"
    by (auto simp: cursor_encode_def split: option.splits)
  then show ?thesis
    using serde [OF s(1)] by (simp add: cursor_decode_def b64)
qed

section \<open>The query and the page\<close>

definition before_cursor :: "cursor option \<Rightarrow> cursor \<Rightarrow> bool" where
  "before_cursor c k =
     (case c of None \<Rightarrow> True
      | Some (ct, cid) \<Rightarrow> fst k < ct \<or> (fst k = ct \<and> snd k < cid))"

definition keyset_rows :: "('r \<Rightarrow> cursor) \<Rightarrow> 'r list \<Rightarrow> cursor option \<Rightarrow> nat \<Rightarrow> 'r list" where
  "keyset_rows key rows c limit =
     take limit (order_desc key (select_where (\<lambda>r. before_cursor c (key r)) rows))"

definition keyset_page ::
  "('r \<Rightarrow> cursor) \<Rightarrow> 'r list \<Rightarrow> cursor option \<Rightarrow> nat \<Rightarrow> 'r list \<times> cursor option" where
  "keyset_page key rows c limit =
     (let fetched = keyset_rows key rows c (limit + 1)
      in if length fetched > limit
         then (let page = take limit fetched
               in (page, if page = [] then None else Some (key (last page))))
         else (fetched, None))"

lemma before_cursor_None [simp]: "before_cursor None k"
  by (simp add: before_cursor_def)

lemma before_cursor_Some [simp]: "before_cursor (Some c) k \<longleftrightarrow> k < c"
  by (cases c; cases k) (auto simp: before_cursor_def)

lemma order_desc_filter: "order_desc key (filter P t) = filter P (order_desc key t)"
  by (simp add: order_desc_def filter_sort flip: rev_filter)

lemma strict_order_desc:
  assumes "distinct (map key t)"
  shows "sorted_wrt (\<lambda>a b. key b < key a) (order_desc key t)"
proof -
  have "distinct (map key (sort_key key t))"
    using assms by (simp add: distinct_map)
  then have "sorted_wrt (<) (map key (sort_key key t))"
    by (simp add: strict_sorted_iff sorted_sort_key)
  then show ?thesis
    by (simp add: order_desc_def sorted_wrt_rev sorted_wrt_map)
qed

lemma filter_below_nth:
  fixes key :: "'r \<Rightarrow> 'k::linorder"
  assumes "sorted_wrt (\<lambda>a b. key b < key a) s" and "n < length s"
  shows "filter (\<lambda>r. key r < key (s ! n)) s = drop (Suc n) s"
proof -
  have "filter (\<lambda>r. key r < key (s ! n)) (take (Suc n) s) = []"
  proof -
    have "\<not> key r < key (s ! n)" if r: "r \<in> set (take (Suc n) s)" for r
    proof -
      obtain i where i: "i \<le> n" "r = s ! i"
        using r assms(2) by (auto simp: in_set_conv_nth less_Suc_eq_le)
      show ?thesis
      proof (cases "i = n")
        case True
        with i show ?thesis by simp
      next
        case False
        with i assms have "key (s ! n) < key (s ! i)"
          by (auto intro: sorted_wrt_nth_less)
        with i show ?thesis by auto
      qed
    qed
    then show ?thesis by (simp add: filter_empty_conv)
  qed
  moreover have "filter (\<lambda>r. key r < key (s ! n)) (drop (Suc n) s) = drop (Suc n) s"
  proof -
    have "key r < key (s ! n)" if r: "r \<in> set (drop (Suc n) s)" for r
    proof -
      obtain j where j: "j < length s - Suc n" "r = s ! (Suc n + j)"
        using r by (auto simp: in_set_conv_nth)
      then have "n < Suc n + j" "Suc n + j < length s" by auto
      with j(2) show ?thesis
        using assms by (auto simp: sorted_wrt_iff_nth_less)
    qed
    then show ?thesis by (simp add: filter_id_conv)
  qed
  ultimately show ?thesis
    by (metis append_Nil append_take_drop_id filter_append)
qed

text \<open>The rows below the key of a row of the listing are the rows after it.\<close>

lemma rows_after:
  fixes key :: "'r \<Rightarrow> cursor"
  assumes dist: "distinct (map key rows)"
    and m: "m < length (filter (\<lambda>r. before_cursor c (key r)) rows)"
    and s: "s = order_desc key (filter (\<lambda>r. before_cursor c (key r)) rows)"
  shows "order_desc key (filter (\<lambda>r. before_cursor (Some (key (s ! m))) (key r)) rows) = drop (Suc m) s"
proof -
  let ?v = "filter (\<lambda>r. before_cursor c (key r)) rows"
  have "distinct (map key ?v)" using dist by (auto simp: distinct_map inj_on_def)
  then have below: "filter (\<lambda>r. key r < key (s ! m)) s = drop (Suc m) s"
    using filter_below_nth [of key s m] strict_order_desc [of key ?v] m s by simp
  have "s ! m \<in> set s" by (rule nth_mem) (use m s in simp)
  then have "before_cursor c (key (s ! m))" using s by auto
  then have "key r < key (s ! m) \<Longrightarrow> before_cursor c (key r)" for r
    by (cases c) auto
  then have "filter (\<lambda>r. before_cursor (Some (key (s ! m))) (key r)) rows = filter (\<lambda>r. key r < key (s ! m)) ?v"
    by (auto intro: filter_cong)
  with below s show ?thesis by (simp add: order_desc_filter)
qed

section \<open>The interface of a listing\<close>

locale keyset_listing =
  fixes key :: "'r \<Rightarrow> cursor"
    and rows :: "'w \<Rightarrow> 'r list"
    and page :: "'w \<Rightarrow> cursor option \<Rightarrow> nat \<Rightarrow> 'r list \<times> cursor option"
  assumes page_rows:
      "fst (page w c n) = take n (order_desc key (filter (\<lambda>r. before_cursor c (key r)) (rows w)))"
    and page_end:
      "snd (page w c n) = None \<Longrightarrow> 0 < n \<Longrightarrow>
         length (filter (\<lambda>r. before_cursor c (key r)) (rows w)) \<le> n"
    and page_next:
      "snd (page w c n) = Some k \<Longrightarrow> fst (page w c n) \<noteq> [] \<and> k = key (last (fst (page w c n))) \<and>
         n < length (filter (\<lambda>r. before_cursor c (key r)) (rows w))"
begin

lemma page_bounded: "length (fst (page w c n)) \<le> n"
  by (simp add: page_rows)

lemma page_subset: "r \<in> set (fst (page w c n)) \<Longrightarrow> r \<in> set (rows w) \<and> before_cursor c (key r)"
  by (auto simp: page_rows dest!: in_set_takeD)

lemma page_descending: "sorted_wrt (\<lambda>a b. key b \<le> key a) (fst (page w c n))"
  by (simp add: page_rows sorted_wrt_take sorted_order_desc)

text \<open>The rows after a page are exactly the rows its cursor selects.\<close>

lemma next_rows:
  assumes dist: "distinct (map key (rows w))" and nxt: "snd (page w c n) = Some k"
  shows "order_desc key (filter (\<lambda>r. before_cursor (Some k) (key r)) (rows w)) =
         drop n (order_desc key (filter (\<lambda>r. before_cursor c (key r)) (rows w)))"
proof -
  let ?v = "filter (\<lambda>r. before_cursor c (key r)) (rows w)"
  let ?s = "order_desc key ?v"
  from nxt have ne: "fst (page w c n) \<noteq> []" and k: "k = key (last (fst (page w c n)))"
    and len: "n < length ?v"
    by (auto dest: page_next)
  then obtain m where n: "n = Suc m" by (cases n) (auto simp: page_rows)
  have "last (take n ?s) = ?s ! m"
    using n len by (simp add: take_Suc_conv_app_nth)
  then have "k = key (?s ! m)" using k by (simp add: page_rows)
  then show ?thesis using rows_after [OF dist, of m c ?s] n len by simp
qed

end

text \<open>A client that follows the cursors; the fuel is the number of requests it may make.\<close>

fun follow :: "(cursor option \<Rightarrow> 'r list \<times> cursor option) \<Rightarrow> nat \<Rightarrow> cursor option \<Rightarrow> 'r list option" where
  "follow pg 0 c = None"
| "follow pg (Suc f) c =
     (case pg c of (rs, None) \<Rightarrow> Some rs
      | (rs, Some k) \<Rightarrow> map_option (\<lambda>rest. rs @ rest) (follow pg f (Some k)))"

context keyset_listing
begin

lemma follow_from:
  assumes "distinct (map key (rows w))" and "0 < n"
    and "length (filter (\<lambda>r. before_cursor c (key r)) (rows w)) < fuel"
  shows "follow (\<lambda>c. page w c n) fuel c =
         Some (order_desc key (filter (\<lambda>r. before_cursor c (key r)) (rows w)))"
  using assms(3)
proof (induction fuel arbitrary: c)
  case 0
  then show ?case by simp
next
  case (Suc f)
  let ?v = "\<lambda>c. filter (\<lambda>r. before_cursor c (key r)) (rows w)"
  obtain rs nx where pg: "page w c n = (rs, nx)" by (cases "page w c n")
  then have rs: "rs = take n (order_desc key (?v c))" using page_rows [of w c n] by simp
  show ?case
  proof (cases nx)
    case None
    with pg assms(2) have "length (?v c) \<le> n" using page_end [of w c n] by simp
    then show ?thesis using pg None rs by simp
  next
    case (Some k)
    with pg have nk: "snd (page w c n) = Some k" by simp
    have nextv: "order_desc key (?v (Some k)) = drop n (order_desc key (?v c))"
      using next_rows [OF assms(1) nk] .
    have "n < length (?v c)" using page_next [OF nk] by simp
    then have "length (?v (Some k)) < length (?v c)"
      using arg_cong [OF nextv, of length] assms(2) by simp
    then have "follow (\<lambda>c. page w c n) f (Some k) = Some (order_desc key (?v (Some k)))"
      using Suc by simp
    then show ?thesis using pg Some rs nextv by simp
  qed
qed

theorem follow_complete:
  assumes "distinct (map key (rows w))" and "0 < n"
  shows "follow (\<lambda>c. page w c n) (Suc (length (rows w))) None = Some (order_desc key (rows w))"
  using follow_from [OF assms, of None "Suc (length (rows w))"] by simp

end

lemma keyset_page_eq:
  "keyset_page key rows c n =
     (let v = order_desc key (filter (\<lambda>r. before_cursor c (key r)) rows)
      in if n < length v then (take n v, if n = 0 then None else Some (key (last (take n v))))
         else (v, None))"
  by (simp add: keyset_page_def keyset_rows_def select_where_def Let_def min_def)

text \<open>The shape the code gives every listing meets the interface.\<close>

interpretation keyset: keyset_listing key "\<lambda>t. t" "keyset_page key" for key :: "'r \<Rightarrow> cursor"
proof
  fix w :: "'r list" and c n
  show "fst (keyset_page key w c n) =
        take n (order_desc key (filter (\<lambda>r. before_cursor c (key r)) w))"
    by (simp add: keyset_page_eq Let_def)
next
  fix w :: "'r list" and c n
  assume "snd (keyset_page key w c n) = None" and "0 < n"
  then show "length (filter (\<lambda>r. before_cursor c (key r)) w) \<le> n"
    by (simp add: keyset_page_eq Let_def split: if_splits)
next
  fix w :: "'r list" and c n k
  let ?v = "order_desc key (filter (\<lambda>r. before_cursor c (key r)) w)"
  assume "snd (keyset_page key w c n) = Some k"
  then have n: "n < length ?v" "0 < n" and k: "k = key (last (take n ?v))"
    unfolding keyset_page_eq Let_def by (simp_all split: if_splits)
  have page: "fst (keyset_page key w c n) = take n ?v"
    using n(1) by (simp only: keyset_page_eq Let_def if_True fst_conv)
  have "?v \<noteq> []" using n(1) by (cases ?v) simp_all
  with n(2) have "take n ?v \<noteq> []" by (simp only: take_eq_Nil) simp
  moreover have "n < length (filter (\<lambda>r. before_cursor c (key r)) w)"
    using n(1) by (simp only: length_order_desc)
  ultimately show "fst (keyset_page key w c n) \<noteq> [] \<and> k = key (last (fst (keyset_page key w c n))) \<and>
      n < length (filter (\<lambda>r. before_cursor c (key r)) w)"
    unfolding page by (intro conjI k)
qed

lemma keyset_listing_of_page:
  assumes "\<And>w c n. page w c n = keyset_page key (rows w) c n"
  shows "keyset_listing key rows page"
proof
  show "fst (page w c n) = take n (order_desc key (filter (\<lambda>r. before_cursor c (key r)) (rows w)))"
    for w c n
    unfolding assms by (rule keyset.page_rows)
  show "length (filter (\<lambda>r. before_cursor c (key r)) (rows w)) \<le> n"
    if "snd (page w c n) = None" "0 < n" for w c n
    using that unfolding assms by (rule keyset.page_end)
  show "fst (page w c n) \<noteq> [] \<and> k = key (last (fst (page w c n))) \<and>
      n < length (filter (\<lambda>r. before_cursor c (key r)) (rows w))"
    if "snd (page w c n) = Some k" for w c n k
    using that unfolding assms by (rule keyset.page_next)
qed

text \<open>Keys that carry the row's own identifier are distinct as soon as the identifiers are.\<close>

lemma distinct_keyI:
  assumes dist: "distinct (map ident t)" and key: "\<And>a b. key a = key b \<Longrightarrow> ident a = ident b"
  shows "distinct (map key t)"
proof -
  have "inj_on key (set t)"
    using dist key unfolding distinct_map inj_on_def by blast
  with dist show ?thesis by (simp add: distinct_map)
qed

lemma distinct_map_filter: "distinct (map f t) \<Longrightarrow> distinct (map f (filter P t))"
  by (auto simp: distinct_map inj_on_def)

end
