(* ===== verification/Validation.thy ===== *)
theory Validation
  imports Pagination
begin

text \<open>
  The input validators of \<open>src/domain\<close>, \<open>src/http/helpers.rs\<close> and \<open>src/services/account.rs\<close>:
  they trim, bound, deduplicate or reject what a client sends before any state is touched.
\<close>

section \<open>Deduplication\<close>

text \<open>\<open>into_iter().filter(|x| seen.insert(*x))\<close>: keeps the first of equal elements.\<close>

fun dedup_first :: "'a set \<Rightarrow> 'a list \<Rightarrow> 'a list" where
  "dedup_first seen [] = []"
| "dedup_first seen (x # xs) =
     (if x \<in> seen then dedup_first seen xs else x # dedup_first (insert x seen) xs)"

lemma set_dedup_first: "set (dedup_first seen xs) = set xs - seen"
  by (induction xs arbitrary: seen) auto

lemma distinct_dedup_first: "distinct (dedup_first seen xs)"
  by (induction xs arbitrary: seen) (auto simp: set_dedup_first)

lemma subseq_dedup_first: "subseq (dedup_first seen xs) xs"
  by (induction xs arbitrary: seen) auto

lemma dedup_first_distinct: "distinct xs \<Longrightarrow> set xs \<inter> seen = {} \<Longrightarrow> dedup_first seen xs = xs"
  by (induction xs arbitrary: seen) auto

lemma dedup_first_idem: "dedup_first {} (dedup_first {} xs) = dedup_first {} xs"
  by (simp add: dedup_first_distinct distinct_dedup_first)

lemma length_dedup_first: "length (dedup_first {} xs) = card (set xs)"
  using distinct_card [OF distinct_dedup_first [of "{}" xs]] by (simp add: set_dedup_first)

section \<open>Tasks\<close>

definition normalize_bulk_task_ids :: "uuid list \<Rightarrow> uuid list result" where
  "normalize_bulk_task_ids ids =
     (let deduped = dedup_first {} ids
      in if deduped = [] then Inl (Validation ''task_ids must contain at least one task id'')
         else if 100 < length deduped
         then Inl (Validation ''task_ids may contain at most 100 unique task ids'')
         else Inr deduped)"

lemma normalize_bulk_task_ids_Inr:
  "normalize_bulk_task_ids ids = Inr out \<longleftrightarrow>
     out = dedup_first {} ids \<and> ids \<noteq> [] \<and> card (set ids) \<le> 100"
proof -
  have "dedup_first {} ids = [] \<longleftrightarrow> ids = []"
    by (cases ids) auto
  then show ?thesis
    by (auto simp: normalize_bulk_task_ids_def Let_def length_dedup_first not_less)
qed

record task_filters =
  tf_status :: "task_status option"
  tf_priority :: "task_priority option"
  tf_project_id :: "uuid option"
  tf_assignee_id :: "uuid option"
  tf_label_id :: "uuid option"
  tf_due_before :: "time option"
  tf_due_after :: "time option"
  tf_updated_after :: "time option"
  tf_q :: "string option"

definition no_filters :: task_filters where
  "no_filters = \<lparr>tf_status = None, tf_priority = None, tf_project_id = None, tf_assignee_id = None,
     tf_label_id = None, tf_due_before = None, tf_due_after = None, tf_updated_after = None,
     tf_q = None\<rparr>"

record create_task_input =
  ct_project_id :: "uuid option"
  ct_title :: string
  ct_description :: "string option"
  ct_status :: "task_status option"
  ct_priority :: "task_priority option"
  ct_assignee_id :: "uuid option"
  ct_due_at :: "time option"

definition validate_create_task :: "create_task_input \<Rightarrow> create_task_input result" where
  "validate_create_task i =
     (if trim (ct_title i) = [] then Inl (Validation ''title is required'') else Inr i)"

record update_task_input =
  up_project_id :: "uuid option option"
  up_title :: "string option"
  up_description :: "string option option"
  up_status :: "task_status option"
  up_priority :: "task_priority option"
  up_assignee_id :: "uuid option option"
  up_due_at :: "time option option"

definition validate_update_task :: "update_task_input \<Rightarrow> update_task_input result" where
  "validate_update_task i =
     (case up_title i of
        Some t \<Rightarrow> if trim t = [] then Inl (Validation ''title cannot be empty'') else Inr i
      | None \<Rightarrow> Inr i)"

section \<open>Projects\<close>

record create_project_input =
  cp_name :: string
  cp_description :: "string option"

definition validate_create_project :: "create_project_input \<Rightarrow> create_project_input result" where
  "validate_create_project i =
     (if trim (cp_name i) = [] then Inl (Validation ''project name is required'') else Inr i)"

record update_project_input =
  ud_name :: "string option"
  ud_description :: "string option option"

definition validate_update_project :: "update_project_input \<Rightarrow> update_project_input result" where
  "validate_update_project i =
     (if (case ud_name i of Some n \<Rightarrow> trim n = [] | None \<Rightarrow> False)
      then Inl (Validation ''project name cannot be empty'')
      else if ud_name i = None \<and> ud_description i = None
      then Inl (Validation ''at least one project field must be provided'')
      else Inr i)"

section \<open>Labels\<close>

definition validate_label_name :: "string \<Rightarrow> string result" where
  "validate_label_name name =
     (let trimmed = trim name
      in if trimmed = [] then Inl (Validation ''label name is required'')
         else if 64 < char_count trimmed
         then Inl (Validation ''label name must be at most 64 characters'')
         else Inr trimmed)"

definition validate_label_color :: "string \<Rightarrow> string result" where
  "validate_label_color color =
     (let trimmed = trim color
      in if length trimmed = 7 \<and> take 1 trimmed = ''#'' \<and>
            (\<forall>c \<in> set (drop 1 trimmed). is_hexdigit_ascii c)
         then Inr (to_ascii_lowercase trimmed)
         else Inl (Validation ''label color must be a hex color like #4f46e5''))"

definition validate_task_label_ids :: "uuid list \<Rightarrow> uuid list result" where
  "validate_task_label_ids ids =
     (if 100 < length ids then Inl (Validation ''a task can have at most 100 labels'')
      else Inr (remdups_adj (sort ids)))"

record create_label_input =
  cl_name :: string
  cl_color :: "string option"

definition validate_create_label :: "create_label_input \<Rightarrow> create_label_input result" where
  "validate_create_label i =
     try_then (validate_label_name (cl_name i)) (\<lambda>name.
     try_then (transpose_opt validate_label_color (cl_color i)) (\<lambda>color.
     Inr (i\<lparr>cl_name := name, cl_color := color\<rparr>)))"

record update_label_input =
  ul_name :: "string option"
  ul_color :: "string option option"

definition validate_update_label :: "update_label_input \<Rightarrow> update_label_input result" where
  "validate_update_label i =
     (if ul_name i = None \<and> ul_color i = None
      then Inl (Validation ''at least one label field must be provided'')
      else
        try_then (transpose_opt validate_label_name (ul_name i)) (\<lambda>name.
        try_then (transpose_opt (transpose_opt validate_label_color) (ul_color i)) (\<lambda>color.
        Inr (i\<lparr>ul_name := name, ul_color := color\<rparr>))))"

lemma validate_label_name_Inr:
  "validate_label_name n = Inr out \<Longrightarrow> out = trim n \<and> trim out = out \<and> out \<noteq> [] \<and> char_count out \<le> 64"
  by (auto simp: validate_label_name_def Let_def split: if_splits)

lemma lower_char_hex: "is_hexdigit_ascii c \<Longrightarrow>
   is_hexdigit_ascii (lower_char c) \<and> \<not> is_upper_ascii (lower_char c)"
  by (auto simp: lower_char_def is_hexdigit_ascii_def is_upper_ascii_def is_digit_ascii_def byte_def)

lemma validate_label_color_Inr:
  assumes "validate_label_color c = Inr out"
  shows "length out = 7 \<and> hd out = CHR ''#'' \<and>
    (\<forall>x \<in> set (tl out). is_hexdigit_ascii x \<and> \<not> is_upper_ascii x)"
proof -
  let ?t = "trim c"
  from assms have len: "length ?t = 7" and h: "take 1 ?t = ''#''"
    and hex: "\<forall>x \<in> set (drop 1 ?t). is_hexdigit_ascii x" and out: "out = map lower_char ?t"
    by (auto simp: validate_label_color_def to_ascii_lowercase_def Let_def split: if_splits)
  then obtain r where t: "?t = CHR ''#'' # r" by (cases ?t) auto
  have "lower_char CHR ''#'' = CHR ''#''"
    by (simp add: lower_char_def is_upper_ascii_def byte_def)
  with t hex len out show ?thesis by (auto dest: lower_char_hex)
qed

lemma distinct_remdups_adj_sort:
  "sorted xs \<Longrightarrow> sorted (remdups_adj xs) \<and> distinct (remdups_adj xs)"
  by (induction xs rule: remdups_adj.induct) auto

lemma validate_task_label_ids_Inr:
  "validate_task_label_ids ids = Inr out \<Longrightarrow> sorted out \<and> distinct out \<and> set out = set ids \<and> length out \<le> 100"
proof -
  assume a: "validate_task_label_ids ids = Inr out"
  then have out: "out = remdups_adj (sort ids)" and len: "length ids \<le> 100"
    by (auto simp: validate_task_label_ids_def split: if_splits)
  have "sorted out" "distinct out"
    unfolding out using distinct_remdups_adj_sort [of "sort ids"] by auto
  moreover have "length out \<le> length (sort ids)"
    unfolding out by (rule remdups_adj_length)
  ultimately show ?thesis using out len by simp
qed

section \<open>Comments and attachments\<close>

definition validate_comment_body :: "string \<Rightarrow> string result" where
  "validate_comment_body body =
     (let trimmed = trim body
      in if trimmed = [] then Inl (Validation ''comment body must not be empty'')
         else if 4000 < char_count trimmed
         then Inl (Validation ''comment body must be at most 4000 characters'')
         else Inr trimmed)"

text \<open>
  \<open>char::is_control\<close> is the category Cc: U+0000..U+001F, U+007F, and U+0080..U+009F, whose
  UTF-8 encodings are the byte 0xC2 followed by 0x80..0x9F.
\<close>

fun has_control :: "string \<Rightarrow> bool" where
  "has_control [] = False"
| "has_control [a] = (byte a < 32 \<or> byte a = 127)"
| "has_control (a # b # s) =
     (byte a < 32 \<or> byte a = 127 \<or> (byte a = 194 \<and> 128 \<le> byte b \<and> byte b < 160) \<or>
      has_control (b # s))"

definition validate_attachment_file_name :: "string \<Rightarrow> string result" where
  "validate_attachment_file_name file_name =
     (let trimmed = trim file_name
      in if trimmed = [] then Inl (Validation ''file_name must not be empty'')
         else if 255 < char_count trimmed
         then Inl (Validation ''file_name must be at most 255 characters'')
         else if has_control trimmed \<or> CHR ''/'' \<in> set trimmed \<or> CHR 0x5C \<in> set trimmed \<or>
                 CHR 0x22 \<in> set trimmed
         then Inl (Validation
           ''file_name must not contain path separators, quotes, or control characters'')
         else if trimmed = ''.'' \<or> trimmed = ''..''
         then Inl (Validation ''file_name is not allowed'')
         else Inr trimmed)"

definition normalize_attachment_content_type :: "string option \<Rightarrow> string" where
  "normalize_attachment_content_type content_type =
     (let candidate = (case content_type of None \<Rightarrow> [] | Some c \<Rightarrow> trim c)
      in if candidate = [] \<or> 100 < char_count candidate \<or>
            \<not> (\<forall>c \<in> set candidate. is_graphic_ascii c \<or> c = CHR '' '')
         then ''application/octet-stream'' else candidate)"

section \<open>Webhook events\<close>

definition supported_webhook_events :: "string list" where
  "supported_webhook_events =
     [''task_created'', ''task_updated'', ''task_status_updated'', ''task_archived'',
      ''task_restored'']"

fun collect_events :: "string set \<Rightarrow> string list \<Rightarrow> string list \<Rightarrow> string list result" where
  "collect_events seen normalized [] = Inr normalized"
| "collect_events seen normalized (e # es) =
     (let event = trim e
      in if event \<notin> set supported_webhook_events
         then Inl (Validation (''unsupported webhook event: '' @ event))
         else if event \<in> seen then collect_events seen normalized es
         else collect_events (insert event seen) (normalized @ [event]) es)"

definition validate_webhook_events :: "string list \<Rightarrow> string list result" where
  "validate_webhook_events events =
     try_then (collect_events {} [] events) (\<lambda>normalized.
     if normalized = [] then Inl (Validation ''webhook must subscribe to at least one event'')
     else Inr normalized)"

lemma collect_events_Inr:
  "collect_events seen acc es = Inr out \<Longrightarrow>
     out = acc @ dedup_first seen (map trim es) \<and>
     trim ` set es \<subseteq> set supported_webhook_events"
  by (induction seen acc es rule: collect_events.induct)
    (auto simp: Let_def split: if_splits)

lemma collect_events_Inl:
  "collect_events seen acc es = Inl err \<Longrightarrow>
     \<exists>e \<in> set es. trim e \<notin> set supported_webhook_events \<and>
       err = Validation (''unsupported webhook event: '' @ trim e)"
  by (induction seen acc es rule: collect_events.induct)
    (auto simp: Let_def split: if_splits)

lemma validate_webhook_events_Inr:
  "validate_webhook_events es = Inr out \<Longrightarrow>
     out = dedup_first {} (map trim es) \<and> out \<noteq> [] \<and> distinct out \<and>
     set out \<subseteq> set supported_webhook_events"
  by (auto simp: validate_webhook_events_def try_then_Inr distinct_dedup_first set_dedup_first
      dest!: collect_events_Inr split: if_splits)

section \<open>Credentials and profile\<close>

definition normalize_email :: "string \<Rightarrow> string result" where
  "normalize_email email =
     (let e = to_ascii_lowercase (trim email)
      in if CHR ''@'' \<notin> set e then Inl (Validation ''email must be valid'') else Inr e)"

definition common_passwords :: "string list" where
  "common_passwords =
     [''1234567890'', ''123456789012'', ''password123'', ''password1234'', ''passw0rd123'',
      ''qwertyuiop'', ''1q2w3e4r5t6y'', ''iloveyou123'', ''adminadmin'', ''letmein12345'',
      ''welcome12345'', ''abc123456789'']"

definition validate_password :: "string \<Rightarrow> unit result" where
  "validate_password password =
     (if length password < 10
      then Inl (Validation ''password must be at least 10 characters'')
      else if 128 < length password
      then Inl (Validation ''password must be at most 128 characters'')
      else if to_ascii_lowercase password \<in> set common_passwords
      then Inl (Validation ''password is too common; choose a stronger password'')
      else Inr ())"

definition normalize_optional_choice :: "string option \<Rightarrow> string option" where
  "normalize_optional_choice v = map_option (\<lambda>s. to_ascii_lowercase (trim s)) v"

definition validate_display_name :: "string option \<Rightarrow> string option result" where
  "validate_display_name display_name =
     (case display_name of
        Some name \<Rightarrow>
          (let name = trim name
           in if name = [] then
                Inl (Validation ''display_name must not be blank; send null to clear it'')
              else if 100 < char_count name
              then Inl (Validation ''display_name must be at most 100 characters'')
              else Inr (Some name))
      | None \<Rightarrow> Inr None)"

text \<open>
  Lower-casing does not create or remove white space, so a normalized email is trimmed and
  normalizing it again changes nothing.
\<close>

lemma ws_lower [simp]:
  "ws1 (lower_char a) = ws1 a"
  "ws2 (lower_char a) (lower_char b) = ws2 a b"
  "ws3 (lower_char a) (lower_char b) (lower_char c) = ws3 a b c"
  by (auto simp: ws1_def ws2_def ws3_def lower_char_def is_upper_ascii_def byte_def)

lemma trim_start_lower: "trim_start (map lower_char s) = map lower_char (trim_start s)"
  by (induction s rule: trim_start.induct) auto

lemma trim_end_rev_lower: "trim_end_rev (map lower_char s) = map lower_char (trim_end_rev s)"
  by (induction s rule: trim_end_rev.induct) auto

lemma trim_lower: "trim (to_ascii_lowercase s) = to_ascii_lowercase (trim s)"
  by (simp add: trim_def to_ascii_lowercase_def trim_start_lower trim_end_rev_lower rev_map)

lemma normalize_email_idem:
  "normalize_email e = Inr out \<Longrightarrow> normalize_email out = Inr out"
  by (auto simp: normalize_email_def Let_def trim_lower split: if_splits)

end
