(* ===== verification/Responses.thy ===== *)
theory Responses
  imports Validation
begin

text \<open>
  What the API returns for the rows of \<open>Schema\<close>: the \<open>TryFrom\<close>/\<open>From\<close> conversions of
  \<open>src/domain\<close>. Statuses and priorities are text in the database, so the conversion of a task
  can fail; \<open>wf_task\<close> is what the \<open>CHECK\<close> constraints of the schema guarantee.
\<close>

section \<open>Tasks\<close>

record task_response =
  tr_id :: uuid
  tr_tenant_id :: uuid
  tr_project_id :: "uuid option"
  tr_title :: string
  tr_description :: "string option"
  tr_status :: task_status
  tr_priority :: task_priority
  tr_assignee_id :: "uuid option"
  tr_due_at :: "time option"
  tr_created_by :: uuid
  tr_updated_by :: uuid
  tr_created_at :: time
  tr_updated_at :: time

definition task_response :: "task_record \<Rightarrow> task_response result" where
  "task_response t =
     try_then (task_status_from_str (tk_status t)) (\<lambda>status.
     try_then (task_priority_from_str (tk_priority t)) (\<lambda>priority.
     Inr \<lparr>tr_id = tk_id t, tr_tenant_id = tk_tenant_id t, tr_project_id = tk_project_id t,
          tr_title = tk_title t, tr_description = tk_description t, tr_status = status,
          tr_priority = priority, tr_assignee_id = tk_assignee_id t, tr_due_at = tk_due_at t,
          tr_created_by = tk_created_by t, tr_updated_by = tk_updated_by t,
          tr_created_at = tk_created_at t, tr_updated_at = tk_updated_at t\<rparr>))"

definition wf_task :: "task_record \<Rightarrow> bool" where
  "wf_task t \<longleftrightarrow>
     tk_status t \<in> {''open'', ''in_progress'', ''done'', ''archived''} \<and>
     tk_priority t \<in> {''low'', ''medium'', ''high'', ''urgent''}"

lemma task_status_parses:
  "s \<in> {''open'', ''in_progress'', ''done'', ''archived''} \<Longrightarrow> \<exists>e. task_status_from_str s = Inr e"
  by (auto simp: task_status_from_str_def)

lemma task_priority_parses:
  "s \<in> {''low'', ''medium'', ''high'', ''urgent''} \<Longrightarrow> \<exists>e. task_priority_from_str s = Inr e"
  by (auto simp: task_priority_from_str_def)

lemma task_status_str_valid: "task_status_str s \<in> {''open'', ''in_progress'', ''done'', ''archived''}"
  by (cases s) simp_all

lemma task_priority_str_valid: "task_priority_str s \<in> {''low'', ''medium'', ''high'', ''urgent''}"
  by (cases s) simp_all

lemma wf_task_strs [simp]:
  "wf_task (t\<lparr>tk_status := task_status_str s\<rparr>) \<longleftrightarrow>
     tk_priority t \<in> {''low'', ''medium'', ''high'', ''urgent''}"
  using task_status_str_valid [of s] by (simp add: wf_task_def)

lemma task_response_total: "wf_task t \<Longrightarrow> \<exists>r. task_response t = Inr r"
  using task_status_parses [of "tk_status t"] task_priority_parses [of "tk_priority t"]
  by (auto simp: wf_task_def task_response_def)

lemma task_response_Inr:
  "task_response t = Inr r \<Longrightarrow>
     tk_status t = task_status_str (tr_status r) \<and>
     tk_priority t = task_priority_str (tr_priority r) \<and>
     r = \<lparr>tr_id = tk_id t, tr_tenant_id = tk_tenant_id t, tr_project_id = tk_project_id t,
          tr_title = tk_title t, tr_description = tk_description t, tr_status = tr_status r,
          tr_priority = tr_priority r, tr_assignee_id = tk_assignee_id t, tr_due_at = tk_due_at t,
          tr_created_by = tk_created_by t, tr_updated_by = tk_updated_by t,
          tr_created_at = tk_created_at t, tr_updated_at = tk_updated_at t\<rparr>"
  by (auto simp: task_response_def try_then_Inr task_status_enum.parse_iff
      task_priority_enum.parse_iff)

text \<open>\<open>serde_json::to_value\<close> of a task response: the derived serialisation, field by field.\<close>

definition task_response_json :: "task_response \<Rightarrow> json" where
  "task_response_json r = JObject
     [(''id'', JUuid (tr_id r)), (''tenant_id'', JUuid (tr_tenant_id r)),
      (''project_id'', json_opt JUuid (tr_project_id r)), (''title'', JString (tr_title r)),
      (''description'', json_opt JString (tr_description r)),
      (''status'', JString (task_status_str (tr_status r))),
      (''priority'', JString (task_priority_str (tr_priority r))),
      (''assignee_id'', json_opt JUuid (tr_assignee_id r)),
      (''due_at'', json_opt JTime (tr_due_at r)), (''created_by'', JUuid (tr_created_by r)),
      (''updated_by'', JUuid (tr_updated_by r)), (''created_at'', JTime (tr_created_at r)),
      (''updated_at'', JTime (tr_updated_at r))]"

text \<open>\<open>TaskFilters::export_payload\<close>, which is also what the filters serialise to.\<close>

definition export_payload :: "task_filters \<Rightarrow> json" where
  "export_payload f = JObject
     [(''status'', json_opt (\<lambda>s. JString (task_status_str s)) (tf_status f)),
      (''priority'', json_opt (\<lambda>p. JString (task_priority_str p)) (tf_priority f)),
      (''project_id'', json_opt JUuid (tf_project_id f)),
      (''assignee_id'', json_opt JUuid (tf_assignee_id f)),
      (''label_id'', json_opt JUuid (tf_label_id f)),
      (''due_before'', json_opt JTime (tf_due_before f)),
      (''due_after'', json_opt JTime (tf_due_after f)),
      (''updated_after'', json_opt JTime (tf_updated_after f)),
      (''q'', json_opt JString (tf_q f))]"

record task_page =
  pg_data :: "task_response list"
  pg_next_cursor :: "string option"

record stored_response =
  sr_status :: nat
  sr_body :: json

lemma json_opt_inj:
  "(\<And>a b. f a = f b \<longleftrightarrow> a = b) \<Longrightarrow> (\<And>a. f a \<noteq> JNull) \<Longrightarrow> json_opt f x = json_opt f y \<longleftrightarrow> x = y"
  by (auto simp: json_opt_def split: option.splits) (metis)


end
