(* ===== verification/Config.thy ===== *)
theory Config
  imports Prelude "HOL-Library.Word"
begin

text \<open>
  \<open>src/config.rs\<close>: the settings and \<open>Cli::validate\<close>. \<open>i64\<close> settings are integers, \<open>u64\<close> and
  \<open>usize\<close> settings naturals. The TTL accessors multiply in \<open>i64\<close> and cast to \<open>u64\<close>, so they are
  computed on 64-bit words. The addresses and URLs only handed to third-party code are left out.
\<close>

datatype service_mode = ModeApi | ModeWorker | ModeAll

record cli =
  app_mode :: service_mode
  jwt_secret :: string
  grpc_auth_token :: string
  access_token_minutes :: int
  refresh_token_days :: int
  cache_ttl_seconds :: nat
  idempotency_ttl_seconds :: nat
  auth_rate_limit_capacity :: nat
  auth_rate_limit_refill_per_sec :: nat
  app_rate_limit_capacity :: nat
  app_rate_limit_refill_per_sec :: nat
  worker_dispatch_interval_ms :: nat
  worker_scheduler_interval_ms :: nat
  max_job_attempts :: int
  job_lease_seconds :: nat
  invitation_ttl_hours :: int
  startup_max_retries :: nat
  startup_retry_delay_ms :: nat
  cors_allow_origin :: string
  mailer_provider :: string
  smtp_url :: "string option"
  mail_from :: "string option"
  notify_dispatch_interval_ms :: nat
  require_email_verification :: bool
  email_verification_ttl_hours :: int
  password_reset_ttl_minutes :: int
  reminder_due_soon_hours :: int
  reminder_dedupe_ttl_hours :: int
  artifact_storage_dir :: string
  max_attachment_size_bytes :: nat
  webhook_dispatch_interval_ms :: nat
  webhook_allow_private_urls :: bool
  otel_exporter_otlp_endpoint :: "string option"
  oauth_google_client_id :: "string option"
  oauth_google_client_secret :: "string option"
  oauth_google_token_url :: string
  oauth_google_userinfo_url :: string
  oauth_github_client_id :: "string option"
  oauth_github_client_secret :: "string option"
  oauth_github_token_url :: string
  oauth_github_userinfo_url :: string
  retention_sweep_interval_hours :: int
  refresh_token_retention_days :: int
  job_retention_days :: int
  notification_retention_days :: int
  audit_retention_days :: int
  sampler_interval_ms :: nat
  metrics_auth_token :: "string option"

section \<open>Validation\<close>

definition blank_opt :: "string option \<Rightarrow> bool" where
  "blank_opt v \<longleftrightarrow> (case v of None \<Rightarrow> True | Some s \<Rightarrow> trim s = [])"

definition validate_mailer :: "cli \<Rightarrow> unit result" where
  "validate_mailer c =
     (if mailer_provider c = ''noop'' \<or> mailer_provider c = ''log'' then Inr ()
      else if mailer_provider c = ''smtp'' then
        try_then (ensure (\<not> blank_opt (smtp_url c))
          (Validation ''SMTP_URL is required when MAILER_PROVIDER is smtp'')) (\<lambda>_.
        ensure (\<not> blank_opt (mail_from c))
          (Validation ''MAIL_FROM is required when MAILER_PROVIDER is smtp''))
      else Inl (Validation (''MAILER_PROVIDER must be one of noop, log, smtp (got '' @
                  mailer_provider c @ '')'')))"

definition cli_validate :: "cli \<Rightarrow> cli result" where
  "cli_validate c =
     try_then (ensure (32 \<le> length (jwt_secret c))
       (Validation ''JWT_SECRET must be at least 32 characters long'')) (\<lambda>_.
     try_then (ensure (32 \<le> length (trim (grpc_auth_token c)))
       (Validation ''GRPC_AUTH_TOKEN must be at least 32 characters long'')) (\<lambda>_.
     try_then (ensure (0 < access_token_minutes c \<and> 0 < refresh_token_days c)
       (Validation ''token lifetimes must be positive'')) (\<lambda>_.
     try_then (ensure (auth_rate_limit_capacity c \<noteq> 0 \<and> auth_rate_limit_refill_per_sec c \<noteq> 0 \<and>
         app_rate_limit_capacity c \<noteq> 0 \<and> app_rate_limit_refill_per_sec c \<noteq> 0)
       (Validation ''rate limit capacity and refill must be positive'')) (\<lambda>_.
     try_then (ensure (0 < max_job_attempts c)
       (Validation ''MAX_JOB_ATTEMPTS must be positive'')) (\<lambda>_.
     try_then (ensure (job_lease_seconds c \<noteq> 0)
       (Validation ''JOB_LEASE_SECONDS must be positive'')) (\<lambda>_.
     try_then (ensure (0 < invitation_ttl_hours c)
       (Validation ''INVITATION_TTL_HOURS must be positive'')) (\<lambda>_.
     try_then (ensure (startup_max_retries c \<noteq> 0 \<and> startup_retry_delay_ms c \<noteq> 0)
       (Validation ''startup retry settings must be positive'')) (\<lambda>_.
     try_then (validate_mailer c) (\<lambda>_.
     try_then (ensure (notify_dispatch_interval_ms c \<noteq> 0)
       (Validation ''NOTIFY_DISPATCH_INTERVAL_MS must be positive'')) (\<lambda>_.
     try_then (ensure (0 < email_verification_ttl_hours c \<and> 0 < password_reset_ttl_minutes c)
       (Validation ''account token lifetimes must be positive'')) (\<lambda>_.
     try_then (ensure (0 < reminder_due_soon_hours c \<and> 0 < reminder_dedupe_ttl_hours c)
       (Validation ''reminder windows must be positive'')) (\<lambda>_.
     try_then (ensure (trim (artifact_storage_dir c) \<noteq> [])
       (Validation ''ARTIFACT_STORAGE_DIR must not be empty'')) (\<lambda>_.
     try_then (ensure (max_attachment_size_bytes c \<noteq> 0)
       (Validation ''MAX_ATTACHMENT_SIZE_BYTES must be positive'')) (\<lambda>_.
     try_then (ensure (webhook_dispatch_interval_ms c \<noteq> 0)
       (Validation ''WEBHOOK_DISPATCH_INTERVAL_MS must be positive'')) (\<lambda>_.
     try_then (ensure (0 < retention_sweep_interval_hours c \<and> 0 < refresh_token_retention_days c \<and>
         0 < job_retention_days c \<and> 0 < notification_retention_days c \<and>
         0 < audit_retention_days c)
       (Validation ''retention windows must be positive'')) (\<lambda>_.
     try_then (ensure (sampler_interval_ms c \<noteq> 0)
       (Validation ''SAMPLER_INTERVAL_MS must be positive'')) (\<lambda>_.
     try_then (ensure (metrics_auth_token c = None \<or> \<not> blank_opt (metrics_auth_token c))
       (Validation ''METRICS_AUTH_TOKEN must not be empty when set'')) (\<lambda>_.
     Inr c))))))))))))))))))"

section \<open>Durations, in seconds\<close>

definition i64_mul_as_u64 :: "int \<Rightarrow> int \<Rightarrow> nat" where
  "i64_mul_as_u64 a b = unat (word_of_int a * word_of_int b :: 64 word)"

definition access_token_ttl :: "cli \<Rightarrow> nat" where
  "access_token_ttl c = i64_mul_as_u64 (access_token_minutes c) 60"

definition refresh_token_ttl :: "cli \<Rightarrow> nat" where
  "refresh_token_ttl c = i64_mul_as_u64 (refresh_token_days c) (24 * 60 * 60)"

definition invitation_ttl :: "cli \<Rightarrow> nat" where
  "invitation_ttl c = i64_mul_as_u64 (invitation_ttl_hours c) (60 * 60)"

definition email_verification_ttl :: "cli \<Rightarrow> nat" where
  "email_verification_ttl c = i64_mul_as_u64 (email_verification_ttl_hours c) (60 * 60)"

definition password_reset_ttl :: "cli \<Rightarrow> nat" where
  "password_reset_ttl c = i64_mul_as_u64 (password_reset_ttl_minutes c) 60"

definition reminder_due_soon_window :: "cli \<Rightarrow> nat" where
  "reminder_due_soon_window c = i64_mul_as_u64 (reminder_due_soon_hours c) (60 * 60)"

definition cache_ttl :: "cli \<Rightarrow> nat" where "cache_ttl c = cache_ttl_seconds c"
definition idempotency_ttl :: "cli \<Rightarrow> nat" where "idempotency_ttl c = idempotency_ttl_seconds c"
definition job_lease :: "cli \<Rightarrow> nat" where "job_lease c = job_lease_seconds c"

definition otlp_endpoint :: "cli \<Rightarrow> string option" where
  "otlp_endpoint c = Option.bind (otel_exporter_otlp_endpoint c)
     (\<lambda>s. if trim s = [] then None else Some (trim s))"

section \<open>OAuth providers\<close>

record oauth_provider_settings =
  op_client_id :: string
  op_client_secret :: string
  op_token_url :: string
  op_userinfo_url :: string

definition non_blank :: "string option \<Rightarrow> string option" where
  "non_blank v = Option.bind v (\<lambda>s. if trim s = [] then None else Some (trim s))"

definition oauth_provider :: "cli \<Rightarrow> string \<Rightarrow> oauth_provider_settings option" where
  "oauth_provider c provider =
     (let settings = \<lambda>cid secret turl uurl.
        Option.bind (non_blank cid) (\<lambda>client_id.
        Option.bind (non_blank secret) (\<lambda>client_secret.
        Some \<lparr>op_client_id = client_id, op_client_secret = client_secret,
              op_token_url = turl, op_userinfo_url = uurl\<rparr>))
      in if provider = ''google'' then
           settings (oauth_google_client_id c) (oauth_google_client_secret c)
             (oauth_google_token_url c) (oauth_google_userinfo_url c)
         else if provider = ''github'' then
           settings (oauth_github_client_id c) (oauth_github_client_secret c)
             (oauth_github_token_url c) (oauth_github_userinfo_url c)
         else None)"

section \<open>What a validated configuration guarantees\<close>

text \<open>
  Exact as long as the product fits in \<open>i64\<close>; beyond it the release build wraps.
\<close>

lemma i64_mul_as_u64_exact:
  assumes "0 \<le> a" and "0 \<le> b" and "a * b < 2 ^ 63"
  shows "i64_mul_as_u64 a b = nat (a * b)"
proof -
  have "a * b < 2 ^ 64" using assms(3) by simp
  moreover have w: "word_of_int a * word_of_int b = (word_of_int (a * b) :: 64 word)"
    by (simp only: of_int_mult)
  moreover have "0 \<le> a * b" using assms by simp
  ultimately show ?thesis
    unfolding i64_mul_as_u64_def w
    by (simp add: unsigned_of_int take_bit_int_eq_self del: of_int_mult)
qed

lemma cli_validate_Inr:
  "cli_validate c = Inr c' \<Longrightarrow> c' = c \<and>
     32 \<le> length (jwt_secret c) \<and> 32 \<le> length (trim (grpc_auth_token c)) \<and>
     0 < access_token_minutes c \<and> 0 < refresh_token_days c \<and>
     0 < auth_rate_limit_capacity c \<and> 0 < auth_rate_limit_refill_per_sec c \<and>
     0 < app_rate_limit_capacity c \<and> 0 < app_rate_limit_refill_per_sec c \<and>
     0 < max_job_attempts c \<and> 0 < job_lease_seconds c \<and> 0 < invitation_ttl_hours c \<and>
     validate_mailer c = Inr () \<and>
     0 < email_verification_ttl_hours c \<and> 0 < password_reset_ttl_minutes c \<and>
     0 < reminder_due_soon_hours c \<and> 0 < max_attachment_size_bytes c \<and>
     0 < retention_sweep_interval_hours c \<and> 0 < refresh_token_retention_days c \<and>
     0 < job_retention_days c \<and> 0 < notification_retention_days c \<and> 0 < audit_retention_days c"
  by (clarsimp simp: cli_validate_def try_then_Inr)

end
