(* ===== verification/RateLimit.thy ===== *)
theory RateLimit
  imports Prelude
begin

text \<open>
  The token bucket of \<open>src/cache.rs\<close>: the Lua script Redis runs atomically, and the arguments
  \<open>CacheStore::rate_limit\<close> computes for it. A token is a thousand units. Every number of the
  script is an integer far below \<open>2 ^ 53\<close>, so Lua's floating-point arithmetic on them is exact.
  The bucket is the pair \<open>(tokens, ts)\<close> of the key's hash, absent when the key is absent or
  expired; the times are milliseconds.
\<close>

section \<open>The script\<close>

type_synonym bucket = "int \<times> int"

record script_reply =
  sp_allowed :: int
  sp_tokens :: int
  sp_retry_after_ms :: int

definition ceil_div :: "int \<Rightarrow> int \<Rightarrow> int" where
  "ceil_div a b = - ((- a) div b)"

definition refilled :: "int \<Rightarrow> int \<Rightarrow> int \<Rightarrow> bucket option \<Rightarrow> int" where
  "refilled capacity refill_per_ms now_ms data =
     (case data of
        None \<Rightarrow> min capacity (capacity + max 0 (now_ms - now_ms) * refill_per_ms)
      | Some (tokens, ts) \<Rightarrow> min capacity (tokens + max 0 (now_ms - ts) * refill_per_ms))"

definition rate_script ::
  "int \<Rightarrow> int \<Rightarrow> int \<Rightarrow> int \<Rightarrow> bucket option \<Rightarrow> script_reply \<times> bucket" where
  "rate_script capacity refill_per_ms now_ms cost data =
     (let tokens = refilled capacity refill_per_ms now_ms data
      in if cost \<le> tokens
         then (\<lparr>sp_allowed = 1, sp_tokens = tokens - cost, sp_retry_after_ms = 0\<rparr>,
               (tokens - cost, now_ms))
         else (\<lparr>sp_allowed = 0, sp_tokens = tokens,
                sp_retry_after_ms = ceil_div (cost - tokens) refill_per_ms\<rparr>,
               (tokens, now_ms)))"

section \<open>The caller\<close>

record rate_limit_decision =
  rd_allowed :: bool
  rd_remaining_tokens :: nat
  rd_retry_after_ms :: nat

definition bucket_ttl_ms :: "nat \<Rightarrow> nat \<Rightarrow> nat" where
  "bucket_ttl_ms capacity refill_per_sec = max (capacity * 1000 div refill_per_sec + 1000) 1000"

definition rate_limit_call ::
  "nat \<Rightarrow> nat \<Rightarrow> nat \<Rightarrow> int \<Rightarrow> bucket option \<Rightarrow> rate_limit_decision \<times> bucket" where
  "rate_limit_call capacity refill_per_sec cost now_ms data =
     (case rate_script (int (capacity * 1000)) (int refill_per_sec) now_ms (int (cost * 1000)) data of
        (reply, data') \<Rightarrow>
          (\<lparr>rd_allowed = (sp_allowed reply = 1),
            rd_remaining_tokens = nat (max 0 (sp_tokens reply)) div 1000,
            rd_retry_after_ms = nat (max 0 (sp_retry_after_ms reply))\<rparr>, data'))"

text \<open>The \<open>retry-after\<close> header of \<open>attach_rate_limit_headers\<close>: whole seconds, rounded down.\<close>

definition retry_after_header :: "rate_limit_decision \<Rightarrow> nat" where
  "retry_after_header d = rd_retry_after_ms d div 1000"

section \<open>Laws of the bucket\<close>

definition bucket_ok :: "int \<Rightarrow> bucket option \<Rightarrow> bool" where
  "bucket_ok capacity data \<longleftrightarrow> (case data of None \<Rightarrow> True | Some (tokens, _) \<Rightarrow> 0 \<le> tokens \<and> tokens \<le> capacity)"

lemma refilled_bounds:
  "0 \<le> cap \<Longrightarrow> 0 \<le> r \<Longrightarrow> bucket_ok cap data \<Longrightarrow>
     0 \<le> refilled cap r now data \<and> refilled cap r now data \<le> cap"
  by (auto simp: refilled_def bucket_ok_def split: option.splits prod.splits)

lemma rate_script_cases:
  obtains (allowed) "cost \<le> refilled cap r now data"
      "rate_script cap r now cost data =
        (\<lparr>sp_allowed = 1, sp_tokens = refilled cap r now data - cost, sp_retry_after_ms = 0\<rparr>,
         (refilled cap r now data - cost, now))"
  | (denied) "refilled cap r now data < cost"
      "rate_script cap r now cost data =
        (\<lparr>sp_allowed = 0, sp_tokens = refilled cap r now data,
          sp_retry_after_ms = ceil_div (cost - refilled cap r now data) r\<rparr>,
         (refilled cap r now data, now))"
  by (cases "cost \<le> refilled cap r now data") (auto simp: rate_script_def Let_def)

lemma rate_script_ok:
  assumes "0 \<le> cap" and "0 \<le> r" and "0 \<le> cost" and "bucket_ok cap data"
  shows "bucket_ok cap (Some (snd (rate_script cap r now cost data)))"
  using refilled_bounds [OF assms(1,2,4), of now] assms(3)
  by (cases rule: rate_script_cases [of cost cap r now data]) (auto simp: bucket_ok_def)

lemma ceil_div_enough: "0 < b \<Longrightarrow> a \<le> ceil_div a b * b"
proof -
  assume b: "0 < b"
  have "(- a) div b * b + (- a) mod b = - a" by simp
  moreover have "0 \<le> (- a) mod b" using b by simp
  ultimately have "(- a) div b * b \<le> - a" by linarith
  then show ?thesis by (simp add: ceil_div_def)
qed

lemma ceil_div_least: "0 < b \<Longrightarrow> 0 < a \<Longrightarrow> (ceil_div a b - 1) * b < a"
proof -
  assume b: "0 < b" and "0 < a"
  have "(- a) div b * b + (- a) mod b = - a" by simp
  moreover have "(- a) mod b < b" using b by simp
  ultimately have "- a < (- a) div b * b + b" by linarith
  then show ?thesis by (simp add: ceil_div_def left_diff_distrib)
qed

text \<open>A bucket whose hash has expired behaves like the full bucket it would have become.\<close>

lemma expired_is_full:
  assumes "0 < r" and "bucket_ok (int (cap * 1000)) (Some (tokens, ts))"
    and "ts + int (bucket_ttl_ms cap r) \<le> now"
  shows "refilled (int (cap * 1000)) (int r) now (Some (tokens, ts)) =
         refilled (int (cap * 1000)) (int r) now None"
proof -
  have "cap * 1000 < (cap * 1000 div r + 1) * r"
    using assms(1) by (simp add: dividend_less_div_times add.commute)
  also have "\<dots> \<le> bucket_ttl_ms cap r * r"
    by (rule mult_le_mono1) (simp add: bucket_ttl_ms_def)
  finally have "int (cap * 1000) \<le> int (bucket_ttl_ms cap r) * int r"
    by (metis less_imp_le of_nat_le_iff of_nat_mult)
  also have "\<dots> \<le> max 0 (now - ts) * int r"
    by (rule mult_right_mono) (use assms(3) in auto)
  finally show ?thesis
    using assms(2) by (auto simp: refilled_def bucket_ok_def)
qed

section \<open>Sequences of requests\<close>

text \<open>The decisions for requests at the given times, and the bucket they leave.\<close>

fun run_bucket :: "int \<Rightarrow> int \<Rightarrow> int \<Rightarrow> bucket option \<Rightarrow> int list \<Rightarrow> bool list \<times> bucket option" where
  "run_bucket cap r cost data [] = ([], data)"
| "run_bucket cap r cost data (now # ts) =
     (case rate_script cap r now cost data of
        (reply, b) \<Rightarrow> (case run_bucket cap r cost (Some b) ts of
           (ds, data') \<Rightarrow> ((sp_allowed reply = 1) # ds, data')))"

definition admitted :: "bool list \<Rightarrow> int" where
  "admitted ds = int (length (filter (\<lambda>x. x) ds))"

lemma admitted_simps [simp]:
  "admitted [] = 0" "admitted (True # ds) = 1 + admitted ds" "admitted (False # ds) = admitted ds"
  by (simp_all add: admitted_def)

lemma run_bucket_Some:
  assumes "0 \<le> cap" and "0 \<le> r" and "0 \<le> cost" and "0 \<le> tokens" and "tokens \<le> cap"
    and "sorted (ts # later)"
  shows "cost * admitted (fst (run_bucket cap r cost (Some (tokens, ts)) later))
           \<le> tokens + r * (last (ts # later) - ts)"
  using assms(4-6)
proof (induction later arbitrary: tokens ts)
  case Nil
  then show ?case by simp
next
  case (Cons now later)
  let ?t = "refilled cap r now (Some (tokens, ts))"
  have bounds: "0 \<le> ?t" "?t \<le> cap"
    using refilled_bounds [OF assms(1,2), of "Some (tokens, ts)" now] Cons.prems
    by (auto simp: bucket_ok_def)
  have le: "ts \<le> now" using Cons.prems by simp
  then have t: "?t \<le> tokens + (now - ts) * r" by (simp add: refilled_def)
  have sorted: "sorted (now # later)" using Cons.prems by simp
  have split: "r * (last (now # later) - ts) = r * (last (now # later) - now) + (now - ts) * r"
    by (simp add: algebra_simps)
  show ?case
  proof (cases rule: rate_script_cases [of cost cap r now "Some (tokens, ts)"])
    case allowed
    have "0 \<le> ?t - cost" "?t - cost \<le> cap" using allowed bounds assms(3) by auto
    from Cons.IH [OF this sorted]
    have "cost * admitted (fst (run_bucket cap r cost (Some (?t - cost, now)) later))
            \<le> ?t - cost + r * (last (now # later) - now)" .
    moreover obtain ds d where run: "run_bucket cap r cost (Some (?t - cost, now)) later = (ds, d)"
      by (cases "run_bucket cap r cost (Some (?t - cost, now)) later")
    ultimately have "cost * admitted (True # ds) \<le> tokens + r * (last (now # later) - ts)"
      using t split by (simp add: distrib_left del: last.simps)
    then show ?thesis using allowed(2) run by simp
  next
    case denied
    from Cons.IH [OF bounds sorted]
    have "cost * admitted (fst (run_bucket cap r cost (Some (?t, now)) later))
            \<le> ?t + r * (last (now # later) - now)" .
    moreover obtain ds d where run: "run_bucket cap r cost (Some (?t, now)) later = (ds, d)"
      by (cases "run_bucket cap r cost (Some (?t, now)) later")
    ultimately have "cost * admitted (False # ds) \<le> tokens + r * (last (now # later) - ts)"
      using t split by (simp del: last.simps)
    then show ?thesis using denied(2) run by simp
  qed
qed

lemma run_bucket_None:
  "0 \<le> cap \<Longrightarrow> run_bucket cap r cost None (now # later) =
     run_bucket cap r cost (Some (cap, now)) (now # later)"
  by (simp add: rate_script_def refilled_def)

end
