(* ===== verification/Redis.thy ===== *)
theory Redis
  imports Responses Config RateLimit
begin

text \<open>
  \<open>src/cache.rs\<close>: the Redis keys the program uses, the values it keeps under them, and the
  \<open>CacheStore\<close> operations. The state is the keyspace (a value with its expiry time) and the
  dispatch queue. Keys are a datatype; \<open>redis_key_text\<close> is the text the code formats for each
  constructor, proved injective, so no two constructors or arguments share a Redis key. Values
  serialised with \<open>serde_json\<close> are kept as the value they encode. The \<open>now\<close> of an operation is
  the reading of the Redis server's clock; Redis itself is assumed to answer.
\<close>

section \<open>Keys and values\<close>

datatype redis_key =
    KTenantVersion uuid
  | KTaskList uuid nat json
  | KTaskDetail uuid nat uuid
  | KIdempotency uuid string string
  | KDenylist string
  | KAuthLimit string string
  | KAppLimit uuid uuid string

datatype redis_value =
    RText string
  | RCounter nat
  | RStored stored_response
  | RTask task_response
  | RPage task_page
  | RBucket int int

record redis =
  kv :: "redis_key \<Rightarrow> (redis_value \<times> time option) option"
  queue :: "uuid list"

definition empty_redis :: redis where "empty_redis = \<lparr>kv = (\<lambda>_. None), queue = []\<rparr>"

text \<open>
  The texts of the keys. \<open>u\<close> is \<open>Uuid\<close>'s \<open>Display\<close>, \<open>n\<close> that of \<open>u64\<close>, \<open>b\<close> is
  \<open>URL_SAFE_NO_PAD.encode\<close>, \<open>js\<close> is \<open>serde_json::to_vec\<close>.
\<close>

fun redis_key_text ::
  "(uuid \<Rightarrow> string) \<Rightarrow> (nat \<Rightarrow> string) \<Rightarrow> (string \<Rightarrow> string) \<Rightarrow> (json \<Rightarrow> string) \<Rightarrow> redis_key \<Rightarrow> string" where
  "redis_key_text u n b js (KTenantVersion t) = ''cache:tenant:'' @ u t @ '':version''"
| "redis_key_text u n b js (KTaskList t v p) =
     ''cache:tasks:list'' @ '':'' @ u t @ '':'' @ n v @ '':'' @ b (js p)"
| "redis_key_text u n b js (KTaskDetail t v i) =
     ''cache:tasks:detail:'' @ u t @ '':'' @ n v @ '':'' @ u i"
| "redis_key_text u n b js (KIdempotency t route k) =
     ''idempotency:'' @ u t @ '':'' @ route @ '':'' @ b k"
| "redis_key_text u n b js (KDenylist jti) = ''auth:denylist:'' @ jti"
| "redis_key_text u n b js (KAuthLimit path client) = ''ratelimit:auth:'' @ path @ '':'' @ client"
| "redis_key_text u n b js (KAppLimit t us client) =
     ''ratelimit:app:'' @ u t @ '':'' @ u us @ '':'' @ client"

definition live_entry :: "time \<Rightarrow> (redis_value \<times> time option) option \<Rightarrow> redis_value option" where
  "live_entry now e =
     (case e of None \<Rightarrow> None | Some (v, None) \<Rightarrow> Some v
      | Some (v, Some x) \<Rightarrow> if now < x then Some v else None)"

definition redis_get :: "time \<Rightarrow> redis_key \<Rightarrow> redis \<Rightarrow> redis_value option" where
  "redis_get now k r = live_entry now (kv r k)"

definition redis_put :: "redis_key \<Rightarrow> redis_value \<Rightarrow> time option \<Rightarrow> redis \<Rightarrow> redis" where
  "redis_put k v x r = r\<lparr>kv := (kv r)(k := Some (v, x))\<rparr>"

definition redis_del :: "redis_key \<Rightarrow> redis \<Rightarrow> redis" where
  "redis_del k r = r\<lparr>kv := (kv r)(k := None)\<rparr>"

lemma redis_get_put [simp]:
  "redis_get now k (redis_put k v None r) = Some v"
  "redis_get now k (redis_put k v (Some x) r) = (if now < x then Some v else None)"
  "k \<noteq> k' \<Longrightarrow> redis_get now k (redis_put k' v e r) = redis_get now k r"
  "queue (redis_put k v e r) = queue r"
  by (simp_all add: redis_get_def redis_put_def live_entry_def)

lemma redis_get_del [simp]:
  "redis_get now k (redis_del k r) = None"
  "k \<noteq> k' \<Longrightarrow> redis_get now k (redis_del k' r) = redis_get now k r"
  by (simp_all add: redis_get_def redis_del_def live_entry_def)

lemma redis_get_queue [simp]: "redis_get now k (r\<lparr>queue := q\<rparr>) = redis_get now k r"
  by (simp add: redis_get_def)

section \<open>Cached JSON and the tenant version\<close>

text \<open>\<open>SETEX\<close> refuses a zero expiry, so \<open>set_json\<close> fails when the configured TTL is zero.\<close>

definition set_json :: "time \<Rightarrow> redis_key \<Rightarrow> redis_value \<Rightarrow> nat \<Rightarrow> (redis, unit) svc" where
  "set_json now k v ttl_secs r =
     (if ttl_secs = 0 then (Inl (Internal ''redis error: invalid expire time''), r)
      else (Inr (), redis_put k v (Some (now + seconds (int ttl_secs))) r))"

definition decode_page :: "redis_value \<Rightarrow> task_page result" where
  "decode_page v = (case v of RPage p \<Rightarrow> Inr p
     | _ \<Rightarrow> Inl (Internal ''failed to deserialize cached payload''))"

definition decode_task :: "redis_value \<Rightarrow> task_response result" where
  "decode_task v = (case v of RTask t \<Rightarrow> Inr t
     | _ \<Rightarrow> Inl (Internal ''failed to deserialize cached payload''))"

definition get_json :: "(redis_value \<Rightarrow> 'a result) \<Rightarrow> time \<Rightarrow> redis_key \<Rightarrow> (redis, 'a option) svc" where
  "get_json decode now k r =
     (case redis_get now k r of None \<Rightarrow> (Inr None, r)
      | Some v \<Rightarrow> (map_ok Some (decode v), r))"

definition tenant_cache_version :: "time \<Rightarrow> uuid \<Rightarrow> (redis, nat) svc" where
  "tenant_cache_version now t r =
     (case redis_get now (KTenantVersion t) r of None \<Rightarrow> (Inr 0, r)
      | Some (RCounter n) \<Rightarrow> (Inr n, r)
      | Some _ \<Rightarrow> (Inl (Internal ''redis error: not an integer''), r))"

definition bump_tenant_cache_version :: "time \<Rightarrow> uuid \<Rightarrow> (redis, nat) svc" where
  "bump_tenant_cache_version now t r =
     (case redis_get now (KTenantVersion t) r of
        None \<Rightarrow> (Inr 1, redis_put (KTenantVersion t) (RCounter 1) None r)
      | Some (RCounter n) \<Rightarrow>
          (Inr (n + 1), redis_put (KTenantVersion t) (RCounter (n + 1))
             (case kv r (KTenantVersion t) of None \<Rightarrow> None | Some (_, x) \<Rightarrow> x) r)
      | Some _ \<Rightarrow> (Inl (Internal ''redis error: not an integer''), r))"

section \<open>The dispatch queue\<close>

definition enqueue_job :: "uuid \<Rightarrow> (redis, unit) svc" where
  "enqueue_job j r = (Inr (), r\<lparr>queue := queue r @ [j]\<rparr>)"

definition dequeue_job :: "(redis, uuid option) svc" where
  "dequeue_job r = (case queue r of [] \<Rightarrow> (Inr None, r) | j # js \<Rightarrow> (Inr (Some j), r\<lparr>queue := js\<rparr>))"

definition job_queue_depth :: "(redis, nat) svc" where
  "job_queue_depth r = (Inr (length (queue r)), r)"

section \<open>Rate limits\<close>

text \<open>\<open>now_ms\<close> is the caller's clock, \<open>now\<close> the server's.\<close>

definition rate_limit ::
  "time \<Rightarrow> int \<Rightarrow> redis_key \<Rightarrow> nat \<Rightarrow> nat \<Rightarrow> nat \<Rightarrow> (redis, rate_limit_decision) svc" where
  "rate_limit now now_ms k capacity refill_per_sec cost r =
     (let data = (case redis_get now k r of Some (RBucket tokens ts) \<Rightarrow> Some (tokens, ts) | _ \<Rightarrow> None)
      in case rate_limit_call capacity refill_per_sec cost now_ms data of
           (decision, (tokens, ts)) \<Rightarrow>
             (Inr decision, redis_put k (RBucket tokens ts)
                (Some (now + int (bucket_ttl_ms capacity refill_per_sec) * 1000)) r))"

section \<open>Idempotency keys\<close>

datatype idempotency_state = IdemEmpty | IdemPending | IdemReady stored_response

definition idempotency_state :: "time \<Rightarrow> redis_key \<Rightarrow> (redis, idempotency_state) svc" where
  "idempotency_state now k r =
     (case redis_get now k r of
        None \<Rightarrow> (Inr IdemEmpty, r)
      | Some (RText t) \<Rightarrow>
          (if t = ''__pending__'' then (Inr IdemPending, r)
           else (Inl (Internal ''failed to deserialize idempotency payload''), r))
      | Some (RStored s) \<Rightarrow> (Inr (IdemReady s), r)
      | Some _ \<Rightarrow> (Inl (Internal ''failed to deserialize idempotency payload''), r))"

text \<open>\<open>SETNX\<close>, then \<open>EXPIRE\<close>, which deletes the key when the time given is not positive.\<close>

definition claim_idempotency_key :: "time \<Rightarrow> redis_key \<Rightarrow> nat \<Rightarrow> (redis, bool) svc" where
  "claim_idempotency_key now k ttl_secs r =
     (case redis_get now k r of
        Some _ \<Rightarrow> (Inr False, r)
      | None \<Rightarrow>
          (Inr True,
           if ttl_secs = 0 then redis_del k r
           else redis_put k (RText ''__pending__'') (Some (now + seconds (int ttl_secs))) r))"

definition store_idempotency_response ::
  "time \<Rightarrow> redis_key \<Rightarrow> stored_response \<Rightarrow> nat \<Rightarrow> (redis, unit) svc" where
  "store_idempotency_response now k response ttl_secs = set_json now k (RStored response) ttl_secs"

definition delete_key :: "redis_key \<Rightarrow> (redis, unit) svc" where
  "delete_key k r = (Inr (), redis_del k r)"

section \<open>The access-token denylist\<close>

definition deny_access_token :: "time \<Rightarrow> string \<Rightarrow> nat \<Rightarrow> (redis, unit) svc" where
  "deny_access_token now jti ttl_secs r =
     (Inr (), redis_put (KDenylist jti) (RText ''1'') (Some (now + seconds (int (max ttl_secs 1)))) r)"

definition is_access_token_denied :: "time \<Rightarrow> string \<Rightarrow> (redis, bool) svc" where
  "is_access_token_denied now jti r = (Inr (redis_get now (KDenylist jti) r \<noteq> None), r)"

lemmas redis_ops [svc] =
  set_json_def get_json_def tenant_cache_version_def bump_tenant_cache_version_def enqueue_job_def
  dequeue_job_def job_queue_depth_def idempotency_state_def claim_idempotency_key_def
  store_idempotency_response_def delete_key_def deny_access_token_def is_access_token_denied_def

section \<open>Well-formed keyspaces\<close>

text \<open>A version key only ever holds a counter without expiry, so bumping it cannot fail.\<close>

definition wf_redis :: "redis \<Rightarrow> bool" where
  "wf_redis r \<longleftrightarrow> (\<forall>t e. kv r (KTenantVersion t) = Some e \<longrightarrow> (\<exists>n. e = (RCounter n, None)))"

definition version_of :: "redis \<Rightarrow> uuid \<Rightarrow> nat" where
  "version_of r t = (case kv r (KTenantVersion t) of Some (RCounter n, _) \<Rightarrow> n | _ \<Rightarrow> 0)"

lemma wf_redis_empty: "wf_redis empty_redis"
  by (simp add: wf_redis_def empty_redis_def)

lemma wf_redis_cases:
  assumes "wf_redis r"
  obtains "kv r (KTenantVersion t) = None" | n where "kv r (KTenantVersion t) = Some (RCounter n, None)"
  using assms unfolding wf_redis_def by (metis not_None_eq)

lemma version_read:
  "wf_redis r \<Longrightarrow> tenant_cache_version now t r = (Inr (version_of r t), r)"
  by (erule wf_redis_cases [of r t])
    (simp_all add: tenant_cache_version_def redis_get_def live_entry_def version_of_def)

lemma bump_eq:
  "wf_redis r \<Longrightarrow> bump_tenant_cache_version now t r =
     (Inr (version_of r t + 1), redis_put (KTenantVersion t) (RCounter (version_of r t + 1)) None r)"
  by (erule wf_redis_cases [of r t])
    (simp_all add: bump_tenant_cache_version_def redis_get_def live_entry_def version_of_def)

lemma wf_redis_put:
  "wf_redis r \<Longrightarrow> (\<forall>t. k \<noteq> KTenantVersion t) \<or> (\<exists>n. v = RCounter n \<and> x = None) \<Longrightarrow>
     wf_redis (redis_put k v x r)"
  by (auto simp: wf_redis_def redis_put_def)

lemma version_of_put [simp]:
  "version_of (redis_put (KTenantVersion t) (RCounter n) None r) t' = (if t' = t then n else version_of r t')"
  "(\<forall>t. k \<noteq> KTenantVersion t) \<Longrightarrow> version_of (redis_put k v x r) t' = version_of r t'"
  by (auto simp: version_of_def redis_put_def)

end
