(* ===== verification/World.thy ===== *)
theory World
  imports Redis Pagination
begin

text \<open>
  The stores a running process shares (\<open>AppState\<close> of \<open>src/state.rs\<close>): the database, Redis and
  the artifact directory of \<open>src/storage.rs\<close>. \<open>env\<close> is what stays fixed: the configuration and
  the third-party functions the code calls, whose documented laws are named predicates, used as
  hypotheses where a theorem needs them.
\<close>

section \<open>Environment\<close>

record env =
  cfg :: cli
  uuid_str :: "uuid \<Rightarrow> string"
  parse_uuid_str :: "string \<Rightarrow> uuid option"
  rfc3339 :: "time \<Rightarrow> string"
  parse_rfc3339 :: "string \<Rightarrow> time option"
  serde_time :: "time \<Rightarrow> string"
  json_text :: "json \<Rightarrow> string"
  sha256_hex :: "string \<Rightarrow> string"
  hmac_sha256_hex :: "string \<Rightarrow> string \<Rightarrow> string"
  argon2_hash :: "string \<Rightarrow> string \<Rightarrow> string option"
  argon2_verify :: "string \<Rightarrow> string \<Rightarrow> bool option"
  codec :: cursor_codec
  tsquery_matches :: "string \<Rightarrow> string \<Rightarrow> string option \<Rightarrow> bool"
  ilike :: "string \<Rightarrow> string \<Rightarrow> bool"
  pg_lower :: "string \<Rightarrow> string"
  collation_key :: "string \<Rightarrow> nat list"

text \<open>\<open>Uuid\<close>'s text is made of hexadecimal digits and hyphens, and parsing is its inverse.\<close>

definition uuid_text_ok :: "env \<Rightarrow> bool" where
  "uuid_text_ok e \<longleftrightarrow>
     (\<forall>u. uuid_str e u \<noteq> [] \<and>
        (\<forall>c \<in> set (uuid_str e u). is_alnum_ascii c \<or> c = CHR ''-'') \<and>
        parse_uuid_str e (uuid_str e u) = Some u)"

lemma uuid_text_inj: "uuid_text_ok e \<Longrightarrow> uuid_str e a = uuid_str e b \<longleftrightarrow> a = b"
  unfolding uuid_text_ok_def by (metis option.inject)

definition rfc3339_ok :: "env \<Rightarrow> bool" where
  "rfc3339_ok e \<longleftrightarrow> (\<forall>t. parse_rfc3339 e (rfc3339 e t) = Some t)"

section \<open>World\<close>

record world =
  w_db :: db
  w_redis :: redis
  w_files :: "string \<Rightarrow> string option"

definition empty_world :: world where
  "empty_world = \<lparr>w_db = empty_db, w_redis = empty_redis, w_files = (\<lambda>_. None)\<rparr>"

type_synonym 'a app = "(world, 'a) svc"

text \<open>A transaction, a read, a read whose absence is an error, and a Redis command.\<close>

definition db_run :: "'a dbop \<Rightarrow> 'a app" where
  "db_run f w = (case f (w_db w) of Inl e \<Rightarrow> (Inl e, w) | Inr (x, d) \<Rightarrow> (Inr x, w\<lparr>w_db := d\<rparr>))"

definition db_read :: "(db \<Rightarrow> 'a) \<Rightarrow> 'a app" where
  "db_read f w = (Inr (f (w_db w)), w)"

definition db_try :: "(db \<Rightarrow> 'a result) \<Rightarrow> 'a app" where
  "db_try f w = (f (w_db w), w)"

definition cache_run :: "(redis, 'a) svc \<Rightarrow> 'a app" where
  "cache_run f w = (case f (w_redis w) of (x, r) \<Rightarrow> (x, w\<lparr>w_redis := r\<rparr>))"

lemma db_run_simps [simp]:
  "f (w_db w) = Inl e \<Longrightarrow> db_run f w = (Inl e, w)"
  "f (w_db w) = Inr (x, d) \<Longrightarrow> db_run f w = (Inr x, w\<lparr>w_db := d\<rparr>)"
  by (simp_all add: db_run_def)

lemma db_run_Inr [svc]:
  "db_run f w = (Inr x, w') \<longleftrightarrow> (\<exists>d. f (w_db w) = Inr (x, d) \<and> w' = w\<lparr>w_db := d\<rparr>)"
  by (auto simp: db_run_def split: sum.splits prod.splits)

lemma db_run_Inl: "db_run f w = (Inl e, w') \<longleftrightarrow> f (w_db w) = Inl e \<and> w' = w"
  by (auto simp: db_run_def split: sum.splits prod.splits)

lemma db_read_simp [simp]: "db_read f w = (Inr (f (w_db w)), w)"
  by (simp add: db_read_def)

lemma db_try_simp [simp]: "db_try f w = (f (w_db w), w)"
  by (simp add: db_try_def)

lemma cache_run_simp [simp]: "f (w_redis w) = (x, r) \<Longrightarrow> cache_run f w = (x, w\<lparr>w_redis := r\<rparr>)"
  by (simp add: cache_run_def)

lemma cache_run_eq [svc]:
  "cache_run f w = (x, w') \<longleftrightarrow> (\<exists>r. f (w_redis w) = (x, r) \<and> w' = w\<lparr>w_redis := r\<rparr>)"
  by (auto simp: cache_run_def split: prod.splits)

text \<open>A best-effort call: its error is logged and dropped.\<close>

definition logged :: "'a app \<Rightarrow> unit app" where
  "logged m = then_do (attempt m) (\<lambda>_. ret ())"

lemma logged_eq: "logged m w = (Inr (), snd (m w))"
  by (cases "m w") (simp add: logged_def then_do_def attempt_def ret_def)

fun for_each :: "('x \<Rightarrow> unit app) \<Rightarrow> 'x list \<Rightarrow> unit app" where
  "for_each f [] = ret ()"
| "for_each f (x # xs) = then_do (f x) (\<lambda>_. for_each f xs)"

section \<open>A concrete environment\<close>

text \<open>
  An environment that has the laws above, with the default settings of \<open>config.rs\<close>: the theorems
  that suppose something of third-party code are applied to it.
\<close>

definition default_cli :: cli where
  "default_cli =
     \<lparr>app_mode = ModeAll,
      jwt_secret = ''local-development-secret-local-development'',
      grpc_auth_token = ''local-development-grpc-token-local-development'',
      access_token_minutes = 15, refresh_token_days = 30, cache_ttl_seconds = 60,
      idempotency_ttl_seconds = 3600, auth_rate_limit_capacity = 10,
      auth_rate_limit_refill_per_sec = 2, app_rate_limit_capacity = 120,
      app_rate_limit_refill_per_sec = 30, worker_dispatch_interval_ms = 3000, worker_scheduler_interval_ms = 60000,
      max_job_attempts = 5, job_lease_seconds = 300,
      invitation_ttl_hours = 72, startup_max_retries = 20, startup_retry_delay_ms = 1500, cors_allow_origin = ''*'',
      mailer_provider = ''noop'', smtp_url = None, mail_from = None,
      notify_dispatch_interval_ms = 5000, require_email_verification = False,
      email_verification_ttl_hours = 24, password_reset_ttl_minutes = 60,
      reminder_due_soon_hours = 24, reminder_dedupe_ttl_hours = 24,
      artifact_storage_dir = ''data/exports'', max_attachment_size_bytes = 5242880,
      webhook_dispatch_interval_ms = 5000, webhook_allow_private_urls = False,
      otel_exporter_otlp_endpoint = None, oauth_google_client_id = None,
      oauth_google_client_secret = None,
      oauth_google_token_url = ''https://oauth2.googleapis.com/token'',
      oauth_google_userinfo_url = ''https://openidconnect.googleapis.com/v1/userinfo'',
      oauth_github_client_id = None, oauth_github_client_secret = None,
      oauth_github_token_url = ''https://github.com/login/oauth/access_token'',
      oauth_github_userinfo_url = ''https://api.github.com/user'',
      retention_sweep_interval_hours = 24, refresh_token_retention_days = 30,
      job_retention_days = 30, notification_retention_days = 30, audit_retention_days = 365,
      sampler_interval_ms = 10000, metrics_auth_token = None\<rparr>"

definition unary :: "nat \<Rightarrow> string" where "unary n = CHR ''a'' # replicate n CHR ''0''"

definition unary_int :: "int \<Rightarrow> string" where
  "unary_int t = (if 0 \<le> t then CHR ''p'' else CHR ''m'') # replicate (nat \<bar>t\<bar>) CHR ''0''"

definition sample_env :: env where
  "sample_env =
     \<lparr>cfg = default_cli, uuid_str = unary, parse_uuid_str = (\<lambda>s. Some (length s - 1)),
      rfc3339 = unary_int,
      parse_rfc3339 = (\<lambda>s. case s of [] \<Rightarrow> None
        | c # r \<Rightarrow> Some (if c = CHR ''p'' then int (length r) else - int (length r))),
      serde_time = unary_int, json_text = (\<lambda>_. ''{}''), sha256_hex = (\<lambda>s. s),
      hmac_sha256_hex = (\<lambda>k s. k @ s), argon2_hash = (\<lambda>salt p. Some p),
      argon2_verify = (\<lambda>h p. Some (h = p)),
      codec = \<lparr>cc_to_vec = (\<lambda>(t, i). Some (unary_int t @ unary i)),
        cc_from_slice = (\<lambda>_. None), cc_b64_encode = (\<lambda>s. s), cc_b64_decode = Some\<rparr>,
      tsquery_matches = (\<lambda>q title description. q = title), ilike = (\<lambda>pattern s. True),
      pg_lower = to_ascii_lowercase, collation_key = map byte\<rparr>"

lemma sample_env_uuid_text: "uuid_text_ok sample_env"
  by (auto simp: uuid_text_ok_def sample_env_def unary_def is_alnum_ascii_def is_upper_ascii_def
      is_lower_ascii_def is_digit_ascii_def byte_def)

lemma sample_env_rfc3339: "rfc3339_ok sample_env"
  by (simp add: rfc3339_ok_def sample_env_def unary_int_def)

end
