(* ===== verification/Storage.thy ===== *)
theory Storage
  imports World
begin

text \<open>
  \<open>src/storage.rs\<close>: the artifact store. The files under the root directory are a partial map
  from keys to contents; a key that passes \<open>validate_key\<close> names a path strictly below the root.
  The locale is the \<open>ArtifactStore\<close> trait, with what its callers rely on.
\<close>

section \<open>Keys\<close>

definition segment_char :: "char \<Rightarrow> bool" where
  "segment_char c \<longleftrightarrow> is_alnum_ascii c \<or> c = CHR ''-'' \<or> c = CHR ''_'' \<or> c = CHR ''.''"

definition bad_segment :: "string \<Rightarrow> bool" where
  "bad_segment s \<longleftrightarrow> s = [] \<or> s = ''.'' \<or> s = ''..'' \<or> \<not> list_all segment_char s"

definition validate_key :: "string \<Rightarrow> unit result" where
  "validate_key key =
     (if key \<noteq> [] \<and> take 1 key \<noteq> ''/'' \<and> \<not> list_ex bad_segment (split_on CHR ''/'' key)
      then Inr () else Inl (Internal (''invalid artifact key: '' @ key)))"

text \<open>
  The path a key names, as the list of the directories walked from the root: \<open>.\<close> and the empty
  segment stay, \<open>..\<close> goes up (\<open>None\<close> above the root).
\<close>

fun walk :: "string list \<Rightarrow> string list \<Rightarrow> string list option" where
  "walk here [] = Some here"
| "walk here (s # ss) =
     (if s = [] \<or> s = ''.'' then walk here ss
      else if s = ''..'' then (if here = [] then None else walk (butlast here) ss)
      else walk (here @ [s]) ss)"

lemma walk_good: "\<not> list_ex bad_segment ss \<Longrightarrow> walk here ss = Some (here @ ss)"
  by (induction ss arbitrary: here) (auto simp: bad_segment_def)

lemma validate_key_Inr:
  "validate_key key = Inr () \<longleftrightarrow>
     key \<noteq> [] \<and> take 1 key \<noteq> ''/'' \<and> \<not> list_ex bad_segment (split_on CHR ''/'' key)"
  by (simp add: validate_key_def)

lemma validate_key_walk:
  "validate_key key = Inr () \<Longrightarrow> walk [] (split_on CHR ''/'' key) = Some (split_on CHR ''/'' key)"
  by (simp add: validate_key_Inr walk_good)

text \<open>A key built from non-empty segments of allowed characters passes.\<close>

lemma split_on_join:
  "ss \<noteq> [] \<Longrightarrow> (\<And>s. s \<in> set ss \<Longrightarrow> c \<notin> set s) \<Longrightarrow> split_on c (join_with [c] ss) = ss"
proof (induction "[c]" ss rule: join_with.induct)
  case (2 x)
  then have "c \<notin> set x" by simp
  then show ?case by (induction x) auto
next
  case (3 x y ys)
  then have rest: "split_on c (join_with [c] (y # ys)) = y # ys" and x: "c \<notin> set x" by auto
  have "split_on c (x @ c # r) = x # split_on c r" for r
    using x by (induction x) auto
  with rest show ?case by simp
qed simp

lemma segment_char_no_slash: "list_all segment_char s \<Longrightarrow> CHR ''/'' \<notin> set s"
  by (auto simp: list_all_iff segment_char_def is_alnum_ascii_def is_upper_ascii_def
      is_lower_ascii_def is_digit_ascii_def byte_def)

lemma validate_key_join:
  assumes "ss \<noteq> []" and good: "\<And>s. s \<in> set ss \<Longrightarrow> \<not> bad_segment s"
  shows "validate_key (join_with ''/'' ss) = Inr ()"
proof -
  have no: "CHR ''/'' \<notin> set s" if "s \<in> set ss" for s
    using good [OF that] segment_char_no_slash by (auto simp: bad_segment_def)
  then have sp: "split_on CHR ''/'' (join_with ''/'' ss) = ss"
    using split_on_join [OF assms(1)] by blast
  obtain s rest where ss: "ss = s # rest" using assms(1) by (cases ss) auto
  then have s: "s \<noteq> []" "CHR ''/'' \<notin> set s"
    using good [of s] no [of s] by (auto simp: bad_segment_def)
  obtain tl where j: "join_with ''/'' ss = s @ tl" using ss by (cases rest) auto
  then obtain h t where "join_with ''/'' ss = h # t" "h \<noteq> CHR ''/''"
    using s by (cases s) auto
  then have "join_with ''/'' ss \<noteq> []" "take 1 (join_with ''/'' ss) \<noteq> ''/''" by auto
  then show ?thesis using sp good by (auto simp: validate_key_Inr list_ex_iff)
qed

lemma uuid_text_segment:
  assumes "uuid_text_ok e"
  shows "\<not> bad_segment (uuid_str e u)"
proof -
  have chars: "\<forall>c \<in> set (uuid_str e u). is_alnum_ascii c \<or> c = CHR ''-''" and "uuid_str e u \<noteq> []"
    using assms by (auto simp: uuid_text_ok_def)
  then have "CHR ''.'' \<notin> set (uuid_str e u)"
    by (auto simp: is_alnum_ascii_def is_upper_ascii_def is_lower_ascii_def is_digit_ascii_def byte_def)
  with chars \<open>uuid_str e u \<noteq> []\<close> show ?thesis
    by (auto simp: bad_segment_def segment_char_def list_all_iff)
qed

section \<open>Operations\<close>

definition store_put :: "string \<Rightarrow> string \<Rightarrow> unit app" where
  "store_put key bytes w =
     (case validate_key key of Inl e \<Rightarrow> (Inl e, w)
      | Inr _ \<Rightarrow> (Inr (), w\<lparr>w_files := (w_files w)(key := Some bytes)\<rparr>))"

definition store_get :: "string \<Rightarrow> string option app" where
  "store_get key w =
     (case validate_key key of Inl e \<Rightarrow> (Inl e, w) | Inr _ \<Rightarrow> (Inr (w_files w key), w))"

definition store_delete :: "string \<Rightarrow> unit app" where
  "store_delete key w =
     (case validate_key key of Inl e \<Rightarrow> (Inl e, w)
      | Inr _ \<Rightarrow> (Inr (), w\<lparr>w_files := (w_files w)(key := None)\<rparr>))"

section \<open>The interface\<close>

locale artifact_store =
  fixes valid :: "string \<Rightarrow> bool"
    and files :: "'w \<Rightarrow> string \<Rightarrow> string option"
    and put :: "string \<Rightarrow> string \<Rightarrow> ('w, unit) svc"
    and get :: "string \<Rightarrow> ('w, string option) svc"
    and del :: "string \<Rightarrow> ('w, unit) svc"
  assumes put_ok: "valid k \<Longrightarrow> fst (put k v w) = Inr () \<and> files (snd (put k v w)) = (files w)(k := Some v)"
    and get_ok: "valid k \<Longrightarrow> get k w = (Inr (files w k), w)"
    and del_ok: "valid k \<Longrightarrow> fst (del k w) = Inr () \<and> files (snd (del k w)) = (files w)(k := None)"
    and invalid: "\<not> valid k \<Longrightarrow> snd (put k v w) = w \<and> snd (del k w) = w \<and>
      (\<exists>e. fst (put k v w) = Inl e) \<and> (\<exists>e. fst (get k w) = Inl e) \<and> (\<exists>e. fst (del k w) = Inl e)"
begin

lemma get_after_put: "valid k \<Longrightarrow> fst (get k (snd (put k v w))) = Inr (Some v)"
  using put_ok [of k v w] by (simp add: get_ok)

lemma get_after_del: "valid k \<Longrightarrow> fst (get k (snd (del k w))) = Inr None"
  using del_ok [of k w] by (simp add: get_ok)

lemma put_frame: "k \<noteq> k' \<Longrightarrow> files (snd (put k v w)) k' = files w k'"
  using put_ok [of k v w] invalid [of k v w] by (cases "valid k") auto

lemma del_frame: "k \<noteq> k' \<Longrightarrow> files (snd (del k w)) k' = files w k'"
  using del_ok [of k w] invalid [of k _ w] by (cases "valid k") auto

lemma delete_undoes_put:
  "files w k = None \<Longrightarrow> files (snd (del k (snd (put k v w)))) = files w"
  using put_ok [of k v w] invalid [of k v w] del_ok [of k "snd (put k v w)"] invalid [of k v w]
  by (cases "valid k") (auto simp: fun_upd_idem)

end

interpretation local_fs: artifact_store
  "\<lambda>k. validate_key k = Inr ()" w_files store_put store_get store_delete
proof
  fix k v and w :: world
  show "validate_key k = Inr () \<Longrightarrow> fst (store_put k v w) = Inr () \<and>
      w_files (snd (store_put k v w)) = (w_files w)(k := Some v)"
    by (simp add: store_put_def)
  show "validate_key k = Inr () \<Longrightarrow> store_get k w = (Inr (w_files w k), w)"
    by (simp add: store_get_def)
  show "validate_key k = Inr () \<Longrightarrow> fst (store_delete k w) = Inr () \<and>
      w_files (snd (store_delete k w)) = (w_files w)(k := None)"
    by (simp add: store_delete_def)
  show "validate_key k \<noteq> Inr () \<Longrightarrow> snd (store_put k v w) = w \<and> snd (store_delete k w) = w \<and>
      (\<exists>e. fst (store_put k v w) = Inl e) \<and> (\<exists>e. fst (store_get k w) = Inl e) \<and>
      (\<exists>e. fst (store_delete k w) = Inl e)"
    by (cases "validate_key k") (simp_all add: store_put_def store_get_def store_delete_def)
qed

lemma store_frame [simp]:
  "w_db (snd (store_put k v w)) = w_db w" "w_redis (snd (store_put k v w)) = w_redis w"
  "w_db (snd (store_delete k w)) = w_db w" "w_redis (snd (store_delete k w)) = w_redis w"
  by (simp_all add: store_put_def store_delete_def split: sum.splits)

end
