(* ===== verification/Outbox.thy ===== *)
theory Outbox
  imports Storage
begin

text \<open>
  The two outboxes: \<open>src/db/notifications.rs\<close> and \<open>src/db/webhooks.rs\<close>, with the record
  conversions of \<open>src/domain\<close>. Both tables are drained the same way (claim a batch of due rows,
  then mark each sent or failed); the locale states that protocol and proves what it gives:
  a claimed row is not claimed again while its lease of 60 seconds runs, retries back off between
  2 and 256 seconds, and a row that keeps failing is dead-lettered at its attempt limit.
\<close>

section \<open>Claiming a batch\<close>

text \<open>
  \<open>UPDATE .. WHERE id IN (SELECT id .. WHERE .. ORDER BY scheduled_at ASC LIMIT n FOR UPDATE
  SKIP LOCKED)\<close>: one statement, so atomic. Ties of \<open>ORDER BY\<close> are taken in table order.
\<close>

definition due_batch ::
  "('r \<Rightarrow> uuid) \<Rightarrow> ('r \<Rightarrow> bool) \<Rightarrow> ('r \<Rightarrow> time) \<Rightarrow> nat \<Rightarrow> 'r list \<Rightarrow> uuid list" where
  "due_batch ident P sched n rows = map ident (take n (order_asc sched (select_where P rows)))"

definition retry_backoff :: "time \<Rightarrow> int \<Rightarrow> time" where
  "retry_backoff now attempts = now + seconds (2 ^ nat (max 1 (min 8 attempts)))"

lemma due_batch_length: "length (due_batch ident P sched n rows) \<le> n"
  by (simp add: due_batch_def)

lemma due_batch_subset: "i \<in> set (due_batch ident P sched n rows) \<Longrightarrow> \<exists>r \<in> set rows. P r \<and> ident r = i"
  by (auto simp: due_batch_def select_where_def dest!: in_set_takeD)

lemma due_batch_all:
  "length (due_batch ident P sched n rows) < n \<Longrightarrow> r \<in> set rows \<Longrightarrow> P r \<Longrightarrow>
     ident r \<in> set (due_batch ident P sched n rows)"
  by (auto simp: due_batch_def select_where_def order_asc_def min_def split: if_splits)

lemma retry_backoff_bounds:
  "now + seconds 2 \<le> retry_backoff now a \<and> retry_backoff now a \<le> now + seconds 256"
proof -
  let ?k = "nat (max 1 (min 8 a))"
  have k: "1 \<le> ?k" "?k \<le> 8" by auto
  have "(2::int) ^ 1 \<le> 2 ^ ?k" using k(1) by (intro power_increasing) auto
  moreover have "(2::int) ^ ?k \<le> 2 ^ 8" using k(2) by (intro power_increasing) auto
  ultimately show ?thesis by (simp add: retry_backoff_def seconds_def)
qed

text \<open>What the update of a batch does, for any table with distinct identifiers.\<close>

lemma batch_returning:
  assumes dist: "distinct (map ident t)" and keep: "\<And>x. ident (f x) = ident x"
    and r: "r \<in> set (returning (\<lambda>r. ident r \<in> set (due_batch ident P sched n t)) f t)"
  shows "\<exists>q \<in> set t. P q \<and> r = f q"
proof -
  from r obtain q where q: "q \<in> set t" "ident q \<in> set (due_batch ident P sched n t)" "r = f q"
    by (auto simp: returning_def)
  from due_batch_subset [OF q(2)] obtain p where p: "p \<in> set t" "P p" "ident p = ident q"
    by (elim bexE conjE)
  have "p = q" using dist p(1,3) q(1) unfolding distinct_map inj_on_def by blast
  with p q show ?thesis by blast
qed

lemma batch_ids:
  assumes keep: "\<And>x. ident (f x) = ident x"
  shows "ident ` set (returning (\<lambda>r. ident r \<in> set (due_batch ident P sched n t)) f t)
           = set (due_batch ident P sched n t)"
proof
  show "ident ` set (returning (\<lambda>r. ident r \<in> set (due_batch ident P sched n t)) f t)
      \<subseteq> set (due_batch ident P sched n t)"
    by (auto simp: returning_def keep)
next
  show "set (due_batch ident P sched n t) \<subseteq>
      ident ` set (returning (\<lambda>r. ident r \<in> set (due_batch ident P sched n t)) f t)"
  proof
    fix i assume i: "i \<in> set (due_batch ident P sched n t)"
    from due_batch_subset [OF i] obtain q where q: "q \<in> set t" "ident q = i" by (elim bexE conjE)
    then have "f q \<in> set (returning (\<lambda>r. ident r \<in> set (due_batch ident P sched n t)) f t)"
      using i by (auto simp: returning_def)
    then have "ident (f q) \<in>
        ident ` set (returning (\<lambda>r. ident r \<in> set (due_batch ident P sched n t)) f t)"
      by (rule imageI)
    then show "i \<in> ident ` set (returning (\<lambda>r. ident r \<in> set (due_batch ident P sched n t)) f t)"
      by (simp add: keep q(2))
  qed
qed

lemma distinct_due_batch:
  assumes "distinct (map ident t)"
  shows "distinct (due_batch ident P sched n t)"
proof -
  have "distinct (map ident (order_asc sched (filter P t)))"
    using assms by (auto simp: order_asc_def distinct_map inj_on_def)
  then show ?thesis
    unfolding due_batch_def select_where_def by (simp add: distinct_take flip: take_map)
qed

lemma batch_length:
  assumes dist: "distinct (map ident t)" and keep: "\<And>x. ident (f x) = ident x"
  shows "length (returning (\<lambda>r. ident r \<in> set (due_batch ident P sched n t)) f t) =
         length (due_batch ident P sched n t)"
proof -
  let ?r = "returning (\<lambda>r. ident r \<in> set (due_batch ident P sched n t)) f t"
  have "map ident ?r = map ident (filter (\<lambda>r. ident r \<in> set (due_batch ident P sched n t)) t)"
    by (simp add: returning_def keep)
  moreover have "distinct (map ident (filter (\<lambda>r. ident r \<in> set (due_batch ident P sched n t)) t))"
    by (rule distinct_map_filter [OF dist])
  ultimately have "distinct (map ident ?r)" by simp
  then have "length ?r = card (ident ` set ?r)"
    by (metis distinct_card length_map set_map)
  also have "\<dots> = length (due_batch ident P sched n t)"
    unfolding batch_ids [where f = f and ident = ident, OF keep] by (rule distinct_card [OF distinct_due_batch [OF dist]])
  finally show ?thesis .
qed

lemma batch_rows:
  assumes keep: "\<And>x. ident (f x) = ident x"
  shows "set (update_where (\<lambda>r. ident r \<in> set (due_batch ident P sched n t)) f t) =
     {q \<in> set t. ident q \<notin> ident `
        set (returning (\<lambda>r. ident r \<in> set (due_batch ident P sched n t)) f t)} \<union>
     set (returning (\<lambda>r. ident r \<in> set (due_batch ident P sched n t)) f t)"
  unfolding batch_ids [where f = f and ident = ident, OF keep] by (auto simp: set_update_where returning_def)

section \<open>The interface\<close>

locale outbox =
  fixes rows :: "'s \<Rightarrow> 'r list"
    and ident :: "'r \<Rightarrow> uuid" and status :: "'r \<Rightarrow> string"
    and attempts :: "'r \<Rightarrow> int" and max_attempts :: "'r \<Rightarrow> int" and due :: "'r \<Rightarrow> time"
    and claim :: "time \<Rightarrow> nat \<Rightarrow> 's \<Rightarrow> 'r list \<times> 's"
    and failed :: "time \<Rightarrow> 'r \<Rightarrow> string \<Rightarrow> 's \<Rightarrow> 's"
    and succeeded :: "time \<Rightarrow> uuid \<Rightarrow> 's \<Rightarrow> 's"
    and done_status :: string
  assumes claim_sound: "distinct (map ident (rows s)) \<Longrightarrow> r \<in> set (fst (claim now n s)) \<Longrightarrow>
      \<exists>q \<in> set (rows s). ident r = ident q \<and> status q = ''pending'' \<and> due q \<le> now \<and>
        status r = ''pending'' \<and> attempts r = attempts q + 1 \<and> max_attempts r = max_attempts q \<and>
        due r = now + seconds 60"
    and claim_bounded: "distinct (map ident (rows s)) \<Longrightarrow> length (fst (claim now n s)) \<le> n"
    and claim_all: "distinct (map ident (rows s)) \<Longrightarrow> length (fst (claim now n s)) < n \<Longrightarrow>
      q \<in> set (rows s) \<Longrightarrow> status q = ''pending'' \<Longrightarrow> due q \<le> now \<Longrightarrow>
      ident q \<in> ident ` set (fst (claim now n s))"
    and claim_rows: "set (rows (snd (claim now n s))) =
      {q \<in> set (rows s). ident q \<notin> ident ` set (fst (claim now n s))} \<union> set (fst (claim now n s))"
    and claim_ids: "map ident (rows (snd (claim now n s))) = map ident (rows s)"
    and failed_row: "q \<in> set (rows (failed now r msg s)) \<Longrightarrow> ident q = ident r \<Longrightarrow>
      attempts r < max_attempts r \<and> status q = ''pending'' \<and> due q = retry_backoff now (attempts r)
      \<or> max_attempts r \<le> attempts r \<and> status q = ''dead_letter'' \<and> due q = now"
    and failed_frame: "\<exists>f. rows (failed now r msg s) = map f (rows s) \<and>
      (\<forall>q. ident (f q) = ident q \<and> attempts (f q) = attempts q \<and> max_attempts (f q) = max_attempts q \<and>
         (ident q \<noteq> ident r \<longrightarrow> f q = q))"
    and succeeded_ids: "map ident (rows (succeeded now i s)) = map ident (rows s)"
    and succeeded_row: "q \<in> set (rows (succeeded now i s)) \<Longrightarrow> ident q = i \<Longrightarrow> status q = done_status"
    and done_not_pending: "done_status \<noteq> ''pending''"
begin

lemma claimedE:
  assumes dist: "distinct (map ident (rows s))" and "i \<in> ident ` set (fst (claim now n s))"
  obtains q where "q \<in> set (rows s)" "ident q = i" "status q = ''pending''" "due q \<le> now"
proof -
  from assms(2) obtain r where r: "r \<in> set (fst (claim now n s))" "i = ident r" by (rule imageE)
  from claim_sound [OF dist r(1)] obtain q where "q \<in> set (rows s)" "ident r = ident q"
      "status q = ''pending''" "due q \<le> now" by (elim bexE conjE)
  with r(2) show ?thesis by (intro that) simp_all
qed

text \<open>While the lease runs, no other claim returns the row.\<close>

lemma lease_exclusive:
  assumes dist: "distinct (map ident (rows s))"
    and r: "r \<in> set (fst (claim now n s))" and "now' < now + seconds 60"
  shows "ident r \<notin> ident ` set (fst (claim now' m (snd (claim now n s))))"
proof
  have dist': "distinct (map ident (rows (snd (claim now n s))))"
    unfolding claim_ids by (rule dist)
  assume "ident r \<in> ident ` set (fst (claim now' m (snd (claim now n s))))"
  then obtain q where q: "q \<in> set (rows (snd (claim now n s)))" "ident q = ident r" "due q \<le> now'"
    by (rule claimedE [OF dist'])
  have "ident q \<in> ident ` set (fst (claim now n s))"
    unfolding q(2) using r by (rule imageI)
  then have "q \<in> set (fst (claim now n s))"
    using q(1) unfolding claim_rows by simp
  from claim_sound [OF dist this] have "due q = now + seconds 60" by (elim bexE conjE)
  with q(3) assms(3) show False by simp
qed

lemma failed_ids: "map ident (rows (failed now r msg s)) = map ident (rows s)"
proof -
  obtain f where f: "rows (failed now r msg s) = map f (rows s)" "\<forall>q. ident (f q) = ident q"
    using failed_frame [of now r msg s] by (elim exE conjE) blast
  then show ?thesis by simp
qed

lemma unique_row:
  assumes "distinct (map ident xs)" and "p \<in> set xs" and "q \<in> set xs" and "ident p = ident q"
  shows "p = q"
  using assms unfolding distinct_map inj_on_def by blast

lemma not_claimed_unless_pending:
  assumes "distinct (map ident (rows s))" and "q \<in> set (rows s)"
    and "status q \<noteq> ''pending'' \<or> now < due q"
  shows "ident q \<notin> ident ` set (fst (claim now n s))"
proof
  assume "ident q \<in> ident ` set (fst (claim now n s))"
  then obtain p where p: "p \<in> set (rows s)" "ident p = ident q" "status p = ''pending''" "due p \<le> now"
    by (rule claimedE [OF assms(1)])
  have "p = q" by (rule unique_row [OF assms(1) p(1) assms(2) p(2)])
  with p(3,4) assms(3) show False by simp
qed

text \<open>A retry waits at least two seconds and at most 256.\<close>

lemma retry_waits:
  assumes "distinct (map ident (rows s))" and q: "q \<in> set (rows (failed now r msg s))"
    and i: "ident q = ident r" and less: "attempts r < max_attempts r"
  shows "now + seconds 2 \<le> due q \<and> due q \<le> now + seconds 256 \<and>
    (\<forall>now' n. now' < now + seconds 2 \<longrightarrow>
       ident r \<notin> ident ` set (fst (claim now' n (failed now r msg s))))"
proof -
  have due: "due q = retry_backoff now (attempts r)"
    using failed_row [OF q i] less by (elim disjE conjE) simp_all
  have dist: "distinct (map ident (rows (failed now r msg s)))"
    unfolding failed_ids by (rule assms(1))
  note b = retry_backoff_bounds [of now "attempts r"]
  have "ident r \<notin> ident ` set (fst (claim now' n (failed now r msg s)))"
    if "now' < now + seconds 2" for now' n
  proof -
    have "now' < due q" using that due b by simp
    then show ?thesis using not_claimed_unless_pending [OF dist q, of now' n] i by simp
  qed
  then show ?thesis using due b by simp
qed

text \<open>At its attempt limit a failing row is dead-lettered, and never claimed again.\<close>

lemma exhausted_is_dead:
  assumes dist: "distinct (map ident (rows s))" and "max_attempts r \<le> attempts r"
  shows "ident r \<notin> ident ` set (fst (claim now' n (failed now r msg s)))"
proof
  have dist': "distinct (map ident (rows (failed now r msg s)))"
    unfolding failed_ids by (rule dist)
  assume "ident r \<in> ident ` set (fst (claim now' n (failed now r msg s)))"
  then obtain p where p: "p \<in> set (rows (failed now r msg s))" "ident p = ident r"
      "status p = ''pending''"
    by (rule claimedE [OF dist'])
  from failed_row [OF p(1,2)] assms(2) have "status p = ''dead_letter''"
    by (elim disjE conjE) simp_all
  with p(3) show False by simp
qed

lemma succeeded_not_claimed:
  assumes dist: "distinct (map ident (rows s))"
  shows "i \<notin> ident ` set (fst (claim now' n (succeeded now i s)))"
proof
  have dist': "distinct (map ident (rows (succeeded now i s)))"
    unfolding succeeded_ids by (rule dist)
  assume "i \<in> ident ` set (fst (claim now' n (succeeded now i s)))"
  then obtain p where p: "p \<in> set (rows (succeeded now i s))" "ident p = i" "status p = ''pending''"
    by (rule claimedE [OF dist'])
  from succeeded_row [OF p(1,2)] p(3) done_not_pending show False by simp
qed

end

section \<open>Notifications\<close>

definition notification_row ::
  "uuid \<Rightarrow> time \<Rightarrow> int \<Rightarrow> new_notification \<Rightarrow> notification_record" where
  "notification_row i now max_attempts n =
     \<lparr>nt_id = i, nt_tenant_id = nn_tenant_id n, nt_user_id = nn_user_id n, nt_kind = nn_kind n,
      nt_recipient = nn_recipient n, nt_payload = nn_payload n, nt_status = ''pending'',
      nt_attempts = 0, nt_max_attempts = max_attempts, nt_scheduled_at = now, nt_sent_at = None,
      nt_last_error = None, nt_dedupe_key = nn_dedupe_key n, nt_read_at = None,
      nt_created_at = now\<rparr>"

definition db_enqueue_notification ::
  "uuid \<Rightarrow> time \<Rightarrow> new_notification \<Rightarrow> int \<Rightarrow> bool dbop" where
  "db_enqueue_notification i now n max_attempts d =
     (if nn_dedupe_key n \<noteq> None \<and> row_exists (\<lambda>r. nt_dedupe_key r = nn_dedupe_key n) (notifications d)
      then Inr (False, d)
      else
        try_then (require_fk (fk_opt (tenant_exists d) (nn_tenant_id n) \<and>
          fk_opt (user_exists d) (nn_user_id n))) (\<lambda>_.
        try_then (insert_row nt_id (notification_row i now max_attempts n) (notifications d)) (\<lambda>t.
        Inr (True, d\<lparr>notifications := t\<rparr>))))"

text \<open>Queueing a notification changes nothing but the outbox.\<close>

lemma enqueue_frame:
  "\<exists>ns. snd (db_run (db_enqueue_notification nid now n k) w) = w\<lparr>w_db := (w_db w)\<lparr>notifications := ns\<rparr>\<rparr>"
proof (cases "db_enqueue_notification nid now n k (w_db w)")
  case (Inl err)
  then show ?thesis by (intro exI [of _ "notifications (w_db w)"]) (simp add: db_run_def)
next
  case (Inr y)
  obtain b d where y: "y = (b, d)" by (cases y)
  from Inr y have "d = (w_db w)\<lparr>notifications := notifications d\<rparr>"
    by (auto simp: db_enqueue_notification_def try_then_Inr simp del: fk_opt_simps split: if_splits)
  then have "\<exists>ns. d = (w_db w)\<lparr>notifications := ns\<rparr>" by blast
  with Inr y show ?thesis by (auto simp: db_run_def)
qed

definition notification_claimable :: "time \<Rightarrow> notification_record \<Rightarrow> bool" where
  "notification_claimable now r \<longleftrightarrow> nt_status r = ''pending'' \<and> nt_scheduled_at r \<le> now"

definition notification_claimed :: "time \<Rightarrow> notification_record \<Rightarrow> notification_record" where
  "notification_claimed now r =
     r\<lparr>nt_attempts := nt_attempts r + 1, nt_scheduled_at := now + seconds 60\<rparr>"

definition db_claim_pending_notifications ::
  "time \<Rightarrow> nat \<Rightarrow> db \<Rightarrow> notification_record list \<times> db" where
  "db_claim_pending_notifications now limit d =
     (let ids = due_batch nt_id (notification_claimable now) nt_scheduled_at limit (notifications d);
          P = (\<lambda>r. nt_id r \<in> set ids)
      in (returning P (notification_claimed now) (notifications d),
          d\<lparr>notifications := update_where P (notification_claimed now) (notifications d)\<rparr>))"

definition db_mark_notification_sent :: "time \<Rightarrow> uuid \<Rightarrow> db \<Rightarrow> db" where
  "db_mark_notification_sent now i d =
     d\<lparr>notifications := update_where (\<lambda>r. nt_id r = i)
         (\<lambda>r. r\<lparr>nt_status := ''sent'', nt_sent_at := Some now, nt_last_error := None\<rparr>)
         (notifications d)\<rparr>"

definition notification_failed ::
  "time \<Rightarrow> notification_record \<Rightarrow> string \<Rightarrow> notification_record \<Rightarrow> notification_record" where
  "notification_failed now n message r =
     (let status = (if nt_max_attempts n \<le> nt_attempts n then ''dead_letter'' else ''pending'');
          next_time = (if status = ''dead_letter'' then now else retry_backoff now (nt_attempts n))
      in r\<lparr>nt_status := status, nt_scheduled_at := next_time, nt_last_error := Some message\<rparr>)"

definition db_fail_notification :: "time \<Rightarrow> notification_record \<Rightarrow> string \<Rightarrow> db \<Rightarrow> db" where
  "db_fail_notification now n message d =
     d\<lparr>notifications := update_where (\<lambda>r. nt_id r = nt_id n) (notification_failed now n message)
         (notifications d)\<rparr>"

lemma notification_claimed_id: "nt_id (notification_claimed now x) = nt_id x"
  by (simp add: notification_claimed_def)

lemmas notification_batch =
  batch_returning [where ident = nt_id, OF _ notification_claimed_id]
  batch_ids [where ident = nt_id, OF notification_claimed_id]
  batch_length [where ident = nt_id, OF _ notification_claimed_id]
  batch_rows [where ident = nt_id, OF notification_claimed_id]

interpretation notification_outbox: outbox notifications nt_id nt_status nt_attempts
  nt_max_attempts nt_scheduled_at db_claim_pending_notifications db_fail_notification
  db_mark_notification_sent "''sent''"
proof
  fix r q :: notification_record and now :: time and n :: nat and s :: db and msg :: string
    and i :: uuid
  let ?c = "db_claim_pending_notifications now n s"
  show "r \<in> set (fst ?c) \<Longrightarrow> \<exists>q\<in>set (notifications s). nt_id r = nt_id q \<and>
      nt_status q = ''pending'' \<and> nt_scheduled_at q \<le> now \<and> nt_status r = ''pending'' \<and>
      nt_attempts r = nt_attempts q + 1 \<and> nt_max_attempts r = nt_max_attempts q \<and>
      nt_scheduled_at r = now + seconds 60"
    if dist: "distinct (map nt_id (notifications s))"
  proof -
    assume "r \<in> set (fst ?c)"
    then have "\<exists>q \<in> set (notifications s). notification_claimable now q \<and> r = notification_claimed now q"
      unfolding db_claim_pending_notifications_def Let_def fst_conv
      by (rule notification_batch(1) [OF dist])
    then show ?thesis by (auto simp: notification_claimable_def notification_claimed_def)
  qed
  show "length (fst ?c) \<le> n" if "distinct (map nt_id (notifications s))"
    by (simp add: db_claim_pending_notifications_def Let_def notification_batch(3) [OF that]
        due_batch_length)
  show "nt_id q \<in> nt_id ` set (fst ?c)"
    if "distinct (map nt_id (notifications s))" "length (fst ?c) < n" "q \<in> set (notifications s)"
      "nt_status q = ''pending''" "nt_scheduled_at q \<le> now"
    using that by (simp add: db_claim_pending_notifications_def Let_def notification_batch(2,3)
        due_batch_all notification_claimable_def)
  show "set (notifications (snd ?c)) =
      {q \<in> set (notifications s). nt_id q \<notin> nt_id ` set (fst ?c)} \<union> set (fst ?c)"
    by (simp add: db_claim_pending_notifications_def Let_def notification_batch(4))
  show "map nt_id (notifications (snd ?c)) = map nt_id (notifications s)"
    by (simp add: db_claim_pending_notifications_def Let_def map_key_update_where
        notification_claimed_id)
  show "nt_attempts r < nt_max_attempts r \<and> nt_status q = ''pending'' \<and>
      nt_scheduled_at q = retry_backoff now (nt_attempts r) \<or>
      nt_max_attempts r \<le> nt_attempts r \<and> nt_status q = ''dead_letter'' \<and> nt_scheduled_at q = now"
    if "q \<in> set (notifications (db_fail_notification now r msg s))" "nt_id q = nt_id r"
    using that by (auto simp: db_fail_notification_def notification_failed_def in_update_where)
  show "\<exists>f. notifications (db_fail_notification now r msg s) = map f (notifications s) \<and>
      (\<forall>q. nt_id (f q) = nt_id q \<and> nt_attempts (f q) = nt_attempts q \<and>
         nt_max_attempts (f q) = nt_max_attempts q \<and> (nt_id q \<noteq> nt_id r \<longrightarrow> f q = q))"
    by (rule exI [of _ "\<lambda>q. if nt_id q = nt_id r then notification_failed now r msg q else q"])
      (simp add: db_fail_notification_def update_where_def notification_failed_def)
  show "map nt_id (notifications (db_mark_notification_sent now i s)) = map nt_id (notifications s)"
    by (simp add: db_mark_notification_sent_def map_key_update_where)
  show "nt_status q = ''sent''"
    if "q \<in> set (notifications (db_mark_notification_sent now i s))" and i: "nt_id q = i"
  proof -
    from that(1) consider "nt_id q \<noteq> i"
      | x where "q = x\<lparr>nt_status := ''sent'', nt_sent_at := Some now, nt_last_error := None\<rparr>"
      unfolding db_mark_notification_sent_def by (simp add: in_update_where) blast
    then show ?thesis using i by cases simp_all
  qed
qed simp

end
