(* ===== verification/Notifications.thy ===== *)
theory Notifications
  imports Outbox
begin

text \<open>
  The rest of \<open>src/db/notifications.rs\<close>: preferences, the in-app feed of
  \<open>src/services/notifications.rs\<close>, and the delivery of \<open>src/notify.rs\<close> and
  \<open>src/jobs/notifier.rs\<close>. The mailer is a parameter: whether it takes a message.
\<close>

section \<open>Preferences\<close>

definition db_list_disabled_notification_kinds :: "uuid \<Rightarrow> db \<Rightarrow> string list" where
  "db_list_disabled_notification_kinds user d =
     map np_kind (select_where (\<lambda>p. np_user_id p = user \<and> \<not> np_enabled p) (preferences d))"

definition db_set_notification_preference :: "time \<Rightarrow> uuid \<Rightarrow> string \<Rightarrow> bool \<Rightarrow> unit dbop" where
  "db_set_notification_preference now user kind enabled d =
     try_then (require_fk (user_exists d user)) (\<lambda>_.
     let P = (\<lambda>p. np_user_id p = user \<and> np_kind p = kind)
     in Inr ((),
       if row_exists P (preferences d)
       then d\<lparr>preferences := update_where P (\<lambda>p. p\<lparr>np_enabled := enabled, np_updated_at := now\<rparr>) (preferences d)\<rparr>
       else d\<lparr>preferences := preferences d @ [\<lparr>np_user_id = user, np_kind = kind, np_enabled = enabled,
                np_updated_at = now\<rparr>]\<rparr>))"

definition db_is_notification_kind_enabled :: "uuid \<Rightarrow> string \<Rightarrow> db \<Rightarrow> bool" where
  "db_is_notification_kind_enabled user kind d =
     (case fetch_optional (\<lambda>p. np_user_id p = user \<and> np_kind p = kind) (preferences d) of
        None \<Rightarrow> True | Some p \<Rightarrow> np_enabled p)"

record notification_preferences_response =
  npr_task_due_soon :: bool
  npr_task_overdue :: bool
  npr_task_commented :: bool

definition preferences_from_disabled_kinds :: "string list \<Rightarrow> notification_preferences_response" where
  "preferences_from_disabled_kinds disabled =
     \<lparr>npr_task_due_soon = (''task_due_soon'' \<notin> set disabled),
      npr_task_overdue = (''task_overdue'' \<notin> set disabled),
      npr_task_commented = (''task_commented'' \<notin> set disabled)\<rparr>"

lemma preference_read_back:
  assumes "db_set_notification_preference now user kind enabled d = Inr ((), d')"
  shows "db_is_notification_kind_enabled user' kind' d' =
    (if user' = user \<and> kind' = kind then enabled else db_is_notification_kind_enabled user' kind' d)"
proof -
  let ?P = "\<lambda>u k p. np_user_id p = u \<and> np_kind p = k"
  have find_app: "find P (xs @ ys) = (case find P xs of None \<Rightarrow> find P ys | Some z \<Rightarrow> Some z)"
    for P :: "preference_row \<Rightarrow> bool" and xs ys by (induction xs) auto
  have find_upd: "find Q (map (\<lambda>r. if Q r then f r else r) xs) = map_option f (find Q xs)"
    if "\<And>r. Q (f r) = Q r" for Q :: "preference_row \<Rightarrow> bool" and f xs
    by (induction xs) (auto simp: that)
  have find_other: "find Q (map (\<lambda>r. if P r then f r else r) xs) = find Q xs"
    if "\<And>r. Q (f r) = Q r" "\<And>r. P r \<Longrightarrow> \<not> Q r" for P Q :: "preference_row \<Rightarrow> bool" and f xs
    by (induction xs) (auto simp: that)
  let ?f = "\<lambda>p. p\<lparr>np_enabled := enabled, np_updated_at := now\<rparr>"
  show ?thesis
  proof (cases "row_exists (?P user kind) (preferences d)")
    case True
    with assms have d': "preferences d' = update_where (?P user kind) ?f (preferences d)"
      by (auto simp: db_set_notification_preference_def try_then_Inr Let_def)
    obtain p where p: "find (?P user kind) (preferences d) = Some p"
      using True by (metis fetch_optional_None fetch_optional_def not_None_eq row_exists_iff)
    show ?thesis
    proof (cases "user' = user \<and> kind' = kind")
      case True
      then show ?thesis
        using p find_upd [of "?P user kind" ?f "preferences d"]
        by (simp add: db_is_notification_kind_enabled_def fetch_optional_def d' update_where_def)
    next
      case False
      then show ?thesis
        using find_other [of "?P user' kind'" ?f "?P user kind" "preferences d"] False
        by (auto simp add: db_is_notification_kind_enabled_def fetch_optional_def d' update_where_def)
    qed
  next
    case False
    with assms have d': "preferences d' = preferences d @
        [\<lparr>np_user_id = user, np_kind = kind, np_enabled = enabled, np_updated_at = now\<rparr>]"
      by (auto simp: db_set_notification_preference_def try_then_Inr Let_def)
    have none: "find (?P user kind) (preferences d) = None"
      using False by (simp add: row_exists_iff find_None_iff)
    show ?thesis
      using none by (auto simp: db_is_notification_kind_enabled_def fetch_optional_def d' find_app
          split: option.splits)
  qed
qed

section \<open>The feed\<close>

definition feed_kinds :: "string list" where
  "feed_kinds = [''task_due_soon'', ''task_overdue'', ''task_commented'']"

definition feed_cursor_of :: "notification_record \<Rightarrow> cursor" where
  "feed_cursor_of r = (nt_created_at r, nt_id r)"

definition feed_row :: "uuid \<Rightarrow> uuid \<Rightarrow> string list \<Rightarrow> notification_record \<Rightarrow> bool" where
  "feed_row tenant user kinds r \<longleftrightarrow>
     nt_tenant_id r = Some tenant \<and> nt_user_id r = Some user \<and> nt_kind r \<in> set kinds"

definition feed_rows :: "uuid \<Rightarrow> uuid \<Rightarrow> string list \<Rightarrow> bool \<Rightarrow> db \<Rightarrow> notification_record list" where
  "feed_rows tenant user kinds unread_only d =
     select_where (\<lambda>r. feed_row tenant user kinds r \<and> (unread_only \<longrightarrow> nt_read_at r = None))
       (notifications d)"

definition db_list_notification_feed ::
  "uuid \<Rightarrow> uuid \<Rightarrow> string list \<Rightarrow> bool \<Rightarrow> db \<Rightarrow> cursor option \<Rightarrow> nat \<Rightarrow>
   notification_record list \<times> cursor option" where
  "db_list_notification_feed tenant user kinds unread_only d c limit =
     keyset_page feed_cursor_of (feed_rows tenant user kinds unread_only d) c limit"

definition db_count_unread_notifications :: "uuid \<Rightarrow> uuid \<Rightarrow> string list \<Rightarrow> db \<Rightarrow> nat" where
  "db_count_unread_notifications tenant user kinds d =
     count_where (\<lambda>r. feed_row tenant user kinds r \<and> nt_read_at r = None) (notifications d)"

definition db_mark_notification_read ::
  "time \<Rightarrow> uuid \<Rightarrow> uuid \<Rightarrow> uuid \<Rightarrow> string list \<Rightarrow> db \<Rightarrow> bool \<times> db" where
  "db_mark_notification_read now tenant user i kinds d =
     (let P = (\<lambda>r. nt_id r = i \<and> feed_row tenant user kinds r)
      in (row_exists P (notifications d),
          d\<lparr>notifications := update_where P
              (\<lambda>r. r\<lparr>nt_read_at := (case nt_read_at r of None \<Rightarrow> Some now | Some t \<Rightarrow> Some t)\<rparr>)
              (notifications d)\<rparr>))"

definition db_mark_all_notifications_read ::
  "time \<Rightarrow> uuid \<Rightarrow> uuid \<Rightarrow> string list \<Rightarrow> db \<Rightarrow> nat \<times> db" where
  "db_mark_all_notifications_read now tenant user kinds d =
     (let P = (\<lambda>r. feed_row tenant user kinds r \<and> nt_read_at r = None)
      in (count_where P (notifications d),
          d\<lparr>notifications := update_where P (\<lambda>r. r\<lparr>nt_read_at := Some now\<rparr>) (notifications d)\<rparr>))"

record feed_item =
  fi_id :: uuid
  fi_kind :: string
  fi_payload :: json
  fi_read_at :: "time option"
  fi_created_at :: time

definition feed_item_of :: "notification_record \<Rightarrow> feed_item" where
  "feed_item_of r = \<lparr>fi_id = nt_id r, fi_kind = nt_kind r, fi_payload = nt_payload r,
     fi_read_at = nt_read_at r, fi_created_at = nt_created_at r\<rparr>"

record feed_response =
  fr_data :: "feed_item list"
  fr_next_cursor :: "string option"
  fr_unread_count :: nat

definition svc_list_feed ::
  "env \<Rightarrow> uuid \<Rightarrow> uuid \<Rightarrow> bool \<Rightarrow> cursor option \<Rightarrow> nat \<Rightarrow> feed_response app" where
  "svc_list_feed e tenant user unread_only c limit =
     then_do (db_read (\<lambda>d. db_list_notification_feed tenant user feed_kinds unread_only d c limit))
       (\<lambda>(entries, next).
     then_do (db_read (db_count_unread_notifications tenant user feed_kinds)) (\<lambda>unread.
     then_do (lift_result (transpose_opt (cursor_encode (codec e)) next)) (\<lambda>next.
     ret \<lparr>fr_data = map feed_item_of entries, fr_next_cursor = next, fr_unread_count = unread\<rparr>)))"

definition svc_mark_read :: "time \<Rightarrow> uuid \<Rightarrow> uuid \<Rightarrow> uuid \<Rightarrow> unit app" where
  "svc_mark_read now tenant user i =
     then_do (db_run (\<lambda>d. Inr (db_mark_notification_read now tenant user i feed_kinds d))) (\<lambda>updated.
     if updated then ret () else fail (NotFound ''notification was not found''))"

definition svc_mark_all_read :: "time \<Rightarrow> uuid \<Rightarrow> uuid \<Rightarrow> nat app" where
  "svc_mark_all_read now tenant user =
     db_run (\<lambda>d. Inr (db_mark_all_notifications_read now tenant user feed_kinds d))"

interpretation feed_listing: keyset_listing feed_cursor_of "feed_rows tenant user kinds unread"
  "db_list_notification_feed tenant user kinds unread" for tenant user kinds unread
  by (rule keyset_listing_of_page) (simp add: db_list_notification_feed_def)

text \<open>Token-bearing account mails never reach the feed.\<close>

lemma feed_only_task_kinds:
  "it \<in> set (fst (db_list_notification_feed tenant user feed_kinds unread d c limit)) \<Longrightarrow>
     nt_kind it \<in> {''task_due_soon'', ''task_overdue'', ''task_commented''} \<and>
     nt_user_id it = Some user \<and> nt_tenant_id it = Some tenant"
  using feed_listing.page_subset [of it tenant user feed_kinds unread d c limit]
  by (auto simp: feed_rows_def feed_row_def feed_kinds_def select_where_def)

lemma mark_all_leaves_none_unread:
  "db_count_unread_notifications tenant user kinds
     (snd (db_mark_all_notifications_read now tenant user kinds d)) = 0"
  by (auto simp: db_count_unread_notifications_def db_mark_all_notifications_read_def Let_def
      count_where_def filter_empty_conv in_update_where)

section \<open>Delivery\<close>

record mail_message =
  mm_to :: string
  mm_subject :: string
  mm_body :: string

definition payload_str :: "env \<Rightarrow> json \<Rightarrow> string \<Rightarrow> string" where
  "payload_str e payload key =
     (case json_get payload key of
        Some (JString s) \<Rightarrow> s
      | Some (JUuid u) \<Rightarrow> uuid_str e u
      | Some (JTime t) \<Rightarrow> serde_time e t
      | _ \<Rightarrow> [])"

definition newline :: string where "newline = [CHR 0x0A]"
definition quoted :: "string \<Rightarrow> string" where "quoted s = [CHR 0x22] @ s @ [CHR 0x22]"

definition render_notification :: "env \<Rightarrow> notification_record \<Rightarrow> mail_message result" where
  "render_notification e n =
     (let p = payload_str e (nt_payload n);
          mail = (\<lambda>subject body. Inr \<lparr>mm_to = nt_recipient n, mm_subject = subject, mm_body = body\<rparr>)
      in if nt_kind n = ''tenant_invitation'' then
           mail ''You have been invited to a workspace''
             (''You have been invited to join a workspace with the '' @ p ''role'' @ '' role.'' @ newline @
              ''Use this invitation token to accept: '' @ p ''token'' @ newline @
              ''The invitation expires at '' @ p ''expires_at'' @ ''.'')
         else if nt_kind n = ''email_verification'' then
           mail ''Verify your email address''
             (''Use this token to verify your email address: '' @ p ''token'' @ newline @
              ''The token expires at '' @ p ''expires_at'' @ ''.'')
         else if nt_kind n = ''password_reset'' then
           mail ''Reset your password''
             (''Use this token to reset your password: '' @ p ''token'' @ newline @
              ''The token expires at '' @ p ''expires_at'' @
              ''. If you did not request this, ignore this message.'')
         else if nt_kind n = ''task_due_soon'' then
           mail (''Task due soon: '' @ p ''title'')
             (''The task '' @ quoted (p ''title'') @ '' is due at '' @ p ''due_at'' @ ''.'')
         else if nt_kind n = ''task_overdue'' then
           mail (''Task overdue: '' @ p ''title'')
             (''The task '' @ quoted (p ''title'') @ '' was due at '' @ p ''due_at'' @
              '' and is now overdue.'')
         else if nt_kind n = ''task_commented'' then
           mail (''New comment on task: '' @ p ''title'')
             (''A new comment was added to the task '' @ quoted (p ''title'') @ '':'' @ newline @ p ''body'')
         else Inl (Internal (''unsupported notification kind: '' @ nt_kind n)))"

definition notification_batch_size :: nat where "notification_batch_size = 50"

text \<open>\<open>send\<close> is \<open>Mailer::send\<close>.\<close>

definition deliver_one ::
  "env \<Rightarrow> (mail_message \<Rightarrow> unit result) \<Rightarrow> time \<Rightarrow> notification_record \<Rightarrow> db \<Rightarrow> db" where
  "deliver_one e send now n d =
     (case try_then (render_notification e n) send of
        Inr _ \<Rightarrow> db_mark_notification_sent now (nt_id n) d
      | Inl err \<Rightarrow> db_fail_notification now n (error_text err) d)"

definition deliver_pending_notifications ::
  "env \<Rightarrow> (mail_message \<Rightarrow> unit result) \<Rightarrow> time \<Rightarrow> db \<Rightarrow> db" where
  "deliver_pending_notifications e send now d =
     (case db_claim_pending_notifications now notification_batch_size d of
        (batch, d') \<Rightarrow> fold (deliver_one e send now) batch d')"

end
