(* ===== verification/Csv.thy ===== *)
theory Csv
  imports World
begin

text \<open>
  The CSV of a task export: \<open>render_tasks_csv\<close> and \<open>csv_escape\<close> of \<open>src/services/jobs.rs\<close>,
  and, as the specification, a reader of RFC 4180 files, which reads back what the code writes.
\<close>

section \<open>Writing\<close>

definition dq :: char where "dq = CHR 0x22"
definition cr :: char where "cr = CHR 0x0D"
definition lf :: char where "lf = CHR 0x0A"

definition csv_special :: "char \<Rightarrow> bool" where
  "csv_special c \<longleftrightarrow> c = dq \<or> c = CHR '','' \<or> c = lf \<or> c = cr"

definition double_quotes :: "string \<Rightarrow> string" where
  "double_quotes s = concat (map (\<lambda>c. if c = dq then [dq, dq] else [c]) s)"

definition csv_escape :: "string \<Rightarrow> string" where
  "csv_escape field =
     (if list_ex csv_special field then [dq] @ double_quotes field @ [dq] else field)"

definition csv_header :: "string list" where
  "csv_header = [''id'', ''project_id'', ''title'', ''description'', ''status'', ''priority'', ''assignee_id'',
     ''due_at'', ''created_by'', ''updated_by'', ''created_at'', ''updated_at'']"

definition or_empty :: "('a \<Rightarrow> string) \<Rightarrow> 'a option \<Rightarrow> string" where
  "or_empty f x = (case x of None \<Rightarrow> [] | Some y \<Rightarrow> f y)"

definition csv_fields :: "env \<Rightarrow> task_response \<Rightarrow> string list" where
  "csv_fields e t =
     [uuid_str e (tr_id t), or_empty (uuid_str e) (tr_project_id t), tr_title t,
      or_empty (\<lambda>s. s) (tr_description t), task_status_str (tr_status t), task_priority_str (tr_priority t),
      or_empty (uuid_str e) (tr_assignee_id t), or_empty (rfc3339 e) (tr_due_at t),
      uuid_str e (tr_created_by t), uuid_str e (tr_updated_by t), rfc3339 e (tr_created_at t),
      rfc3339 e (tr_updated_at t)]"

definition csv_row :: "string list \<Rightarrow> string" where
  "csv_row cells = join_with '','' (map csv_escape cells) @ [cr, lf]"

definition render_tasks_csv :: "env \<Rightarrow> task_response list \<Rightarrow> string" where
  "render_tasks_csv e ts =
     join_with '','' csv_header @ [cr, lf] @ concat (map (\<lambda>t. csv_row (csv_fields e t)) ts)"

section \<open>Reading\<close>

text \<open>A quoted field, from after its opening quote: the text and what follows the closing quote.\<close>

fun read_quoted :: "string \<Rightarrow> (string \<times> string) option" where
  "read_quoted [] = None"
| "read_quoted [c] = (if c = dq then Some ([], []) else None)"
| "read_quoted (c # d # s) =
     (if c = dq then
        (if d = dq then map_option (\<lambda>(f, r). (dq # f, r)) (read_quoted s) else Some ([], d # s))
      else map_option (\<lambda>(f, r). (c # f, r)) (read_quoted (d # s)))"

definition read_field :: "string \<Rightarrow> (string \<times> string) option" where
  "read_field s =
     (case s of
        c # t \<Rightarrow> if c = dq then read_quoted t
          else Some (takeWhile (\<lambda>c. \<not> csv_special c) s, dropWhile (\<lambda>c. \<not> csv_special c) s)
      | [] \<Rightarrow> Some ([], []))"

lemma read_quoted_shorter: "read_quoted s = Some (f, r) \<Longrightarrow> length r < length s"
proof (induction s arbitrary: f r rule: read_quoted.induct)
  case (3 c d s)
  show ?case
  proof (cases "c = dq")
    case True
    show ?thesis
    proof (cases "d = dq")
      case True
      with "3.prems" \<open>c = dq\<close> obtain g where "read_quoted s = Some (g, r)" by auto
      with "3.IH"(1) [OF \<open>c = dq\<close> True] show ?thesis by fastforce
    next
      case False
      with "3.prems" True show ?thesis by simp
    qed
  next
    case False
    with "3.prems" obtain g where "read_quoted (d # s) = Some (g, r)" by auto
    with "3.IH"(2) [OF False] show ?thesis by fastforce
  qed
qed (simp_all split: if_splits)

lemma read_field_shorter:
  assumes "read_field s = Some (f, r)"
  shows "length r \<le> length s"
proof (cases s)
  case Nil
  with assms show ?thesis by (simp add: read_field_def)
next
  case (Cons c t)
  show ?thesis
  proof (cases "c = dq")
    case True
    with assms Cons have "read_quoted t = Some (f, r)" by (simp add: read_field_def)
    then have "length r < length t" by (rule read_quoted_shorter)
    with Cons show ?thesis by simp
  next
    case False
    with assms Cons have "r = dropWhile (\<lambda>c. \<not> csv_special c) s" by (simp add: read_field_def)
    then show ?thesis by (simp add: length_dropWhile_le)
  qed
qed

function read_record :: "string \<Rightarrow> (string list \<times> string) option" where
  "read_record s =
     (case read_field s of
        None \<Rightarrow> None
      | Some (f, r) \<Rightarrow>
          (case r of
             [] \<Rightarrow> None
           | c # t \<Rightarrow>
               if c = CHR '','' then map_option (\<lambda>(fs, u). (f # fs, u)) (read_record t)
               else if c = cr \<and> take 1 t = [lf] then Some ([f], drop 1 t)
               else None))"
  by pat_completeness auto

termination read_record
  by (relation "measure length") (auto dest: read_field_shorter)

declare read_record.simps [simp del]

lemma read_record_shorter: "read_record s = Some (fs, r) \<Longrightarrow> length r < length s"
proof (induction s arbitrary: fs r rule: read_record.induct)
  case (1 s)
  from "1.prems" obtain f c t where ft: "read_field s = Some (f, c # t)"
    by (auto simp: read_record.simps [of s] split: option.splits list.splits)
  then have len: "length (c # t) \<le> length s" by (rule read_field_shorter)
  show ?case
  proof (cases "c = CHR '',''")
    case True
    with "1.prems" ft obtain gs where "read_record t = Some (gs, r)"
      by (auto simp: read_record.simps [of s])
    with "1.IH" [OF ft, of f "c # t" c t] True have "length r < length t" by simp
    with len show ?thesis by simp
  next
    case False
    with "1.prems" ft have "r = drop 1 t" by (auto simp: read_record.simps [of s] split: if_splits)
    with len show ?thesis by simp
  qed
qed

function read_csv :: "string \<Rightarrow> string list list option" where
  "read_csv s =
     (if s = [] then Some []
      else (case read_record s of None \<Rightarrow> None
            | Some (fs, r) \<Rightarrow> map_option (\<lambda>rest. fs # rest) (read_csv r)))"
  by pat_completeness auto

termination read_csv
  by (relation "measure length") (auto dest: read_record_shorter)

declare read_csv.simps [simp del]

section \<open>Reading what was written\<close>

lemma double_quotes_simps [simp]:
  "double_quotes [] = []"
  "double_quotes (c # s) = (if c = dq then dq # dq # double_quotes s else c # double_quotes s)"
  by (simp_all add: double_quotes_def)

lemma read_quoted_step: "c \<noteq> dq \<Longrightarrow> s \<noteq> [] \<Longrightarrow>
    read_quoted (c # s) = map_option (\<lambda>(f, r). (c # f, r)) (read_quoted s)"
  by (cases s) auto

lemma read_quoted_doubled:
  "r = [] \<or> hd r \<noteq> dq \<Longrightarrow> read_quoted (double_quotes f @ dq # r) = Some (f, r)"
proof (induction f)
  case Nil
  then show ?case by (cases r) auto
next
  case (Cons c f)
  then show ?case by (cases "c = dq") (simp_all add: read_quoted_step)
qed

lemma read_field_escaped:
  assumes "c = CHR '','' \<or> c = cr"
  shows "read_field (csv_escape f @ c # r) = Some (f, c # r)"
proof (cases "list_ex csv_special f")
  case True
  moreover have "c \<noteq> dq" using assms by (auto simp: dq_def cr_def)
  ultimately show ?thesis by (simp add: csv_escape_def read_field_def read_quoted_doubled)
next
  case False
  then have plain: "\<forall>x \<in> set f. \<not> csv_special x" by (simp add: list_ex_iff)
  have c: "csv_special c" "c \<noteq> dq" using assms by (auto simp: csv_special_def dq_def cr_def)
  have "takeWhile (\<lambda>c. \<not> csv_special c) (f @ c # r) = f" "dropWhile (\<lambda>c. \<not> csv_special c) (f @ c # r) = c # r"
    using plain c(1) by (auto simp: takeWhile_append dropWhile_append)
  moreover have "hd (f @ [c]) \<noteq> dq" using plain c(2) by (cases f) (auto simp: csv_special_def)
  ultimately show ?thesis using False by (cases f) (auto simp: csv_escape_def read_field_def)
qed

lemma read_record_row: "fs \<noteq> [] \<Longrightarrow> read_record (csv_row fs @ r) = Some (fs, r)"
proof (induction fs)
  case Nil
  then show ?case by simp
next
  case (Cons f fs)
  show ?case
  proof (cases fs)
    case Nil
    have "read_field (csv_escape f @ cr # lf # r) = Some (f, cr # lf # r)" by (rule read_field_escaped) simp
    moreover have "cr \<noteq> CHR '',''" by (simp add: cr_def)
    ultimately show ?thesis using Nil by (simp add: csv_row_def read_record.simps [of "csv_escape f @ cr # lf # r"])
  next
    case (Cons g gs)
    let ?rest = "csv_row fs @ r"
    have row: "csv_row (f # fs) @ r = csv_escape f @ CHR '','' # ?rest"
      using Cons by (simp add: csv_row_def)
    have "read_field (csv_escape f @ CHR '','' # ?rest) = Some (f, CHR '','' # ?rest)"
      by (rule read_field_escaped) simp
    with Cons.IH \<open>fs = g # gs\<close> show ?thesis
      unfolding row read_record.simps [of "csv_escape f @ CHR '','' # ?rest"] by simp
  qed
qed

lemma read_csv_rows:
  "(\<And>fs. fs \<in> set rows \<Longrightarrow> fs \<noteq> []) \<Longrightarrow> read_csv (concat (map csv_row rows)) = Some rows"
proof (induction rows)
  case Nil
  then show ?case by (simp add: read_csv.simps)
next
  case (Cons fs rows)
  have "csv_row fs @ concat (map csv_row rows) \<noteq> []" by (simp add: csv_row_def)
  with Cons show ?case
    by (simp add: read_record_row read_csv.simps [of "csv_row fs @ concat (map csv_row rows)"])
qed

lemma header_row: "join_with '','' csv_header @ [cr, lf] = csv_row csv_header"
proof -
  have "map csv_escape csv_header = csv_header"
    by (simp add: csv_header_def csv_escape_def csv_special_def dq_def cr_def lf_def)
  then show ?thesis by (simp add: csv_row_def)
qed

lemma read_render: "read_csv (render_tasks_csv e ts) = Some (csv_header # map (csv_fields e) ts)"
proof -
  have "render_tasks_csv e ts = concat (map csv_row (csv_header # map (csv_fields e) ts))"
    using header_row by (simp add: render_tasks_csv_def comp_def)
  moreover have "fs \<noteq> []" if "fs \<in> set (csv_header # map (csv_fields e) ts)" for fs
    using that by (auto simp: csv_header_def csv_fields_def)
  ultimately show ?thesis using read_csv_rows by presburger
qed

text \<open>C22. The CSV of an export reads back, with any reader of RFC 4180 files, as the header and, in
  order, one record per task with exactly its twelve fields, whatever quotes, commas and line breaks
  the titles and descriptions contain.\<close>

theorem csv_round_trip: "read_csv (render_tasks_csv e ts) = Some (csv_header # map (csv_fields e) ts)"
  by (rule read_render)

end
