(* ===== verification/AuditLog.thy ===== *)
theory AuditLog
  imports World
begin

text \<open>
  The tenant audit log: \<open>src/db/audit.rs\<close> and \<open>src/services/audit.rs\<close>. Recording an event is
  best-effort: its failure is logged and the operation it reports goes on.
\<close>

definition db_record_audit_event ::
  "uuid \<Rightarrow> time \<Rightarrow> uuid option \<Rightarrow> uuid option \<Rightarrow> string \<Rightarrow> uuid option \<Rightarrow> string \<Rightarrow> json \<Rightarrow> unit dbop" where
  "db_record_audit_event i now tenant actor subject_type subject_id event_type payload d =
     try_then (require_fk (fk_opt (tenant_exists d) tenant \<and> fk_opt (user_exists d) actor)) (\<lambda>_.
     try_then (insert_row ae_id
       \<lparr>ae_id = i, ae_tenant_id = tenant, ae_actor_user_id = actor, ae_subject_type = subject_type,
        ae_subject_id = subject_id, ae_event_type = event_type, ae_payload = payload,
        ae_created_at = now\<rparr> (audit_log d)) (\<lambda>t.
     Inr ((), d\<lparr>audit_log := t\<rparr>)))"

definition audit_cursor_of :: "audit_event_record \<Rightarrow> cursor" where
  "audit_cursor_of r = (ae_created_at r, ae_id r)"

definition tenant_audit_rows :: "uuid \<Rightarrow> db \<Rightarrow> audit_event_record list" where
  "tenant_audit_rows tenant d = select_where (\<lambda>r. ae_tenant_id r = Some tenant) (audit_log d)"

definition db_list_audit_events ::
  "uuid \<Rightarrow> db \<Rightarrow> cursor option \<Rightarrow> nat \<Rightarrow> audit_event_record list \<times> cursor option" where
  "db_list_audit_events tenant d c limit =
     keyset_page audit_cursor_of (tenant_audit_rows tenant d) c limit"

definition record_event ::
  "uuid \<Rightarrow> time \<Rightarrow> uuid option \<Rightarrow> uuid option \<Rightarrow> string \<Rightarrow> uuid option \<Rightarrow> string \<Rightarrow> json \<Rightarrow> unit app" where
  "record_event i now tenant actor subject_type subject_id event_type payload =
     logged (db_run (db_record_audit_event i now tenant actor subject_type subject_id event_type payload))"

record audit_event_response =
  ar_id :: uuid
  ar_actor_user_id :: "uuid option"
  ar_subject_type :: string
  ar_subject_id :: "uuid option"
  ar_event_type :: string
  ar_payload :: json
  ar_created_at :: time

definition audit_event_response :: "audit_event_record \<Rightarrow> audit_event_response" where
  "audit_event_response v =
     \<lparr>ar_id = ae_id v, ar_actor_user_id = ae_actor_user_id v, ar_subject_type = ae_subject_type v,
      ar_subject_id = ae_subject_id v, ar_event_type = ae_event_type v, ar_payload = ae_payload v,
      ar_created_at = ae_created_at v\<rparr>"

definition svc_list_events ::
  "env \<Rightarrow> uuid \<Rightarrow> cursor option \<Rightarrow> nat \<Rightarrow> (audit_event_response list \<times> string option) app" where
  "svc_list_events e tenant c limit =
     then_do (db_read (\<lambda>d. db_list_audit_events tenant d c limit)) (\<lambda>(entries, next).
     then_do (lift_result (transpose_opt (cursor_encode (codec e)) next)) (\<lambda>next.
     ret (map audit_event_response entries, next)))"

interpretation audit_listing: keyset_listing audit_cursor_of "tenant_audit_rows tenant"
  "db_list_audit_events tenant" for tenant
  by (rule keyset_listing_of_page) (simp add: db_list_audit_events_def)

text \<open>An audit write touches only the audit log, and appends at most one row.\<close>

lemma record_event_effect:
  "\<exists>rows. record_event i now tenant actor st si et payload w =
     (Inr (), w\<lparr>w_db := (w_db w)\<lparr>audit_log := audit_log (w_db w) @ rows\<rparr>\<rparr>) \<and> length rows \<le> 1"
proof (cases "db_record_audit_event i now tenant actor st si et payload (w_db w)")
  case (Inl e)
  then show ?thesis
    by (intro exI [of _ "[]"]) (simp add: record_event_def logged_eq db_run_def)
next
  case (Inr y)
  then obtain r where "snd y = (w_db w)\<lparr>audit_log := audit_log (w_db w) @ [r]\<rparr>"
    by (cases y) (auto simp: db_record_audit_event_def try_then_Inr insert_row_Inr)
  with Inr show ?thesis
    by (cases y) (auto simp: record_event_def logged_eq db_run_def intro!: exI [of _ "[r]"])
qed

lemma record_event_ok: "fst (record_event i now tenant actor st si et payload w) = Inr ()"
  by (simp add: record_event_def logged_eq)

lemma record_event_frame [simp]:
  "w_redis (snd (record_event i now tenant actor st si et payload w)) = w_redis w"
  "w_files (snd (record_event i now tenant actor st si et payload w)) = w_files w"
  using record_event_effect [of i now tenant actor st si et payload w] by auto

end
