(* ===== verification/Projects.thy ===== *)
theory Projects
  imports AuditLog
begin

text \<open>
  Projects: \<open>src/db/projects.rs\<close> and \<open>src/services/projects.rs\<close>. A project is never deleted; an
  archived one keeps its row, is hidden from every read, and hides its tasks from the listings.
\<close>

section \<open>Database\<close>

definition db_create_project ::
  "uuid \<Rightarrow> time \<Rightarrow> uuid \<Rightarrow> uuid \<Rightarrow> create_project_input \<Rightarrow> project_record dbop" where
  "db_create_project i now tenant actor input d =
     (let row = \<lparr>pj_id = i, pj_tenant_id = tenant, pj_name = trim (cp_name input),
                 pj_description = cp_description input, pj_created_by = actor, pj_updated_by = actor,
                 pj_created_at = now, pj_updated_at = now, pj_archived_at = None\<rparr>
      in
        try_then (insert_row pj_id row (projects d)) (\<lambda>_.
        try_then (insert_row (\<lambda>p. (pj_tenant_id p, pj_name p)) row (projects d)) (\<lambda>t.
        try_then (require_fk (tenant_exists d tenant \<and> user_exists d actor)) (\<lambda>_.
        Inr (row, d\<lparr>projects := t\<rparr>)))))"

definition live_project :: "uuid \<Rightarrow> project_record \<Rightarrow> bool" where
  "live_project tenant p \<longleftrightarrow> pj_tenant_id p = tenant \<and> pj_archived_at p = None"

definition db_list_projects :: "uuid \<Rightarrow> db \<Rightarrow> project_record list" where
  "db_list_projects tenant d =
     order_desc (\<lambda>p. (pj_updated_at p, pj_id p)) (select_where (live_project tenant) (projects d))"

definition db_get_project :: "uuid \<Rightarrow> uuid \<Rightarrow> db \<Rightarrow> project_record option" where
  "db_get_project tenant i d = fetch_optional (\<lambda>p. live_project tenant p \<and> pj_id p = i) (projects d)"

record project_summary =
  ps_project_id :: uuid
  ps_project_name :: string
  ps_open_task_count :: nat
  ps_in_progress_task_count :: nat
  ps_done_task_count :: nat
  ps_overdue_task_count :: nat
  ps_recent_activity_count :: nat

definition is_overdue :: "time \<Rightarrow> task_record \<Rightarrow> bool" where
  "is_overdue now t \<longleftrightarrow>
     (case tk_due_at t of None \<Rightarrow> False | Some due \<Rightarrow> due \<le> now) \<and>
     tk_status t \<noteq> ''done'' \<and> tk_status t \<noteq> ''archived''"

definition db_project_summary :: "time \<Rightarrow> uuid \<Rightarrow> uuid \<Rightarrow> db \<Rightarrow> project_summary option" where
  "db_project_summary now tenant i d =
     map_option (\<lambda>p.
       let ts = select_where (\<lambda>t. tk_project_id t = Some i \<and> tk_tenant_id t = tenant) (tasks d)
       in \<lparr>ps_project_id = pj_id p, ps_project_name = pj_name p,
           ps_open_task_count = count_where (\<lambda>t. tk_status t = ''open'') ts,
           ps_in_progress_task_count = count_where (\<lambda>t. tk_status t = ''in_progress'') ts,
           ps_done_task_count = count_where (\<lambda>t. tk_status t = ''done'') ts,
           ps_overdue_task_count = count_where (is_overdue now) ts,
           ps_recent_activity_count =
             count_where (\<lambda>a. ta_tenant_id a = tenant \<and> now - days 7 \<le> ta_created_at a \<and>
                 list_ex (\<lambda>t. ta_task_id a = Some (tk_id t)) ts) (task_audit d)\<rparr>)
     (db_get_project tenant i d)"

text \<open>A renamed project must not take the name of another one of its tenant.\<close>

definition project_names_clash :: "uuid \<Rightarrow> uuid \<Rightarrow> string option \<Rightarrow> project_record list \<Rightarrow> bool" where
  "project_names_clash tenant i name ps \<longleftrightarrow>
     (case name of None \<Rightarrow> False
      | Some n \<Rightarrow> row_exists (\<lambda>p. pj_tenant_id p = tenant \<and> pj_id p \<noteq> i \<and> pj_name p = trim n) ps)"

definition apply_project_update ::
  "time \<Rightarrow> uuid \<Rightarrow> update_project_input \<Rightarrow> project_record \<Rightarrow> project_record" where
  "apply_project_update now actor input p =
     p\<lparr>pj_name := (case ud_name input of None \<Rightarrow> pj_name p | Some n \<Rightarrow> trim n),
       pj_description := (case ud_description input of None \<Rightarrow> pj_description p | Some v \<Rightarrow> v),
       pj_updated_by := actor, pj_updated_at := now\<rparr>"

definition db_update_project ::
  "time \<Rightarrow> uuid \<Rightarrow> uuid \<Rightarrow> uuid \<Rightarrow> update_project_input \<Rightarrow> project_record dbop" where
  "db_update_project now tenant i actor input d =
     try_then (update_returning (\<lambda>p. live_project tenant p \<and> pj_id p = i)
       (apply_project_update now actor input) (NotFound ''project not found'') (projects d)) (\<lambda>(p, t).
     if project_names_clash tenant i (ud_name input) (projects d)
     then Inl (from_sqlx UniqueViolation)
     else if \<not> user_exists d actor then Inl (from_sqlx ForeignKeyViolation)
     else Inr (p, d\<lparr>projects := t\<rparr>))"

definition db_archive_project :: "time \<Rightarrow> uuid \<Rightarrow> uuid \<Rightarrow> uuid \<Rightarrow> project_record dbop" where
  "db_archive_project now tenant i actor d =
     try_then (update_returning (\<lambda>p. live_project tenant p \<and> pj_id p = i)
       (\<lambda>p. p\<lparr>pj_archived_at := Some now, pj_updated_by := actor, pj_updated_at := now\<rparr>)
       (NotFound ''project not found'') (projects d)) (\<lambda>(p, t).
     try_then (require_fk (user_exists d actor)) (\<lambda>_. Inr (p, d\<lparr>projects := t\<rparr>)))"

definition db_restore_project :: "time \<Rightarrow> uuid \<Rightarrow> uuid \<Rightarrow> uuid \<Rightarrow> project_record dbop" where
  "db_restore_project now tenant i actor d =
     try_then (update_returning
       (\<lambda>p. pj_tenant_id p = tenant \<and> pj_id p = i \<and> pj_archived_at p \<noteq> None)
       (\<lambda>p. p\<lparr>pj_archived_at := None, pj_updated_by := actor, pj_updated_at := now\<rparr>)
       (NotFound ''archived project not found'') (projects d)) (\<lambda>(p, t).
     try_then (require_fk (user_exists d actor)) (\<lambda>_. Inr (p, d\<lparr>projects := t\<rparr>)))"

section \<open>Services\<close>

text \<open>\<open>aid\<close> is the identifier of the audit row, \<open>now\<close> the clock reading.\<close>

definition svc_get_project :: "uuid \<Rightarrow> uuid \<Rightarrow> project_record app" where
  "svc_get_project tenant i =
     then_do (db_read (db_get_project tenant i)) (\<lambda>p.
     lift_result (ok_or p (NotFound ''project not found'')))"

definition svc_project_summary :: "time \<Rightarrow> uuid \<Rightarrow> uuid \<Rightarrow> project_summary app" where
  "svc_project_summary now tenant i =
     then_do (db_read (db_project_summary now tenant i)) (\<lambda>s.
     lift_result (ok_or s (NotFound ''project not found'')))"

definition svc_create_project ::
  "uuid \<Rightarrow> uuid \<Rightarrow> time \<Rightarrow> uuid \<Rightarrow> uuid \<Rightarrow> create_project_input \<Rightarrow> project_record app" where
  "svc_create_project i aid now tenant actor input =
     then_do (db_run (db_create_project i now tenant actor input)) (\<lambda>p.
     then_do (cache_run (bump_tenant_cache_version now tenant)) (\<lambda>_.
     then_do (record_event aid now (Some tenant) (Some actor) ''project'' (Some (pj_id p))
       ''project.created'' (JObject [(''name'', JString (pj_name p))])) (\<lambda>_.
     ret p)))"

definition svc_update_project ::
  "uuid \<Rightarrow> time \<Rightarrow> uuid \<Rightarrow> uuid \<Rightarrow> uuid \<Rightarrow> update_project_input \<Rightarrow> project_record app" where
  "svc_update_project aid now tenant i actor input =
     then_do (db_run (db_update_project now tenant i actor input)) (\<lambda>p.
     then_do (cache_run (bump_tenant_cache_version now tenant)) (\<lambda>_.
     then_do (record_event aid now (Some tenant) (Some actor) ''project'' (Some (pj_id p))
       ''project.updated'' (JObject [(''name'', JString (pj_name p))])) (\<lambda>_.
     ret p)))"

definition svc_archive_project :: "uuid \<Rightarrow> time \<Rightarrow> uuid \<Rightarrow> uuid \<Rightarrow> uuid \<Rightarrow> unit app" where
  "svc_archive_project aid now tenant actor i =
     then_do (db_run (db_archive_project now tenant i actor)) (\<lambda>_.
     then_do (cache_run (bump_tenant_cache_version now tenant)) (\<lambda>_.
     then_do (record_event aid now (Some tenant) (Some actor) ''project'' (Some i)
       ''project.archived'' (JObject [])) (\<lambda>_.
     ret ())))"

definition svc_restore_project :: "uuid \<Rightarrow> time \<Rightarrow> uuid \<Rightarrow> uuid \<Rightarrow> uuid \<Rightarrow> project_record app" where
  "svc_restore_project aid now tenant actor i =
     then_do (db_run (db_restore_project now tenant i actor)) (\<lambda>p.
     then_do (cache_run (bump_tenant_cache_version now tenant)) (\<lambda>_.
     then_do (record_event aid now (Some tenant) (Some actor) ''project'' (Some i)
       ''project.restored'' (JObject [(''name'', JString (pj_name p))])) (\<lambda>_.
     ret p)))"

section \<open>Laws\<close>

text \<open>The keys of the table: identifiers, and names within a tenant.\<close>

definition wf_projects :: "project_record list \<Rightarrow> bool" where
  "wf_projects ps \<longleftrightarrow> distinct (map pj_id ps) \<and> distinct (map (\<lambda>p. (pj_tenant_id p, pj_name p)) ps)"

lemma create_project_wf:
  "wf_projects (projects d) \<Longrightarrow> db_create_project i now tenant actor input d = Inr (p, d') \<Longrightarrow>
     wf_projects (projects d')"
  by (auto simp: db_create_project_def wf_projects_def Let_def try_then_Inr insert_row_Inr)

lemma archive_restore_keys:
  "db_archive_project now tenant i actor d = Inr (p, d') \<or>
   db_restore_project now tenant i actor d = Inr (p, d') \<Longrightarrow>
     map pj_id (projects d') = map pj_id (projects d) \<and>
     map (\<lambda>p. (pj_tenant_id p, pj_name p)) (projects d') =
       map (\<lambda>p. (pj_tenant_id p, pj_name p)) (projects d)"
  by (auto simp: db_archive_project_def db_restore_project_def try_then_Inr update_where_def
      dest!: update_returning_InrD)

lemma db_get_project_live: "db_get_project tenant i d = Some p \<Longrightarrow>
   p \<in> set (projects d) \<and> live_project tenant p \<and> pj_id p = i"
  by (auto simp: db_get_project_def dest: fetch_optional_SomeD)

lemma db_update_project_frame:
  assumes "db_update_project now tenant i actor input d = Inr (p, d')"
  shows "\<exists>q \<in> set (projects d). live_project tenant q \<and> pj_id q = i \<and>
      p = apply_project_update now actor input q"
    and "d' = d\<lparr>projects := update_where (\<lambda>p. live_project tenant p \<and> pj_id p = i)
      (apply_project_update now actor input) (projects d)\<rparr>"
  using assms
  by (auto simp: db_update_project_def try_then_Inr split: if_splits dest!: update_returning_InrD)

end
