(* ===== verification/WebhookUrl.thy ===== *)
theory WebhookUrl
  imports Validation "HOL-Library.Word"
begin

text \<open>
  \<open>validate_webhook_url\<close> and \<open>is_private_host\<close> of \<open>src/domain/webhooks.rs\<close>. \<open>http::Uri\<close> is
  third-party: its parser is the parameter, from a text to the scheme and host it finds.
  \<open>str::parse::<IpAddr>\<close> is the standard library's parser of addresses, modelled as it is
  written: readers that take a prefix of the text or leave it alone.
\<close>

unbundle bit_operations_syntax

section \<open>Readers\<close>

definition digit_value :: "char \<Rightarrow> nat" where
  "digit_value c =
     (if is_digit_ascii c then byte c - 48
      else if is_lower_ascii c then byte c - 87 else byte c - 55)"

definition is_digit_radix :: "nat \<Rightarrow> char \<Rightarrow> bool" where
  "is_digit_radix radix c \<longleftrightarrow> is_alnum_ascii c \<and> digit_value c < radix"

definition number_value :: "nat \<Rightarrow> char list \<Rightarrow> nat" where
  "number_value radix ds = foldl (\<lambda>acc c. acc * radix + digit_value c) 0 ds"

definition read_number :: "nat \<Rightarrow> nat \<Rightarrow> bool \<Rightarrow> nat \<Rightarrow> string \<Rightarrow> (nat \<times> string) option" where
  "read_number radix max_digits allow_zero_prefix max_value s =
     (let ds = takeWhile (is_digit_radix radix) s; rest = dropWhile (is_digit_radix radix) s
      in if ds = [] \<or> max_digits < length ds then None
         else if \<not> allow_zero_prefix \<and> hd ds = CHR ''0'' \<and> 1 < length ds then None
         else if max_value < number_value radix ds then None
         else Some (number_value radix ds, rest))"

definition read_given_char :: "char \<Rightarrow> string \<Rightarrow> string option" where
  "read_given_char c s = (case s of [] \<Rightarrow> None | x # r \<Rightarrow> if x = c then Some r else None)"

definition read_separator ::
  "char \<Rightarrow> nat \<Rightarrow> (string \<Rightarrow> ('a \<times> string) option) \<Rightarrow> string \<Rightarrow> ('a \<times> string) option" where
  "read_separator sep index inner s =
     (if 0 < index then Option.bind (read_given_char sep s) inner else inner s)"

type_synonym ipv4 = "nat \<times> nat \<times> nat \<times> nat"

definition read_octet :: "nat \<Rightarrow> string \<Rightarrow> (nat \<times> string) option" where
  "read_octet index = read_separator CHR ''.'' index (read_number 10 3 False 255)"

definition read_ipv4 :: "string \<Rightarrow> (ipv4 \<times> string) option" where
  "read_ipv4 s =
     Option.bind (read_octet 0 s) (\<lambda>(a, s1).
     Option.bind (read_octet 1 s1) (\<lambda>(b, s2).
     Option.bind (read_octet 2 s2) (\<lambda>(c, s3).
     Option.bind (read_octet 3 s3) (\<lambda>(d, s4). Some ((a, b, c, d), s4)))))"

text \<open>
  \<open>read_groups\<close>: up to \<open>limit\<close> sixteen-bit groups from group \<open>i\<close> on, the last two possibly an
  IPv4 address; the groups read, whether they end in an IPv4 address, and the rest of the text.
\<close>

function read_groups :: "nat \<Rightarrow> nat \<Rightarrow> string \<Rightarrow> nat list \<times> bool \<times> string" where
  "read_groups limit i s =
     (if limit \<le> i then ([], False, s)
      else
        case (if i < limit - 1 then read_separator CHR '':'' i read_ipv4 s else None) of
          Some ((a, b, c, d), r) \<Rightarrow> ([a * 256 + b, c * 256 + d], True, r)
        | None \<Rightarrow>
            (case read_separator CHR '':'' i (read_number 16 4 True 65535) s of
               None \<Rightarrow> ([], False, s)
             | Some (g, r) \<Rightarrow> (case read_groups limit (i + 1) r of (gs, v4, r') \<Rightarrow> (g # gs, v4, r'))))"
  by pat_completeness auto
termination by (relation "measure (\<lambda>(limit, i, s). limit - i)") auto

declare read_groups.simps [simp del]

definition read_ipv6 :: "string \<Rightarrow> (nat list \<times> string) option" where
  "read_ipv6 s =
     (case read_groups 8 0 s of
        (head, head_ipv4, s1) \<Rightarrow>
          if length head = 8 then Some (head, s1)
          else if head_ipv4 then None
          else
            Option.bind (read_given_char CHR '':'' s1) (\<lambda>s2.
            Option.bind (read_given_char CHR '':'' s2) (\<lambda>s3.
            (case read_groups (8 - (length head + 1)) 0 s3 of
               (tail, _, s4) \<Rightarrow>
                 Some (head @ replicate (8 - length head - length tail) 0 @ tail, s4)))))"

datatype ip_addr = V4 ipv4 | V6 "nat list"

definition parse_ip :: "string \<Rightarrow> ip_addr option" where
  "parse_ip s =
     (case (case read_ipv4 s of Some (a, r) \<Rightarrow> Some (V4 a, r)
            | None \<Rightarrow> map_option (\<lambda>(g, r). (V6 g, r)) (read_ipv6 s)) of
        Some (a, []) \<Rightarrow> Some a | _ \<Rightarrow> None)"

section \<open>Private hosts\<close>

fun private_v4 :: "ipv4 \<Rightarrow> bool" where
  "private_v4 (a, b, c, d) \<longleftrightarrow>
     a = 127 \<or>
     (a = 10 \<or> a = 172 \<and> 16 \<le> b \<and> b \<le> 31 \<or> a = 192 \<and> b = 168) \<or>
     (a = 169 \<and> b = 254) \<or>
     (a = 0 \<and> b = 0 \<and> c = 0 \<and> d = 0) \<or>
     (a = 255 \<and> b = 255 \<and> c = 255 \<and> d = 255)"

definition private_v6 :: "nat list \<Rightarrow> bool" where
  "private_v6 g \<longleftrightarrow>
     g = [0, 0, 0, 0, 0, 0, 0, 1] \<or> g = [0, 0, 0, 0, 0, 0, 0, 0] \<or>
     (word_of_nat (hd g) :: 16 word) AND 0xfe00 = 0xfc00 \<or>
     (word_of_nat (hd g) :: 16 word) AND 0xffc0 = 0xfe80"

definition strip_brackets :: "string \<Rightarrow> string" where
  "strip_brackets h =
     rev (dropWhile (\<lambda>c. c = CHR '']'') (rev (dropWhile (\<lambda>c. c = CHR ''['') h)))"

definition is_private_host :: "string \<Rightarrow> bool" where
  "is_private_host host =
     (let normalized = strip_brackets host
      in if eq_ignore_ascii_case normalized ''localhost'' then True
         else (case parse_ip normalized of
                 Some (V4 a) \<Rightarrow> private_v4 a
               | Some (V6 g) \<Rightarrow> private_v6 g
               | None \<Rightarrow> False))"

section \<open>URLs\<close>

type_synonym host_parser = "string \<Rightarrow> (string option \<times> string option) option"

definition validate_webhook_url :: "host_parser \<Rightarrow> string \<Rightarrow> bool \<Rightarrow> string result" where
  "validate_webhook_url uri url allow_private_urls =
     (let trimmed = trim url
      in if trimmed = [] then Inl (Validation ''webhook url must not be empty'')
         else if 2048 < length trimmed
         then Inl (Validation ''webhook url must be at most 2048 characters'')
         else
           (case uri trimmed of
              None \<Rightarrow> Inl (Validation ''webhook url is not a valid URL'')
            | Some (scheme, host) \<Rightarrow>
                if scheme \<noteq> Some ''http'' \<and> scheme \<noteq> Some ''https''
                then Inl (Validation ''webhook url must use http or https'')
                else
                  (case host of
                     None \<Rightarrow> Inl (Validation ''webhook url must include a host'')
                   | Some h \<Rightarrow>
                       if \<not> allow_private_urls \<and> is_private_host h
                       then Inl (Validation
                         ''webhook url must not target loopback or private network addresses'')
                       else Inr trimmed)))"

lemma validate_webhook_url_Inr:
  "validate_webhook_url uri url allow = Inr out \<Longrightarrow>
     out = trim url \<and> 0 < length out \<and> length out \<le> 2048 \<and>
     (\<exists>scheme h. uri out = Some (Some scheme, Some h) \<and> scheme \<in> {''http'', ''https''} \<and>
        (allow \<or> \<not> is_private_host h))"
  by (auto simp: validate_webhook_url_def Let_def split: if_splits option.splits)

section \<open>Dotted quads\<close>

text \<open>The decimal text of an octet, and the address text made of four.\<close>

definition digit_char :: "nat \<Rightarrow> char" where "digit_char n = char_of (48 + n)"

definition octet_text :: "nat \<Rightarrow> string" where
  "octet_text n =
     (if n < 10 then [digit_char n]
      else if n < 100 then [digit_char (n div 10), digit_char (n mod 10)]
      else [digit_char (n div 100), digit_char (n div 10 mod 10), digit_char (n mod 10)])"

definition quad_text :: "ipv4 \<Rightarrow> string" where
  "quad_text q = (case q of (a, b, c, d) \<Rightarrow>
     octet_text a @ ''.'' @ octet_text b @ ''.'' @ octet_text c @ ''.'' @ octet_text d)"

lemma byte_digit_char: "n < 10 \<Longrightarrow> byte (digit_char n) = 48 + n"
  by (simp add: byte_def digit_char_def)

lemma digit_char_digit: "n < 10 \<Longrightarrow> is_digit_radix 10 (digit_char n) \<and> digit_value (digit_char n) = n"
  by (simp add: is_digit_radix_def is_alnum_ascii_def is_digit_ascii_def digit_value_def
      byte_digit_char)

lemma digit_char_nonzero: "0 < n \<Longrightarrow> n < 10 \<Longrightarrow> digit_char n \<noteq> CHR ''0''"
proof
  assume "0 < n" "n < 10" "digit_char n = CHR ''0''"
  then have "byte CHR ''0'' = 48 + n" using byte_digit_char [of n] by simp
  with \<open>0 < n\<close> show False by (simp add: byte_def)
qed

lemma digit_radix_10: "is_digit_radix 10 x \<longleftrightarrow> 48 \<le> byte x \<and> byte x \<le> 57"
  by (auto simp: is_digit_radix_def is_alnum_ascii_def digit_value_def is_digit_ascii_def
      is_upper_ascii_def is_lower_ascii_def)

lemma octet_text_digits:
  assumes "n < 256"
  shows "list_all (is_digit_radix 10) (octet_text n) \<and> octet_text n \<noteq> [] \<and>
    length (octet_text n) \<le> 3 \<and> number_value 10 (octet_text n) = n \<and>
    (hd (octet_text n) = CHR ''0'' \<longrightarrow> length (octet_text n) = 1)"
proof -
  consider (one) "n < 10" | (two) "10 \<le> n" "n < 100" | (three) "100 \<le> n" by linarith
  then show ?thesis
  proof cases
    case one
    then show ?thesis by (simp add: octet_text_def digit_char_digit number_value_def)
  next
    case two
    then have "n div 10 < 10" "n mod 10 < 10" "n div 10 \<noteq> 0" by auto
    with two show ?thesis
      by (simp add: octet_text_def digit_char_digit number_value_def digit_char_nonzero)
  next
    case three
    then have "n div 100 < 10" "n div 10 mod 10 < 10" "n mod 10 < 10" "n div 100 \<noteq> 0"
      using assms by auto
    moreover have "n div 100 * 100 + n div 10 mod 10 * 10 + n mod 10 = n"
    proof -
      have "n div 10 div 10 * 10 + n div 10 mod 10 = n div 10" by simp
      moreover have "n div 10 div 10 = n div 100" by (simp add: div_mult2_eq [symmetric])
      moreover have "n div 10 * 10 + n mod 10 = n" by simp
      ultimately show ?thesis by linarith
    qed
    ultimately show ?thesis using three
      by (simp add: octet_text_def digit_char_digit number_value_def digit_char_nonzero)
  qed
qed

lemma read_number_octet:
  assumes "n < 256" and "rest = [] \<or> \<not> is_digit_radix 10 (hd rest)"
  shows "read_number 10 3 False 255 (octet_text n @ rest) = Some (n, rest)"
proof -
  have all: "\<forall>c \<in> set (octet_text n). is_digit_radix 10 c"
    using octet_text_digits [OF assms(1)] by (simp add: list_all_iff)
  have "takeWhile (is_digit_radix 10) rest = []" "dropWhile (is_digit_radix 10) rest = rest"
    using assms(2) by (cases rest; simp)+
  then have "takeWhile (is_digit_radix 10) (octet_text n @ rest) = octet_text n"
    "dropWhile (is_digit_radix 10) (octet_text n @ rest) = rest"
    using all by (simp_all add: takeWhile_append2 dropWhile_append2)
  then show ?thesis
    using octet_text_digits [OF assms(1)] assms(1) by (auto simp: read_number_def Let_def)
qed

lemma dot_no_digit [simp]: "\<not> is_digit_radix 10 CHR ''.''"
  by (simp add: is_digit_radix_def is_alnum_ascii_def is_digit_ascii_def is_upper_ascii_def
      is_lower_ascii_def byte_def)

lemma read_ipv4_quad:
  assumes "a < 256" "b < 256" "c < 256" "d < 256"
  shows "read_ipv4 (quad_text (a, b, c, d)) = Some ((a, b, c, d), [])"
  using read_number_octet [OF assms(1)] read_number_octet [OF assms(2)]
    read_number_octet [OF assms(3)] read_number_octet [OF assms(4), of "[]"]
  by (simp add: read_ipv4_def quad_text_def read_octet_def read_separator_def read_given_char_def)

lemma parse_ip_quad:
  "a < 256 \<Longrightarrow> b < 256 \<Longrightarrow> c < 256 \<Longrightarrow> d < 256 \<Longrightarrow>
     parse_ip (quad_text (a, b, c, d)) = Some (V4 (a, b, c, d))"
  by (simp add: parse_ip_def read_ipv4_quad)

lemma octet_text_chars: "n < 256 \<Longrightarrow> c \<in> set (octet_text n) \<Longrightarrow> is_digit_radix 10 c"
  using octet_text_digits [of n] by (simp add: list_all_iff)

lemma quad_text_chars:
  assumes "a < 256" "b < 256" "c < 256" "d < 256" "x \<in> set (quad_text (a, b, c, d))"
  shows "x = CHR ''.'' \<or> is_digit_radix 10 x"
  using assms octet_text_chars by (auto simp: quad_text_def)

lemma strip_brackets_id:
  assumes "CHR ''['' \<notin> set h" and "CHR '']'' \<notin> set h"
  shows "strip_brackets h = h"
proof -
  have drop_id: "dropWhile (\<lambda>c. c = x) l = l" if "x \<notin> set l" for x :: char and l
    using that by (cases l) auto
  show ?thesis using assms by (simp add: strip_brackets_def drop_id)
qed

lemma is_private_host_quad:
  assumes "a < 256" "b < 256" "c < 256" "d < 256"
  shows "is_private_host (quad_text (a, b, c, d)) \<longleftrightarrow> private_v4 (a, b, c, d)"
proof -
  let ?q = "quad_text (a, b, c, d)"
  have no: "CHR ''['' \<notin> set ?q" "CHR '']'' \<notin> set ?q" "CHR ''l'' \<notin> set ?q" "CHR ''L'' \<notin> set ?q"
    using quad_text_chars [OF assms, of "CHR ''[''"] quad_text_chars [OF assms, of "CHR '']''"]
      quad_text_chars [OF assms, of "CHR ''l''"] quad_text_chars [OF assms, of "CHR ''L''"]
    by (auto simp: digit_radix_10 byte_def)
  have "\<not> eq_ignore_ascii_case ?q ''localhost''"
  proof
    assume "eq_ignore_ascii_case ?q ''localhost''"
    then have m: "map lower_char ?q = map lower_char ''localhost''"
      by (simp add: eq_ignore_ascii_case_def to_ascii_lowercase_def)
    then obtain x r where x: "?q = x # r" and lx: "lower_char x = lower_char CHR ''l''"
      by (cases ?q) auto
    from x quad_text_chars [OF assms, of x] have "x = CHR ''.'' \<or> is_digit_radix 10 x" by simp
    then have "\<not> is_upper_ascii x" "byte x \<noteq> 108"
      by (auto simp: digit_radix_10 is_upper_ascii_def byte_def)
    then have "x = lower_char CHR ''l''" using lx by (simp add: lower_char_def)
    then have "byte x = 108" by (simp add: lower_char_def is_upper_ascii_def byte_def)
    with \<open>byte x \<noteq> 108\<close> show False by simp
  qed
  then show ?thesis
    using no parse_ip_quad [OF assms] by (simp add: is_private_host_def strip_brackets_id)
qed

end
