(* ===== verification/Webhooks.thy ===== *)
theory Webhooks
  imports Outbox WebhookUrl
begin

text \<open>
  Webhook subscriptions: \<open>src/db/webhooks.rs\<close>, \<open>src/services/webhooks.rs\<close> and the dispatcher of
  \<open>src/jobs/webhook_dispatcher.rs\<close>. The HTTP client is a parameter: the status an endpoint answers
  to a URL, headers and body, or nothing when the request fails.
\<close>

section \<open>Subscriptions\<close>

definition max_webhooks_per_tenant :: nat where "max_webhooks_per_tenant = 10"

text \<open>
  The tenant's row is locked for the whole transaction, so the count and the insert are one step.
\<close>

definition db_create_webhook ::
  "uuid \<Rightarrow> time \<Rightarrow> uuid \<Rightarrow> uuid \<Rightarrow> string \<Rightarrow> string \<Rightarrow> string list \<Rightarrow> webhook_record dbop" where
  "db_create_webhook i now tenant actor url secret events d =
     try_then (ensure (tenant_exists d tenant) (Internal ''database error: row not found'')) (\<lambda>_.
     try_then (ensure (count_where (\<lambda>w. wh_tenant_id w = tenant) (webhooks d) < max_webhooks_per_tenant)
       (Validation ''a tenant may register at most 10 webhooks'')) (\<lambda>_.
     try_then (require_fk (user_exists d actor)) (\<lambda>_.
     let row = \<lparr>wh_id = i, wh_tenant_id = tenant, wh_url = url, wh_secret = secret,
                wh_events = events, wh_is_active = True, wh_created_by = actor,
                wh_created_at = now, wh_updated_at = now\<rparr>
     in try_then (insert_row wh_id row (webhooks d)) (\<lambda>t. Inr (row, d\<lparr>webhooks := t\<rparr>)))))"

definition db_list_webhooks :: "uuid \<Rightarrow> db \<Rightarrow> webhook_record list" where
  "db_list_webhooks tenant d =
     order_desc (\<lambda>w. (wh_created_at w, wh_id w)) (select_where (\<lambda>w. wh_tenant_id w = tenant) (webhooks d))"

definition db_get_webhook :: "uuid \<Rightarrow> uuid \<Rightarrow> db \<Rightarrow> webhook_record result" where
  "db_get_webhook tenant i d =
     ok_or (fetch_optional (\<lambda>w. wh_tenant_id w = tenant \<and> wh_id w = i) (webhooks d))
       (NotFound ''webhook not found'')"

definition coalesce :: "'a option \<Rightarrow> 'a \<Rightarrow> 'a" where
  "coalesce x y = (case x of None \<Rightarrow> y | Some z \<Rightarrow> z)"

definition db_update_webhook ::
  "time \<Rightarrow> uuid \<Rightarrow> uuid \<Rightarrow> string option \<Rightarrow> string list option \<Rightarrow> bool option \<Rightarrow> webhook_record dbop" where
  "db_update_webhook now tenant i url events is_active d =
     (let P = (\<lambda>w. wh_tenant_id w = tenant \<and> wh_id w = i);
          f = (\<lambda>w. w\<lparr>wh_url := coalesce url (wh_url w), wh_events := coalesce events (wh_events w),
                    wh_is_active := coalesce is_active (wh_is_active w), wh_updated_at := now\<rparr>)
      in case returning P f (webhooks d) of
           [] \<Rightarrow> Inl (NotFound ''webhook not found'')
         | w # _ \<Rightarrow> Inr (w, d\<lparr>webhooks := update_where P f (webhooks d)\<rparr>))"

text \<open>The foreign key of the deliveries is \<open>ON DELETE CASCADE\<close>.\<close>

definition db_delete_webhook :: "uuid \<Rightarrow> uuid \<Rightarrow> unit dbop" where
  "db_delete_webhook tenant i d =
     (let P = (\<lambda>w. wh_tenant_id w = tenant \<and> wh_id w = i)
      in if row_exists P (webhooks d)
         then Inr ((), d\<lparr>webhooks := delete_where P (webhooks d),
                         deliveries := delete_where (\<lambda>r. wd_webhook_id r = i) (deliveries d)\<rparr>)
         else Inl (NotFound ''webhook not found''))"

definition svc_create_webhook ::
  "env \<Rightarrow> host_parser \<Rightarrow> uuid \<Rightarrow> time \<Rightarrow> string \<Rightarrow> uuid \<Rightarrow> uuid \<Rightarrow> string \<Rightarrow> string list \<Rightarrow> webhook_record app" where
  "svc_create_webhook e uri i now secret tenant actor url events =
     then_do (lift_result (validate_webhook_url uri url (webhook_allow_private_urls (cfg e)))) (\<lambda>url.
     then_do (lift_result (validate_webhook_events events)) (\<lambda>events.
     db_run (db_create_webhook i now tenant actor url secret events)))"

definition svc_update_webhook ::
  "env \<Rightarrow> host_parser \<Rightarrow> time \<Rightarrow> uuid \<Rightarrow> uuid \<Rightarrow> string option \<Rightarrow> string list option \<Rightarrow> bool option \<Rightarrow>
   webhook_record app" where
  "svc_update_webhook e uri now tenant i url events is_active =
     (if url = None \<and> events = None \<and> is_active = None
      then fail (Validation ''at least one webhook field must be provided'')
      else
        then_do (lift_result (transpose_opt
          (\<lambda>u. validate_webhook_url uri u (webhook_allow_private_urls (cfg e))) url)) (\<lambda>url.
        then_do (lift_result (transpose_opt validate_webhook_events events)) (\<lambda>events.
        db_run (db_update_webhook now tenant i url events is_active))))"

definition svc_delete_webhook :: "uuid \<Rightarrow> uuid \<Rightarrow> unit app" where
  "svc_delete_webhook tenant i = db_run (db_delete_webhook tenant i)"

text \<open>What the API shows of a webhook: everything but the signing secret.\<close>

record webhook_response =
  wr_id :: uuid
  wr_tenant_id :: uuid
  wr_url :: string
  wr_events :: "string list"
  wr_is_active :: bool
  wr_created_by :: uuid
  wr_created_at :: time
  wr_updated_at :: time

definition webhook_response :: "webhook_record \<Rightarrow> webhook_response" where
  "webhook_response w =
     \<lparr>wr_id = wh_id w, wr_tenant_id = wh_tenant_id w, wr_url = wh_url w, wr_events = wh_events w,
      wr_is_active = wh_is_active w, wr_created_by = wh_created_by w,
      wr_created_at = wh_created_at w, wr_updated_at = wh_updated_at w\<rparr>"

section \<open>Fan-out\<close>

text \<open>The \<open>INSERT .. SELECT\<close>: \<open>ids k\<close> is the \<open>gen_random_uuid()\<close> of the k-th selected webhook.\<close>

definition subscribed :: "uuid \<Rightarrow> string \<Rightarrow> webhook_record \<Rightarrow> bool" where
  "subscribed tenant event w \<longleftrightarrow> wh_tenant_id w = tenant \<and> wh_is_active w \<and> event \<in> set (wh_events w)"

definition delivery_row ::
  "uuid \<Rightarrow> time \<Rightarrow> string \<Rightarrow> json \<Rightarrow> webhook_record \<Rightarrow> webhook_delivery_record" where
  "delivery_row i now event payload w =
     \<lparr>wd_id = i, wd_webhook_id = wh_id w, wd_tenant_id = wh_tenant_id w, wd_event_type = event,
      wd_payload = payload, wd_status = ''pending'', wd_attempts = 0, wd_max_attempts = 5,
      wd_scheduled_at = now, wd_delivered_at = None, wd_last_error = None, wd_created_at = now\<rparr>"

fun insert_deliveries ::
  "(nat \<Rightarrow> uuid) \<Rightarrow> nat \<Rightarrow> time \<Rightarrow> string \<Rightarrow> json \<Rightarrow> webhook_record list \<Rightarrow>
   webhook_delivery_record list \<Rightarrow> webhook_delivery_record list result" where
  "insert_deliveries ids k now event payload [] t = Inr t"
| "insert_deliveries ids k now event payload (w # ws) t =
     try_then (insert_row wd_id (delivery_row (ids k) now event payload w) t)
       (insert_deliveries ids (k + 1) now event payload ws)"

definition db_enqueue_webhook_deliveries ::
  "(nat \<Rightarrow> uuid) \<Rightarrow> time \<Rightarrow> uuid \<Rightarrow> string \<Rightarrow> json \<Rightarrow> nat dbop" where
  "db_enqueue_webhook_deliveries ids now tenant event payload d =
     (let ws = select_where (subscribed tenant event) (webhooks d)
      in try_then (insert_deliveries ids 0 now event payload ws (deliveries d)) (\<lambda>t.
         Inr (length ws, d\<lparr>deliveries := t\<rparr>)))"

definition emit_task_event ::
  "(nat \<Rightarrow> uuid) \<Rightarrow> time \<Rightarrow> uuid \<Rightarrow> string \<Rightarrow> json \<Rightarrow> unit app" where
  "emit_task_event ids now tenant event payload =
     logged (db_run (db_enqueue_webhook_deliveries ids now tenant event payload))"

section \<open>The delivery outbox\<close>

definition delivery_claimable :: "time \<Rightarrow> webhook_delivery_record \<Rightarrow> bool" where
  "delivery_claimable now r \<longleftrightarrow> wd_status r = ''pending'' \<and> wd_scheduled_at r \<le> now"

definition delivery_claimed :: "time \<Rightarrow> webhook_delivery_record \<Rightarrow> webhook_delivery_record" where
  "delivery_claimed now r =
     r\<lparr>wd_attempts := wd_attempts r + 1, wd_scheduled_at := now + seconds 60\<rparr>"

definition db_claim_pending_webhook_deliveries ::
  "time \<Rightarrow> nat \<Rightarrow> db \<Rightarrow> webhook_delivery_record list \<times> db" where
  "db_claim_pending_webhook_deliveries now limit d =
     (let ids = due_batch wd_id (delivery_claimable now) wd_scheduled_at limit (deliveries d);
          P = (\<lambda>r. wd_id r \<in> set ids)
      in (returning P (delivery_claimed now) (deliveries d),
          d\<lparr>deliveries := update_where P (delivery_claimed now) (deliveries d)\<rparr>))"

definition delivery_delivered :: "time \<Rightarrow> webhook_delivery_record \<Rightarrow> webhook_delivery_record" where
  "delivery_delivered now r =
     r\<lparr>wd_status := ''delivered'', wd_delivered_at := Some now, wd_last_error := None\<rparr>"

definition db_mark_webhook_delivery_delivered :: "time \<Rightarrow> uuid \<Rightarrow> db \<Rightarrow> db" where
  "db_mark_webhook_delivery_delivered now i d =
     d\<lparr>deliveries := update_where (\<lambda>r. wd_id r = i) (delivery_delivered now) (deliveries d)\<rparr>"

definition delivery_failed ::
  "time \<Rightarrow> webhook_delivery_record \<Rightarrow> string \<Rightarrow> webhook_delivery_record \<Rightarrow> webhook_delivery_record" where
  "delivery_failed now dl message r =
     (let status = (if wd_max_attempts dl \<le> wd_attempts dl then ''dead_letter'' else ''pending'');
          next_time = (if status = ''dead_letter'' then now else retry_backoff now (wd_attempts dl))
      in r\<lparr>wd_status := status, wd_scheduled_at := next_time, wd_last_error := Some message\<rparr>)"

definition db_fail_webhook_delivery :: "time \<Rightarrow> webhook_delivery_record \<Rightarrow> string \<Rightarrow> db \<Rightarrow> db" where
  "db_fail_webhook_delivery now dl message d =
     d\<lparr>deliveries := update_where (\<lambda>r. wd_id r = wd_id dl) (delivery_failed now dl message)
         (deliveries d)\<rparr>"

definition db_redeliver_webhook_delivery ::
  "time \<Rightarrow> uuid \<Rightarrow> uuid \<Rightarrow> uuid \<Rightarrow> webhook_delivery_record dbop" where
  "db_redeliver_webhook_delivery now tenant webhook delivery d =
     (let Q = (\<lambda>r. wd_tenant_id r = tenant \<and> wd_webhook_id r = webhook \<and> wd_id r = delivery);
          P = (\<lambda>r. Q r \<and> (wd_status r = ''delivered'' \<or> wd_status r = ''dead_letter''));
          f = (\<lambda>r. r\<lparr>wd_status := ''pending'', wd_attempts := 0, wd_scheduled_at := now,
                    wd_delivered_at := None, wd_last_error := None\<rparr>)
      in case returning P f (deliveries d) of
           r # _ \<Rightarrow> Inr (r, d\<lparr>deliveries := update_where P f (deliveries d)\<rparr>)
         | [] \<Rightarrow>
             if row_exists Q (deliveries d)
             then Inl (Conflict ''delivery is already pending and will be attempted shortly'')
             else Inl (NotFound ''webhook delivery not found''))"

definition db_list_webhook_deliveries ::
  "uuid \<Rightarrow> uuid \<Rightarrow> cursor option \<Rightarrow> nat \<Rightarrow> db \<Rightarrow> webhook_delivery_record list \<times> cursor option" where
  "db_list_webhook_deliveries tenant webhook c limit d =
     keyset_page (\<lambda>r. (wd_created_at r, wd_id r))
       (select_where (\<lambda>r. wd_tenant_id r = tenant \<and> wd_webhook_id r = webhook) (deliveries d)) c limit"

definition svc_list_webhook_deliveries ::
  "uuid \<Rightarrow> uuid \<Rightarrow> cursor option \<Rightarrow> nat \<Rightarrow> (webhook_delivery_record list \<times> cursor option) app" where
  "svc_list_webhook_deliveries tenant webhook c limit =
     then_do (db_try (db_get_webhook tenant webhook)) (\<lambda>_.
     db_read (db_list_webhook_deliveries tenant webhook c limit))"

definition svc_redeliver_webhook_delivery ::
  "time \<Rightarrow> uuid \<Rightarrow> uuid \<Rightarrow> uuid \<Rightarrow> webhook_delivery_record app" where
  "svc_redeliver_webhook_delivery now tenant webhook delivery =
     then_do (db_try (db_get_webhook tenant webhook)) (\<lambda>_.
     db_run (db_redeliver_webhook_delivery now tenant webhook delivery))"

section \<open>The dispatcher\<close>

definition webhook_batch_size :: nat where "webhook_batch_size = 50"

definition webhook_signature :: "env \<Rightarrow> string \<Rightarrow> string \<Rightarrow> string" where
  "webhook_signature e secret body = ''sha256='' @ hmac_sha256_hex e secret body"

record http_request =
  rq_url :: string
  rq_headers :: "(string \<times> string) list"
  rq_body :: string

type_synonym http_client = "http_request \<Rightarrow> nat option"

definition delivery_body :: "env \<Rightarrow> webhook_delivery_record \<Rightarrow> string" where
  "delivery_body e dl = json_text e (JObject
     [(''id'', JUuid (wd_id dl)), (''event'', JString (wd_event_type dl)),
      (''created_at'', JTime (wd_created_at dl)), (''data'', wd_payload dl)])"

definition delivery_request :: "env \<Rightarrow> webhook_record \<Rightarrow> webhook_delivery_record \<Rightarrow> http_request" where
  "delivery_request e w dl =
     \<lparr>rq_url = wh_url w,
      rq_headers = [(''content-type'', ''application/json''), (''x-fluxa-event'', wd_event_type dl),
        (''x-fluxa-delivery'', uuid_str e (wd_id dl)),
        (''x-fluxa-signature'', webhook_signature e (wh_secret w) (delivery_body e dl))],
      rq_body = delivery_body e dl\<rparr>"

definition send_delivery :: "env \<Rightarrow> http_client \<Rightarrow> webhook_delivery_record \<Rightarrow> db \<Rightarrow> unit result" where
  "send_delivery e client dl d =
     try_then (db_get_webhook (wd_tenant_id dl) (wd_webhook_id dl) d) (\<lambda>w.
     if \<not> wh_is_active w then Inl (Validation ''webhook is disabled'')
     else (case client (delivery_request e w dl) of
             None \<Rightarrow> Inl (Internal ''webhook request failed'')
           | Some status \<Rightarrow>
               if 200 \<le> status \<and> status < 300 then Inr ()
               else Inl (Internal ''webhook endpoint responded with status'')))"

definition dispatch_one :: "env \<Rightarrow> http_client \<Rightarrow> time \<Rightarrow> webhook_delivery_record \<Rightarrow> db \<Rightarrow> db" where
  "dispatch_one e client now dl d =
     (case send_delivery e client dl d of
        Inr _ \<Rightarrow> db_mark_webhook_delivery_delivered now (wd_id dl) d
      | Inl err \<Rightarrow> db_fail_webhook_delivery now dl (error_text err) d)"

definition dispatch_pending_webhooks :: "env \<Rightarrow> http_client \<Rightarrow> time \<Rightarrow> db \<Rightarrow> db" where
  "dispatch_pending_webhooks e client now d =
     (case db_claim_pending_webhook_deliveries now webhook_batch_size d of
        (batch, d') \<Rightarrow> fold (dispatch_one e client now) batch d')"

section \<open>Laws\<close>

lemma delivery_claimed_id: "wd_id (delivery_claimed now x) = wd_id x"
  by (simp add: delivery_claimed_def)

lemmas delivery_batch =
  batch_returning [where ident = wd_id, OF _ delivery_claimed_id]
  batch_ids [where ident = wd_id, OF delivery_claimed_id]
  batch_length [where ident = wd_id, OF _ delivery_claimed_id]
  batch_rows [where ident = wd_id, OF delivery_claimed_id]

interpretation delivery_outbox: outbox deliveries wd_id wd_status wd_attempts wd_max_attempts
  wd_scheduled_at db_claim_pending_webhook_deliveries db_fail_webhook_delivery
  db_mark_webhook_delivery_delivered "''delivered''"
proof
  fix r q :: webhook_delivery_record and now :: time and n :: nat and s :: db and msg :: string
    and i :: uuid
  let ?c = "db_claim_pending_webhook_deliveries now n s"
  show "r \<in> set (fst ?c) \<Longrightarrow> \<exists>q\<in>set (deliveries s). wd_id r = wd_id q \<and>
      wd_status q = ''pending'' \<and> wd_scheduled_at q \<le> now \<and> wd_status r = ''pending'' \<and>
      wd_attempts r = wd_attempts q + 1 \<and> wd_max_attempts r = wd_max_attempts q \<and>
      wd_scheduled_at r = now + seconds 60"
    if dist: "distinct (map wd_id (deliveries s))"
  proof -
    assume "r \<in> set (fst ?c)"
    then have "\<exists>q \<in> set (deliveries s). delivery_claimable now q \<and> r = delivery_claimed now q"
      unfolding db_claim_pending_webhook_deliveries_def Let_def fst_conv
      by (rule delivery_batch(1) [OF dist])
    then show ?thesis by (auto simp: delivery_claimable_def delivery_claimed_def)
  qed
  show "length (fst ?c) \<le> n" if "distinct (map wd_id (deliveries s))"
    by (simp add: db_claim_pending_webhook_deliveries_def Let_def delivery_batch(3) [OF that]
        due_batch_length)
  show "wd_id q \<in> wd_id ` set (fst ?c)"
    if "distinct (map wd_id (deliveries s))" "length (fst ?c) < n" "q \<in> set (deliveries s)"
      "wd_status q = ''pending''" "wd_scheduled_at q \<le> now"
    using that by (simp add: db_claim_pending_webhook_deliveries_def Let_def delivery_batch(2,3)
        due_batch_all delivery_claimable_def)
  show "set (deliveries (snd ?c)) =
      {q \<in> set (deliveries s). wd_id q \<notin> wd_id ` set (fst ?c)} \<union> set (fst ?c)"
    by (simp add: db_claim_pending_webhook_deliveries_def Let_def delivery_batch(4))
  show "map wd_id (deliveries (snd ?c)) = map wd_id (deliveries s)"
    by (simp add: db_claim_pending_webhook_deliveries_def Let_def map_key_update_where
        delivery_claimed_id)
  show "wd_attempts r < wd_max_attempts r \<and> wd_status q = ''pending'' \<and>
      wd_scheduled_at q = retry_backoff now (wd_attempts r) \<or>
      wd_max_attempts r \<le> wd_attempts r \<and> wd_status q = ''dead_letter'' \<and> wd_scheduled_at q = now"
    if "q \<in> set (deliveries (db_fail_webhook_delivery now r msg s))" "wd_id q = wd_id r"
    using that by (auto simp: db_fail_webhook_delivery_def delivery_failed_def in_update_where)
  show "\<exists>f. deliveries (db_fail_webhook_delivery now r msg s) = map f (deliveries s) \<and>
      (\<forall>q. wd_id (f q) = wd_id q \<and> wd_attempts (f q) = wd_attempts q \<and>
         wd_max_attempts (f q) = wd_max_attempts q \<and> (wd_id q \<noteq> wd_id r \<longrightarrow> f q = q))"
    by (rule exI [of _ "\<lambda>q. if wd_id q = wd_id r then delivery_failed now r msg q else q"])
      (simp add: db_fail_webhook_delivery_def update_where_def delivery_failed_def)
  show "map wd_id (deliveries (db_mark_webhook_delivery_delivered now i s)) = map wd_id (deliveries s)"
    by (simp add: db_mark_webhook_delivery_delivered_def map_key_update_where delivery_delivered_def)
  show "wd_status q = ''delivered''"
    if "q \<in> set (deliveries (db_mark_webhook_delivery_delivered now i s))" and i: "wd_id q = i"
  proof -
    from that(1) consider "wd_id q \<noteq> i" | x where "q = delivery_delivered now x"
      unfolding db_mark_webhook_delivery_delivered_def by (simp add: in_update_where) blast
    then show ?thesis using i by cases (simp_all add: delivery_delivered_def)
  qed
qed simp

text \<open>Fan-out creates exactly one pending delivery per subscribed webhook, in table order.\<close>

lemma insert_deliveries_Inr:
  "insert_deliveries ids k now event payload ws t = Inr t' \<Longrightarrow>
     map wd_webhook_id (drop (length t) t') = map wh_id ws \<and> take (length t) t' = t \<and>
     length t' = length t + length ws \<and>
     (\<forall>r \<in> set (drop (length t) t'). wd_event_type r = event \<and> wd_payload r = payload \<and>
        wd_status r = ''pending'' \<and> wd_attempts r = 0 \<and> wd_scheduled_at r = now)"
proof (induction ws arbitrary: k t)
  case Nil
  then show ?case by simp
next
  case (Cons w ws)
  let ?r = "delivery_row (ids k) now event payload w"
  from Cons.prems have rest: "insert_deliveries ids (k + 1) now event payload ws (t @ [?r]) = Inr t'"
    by (auto simp: try_then_Inr insert_row_Inr)
  note ih = Cons.IH [OF rest]
  then have "take (Suc (length t)) t' = t @ [?r]" and len: "length t < length t'" by auto
  then have t: "take (length t) t' = t" and n: "t' ! length t = ?r"
    by (metis append_eq_conv_conj take_Suc_conv_app_nth length_take append_same_eq
        append_eq_append_conv butlast_snoc last_snoc take_butlast)+
  have "drop (length t) t' = ?r # drop (Suc (length t)) t'"
    using Cons_nth_drop_Suc [OF len] n by simp
  with ih t show ?case by (simp add: delivery_row_def)
qed

text \<open>With fresh identifiers the fan-out succeeds, and this is what it inserts.\<close>

definition deliveries_for ::
  "(nat \<Rightarrow> uuid) \<Rightarrow> nat \<Rightarrow> time \<Rightarrow> string \<Rightarrow> json \<Rightarrow> webhook_record list \<Rightarrow> webhook_delivery_record list" where
  "deliveries_for ids k now event payload ws =
     map (\<lambda>(j, w). delivery_row (ids j) now event payload w) (enumerate k ws)"

lemma insert_deliveries_fresh:
  assumes "inj ids" and "\<And>j. k \<le> j \<Longrightarrow> ids j \<notin> wd_id ` set t"
  shows "insert_deliveries ids k now event payload ws t =
    Inr (t @ deliveries_for ids k now event payload ws)"
  using assms(2)
proof (induction ws arbitrary: k t)
  case Nil
  then show ?case by (simp add: deliveries_for_def)
next
  case (Cons w ws)
  let ?r = "delivery_row (ids k) now event payload w"
  have id: "wd_id ?r = ids k" by (simp add: delivery_row_def)
  have "insert_row wd_id ?r t = Inr (t @ [?r])"
    using Cons.prems [of k] by (simp add: insert_row_Inr id)
  moreover have "ids j \<notin> wd_id ` set (t @ [?r])" if "Suc k \<le> j" for j
    using Cons.prems [of j] that injD [OF assms(1), of j k] by (auto simp: id)
  ultimately show ?case
    using Cons.IH [of "Suc k" "t @ [?r]"] by (simp add: deliveries_for_def)
qed

lemma enqueue_fresh:
  assumes "inj ids" and "\<And>j. ids j \<notin> wd_id ` set (deliveries d)"
  shows "db_enqueue_webhook_deliveries ids now tenant event payload d =
    Inr (length (filter (subscribed tenant event) (webhooks d)),
      d\<lparr>deliveries := deliveries d @
        deliveries_for ids 0 now event payload (filter (subscribed tenant event) (webhooks d))\<rparr>)"
  using insert_deliveries_fresh [of ids 0 "deliveries d"] assms
  by (simp add: db_enqueue_webhook_deliveries_def select_where_def Let_def)

end
