(* ===== verification/Tasks.thy ===== *)
theory Tasks
  imports Projects Webhooks
begin

text \<open>
  Tasks: \<open>src/db/tasks.rs\<close>, the operations on the tables \<open>tasks\<close> and \<open>task_audit_log\<close>. Every
  write is a transaction that also appends audit rows. Full-text search and \<open>ILIKE\<close> are
  PostgreSQL's and stay parameters of \<open>env\<close>.
\<close>

section \<open>The audit trail of a task\<close>

definition task_audit_row ::
  "uuid \<Rightarrow> time \<Rightarrow> uuid \<Rightarrow> uuid \<Rightarrow> uuid \<Rightarrow> string \<Rightarrow> json \<Rightarrow> task_audit_record" where
  "task_audit_row i now task tenant actor event payload =
     \<lparr>ta_id = i, ta_task_id = Some task, ta_tenant_id = tenant, ta_actor_user_id = actor,
      ta_event_type = event, ta_payload = payload, ta_created_at = now\<rparr>"

text \<open>The audit insert of a transaction, whose foreign keys the task's own row has passed.\<close>

definition insert_task_audit :: "task_audit_record \<Rightarrow> unit dbop" where
  "insert_task_audit row d =
     try_then (require_fk (fk_opt (task_exists d) (ta_task_id row) \<and>
       tenant_exists d (ta_tenant_id row) \<and> user_exists d (ta_actor_user_id row))) (\<lambda>_.
     try_then (insert_row ta_id row (task_audit d)) (\<lambda>t. Inr ((), d\<lparr>task_audit := t\<rparr>)))"

lemma insert_task_audit_Inr:
  "insert_task_audit row d = Inr (u, d') \<longleftrightarrow>
     fk_opt (task_exists d) (ta_task_id row) \<and> tenant_exists d (ta_tenant_id row) \<and>
     user_exists d (ta_actor_user_id row) \<and> ta_id row \<notin> ta_id ` set (task_audit d) \<and>
     d' = d\<lparr>task_audit := task_audit d @ [row]\<rparr>"
  by (auto simp: insert_task_audit_def try_then_Inr insert_row_Inr)

section \<open>Reads\<close>

record dashboard_summary =
  ds_open_task_count :: nat
  ds_in_progress_task_count :: nat
  ds_done_task_count :: nat
  ds_overdue_task_count :: nat
  ds_recent_activity_count :: nat

definition db_dashboard_summary :: "time \<Rightarrow> uuid \<Rightarrow> db \<Rightarrow> dashboard_summary" where
  "db_dashboard_summary now tenant d =
     (let ts = select_where (\<lambda>t. tk_tenant_id t = tenant) (tasks d)
      in \<lparr>ds_open_task_count = count_where (\<lambda>t. tk_status t = ''open'') ts,
          ds_in_progress_task_count = count_where (\<lambda>t. tk_status t = ''in_progress'') ts,
          ds_done_task_count = count_where (\<lambda>t. tk_status t = ''done'') ts,
          ds_overdue_task_count = count_where (is_overdue now) ts,
          ds_recent_activity_count =
            count_where (\<lambda>a. ta_tenant_id a = tenant \<and> now - days 7 \<le> ta_created_at a) (task_audit d)\<rparr>)"

definition db_get_task :: "uuid \<Rightarrow> uuid \<Rightarrow> db \<Rightarrow> task_record option" where
  "db_get_task tenant i d = fetch_optional (\<lambda>t. tk_tenant_id t = tenant \<and> tk_id t = i) (tasks d)"

definition filter_eq :: "'a option \<Rightarrow> 'a \<Rightarrow> bool" where
  "filter_eq f x \<longleftrightarrow> (case f of None \<Rightarrow> True | Some y \<Rightarrow> x = y)"

text \<open>A comparison with \<open>NULL\<close> selects nothing.\<close>

definition filter_time :: "(time \<Rightarrow> time \<Rightarrow> bool) \<Rightarrow> time option \<Rightarrow> time option \<Rightarrow> bool" where
  "filter_time rel f x \<longleftrightarrow>
     (case f of None \<Rightarrow> True | Some b \<Rightarrow> (case x of None \<Rightarrow> False | Some t \<Rightarrow> rel t b))"

definition filter_opt_eq :: "'a option \<Rightarrow> 'a option \<Rightarrow> bool" where
  "filter_opt_eq f x \<longleftrightarrow> (case f of None \<Rightarrow> True | Some y \<Rightarrow> x = Some y)"

definition text_matches :: "env \<Rightarrow> string option \<Rightarrow> task_record \<Rightarrow> bool" where
  "text_matches e q t \<longleftrightarrow>
     (case q of None \<Rightarrow> True
      | Some query \<Rightarrow>
          (let trimmed = trim query
           in if 3 \<le> char_count trimmed
              then tsquery_matches e trimmed (tk_title t) (tk_description t)
              else let like = ''%'' @ trimmed @ ''%''
                   in ilike e like (tk_title t) \<or>
                      ilike e like (case tk_description t of None \<Rightarrow> [] | Some s \<Rightarrow> s)))"

definition in_archived_project :: "db \<Rightarrow> task_record \<Rightarrow> bool" where
  "in_archived_project d t \<longleftrightarrow>
     row_exists (\<lambda>p. tk_project_id t = Some (pj_id p) \<and> pj_archived_at p \<noteq> None) (projects d)"

definition task_matches :: "env \<Rightarrow> db \<Rightarrow> task_filters \<Rightarrow> task_record \<Rightarrow> bool" where
  "task_matches e d f t \<longleftrightarrow>
     filter_eq (map_option task_status_str (tf_status f)) (tk_status t) \<and>
     filter_eq (map_option task_priority_str (tf_priority f)) (tk_priority t) \<and>
     filter_opt_eq (tf_project_id f) (tk_project_id t) \<and>
     filter_opt_eq (tf_assignee_id f) (tk_assignee_id t) \<and>
     (case tf_label_id f of None \<Rightarrow> True
      | Some l \<Rightarrow> row_exists (\<lambda>tl. tl_task_id tl = tk_id t \<and> tl_label_id tl = l) (task_labels d)) \<and>
     filter_time (\<le>) (tf_due_before f) (tk_due_at t) \<and>
     filter_time (\<ge>) (tf_due_after f) (tk_due_at t) \<and>
     filter_time (\<ge>) (tf_updated_after f) (Some (tk_updated_at t)) \<and>
     text_matches e (tf_q f) t \<and>
     \<not> in_archived_project d t"

definition task_cursor_of :: "task_record \<Rightarrow> cursor" where
  "task_cursor_of t = (tk_updated_at t, tk_id t)"

definition listed_tasks :: "env \<Rightarrow> uuid \<Rightarrow> task_filters \<Rightarrow> db \<Rightarrow> task_record list" where
  "listed_tasks e tenant f d =
     select_where (\<lambda>t. tk_tenant_id t = tenant \<and> task_matches e d f t) (tasks d)"

definition db_list_tasks ::
  "env \<Rightarrow> uuid \<Rightarrow> task_filters \<Rightarrow> db \<Rightarrow> cursor option \<Rightarrow> nat \<Rightarrow> task_record list \<times> cursor option" where
  "db_list_tasks e tenant f d c limit = keyset_page task_cursor_of (listed_tasks e tenant f d) c limit"

definition db_export_tasks ::
  "env \<Rightarrow> uuid \<Rightarrow> task_filters \<Rightarrow> cursor option \<Rightarrow> nat \<Rightarrow> db \<Rightarrow> task_record list" where
  "db_export_tasks e tenant f c limit d =
     keyset_rows task_cursor_of (listed_tasks e tenant f d) c limit"

definition task_audit_cursor_of :: "task_audit_record \<Rightarrow> cursor" where
  "task_audit_cursor_of a = (ta_created_at a, ta_id a)"

definition task_audit_rows :: "uuid \<Rightarrow> uuid \<Rightarrow> db \<Rightarrow> task_audit_record list" where
  "task_audit_rows tenant i d =
     select_where (\<lambda>a. ta_tenant_id a = tenant \<and> ta_task_id a = Some i) (task_audit d)"

definition db_list_task_audit ::
  "uuid \<Rightarrow> uuid \<Rightarrow> db \<Rightarrow> cursor option \<Rightarrow> nat \<Rightarrow> task_audit_record list \<times> cursor option" where
  "db_list_task_audit tenant i d c limit =
     keyset_page task_audit_cursor_of (task_audit_rows tenant i d) c limit"

interpretation task_listing: keyset_listing task_cursor_of "listed_tasks e tenant f"
  "db_list_tasks e tenant f" for e tenant f
  by (rule keyset_listing_of_page) (simp add: db_list_tasks_def)

interpretation task_audit_listing: keyset_listing task_audit_cursor_of "task_audit_rows tenant i"
  "db_list_task_audit tenant i" for tenant i
  by (rule keyset_listing_of_page) (simp add: db_list_task_audit_def)

section \<open>Writes\<close>

text \<open>\<open>i\<close> and \<open>aid\<close> are the fresh identifiers of the task and of its audit row.\<close>

definition new_task_row ::
  "uuid \<Rightarrow> time \<Rightarrow> uuid \<Rightarrow> uuid \<Rightarrow> create_task_input \<Rightarrow> task_record" where
  "new_task_row i now tenant actor input =
     \<lparr>tk_id = i, tk_tenant_id = tenant, tk_project_id = ct_project_id input,
      tk_title = trim (ct_title input), tk_description = ct_description input,
      tk_status = task_status_str (coalesce (ct_status input) StOpen),
      tk_priority = task_priority_str (coalesce (ct_priority input) PrMedium),
      tk_assignee_id = ct_assignee_id input, tk_due_at = ct_due_at input, tk_created_by = actor,
      tk_updated_by = actor, tk_created_at = now, tk_updated_at = now\<rparr>"

definition task_fks :: "db \<Rightarrow> task_record \<Rightarrow> bool" where
  "task_fks d t \<longleftrightarrow>
     tenant_exists d (tk_tenant_id t) \<and> fk_opt (project_exists d) (tk_project_id t) \<and>
     fk_opt (user_exists d) (tk_assignee_id t) \<and> user_exists d (tk_created_by t) \<and>
     user_exists d (tk_updated_by t)"

definition db_create_task ::
  "uuid \<Rightarrow> uuid \<Rightarrow> time \<Rightarrow> uuid \<Rightarrow> uuid \<Rightarrow> create_task_input \<Rightarrow> task_record dbop" where
  "db_create_task i aid now tenant actor input d =
     (let task = new_task_row i now tenant actor input
      in
        try_then (require_fk (task_fks d task)) (\<lambda>_.
        try_then (insert_row tk_id task (tasks d)) (\<lambda>t.
        try_then (insert_task_audit (task_audit_row aid now i tenant actor ''task_created'' (JObject
          [(''project_id'', json_opt JUuid (tk_project_id task)), (''title'', JString (tk_title task)),
           (''status'', JString (tk_status task)), (''priority'', JString (tk_priority task)),
           (''assignee_id'', json_opt JUuid (tk_assignee_id task)),
           (''due_at'', json_opt JTime (tk_due_at task))])) (d\<lparr>tasks := t\<rparr>)) (\<lambda>(_, d').
        Inr (task, d')))))"

definition no_task_changes :: "update_task_input \<Rightarrow> bool" where
  "no_task_changes input \<longleftrightarrow>
     up_title input = None \<and> up_description input = None \<and> up_status input = None \<and>
     up_priority input = None \<and> up_project_id input = None \<and> up_assignee_id input = None \<and>
     up_due_at input = None"

definition apply_task_update :: "time \<Rightarrow> uuid \<Rightarrow> update_task_input \<Rightarrow> task_record \<Rightarrow> task_record" where
  "apply_task_update now actor input t =
     t\<lparr>tk_title := (case up_title input of None \<Rightarrow> tk_title t | Some s \<Rightarrow> trim s),
       tk_description := coalesce (up_description input) (tk_description t),
       tk_status := (case up_status input of None \<Rightarrow> tk_status t | Some s \<Rightarrow> task_status_str s),
       tk_priority := (case up_priority input of None \<Rightarrow> tk_priority t | Some p \<Rightarrow> task_priority_str p),
       tk_project_id := coalesce (up_project_id input) (tk_project_id t),
       tk_assignee_id := coalesce (up_assignee_id input) (tk_assignee_id t),
       tk_due_at := coalesce (up_due_at input) (tk_due_at t),
       tk_updated_by := actor, tk_updated_at := now\<rparr>"

definition update_task_payload :: "update_task_input \<Rightarrow> json" where
  "update_task_payload input = JObject
     [(''project_id'', json_opt (json_opt JUuid) (up_project_id input)),
      (''title'', json_opt JString (up_title input)),
      (''description'', json_opt (json_opt JString) (up_description input)),
      (''status'', json_opt (\<lambda>s. JString (task_status_str s)) (up_status input)),
      (''priority'', json_opt (\<lambda>p. JString (task_priority_str p)) (up_priority input)),
      (''assignee_id'', json_opt (json_opt JUuid) (up_assignee_id input)),
      (''due_at'', json_opt (json_opt JTime) (up_due_at input))]"

definition db_update_task ::
  "uuid \<Rightarrow> time \<Rightarrow> uuid \<Rightarrow> uuid \<Rightarrow> uuid \<Rightarrow> update_task_input \<Rightarrow> task_record dbop" where
  "db_update_task aid now tenant i actor input d =
     (if no_task_changes input
      then Inl (Validation ''at least one task field must be provided'')
      else
        try_then (update_returning (\<lambda>t. tk_tenant_id t = tenant \<and> tk_id t = i)
          (apply_task_update now actor input) (NotFound ''task not found'') (tasks d)) (\<lambda>(task, t).
        try_then (require_fk (task_fks d task)) (\<lambda>_.
        try_then (insert_task_audit (task_audit_row aid now (tk_id task) (tk_tenant_id task) actor
          ''task_updated'' (update_task_payload input)) (d\<lparr>tasks := t\<rparr>)) (\<lambda>(_, d').
        Inr (task, d')))))"

fun insert_task_audits :: "task_audit_record list \<Rightarrow> unit dbop" where
  "insert_task_audits [] d = Inr ((), d)"
| "insert_task_audits (r # rs) d =
     try_then (insert_task_audit r d) (\<lambda>(_, d'). insert_task_audits rs d')"

definition set_task_status :: "time \<Rightarrow> uuid \<Rightarrow> string \<Rightarrow> task_record \<Rightarrow> task_record" where
  "set_task_status now actor status t =
     t\<lparr>tk_status := status, tk_updated_by := actor, tk_updated_at := now\<rparr>"

definition db_bulk_update_task_status ::
  "(nat \<Rightarrow> uuid) \<Rightarrow> time \<Rightarrow> uuid \<Rightarrow> uuid \<Rightarrow> uuid list \<Rightarrow> task_status \<Rightarrow> task_record list dbop" where
  "db_bulk_update_task_status aids now tenant actor task_ids status d =
     (let P = (\<lambda>t. tk_tenant_id t = tenant \<and> tk_id t \<in> set task_ids);
          f = set_task_status now actor (task_status_str status);
          updated = returning P f (tasks d)
      in
        try_then (require_fk (updated = [] \<or> user_exists d actor)) (\<lambda>_.
        if length updated \<noteq> length task_ids
        then Inl (NotFound ''one or more tasks were not found'')
        else
          try_then (insert_task_audits
            (map (\<lambda>(k, t). task_audit_row (aids k) now (tk_id t) tenant actor ''task_status_updated''
               (JObject [(''status'', JString (task_status_str status))])) (enumerate 0 updated))
            (d\<lparr>tasks := update_where P f (tasks d)\<rparr>)) (\<lambda>(_, d').
          Inr (updated, d'))))"

definition archive_payload :: "task_record \<Rightarrow> json" where
  "archive_payload t = JObject
     [(''project_id'', json_opt JUuid (tk_project_id t)), (''title'', JString (tk_title t)),
      (''status'', JString (tk_status t)), (''priority'', JString (tk_priority t))]"

definition db_archive_task ::
  "uuid \<Rightarrow> time \<Rightarrow> time \<Rightarrow> uuid \<Rightarrow> uuid \<Rightarrow> uuid \<Rightarrow> task_record dbop" where
  "db_archive_task aid now now' tenant i actor d =
     try_then (update_returning (\<lambda>t. tk_tenant_id t = tenant \<and> tk_id t = i \<and> tk_status t \<noteq> ''archived'')
       (set_task_status now actor ''archived'') (NotFound ''task not found'') (tasks d)) (\<lambda>(task, t).
     try_then (require_fk (user_exists d actor)) (\<lambda>_.
     try_then (insert_task_audit (task_audit_row aid now' (tk_id task) (tk_tenant_id task) actor
       ''task_archived'' (archive_payload task)) (d\<lparr>tasks := t\<rparr>)) (\<lambda>(_, d').
     Inr (task, d'))))"

definition db_restore_task ::
  "uuid \<Rightarrow> time \<Rightarrow> time \<Rightarrow> uuid \<Rightarrow> uuid \<Rightarrow> uuid \<Rightarrow> task_record dbop" where
  "db_restore_task aid now now' tenant i actor d =
     try_then (update_returning (\<lambda>t. tk_tenant_id t = tenant \<and> tk_id t = i \<and> tk_status t = ''archived'')
       (set_task_status now actor ''open'') (NotFound ''archived task not found'') (tasks d)) (\<lambda>(task, t).
     try_then (require_fk (user_exists d actor)) (\<lambda>_.
     try_then (insert_task_audit (task_audit_row aid now' (tk_id task) (tk_tenant_id task) actor
       ''task_restored'' (archive_payload task)) (d\<lparr>tasks := t\<rparr>)) (\<lambda>(_, d').
     Inr (task, d'))))"

section \<open>Reminders\<close>

record due_reminder_candidate =
  dr_task_id :: uuid
  dr_tenant_id :: uuid
  dr_title :: string
  dr_due_at :: time
  dr_assignee_id :: uuid
  dr_email :: string

definition reminder_kind :: "time \<Rightarrow> time \<Rightarrow> string" where
  "reminder_kind now due = (if due \<le> now then ''task_overdue'' else ''task_due_soon'')"

definition reminder_candidate ::
  "time \<Rightarrow> nat \<Rightarrow> uuid option \<Rightarrow> db \<Rightarrow> task_record \<Rightarrow> due_reminder_candidate list" where
  "reminder_candidate now window_hours tenant d t =
     (case (tk_due_at t, tk_assignee_id t) of
        (Some due, Some assignee) \<Rightarrow>
          (if due \<le> now + hours (int window_hours) \<and> tk_status t \<noteq> ''done'' \<and>
              tk_status t \<noteq> ''archived'' \<and> filter_eq tenant (tk_tenant_id t) \<and>
              \<not> row_exists (\<lambda>p. np_user_id p = assignee \<and> \<not> np_enabled p \<and>
                    np_kind p = reminder_kind now due) (preferences d)
           then map (\<lambda>u. \<lparr>dr_task_id = tk_id t, dr_tenant_id = tk_tenant_id t, dr_title = tk_title t,
                          dr_due_at = due, dr_assignee_id = assignee, dr_email = us_email u\<rparr>)
                  (select_where (\<lambda>u. us_id u = assignee) (users d))
           else [])
      | _ \<Rightarrow> [])"

definition db_list_due_reminder_candidates ::
  "time \<Rightarrow> nat \<Rightarrow> nat \<Rightarrow> uuid option \<Rightarrow> db \<Rightarrow> due_reminder_candidate list" where
  "db_list_due_reminder_candidates now window_hours limit tenant d =
     take limit (order_asc dr_due_at (concat (map (reminder_candidate now window_hours tenant d) (tasks d))))"

definition db_record_due_reminders :: "(nat \<Rightarrow> uuid) \<Rightarrow> time \<Rightarrow> uuid option \<Rightarrow> nat dbop" where
  "db_record_due_reminders aids now tenant d =
     (let due = take 200 (order_asc (\<lambda>t. case tk_due_at t of None \<Rightarrow> 0 | Some x \<Rightarrow> x)
            (select_where (\<lambda>t. is_overdue now t \<and> filter_eq tenant (tk_tenant_id t)) (tasks d)))
      in try_then (insert_task_audits
           (map (\<lambda>(k, t). task_audit_row (aids k) now (tk_id t) (tk_tenant_id t) (tk_updated_by t)
              ''due_reminder_scheduled'' (JObject
                [(''task_id'', JUuid (tk_id t)), (''due_at'', json_opt JTime (tk_due_at t)),
                 (''status'', JString (tk_status t))])) (enumerate 0 due)) d) (\<lambda>(_, d').
         Inr (length due, d')))"

end
