(* ===== verification/TaskLaws.thy ===== *)
theory TaskLaws
  imports Tasks
begin

text \<open>
  The laws of the operations of \<open>Tasks\<close>: what each write leaves of the table and of the audit
  log, the invariant of the task table, tenant isolation, and the life cycle of a task.
\<close>

section \<open>Effects\<close>

lemma insert_task_audits_Inr:
  "insert_task_audits rs d = Inr (u, d') \<Longrightarrow> d' = d\<lparr>task_audit := task_audit d @ rs\<rparr>"
proof (induction rs arbitrary: d)
  case Nil
  then show ?case by simp
next
  case (Cons r rs)
  then obtain d1 where d1: "insert_task_audit r d = Inr ((), d1)"
      and "insert_task_audits rs d1 = Inr (u, d')"
    by (auto simp: try_then_Inr)
  moreover have "d1 = d\<lparr>task_audit := task_audit d @ [r]\<rparr>"
    using d1 by (simp add: insert_task_audit_Inr)
  ultimately show ?case using Cons.IH [of d1] by simp
qed

text \<open>One shape for every task write: new rows, and audit rows appended.\<close>

definition task_write :: "db \<Rightarrow> task_record list \<Rightarrow> task_audit_record list \<Rightarrow> db" where
  "task_write d ts as = d\<lparr>tasks := ts, task_audit := task_audit d @ as\<rparr>"

lemma task_write_sel [simp]:
  "tasks (task_write d ts as) = ts" "task_audit (task_write d ts as) = task_audit d @ as"
  "users (task_write d ts as) = users d" "tenants (task_write d ts as) = tenants d"
  "projects (task_write d ts as) = projects d" "webhooks (task_write d ts as) = webhooks d"
  "deliveries (task_write d ts as) = deliveries d" "task_labels (task_write d ts as) = task_labels d"
  by (simp_all add: task_write_def)

lemma db_create_task_Inr:
  assumes "db_create_task i aid now tenant actor input d = Inr (t, d')"
  obtains a where "t = new_task_row i now tenant actor input" "task_fks d t"
    "i \<notin> tk_id ` set (tasks d)" "d' = task_write d (tasks d @ [t]) [a]"
    "ta_event_type a = ''task_created''" "ta_task_id a = Some i" "ta_created_at a = now"
    "ta_tenant_id a = tenant" "ta_actor_user_id a = actor"
  using assms
  by (auto simp: db_create_task_def Let_def try_then_Inr insert_row_Inr insert_task_audit_Inr
      task_write_def task_audit_row_def new_task_row_def)

lemma db_update_task_Inr:
  assumes "db_update_task aid now tenant i actor input d = Inr (t, d')"
  obtains q a where "\<not> no_task_changes input" "q \<in> set (tasks d)" "tk_tenant_id q = tenant"
    "tk_id q = i" "t = apply_task_update now actor input q" "task_fks d t"
    "d' = task_write d (update_where (\<lambda>t. tk_tenant_id t = tenant \<and> tk_id t = i)
        (apply_task_update now actor input) (tasks d)) [a]"
    "a = task_audit_row aid now i tenant actor ''task_updated'' (update_task_payload input)"
proof -
  from assms obtain ts where nc: "\<not> no_task_changes input"
    and u: "update_returning (\<lambda>t. tk_tenant_id t = tenant \<and> tk_id t = i)
          (apply_task_update now actor input) (NotFound ''task not found'') (tasks d) = Inr (t, ts)"
    and fks: "task_fks d t"
    and ia: "insert_task_audit (task_audit_row aid now (tk_id t) (tk_tenant_id t) actor
          ''task_updated'' (update_task_payload input)) (d\<lparr>tasks := ts\<rparr>) = Inr ((), d')"
    by (auto simp: db_update_task_def try_then_Inr split: if_splits)
  from update_returning_InrD [OF u] obtain q where q: "q \<in> set (tasks d)" "tk_tenant_id q = tenant"
    "tk_id q = i" "t = apply_task_update now actor input q"
    and ts: "ts = update_where (\<lambda>t. tk_tenant_id t = tenant \<and> tk_id t = i)
        (apply_task_update now actor input) (tasks d)"
    by blast
  from q have "tk_id t = i" "tk_tenant_id t = tenant" by (simp_all add: apply_task_update_def)
  with ia ts show ?thesis
    by (intro that [OF nc q fks]) (simp_all add: insert_task_audit_Inr task_write_def)
qed

lemma db_bulk_update_Inr:
  assumes "db_bulk_update_task_status aids now tenant actor ids status d = Inr (ts, d')"
  obtains as where
    "ts = returning (\<lambda>t. tk_tenant_id t = tenant \<and> tk_id t \<in> set ids)
        (set_task_status now actor (task_status_str status)) (tasks d)"
    "length ts = length ids" "length as = length ids"
    "map ta_task_id as = map (\<lambda>t. Some (tk_id t)) ts"
    "d' = task_write d (update_where (\<lambda>t. tk_tenant_id t = tenant \<and> tk_id t \<in> set ids)
        (set_task_status now actor (task_status_str status)) (tasks d)) as"
proof -
  let ?as = "map (\<lambda>(k, t). task_audit_row (aids k) now (tk_id t) tenant actor ''task_status_updated''
      (JObject [(''status'', JString (task_status_str status))])) (enumerate 0 ts)"
  from assms have ts: "ts = returning (\<lambda>t. tk_tenant_id t = tenant \<and> tk_id t \<in> set ids)
        (set_task_status now actor (task_status_str status)) (tasks d)"
    and len: "length ts = length ids"
    and ia: "insert_task_audits ?as (d\<lparr>tasks := update_where
        (\<lambda>t. tk_tenant_id t = tenant \<and> tk_id t \<in> set ids)
        (set_task_status now actor (task_status_str status)) (tasks d)\<rparr>) = Inr ((), d')"
    by (auto simp: db_bulk_update_task_status_def Let_def try_then_Inr split: if_splits)
  have "map ta_task_id ?as = map ((\<lambda>t. Some (tk_id t)) \<circ> snd) (enumerate 0 ts)"
    by (simp add: comp_def case_prod_beta task_audit_row_def)
  also have "\<dots> = map (\<lambda>t. Some (tk_id t)) ts"
    by (simp only: map_map [symmetric] map_snd_enumerate)
  finally have "map ta_task_id ?as = map (\<lambda>t. Some (tk_id t)) ts" .
  with insert_task_audits_Inr [OF ia] show ?thesis
    by (intro that [OF ts len, of ?as]) (simp_all add: len task_write_def)
qed

lemma db_archive_task_Inr:
  assumes "db_archive_task aid now now' tenant i actor d = Inr (t, d')"
  obtains q a where "q \<in> set (tasks d)" "tk_tenant_id q = tenant" "tk_id q = i"
    "tk_status q \<noteq> ''archived''" "t = set_task_status now actor ''archived'' q"
    "d' = task_write d (update_where
       (\<lambda>t. tk_tenant_id t = tenant \<and> tk_id t = i \<and> tk_status t \<noteq> ''archived'')
       (set_task_status now actor ''archived'') (tasks d)) [a]" "user_exists d actor"
proof -
  from assms obtain ts a where
    u: "update_returning (\<lambda>t. tk_tenant_id t = tenant \<and> tk_id t = i \<and> tk_status t \<noteq> ''archived'')
       (set_task_status now actor ''archived'') (NotFound ''task not found'') (tasks d) = Inr (t, ts)"
    and d': "d' = task_write d ts [a]" and act: "user_exists d actor"
    by (auto simp: db_archive_task_def try_then_Inr insert_task_audit_Inr task_write_def)
  from update_returning_InrD [OF u] show ?thesis
    using that d' act by blast
qed

lemma db_restore_task_Inr:
  assumes "db_restore_task aid now now' tenant i actor d = Inr (t, d')"
  obtains q a where "q \<in> set (tasks d)" "tk_tenant_id q = tenant" "tk_id q = i"
    "tk_status q = ''archived''" "t = set_task_status now actor ''open'' q"
    "d' = task_write d (update_where
       (\<lambda>t. tk_tenant_id t = tenant \<and> tk_id t = i \<and> tk_status t = ''archived'')
       (set_task_status now actor ''open'') (tasks d)) [a]" "user_exists d actor"
proof -
  from assms obtain ts a where
    u: "update_returning (\<lambda>t. tk_tenant_id t = tenant \<and> tk_id t = i \<and> tk_status t = ''archived'')
       (set_task_status now actor ''open'') (NotFound ''archived task not found'') (tasks d) = Inr (t, ts)"
    and d': "d' = task_write d ts [a]" and act: "user_exists d actor"
    by (auto simp: db_restore_task_def try_then_Inr insert_task_audit_Inr task_write_def)
  from update_returning_InrD [OF u] show ?thesis
    using that d' act by blast
qed

section \<open>The invariant of the table\<close>

definition wf_tasks :: "db \<Rightarrow> bool" where
  "wf_tasks d \<longleftrightarrow> distinct (map tk_id (tasks d)) \<and> (\<forall>t \<in> set (tasks d). wf_task t \<and> task_fks d t)"

lemma task_fks_cong:
  "users d' = users d \<Longrightarrow> tenants d' = tenants d \<Longrightarrow> map pj_id (projects d') = map pj_id (projects d) \<Longrightarrow>
     task_fks d' t = task_fks d t"
proof -
  assume "users d' = users d" "tenants d' = tenants d" and p: "map pj_id (projects d') = map pj_id (projects d)"
  moreover have "project_exists d' x = project_exists d x" for x
  proof -
    have "(x \<in> set (map pj_id (projects d'))) = (x \<in> set (map pj_id (projects d)))" by (simp only: p)
    then show ?thesis by (auto simp: project_exists_def row_exists_iff image_iff eq_commute)
  qed
  ultimately show ?thesis
    by (auto simp: task_fks_def user_exists_def tenant_exists_def fk_opt_def split: option.splits)
qed

lemma task_fks_write [simp]: "task_fks (task_write d ts as) t = task_fks d t"
  by (rule task_fks_cong) simp_all

lemma wf_tasks_update:
  assumes "wf_tasks d" and "\<And>t. tk_id (f t) = tk_id t"
    and "\<And>t. t \<in> set (tasks d) \<Longrightarrow> P t \<Longrightarrow> wf_task (f t) \<and> task_fks d (f t)"
  shows "wf_tasks (task_write d (update_where P f (tasks d)) as)"
proof -
  have "map tk_id (update_where P f (tasks d)) = map tk_id (tasks d)"
    by (rule map_key_update_where) (rule assms(2))
  then show ?thesis
    using assms(1,3) by (auto simp: wf_tasks_def in_update_where)
qed

lemma set_task_status_wf:
  "wf_task t \<Longrightarrow> s \<in> {''open'', ''in_progress'', ''done'', ''archived''} \<Longrightarrow>
     wf_task (set_task_status now actor s t)"
  by (auto simp: wf_task_def set_task_status_def)

lemma set_task_status_fks:
  "task_fks d t \<Longrightarrow> user_exists d actor \<Longrightarrow> task_fks d (set_task_status now actor s t)"
  by (simp add: task_fks_def set_task_status_def)

lemma wf_tasks_unique:
  "wf_tasks d \<Longrightarrow> t \<in> set (tasks d) \<Longrightarrow> u \<in> set (tasks d) \<Longrightarrow> tk_id t = tk_id u \<Longrightarrow> t = u"
  unfolding wf_tasks_def distinct_map inj_on_def by blast

lemma create_task_wf:
  assumes "wf_tasks d" and "db_create_task i aid now tenant actor input d = Inr (t, d')"
  shows "wf_tasks d'"
  using assms(2)
proof (rule db_create_task_Inr)
  fix a
  assume t: "t = new_task_row i now tenant actor input" and fks: "task_fks d t"
    and i: "i \<notin> tk_id ` set (tasks d)" and d': "d' = task_write d (tasks d @ [t]) [a]"
  have "wf_task t"
    unfolding t wf_task_def new_task_row_def
    using task_status_str_valid task_priority_str_valid by simp
  moreover have "tk_id t = i" by (simp add: t new_task_row_def)
  ultimately show ?thesis using assms(1) fks i d' by (auto simp: wf_tasks_def)
qed

lemma update_task_wf:
  assumes "wf_tasks d" and "db_update_task aid now tenant i actor input d = Inr (t, d')"
  shows "wf_tasks d'"
  using assms(2)
proof (rule db_update_task_Inr)
  fix q a
  assume q: "q \<in> set (tasks d)" "tk_id q = i" and t: "t = apply_task_update now actor input q"
    and fks: "task_fks d t"
    and d': "d' = task_write d (update_where (\<lambda>t. tk_tenant_id t = tenant \<and> tk_id t = i)
        (apply_task_update now actor input) (tasks d)) [a]"
  show ?thesis unfolding d'
  proof (rule wf_tasks_update [OF assms(1)])
    show "tk_id (apply_task_update now actor input t) = tk_id t" for t
      by (simp add: apply_task_update_def)
    fix x assume x: "x \<in> set (tasks d)" "tk_tenant_id x = tenant \<and> tk_id x = i"
    then have "x = q" using wf_tasks_unique [OF assms(1)] q by blast
    moreover have "wf_task q" using assms(1) q by (simp add: wf_tasks_def)
    ultimately show "wf_task (apply_task_update now actor input x) \<and>
        task_fks d (apply_task_update now actor input x)"
      using fks t task_status_str_valid task_priority_str_valid
      by (auto simp: wf_task_def apply_task_update_def split: option.splits)
  qed
qed

lemma bulk_update_wf:
  assumes "wf_tasks d"
    and "db_bulk_update_task_status aids now tenant actor ids status d = Inr (ts, d')"
  shows "wf_tasks d'"
  using assms(2)
proof (rule db_bulk_update_Inr)
  fix as
  assume d': "d' = task_write d (update_where (\<lambda>t. tk_tenant_id t = tenant \<and> tk_id t \<in> set ids)
        (set_task_status now actor (task_status_str status)) (tasks d)) as"
    and ts: "ts = returning (\<lambda>t. tk_tenant_id t = tenant \<and> tk_id t \<in> set ids)
        (set_task_status now actor (task_status_str status)) (tasks d)"
  have act: "ts = [] \<or> user_exists d actor"
    using assms(2) ts by (auto simp: db_bulk_update_task_status_def Let_def try_then_Inr)
  show ?thesis unfolding d'
  proof (rule wf_tasks_update [OF assms(1)])
    show "tk_id (set_task_status now actor (task_status_str status) t) = tk_id t" for t
      by (simp add: set_task_status_def)
    fix x assume x: "x \<in> set (tasks d)" "tk_tenant_id x = tenant \<and> tk_id x \<in> set ids"
    then have "ts \<noteq> []" by (auto simp: ts returning_def filter_empty_conv)
    then show "wf_task (set_task_status now actor (task_status_str status) x) \<and>
        task_fks d (set_task_status now actor (task_status_str status) x)"
      using act x assms(1) set_task_status_wf task_status_str_valid set_task_status_fks
      by (simp add: wf_tasks_def)
  qed
qed

lemma archive_restore_wf:
  assumes "wf_tasks d" and "db_archive_task aid now now' tenant i actor d = Inr (t, d') \<or>
    db_restore_task aid now now' tenant i actor d = Inr (t, d')"
  shows "wf_tasks d'"
proof -
  have "wf_tasks (task_write d (update_where P (set_task_status now actor s) (tasks d)) as)"
    if "user_exists d actor" "s \<in> {''open'', ''archived''}" for P s as
    using that assms(1) set_task_status_wf [of _ s] set_task_status_fks
    by (intro wf_tasks_update) (auto simp: wf_tasks_def set_task_status_def)
  then show ?thesis
    using assms(2) by (elim disjE db_archive_task_Inr db_restore_task_Inr) auto
qed

end
