(* ===== verification/TaskService.thy ===== *)
theory TaskService
  imports TaskLaws
begin

text \<open>
  \<open>src/services/tasks.rs\<close>: the task operations of the API. Writes run the database transaction,
  bump the tenant's cache version and fan the event out to the webhooks, in this order; reads go
  through the versioned cache.
\<close>

section \<open>Reads\<close>

definition svc_get_task :: "uuid \<Rightarrow> uuid \<Rightarrow> task_record app" where
  "svc_get_task tenant i =
     then_do (db_read (db_get_task tenant i)) (\<lambda>t. lift_result (ok_or t (NotFound ''task not found'')))"

definition svc_dashboard_summary :: "time \<Rightarrow> uuid \<Rightarrow> dashboard_summary app" where
  "svc_dashboard_summary now tenant = db_read (db_dashboard_summary now tenant)"

definition svc_list_task_audit ::
  "uuid \<Rightarrow> uuid \<Rightarrow> cursor option \<Rightarrow> nat \<Rightarrow> (task_audit_record list \<times> cursor option) app" where
  "svc_list_task_audit tenant i c limit =
     then_do (svc_get_task tenant i) (\<lambda>_. db_read (\<lambda>d. db_list_task_audit tenant i d c limit))"

definition page_key :: "uuid \<Rightarrow> nat \<Rightarrow> nat \<Rightarrow> string option \<Rightarrow> task_filters \<Rightarrow> redis_key" where
  "page_key tenant version limit cursor_token f =
     KTaskList tenant version (JObject
       [(''tenant_id'', JUuid tenant), (''limit'', JNumber (int limit)),
        (''cursor'', json_opt JString cursor_token), (''filters'', export_payload f)])"

definition task_page_of :: "env \<Rightarrow> task_record list \<times> cursor option \<Rightarrow> task_page result" where
  "task_page_of e p =
     try_then (collect_results task_response (fst p)) (\<lambda>data.
     try_then (transpose_opt (cursor_encode (codec e)) (snd p)) (\<lambda>next.
     Inr \<lparr>pg_data = data, pg_next_cursor = next\<rparr>))"

definition svc_list_tasks_cached ::
  "env \<Rightarrow> time \<Rightarrow> uuid \<Rightarrow> task_filters \<Rightarrow> string option \<Rightarrow> cursor option \<Rightarrow> nat \<Rightarrow> task_page app" where
  "svc_list_tasks_cached e now tenant f cursor_token c limit =
     then_do (cache_run (tenant_cache_version now tenant)) (\<lambda>version.
     let key = page_key tenant version limit cursor_token f
     in then_do (cache_run (get_json decode_page now key)) (\<lambda>cached.
        case cached of
          Some page \<Rightarrow> ret page
        | None \<Rightarrow>
            then_do (db_read (\<lambda>d. db_list_tasks e tenant f d c limit)) (\<lambda>p.
            then_do (lift_result (task_page_of e p)) (\<lambda>page.
            then_do (cache_run (set_json now key (RPage page) (cache_ttl (cfg e)))) (\<lambda>_.
            ret page)))))"

definition svc_get_task_cached :: "env \<Rightarrow> time \<Rightarrow> uuid \<Rightarrow> uuid \<Rightarrow> task_response app" where
  "svc_get_task_cached e now tenant i =
     then_do (cache_run (tenant_cache_version now tenant)) (\<lambda>version.
     then_do (cache_run (get_json decode_task now (KTaskDetail tenant version i))) (\<lambda>cached.
     case cached of
       Some r \<Rightarrow> ret r
     | None \<Rightarrow>
         then_do (svc_get_task tenant i) (\<lambda>t.
         then_do (lift_result (task_response t)) (\<lambda>r.
         then_do (cache_run (set_json now (KTaskDetail tenant version i) (RTask r) (cache_ttl (cfg e))))
           (\<lambda>_. ret r)))))"

lemma svc_get_task_Inr:
  "svc_get_task tenant i w = (Inr t, w') \<longleftrightarrow> db_get_task tenant i (w_db w) = Some t \<and> w' = w"
  by (auto simp: svc_get_task_def then_do_Inr)

lemma db_get_task_SomeD:
  "db_get_task tenant i d = Some t \<Longrightarrow> t \<in> set (tasks d) \<and> tk_tenant_id t = tenant \<and> tk_id t = i"
  by (auto simp: db_get_task_def dest: fetch_optional_SomeD)

section \<open>Writes\<close>

definition ensure_project_belongs_to_tenant :: "uuid \<Rightarrow> uuid option \<Rightarrow> unit app" where
  "ensure_project_belongs_to_tenant tenant project_id =
     (case project_id of
        None \<Rightarrow> ret ()
      | Some p \<Rightarrow>
          then_do (db_read (db_get_project tenant p)) (\<lambda>r.
          then_do (lift_result (ok_or r (NotFound ''project not found''))) (\<lambda>_. ret ())))"

text \<open>\<open>wids\<close> supplies the identifiers of the deliveries the event creates.\<close>

definition emit_task_webhook :: "(nat \<Rightarrow> uuid) \<Rightarrow> time \<Rightarrow> uuid \<Rightarrow> string \<Rightarrow> task_record \<Rightarrow> unit app" where
  "emit_task_webhook wids now tenant event task =
     (case task_response task of
        Inr r \<Rightarrow> emit_task_event wids now tenant event (task_response_json r)
      | Inl _ \<Rightarrow> ret ())"

definition svc_create_task ::
  "uuid \<Rightarrow> uuid \<Rightarrow> (nat \<Rightarrow> uuid) \<Rightarrow> time \<Rightarrow> uuid \<Rightarrow> uuid \<Rightarrow> create_task_input \<Rightarrow> task_record app" where
  "svc_create_task i aid wids now tenant actor input =
     then_do (ensure_project_belongs_to_tenant tenant (ct_project_id input)) (\<lambda>_.
     then_do (db_run (db_create_task i aid now tenant actor input)) (\<lambda>task.
     then_do (cache_run (bump_tenant_cache_version now tenant)) (\<lambda>_.
     then_do (emit_task_webhook wids now tenant ''task_created'' task) (\<lambda>_.
     ret task))))"

definition svc_update_task ::
  "uuid \<Rightarrow> (nat \<Rightarrow> uuid) \<Rightarrow> time \<Rightarrow> uuid \<Rightarrow> uuid \<Rightarrow> uuid \<Rightarrow> update_task_input \<Rightarrow> task_record app" where
  "svc_update_task aid wids now tenant i actor input =
     then_do (case up_project_id input of None \<Rightarrow> ret ()
              | Some p \<Rightarrow> ensure_project_belongs_to_tenant tenant p) (\<lambda>_.
     then_do (db_run (db_update_task aid now tenant i actor input)) (\<lambda>task.
     then_do (cache_run (bump_tenant_cache_version now tenant)) (\<lambda>_.
     then_do (emit_task_webhook wids now tenant ''task_updated'' task) (\<lambda>_.
     ret task))))"

text \<open>A \<open>HashMap\<close> collected from pairs keeps the last pair of a key.\<close>

definition positions :: "uuid list \<Rightarrow> uuid \<rightharpoonup> nat" where
  "positions ids = map_of (rev (zip ids [0..<length ids]))"

definition position_key :: "uuid list \<Rightarrow> task_record \<Rightarrow> nat" where
  "position_key ids t = (case positions ids (tk_id t) of Some k \<Rightarrow> k | None \<Rightarrow> 2 ^ 64 - 1)"

definition svc_bulk_update_task_status ::
  "(nat \<Rightarrow> uuid) \<Rightarrow> (uuid \<Rightarrow> nat \<Rightarrow> uuid) \<Rightarrow> time \<Rightarrow> uuid \<Rightarrow> uuid \<Rightarrow> uuid list \<Rightarrow> task_status \<Rightarrow>
   task_record list app" where
  "svc_bulk_update_task_status aids wids now tenant actor task_ids status =
     then_do (lift_result (normalize_bulk_task_ids task_ids)) (\<lambda>ids.
     then_do (db_run (db_bulk_update_task_status aids now tenant actor ids status)) (\<lambda>ts.
     then_do (cache_run (bump_tenant_cache_version now tenant)) (\<lambda>_.
     let ordered = sort_key (position_key ids) ts
     in then_do (for_each (\<lambda>t. emit_task_webhook (wids (tk_id t)) now tenant ''task_status_updated'' t)
          ordered) (\<lambda>_.
        ret ordered))))"

definition svc_archive_task ::
  "uuid \<Rightarrow> (nat \<Rightarrow> uuid) \<Rightarrow> time \<Rightarrow> uuid \<Rightarrow> uuid \<Rightarrow> uuid \<Rightarrow> unit app" where
  "svc_archive_task aid wids now tenant i actor =
     then_do (db_run (db_archive_task aid now now tenant i actor)) (\<lambda>task.
     then_do (cache_run (bump_tenant_cache_version now tenant)) (\<lambda>_.
     then_do (emit_task_webhook wids now tenant ''task_archived'' task) (\<lambda>_.
     ret ())))"

definition svc_restore_task ::
  "uuid \<Rightarrow> (nat \<Rightarrow> uuid) \<Rightarrow> time \<Rightarrow> uuid \<Rightarrow> uuid \<Rightarrow> uuid \<Rightarrow> task_record app" where
  "svc_restore_task aid wids now tenant i actor =
     then_do (db_run (db_restore_task aid now now tenant i actor)) (\<lambda>task.
     then_do (cache_run (bump_tenant_cache_version now tenant)) (\<lambda>_.
     then_do (emit_task_webhook wids now tenant ''task_restored'' task) (\<lambda>_.
     ret task)))"

section \<open>Effects on the rest of the world\<close>

lemma bump_version_eq:
  "\<exists>r x. cache_run (bump_tenant_cache_version now tenant) w = (x, w\<lparr>w_redis := r\<rparr>)"
  by (cases "bump_tenant_cache_version now tenant (w_redis w)") (auto simp: cache_run_def)

lemma emit_effect:
  "\<exists>ds. emit_task_webhook wids now tenant event task w =
     (Inr (), w\<lparr>w_db := (w_db w)\<lparr>deliveries := ds\<rparr>\<rparr>)"
proof (cases "task_response task")
  case (Inl e)
  then show ?thesis
    by (intro exI [of _ "deliveries (w_db w)"]) (simp add: emit_task_webhook_def)
next
  case (Inr r)
  let ?m = "db_enqueue_webhook_deliveries wids now tenant event (task_response_json r)"
  show ?thesis
  proof (cases "?m (w_db w)")
    case (Inl e)
    with Inr show ?thesis
      by (intro exI [of _ "deliveries (w_db w)"])
        (simp add: emit_task_webhook_def emit_task_event_def logged_eq db_run_def)
  next
    case (Inr y)
    then obtain t where "snd y = (w_db w)\<lparr>deliveries := t\<rparr>"
      by (auto simp: db_enqueue_webhook_deliveries_def Let_def try_then_Inr)
    with Inr \<open>task_response task = Inr r\<close> show ?thesis
      by (cases y) (auto simp: emit_task_webhook_def emit_task_event_def logged_eq db_run_def)
  qed
qed

lemma emit_all_effect:
  "\<exists>ds. for_each (\<lambda>t. emit_task_webhook (wids (tk_id t)) now tenant event t) ts w =
     (Inr (), w\<lparr>w_db := (w_db w)\<lparr>deliveries := ds\<rparr>\<rparr>)"
proof (induction ts arbitrary: w)
  case Nil
  show ?case by (intro exI [of _ "deliveries (w_db w)"]) simp
next
  case (Cons t ts)
  obtain ds where d1: "emit_task_webhook (wids (tk_id t)) now tenant event t w =
      (Inr (), w\<lparr>w_db := (w_db w)\<lparr>deliveries := ds\<rparr>\<rparr>)"
    using emit_effect by blast
  obtain ds' where "for_each (\<lambda>t. emit_task_webhook (wids (tk_id t)) now tenant event t) ts
      (w\<lparr>w_db := (w_db w)\<lparr>deliveries := ds\<rparr>\<rparr>) =
      (Inr (), w\<lparr>w_db := (w_db w)\<lparr>deliveries := ds'\<rparr>\<rparr>)"
    using Cons.IH [of "w\<lparr>w_db := (w_db w)\<lparr>deliveries := ds\<rparr>\<rparr>"] by auto
  with d1 show ?case by auto
qed

text \<open>The position sort puts the updated tasks in the order of the request.\<close>

lemma positions_nth:
  assumes "distinct ids" and "k < length ids"
  shows "positions ids (ids ! k) = Some k"
proof -
  have "distinct (map fst (rev (zip ids [0..<length ids])))"
    using assms(1) by (simp add: rev_map [symmetric] map_fst_zip)
  moreover have "(ids ! k, k) \<in> set (rev (zip ids [0..<length ids]))"
    using assms(2) by (force simp: set_zip)
  ultimately show ?thesis unfolding positions_def by (rule map_of_is_SomeI)
qed

lemma sort_by_position:
  assumes dist: "distinct ids" and same: "set (map tk_id ts) = set ids" and dts: "distinct (map tk_id ts)"
  shows "map tk_id (sort_key (position_key ids) ts) = ids"
proof -
  let ?s = "sort_key (position_key ids) ts"
  have pos: "position_key ids t = k" if "tk_id t = ids ! k" "k < length ids" for t k
    using positions_nth [OF dist that(2)] that(1) by (simp add: position_key_def)
  have len: "length ts = length ids"
    using distinct_card [OF dist] distinct_card [OF dts] same by simp
  have keys: "set (map (position_key ids) ?s) = set [0..<length ids]"
  proof
    show "set (map (position_key ids) ?s) \<subseteq> set [0..<length ids]"
    proof
      fix x assume "x \<in> set (map (position_key ids) ?s)"
      then obtain t where t: "t \<in> set ts" "x = position_key ids t" by auto
      then have "tk_id t \<in> set ids" using same by auto
      then obtain k where "k < length ids" "tk_id t = ids ! k" by (metis in_set_conv_nth)
      with pos t show "x \<in> set [0..<length ids]" by auto
    qed
  next
    show "set [0..<length ids] \<subseteq> set (map (position_key ids) ?s)"
    proof
      fix k assume "k \<in> set [0..<length ids]"
      then have k: "k < length ids" by simp
      then obtain t where "t \<in> set ts" "tk_id t = ids ! k"
        using same by (metis (no_types, lifting) in_set_conv_nth list.set_map imageE)
      with pos k show "k \<in> set (map (position_key ids) ?s)" by force
    qed
  qed
  have "sorted (map (position_key ids) ?s)" by simp
  moreover have "distinct (map (position_key ids) ?s)"
    using keys len by (metis card_distinct length_map length_sort length_upt minus_nat.diff_0
        distinct_card distinct_upt)
  ultimately have "map (position_key ids) ?s = [0..<length ids]"
    using keys by (intro sorted_distinct_set_unique) auto
  then have k: "position_key ids (?s ! k) = k" if "k < length ids" for k
    using that len by (metis add_0 length_sort length_map nth_map nth_upt)
  show ?thesis
  proof (rule nth_equalityI)
    show "length (map tk_id ?s) = length ids" using len by simp
    fix k assume "k < length (map tk_id ?s)"
    then have kl: "k < length ids" "k < length ?s" using len by auto
    then have "?s ! k \<in> set ts" by (metis nth_mem set_sort)
    then have "tk_id (?s ! k) \<in> set ids" using same by auto
    then obtain j where j: "j < length ids" "tk_id (?s ! k) = ids ! j" by (metis in_set_conv_nth)
    then have "j = k" using pos k kl by metis
    with j kl show "map tk_id ?s ! k = ids ! k" by simp
  qed
qed

end
