(* ===== verification/Accounts.thy ===== *)
theory Accounts
  imports AuditLog Outbox "HOL-Library.List_Lexorder"
begin

text \<open>
  The tables of accounts: \<open>src/db/users.rs\<close>, \<open>src/db/memberships.rs\<close> and
  \<open>src/db/invitations.rs\<close>. A join on a key is written as the concatenation, over the rows of the
  first table, of the matching rows of the second.
\<close>

section \<open>Users\<close>

text \<open>\<open>uid\<close> and \<open>tid\<close> are the fresh identifiers of the user and of the tenant.\<close>

definition db_create_user_with_tenant ::
  "uuid \<Rightarrow> uuid \<Rightarrow> time \<Rightarrow> string \<Rightarrow> string \<Rightarrow> string \<Rightarrow> (user_record \<times> membership_record) dbop" where
  "db_create_user_with_tenant uid tid now email password_hash tenant_name d =
     (let user = \<lparr>us_id = uid, us_email = email, us_password_hash = password_hash,
                  us_display_name = None, us_email_verified_at = None, us_created_at = now\<rparr>;
          tenant = \<lparr>tn_id = tid, tn_name = tenant_name, tn_created_at = now\<rparr>;
          row = \<lparr>mb_tenant_id = tid, mb_user_id = uid, mb_role = ''owner'', mb_created_at = now\<rparr>
      in
        try_then (insert_row us_id user (users d)) (\<lambda>_.
        try_then (insert_row us_email user (users d)) (\<lambda>us.
        try_then (insert_row tn_id tenant (tenants d)) (\<lambda>ts.
        try_then (insert_row (\<lambda>m. (mb_tenant_id m, mb_user_id m)) row (memberships d)) (\<lambda>ms.
        Inr ((user, \<lparr>mr_tenant_id = tid, mr_tenant_name = tenant_name, mr_user_id = uid,
                      mr_role = ''owner'', mr_created_at = now\<rparr>),
          d\<lparr>users := us, tenants := ts, memberships := ms\<rparr>))))))"

definition db_get_user_by_email :: "string \<Rightarrow> db \<Rightarrow> user_record option" where
  "db_get_user_by_email email d = fetch_optional (\<lambda>u. us_email u = email) (users d)"

definition db_get_user_by_id :: "uuid \<Rightarrow> db \<Rightarrow> user_record result" where
  "db_get_user_by_id i d =
     ok_or (fetch_optional (\<lambda>u. us_id u = i) (users d)) (NotFound ''user not found'')"

definition update_user :: "uuid \<Rightarrow> (user_record \<Rightarrow> user_record) \<Rightarrow> user_record dbop" where
  "update_user i f d =
     try_then (update_returning (\<lambda>u. us_id u = i) f (NotFound ''user not found'') (users d))
       (\<lambda>(u, t). Inr (u, d\<lparr>users := t\<rparr>))"

definition db_mark_user_email_verified :: "time \<Rightarrow> uuid \<Rightarrow> user_record dbop" where
  "db_mark_user_email_verified now i =
     update_user i (\<lambda>u. u\<lparr>us_email_verified_at :=
       (case us_email_verified_at u of None \<Rightarrow> Some now | Some t \<Rightarrow> Some t)\<rparr>)"

definition db_update_user_password :: "uuid \<Rightarrow> string \<Rightarrow> user_record dbop" where
  "db_update_user_password i password_hash = update_user i (\<lambda>u. u\<lparr>us_password_hash := password_hash\<rparr>)"

definition db_update_user_email :: "uuid \<Rightarrow> string \<Rightarrow> user_record dbop" where
  "db_update_user_email i email d =
     (if user_exists d i \<and> row_exists (\<lambda>u. us_id u \<noteq> i \<and> us_email u = email) (users d)
      then Inl (from_sqlx UniqueViolation)
      else update_user i (\<lambda>u. u\<lparr>us_email := email, us_email_verified_at := None\<rparr>) d)"

definition db_update_user_display_name :: "uuid \<Rightarrow> string option \<Rightarrow> user_record dbop" where
  "db_update_user_display_name i display_name = update_user i (\<lambda>u. u\<lparr>us_display_name := display_name\<rparr>)"

section \<open>Memberships\<close>

definition join_tenant :: "db \<Rightarrow> membership_row \<Rightarrow> membership_record list" where
  "join_tenant d m =
     map (\<lambda>t. \<lparr>mr_tenant_id = mb_tenant_id m, mr_tenant_name = tn_name t, mr_user_id = mb_user_id m,
               mr_role = mb_role m, mr_created_at = mb_created_at m\<rparr>)
       (select_where (\<lambda>t. tn_id t = mb_tenant_id m) (tenants d))"

definition db_list_memberships :: "uuid \<Rightarrow> db \<Rightarrow> membership_record list" where
  "db_list_memberships user d =
     concat (map (join_tenant d)
       (order_asc mb_created_at (select_where (\<lambda>m. mb_user_id m = user) (memberships d))))"

definition db_get_membership :: "uuid \<Rightarrow> uuid \<Rightarrow> db \<Rightarrow> membership_record option" where
  "db_get_membership user tenant d =
     first_row (concat (map (join_tenant d)
       (select_where (\<lambda>m. mb_user_id m = user \<and> mb_tenant_id m = tenant) (memberships d))))"

definition db_get_default_membership :: "uuid \<Rightarrow> db \<Rightarrow> membership_record option" where
  "db_get_default_membership user d = first_row (db_list_memberships user d)"

definition join_user :: "db \<Rightarrow> membership_row \<Rightarrow> tenant_member_record list" where
  "join_user d m =
     map (\<lambda>u. \<lparr>tm_user_id = mb_user_id m, tm_email = us_email u, tm_display_name = us_display_name u,
               tm_role = mb_role m, tm_joined_at = mb_created_at m\<rparr>)
       (select_where (\<lambda>u. us_id u = mb_user_id m) (users d))"

definition db_list_tenant_members :: "env \<Rightarrow> uuid \<Rightarrow> db \<Rightarrow> tenant_member_record list" where
  "db_list_tenant_members e tenant d =
     order_asc (\<lambda>r. (tm_joined_at r, collation_key e (tm_email r)))
       (concat (map (join_user d) (select_where (\<lambda>m. mb_tenant_id m = tenant) (memberships d))))"

definition is_member_row :: "uuid \<Rightarrow> uuid \<Rightarrow> membership_row \<Rightarrow> bool" where
  "is_member_row tenant user m \<longleftrightarrow> mb_tenant_id m = tenant \<and> mb_user_id m = user"

definition db_get_tenant_member :: "uuid \<Rightarrow> uuid \<Rightarrow> db \<Rightarrow> tenant_member_record option" where
  "db_get_tenant_member tenant user d =
     first_row (concat (map (join_user d) (select_where (is_member_row tenant user) (memberships d))))"

definition set_role :: "string \<Rightarrow> membership_row \<Rightarrow> membership_row" where
  "set_role role m = m\<lparr>mb_role := role\<rparr>"

definition db_update_membership_role ::
  "uuid \<Rightarrow> uuid \<Rightarrow> membership_role \<Rightarrow> db \<Rightarrow> tenant_member_record option \<times> db" where
  "db_update_membership_role tenant user role d =
     (let P = (\<lambda>m. is_member_row tenant user m \<and> user_exists d user);
          f = set_role (role_str role)
      in (first_row (concat (map (join_user d) (returning P f (memberships d)))),
          d\<lparr>memberships := update_where P f (memberships d)\<rparr>))"

definition db_delete_membership :: "uuid \<Rightarrow> uuid \<Rightarrow> db \<Rightarrow> bool \<times> db" where
  "db_delete_membership tenant user d =
     (row_exists (is_member_row tenant user) (memberships d),
      d\<lparr>memberships := delete_where (is_member_row tenant user) (memberships d)\<rparr>)"

definition is_owner_of :: "uuid \<Rightarrow> membership_row \<Rightarrow> bool" where
  "is_owner_of tenant m \<longleftrightarrow> mb_tenant_id m = tenant \<and> mb_role m = ''owner''"

definition db_count_tenant_owners :: "uuid \<Rightarrow> db \<Rightarrow> nat" where
  "db_count_tenant_owners tenant d = count_where (is_owner_of tenant) (memberships d)"

section \<open>Invitations\<close>

text \<open>The partial unique index covers the rows neither accepted nor revoked, expired or not.\<close>

definition unanswered :: "invitation_record \<Rightarrow> bool" where
  "unanswered v \<longleftrightarrow> iv_accepted_at v = None \<and> iv_revoked_at v = None"

definition db_create_invitation ::
  "uuid \<Rightarrow> time \<Rightarrow> uuid \<Rightarrow> string \<Rightarrow> string \<Rightarrow> string \<Rightarrow> time \<Rightarrow> uuid \<Rightarrow> invitation_record dbop" where
  "db_create_invitation i now tenant email role token_hash expires_at created_by d =
     (let row = \<lparr>iv_id = i, iv_tenant_id = tenant, iv_email = email, iv_role = role,
                 iv_token_hash = token_hash, iv_expires_at = expires_at, iv_accepted_at = None,
                 iv_revoked_at = None, iv_created_by = created_by, iv_created_at = now\<rparr>
      in
        try_then (require_check (role = ''admin'' \<or> role = ''member'')) (\<lambda>_.
        try_then (insert_row iv_id row (invitations d)) (\<lambda>_.
        try_then (insert_row iv_token_hash row (invitations d)) (\<lambda>t.
        if row_exists (\<lambda>v. unanswered v \<and> iv_tenant_id v = tenant \<and> iv_email v = email) (invitations d)
        then Inl (from_sqlx UniqueViolation)
        else
          try_then (require_fk (tenant_exists d tenant \<and> user_exists d created_by)) (\<lambda>_.
          Inr (row, d\<lparr>invitations := t\<rparr>))))))"

definition db_list_pending_invitations :: "time \<Rightarrow> uuid \<Rightarrow> db \<Rightarrow> invitation_record list" where
  "db_list_pending_invitations now tenant d =
     order_desc (\<lambda>v. (iv_created_at v, iv_id v))
       (select_where (\<lambda>v. iv_tenant_id v = tenant \<and> unanswered v \<and> now < iv_expires_at v)
         (invitations d))"

definition db_revoke_invitation :: "time \<Rightarrow> uuid \<Rightarrow> uuid \<Rightarrow> unit dbop" where
  "db_revoke_invitation now tenant i d =
     (let P = (\<lambda>v. iv_id v = i \<and> iv_tenant_id v = tenant \<and> unanswered v)
      in if row_exists P (invitations d)
         then Inr ((), d\<lparr>invitations := update_where P (\<lambda>v. v\<lparr>iv_revoked_at := Some now\<rparr>) (invitations d)\<rparr>)
         else Inl (NotFound ''invitation not found''))"

definition db_accept_invitation ::
  "time \<Rightarrow> uuid \<Rightarrow> string \<Rightarrow> uuid \<Rightarrow> string \<Rightarrow> membership_record dbop" where
  "db_accept_invitation now tenant token_hash user user_email d =
     try_then (update_returning
       (\<lambda>v. iv_tenant_id v = tenant \<and> iv_token_hash v = token_hash \<and> unanswered v \<and> now < iv_expires_at v)
       (\<lambda>v. v\<lparr>iv_accepted_at := Some now\<rparr>)
       (NotFound ''invitation is invalid, expired, or revoked'') (invitations d)) (\<lambda>(v, ivs).
     if \<not> eq_ignore_ascii_case (iv_email v) user_email
     then Inl (Forbidden ''invitation was issued for a different email address'')
     else
       let row = \<lparr>mb_tenant_id = iv_tenant_id v, mb_user_id = user, mb_role = iv_role v, mb_created_at = now\<rparr>
       in
         try_then (insert_row (\<lambda>m. (mb_tenant_id m, mb_user_id m)) row (memberships d)) (\<lambda>ms.
         try_then (require_fk (tenant_exists d (iv_tenant_id v) \<and> user_exists d user)) (\<lambda>_.
         Inr (\<lparr>mr_tenant_id = iv_tenant_id v,
               mr_tenant_name = (case fetch_optional (\<lambda>t. tn_id t = iv_tenant_id v) (tenants d) of
                                   None \<Rightarrow> [] | Some t \<Rightarrow> tn_name t),
               mr_user_id = user, mr_role = iv_role v, mr_created_at = now\<rparr>,
           d\<lparr>invitations := ivs, memberships := ms\<rparr>))))"

end
