(* ===== verification/Tokens.thy ===== *)
theory Tokens
  imports Accounts
begin

text \<open>
  The tokens of an account: refresh tokens (\<open>src/db/refresh_tokens.rs\<close>) and the single-use tokens
  of \<open>src/db/user_tokens.rs\<close>, hashed by \<open>src/tokens.rs\<close>. The locale states what single use means
  for a store of tokens, and is interpreted for refresh tokens and for user tokens.
\<close>

section \<open>Refresh tokens\<close>

definition new_refresh_row :: "uuid \<Rightarrow> uuid \<Rightarrow> uuid \<Rightarrow> time \<Rightarrow> time \<Rightarrow> refresh_token_record" where
  "new_refresh_row i user tenant expires_at now =
     \<lparr>rt_id = i, rt_user_id = user, rt_tenant_id = tenant, rt_expires_at = expires_at,
      rt_revoked_at = None, rt_replaced_by = None, rt_created_at = now\<rparr>"

definition db_create_refresh_token :: "time \<Rightarrow> uuid \<Rightarrow> uuid \<Rightarrow> uuid \<Rightarrow> time \<Rightarrow> unit dbop" where
  "db_create_refresh_token now i user tenant expires_at d =
     try_then (insert_row rt_id (new_refresh_row i user tenant expires_at now) (refresh_tokens d)) (\<lambda>t.
     try_then (require_fk (user_exists d user \<and> tenant_exists d tenant)) (\<lambda>_.
     Inr ((), d\<lparr>refresh_tokens := t\<rparr>)))"

definition db_get_refresh_token :: "uuid \<Rightarrow> db \<Rightarrow> refresh_token_record option" where
  "db_get_refresh_token i d = fetch_optional (\<lambda>r. rt_id r = i) (refresh_tokens d)"

definition refresh_live :: "time \<Rightarrow> refresh_token_record \<Rightarrow> bool" where
  "refresh_live now r \<longleftrightarrow> rt_revoked_at r = None \<and> now < rt_expires_at r"

definition db_rotate_refresh_token ::
  "time \<Rightarrow> uuid \<Rightarrow> uuid \<Rightarrow> uuid \<Rightarrow> uuid \<Rightarrow> time \<Rightarrow> unit dbop" where
  "db_rotate_refresh_token now previous next user tenant expires_at d =
     (let P = (\<lambda>r. rt_id r = previous \<and> refresh_live now r)
      in if \<not> row_exists P (refresh_tokens d)
         then Inl (Unauthorized ''refresh token is expired or already revoked'')
         else
           try_then (insert_row rt_id (new_refresh_row next user tenant expires_at now)
             (update_where P (\<lambda>r. r\<lparr>rt_revoked_at := Some now, rt_replaced_by := Some next\<rparr>)
               (refresh_tokens d))) (\<lambda>t.
           try_then (require_fk (user_exists d user \<and> tenant_exists d tenant)) (\<lambda>_.
           Inr ((), d\<lparr>refresh_tokens := t\<rparr>))))"

text \<open>\<open>SET revoked_at = COALESCE(revoked_at, now) WHERE ..\<close>.\<close>

definition revoke_row :: "time \<Rightarrow> refresh_token_record \<Rightarrow> refresh_token_record" where
  "revoke_row now r =
     r\<lparr>rt_revoked_at := (case rt_revoked_at r of None \<Rightarrow> Some now | Some t \<Rightarrow> Some t)\<rparr>"

definition revoke_where :: "(refresh_token_record \<Rightarrow> bool) \<Rightarrow> time \<Rightarrow> db \<Rightarrow> db" where
  "revoke_where P now d = d\<lparr>refresh_tokens := update_where P (revoke_row now) (refresh_tokens d)\<rparr>"

definition db_revoke_refresh_token :: "time \<Rightarrow> uuid \<Rightarrow> db \<Rightarrow> db" where
  "db_revoke_refresh_token now i = revoke_where (\<lambda>r. rt_id r = i) now"

definition db_revoke_user_tenant_refresh_tokens :: "time \<Rightarrow> uuid \<Rightarrow> uuid \<Rightarrow> db \<Rightarrow> db" where
  "db_revoke_user_tenant_refresh_tokens now user tenant =
     revoke_where (\<lambda>r. rt_user_id r = user \<and> rt_tenant_id r = tenant \<and> rt_revoked_at r = None) now"

definition db_revoke_all_user_refresh_tokens :: "time \<Rightarrow> uuid \<Rightarrow> db \<Rightarrow> db" where
  "db_revoke_all_user_refresh_tokens now user =
     revoke_where (\<lambda>r. rt_user_id r = user \<and> rt_revoked_at r = None) now"

definition db_list_active_refresh_tokens :: "time \<Rightarrow> uuid \<Rightarrow> db \<Rightarrow> refresh_token_record list" where
  "db_list_active_refresh_tokens now user d =
     order_desc rt_created_at (select_where (\<lambda>r. rt_user_id r = user \<and> refresh_live now r) (refresh_tokens d))"

definition db_revoke_user_refresh_token :: "time \<Rightarrow> uuid \<Rightarrow> uuid \<Rightarrow> db \<Rightarrow> bool \<times> db" where
  "db_revoke_user_refresh_token now user i d =
     (let P = (\<lambda>r. rt_id r = i \<and> rt_user_id r = user \<and> refresh_live now r)
      in (row_exists P (refresh_tokens d),
          d\<lparr>refresh_tokens := update_where P (\<lambda>r. r\<lparr>rt_revoked_at := Some now\<rparr>) (refresh_tokens d)\<rparr>))"

section \<open>User tokens\<close>

definition db_create_user_token ::
  "uuid \<Rightarrow> time \<Rightarrow> uuid \<Rightarrow> string \<Rightarrow> string \<Rightarrow> time \<Rightarrow> user_token_record dbop" where
  "db_create_user_token i now user kind token_hash expires_at d =
     (let row = \<lparr>ut_id = i, ut_user_id = user, ut_kind = kind, ut_token_hash = token_hash,
                 ut_expires_at = expires_at, ut_used_at = None, ut_created_at = now\<rparr>;
          t0 = update_where (\<lambda>r. ut_user_id r = user \<and> ut_kind r = kind \<and> ut_used_at r = None)
                 (\<lambda>r. r\<lparr>ut_used_at := Some now\<rparr>) (user_tokens d)
      in
        try_then (require_check (kind = ''email_verification'' \<or> kind = ''password_reset'')) (\<lambda>_.
        try_then (insert_row ut_id row t0) (\<lambda>_.
        try_then (insert_row ut_token_hash row t0) (\<lambda>t.
        try_then (require_fk (user_exists d user)) (\<lambda>_.
        Inr (row, d\<lparr>user_tokens := t\<rparr>))))))"

definition token_usable :: "time \<Rightarrow> string \<Rightarrow> string \<Rightarrow> user_token_record \<Rightarrow> bool" where
  "token_usable now kind token_hash r \<longleftrightarrow>
     ut_kind r = kind \<and> ut_token_hash r = token_hash \<and> ut_used_at r = None \<and> now < ut_expires_at r"

definition db_consume_user_token :: "time \<Rightarrow> string \<Rightarrow> string \<Rightarrow> user_token_record dbop" where
  "db_consume_user_token now kind token_hash d =
     try_then (update_returning (token_usable now kind token_hash) (\<lambda>r. r\<lparr>ut_used_at := Some now\<rparr>)
       (Unauthorized ''token is invalid or expired'') (user_tokens d)) (\<lambda>(r, t).
     Inr (r, d\<lparr>user_tokens := t\<rparr>))"

section \<open>Single use\<close>

text \<open>
  A store of tokens, the operation that consumes one, and the steps the rest of the program may
  take: a consumed token is spent, no step unspends it, and a spent token cannot be consumed.
\<close>

locale single_use =
  fixes inv :: "'s \<Rightarrow> bool"
    and consume :: "time \<Rightarrow> 'k \<Rightarrow> 's \<Rightarrow> ('r \<times> 's) result"
    and spent :: "'k \<Rightarrow> 's \<Rightarrow> bool"
    and step :: "'s \<Rightarrow> 's \<Rightarrow> bool"
  assumes consume_spends: "inv s \<Longrightarrow> consume now k s = Inr (r, s') \<Longrightarrow> inv s' \<and> spent k s'"
    and spent_refused: "spent k s \<Longrightarrow> \<exists>e. consume now k s = Inl e"
    and step_inv: "step s s' \<Longrightarrow> inv s \<Longrightarrow> inv s'"
    and step_keeps: "step s s' \<Longrightarrow> inv s \<Longrightarrow> spent k s \<Longrightarrow> spent k s'"
begin

lemma steps_keep: "step\<^sup>*\<^sup>* s s' \<Longrightarrow> inv s \<Longrightarrow> spent k s \<Longrightarrow> inv s' \<and> spent k s'"
  by (induction rule: rtranclp_induct) (auto intro: step_keeps step_inv)

lemma consumed_once:
  "inv s \<Longrightarrow> consume now k s = Inr (r, s1) \<Longrightarrow> step\<^sup>*\<^sup>* s1 s2 \<Longrightarrow> \<exists>e. consume now' k s2 = Inl e"
  by (blast intro: spent_refused dest: consume_spends steps_keep)

end

text \<open>
  Refresh tokens: beside the database, the set of the identifiers handed out so far, which a new
  identifier (\<open>Uuid::new_v4\<close>) is never in; a purged row stays spent for that reason.
\<close>

definition db_purge_stale_refresh_tokens :: "time \<Rightarrow> int \<Rightarrow> db \<Rightarrow> nat \<times> db" where
  "db_purge_stale_refresh_tokens now retention_days d =
     (let P = (\<lambda>r. rt_expires_at r < now - days retention_days \<or>
                 (case rt_revoked_at r of None \<Rightarrow> False | Some t \<Rightarrow> t < now - days retention_days))
      in (count_where P (refresh_tokens d), d\<lparr>refresh_tokens := delete_where P (refresh_tokens d)\<rparr>))"

inductive refresh_step :: "db \<times> uuid set \<Rightarrow> db \<times> uuid set \<Rightarrow> bool" where
  create: "i \<notin> used \<Longrightarrow> db_create_refresh_token now i user tenant x d = Inr ((), d') \<Longrightarrow>
     refresh_step (d, used) (d', insert i used)"
| rotate: "next \<notin> used \<Longrightarrow> db_rotate_refresh_token now i next user tenant x d = Inr ((), d') \<Longrightarrow>
     refresh_step (d, used) (d', insert next used)"
| revoke: "refresh_step (d, used) (revoke_where P now d, used)"
| revoke_one: "refresh_step (d, used) (snd (db_revoke_user_refresh_token now user i d), used)"
| purge: "refresh_step (d, used) (snd (db_purge_stale_refresh_tokens now n d), used)"
| other: "refresh_tokens d' = refresh_tokens d \<Longrightarrow> refresh_step (d, used) (d', used)"

inductive_cases refresh_stepE: "refresh_step s s'"

definition refresh_inv :: "db \<times> uuid set \<Rightarrow> bool" where
  "refresh_inv = (\<lambda>(d, used). distinct (map rt_id (refresh_tokens d)) \<and> set (map rt_id (refresh_tokens d)) \<subseteq> used)"

definition refresh_spent :: "uuid \<Rightarrow> db \<times> uuid set \<Rightarrow> bool" where
  "refresh_spent i = (\<lambda>(d, used). i \<in> used \<and> (\<forall>r \<in> set (refresh_tokens d). rt_id r = i \<longrightarrow> rt_revoked_at r \<noteq> None))"

definition refresh_consume ::
  "uuid \<Rightarrow> uuid \<Rightarrow> uuid \<Rightarrow> time \<Rightarrow> time \<Rightarrow> uuid \<Rightarrow> db \<times> uuid set \<Rightarrow> (unit \<times> db \<times> uuid set) result" where
  "refresh_consume next user tenant x now i =
     (\<lambda>(d, used). map_ok (\<lambda>(u, d'). (u, (d', insert next used)))
       (db_rotate_refresh_token now i next user tenant x d))"

lemma db_rotate_Inr:
  assumes "db_rotate_refresh_token now i next user tenant x d = Inr (u, d')"
  shows "\<exists>r \<in> set (refresh_tokens d). rt_id r = i \<and> refresh_live now r"
    and "next \<notin> rt_id ` set (refresh_tokens d)"
    and "refresh_tokens d' = update_where (\<lambda>r. rt_id r = i \<and> refresh_live now r)
        (\<lambda>r. r\<lparr>rt_revoked_at := Some now, rt_replaced_by := Some next\<rparr>) (refresh_tokens d) @
        [new_refresh_row next user tenant x now]"
    and "d' = d\<lparr>refresh_tokens := refresh_tokens d'\<rparr>"
    and "user_exists d user" and "tenant_exists d tenant"
proof -
  let ?f = "\<lambda>r. r\<lparr>rt_revoked_at := Some now, rt_replaced_by := Some next\<rparr>"
  have ids: "rt_id ` set (update_where P ?f t) = rt_id ` set t" for P t
    using arg_cong [OF map_key_update_where [of rt_id ?f P t], of set] by simp
  from assms show "\<exists>r \<in> set (refresh_tokens d). rt_id r = i \<and> refresh_live now r"
    "next \<notin> rt_id ` set (refresh_tokens d)"
    "refresh_tokens d' = update_where (\<lambda>r. rt_id r = i \<and> refresh_live now r) ?f (refresh_tokens d) @
        [new_refresh_row next user tenant x now]"
    "d' = d\<lparr>refresh_tokens := refresh_tokens d'\<rparr>" "user_exists d user" "tenant_exists d tenant"
    by (auto simp: db_rotate_refresh_token_def Let_def try_then_Inr insert_row_Inr row_exists_iff
        ids new_refresh_row_def simp del: set_map split: if_splits)
qed

lemma refresh_step_inv: "refresh_step s s' \<Longrightarrow> refresh_inv s \<Longrightarrow> refresh_inv s'"
proof (induction rule: refresh_step.induct)
  case (create i used now user tenant x d d')
  have "map rt_id (refresh_tokens d') = map rt_id (refresh_tokens d) @ [i]" "i \<notin> set (map rt_id (refresh_tokens d))"
    using create.hyps(2)
    by (auto simp: db_create_refresh_token_def try_then_Inr insert_row_Inr new_refresh_row_def)
  with create.prems show ?case unfolding refresh_inv_def by (auto simp del: set_map)
next
  case (rotate "next" used now i user tenant x d d')
  note r = db_rotate_Inr [OF rotate.hyps(2)]
  have "map rt_id (refresh_tokens d') = map rt_id (refresh_tokens d) @ [next]"
    by (simp add: r(3) map_key_update_where new_refresh_row_def)
  moreover have "next \<notin> set (map rt_id (refresh_tokens d))" using r(2) by simp
  ultimately show ?case using rotate.prems unfolding refresh_inv_def by (auto simp del: set_map)
next
  case (revoke d used P now)
  have "map rt_id (refresh_tokens (revoke_where P now d)) = map rt_id (refresh_tokens d)"
    by (simp add: revoke_where_def map_key_update_where revoke_row_def)
  with revoke show ?case unfolding refresh_inv_def by (simp del: set_map)
next
  case (revoke_one d used now user i)
  have "map rt_id (refresh_tokens (snd (db_revoke_user_refresh_token now user i d))) = map rt_id (refresh_tokens d)"
    by (simp add: db_revoke_user_refresh_token_def Let_def map_key_update_where)
  with revoke_one show ?case unfolding refresh_inv_def by (simp del: set_map)
next
  case (purge d used now n)
  then show ?case
    by (auto simp: refresh_inv_def db_purge_stale_refresh_tokens_def Let_def distinct_map_delete_where)
next
  case (other d' d used)
  then show ?case by (simp add: refresh_inv_def)
qed

lemma refresh_step_keeps:
  "refresh_step s s' \<Longrightarrow> refresh_inv s \<Longrightarrow> refresh_spent i s \<Longrightarrow> refresh_spent i s'"
proof (induction rule: refresh_step.induct)
  case (rotate "next" used now j user tenant x d d')
  note r = db_rotate_Inr [OF rotate.hyps(2)]
  show ?case
    using rotate.prems rotate.hyps(1) by (auto simp: refresh_spent_def r(3) in_update_where new_refresh_row_def)
qed (auto simp: refresh_spent_def db_create_refresh_token_def try_then_Inr insert_row_Inr
    new_refresh_row_def revoke_where_def in_update_where revoke_row_def db_revoke_user_refresh_token_def
    db_purge_stale_refresh_tokens_def Let_def split: option.splits)

interpretation refresh_rotation:
  single_use refresh_inv "refresh_consume next user tenant x" refresh_spent refresh_step
  for "next" user tenant x
proof unfold_locales
  fix s s' :: "db \<times> uuid set" and now i and r :: unit
  assume inv: "refresh_inv s" and c: "refresh_consume next user tenant x now i s = Inr (r, s')"
  obtain d used where s: "s = (d, used)" by (cases s)
  from c s obtain d' where d': "db_rotate_refresh_token now i next user tenant x d = Inr (r, d')"
    and s': "s' = (d', insert next used)" by (auto simp: refresh_consume_def map_ok_Inr)
  note r = db_rotate_Inr [OF d']
  from r(1) obtain q where q: "q \<in> set (refresh_tokens d)" "rt_id q = i" "refresh_live now q" by blast
  have ids: "map rt_id (refresh_tokens d') = map rt_id (refresh_tokens d) @ [next]"
    by (simp add: r(3) map_key_update_where new_refresh_row_def)
  have "next \<notin> set (map rt_id (refresh_tokens d))" using r(2) by simp
  then have "refresh_inv s'"
    using inv ids unfolding refresh_inv_def s s' by (auto simp del: set_map)
  moreover have one: "p = q" if "p \<in> set (refresh_tokens d)" "rt_id p = i" for p
    using inv that q(1,2) unfolding refresh_inv_def s distinct_map inj_on_def by blast
  have "rt_revoked_at p \<noteq> None" if p: "p \<in> set (refresh_tokens d')" "rt_id p = i" for p
  proof -
    have "next \<noteq> i" using r(2) q(1,2) by blast
    then have "rt_id (new_refresh_row next user tenant x now) \<noteq> i" by (simp add: new_refresh_row_def)
    with p r(3) have "p \<in> set (update_where (\<lambda>r. rt_id r = i \<and> refresh_live now r)
        (\<lambda>r. r\<lparr>rt_revoked_at := Some now, rt_replaced_by := Some next\<rparr>) (refresh_tokens d))" by auto
    then show ?thesis
    proof (elim in_update_where [THEN iffD1, elim_format] disjE conjE bexE)
      assume "p \<in> set (refresh_tokens d)" "\<not> (rt_id p = i \<and> refresh_live now p)"
      with one [of p] p(2) q(3) show ?thesis by blast
    qed simp
  qed
  moreover have "i \<in> used" using inv q(1,2) unfolding refresh_inv_def s by auto
  ultimately have "refresh_inv s'" "refresh_spent i s'"
    by (auto simp: refresh_spent_def s')
  then show "refresh_inv s' \<and> refresh_spent i s'" by simp
next
  fix i and s :: "db \<times> uuid set" and now
  assume "refresh_spent i s"
  then show "\<exists>e. refresh_consume next user tenant x now i s = Inl e"
    by (auto simp: refresh_spent_def refresh_consume_def db_rotate_refresh_token_def Let_def
        row_exists_iff refresh_live_def)
qed (auto intro: refresh_step_inv refresh_step_keeps)

text \<open>User tokens are never deleted, so the unique index on the hash keeps a spent one spent.\<close>

inductive user_token_step :: "db \<Rightarrow> db \<Rightarrow> bool" where
  create: "db_create_user_token i now user kind h x d = Inr (r, d') \<Longrightarrow> user_token_step d d'"
| consume: "db_consume_user_token now kind h d = Inr (r, d') \<Longrightarrow> user_token_step d d'"
| other: "user_tokens d' = user_tokens d \<Longrightarrow> user_token_step d d'"

definition user_token_inv :: "db \<Rightarrow> bool" where
  "user_token_inv d \<longleftrightarrow> distinct (map ut_token_hash (user_tokens d))"

definition user_token_spent :: "string \<times> string \<Rightarrow> db \<Rightarrow> bool" where
  "user_token_spent k d \<longleftrightarrow>
     (\<exists>r \<in> set (user_tokens d). ut_token_hash r = snd k) \<and>
     (\<forall>r \<in> set (user_tokens d). ut_token_hash r = snd k \<longrightarrow> ut_used_at r \<noteq> None)"

definition mark_used :: "time \<Rightarrow> user_token_record \<Rightarrow> user_token_record" where
  "mark_used now r = r\<lparr>ut_used_at := Some now\<rparr>"

lemma mark_used_hash: "map ut_token_hash (update_where P (mark_used now) t) = map ut_token_hash t"
  by (simp add: map_key_update_where mark_used_def)

lemma create_user_token_Inr:
  assumes "db_create_user_token i now user kind h x d = Inr (r, d')"
  shows "user_tokens d' = update_where
      (\<lambda>r. ut_user_id r = user \<and> ut_kind r = kind \<and> ut_used_at r = None) (mark_used now) (user_tokens d) @ [r]"
    and "ut_token_hash r = h" and "ut_used_at r = None" and "ut_user_id r = user" and "ut_kind r = kind"
    and "ut_expires_at r = x"
    and "h \<notin> set (map ut_token_hash (user_tokens d))" and "d' = d\<lparr>user_tokens := user_tokens d'\<rparr>"
    and "user_exists d user"
proof -
  let ?t = "update_where (\<lambda>r. ut_user_id r = user \<and> ut_kind r = kind \<and> ut_used_at r = None)
      (mark_used now) (user_tokens d)"
  let ?r = "\<lparr>ut_id = i, ut_user_id = user, ut_kind = kind, ut_token_hash = h, ut_expires_at = x,
      ut_used_at = None, ut_created_at = now\<rparr>"
  from assms have r: "r = ?r" and d': "d' = d\<lparr>user_tokens := ?t @ [?r]\<rparr>"
    and h: "h \<notin> ut_token_hash ` set ?t" and u: "user_exists d user"
    by (auto simp: db_create_user_token_def Let_def try_then_Inr insert_row_Inr mark_used_def [abs_def])
  show "user_tokens d' = ?t @ [r]" "ut_token_hash r = h" "ut_used_at r = None" "ut_user_id r = user"
    "ut_kind r = kind" "ut_expires_at r = x" "d' = d\<lparr>user_tokens := user_tokens d'\<rparr>"
    by (simp_all add: r d')
  show "h \<notin> set (map ut_token_hash (user_tokens d))"
    using h unfolding mark_used_hash [symmetric, of "user_tokens d"
        "\<lambda>r. ut_user_id r = user \<and> ut_kind r = kind \<and> ut_used_at r = None" now] by simp
  show "user_exists d user" by (rule u)
qed

lemma consume_user_token_Inr:
  assumes "db_consume_user_token now kind h d = Inr (r, d')"
  shows "\<exists>q \<in> set (user_tokens d). token_usable now kind h q \<and> r = mark_used now q"
    and "d' = d\<lparr>user_tokens := update_where (token_usable now kind h) (mark_used now) (user_tokens d)\<rparr>"
  using assms
  by (auto simp: db_consume_user_token_def try_then_Inr mark_used_def [abs_def] dest!: update_returning_InrD)

lemma user_token_step_inv: "user_token_step d d' \<Longrightarrow> user_token_inv d \<Longrightarrow> user_token_inv d'"
proof (induction rule: user_token_step.induct)
  case (create i now user kind h x d r d')
  have "map ut_token_hash (user_tokens d') = map ut_token_hash (user_tokens d) @ [h]"
    using create_user_token_Inr(1,2) [OF create.hyps] by (simp add: mark_used_hash)
  with create.prems create_user_token_Inr(7) [OF create.hyps] show ?case
    unfolding user_token_inv_def by (simp del: set_map)
next
  case (consume now kind h d r d')
  then show ?case
    using consume_user_token_Inr(2) [OF consume.hyps] by (simp add: user_token_inv_def mark_used_hash)
qed (simp add: user_token_inv_def)

lemma user_token_step_keeps: "user_token_step d d' \<Longrightarrow> user_token_spent k d \<Longrightarrow> user_token_spent k d'"
proof (induction rule: user_token_step.induct)
  case (create i now user kind h x d r d')
  note c = create_user_token_Inr [OF create.hyps]
  from create.prems obtain q where q: "q \<in> set (user_tokens d)" "ut_token_hash q = snd k"
    by (auto simp: user_token_spent_def)
  have "snd k \<in> set (map ut_token_hash (user_tokens d))" unfolding set_map using q by (metis imageI)
  with c(7) have "h \<noteq> snd k" by metis
  moreover have "snd k \<in> set (map ut_token_hash (user_tokens d'))"
    unfolding c(1) map_append mark_used_hash using q by force
  ultimately show ?case
    using create.prems c(2) by (auto simp: user_token_spent_def c(1) in_update_where mark_used_def)
next
  case (consume now kind h d r d')
  note c = consume_user_token_Inr(2) [OF consume.hyps]
  have "snd k \<in> set (map ut_token_hash (user_tokens d'))"
    using consume.prems unfolding c user_token_spent_def by (simp add: mark_used_hash) (metis imageI)
  then show ?case
    using consume.prems by (auto simp: user_token_spent_def c in_update_where mark_used_def)
qed (simp add: user_token_spent_def)

interpretation user_token_use:
  single_use user_token_inv "\<lambda>now k. db_consume_user_token now (fst k) (snd k)" user_token_spent user_token_step
proof unfold_locales
  fix d d' :: db and now k r
  assume inv: "user_token_inv d" and c: "db_consume_user_token now (fst k) (snd k) d = Inr (r, d')"
  note r = consume_user_token_Inr [OF c]
  from r(1) obtain q where q: "q \<in> set (user_tokens d)" "token_usable now (fst k) (snd k) q" by blast
  have one: "p = q" if "p \<in> set (user_tokens d)" "ut_token_hash p = snd k" for p
  proof -
    have "ut_token_hash p = ut_token_hash q" using that(2) q(2) by (simp add: token_usable_def)
    moreover have "inj_on ut_token_hash (set (user_tokens d))"
      using inv by (simp add: user_token_inv_def distinct_map)
    ultimately show ?thesis using that(1) q(1) by (simp add: inj_onD)
  qed
  have "mark_used now q \<in> set (user_tokens d')" "ut_token_hash (mark_used now q) = snd k"
  proof -
    show "mark_used now q \<in> set (user_tokens d')" unfolding r(2) using q by (simp add: in_update_where) blast
    show "ut_token_hash (mark_used now q) = snd k" using q(2) by (simp add: mark_used_def token_usable_def)
  qed
  moreover have "ut_used_at p \<noteq> None" if p: "p \<in> set (user_tokens d')" "ut_token_hash p = snd k" for p
  proof -
    from p(1) have "(p \<in> set (user_tokens d) \<and> \<not> token_usable now (fst k) (snd k) p) \<or>
        (\<exists>x. p = mark_used now x)"
      unfolding r(2) by (auto simp: in_update_where)
    then show ?thesis
    proof (elim disjE conjE exE)
      assume "p \<in> set (user_tokens d)" "\<not> token_usable now (fst k) (snd k) p"
      with one [of p] p(2) q(2) show ?thesis by blast
    qed (simp add: mark_used_def)
  qed
  ultimately have "user_token_spent k d'" unfolding user_token_spent_def by blast
  then show "user_token_inv d' \<and> user_token_spent k d'"
    using user_token_step_inv [OF user_token_step.consume [OF c] inv] by simp
next
  fix k and d :: db and now
  assume "user_token_spent k d"
  then have "\<forall>r \<in> set (user_tokens d). \<not> token_usable now (fst k) (snd k) r"
    by (auto simp: user_token_spent_def token_usable_def)
  then show "\<exists>e. db_consume_user_token now (fst k) (snd k) d = Inl e"
    by (auto simp: db_consume_user_token_def update_returning_Inl [THEN iffD2])
qed (auto intro: user_token_step_inv user_token_step_keeps)

end
