(* ===== verification/Jobs.thy ===== *)
theory Jobs
  imports Csv TaskService Tokens Notifications
begin

text \<open>
  Background jobs: \<open>src/db/jobs.rs\<close>, \<open>src/db/retention.rs\<close>, \<open>src/services/jobs.rs\<close> and the
  bodies of the loops of \<open>src/jobs\<close>. A worker claims a queued job, runs it and records how it
  ended; the reaper takes back jobs whose worker is gone. The loops themselves are endless
  (a tick, then a wait): \<open>worker_step\<close> in \<open>JobProperties\<close> is any interleaving of their ticks.
\<close>

section \<open>The table\<close>

definition new_job :: "uuid \<Rightarrow> time \<Rightarrow> uuid option \<Rightarrow> string \<Rightarrow> json \<Rightarrow> int \<Rightarrow> background_job_record" where
  "new_job i now tenant job_type payload max_attempts =
     \<lparr>jb_id = i, jb_tenant_id = tenant, jb_job_type = job_type, jb_status = ''queued'', jb_attempts = 0,
      jb_max_attempts = max_attempts, jb_scheduled_at = now, jb_started_at = None, jb_finished_at = None,
      jb_payload = payload, jb_result_payload = None, jb_last_error = None\<rparr>"

definition db_create_job ::
  "uuid \<Rightarrow> time \<Rightarrow> uuid option \<Rightarrow> string \<Rightarrow> json \<Rightarrow> int \<Rightarrow> background_job_record dbop" where
  "db_create_job i now tenant job_type payload max_attempts d =
     try_then (require_check (job_type \<in> {''task_export'', ''due_reminder_sweep'', ''retention_sweep''})) (\<lambda>_.
     try_then (insert_row jb_id (new_job i now tenant job_type payload max_attempts) (background_jobs d)) (\<lambda>t.
     try_then (require_fk (fk_opt (tenant_exists d) tenant)) (\<lambda>_.
     Inr (new_job i now tenant job_type payload max_attempts, d\<lparr>background_jobs := t\<rparr>))))"

definition db_get_job :: "uuid \<Rightarrow> db \<Rightarrow> background_job_record option" where
  "db_get_job i d = fetch_optional (\<lambda>j. jb_id j = i) (background_jobs d)"

definition job_ready :: "time \<Rightarrow> background_job_record \<Rightarrow> bool" where
  "job_ready now j \<longleftrightarrow> jb_status j = ''queued'' \<and> jb_scheduled_at j \<le> now"

definition db_list_ready_job_ids :: "time \<Rightarrow> nat \<Rightarrow> db \<Rightarrow> uuid list" where
  "db_list_ready_job_ids now limit d =
     map jb_id (take limit (order_asc jb_scheduled_at (select_where (job_ready now) (background_jobs d))))"

text \<open>The lease is the number of seconds a worker may take.\<close>

definition job_stale :: "time \<Rightarrow> nat \<Rightarrow> background_job_record \<Rightarrow> bool" where
  "job_stale now lease_secs j \<longleftrightarrow> jb_status j = ''running'' \<and>
     (case jb_started_at j of None \<Rightarrow> False | Some t \<Rightarrow> t \<le> now - seconds (int lease_secs))"

definition reclaimed :: "time \<Rightarrow> background_job_record \<Rightarrow> background_job_record" where
  "reclaimed now j =
     (let dead = jb_max_attempts j \<le> jb_attempts j
      in j\<lparr>jb_status := (if dead then ''dead_letter'' else ''queued''), jb_scheduled_at := now,
           jb_finished_at := (if dead then Some now else jb_finished_at j),
           jb_last_error := Some ''job lease expired before completion''\<rparr>)"

definition db_requeue_stale_jobs :: "time \<Rightarrow> nat \<Rightarrow> (uuid \<times> string) list dbop" where
  "db_requeue_stale_jobs now lease_secs d =
     (if 9223372036854775 < lease_secs then Inl (Internal ''invalid job lease'')
      else Inr (map (\<lambda>j. (jb_id j, jb_status j)) (returning (job_stale now lease_secs) (reclaimed now) (background_jobs d)),
        d\<lparr>background_jobs := update_where (job_stale now lease_secs) (reclaimed now) (background_jobs d)\<rparr>))"

definition started :: "time \<Rightarrow> background_job_record \<Rightarrow> background_job_record" where
  "started now j = j\<lparr>jb_status := ''running'', jb_attempts := jb_attempts j + 1,
     jb_started_at := Some now, jb_last_error := None\<rparr>"

definition db_mark_job_running :: "time \<Rightarrow> uuid \<Rightarrow> db \<Rightarrow> background_job_record option \<times> db" where
  "db_mark_job_running now i d =
     (let P = (\<lambda>j. jb_id j = i \<and> job_ready now j)
      in (first_row (returning P (started now) (background_jobs d)),
          d\<lparr>background_jobs := update_where P (started now) (background_jobs d)\<rparr>))"

definition completed :: "time \<Rightarrow> json \<Rightarrow> background_job_record \<Rightarrow> background_job_record" where
  "completed now result j = j\<lparr>jb_status := ''completed'', jb_finished_at := Some now, jb_result_payload := Some result\<rparr>"

definition db_complete_job :: "time \<Rightarrow> uuid \<Rightarrow> json \<Rightarrow> db \<Rightarrow> db" where
  "db_complete_job now i result d =
     d\<lparr>background_jobs := update_where (\<lambda>j. jb_id j = i) (completed now result) (background_jobs d)\<rparr>"

text \<open>The row is updated from the worker's own copy \<open>c\<close> of it.\<close>

definition failed :: "time \<Rightarrow> background_job_record \<Rightarrow> string \<Rightarrow> background_job_record \<Rightarrow> background_job_record" where
  "failed now c message j =
     (let status = (if jb_max_attempts c \<le> jb_attempts c then ''dead_letter'' else ''queued'');
          next_time = (if status = ''dead_letter'' then now else retry_backoff now (jb_attempts c))
      in j\<lparr>jb_status := status, jb_scheduled_at := next_time,
           jb_finished_at := (if status = ''dead_letter'' then Some now else None), jb_last_error := Some message\<rparr>)"

definition db_fail_job :: "time \<Rightarrow> background_job_record \<Rightarrow> string \<Rightarrow> db \<Rightarrow> db" where
  "db_fail_job now c message d =
     d\<lparr>background_jobs := update_where (\<lambda>j. jb_id j = jb_id c) (failed now c message) (background_jobs d)\<rparr>"

definition db_ensure_due_reminder_job ::
  "uuid \<Rightarrow> time \<Rightarrow> uuid option \<Rightarrow> int \<Rightarrow> background_job_record option dbop" where
  "db_ensure_due_reminder_job i now tenant max_attempts d =
     (if row_exists (\<lambda>j. jb_job_type j = ''due_reminder_sweep'' \<and> jb_tenant_id j = tenant \<and>
           (jb_status j = ''queued'' \<or> jb_status j = ''running'')) (background_jobs d)
      then Inr (None, d)
      else try_then (db_create_job i now tenant ''due_reminder_sweep''
             (JObject [(''tenant_id'', json_opt JUuid tenant)]) max_attempts d) (\<lambda>(j, d).
           Inr (Some j, d)))"

definition db_ensure_retention_job ::
  "uuid \<Rightarrow> time \<Rightarrow> int \<Rightarrow> int \<Rightarrow> background_job_record option dbop" where
  "db_ensure_retention_job i now interval_hours max_attempts d =
     (if row_exists (\<lambda>j. jb_job_type j = ''retention_sweep'' \<and>
           (jb_status j = ''queued'' \<or> jb_status j = ''running'' \<or>
            now - hours interval_hours < jb_scheduled_at j)) (background_jobs d)
      then Inr (None, d)
      else try_then (db_create_job i now None ''retention_sweep'' (JObject []) max_attempts d) (\<lambda>(j, d).
           Inr (Some j, d)))"

section \<open>Retention\<close>

definition db_purge_terminal_jobs :: "time \<Rightarrow> int \<Rightarrow> db \<Rightarrow> nat \<times> db" where
  "db_purge_terminal_jobs now retention_days d =
     (let P = (\<lambda>j. (jb_status j = ''completed'' \<or> jb_status j = ''dead_letter'') \<and>
                 (case jb_finished_at j of None \<Rightarrow> jb_scheduled_at j | Some t \<Rightarrow> t) < now - days retention_days)
      in (count_where P (background_jobs d), d\<lparr>background_jobs := delete_where P (background_jobs d)\<rparr>))"

definition db_purge_terminal_notifications :: "time \<Rightarrow> int \<Rightarrow> db \<Rightarrow> nat \<times> db" where
  "db_purge_terminal_notifications now retention_days d =
     (let P = (\<lambda>n. (nt_status n = ''sent'' \<or> nt_status n = ''dead_letter'') \<and>
                 nt_created_at n < now - days retention_days)
      in (count_where P (notifications d), d\<lparr>notifications := delete_where P (notifications d)\<rparr>))"

definition db_purge_old_audit_events :: "time \<Rightarrow> int \<Rightarrow> db \<Rightarrow> nat \<times> db" where
  "db_purge_old_audit_events now retention_days d =
     (let P = (\<lambda>a. ae_created_at a < now - days retention_days)
      in (count_where P (audit_log d), d\<lparr>audit_log := delete_where P (audit_log d)\<rparr>))"

definition db_count_queued_jobs :: "db \<Rightarrow> nat" where
  "db_count_queued_jobs d = count_where (\<lambda>j. jb_status j = ''queued'') (background_jobs d)"

definition process_retention_job :: "env \<Rightarrow> time \<Rightarrow> json app" where
  "process_retention_job e now =
     then_do (db_run (\<lambda>d. Inr (db_purge_stale_refresh_tokens now (refresh_token_retention_days (cfg e)) d))) (\<lambda>refresh_tokens.
     then_do (db_run (\<lambda>d. Inr (db_purge_terminal_jobs now (job_retention_days (cfg e)) d))) (\<lambda>jobs.
     then_do (db_run (\<lambda>d. Inr (db_purge_terminal_notifications now (notification_retention_days (cfg e)) d))) (\<lambda>notifications.
     then_do (db_run (\<lambda>d. Inr (db_purge_old_audit_events now (audit_retention_days (cfg e)) d))) (\<lambda>audit_events.
     ret (JObject [(''generated_at'', JTime now), (''refresh_tokens_purged'', JNumber (int refresh_tokens)),
       (''jobs_purged'', JNumber (int jobs)), (''notifications_purged'', JNumber (int notifications)),
       (''audit_events_purged'', JNumber (int audit_events))])))))"

section \<open>Payloads\<close>

text \<open>
  The derived \<open>Deserialize\<close> of the payloads: a missing or null optional field is absent, a value of
  the wrong type is an error (\<open>None\<close>). UUIDs and times are accepted as what a \<open>json!\<close> literal
  wrote and as their text.
\<close>

definition json_uuid :: "env \<Rightarrow> json \<Rightarrow> uuid option" where
  "json_uuid e v = (case v of JUuid u \<Rightarrow> Some u | JString s \<Rightarrow> parse_uuid_str e s | _ \<Rightarrow> None)"

definition json_time :: "env \<Rightarrow> json \<Rightarrow> time option" where
  "json_time e v = (case v of JTime t \<Rightarrow> Some t | JString s \<Rightarrow> parse_rfc3339 e s | _ \<Rightarrow> None)"

definition json_enum :: "(string \<Rightarrow> 'a result) \<Rightarrow> json \<Rightarrow> 'a option" where
  "json_enum parse v =
     (case v of JString s \<Rightarrow> (case parse s of Inl _ \<Rightarrow> None | Inr x \<Rightarrow> Some x) | _ \<Rightarrow> None)"

definition optional_field :: "(json \<Rightarrow> 'a option) \<Rightarrow> json \<Rightarrow> string \<Rightarrow> 'a option option" where
  "optional_field f v k =
     (case json_get v k of None \<Rightarrow> Some None | Some x \<Rightarrow> if x = JNull then Some None else map_option Some (f x))"

definition is_object :: "json \<Rightarrow> bool" where
  "is_object v = (case v of JObject _ \<Rightarrow> True | _ \<Rightarrow> False)"

definition parse_task_filters :: "env \<Rightarrow> json \<Rightarrow> task_filters option" where
  "parse_task_filters e v =
     (if \<not> is_object v then None
      else
        Option.bind (optional_field (json_enum task_status_from_str) v ''status'') (\<lambda>status.
        Option.bind (optional_field (json_enum task_priority_from_str) v ''priority'') (\<lambda>priority.
        Option.bind (optional_field (json_uuid e) v ''project_id'') (\<lambda>project_id.
        Option.bind (optional_field (json_uuid e) v ''assignee_id'') (\<lambda>assignee_id.
        Option.bind (optional_field (json_uuid e) v ''label_id'') (\<lambda>label_id.
        Option.bind (optional_field (json_time e) v ''due_before'') (\<lambda>due_before.
        Option.bind (optional_field (json_time e) v ''due_after'') (\<lambda>due_after.
        Option.bind (optional_field (json_time e) v ''updated_after'') (\<lambda>updated_after.
        Option.bind (optional_field json_as_str v ''q'') (\<lambda>q.
        Some \<lparr>tf_status = status, tf_priority = priority, tf_project_id = project_id,
              tf_assignee_id = assignee_id, tf_label_id = label_id, tf_due_before = due_before,
              tf_due_after = due_after, tf_updated_after = updated_after, tf_q = q\<rparr>))))))))))"

record export_job_payload =
  ep_tenant_id :: uuid
  ep_requested_by :: uuid
  ep_filters :: task_filters
  ep_format :: export_format

definition export_job_json :: "uuid \<Rightarrow> uuid \<Rightarrow> task_filters \<Rightarrow> export_format \<Rightarrow> json" where
  "export_job_json tenant requested_by filters format = JObject
     [(''tenant_id'', JUuid tenant), (''requested_by'', JUuid requested_by),
      (''filters'', export_payload filters), (''format'', JString (export_format_str format))]"

definition parse_export_payload :: "env \<Rightarrow> json \<Rightarrow> export_job_payload option" where
  "parse_export_payload e v =
     Option.bind (json_get v ''tenant_id'') (\<lambda>t. Option.bind (json_uuid e t) (\<lambda>tenant.
     Option.bind (json_get v ''requested_by'') (\<lambda>r. Option.bind (json_uuid e r) (\<lambda>requested_by.
     Option.bind (json_get v ''filters'') (\<lambda>f. Option.bind (parse_task_filters e f) (\<lambda>filters.
     Option.bind (case json_get v ''format'' of None \<Rightarrow> Some FmtJson | Some x \<Rightarrow> json_enum export_format_from_str x) (\<lambda>format.
     Some \<lparr>ep_tenant_id = tenant, ep_requested_by = requested_by, ep_filters = filters, ep_format = format\<rparr>)))))))"

definition parse_due_reminder_payload :: "env \<Rightarrow> background_job_record \<Rightarrow> uuid option" where
  "parse_due_reminder_payload e j =
     (case (if is_object (jb_payload j) then optional_field (json_uuid e) (jb_payload j) ''tenant_id'' else None) of
        None \<Rightarrow> jb_tenant_id j | Some t \<Rightarrow> t)"

section \<open>Export\<close>

definition export_chunk_size :: nat where "export_chunk_size = 500"

text \<open>
  The loop reads chunk after chunk until one is not full. \<open>read k c\<close> is the answer of the \<open>k\<close>-th
  query, so that the database may change between two of them; the fuel bounds the number of queries.
\<close>

fun export_loop ::
  "(nat \<Rightarrow> cursor option \<Rightarrow> task_record list) \<Rightarrow> nat \<Rightarrow> nat \<Rightarrow> nat \<Rightarrow> cursor option \<Rightarrow> task_record list option" where
  "export_loop read chunk_size 0 k c = None"
| "export_loop read chunk_size (Suc fuel) k c =
     (let chunk = read k c
      in if length chunk = chunk_size
         then map_option (\<lambda>rest. chunk @ rest)
                (export_loop read chunk_size fuel (Suc k) (if chunk = [] then None else Some (task_cursor_of (last chunk))))
         else Some chunk)"

definition artifact_key :: "env \<Rightarrow> uuid \<Rightarrow> uuid \<Rightarrow> export_format \<Rightarrow> string" where
  "artifact_key e tenant job format =
     uuid_str e tenant @ ''/'' @ uuid_str e job @ ''.'' @ export_format_str format"

definition export_bytes :: "env \<Rightarrow> export_format \<Rightarrow> task_response list \<Rightarrow> string" where
  "export_bytes e format responses =
     (case format of
        FmtJson \<Rightarrow> json_text e (JObject [(''tasks'', JArray (map task_response_json responses))])
      | FmtCsv \<Rightarrow> render_tasks_csv e responses)"

definition process_export_job :: "env \<Rightarrow> time \<Rightarrow> background_job_record \<Rightarrow> json app" where
  "process_export_job e now j =
     then_do (lift_result (ok_or (parse_export_payload e (jb_payload j)) (Internal ''invalid export job payload''))) (\<lambda>payload.
     then_do (db_try (\<lambda>d. ok_or (export_loop
       (\<lambda>k c. db_export_tasks e (ep_tenant_id payload) (ep_filters payload) c export_chunk_size d)
       export_chunk_size (Suc (length (tasks d))) 0 None) (Internal ''out of fuel''))) (\<lambda>all_tasks.
     then_do (lift_result (collect_results task_response all_tasks)) (\<lambda>responses.
     let bytes = export_bytes e (ep_format payload) responses;
         key = artifact_key e (ep_tenant_id payload) (jb_id j) (ep_format payload)
     in then_do (store_put key bytes) (\<lambda>_.
     ret (JObject [(''requested_by'', JUuid (ep_requested_by payload)), (''generated_at'', JTime now),
       (''task_count'', JNumber (int (length responses))),
       (''format'', JString (export_format_str (ep_format payload))),
       (''artifact'', JObject [(''key'', JString key),
         (''content_type'', JString (export_content_type (ep_format payload))),
         (''size_bytes'', JNumber (int (length bytes))),
         (''download_path'', JString (''/v1/jobs/'' @ uuid_str e (jb_id j) @ ''/artifact''))])])))))"

section \<open>Reminders\<close>

text \<open>The decimal text of a number.\<close>

definition digit :: "nat \<Rightarrow> char" where "digit n = char_of (48 + n)"

fun nat_text :: "nat \<Rightarrow> string" where
  "nat_text n = (if n < 10 then [digit n] else nat_text (n div 10) @ [digit (n mod 10)])"

declare nat_text.simps [simp del]

definition reminder_candidate_limit :: nat where "reminder_candidate_limit = 500"

text \<open>The clock is after 1970, so the division of \<open>i64\<close> rounds like \<open>div\<close>.\<close>

definition reminder_bucket :: "env \<Rightarrow> time \<Rightarrow> nat" where
  "reminder_bucket e now = nat (timestamp now div max (reminder_dedupe_ttl_hours (cfg e) * 3600) 1)"

definition dedupe_key :: "env \<Rightarrow> string \<Rightarrow> uuid \<Rightarrow> uuid \<Rightarrow> nat \<Rightarrow> string" where
  "dedupe_key e kind task assignee bucket =
     kind @ '':'' @ uuid_str e task @ '':'' @ uuid_str e assignee @ '':'' @ nat_text bucket"

definition reminder_notification ::
  "env \<Rightarrow> time \<Rightarrow> nat \<Rightarrow> due_reminder_candidate \<Rightarrow> new_notification" where
  "reminder_notification e now bucket c =
     (let kind = reminder_kind now (dr_due_at c)
      in \<lparr>nn_tenant_id = Some (dr_tenant_id c), nn_user_id = Some (dr_assignee_id c), nn_kind = kind,
          nn_recipient = dr_email c,
          nn_payload = JObject [(''task_id'', JUuid (dr_task_id c)), (''title'', JString (dr_title c)),
            (''due_at'', JString (rfc3339 e (dr_due_at c)))],
          nn_dedupe_key = Some (dedupe_key e kind (dr_task_id c) (dr_assignee_id c) bucket)\<rparr>)"

text \<open>\<open>nids k\<close> is the identifier drawn for the \<open>k\<close>-th candidate.\<close>

fun enqueue_reminders ::
  "env \<Rightarrow> (nat \<Rightarrow> uuid) \<Rightarrow> time \<Rightarrow> nat \<Rightarrow> nat \<Rightarrow> due_reminder_candidate list \<Rightarrow> nat app" where
  "enqueue_reminders e nids now bucket k [] = ret 0"
| "enqueue_reminders e nids now bucket k (c # cs) =
     then_do (db_run (db_enqueue_notification (nids k) now (reminder_notification e now bucket c)
       (max_job_attempts (cfg e)))) (\<lambda>inserted.
     then_do (enqueue_reminders e nids now bucket (Suc k) cs) (\<lambda>n.
     ret ((if inserted then 1 else 0) + n)))"

definition enqueue_due_reminder_notifications ::
  "env \<Rightarrow> (nat \<Rightarrow> uuid) \<Rightarrow> time \<Rightarrow> uuid option \<Rightarrow> nat app" where
  "enqueue_due_reminder_notifications e nids now tenant =
     then_do (db_read (db_list_due_reminder_candidates now (nat (reminder_due_soon_hours (cfg e)))
       reminder_candidate_limit tenant)) (\<lambda>candidates.
     enqueue_reminders e nids now (reminder_bucket e now) 0 candidates)"

definition process_due_reminder_job ::
  "env \<Rightarrow> (nat \<Rightarrow> uuid) \<Rightarrow> (nat \<Rightarrow> uuid) \<Rightarrow> time \<Rightarrow> background_job_record \<Rightarrow> json app" where
  "process_due_reminder_job e aids nids now j =
     (let tenant = parse_due_reminder_payload e j
      in then_do (db_run (db_record_due_reminders aids now tenant)) (\<lambda>reminders.
         then_do (enqueue_due_reminder_notifications e nids now tenant) (\<lambda>notified.
         ret (JObject [(''generated_at'', JTime now), (''tenant_id'', json_opt JUuid tenant),
           (''reminder_count'', JNumber (int reminders)), (''notification_count'', JNumber (int notified))]))))"

section \<open>Services\<close>

definition svc_create_export_job ::
  "env \<Rightarrow> uuid \<Rightarrow> time \<Rightarrow> uuid \<Rightarrow> uuid \<Rightarrow> task_filters \<Rightarrow> export_format \<Rightarrow> background_job_record app" where
  "svc_create_export_job e i now tenant requested_by filters format =
     then_do (db_run (db_create_job i now (Some tenant) (job_type_str TaskExport)
       (export_job_json tenant requested_by filters format) (max_job_attempts (cfg e)))) (\<lambda>j.
     then_do (cache_run (enqueue_job (jb_id j))) (\<lambda>_.
     ret j))"

definition enqueue_if_some :: "background_job_record option app \<Rightarrow> background_job_record option app" where
  "enqueue_if_some m =
     then_do m (\<lambda>j.
     then_do (case j of None \<Rightarrow> ret () | Some j \<Rightarrow> cache_run (enqueue_job (jb_id j))) (\<lambda>_.
     ret j))"

definition svc_enqueue_due_reminder_sweep ::
  "env \<Rightarrow> uuid \<Rightarrow> time \<Rightarrow> uuid option \<Rightarrow> background_job_record option app" where
  "svc_enqueue_due_reminder_sweep e i now tenant =
     enqueue_if_some (db_run (db_ensure_due_reminder_job i now tenant (max_job_attempts (cfg e))))"

definition svc_enqueue_retention_sweep :: "env \<Rightarrow> uuid \<Rightarrow> time \<Rightarrow> background_job_record option app" where
  "svc_enqueue_retention_sweep e i now =
     enqueue_if_some (db_run (db_ensure_retention_job i now (retention_sweep_interval_hours (cfg e))
       (max_job_attempts (cfg e))))"

definition svc_get_job :: "uuid \<Rightarrow> background_job_record option app" where
  "svc_get_job i = db_read (db_get_job i)"

definition svc_get_tenant_job :: "uuid \<Rightarrow> uuid \<Rightarrow> background_job_record app" where
  "svc_get_tenant_job i tenant =
     then_do (svc_get_job i) (\<lambda>j.
     then_do (lift_result (ok_or j (NotFound ''job not found''))) (\<lambda>j.
     if jb_tenant_id j \<noteq> Some tenant then fail (NotFound ''job not found'') else ret j))"

record job_result_response =
  jx_job_id :: uuid
  jx_job_type :: job_type
  jx_finished_at :: "time option"
  jx_result :: json

definition job_result_response :: "background_job_record \<Rightarrow> job_result_response result" where
  "job_result_response j =
     try_then (ok_or (jb_result_payload j) (Internal ''completed job is missing result payload'')) (\<lambda>result.
     try_then (job_type_from_str (jb_job_type j)) (\<lambda>ty.
     Inr \<lparr>jx_job_id = jb_id j, jx_job_type = ty, jx_finished_at = jb_finished_at j, jx_result = result\<rparr>))"

definition svc_get_tenant_job_result :: "uuid \<Rightarrow> uuid \<Rightarrow> job_result_response app" where
  "svc_get_tenant_job_result i tenant =
     then_do (svc_get_tenant_job i tenant) (\<lambda>j.
     then_do (lift_result (job_status_from_str (jb_status j))) (\<lambda>status.
     case status of
       JCompleted \<Rightarrow> lift_result (job_result_response j)
     | JQueued \<Rightarrow> fail (Conflict ''job result is not ready'')
     | JRunning \<Rightarrow> fail (Conflict ''job result is not ready'')
     | JDeadLetter \<Rightarrow> fail (Conflict ''job did not complete successfully'')))"

definition svc_dispatch_ready_jobs :: "time \<Rightarrow> nat \<Rightarrow> unit app" where
  "svc_dispatch_ready_jobs now limit =
     then_do (db_read (db_list_ready_job_ids now limit)) (\<lambda>ids.
     for_each (\<lambda>i. cache_run (enqueue_job i)) ids)"

definition svc_reap_stale_jobs :: "env \<Rightarrow> time \<Rightarrow> unit app" where
  "svc_reap_stale_jobs e now =
     then_do (db_run (db_requeue_stale_jobs now (job_lease (cfg e)))) (\<lambda>_. ret ())"

definition run_claimed_job ::
  "env \<Rightarrow> (nat \<Rightarrow> uuid) \<Rightarrow> (nat \<Rightarrow> uuid) \<Rightarrow> time \<Rightarrow> background_job_record \<Rightarrow> job_type \<Rightarrow> json app" where
  "run_claimed_job e aids nids now j ty =
     (case ty of
        TaskExport \<Rightarrow> process_export_job e now j
      | DueReminderSweep \<Rightarrow> process_due_reminder_job e aids nids now j
      | RetentionSweep \<Rightarrow> process_retention_job e now)"

definition record_outcome :: "time \<Rightarrow> background_job_record \<Rightarrow> json result \<Rightarrow> unit app" where
  "record_outcome now j outcome =
     (case outcome of
        Inr payload \<Rightarrow> db_run (\<lambda>d. Inr ((), db_complete_job now (jb_id j) payload d))
      | Inl error \<Rightarrow> db_run (\<lambda>d. Inr ((), db_fail_job now j (error_text error) d)))"

definition svc_process_job ::
  "env \<Rightarrow> (nat \<Rightarrow> uuid) \<Rightarrow> (nat \<Rightarrow> uuid) \<Rightarrow> time \<Rightarrow> uuid \<Rightarrow> unit app" where
  "svc_process_job e aids nids now i =
     then_do (db_run (\<lambda>d. Inr (db_mark_job_running now i d))) (\<lambda>claimed.
     case claimed of
       None \<Rightarrow> ret ()
     | Some j \<Rightarrow>
         then_do (lift_result (job_type_from_str (jb_job_type j))) (\<lambda>ty.
         then_do (attempt (run_claimed_job e aids nids now j ty)) (\<lambda>outcome.
         record_outcome now j outcome)))"

section \<open>The ticks of the loops\<close>

definition dispatch_tick :: "time \<Rightarrow> unit app" where
  "dispatch_tick now = logged (svc_dispatch_ready_jobs now 100)"

definition processor_tick :: "env \<Rightarrow> (nat \<Rightarrow> uuid) \<Rightarrow> (nat \<Rightarrow> uuid) \<Rightarrow> time \<Rightarrow> unit app" where
  "processor_tick e aids nids now =
     then_do (cache_run dequeue_job) (\<lambda>i.
     case i of None \<Rightarrow> ret () | Some i \<Rightarrow> logged (svc_process_job e aids nids now i))"

definition reaper_tick :: "env \<Rightarrow> time \<Rightarrow> unit app" where
  "reaper_tick e now = logged (svc_reap_stale_jobs e now)"

definition scheduler_tick :: "env \<Rightarrow> uuid \<Rightarrow> uuid \<Rightarrow> time \<Rightarrow> unit app" where
  "scheduler_tick e i k now =
     then_do (logged (svc_enqueue_due_reminder_sweep e i now None)) (\<lambda>_.
     logged (svc_enqueue_retention_sweep e k now))"

end
