(* ===== verification/Startup.thy ===== *)
theory Startup
  imports Notifications Jobs
begin

text \<open>
  \<open>src/lib.rs\<close>, \<open>src/jobs/runner.rs\<close> and the mailers of \<open>src/notify.rs\<close>: how a process starts, which services
  its mode runs, and when it ends. What the outside answers (PostgreSQL, Redis, lettre) is a parameter; a
  ready interval of tokio with a period of zero panics, as tokio documents.
\<close>

section \<open>Mailers\<close>

text \<open>\<open>lettre\<close>: parsing of a mailbox and of a relay URL, building of a message, sending.\<close>

record ('m, 'r, 'e) lettre =
  parse_mailbox :: "string \<Rightarrow> string + 'm"
  relay_from_url :: "string \<Rightarrow> string + 'r"
  build_message :: "'m \<Rightarrow> 'm \<Rightarrow> string \<Rightarrow> string \<Rightarrow> string + 'e"
  send_message :: "'r \<Rightarrow> 'e \<Rightarrow> string + unit"

record ('m, 'r) smtp_mailer =
  sm_transport :: 'r
  sm_from :: 'm

datatype ('m, 'r) any_mailer = NoopMailer | LogMailer | SmtpMailer "('m, 'r) smtp_mailer"

definition map_error :: "(string \<Rightarrow> app_error) \<Rightarrow> string + 'a \<Rightarrow> 'a result" where
  "map_error f r = (case r of Inl text \<Rightarrow> Inl (f text) | Inr x \<Rightarrow> Inr x)"

definition smtp_from_config :: "('m, 'r, 'e) lettre \<Rightarrow> cli \<Rightarrow> ('m, 'r) smtp_mailer result" where
  "smtp_from_config l c =
     try_then (ok_or (smtp_url c) (Validation ''SMTP_URL is not configured'')) (\<lambda>url.
     try_then (ok_or (mail_from c) (Validation ''MAIL_FROM is not configured'')) (\<lambda>address.
     try_then (map_error (\<lambda>t. Validation (''invalid MAIL_FROM: '' @ t)) (parse_mailbox l address)) (\<lambda>sender.
     try_then (map_error (\<lambda>t. Validation (''invalid SMTP_URL: '' @ t)) (relay_from_url l url)) (\<lambda>relay.
     Inr \<lparr>sm_transport = relay, sm_from = sender\<rparr>))))"

definition smtp_send :: "('m, 'r, 'e) lettre \<Rightarrow> ('m, 'r) smtp_mailer \<Rightarrow> mail_message \<Rightarrow> unit result" where
  "smtp_send l m message =
     try_then (map_error (\<lambda>t. Validation (''invalid recipient: '' @ t)) (parse_mailbox l (mm_to message))) (\<lambda>recipient.
     try_then (map_error (\<lambda>t. Internal (''failed to build email: '' @ t))
       (build_message l (sm_from m) recipient (mm_subject message) (mm_body message))) (\<lambda>email.
     map_error (\<lambda>t. Internal (''smtp delivery failed: '' @ t)) (send_message l (sm_transport m) email)))"

definition mailer_from_config :: "('m, 'r, 'e) lettre \<Rightarrow> cli \<Rightarrow> ('m, 'r) any_mailer result" where
  "mailer_from_config l c =
     (if mailer_provider c = ''noop'' then Inr NoopMailer
      else if mailer_provider c = ''log'' then Inr LogMailer
      else if mailer_provider c = ''smtp'' then try_then (smtp_from_config l c) (\<lambda>m. Inr (SmtpMailer m))
      else Inl (Validation (''unsupported mailer provider: '' @ mailer_provider c)))"

primrec mailer_send :: "('m, 'r, 'e) lettre \<Rightarrow> ('m, 'r) any_mailer \<Rightarrow> mail_message \<Rightarrow> unit result" where
  "mailer_send l NoopMailer message = Inr ()"
| "mailer_send l LogMailer message = Inr ()"
| "mailer_send l (SmtpMailer m) message = smtp_send l m message"

section \<open>Waiting for the stores\<close>

text \<open>\<open>probe k\<close> is what the \<open>k\<close>-th attempt answers. The loop returns the first success, or the last error,
  with the milliseconds slept.\<close>

fun retry :: "(nat \<Rightarrow> 'a result) \<Rightarrow> nat \<Rightarrow> app_error option \<Rightarrow> nat list \<Rightarrow> (app_error option + 'a) \<times> nat" where
  "retry probe delay last_error [] = (Inl last_error, 0)"
| "retry probe delay last_error (k # ks) =
     (case probe k of
        Inr x \<Rightarrow> (Inr x, 0)
      | Inl err \<Rightarrow> map_prod id (\<lambda>slept. delay + slept) (retry probe delay (Some err) ks))"

definition unwrap_last :: "app_error \<Rightarrow> app_error option + 'a \<Rightarrow> 'a result" where
  "unwrap_last fallback r =
     (case r of
        Inr x \<Rightarrow> Inr x
      | Inl None \<Rightarrow> Inl fallback
      | Inl (Some err) \<Rightarrow> Inl err)"

definition attempts :: "cli \<Rightarrow> nat list" where
  "attempts c = [1..<startup_max_retries c + 1]"

definition connect_database_with_retry :: "cli \<Rightarrow> (nat \<Rightarrow> 'd result) \<Rightarrow> 'd result \<times> nat" where
  "connect_database_with_retry c connect =
     map_prod (unwrap_last (Internal ''database connection failed'')) id
       (retry connect (startup_retry_delay_ms c) None (attempts c))"

text \<open>\<open>CacheStore::ping\<close>: what Redis answers to PING.\<close>

definition cache_ping :: "string result \<Rightarrow> unit result" where
  "cache_ping response =
     try_then response (\<lambda>r.
     if r \<noteq> ''PONG'' then Inl (Internal (''unexpected redis ping response: '' @ r)) else Inr ())"

definition wait_for_cache_with_retry :: "cli \<Rightarrow> (nat \<Rightarrow> string result) \<Rightarrow> unit result \<times> nat" where
  "wait_for_cache_with_retry c answers =
     map_prod (unwrap_last (Internal ''redis readiness failed'')) id
       (retry (\<lambda>k. cache_ping (answers k)) (startup_retry_delay_ms c) None (attempts c))"

section \<open>Services\<close>

datatype task_end = Ended "unit result" | Cancelled string | Panicked string

text \<open>What a service does when it is first polled: it ends at once, or it goes on.\<close>

definition interval :: "nat \<Rightarrow> task_end option" where
  "interval period_ms = (if period_ms = 0 then Some (Panicked ''`period` must be non-zero.'') else None)"

definition start_notifier :: "('m, 'r, 'e) lettre \<Rightarrow> cli \<Rightarrow> task_end option" where
  "start_notifier l c =
     (case mailer_from_config l c of
        Inl err \<Rightarrow> Some (Ended (Inl err))
      | Inr _ \<Rightarrow> interval (notify_dispatch_interval_ms c))"

datatype worker_loop = DispatchLoop | SchedulerLoop | ProcessorLoop | ReaperLoop | NotifierLoop | WebhookLoop

primrec start_loop :: "('m, 'r, 'e) lettre \<Rightarrow> cli \<Rightarrow> worker_loop \<Rightarrow> task_end option" where
  "start_loop l c DispatchLoop = interval (worker_dispatch_interval_ms c)"
| "start_loop l c SchedulerLoop = interval (worker_scheduler_interval_ms c)"
| "start_loop l c ProcessorLoop = None"
| "start_loop l c ReaperLoop = interval (worker_dispatch_interval_ms c)"
| "start_loop l c NotifierLoop = start_notifier l c"
| "start_loop l c WebhookLoop = interval (webhook_dispatch_interval_ms c)"

text \<open>\<open>try_join\<close> polls in the order of its arguments; the first to fail ends it, a panic goes through it.\<close>

fun try_join :: "task_end option list \<Rightarrow> task_end option" where
  "try_join [] = None"
| "try_join (None # rs) = try_join rs"
| "try_join (Some (Ended (Inr _)) # rs) = try_join rs"
| "try_join (Some r # rs) = Some r"

definition run_worker :: "('m, 'r, 'e) lettre \<Rightarrow> cli \<Rightarrow> task_end option" where
  "run_worker l c =
     try_join (map (start_loop l c) [DispatchLoop, SchedulerLoop, ProcessorLoop, ReaperLoop, NotifierLoop, WebhookLoop])"

datatype service = HttpServer | GrpcServer | WorkerService | MetricsSampler

definition services :: "service_mode \<Rightarrow> service list" where
  "services m =
     (if m = ModeApi \<or> m = ModeAll then [HttpServer, GrpcServer] else []) @
     (if m = ModeWorker \<or> m = ModeAll then [WorkerService] else []) @
     [MetricsSampler]"

text \<open>\<open>build_cors\<close> of \<open>src/http/helpers.rs\<close>; \<open>header_value\<close> is the parser of header values.\<close>

datatype 'h allowed_origin = AnyOrigin | OneOrigin 'h

definition build_cors :: "(string \<Rightarrow> string + 'h) \<Rightarrow> cli \<Rightarrow> 'h allowed_origin result" where
  "build_cors header_value c =
     (if cors_allow_origin c = ''*'' then Inr AnyOrigin
      else
        try_then (map_error (\<lambda>t. Validation (''invalid CORS_ALLOW_ORIGIN: '' @ t)) (header_value (cors_allow_origin c))) (\<lambda>origin.
        Inr (OneOrigin origin)))"

text \<open>\<open>bind\<close> is what binding the address of a server answers; the HTTP server builds its router first.\<close>

primrec start_service ::
  "(string \<Rightarrow> string + 'h) \<Rightarrow> (service \<Rightarrow> unit result) \<Rightarrow> ('m, 'r, 'e) lettre \<Rightarrow> cli \<Rightarrow> service \<Rightarrow> task_end option" where
  "start_service hv bind_to l c HttpServer =
     (case try_then (build_cors hv c) (\<lambda>_. bind_to HttpServer) of Inl err \<Rightarrow> Some (Ended (Inl err)) | Inr _ \<Rightarrow> None)"
| "start_service hv bind_to l c GrpcServer =
     (case bind_to GrpcServer of Inl err \<Rightarrow> Some (Ended (Inl err)) | Inr _ \<Rightarrow> None)"
| "start_service hv bind_to l c WorkerService = run_worker l c"
| "start_service hv bind_to l c MetricsSampler = interval (sampler_interval_ms c)"

section \<open>The process\<close>

text \<open>What ends the first wait: a task (or that there is none), or Ctrl-C.\<close>

datatype wake = TaskEnded "task_end option" | Interrupt "unit result"

definition join_failed :: "string \<Rightarrow> app_error" where
  "join_failed text = Internal (''task join error: '' @ text)"

definition woken :: "wake \<Rightarrow> unit result" where
  "woken w =
     (case w of
        TaskEnded (Some (Ended r)) \<Rightarrow> r
      | TaskEnded (Some (Cancelled text)) \<Rightarrow> Inl (join_failed text)
      | TaskEnded (Some (Panicked text)) \<Rightarrow> Inl (join_failed text)
      | TaskEnded None \<Rightarrow> Inr ()
      | Interrupt r \<Rightarrow> r)"

text \<open>After the shutdown was announced, the tasks left are joined as they end.\<close>

fun drain :: "task_end list \<Rightarrow> unit result" where
  "drain [] = Inr ()"
| "drain (Ended (Inr _) # rest) = drain rest"
| "drain (Ended (Inl err) # rest) = Inl err"
| "drain (Cancelled _ # rest) = drain rest"
| "drain (Panicked text # rest) = Inl (join_failed text)"

definition supervise :: "wake \<Rightarrow> task_end list \<Rightarrow> unit result" where
  "supervise w rest = try_then (woken w) (\<lambda>_. drain rest)"

text \<open>The answers of the outside to a start: the metrics recorder, the attempts to connect, the migrations, the
  Redis client and its pings.\<close>

record 'd outside_world =
  ow_metrics :: "unit result"
  ow_connect :: "nat \<Rightarrow> 'd result"
  ow_migrate :: "'d \<Rightarrow> unit result"
  ow_redis_client :: "unit result"
  ow_pings :: "nat \<Rightarrow> string result"

text \<open>\<open>run\<close> up to the point where the services are spawned; \<open>AuthService::new\<close> does not fail.\<close>

definition start_up :: "'d outside_world \<Rightarrow> cli \<Rightarrow> ('d \<times> service list) result" where
  "start_up ow c =
     try_then (cli_validate c) (\<lambda>c.
     try_then (ow_metrics ow) (\<lambda>_.
     try_then (fst (connect_database_with_retry c (ow_connect ow))) (\<lambda>d.
     try_then (ow_migrate ow d) (\<lambda>_.
     try_then (ow_redis_client ow) (\<lambda>_.
     try_then (fst (wait_for_cache_with_retry c (ow_pings ow))) (\<lambda>_.
     Inr (d, services (app_mode c))))))))"

text \<open>What is logged about settings that are only for development.\<close>

definition insecure_defaults :: "cli \<Rightarrow> string list" where
  "insecure_defaults c =
     (if trim (cors_allow_origin c) = ''*''
      then [''CORS_ALLOW_ORIGIN is '' @ [CHR 0x27, CHR 0x2A, CHR 0x27] @
            ''; restrict it to explicit origins outside local development''] else []) @
     (if jwt_secret c = ''local-development-secret-local-development''
      then [''JWT_SECRET matches the docker-compose development default; set a unique secret outside local development''] else []) @
     (if grpc_auth_token c = ''local-development-grpc-token-local-development''
      then [''GRPC_AUTH_TOKEN matches the docker-compose development default; set a unique token outside local development''] else [])"

section \<open>The sampler\<close>

text \<open>\<open>src/sampler.rs\<close>: one round of gauges; a count that fails is left out. The size of the pool is the driver's.\<close>

definition sample :: "nat \<times> nat \<Rightarrow> (string \<times> nat) list app" where
  "sample pool =
     then_do (attempt (db_read db_count_queued_jobs)) (\<lambda>queued.
     then_do (attempt (cache_run job_queue_depth)) (\<lambda>queue_depth.
     ret ([(''db_pool_connections.open'', fst pool), (''db_pool_connections.idle'', snd pool)] @
       (case queued of Inr n \<Rightarrow> [(''jobs_queued'', n)] | Inl _ \<Rightarrow> []) @
       (case queue_depth of Inr n \<Rightarrow> [(''job_queue_depth'', n)] | Inl _ \<Rightarrow> []))))"

lemma sample_exact:
  "sample pool w =
     (Inr [(''db_pool_connections.open'', fst pool), (''db_pool_connections.idle'', snd pool),
       (''jobs_queued'', count_where (\<lambda>j. jb_status j = ''queued'') (background_jobs (w_db w))),
       (''job_queue_depth'', length (queue (w_redis w)))], w)"
  by (simp add: sample_def then_do_def attempt_def db_read_def db_count_queued_jobs_def cache_run_def job_queue_depth_def ret_def)

section \<open>Waiting ends\<close>

text \<open>The loop against its reference: the failures before the first success, and what they slept.\<close>

lemma retry_reference:
  "retry f delay e ks =
     (let failed = takeWhile (\<lambda>k. isl (f k)) ks
      in (case drop (length failed) ks of
            [] \<Rightarrow> Inl (if ks = [] then e else Some (projl (f (last ks))))
          | k # _ \<Rightarrow> Inr (projr (f k)), delay * length failed))"
proof (induction ks arbitrary: e)
  case (Cons k ks)
  then show ?case by (cases "f k") (simp_all add: Let_def split: list.split)
qed simp

lemma retry_slept: "snd (retry f delay e ks) \<le> delay * length ks"
  by (simp add: retry_reference Let_def length_takeWhile_le)

lemma retry_succeeds: "k \<in> set ks \<Longrightarrow> f k = Inr x \<Longrightarrow> \<exists>y. fst (retry f delay e ks) = Inr y"
  by (induction ks arbitrary: e) (auto split: sum.split)

lemma retry_returns: "fst (retry f delay e ks) = Inr y \<Longrightarrow> \<exists>k \<in> set ks. f k = Inr y"
  by (induction ks arbitrary: e) (auto split: sum.splits)

text \<open>A database that answers any of the attempts is connected to, after at most the configured waits.\<close>

lemma attempts_all: "set (attempts c) = {1..startup_max_retries c}" "length (attempts c) = startup_max_retries c"
  by (auto simp: attempts_def)

lemma connect_database_bounded:
  "snd (connect_database_with_retry c connect) \<le> startup_retry_delay_ms c * startup_max_retries c"
  using retry_slept [of connect "startup_retry_delay_ms c" None "attempts c"]
  by (simp add: connect_database_with_retry_def attempts_all)

lemma connect_database_answers:
  assumes "1 \<le> k" and "k \<le> startup_max_retries c" and "connect k = Inr d"
  shows "\<exists>d'. fst (connect_database_with_retry c connect) = Inr d'"
proof -
  have "k \<in> set (attempts c)" using assms(1,2) by (simp add: attempts_all)
  from retry_succeeds [where f = connect, OF this assms(3)]
  obtain y where "fst (retry connect (startup_retry_delay_ms c) None (attempts c)) = Inr y" by blast
  then show ?thesis
    by (auto simp: connect_database_with_retry_def unwrap_last_def)
qed

lemma unwrapped_probe:
  "unwrap_last err (fst (retry f delay None ks)) = Inr y \<Longrightarrow> \<exists>k \<in> set ks. f k = Inr y"
  using retry_returns [of f delay None ks y] by (auto simp: unwrap_last_def split: sum.splits option.splits)

text \<open>Services are spawned only after the database was reached and migrated and Redis answered.\<close>

lemma start_up_Inr:
  assumes "start_up ow c = Inr (d, ss)"
  shows "ss = services (app_mode c)" and "ow_migrate ow d = Inr ()"
    and "\<exists>k \<in> {1..startup_max_retries c}. ow_connect ow k = Inr d"
    and "\<exists>k \<in> {1..startup_max_retries c}. ow_pings ow k = Inr ''PONG''"
proof -
  from assms have c: "cli_validate c = Inr c" and ss: "ss = services (app_mode c)" and m: "ow_migrate ow d = Inr ()"
    and d: "fst (connect_database_with_retry c (ow_connect ow)) = Inr d"
    and p: "fst (wait_for_cache_with_retry c (ow_pings ow)) = Inr ()"
    by (auto simp: start_up_def try_then_Inr dest: cli_validate_Inr)
  show "ss = services (app_mode c)" "ow_migrate ow d = Inr ()" by (rule ss, rule m)
  have "\<exists>k \<in> set (attempts c). ow_connect ow k = Inr d"
    using d unfolding connect_database_with_retry_def fst_map_prod by (rule unwrapped_probe)
  then show "\<exists>k \<in> {1..startup_max_retries c}. ow_connect ow k = Inr d" unfolding attempts_all .
  have "\<exists>k \<in> set (attempts c). cache_ping (ow_pings ow k) = Inr ()"
    using p unfolding wait_for_cache_with_retry_def fst_map_prod by (rule unwrapped_probe)
  moreover have "cache_ping r = Inr () \<Longrightarrow> r = Inr ''PONG''" for r by (auto simp: cache_ping_def try_then_Inr split: if_splits)
  ultimately show "\<exists>k \<in> {1..startup_max_retries c}. ow_pings ow k = Inr ''PONG''" unfolding attempts_all by blast
qed

section \<open>A validated configuration\<close>

lemma validated_settings:
  assumes "cli_validate c = Inr c'"
  shows "validate_mailer c = Inr ()" and "notify_dispatch_interval_ms c \<noteq> 0" and "webhook_dispatch_interval_ms c \<noteq> 0"
    and "sampler_interval_ms c \<noteq> 0" and "c' = c"
  using assms by (auto simp: cli_validate_def try_then_Inr)

text \<open>The mailer of a validated configuration fails only on an address or a URL that does not parse.\<close>

lemma validated_mailer:
  assumes "validate_mailer c = Inr ()" and "mailer_from_config l c = Inl err"
  shows "\<exists>address url. mail_from c = Some address \<and> smtp_url c = Some url \<and>
    (isl (parse_mailbox l address) \<or> isl (relay_from_url l url))"
  using assms
  by (auto simp: validate_mailer_def mailer_from_config_def smtp_from_config_def try_then_Inr blank_opt_def map_error_def
      split: if_splits option.splits sum.splits simp: try_then_def)

lemma try_join_running: "list_all (\<lambda>r. r = None) rs \<Longrightarrow> try_join rs = None"
  by (induction rs) auto

text \<open>With positive worker intervals and a mailer that can be built, every service of the mode goes on.\<close>

lemma validated_services_run:
  assumes "cli_validate c = Inr c'" and "worker_dispatch_interval_ms c \<noteq> 0" and "worker_scheduler_interval_ms c \<noteq> 0"
    and "mailer_from_config l c = Inr m" and "\<And>x. bind_to x = Inr ()" and "build_cors hv c = Inr origin"
  shows "start_service hv bind_to l c s = None"
proof -
  have "run_worker l c = None"
    unfolding run_worker_def using validated_settings [OF assms(1)] assms(2-4)
    by (intro try_join_running) (simp add: interval_def start_notifier_def)
  with validated_settings [OF assms(1)] assms(5,6) show ?thesis by (cases s) (simp_all add: interval_def try_then_def)
qed

text \<open>The two worker intervals are not validated: zero passes, and the worker panics at its first poll, which
  ends the process with an error.\<close>

lemma zero_worker_interval_crashes:
  fixes l :: "('m, 'r, 'e) lettre"
  defines "c \<equiv> default_cli\<lparr>worker_dispatch_interval_ms := 0\<rparr>"
  shows "cli_validate c = Inr c" and "WorkerService \<in> set (services (app_mode c))"
    and "run_worker l c = Some (Panicked ''`period` must be non-zero.'')"
    and "supervise (TaskEnded (run_worker l c)) rest = Inl (join_failed ''`period` must be non-zero.'')"
proof -
  show run: "run_worker l c = Some (Panicked ''`period` must be non-zero.'')"
    by (simp add: run_worker_def c_def interval_def)
  then show "supervise (TaskEnded (run_worker l c)) rest = Inl (join_failed ''`period` must be non-zero.'')"
    by (simp add: supervise_def woken_def try_then_def)
  have "length (trim ''local-development-grpc-token-local-development'') = 46" "trim ''data/exports'' \<noteq> []" by code_simp+
  then show "cli_validate c = Inr c"
    by (simp add: c_def default_cli_def cli_validate_def ensure_def try_then_def validate_mailer_def)
  show "WorkerService \<in> set (services (app_mode c))" unfolding c_def default_cli_def by (simp add: services_def)
qed

text \<open>The first failure of a service is the result of the process.\<close>

lemma supervise_Inr:
  "supervise w rest = Inr () \<longleftrightarrow> woken w = Inr () \<and>
     list_all (\<lambda>t. case t of Ended r \<Rightarrow> r = Inr () | Cancelled _ \<Rightarrow> True | Panicked _ \<Rightarrow> False) rest"
proof -
  have "drain rest = Inr () \<longleftrightarrow>
    list_all (\<lambda>t. case t of Ended r \<Rightarrow> r = Inr () | Cancelled _ \<Rightarrow> True | Panicked _ \<Rightarrow> False) rest"
    by (induction rest rule: drain.induct) auto
  then show ?thesis by (simp add: supervise_def try_then_Inr)
qed

end
