(* ===== verification/OpenApiSchemas.thy ===== *)
theory OpenApiSchemas
  imports Prelude
begin

text \<open>
  The schemas of the OpenAPI document of \<open>src/openapi.rs\<close> and the functions it is built with, key by key in
  the order of the source. A schema is a JSON value, as \<open>json!\<close> makes it.
\<close>

section \<open>Building blocks\<close>

definition doc_schema_ref :: "string \<Rightarrow> json" where
  "doc_schema_ref name = JObject [(''$ref'', JString (''#/components/schemas/'' @ name))]"

definition doc_json_request_body :: "json \<Rightarrow> bool \<Rightarrow> json" where
  "doc_json_request_body schema required = JObject
     [(''required'', JBool required), (''content'', JObject [(''application/json'', JObject [(''schema'', schema)])])]"

definition doc_json_response :: "string \<Rightarrow> json \<Rightarrow> json" where
  "doc_json_response description schema = JObject
     [(''description'', JString description),
      (''content'', JObject [(''application/json'', JObject [(''schema'', schema)])])]"

definition doc_text_response :: "string \<Rightarrow> json" where
  "doc_text_response description = JObject
     [(''description'', JString description),
      (''content'', JObject [(''text/plain'', JObject [(''schema'', JObject [(''type'', JString ''string'')])])])]"

definition doc_error_response :: "string \<Rightarrow> json" where
  "doc_error_response description = doc_json_response description (doc_schema_ref ''ErrorEnvelope'')"

definition doc_no_content_response :: "string \<Rightarrow> json" where
  "doc_no_content_response description = JObject [(''description'', JString description)]"

definition doc_string_schema :: json where "doc_string_schema = JObject [(''type'', JString ''string'')]"

definition doc_uuid_schema :: json where
  "doc_uuid_schema = JObject [(''type'', JString ''string''), (''format'', JString ''uuid'')]"

definition doc_date_time_schema :: json where
  "doc_date_time_schema = JObject [(''type'', JString ''string''), (''format'', JString ''date-time'')]"

definition doc_int32_schema :: json where
  "doc_int32_schema = JObject [(''type'', JString ''integer''), (''format'', JString ''int32'')]"

definition doc_int64_schema :: json where
  "doc_int64_schema = JObject [(''type'', JString ''integer''), (''format'', JString ''int64'')]"

definition doc_array_schema :: "json \<Rightarrow> json" where
  "doc_array_schema items = JObject [(''type'', JString ''array''), (''items'', items)]"

text \<open>\<open>Map::insert\<close> replaces the value of a key it finds.\<close>

definition doc_nullable :: "json \<Rightarrow> json" where
  "doc_nullable schema =
     (case schema of
        JObject kvs \<Rightarrow> JObject (filter (\<lambda>kv. fst kv \<noteq> ''nullable'') kvs @ [(''nullable'', JBool True)])
      | _ \<Rightarrow> schema)"

definition doc_path_uuid_parameter :: "string \<Rightarrow> string \<Rightarrow> json" where
  "doc_path_uuid_parameter name description = JObject
     [(''name'', JString name), (''in'', JString ''path''), (''required'', JBool True),
      (''description'', JString description), (''schema'', doc_uuid_schema)]"

definition doc_query_parameter :: "string \<Rightarrow> bool \<Rightarrow> string \<Rightarrow> json \<Rightarrow> json" where
  "doc_query_parameter name required description schema = JObject
     [(''name'', JString name), (''in'', JString ''query''), (''required'', JBool required),
      (''description'', JString description), (''schema'', schema)]"

definition doc_limit_query_parameter :: json where
  "doc_limit_query_parameter = JObject
     [(''name'', JString ''limit''), (''in'', JString ''query''), (''required'', JBool False),
      (''description'', JString ''Maximum number of records to return.''),
      (''schema'', JObject [(''type'', JString ''integer''), (''format'', JString ''int32''),
         (''minimum'', JNumber 1), (''maximum'', JNumber 100)])]"

definition doc_cursor_query_parameter :: "string \<Rightarrow> string \<Rightarrow> json" where
  "doc_cursor_query_parameter name description = JObject
     [(''name'', JString name), (''in'', JString ''query''), (''required'', JBool False),
      (''description'', JString description), (''schema'', doc_string_schema)]"

definition doc_idempotency_header_parameter :: json where
  "doc_idempotency_header_parameter = JObject
     [(''name'', JString ''Idempotency-Key''), (''in'', JString ''header''), (''required'', JBool True),
      (''description'', JString ''Client-supplied idempotency key used to safely replay create requests.''),
      (''schema'', doc_string_schema)]"

definition doc_job_payload_schema :: json where
  "doc_job_payload_schema = JObject [(''oneOf'', JArray
     [doc_schema_ref ''TaskExportJobPayload'', doc_schema_ref ''DueReminderSweepJobPayload'',
      doc_schema_ref ''FreeformObject''])]"

definition doc_job_result_payload_schema :: json where
  "doc_job_result_payload_schema = JObject [(''oneOf'', JArray
     [doc_schema_ref ''TaskExportJobResult'', doc_schema_ref ''DueReminderSweepJobResult'',
      doc_schema_ref ''FreeformObject''])]"

section \<open>Schemas\<close>

definition schema_ErrorEnvelope :: json where
  "schema_ErrorEnvelope = JObject [(''type'', JString ''object''), (''required'', JArray [JString ''error'']),
      (''properties'', JObject [(''error'', doc_schema_ref ''ErrorBody'')])]"

definition schema_ErrorBody :: json where
  "schema_ErrorBody = JObject [(''type'', JString ''object''), (''required'', JArray [JString ''code'', JString ''message'']),
      (''properties'', JObject [(''code'', JObject [(''type'', JString ''string'')]),
          (''message'', JObject [(''type'', JString ''string'')])])]"

definition schema_HealthResponse :: json where
  "schema_HealthResponse = JObject [(''type'', JString ''object''), (''required'', JArray [JString ''status'']),
      (''properties'', JObject [(''status'', JObject [(''type'', JString ''string'')])])]"

definition schema_MembershipRole :: json where
  "schema_MembershipRole = JObject [(''type'', JString ''string''),
      (''enum'', JArray [JString ''owner'', JString ''admin'', JString ''member''])]"

definition schema_TaskStatus :: json where
  "schema_TaskStatus = JObject [(''type'', JString ''string''),
      (''enum'', JArray [JString ''open'', JString ''in_progress'', JString ''done'', JString ''archived''])]"

definition schema_TaskPriority :: json where
  "schema_TaskPriority = JObject [(''type'', JString ''string''),
      (''enum'', JArray [JString ''low'', JString ''medium'', JString ''high'', JString ''urgent''])]"

definition schema_JobStatus :: json where
  "schema_JobStatus = JObject [(''type'', JString ''string''),
      (''enum'', JArray [JString ''queued'', JString ''running'', JString ''completed'', JString ''dead_letter''])]"

definition schema_JobType :: json where
  "schema_JobType = JObject [(''type'', JString ''string''),
      (''enum'', JArray [JString ''task_export'', JString ''due_reminder_sweep''])]"

definition schema_UserResponse :: json where
  "schema_UserResponse = JObject [(''type'', JString ''object''),
      (''required'', JArray [JString ''id'', JString ''email'', JString ''display_name'', JString ''email_verified'',
          JString ''created_at'']),
      (''properties'', JObject [(''id'', doc_uuid_schema), (''email'', doc_string_schema),
          (''display_name'', doc_nullable doc_string_schema),
          (''email_verified'', JObject [(''type'', JString ''boolean'')]),
          (''created_at'', doc_date_time_schema)])]"

definition schema_TenantMembershipResponse :: json where
  "schema_TenantMembershipResponse = JObject [(''type'', JString ''object''),
      (''required'', JArray [JString ''tenant_id'', JString ''tenant_name'', JString ''role'', JString ''created_at'']),
      (''properties'', JObject [(''tenant_id'', doc_uuid_schema), (''tenant_name'', doc_string_schema),
          (''role'', doc_schema_ref ''MembershipRole''), (''created_at'', doc_date_time_schema)])]"

definition schema_TenantMemberResponse :: json where
  "schema_TenantMemberResponse = JObject [(''type'', JString ''object''),
      (''required'', JArray [JString ''user_id'', JString ''email'', JString ''display_name'', JString ''role'',
          JString ''joined_at'']),
      (''properties'', JObject [(''user_id'', doc_uuid_schema), (''email'', doc_string_schema),
          (''display_name'', doc_nullable doc_string_schema), (''role'', doc_schema_ref ''MembershipRole''),
          (''joined_at'', doc_date_time_schema)])]"

definition schema_AttachmentResponse :: json where
  "schema_AttachmentResponse = JObject [(''type'', JString ''object''),
      (''required'', JArray [JString ''id'', JString ''task_id'', JString ''uploaded_by'', JString ''file_name'',
          JString ''content_type'', JString ''size_bytes'', JString ''download_path'', JString ''created_at'']),
      (''properties'', JObject [(''id'', doc_uuid_schema), (''task_id'', doc_uuid_schema), (''uploaded_by'', doc_uuid_schema),
          (''file_name'', doc_string_schema), (''content_type'', doc_string_schema),
          (''size_bytes'', JObject [(''type'', JString ''integer''), (''format'', JString ''int64'')]),
          (''download_path'', JObject [(''type'', JString ''string''),
              (''description'', JString ''Relative API path for downloading the attachment bytes.'')]),
          (''created_at'', doc_date_time_schema)])]"

definition schema_CommentPayload :: json where
  "schema_CommentPayload = JObject [(''type'', JString ''object''), (''required'', JArray [JString ''body'']),
      (''properties'', JObject [(''body'', JObject [(''type'', JString ''string''),
              (''description'', JString ''Comment text, trimmed server-side; at most 4000 characters.''),
              (''maxLength'', JNumber 4000)])])]"

definition schema_CommentPatchPayload :: json where
  "schema_CommentPatchPayload = JObject [(''type'', JString ''object''), (''required'', JArray [JString ''body'']),
      (''properties'', JObject [(''body'', JObject [(''type'', JString ''string''),
              (''description'', JString ''Replacement comment text, trimmed server-side; at most 4000 characters.''),
              (''maxLength'', JNumber 4000)])])]"

definition schema_CommentResponse :: json where
  "schema_CommentResponse = JObject [(''type'', JString ''object''),
      (''required'', JArray [JString ''id'', JString ''task_id'', JString ''author_id'', JString ''body'', JString ''created_at'',
          JString ''updated_at'']),
      (''properties'', JObject [(''id'', doc_uuid_schema), (''task_id'', doc_uuid_schema), (''author_id'', doc_uuid_schema),
          (''body'', doc_string_schema), (''created_at'', doc_date_time_schema),
          (''updated_at'', doc_date_time_schema)])]"

definition schema_CommentListResponse :: json where
  "schema_CommentListResponse = JObject [(''type'', JString ''object''), (''required'', JArray [JString ''data'', JString ''next_cursor'']),
      (''properties'', JObject [(''data'', doc_array_schema (doc_schema_ref ''CommentResponse'')),
          (''next_cursor'', doc_nullable doc_string_schema)])]"

definition schema_LabelPayload :: json where
  "schema_LabelPayload = JObject [(''type'', JString ''object''), (''required'', JArray [JString ''name'']),
      (''properties'', JObject [(''name'', doc_string_schema),
          (''color'', doc_nullable (JObject [(''type'', JString ''string''), (''description'', JString ''Hex color like #4f46e5.''),
              (''pattern'', JString ''^#[0-9a-fA-F]{6}$'')]))])]"

definition schema_LabelPatchPayload :: json where
  "schema_LabelPatchPayload = JObject [(''type'', JString ''object''),
      (''properties'', JObject [(''name'', doc_string_schema),
          (''color'', doc_nullable (JObject [(''type'', JString ''string''), (''description'', JString ''Hex color like #4f46e5.''),
              (''pattern'', JString ''^#[0-9a-fA-F]{6}$'')]))])]"

definition schema_LabelResponse :: json where
  "schema_LabelResponse = JObject [(''type'', JString ''object''),
      (''required'', JArray [JString ''id'', JString ''tenant_id'', JString ''name'', JString ''color'', JString ''created_by'',
          JString ''updated_by'', JString ''created_at'', JString ''updated_at'']),
      (''properties'', JObject [(''id'', doc_uuid_schema), (''tenant_id'', doc_uuid_schema), (''name'', doc_string_schema),
          (''color'', doc_nullable doc_string_schema), (''created_by'', doc_uuid_schema),
          (''updated_by'', doc_uuid_schema), (''created_at'', doc_date_time_schema),
          (''updated_at'', doc_date_time_schema)])]"

definition schema_WebhookPayload :: json where
  "schema_WebhookPayload = JObject [(''type'', JString ''object''), (''required'', JArray [JString ''url'', JString ''events'']),
      (''properties'', JObject [(''url'', JObject [(''type'', JString ''string''),
              (''description'', JString ''HTTP or HTTPS endpoint that receives deliveries. Private-network hosts are rejected unless the deployment allows them.'')]),
          (''events'', JObject [(''type'', JString ''array''), (''minItems'', JNumber 1),
              (''items'', JObject [(''type'', JString ''string''),
                  (''enum'', JArray [JString ''task_created'', JString ''task_updated'', JString ''task_status_updated'',
                      JString ''task_archived'', JString ''task_restored''])]),
              (''description'', JString ''Task lifecycle events to subscribe to.'')])])]"

definition schema_WebhookPatchPayload :: json where
  "schema_WebhookPatchPayload = JObject [(''type'', JString ''object''),
      (''properties'', JObject [(''url'', doc_string_schema),
          (''events'', JObject [(''type'', JString ''array''), (''minItems'', JNumber 1),
              (''items'', JObject [(''type'', JString ''string''),
                  (''enum'', JArray [JString ''task_created'', JString ''task_updated'', JString ''task_status_updated'',
                      JString ''task_archived'', JString ''task_restored''])])]),
          (''is_active'', JObject [(''type'', JString ''boolean'')])])]"

definition schema_WebhookResponse :: json where
  "schema_WebhookResponse = JObject [(''type'', JString ''object''),
      (''required'', JArray [JString ''id'', JString ''tenant_id'', JString ''url'', JString ''events'', JString ''is_active'',
          JString ''created_by'', JString ''created_at'', JString ''updated_at'']),
      (''properties'', JObject [(''id'', doc_uuid_schema), (''tenant_id'', doc_uuid_schema), (''url'', doc_string_schema),
          (''events'', doc_array_schema doc_string_schema),
          (''is_active'', JObject [(''type'', JString ''boolean'')]), (''created_by'', doc_uuid_schema),
          (''created_at'', doc_date_time_schema), (''updated_at'', doc_date_time_schema)])]"

definition schema_WebhookCreateResponse :: json where
  "schema_WebhookCreateResponse = JObject [(''type'', JString ''object''), (''required'', JArray [JString ''webhook'', JString ''secret'']),
      (''properties'', JObject [(''webhook'', doc_schema_ref ''WebhookResponse''),
          (''secret'', JObject [(''type'', JString ''string''),
              (''description'', JString ''HMAC-SHA256 signing secret. Returned only at creation time.'')])])]"

definition schema_WebhookDeliveryResponse :: json where
  "schema_WebhookDeliveryResponse = JObject [(''type'', JString ''object''),
      (''required'', JArray [JString ''id'', JString ''webhook_id'', JString ''event_type'', JString ''payload'',
          JString ''status'', JString ''attempts'', JString ''delivered_at'', JString ''last_error'',
          JString ''created_at'']),
      (''properties'', JObject [(''id'', doc_uuid_schema), (''webhook_id'', doc_uuid_schema), (''event_type'', doc_string_schema),
          (''payload'', JObject [(''description'', JString ''Event payload delivered to the endpoint.'')]),
          (''status'', JObject [(''type'', JString ''string''),
              (''enum'', JArray [JString ''pending'', JString ''delivered'', JString ''dead_letter''])]),
          (''attempts'', JObject [(''type'', JString ''integer'')]),
          (''delivered_at'', doc_nullable doc_date_time_schema),
          (''last_error'', doc_nullable doc_string_schema), (''created_at'', doc_date_time_schema)])]"

definition schema_WebhookDeliveryListResponse :: json where
  "schema_WebhookDeliveryListResponse = JObject [(''type'', JString ''object''), (''required'', JArray [JString ''data'', JString ''next_cursor'']),
      (''properties'', JObject [(''data'', doc_array_schema (doc_schema_ref ''WebhookDeliveryResponse'')),
          (''next_cursor'', doc_nullable doc_string_schema)])]"

definition schema_TaskLabelsPayload :: json where
  "schema_TaskLabelsPayload = JObject [(''type'', JString ''object''), (''required'', JArray [JString ''label_ids'']),
      (''properties'', JObject [(''label_ids'', doc_array_schema doc_uuid_schema)])]"

definition schema_ProjectPayload :: json where
  "schema_ProjectPayload = JObject [(''type'', JString ''object''), (''required'', JArray [JString ''name'']),
      (''properties'', JObject [(''name'', doc_string_schema), (''description'', doc_nullable doc_string_schema)])]"

definition schema_ProjectPatchPayload :: json where
  "schema_ProjectPatchPayload = JObject [(''type'', JString ''object''),
      (''properties'', JObject [(''name'', doc_string_schema), (''description'', doc_nullable doc_string_schema)])]"

definition schema_ProjectResponse :: json where
  "schema_ProjectResponse = JObject [(''type'', JString ''object''),
      (''required'', JArray [JString ''id'', JString ''tenant_id'', JString ''name'', JString ''description'',
          JString ''created_by'', JString ''updated_by'', JString ''created_at'', JString ''updated_at'']),
      (''properties'', JObject [(''id'', doc_uuid_schema), (''tenant_id'', doc_uuid_schema), (''name'', doc_string_schema),
          (''description'', doc_nullable doc_string_schema), (''created_by'', doc_uuid_schema),
          (''updated_by'', doc_uuid_schema), (''created_at'', doc_date_time_schema),
          (''updated_at'', doc_date_time_schema)])]"

definition schema_ProjectSummary :: json where
  "schema_ProjectSummary = JObject [(''type'', JString ''object''),
      (''required'', JArray [JString ''project_id'', JString ''project_name'', JString ''open_task_count'',
          JString ''in_progress_task_count'', JString ''done_task_count'', JString ''overdue_task_count'',
          JString ''recent_activity_count'']),
      (''properties'', JObject [(''project_id'', doc_uuid_schema), (''project_name'', doc_string_schema),
          (''open_task_count'', doc_int64_schema), (''in_progress_task_count'', doc_int64_schema),
          (''done_task_count'', doc_int64_schema), (''overdue_task_count'', doc_int64_schema),
          (''recent_activity_count'', doc_int64_schema)])]"

definition schema_RegisterRequest :: json where
  "schema_RegisterRequest = JObject [(''type'', JString ''object''), (''required'', JArray [JString ''email'', JString ''password'']),
      (''properties'', JObject [(''email'', doc_string_schema), (''password'', doc_string_schema),
          (''tenant_name'', doc_nullable doc_string_schema)])]"

definition schema_LoginRequest :: json where
  "schema_LoginRequest = JObject [(''type'', JString ''object''), (''required'', JArray [JString ''email'', JString ''password'']),
      (''properties'', JObject [(''email'', doc_string_schema), (''password'', doc_string_schema),
          (''tenant_id'', doc_nullable doc_uuid_schema)])]"

definition schema_OAuthLoginRequest :: json where
  "schema_OAuthLoginRequest = JObject [(''type'', JString ''object''), (''required'', JArray [JString ''code'', JString ''redirect_uri'']),
      (''properties'', JObject [(''code'', doc_string_schema), (''redirect_uri'', doc_string_schema),
          (''tenant_id'', doc_nullable doc_uuid_schema), (''tenant_name'', doc_nullable doc_string_schema)])]"

definition schema_OAuthAccountResponse :: json where
  "schema_OAuthAccountResponse = JObject [(''type'', JString ''object''), (''required'', JArray [JString ''provider'', JString ''linked_at'']),
      (''properties'', JObject [(''provider'', JObject [(''type'', JString ''string''), (''enum'', JArray [JString ''google'', JString ''github''])]),
          (''linked_at'', doc_date_time_schema)])]"

definition schema_SessionResponse :: json where
  "schema_SessionResponse = JObject [(''type'', JString ''object''),
      (''required'', JArray [JString ''id'', JString ''tenant_id'', JString ''created_at'', JString ''expires_at'']),
      (''properties'', JObject [(''id'', doc_uuid_schema), (''tenant_id'', doc_uuid_schema), (''created_at'', doc_date_time_schema),
          (''expires_at'', doc_date_time_schema)])]"

definition schema_RefreshRequest :: json where
  "schema_RefreshRequest = JObject [(''type'', JString ''object''), (''required'', JArray [JString ''refresh_token'']),
      (''properties'', JObject [(''refresh_token'', doc_string_schema), (''tenant_id'', doc_nullable doc_uuid_schema)])]"

definition schema_LogoutRequest :: json where
  "schema_LogoutRequest = JObject [(''type'', JString ''object''), (''required'', JArray [JString ''refresh_token'']),
      (''properties'', JObject [(''refresh_token'', doc_string_schema),
          (''access_token'', JObject [(''type'', JString ''string''),
              (''description'', JString ''Optional access token to revoke alongside the refresh token. When omitted, the Authorization bearer token is used if present.'')])])]"

definition schema_VerifyEmailPayload :: json where
  "schema_VerifyEmailPayload = JObject [(''type'', JString ''object''), (''required'', JArray [JString ''token'']),
      (''properties'', JObject [(''token'', doc_string_schema)])]"

definition schema_ResendVerificationPayload :: json where
  "schema_ResendVerificationPayload = JObject [(''type'', JString ''object''), (''required'', JArray [JString ''email'']),
      (''properties'', JObject [(''email'', doc_string_schema)])]"

definition schema_PasswordResetRequestPayload :: json where
  "schema_PasswordResetRequestPayload = JObject [(''type'', JString ''object''), (''required'', JArray [JString ''email'']),
      (''properties'', JObject [(''email'', doc_string_schema)])]"

definition schema_PasswordResetConfirmPayload :: json where
  "schema_PasswordResetConfirmPayload = JObject [(''type'', JString ''object''), (''required'', JArray [JString ''token'', JString ''new_password'']),
      (''properties'', JObject [(''token'', doc_string_schema), (''new_password'', doc_string_schema)])]"

definition schema_ChangePasswordPayload :: json where
  "schema_ChangePasswordPayload = JObject [(''type'', JString ''object''),
      (''required'', JArray [JString ''current_password'', JString ''new_password'']),
      (''properties'', JObject [(''current_password'', doc_string_schema), (''new_password'', doc_string_schema)])]"

definition schema_ChangeEmailPayload :: json where
  "schema_ChangeEmailPayload = JObject [(''type'', JString ''object''),
      (''required'', JArray [JString ''current_password'', JString ''new_email'']),
      (''properties'', JObject [(''current_password'', doc_string_schema), (''new_email'', doc_string_schema)])]"

definition schema_UpdateProfilePayload :: json where
  "schema_UpdateProfilePayload = JObject [(''type'', JString ''object''),
      (''properties'', JObject [(''display_name'', JObject [(''type'', JString ''string''), (''nullable'', JBool True), (''maxLength'', JNumber 100),
              (''description'', JString ''Display name shown to other members. Send null to clear.'')])])]"

definition schema_NotificationPreferencesResponse :: json where
  "schema_NotificationPreferencesResponse = JObject [(''type'', JString ''object''),
      (''required'', JArray [JString ''task_due_soon'', JString ''task_overdue'', JString ''task_commented'']),
      (''properties'', JObject [(''task_due_soon'', JObject [(''type'', JString ''boolean'')]),
          (''task_overdue'', JObject [(''type'', JString ''boolean'')]),
          (''task_commented'', JObject [(''type'', JString ''boolean'')])])]"

definition schema_NotificationPreferencesPayload :: json where
  "schema_NotificationPreferencesPayload = JObject [(''type'', JString ''object''),
      (''description'', JString ''Delivery switches; omitted kinds stay unchanged. At least one must be provided.''),
      (''properties'', JObject [(''task_due_soon'', JObject [(''type'', JString ''boolean'')]),
          (''task_overdue'', JObject [(''type'', JString ''boolean'')]),
          (''task_commented'', JObject [(''type'', JString ''boolean'')])])]"

definition schema_NotificationFeedItemResponse :: json where
  "schema_NotificationFeedItemResponse = JObject [(''type'', JString ''object''),
      (''required'', JArray [JString ''id'', JString ''kind'', JString ''payload'', JString ''read_at'', JString ''created_at'']),
      (''properties'', JObject [(''id'', doc_uuid_schema),
          (''kind'', JObject [(''type'', JString ''string''),
              (''enum'', JArray [JString ''task_due_soon'', JString ''task_overdue'', JString ''task_commented''])]),
          (''payload'', doc_schema_ref ''FreeformObject''), (''read_at'', doc_nullable doc_date_time_schema),
          (''created_at'', doc_date_time_schema)])]"

definition schema_NotificationFeedResponse :: json where
  "schema_NotificationFeedResponse = JObject [(''type'', JString ''object''),
      (''required'', JArray [JString ''data'', JString ''next_cursor'', JString ''unread_count'']),
      (''properties'', JObject [(''data'', doc_array_schema (doc_schema_ref ''NotificationFeedItemResponse'')),
          (''next_cursor'', doc_nullable doc_string_schema),
          (''unread_count'', JObject [(''type'', JString ''integer''), (''format'', JString ''int64'')])])]"

definition schema_NotificationsReadAllResponse :: json where
  "schema_NotificationsReadAllResponse = JObject [(''type'', JString ''object''), (''required'', JArray [JString ''updated'']),
      (''properties'', JObject [(''updated'', JObject [(''type'', JString ''integer''), (''format'', JString ''int64'')])])]"

definition schema_AuditEventResponse :: json where
  "schema_AuditEventResponse = JObject [(''type'', JString ''object''),
      (''required'', JArray [JString ''id'', JString ''actor_user_id'', JString ''subject_type'', JString ''subject_id'',
          JString ''event_type'', JString ''payload'', JString ''created_at'']),
      (''properties'', JObject [(''id'', doc_uuid_schema), (''actor_user_id'', doc_nullable doc_uuid_schema),
          (''subject_type'', doc_string_schema), (''subject_id'', doc_nullable doc_uuid_schema),
          (''event_type'', doc_string_schema), (''payload'', doc_schema_ref ''FreeformObject''),
          (''created_at'', doc_date_time_schema)])]"

definition schema_AuditListResponse :: json where
  "schema_AuditListResponse = JObject [(''type'', JString ''object''), (''required'', JArray [JString ''data'', JString ''next_cursor'']),
      (''properties'', JObject [(''data'', doc_array_schema (doc_schema_ref ''AuditEventResponse'')),
          (''next_cursor'', doc_nullable doc_string_schema)])]"

definition schema_InvitationCreatePayload :: json where
  "schema_InvitationCreatePayload = JObject [(''type'', JString ''object''), (''required'', JArray [JString ''email'', JString ''role'']),
      (''properties'', JObject [(''email'', doc_string_schema),
          (''role'', JObject [(''type'', JString ''string''), (''enum'', JArray [JString ''admin'', JString ''member'']),
              (''description'', JString ''Role granted on acceptance. Owners cannot be invited.'')])])]"

definition schema_InvitationAcceptPayload :: json where
  "schema_InvitationAcceptPayload = JObject [(''type'', JString ''object''), (''required'', JArray [JString ''token'']),
      (''properties'', JObject [(''token'', doc_string_schema)])]"

definition schema_MemberRolePayload :: json where
  "schema_MemberRolePayload = JObject [(''type'', JString ''object''), (''required'', JArray [JString ''role'']),
      (''properties'', JObject [(''role'', doc_schema_ref ''MembershipRole'')])]"

definition schema_InvitationResponse :: json where
  "schema_InvitationResponse = JObject [(''type'', JString ''object''),
      (''required'', JArray [JString ''id'', JString ''tenant_id'', JString ''email'', JString ''role'', JString ''expires_at'',
          JString ''created_at'']),
      (''properties'', JObject [(''id'', doc_uuid_schema), (''tenant_id'', doc_uuid_schema), (''email'', doc_string_schema),
          (''role'', doc_schema_ref ''MembershipRole''), (''expires_at'', doc_date_time_schema),
          (''created_at'', doc_date_time_schema)])]"

definition schema_InvitationCreateResponse :: json where
  "schema_InvitationCreateResponse = JObject [(''type'', JString ''object''), (''required'', JArray [JString ''invitation'', JString ''token'']),
      (''properties'', JObject [(''invitation'', doc_schema_ref ''InvitationResponse''),
          (''token'', JObject [(''type'', JString ''string''),
              (''description'', JString ''Single-use invitation token, returned exactly once. The same token is emailed to the invited address.'')])])]"

definition schema_SwitchTenantRequest :: json where
  "schema_SwitchTenantRequest = JObject [(''type'', JString ''object''), (''required'', JArray [JString ''tenant_id'']),
      (''properties'', JObject [(''tenant_id'', doc_uuid_schema)])]"

definition schema_AuthResponse :: json where
  "schema_AuthResponse = JObject [(''type'', JString ''object''),
      (''required'', JArray [JString ''access_token'', JString ''refresh_token'', JString ''expires_in_seconds'',
          JString ''user'', JString ''active_tenant'']),
      (''properties'', JObject [(''access_token'', doc_string_schema), (''refresh_token'', doc_string_schema),
          (''expires_in_seconds'', doc_int64_schema), (''user'', doc_schema_ref ''UserResponse''),
          (''active_tenant'', doc_schema_ref ''TenantMembershipResponse'')])]"

definition schema_MeResponse :: json where
  "schema_MeResponse = JObject [(''type'', JString ''object''), (''required'', JArray [JString ''user'', JString ''active_tenant'']),
      (''properties'', JObject [(''user'', doc_schema_ref ''UserResponse''),
          (''active_tenant'', doc_schema_ref ''TenantMembershipResponse'')])]"

definition schema_DashboardSummary :: json where
  "schema_DashboardSummary = JObject [(''type'', JString ''object''),
      (''required'', JArray [JString ''open_task_count'', JString ''in_progress_task_count'', JString ''done_task_count'',
          JString ''overdue_task_count'', JString ''recent_activity_count'']),
      (''properties'', JObject [(''open_task_count'', doc_int64_schema), (''in_progress_task_count'', doc_int64_schema),
          (''done_task_count'', doc_int64_schema), (''overdue_task_count'', doc_int64_schema),
          (''recent_activity_count'', doc_int64_schema)])]"

definition schema_TaskPayload :: json where
  "schema_TaskPayload = JObject [(''type'', JString ''object''), (''required'', JArray [JString ''title'']),
      (''properties'', JObject [(''project_id'', doc_nullable doc_uuid_schema), (''title'', doc_string_schema),
          (''description'', doc_nullable doc_string_schema), (''status'', doc_schema_ref ''TaskStatus''),
          (''priority'', doc_schema_ref ''TaskPriority''), (''assignee_id'', doc_nullable doc_uuid_schema),
          (''due_at'', doc_nullable doc_date_time_schema)])]"

definition schema_TaskPatchPayload :: json where
  "schema_TaskPatchPayload = JObject [(''type'', JString ''object''),
      (''properties'', JObject [(''project_id'', doc_nullable doc_uuid_schema), (''title'', doc_string_schema),
          (''description'', doc_nullable doc_string_schema), (''status'', doc_schema_ref ''TaskStatus''),
          (''priority'', doc_schema_ref ''TaskPriority''), (''assignee_id'', doc_nullable doc_uuid_schema),
          (''due_at'', doc_nullable doc_date_time_schema)])]"

definition schema_BulkTaskStatusPayload :: json where
  "schema_BulkTaskStatusPayload = JObject [(''type'', JString ''object''), (''required'', JArray [JString ''task_ids'', JString ''status'']),
      (''properties'', JObject [(''task_ids'', JObject [(''type'', JString ''array''), (''items'', doc_uuid_schema), (''minItems'', JNumber 1),
              (''maxItems'', JNumber 100),
              (''description'', JString ''Task ids to update. Duplicates are ignored; at most 100 unique ids per request.'')]),
          (''status'', doc_schema_ref ''TaskStatus'')])]"

definition schema_BulkTaskStatusResponse :: json where
  "schema_BulkTaskStatusResponse = JObject [(''type'', JString ''object''), (''required'', JArray [JString ''updated'', JString ''data'']),
      (''properties'', JObject [(''updated'', JObject [(''type'', JString ''integer''), (''minimum'', JNumber 0),
              (''description'', JString ''Number of tasks updated.'')]),
          (''data'', doc_array_schema (doc_schema_ref ''TaskResponse''))])]"

definition schema_TaskResponse :: json where
  "schema_TaskResponse = JObject [(''type'', JString ''object''),
      (''required'', JArray [JString ''id'', JString ''tenant_id'', JString ''project_id'', JString ''title'',
          JString ''description'', JString ''status'', JString ''priority'', JString ''assignee_id'',
          JString ''due_at'', JString ''created_by'', JString ''updated_by'', JString ''created_at'',
          JString ''updated_at'']),
      (''properties'', JObject [(''id'', doc_uuid_schema), (''tenant_id'', doc_uuid_schema),
          (''project_id'', doc_nullable doc_uuid_schema), (''title'', doc_string_schema),
          (''description'', doc_nullable doc_string_schema), (''status'', doc_schema_ref ''TaskStatus''),
          (''priority'', doc_schema_ref ''TaskPriority''), (''assignee_id'', doc_nullable doc_uuid_schema),
          (''due_at'', doc_nullable doc_date_time_schema), (''created_by'', doc_uuid_schema),
          (''updated_by'', doc_uuid_schema), (''created_at'', doc_date_time_schema),
          (''updated_at'', doc_date_time_schema)])]"

definition schema_TaskListResponse :: json where
  "schema_TaskListResponse = JObject [(''type'', JString ''object''), (''required'', JArray [JString ''data'', JString ''next_cursor'']),
      (''properties'', JObject [(''data'', doc_array_schema (doc_schema_ref ''TaskResponse'')),
          (''next_cursor'', doc_nullable doc_string_schema)])]"

definition schema_TaskAuditResponse :: json where
  "schema_TaskAuditResponse = JObject [(''type'', JString ''object''),
      (''required'', JArray [JString ''id'', JString ''task_id'', JString ''tenant_id'', JString ''actor_user_id'',
          JString ''event_type'', JString ''payload'', JString ''created_at'']),
      (''properties'', JObject [(''id'', doc_uuid_schema), (''task_id'', doc_nullable doc_uuid_schema),
          (''tenant_id'', doc_uuid_schema), (''actor_user_id'', doc_uuid_schema),
          (''event_type'', doc_string_schema), (''payload'', doc_schema_ref ''FreeformObject''),
          (''created_at'', doc_date_time_schema)])]"

definition schema_TaskAuditListResponse :: json where
  "schema_TaskAuditListResponse = JObject [(''type'', JString ''object''), (''required'', JArray [JString ''data'', JString ''next_cursor'']),
      (''properties'', JObject [(''data'', doc_array_schema (doc_schema_ref ''TaskAuditResponse'')),
          (''next_cursor'', doc_nullable doc_string_schema)])]"

definition schema_ExportRequest :: json where
  "schema_ExportRequest = JObject [(''type'', JString ''object''),
      (''properties'', JObject [(''status'', doc_schema_ref ''TaskStatus''), (''priority'', doc_schema_ref ''TaskPriority''),
          (''project_id'', doc_uuid_schema), (''assignee_id'', doc_uuid_schema),
          (''label_id'', doc_uuid_schema), (''due_before'', doc_date_time_schema),
          (''due_after'', doc_date_time_schema), (''updated_after'', doc_date_time_schema),
          (''q'', doc_string_schema), (''format'', doc_schema_ref ''ExportFormat'')])]"

definition schema_TaskFilters :: json where
  "schema_TaskFilters = JObject [(''type'', JString ''object''),
      (''properties'', JObject [(''status'', doc_schema_ref ''TaskStatus''), (''priority'', doc_schema_ref ''TaskPriority''),
          (''project_id'', doc_uuid_schema), (''assignee_id'', doc_uuid_schema),
          (''label_id'', doc_uuid_schema), (''due_before'', doc_date_time_schema),
          (''due_after'', doc_date_time_schema), (''updated_after'', doc_date_time_schema),
          (''q'', doc_string_schema)])]"

definition schema_TaskExportJobPayload :: json where
  "schema_TaskExportJobPayload = JObject [(''type'', JString ''object''),
      (''required'', JArray [JString ''tenant_id'', JString ''requested_by'', JString ''filters'']),
      (''properties'', JObject [(''tenant_id'', doc_uuid_schema), (''requested_by'', doc_uuid_schema),
          (''filters'', doc_schema_ref ''TaskFilters''), (''format'', doc_schema_ref ''ExportFormat'')])]"

definition schema_ExportFormat :: json where
  "schema_ExportFormat = JObject [(''type'', JString ''string''), (''enum'', JArray [JString ''json'', JString ''csv'']),
      (''default'', JString ''json'')]"

definition schema_ExportArtifact :: json where
  "schema_ExportArtifact = JObject [(''type'', JString ''object''),
      (''required'', JArray [JString ''key'', JString ''content_type'', JString ''size_bytes'', JString ''download_path'']),
      (''properties'', JObject [(''key'', doc_string_schema), (''content_type'', doc_string_schema),
          (''size_bytes'', JObject [(''type'', JString ''integer''), (''format'', JString ''int64'')]),
          (''download_path'', doc_string_schema)])]"

definition schema_DueReminderSweepJobPayload :: json where
  "schema_DueReminderSweepJobPayload = JObject [(''type'', JString ''object''), (''required'', JArray [JString ''tenant_id'']),
      (''properties'', JObject [(''tenant_id'', doc_nullable doc_uuid_schema)])]"

definition schema_TaskExportJobResult :: json where
  "schema_TaskExportJobResult = JObject [(''type'', JString ''object''),
      (''required'', JArray [JString ''requested_by'', JString ''generated_at'', JString ''task_count'', JString ''format'',
          JString ''artifact'']),
      (''properties'', JObject [(''requested_by'', doc_uuid_schema), (''generated_at'', doc_date_time_schema),
          (''task_count'', doc_int64_schema), (''format'', doc_schema_ref ''ExportFormat''),
          (''artifact'', doc_schema_ref ''ExportArtifact'')])]"

definition schema_DueReminderSweepJobResult :: json where
  "schema_DueReminderSweepJobResult = JObject [(''type'', JString ''object''),
      (''required'', JArray [JString ''generated_at'', JString ''tenant_id'', JString ''reminder_count'',
          JString ''notification_count'']),
      (''properties'', JObject [(''generated_at'', doc_date_time_schema), (''tenant_id'', doc_nullable doc_uuid_schema),
          (''reminder_count'', doc_int64_schema), (''notification_count'', doc_int64_schema)])]"

definition schema_JobResponse :: json where
  "schema_JobResponse = JObject [(''type'', JString ''object''),
      (''required'', JArray [JString ''id'', JString ''tenant_id'', JString ''job_type'', JString ''status'',
          JString ''attempts'', JString ''max_attempts'', JString ''scheduled_at'', JString ''started_at'',
          JString ''finished_at'', JString ''payload'', JString ''result_payload'', JString ''last_error'']),
      (''properties'', JObject [(''id'', doc_uuid_schema), (''tenant_id'', doc_nullable doc_uuid_schema),
          (''job_type'', doc_schema_ref ''JobType''), (''status'', doc_schema_ref ''JobStatus''),
          (''attempts'', doc_int32_schema), (''max_attempts'', doc_int32_schema),
          (''scheduled_at'', doc_date_time_schema), (''started_at'', doc_nullable doc_date_time_schema),
          (''finished_at'', doc_nullable doc_date_time_schema), (''payload'', doc_job_payload_schema),
          (''result_payload'', doc_nullable doc_job_result_payload_schema),
          (''last_error'', doc_nullable doc_string_schema)])]"

definition schema_JobResultResponse :: json where
  "schema_JobResultResponse = JObject [(''type'', JString ''object''),
      (''required'', JArray [JString ''job_id'', JString ''job_type'', JString ''finished_at'', JString ''result'']),
      (''properties'', JObject [(''job_id'', doc_uuid_schema), (''job_type'', doc_schema_ref ''JobType''),
          (''finished_at'', doc_nullable doc_date_time_schema), (''result'', doc_job_result_payload_schema)])]"

definition schema_FreeformObject :: json where
  "schema_FreeformObject = JObject [(''type'', JString ''object''), (''additionalProperties'', JBool True)]"

definition doc_schemas :: "(string \<times> json) list" where
  "doc_schemas =
     [(''ErrorEnvelope'', schema_ErrorEnvelope), (''ErrorBody'', schema_ErrorBody),
      (''HealthResponse'', schema_HealthResponse), (''MembershipRole'', schema_MembershipRole),
      (''TaskStatus'', schema_TaskStatus), (''TaskPriority'', schema_TaskPriority),
      (''JobStatus'', schema_JobStatus), (''JobType'', schema_JobType),
      (''UserResponse'', schema_UserResponse), (''TenantMembershipResponse'', schema_TenantMembershipResponse),
      (''TenantMemberResponse'', schema_TenantMemberResponse),
      (''AttachmentResponse'', schema_AttachmentResponse), (''CommentPayload'', schema_CommentPayload),
      (''CommentPatchPayload'', schema_CommentPatchPayload), (''CommentResponse'', schema_CommentResponse),
      (''CommentListResponse'', schema_CommentListResponse), (''LabelPayload'', schema_LabelPayload),
      (''LabelPatchPayload'', schema_LabelPatchPayload), (''LabelResponse'', schema_LabelResponse),
      (''WebhookPayload'', schema_WebhookPayload), (''WebhookPatchPayload'', schema_WebhookPatchPayload),
      (''WebhookResponse'', schema_WebhookResponse), (''WebhookCreateResponse'', schema_WebhookCreateResponse),
      (''WebhookDeliveryResponse'', schema_WebhookDeliveryResponse),
      (''WebhookDeliveryListResponse'', schema_WebhookDeliveryListResponse),
      (''TaskLabelsPayload'', schema_TaskLabelsPayload), (''ProjectPayload'', schema_ProjectPayload),
      (''ProjectPatchPayload'', schema_ProjectPatchPayload), (''ProjectResponse'', schema_ProjectResponse),
      (''ProjectSummary'', schema_ProjectSummary), (''RegisterRequest'', schema_RegisterRequest),
      (''LoginRequest'', schema_LoginRequest), (''OAuthLoginRequest'', schema_OAuthLoginRequest),
      (''OAuthAccountResponse'', schema_OAuthAccountResponse), (''SessionResponse'', schema_SessionResponse),
      (''RefreshRequest'', schema_RefreshRequest), (''LogoutRequest'', schema_LogoutRequest),
      (''VerifyEmailPayload'', schema_VerifyEmailPayload),
      (''ResendVerificationPayload'', schema_ResendVerificationPayload),
      (''PasswordResetRequestPayload'', schema_PasswordResetRequestPayload),
      (''PasswordResetConfirmPayload'', schema_PasswordResetConfirmPayload),
      (''ChangePasswordPayload'', schema_ChangePasswordPayload),
      (''ChangeEmailPayload'', schema_ChangeEmailPayload),
      (''UpdateProfilePayload'', schema_UpdateProfilePayload),
      (''NotificationPreferencesResponse'', schema_NotificationPreferencesResponse),
      (''NotificationPreferencesPayload'', schema_NotificationPreferencesPayload),
      (''NotificationFeedItemResponse'', schema_NotificationFeedItemResponse),
      (''NotificationFeedResponse'', schema_NotificationFeedResponse),
      (''NotificationsReadAllResponse'', schema_NotificationsReadAllResponse),
      (''AuditEventResponse'', schema_AuditEventResponse), (''AuditListResponse'', schema_AuditListResponse),
      (''InvitationCreatePayload'', schema_InvitationCreatePayload),
      (''InvitationAcceptPayload'', schema_InvitationAcceptPayload),
      (''MemberRolePayload'', schema_MemberRolePayload), (''InvitationResponse'', schema_InvitationResponse),
      (''InvitationCreateResponse'', schema_InvitationCreateResponse),
      (''SwitchTenantRequest'', schema_SwitchTenantRequest), (''AuthResponse'', schema_AuthResponse),
      (''MeResponse'', schema_MeResponse), (''DashboardSummary'', schema_DashboardSummary),
      (''TaskPayload'', schema_TaskPayload), (''TaskPatchPayload'', schema_TaskPatchPayload),
      (''BulkTaskStatusPayload'', schema_BulkTaskStatusPayload),
      (''BulkTaskStatusResponse'', schema_BulkTaskStatusResponse), (''TaskResponse'', schema_TaskResponse),
      (''TaskListResponse'', schema_TaskListResponse), (''TaskAuditResponse'', schema_TaskAuditResponse),
      (''TaskAuditListResponse'', schema_TaskAuditListResponse), (''ExportRequest'', schema_ExportRequest),
      (''TaskFilters'', schema_TaskFilters), (''TaskExportJobPayload'', schema_TaskExportJobPayload),
      (''ExportFormat'', schema_ExportFormat), (''ExportArtifact'', schema_ExportArtifact),
      (''DueReminderSweepJobPayload'', schema_DueReminderSweepJobPayload),
      (''TaskExportJobResult'', schema_TaskExportJobResult),
      (''DueReminderSweepJobResult'', schema_DueReminderSweepJobResult), (''JobResponse'', schema_JobResponse),
      (''JobResultResponse'', schema_JobResultResponse), (''FreeformObject'', schema_FreeformObject)]"

end
