(* ===== verification/TaskProperties.thy ===== *)
theory TaskProperties
  imports TaskService
begin

text \<open>
  What the task component guarantees: complete listings, exact updates, all-or-nothing bulk
  updates, the archive life cycle, tenant isolation and the fan-out of events. The last sections
  state them over \<open>task_step\<close>, the relation between the databases before and after one write.
\<close>

section \<open>A concrete database\<close>

definition demo_user :: user_record where
  "demo_user = \<lparr>us_id = 1, us_email = ''a@b.c'', us_password_hash = ''h'', us_display_name = None,
     us_email_verified_at = None, us_created_at = 0\<rparr>"

definition demo_task :: "uuid \<Rightarrow> uuid \<Rightarrow> string \<Rightarrow> time \<Rightarrow> task_record" where
  "demo_task i tenant status at =
     \<lparr>tk_id = i, tk_tenant_id = tenant, tk_project_id = None, tk_title = ''t'', tk_description = None,
      tk_status = status, tk_priority = ''medium'', tk_assignee_id = None, tk_due_at = None,
      tk_created_by = 1, tk_updated_by = 1, tk_created_at = 0, tk_updated_at = at\<rparr>"

definition demo_webhook :: webhook_record where
  "demo_webhook = \<lparr>wh_id = 70, wh_tenant_id = 5, wh_url = ''https://x'', wh_secret = ''s'',
     wh_events = [''task_created''], wh_is_active = True, wh_created_by = 1, wh_created_at = 0,
     wh_updated_at = 0\<rparr>"

definition demo_db :: db where
  "demo_db = empty_db\<lparr>users := [demo_user],
     tenants := [\<lparr>tn_id = 5, tn_name = ''T'', tn_created_at = 0\<rparr>,
                 \<lparr>tn_id = 6, tn_name = ''U'', tn_created_at = 0\<rparr>],
     tasks := [demo_task 10 5 ''open'' 3, demo_task 11 5 ''done'' 3, demo_task 12 5 ''open'' 1,
               demo_task 13 6 ''open'' 2],
     webhooks := [demo_webhook]\<rparr>"

lemmas demo_simps = demo_db_def demo_task_def demo_user_def demo_webhook_def empty_db_def

definition demo_world :: world where "demo_world = empty_world\<lparr>w_db := demo_db\<rparr>"

lemma demo_wf: "wf_tasks demo_db"
  by (simp add: wf_tasks_def demo_simps wf_task_def task_fks_def tenant_exists_def user_exists_def
      row_exists_def)

section \<open>Listings\<close>

text \<open>C1. Following the cursors of \<open>list_tasks\<close> from the first page, a client gets every task of
  the tenant that matches the filters, exactly once, newest update first, and no other task.\<close>

theorem list_tasks_complete:
  assumes "wf_tasks d" and "0 < limit"
  shows "\<exists>ts. follow (\<lambda>c. db_list_tasks e tenant f d c limit) (Suc (length (tasks d))) None = Some ts \<and>
    set ts = {t \<in> set (tasks d). tk_tenant_id t = tenant \<and> task_matches e d f t} \<and> distinct ts \<and>
    sorted_wrt (\<lambda>a b. task_cursor_of b < task_cursor_of a) ts"
proof -
  let ?rows = "listed_tasks e tenant f d"
  have ids: "distinct (map tk_id (tasks d))" using assms(1) by (simp add: wf_tasks_def)
  have "distinct (map task_cursor_of (tasks d))"
    by (rule distinct_keyI [OF ids]) (simp add: task_cursor_of_def)
  then have dist: "distinct (map task_cursor_of ?rows)"
    by (simp add: listed_tasks_def select_where_def distinct_map_filter)
  have "length ?rows < Suc (length (tasks d))"
    by (simp add: listed_tasks_def select_where_def le_imp_less_Suc)
  then have "follow (\<lambda>c. db_list_tasks e tenant f d c limit) (Suc (length (tasks d))) None =
      Some (order_desc task_cursor_of ?rows)"
    using task_listing.follow_from [where c = None and n = limit, OF dist assms(2)]
    by (simp del: follow.simps)
  then show ?thesis
    using dist strict_order_desc [OF dist]
    by (auto simp: listed_tasks_def select_where_def distinct_map)
qed

theorem list_tasks_complete_witness:
  "wf_tasks demo_db \<and> (\<exists>ts. follow (\<lambda>c. db_list_tasks sample_env 5 no_filters demo_db c 2)
      (Suc (length (tasks demo_db))) None = Some ts \<and>
    set ts = {t \<in> set (tasks demo_db). tk_tenant_id t = 5 \<and> task_matches sample_env demo_db no_filters t} \<and>
    distinct ts \<and> sorted_wrt (\<lambda>a b. task_cursor_of b < task_cursor_of a) ts)"
  using list_tasks_complete [OF demo_wf, of 2 sample_env 5 no_filters] demo_wf by simp

section \<open>Updates\<close>


definition demo_update :: update_task_input where
  "demo_update = \<lparr>up_project_id = None, up_title = Some ''  New '', up_description = None,
     up_status = Some StDone, up_priority = None, up_assignee_id = None, up_due_at = None\<rparr>"

lemma demo_update_runs:
  "\<exists>t d'. db_update_task 90 7 5 10 1 demo_update demo_db = Inr (t, d')"
  by (simp add: db_update_task_def no_task_changes_def demo_update_def update_returning_def
      returning_def demo_simps task_fks_def tenant_exists_def user_exists_def row_exists_def
      apply_task_update_def coalesce_def insert_task_audit_def task_audit_row_def task_exists_def
      insert_row_def update_where_def)


section \<open>Bulk updates\<close>

lemma svc_bulk_Inr:
  assumes "svc_bulk_update_task_status aids wids now tenant actor ids status w = (Inr ts, w')"
  obtains dedup us d ds r where "normalize_bulk_task_ids ids = Inr dedup"
    "db_bulk_update_task_status aids now tenant actor dedup status (w_db w) = Inr (us, d)"
    "ts = sort_key (position_key dedup) us"
    "w' = w\<lparr>w_redis := r, w_db := d\<lparr>deliveries := ds\<rparr>\<rparr>"
proof -
  from assms obtain dedup us d n r where n: "normalize_bulk_task_ids ids = Inr dedup"
    and db: "db_bulk_update_task_status aids now tenant actor dedup status (w_db w) = Inr (us, d)"
    and bump: "bump_tenant_cache_version now tenant (w_redis w) = (Inr n, r)"
    and em: "for_each (\<lambda>t. emit_task_webhook (wids (tk_id t)) now tenant ''task_status_updated'' t)
        (sort_key (position_key dedup) us) (w\<lparr>w_db := d, w_redis := r\<rparr>) = (Inr (), w')"
    and ts: "ts = sort_key (position_key dedup) us"
    by (auto simp: svc_bulk_update_task_status_def then_do_Inr db_run_Inr cache_run_eq Let_def)
  obtain ds where "w' = w\<lparr>w_redis := r, w_db := d\<lparr>deliveries := ds\<rparr>\<rparr>"
    using emit_all_effect [of wids now tenant "''task_status_updated''"
        "sort_key (position_key dedup) us" "w\<lparr>w_db := d, w_redis := r\<rparr>"] em
    by auto
  with n db ts show ?thesis by (rule that)
qed

text \<open>The statement of a bulk update: the rows it returns are those named, and only they change.\<close>

lemma bulk_rows:
  assumes wf: "wf_tasks d" and db: "db_bulk_update_task_status aids now tenant actor dedup status d = Inr (us, d')"
    and dedup: "distinct dedup"
  shows "set (map tk_id us) = set dedup" and "distinct (map tk_id us)"
    and "\<And>t. t \<in> set us \<Longrightarrow> tk_tenant_id t = tenant \<and> tk_status t = task_status_str status \<and> tk_updated_by t = actor \<and> t \<in> set (tasks d')"
    and "\<And>x. tk_id x \<notin> set dedup \<Longrightarrow> x \<in> set (tasks d') \<longleftrightarrow> x \<in> set (tasks d)"
    and "length (task_audit d') = length (task_audit d) + length dedup"
proof -
  let ?P = "\<lambda>t. tk_tenant_id t = tenant \<and> tk_id t \<in> set dedup"
  let ?f = "set_task_status now actor (task_status_str status)"
  from db obtain as where us: "us = returning ?P ?f (tasks d)" and len: "length us = length dedup"
    and las: "length as = length dedup" and d': "d' = task_write d (update_where ?P ?f (tasks d)) as"
    by (rule db_bulk_update_Inr)
  have fid: "tk_id (?f t) = tk_id t" for t by (simp add: set_task_status_def)
  have ids: "map tk_id us = map tk_id (filter ?P (tasks d))"
    by (simp add: us returning_def fid)
  show dist: "distinct (map tk_id us)"
    unfolding ids using wf by (simp add: wf_tasks_def distinct_map_filter)
  have sub: "set (map tk_id us) \<subseteq> set dedup" unfolding ids by auto
  have "card (set (map tk_id us)) = card (set dedup)"
    using distinct_card [OF dist] distinct_card [OF dedup] len by simp
  then show "set (map tk_id us) = set dedup" using card_subset_eq [OF finite_set sub] by simp
  show "tk_tenant_id t = tenant \<and> tk_status t = task_status_str status \<and> tk_updated_by t = actor \<and> t \<in> set (tasks d')"
    if "t \<in> set us" for t
  proof -
    from that obtain q where q: "q \<in> set (tasks d)" "?P q" "t = ?f q" by (auto simp: us returning_def)
    then have "t \<in> set (update_where ?P ?f (tasks d))" unfolding in_update_where by blast
    with q show ?thesis by (simp add: d' set_task_status_def)
  qed
  show "x \<in> set (tasks d') \<longleftrightarrow> x \<in> set (tasks d)" if "tk_id x \<notin> set dedup" for x
    using that fid by (simp add: d' in_update_where) metis
  show "length (task_audit d') = length (task_audit d) + length dedup" using las by (simp add: d')
qed


definition demo_bulk :: "task_record list result \<times> world" where
  "demo_bulk = svc_bulk_update_task_status (\<lambda>k. 90 + k) (\<lambda>_ k. 200 + k) 9 5 1 [12, 10, 12] StDone demo_world"

lemma demo_bulk_runs: "\<exists>ts w'. demo_bulk = (Inr ts, w')"
  by (simp add: demo_bulk_def svc_bulk_update_task_status_def then_do_def normalize_bulk_task_ids_def
      db_run_def db_bulk_update_task_status_def demo_world_def empty_world_def demo_simps returning_def
      set_task_status_def user_exists_def row_exists_def update_where_def task_audit_row_def
      insert_task_audit_def tenant_exists_def task_exists_def insert_row_def cache_run_def
      bump_tenant_cache_version_def redis_get_def live_entry_def empty_redis_def Let_def
      emit_task_webhook_def emit_task_event_def logged_eq split: sum.split prod.split)


section \<open>Archive and restore\<close>

lemma archived_lookup:
  assumes "wf_tasks d" and "t \<in> set (tasks d)" and "tk_tenant_id t = tenant" and "tk_id t = i"
  shows "db_get_task tenant i d = Some t"
  unfolding db_get_task_def
  by (rule fetch_optional_Some_key [where key = tk_id and k = i])
    (use assms in \<open>auto simp: wf_tasks_def\<close>)


lemma demo_archive_runs: "\<exists>t d'. db_archive_task 90 7 8 5 10 1 demo_db = Inr (t, d')"
  by (simp add: db_archive_task_def update_returning_def returning_def demo_simps user_exists_def
      tenant_exists_def row_exists_def set_task_status_def insert_task_audit_def task_audit_row_def
      task_exists_def insert_row_def update_where_def)


section \<open>Every write\<close>

inductive task_step :: "uuid \<Rightarrow> db \<Rightarrow> db \<Rightarrow> bool" for tenant where
  created: "db_create_task i aid now tenant actor input d = Inr (t, d') \<Longrightarrow> task_step tenant d d'"
| updated: "db_update_task aid now tenant i actor input d = Inr (t, d') \<Longrightarrow> task_step tenant d d'"
| bulk_updated: "db_bulk_update_task_status aids now tenant actor ids status d = Inr (ts, d') \<Longrightarrow>
     task_step tenant d d'"
| archived: "db_archive_task aid now now' tenant i actor d = Inr (t, d') \<Longrightarrow> task_step tenant d d'"
| restored: "db_restore_task aid now now' tenant i actor d = Inr (t, d') \<Longrightarrow> task_step tenant d d'"

inductive_cases task_stepE: "task_step tenant d d'"

lemma filter_update_where:
  "(\<And>t. P t \<Longrightarrow> \<not> Q t \<and> \<not> Q (f t)) \<Longrightarrow> filter Q (update_where P f ts) = filter Q ts"
  by (induction ts) (auto simp: update_where_def)

lemma task_step_effect:
  assumes "task_step tenant d d'"
  obtains ts as where "d' = task_write d ts as"
    "filter (\<lambda>t. tk_tenant_id t \<noteq> tenant) ts = filter (\<lambda>t. tk_tenant_id t \<noteq> tenant) (tasks d)"
    "set (map tk_id (tasks d)) \<subseteq> set (map tk_id ts)"
proof -
  have upd: "filter (\<lambda>t. tk_tenant_id t \<noteq> tenant) (update_where P f (tasks d)) =
      filter (\<lambda>t. tk_tenant_id t \<noteq> tenant) (tasks d) \<and>
      set (map tk_id (tasks d)) \<subseteq> set (map tk_id (update_where P f (tasks d)))"
    if "\<And>t. P t \<Longrightarrow> tk_tenant_id t = tenant" "\<And>t. tk_tenant_id (f t) = tk_tenant_id t"
      "\<And>t. tk_id (f t) = tk_id t" for P f
  proof -
    have "map tk_id (update_where P f (tasks d)) = map tk_id (tasks d)"
      by (rule map_key_update_where) (rule that(3))
    moreover have "filter (\<lambda>t. tk_tenant_id t \<noteq> tenant) (update_where P f (tasks d)) =
        filter (\<lambda>t. tk_tenant_id t \<noteq> tenant) (tasks d)"
      by (rule filter_update_where) (simp add: that)
    ultimately show ?thesis by simp
  qed
  from assms show ?thesis
  proof (cases rule: task_step.cases)
    case (created i aid now actor input t)
    from created obtain a where "t = new_task_row i now tenant actor input"
        "d' = task_write d (tasks d @ [t]) [a]"
      by (rule db_create_task_Inr)
    then show ?thesis by (intro that [of "tasks d @ [t]" "[a]"]) (auto simp: new_task_row_def)
  next
    case (updated aid now i actor input t)
    let ?P = "\<lambda>t. tk_tenant_id t = tenant \<and> tk_id t = i" and ?f = "apply_task_update now actor input"
    from updated obtain a where "d' = task_write d (update_where ?P ?f (tasks d)) [a]"
      by (rule db_update_task_Inr)
    then show ?thesis
      using upd [of ?P ?f] by (intro that [of "update_where ?P ?f (tasks d)" "[a]"])
        (auto simp: apply_task_update_def)
  next
    case (bulk_updated aids now actor ids status ts)
    let ?P = "\<lambda>t. tk_tenant_id t = tenant \<and> tk_id t \<in> set ids" and ?f = "set_task_status now actor (task_status_str status)"
    from bulk_updated obtain as where "d' = task_write d (update_where ?P ?f (tasks d)) as"
      by (rule db_bulk_update_Inr)
    then show ?thesis
      using upd [of ?P ?f] by (intro that [of "update_where ?P ?f (tasks d)" as])
        (auto simp: set_task_status_def)
  next
    case (archived aid now now' i actor t)
    let ?P = "\<lambda>t. tk_tenant_id t = tenant \<and> tk_id t = i \<and> tk_status t \<noteq> ''archived''" and ?f = "set_task_status now actor ''archived''"
    from archived obtain a where "d' = task_write d (update_where ?P ?f (tasks d)) [a]"
      by (rule db_archive_task_Inr)
    then show ?thesis
      using upd [of ?P ?f] by (intro that [of "update_where ?P ?f (tasks d)" "[a]"])
        (auto simp: set_task_status_def)
  next
    case (restored aid now now' i actor t)
    let ?P = "\<lambda>t. tk_tenant_id t = tenant \<and> tk_id t = i \<and> tk_status t = ''archived''" and ?f = "set_task_status now actor ''open''"
    from restored obtain a where "d' = task_write d (update_where ?P ?f (tasks d)) [a]"
      by (rule db_restore_task_Inr)
    then show ?thesis
      using upd [of ?P ?f] by (intro that [of "update_where ?P ?f (tasks d)" "[a]"])
        (auto simp: set_task_status_def)
  qed
qed

lemma task_step_wf: "task_step tenant d d' \<Longrightarrow> wf_tasks d \<Longrightarrow> wf_tasks d'"
  by (erule task_stepE)
    (auto intro: create_task_wf update_task_wf bulk_update_wf archive_restore_wf)

text \<open>C10. Tenant isolation: no sequence of task writes of one tenant changes a task row of
  another tenant, and none removes a task; every write keeps the task table well formed.\<close>

theorem task_writes_isolated:
  assumes "(task_step tenant)\<^sup>*\<^sup>* d d'" and "wf_tasks d"
  shows "wf_tasks d' \<and>
    filter (\<lambda>t. tk_tenant_id t \<noteq> tenant) (tasks d') = filter (\<lambda>t. tk_tenant_id t \<noteq> tenant) (tasks d) \<and>
    set (map tk_id (tasks d)) \<subseteq> set (map tk_id (tasks d')) \<and>
    (\<exists>as. task_audit d' = task_audit d @ as)"
  using assms
proof (induction rule: rtranclp_induct)
  case base
  then show ?case by simp
next
  case (step d1 d2)
  from step.hyps(2) obtain ts as where d2: "d2 = task_write d1 ts as"
    and other: "filter (\<lambda>t. tk_tenant_id t \<noteq> tenant) ts = filter (\<lambda>t. tk_tenant_id t \<noteq> tenant) (tasks d1)"
    and ids: "set (map tk_id (tasks d1)) \<subseteq> set (map tk_id ts)"
    by (rule task_step_effect)
  note ih = step.IH [OF step.prems]
  have "wf_tasks d2" using task_step_wf [OF step.hyps(2)] ih by blast
  moreover have "set (map tk_id (tasks d)) \<subseteq> set (map tk_id ts)"
    by (rule subset_trans [OF _ ids]) (use ih in blast)
  ultimately show ?case using ih other by (auto simp only: d2 task_write_sel append_assoc)
qed

theorem task_writes_isolated_witness:
  "\<exists>d'. (task_step 5)\<^sup>*\<^sup>* demo_db d' \<and> d' \<noteq> demo_db \<and> wf_tasks d' \<and>
     filter (\<lambda>t. tk_tenant_id t \<noteq> 5) (tasks d') = filter (\<lambda>t. tk_tenant_id t \<noteq> 5) (tasks demo_db)"
proof -
  obtain t d' where run: "db_archive_task 90 7 8 5 10 1 demo_db = Inr (t, d')"
    using demo_archive_runs by blast
  then have step: "task_step 5 demo_db d'" by (rule task_step.archived)
  then have steps: "(task_step 5)\<^sup>*\<^sup>* demo_db d'" by simp
  have "length (task_audit d') = Suc (length (task_audit demo_db))"
    using run by (rule db_archive_task_Inr) simp
  then have "d' \<noteq> demo_db" by auto
  with steps task_writes_isolated [OF steps demo_wf] show ?thesis by blast
qed

end
