(* ===== verification/Memberships.thy ===== *)
theory Memberships
  imports Tokens TaskProperties
begin

text \<open>
  Members and invitations: \<open>src/services/memberships.rs\<close>. The role change and the removal are
  written as their two halves, the checks and the write, because the database runs them as separate
  statements: the last section runs two of them interleaved.
\<close>

section \<open>Invitations\<close>

text \<open>
  \<open>chrono::Duration::from_std\<close> refuses more seconds than \<open>i64::MAX\<close> milliseconds; the sum with
  the clock is taken to be in the range of \<open>DateTime\<close>.
\<close>

definition chrono_from_std :: "nat \<Rightarrow> string \<Rightarrow> time result" where
  "chrono_from_std secs msg =
     (if 9223372036854775 < secs then Inl (Internal msg) else Inr (seconds (int secs)))"

record created_invitation =
  ci_invitation :: invitation_record
  ci_token :: string

definition invite_role_check :: "membership_role \<Rightarrow> membership_role \<Rightarrow> unit result" where
  "invite_role_check actor_role role =
     (case role of
        Owner \<Rightarrow> Inl (Validation ''owners cannot be invited; promote an existing member instead'')
      | Admin \<Rightarrow> ensure (actor_role = Owner) (Forbidden ''owner role required to invite an admin'')
      | Member \<Rightarrow> Inr ())"

definition invitation_conflict :: "app_error \<Rightarrow> app_error" where
  "invitation_conflict err =
     (case err of Conflict _ \<Rightarrow> Conflict ''a pending invitation already exists for this email''
      | other \<Rightarrow> other)"

definition map_err :: "(app_error \<Rightarrow> app_error) \<Rightarrow> 'a result \<Rightarrow> 'a result" where
  "map_err f r = (case r of Inl err \<Rightarrow> Inl (f err) | Inr x \<Rightarrow> Inr x)"

text \<open>\<open>token\<close> is the text drawn by \<open>generate_token\<close>.\<close>

definition svc_create_invitation ::
  "env \<Rightarrow> uuid \<Rightarrow> uuid \<Rightarrow> uuid \<Rightarrow> string \<Rightarrow> time \<Rightarrow> uuid \<Rightarrow> membership_role \<Rightarrow> uuid \<Rightarrow> string \<Rightarrow>
   membership_role \<Rightarrow> created_invitation app" where
  "svc_create_invitation e i nid aid token now tenant actor_role actor email role =
     then_do (lift_result (invite_role_check actor_role role)) (\<lambda>_.
     then_do (db_read (\<lambda>d. case db_get_user_by_email email d of None \<Rightarrow> False
         | Some u \<Rightarrow> db_get_membership (us_id u) tenant d \<noteq> None)) (\<lambda>is_member.
     if is_member then fail (Conflict ''user is already a member of this tenant'')
     else
       then_do (lift_result (chrono_from_std (invitation_ttl (cfg e)) ''invalid invitation ttl'')) (\<lambda>ttl.
       then_do (\<lambda>w. map_prod (map_err invitation_conflict) id
         (db_run (db_create_invitation i now tenant email (role_str role) (sha256_hex e token)
           (now + ttl) actor) w)) (\<lambda>v.
       then_do (logged (db_run (db_enqueue_notification nid now
         \<lparr>nn_tenant_id = Some tenant, nn_user_id = None, nn_kind = ''tenant_invitation'',
          nn_recipient = email,
          nn_payload = JObject [(''role'', JString (role_str role)), (''token'', JString token),
            (''expires_at'', JString (rfc3339 e (now + ttl)))],
          nn_dedupe_key = None\<rparr> (max_job_attempts (cfg e))))) (\<lambda>_.
       then_do (record_event aid now (Some tenant) (Some actor) ''invitation'' (Some (iv_id v))
         ''invitation.created'' (JObject [(''email'', JString email),
           (''role'', JString (role_str role))])) (\<lambda>_.
       ret \<lparr>ci_invitation = v, ci_token = token\<rparr>))))))"

definition svc_list_invitations :: "time \<Rightarrow> uuid \<Rightarrow> invitation_record list app" where
  "svc_list_invitations now tenant = db_read (db_list_pending_invitations now tenant)"

definition svc_revoke_invitation :: "uuid \<Rightarrow> time \<Rightarrow> uuid \<Rightarrow> uuid \<Rightarrow> uuid \<Rightarrow> unit app" where
  "svc_revoke_invitation aid now tenant actor i =
     then_do (db_run (db_revoke_invitation now tenant i)) (\<lambda>_.
     record_event aid now (Some tenant) (Some actor) ''invitation'' (Some i) ''invitation.revoked''
       (JObject []))"

definition svc_accept_invitation ::
  "env \<Rightarrow> uuid \<Rightarrow> time \<Rightarrow> uuid \<Rightarrow> uuid \<Rightarrow> string \<Rightarrow> membership_record app" where
  "svc_accept_invitation e aid now tenant user token =
     then_do (db_try (db_get_user_by_id user)) (\<lambda>u.
     then_do (db_run (db_accept_invitation now tenant (sha256_hex e token) (us_id u) (us_email u))) (\<lambda>m.
     then_do (record_event aid now (Some tenant) (Some user) ''membership'' (Some user)
       ''invitation.accepted'' (JObject [(''role'', JString (mr_role m))])) (\<lambda>_.
     ret m)))"

section \<open>Roles and removal\<close>

definition member_role_of :: "uuid \<Rightarrow> uuid \<Rightarrow> membership_role app" where
  "member_role_of tenant target =
     then_do (db_read (db_get_tenant_member tenant target)) (\<lambda>m.
     then_do (lift_result (ok_or m (NotFound ''member not found''))) (\<lambda>m.
     lift_result (role_from_str (tm_role m))))"

definition update_role_check ::
  "uuid \<Rightarrow> membership_role \<Rightarrow> uuid \<Rightarrow> membership_role \<Rightarrow> membership_role app" where
  "update_role_check tenant actor_role target new_role =
     then_do (member_role_of tenant target) (\<lambda>current.
     if (is_admin_role current \<or> is_admin_role new_role) \<and> actor_role \<noteq> Owner
     then fail (Forbidden ''owner role required to change owner or admin roles'')
     else
       then_do (db_read (db_count_tenant_owners tenant)) (\<lambda>owners.
       if current = Owner \<and> new_role \<noteq> Owner \<and> owners \<le> 1
       then fail (Conflict ''a tenant must retain at least one owner'')
       else ret current))"

definition update_role_write ::
  "uuid \<Rightarrow> time \<Rightarrow> uuid \<Rightarrow> uuid \<Rightarrow> uuid \<Rightarrow> membership_role \<Rightarrow> membership_role \<Rightarrow> tenant_member_record app" where
  "update_role_write aid now tenant actor target new_role current =
     then_do (db_run (\<lambda>d. Inr (db_update_membership_role tenant target new_role d))) (\<lambda>m.
     then_do (lift_result (ok_or m (NotFound ''member not found''))) (\<lambda>m.
     then_do (record_event aid now (Some tenant) (Some actor) ''membership'' (Some target)
       ''member.role_updated'' (JObject [(''from'', JString (role_str current)),
         (''to'', JString (role_str new_role))])) (\<lambda>_.
     ret m)))"

definition svc_update_member_role ::
  "uuid \<Rightarrow> time \<Rightarrow> uuid \<Rightarrow> membership_role \<Rightarrow> uuid \<Rightarrow> uuid \<Rightarrow> membership_role \<Rightarrow> tenant_member_record app" where
  "svc_update_member_role aid now tenant actor_role actor target new_role =
     then_do (update_role_check tenant actor_role target new_role)
       (update_role_write aid now tenant actor target new_role)"

definition remove_member_check :: "uuid \<Rightarrow> membership_role \<Rightarrow> uuid \<Rightarrow> membership_role app" where
  "remove_member_check tenant actor_role target =
     then_do (member_role_of tenant target) (\<lambda>current.
     if is_admin_role current \<and> actor_role \<noteq> Owner
     then fail (Forbidden ''owner role required to remove an owner or admin'')
     else
       then_do (db_read (db_count_tenant_owners tenant)) (\<lambda>owners.
       if current = Owner \<and> owners \<le> 1
       then fail (Conflict ''a tenant must retain at least one owner'')
       else ret current))"

definition remove_member_write ::
  "uuid \<Rightarrow> time \<Rightarrow> uuid \<Rightarrow> uuid \<Rightarrow> uuid \<Rightarrow> membership_role \<Rightarrow> unit app" where
  "remove_member_write aid now tenant actor target current =
     then_do (db_run (\<lambda>d. Inr (db_delete_membership tenant target d))) (\<lambda>removed.
     if \<not> removed then fail (NotFound ''member not found'')
     else
       then_do (db_run (\<lambda>d. Inr ((), db_revoke_user_tenant_refresh_tokens now target tenant d))) (\<lambda>_.
       record_event aid now (Some tenant) (Some actor) ''membership'' (Some target)
         ''member.removed'' (JObject [(''role'', JString (role_str current))])))"

definition svc_remove_member ::
  "uuid \<Rightarrow> time \<Rightarrow> uuid \<Rightarrow> membership_role \<Rightarrow> uuid \<Rightarrow> uuid \<Rightarrow> unit app" where
  "svc_remove_member aid now tenant actor_role actor target =
     then_do (remove_member_check tenant actor_role target) (remove_member_write aid now tenant actor target)"

section \<open>Effects\<close>

definition wf_members :: "db \<Rightarrow> bool" where
  "wf_members d \<longleftrightarrow> distinct (map (\<lambda>m. (mb_tenant_id m, mb_user_id m)) (memberships d))"

lemma set_role_keys [simp]:
  "mb_tenant_id (set_role r m) = mb_tenant_id m" "mb_user_id (set_role r m) = mb_user_id m"
  "mb_role (set_role r m) = r"
  by (simp_all add: set_role_def)

lemma member_role_of_Inr:
  assumes "member_role_of tenant target w = (Inr r, w')"
  shows "w' = w" and "\<exists>m \<in> set (memberships (w_db w)). is_member_row tenant target m \<and> mb_role m = role_str r"
    and "user_exists (w_db w) target"
proof -
  from assms obtain t where w': "w' = w" and t: "db_get_tenant_member tenant target (w_db w) = Some t"
    and r: "role_from_str (tm_role t) = Inr r"
    by (auto simp: member_role_of_def then_do_Inr)
  from t have "t \<in> set (concat (map (join_user (w_db w))
      (select_where (is_member_row tenant target) (memberships (w_db w)))))"
    unfolding db_get_tenant_member_def by (rule first_row_SomeD)
  then obtain m u where "m \<in> set (memberships (w_db w))" "is_member_row tenant target m"
    "u \<in> set (users (w_db w))" "us_id u = mb_user_id m" "tm_role t = mb_role m"
    by (auto simp: select_where_def join_user_def)
  moreover have "tm_role t = role_str r" using r role_enum.parse_sound by metis
  ultimately show "w' = w"
    "\<exists>m \<in> set (memberships (w_db w)). is_member_row tenant target m \<and> mb_role m = role_str r"
    "user_exists (w_db w) target"
    using w' by (auto simp: user_exists_def row_exists_iff is_member_row_def)
qed

lemma member_role_of_snd [simp]: "snd (member_role_of tenant target w) = w"
  by (simp add: member_role_of_def then_do_def split: sum.splits prod.splits)

lemma update_role_check_snd: "snd (update_role_check tenant actor_role target new_role w) = w"
  using member_role_of_snd [of tenant target w]
  by (auto simp: update_role_check_def then_do_def simp del: member_role_of_snd split: sum.splits prod.splits)

lemma remove_member_check_snd: "snd (remove_member_check tenant actor_role target w) = w"
  using member_role_of_snd [of tenant target w]
  by (auto simp: remove_member_check_def then_do_def simp del: member_role_of_snd split: sum.splits prod.splits)

lemma update_role_check_Inr:
  assumes "update_role_check tenant actor_role target new_role w = (Inr current, w')"
  shows "w' = w" and "\<exists>m \<in> set (memberships (w_db w)). is_member_row tenant target m \<and> mb_role m = role_str current"
    and "actor_role \<noteq> Owner \<Longrightarrow> current = Member \<and> new_role = Member"
    and "current = Owner \<Longrightarrow> new_role \<noteq> Owner \<Longrightarrow> 1 < db_count_tenant_owners tenant (w_db w)"
    and "user_exists (w_db w) target"
proof -
  from assms obtain w1 where m: "member_role_of tenant target w = (Inr current, w1)"
    and r: "w' = w1" "actor_role \<noteq> Owner \<Longrightarrow> \<not> is_admin_role current \<and> \<not> is_admin_role new_role"
      "current = Owner \<Longrightarrow> new_role \<noteq> Owner \<Longrightarrow> 1 < db_count_tenant_owners tenant (w_db w1)"
    by (auto simp: update_role_check_def then_do_Inr split: if_splits)
  note mr = member_role_of_Inr [OF m]
  from mr(1) r show "w' = w" "actor_role \<noteq> Owner \<Longrightarrow> current = Member \<and> new_role = Member"
    "current = Owner \<Longrightarrow> new_role \<noteq> Owner \<Longrightarrow> 1 < db_count_tenant_owners tenant (w_db w)"
    by (cases current; cases new_role; auto simp: is_admin_role_def)+
  show "\<exists>m \<in> set (memberships (w_db w)). is_member_row tenant target m \<and> mb_role m = role_str current"
    by (rule mr(2))
  show "user_exists (w_db w) target" by (rule mr(3))
qed

lemma remove_member_check_Inr:
  assumes "remove_member_check tenant actor_role target w = (Inr current, w')"
  shows "w' = w" and "\<exists>m \<in> set (memberships (w_db w)). is_member_row tenant target m \<and> mb_role m = role_str current"
    and "actor_role \<noteq> Owner \<Longrightarrow> current = Member"
    and "current = Owner \<Longrightarrow> 1 < db_count_tenant_owners tenant (w_db w)"
proof -
  from assms obtain w1 where m: "member_role_of tenant target w = (Inr current, w1)"
    and r: "w' = w1" "actor_role \<noteq> Owner \<Longrightarrow> \<not> is_admin_role current"
      "current = Owner \<Longrightarrow> 1 < db_count_tenant_owners tenant (w_db w1)"
    by (auto simp: remove_member_check_def then_do_Inr split: if_splits)
  note mr = member_role_of_Inr [OF m]
  from mr(1) r show "w' = w" "actor_role \<noteq> Owner \<Longrightarrow> current = Member"
    "current = Owner \<Longrightarrow> 1 < db_count_tenant_owners tenant (w_db w)"
    by (cases current; auto simp: is_admin_role_def)+
  show "\<exists>m \<in> set (memberships (w_db w)). is_member_row tenant target m \<and> mb_role m = role_str current"
    by (rule mr(2))
qed

definition role_write :: "db \<Rightarrow> uuid \<Rightarrow> uuid \<Rightarrow> membership_role \<Rightarrow> membership_row list" where
  "role_write d tenant target role =
     update_where (\<lambda>m. is_member_row tenant target m \<and> user_exists d target) (set_role (role_str role)) (memberships d)"

lemma memberships_record_event [simp]:
  "memberships (w_db (snd (record_event i now t a st si et payload w))) = memberships (w_db w)"
  "users (w_db (snd (record_event i now t a st si et payload w))) = users (w_db w)"
  "invitations (w_db (snd (record_event i now t a st si et payload w))) = invitations (w_db w)"
  "refresh_tokens (w_db (snd (record_event i now t a st si et payload w))) = refresh_tokens (w_db w)"
  "tenants (w_db (snd (record_event i now t a st si et payload w))) = tenants (w_db w)"
  using record_event_effect [of i now t a st si et payload w] by auto

lemma then_do_record_event [simp]:
  "then_do (record_event i now t a st si et payload) f w = f () (snd (record_event i now t a st si et payload w))"
  using record_event_ok [of i now t a st si et payload w]
  by (cases "record_event i now t a st si et payload w") (simp add: then_do_def)

lemma update_role_write_rows:
  "memberships (w_db (snd (update_role_write aid now tenant actor target new_role current w))) =
     role_write (w_db w) tenant target new_role"
  by (cases "fst (db_update_membership_role tenant target new_role (w_db w))")
    (simp_all add: update_role_write_def db_run_def db_update_membership_role_def Let_def role_write_def
      then_do_simps split: prod.splits)

lemma remove_member_write_rows:
  "memberships (w_db (snd (remove_member_write aid now tenant actor target current w))) =
     delete_where (is_member_row tenant target) (memberships (w_db w))"
  by (simp add: remove_member_write_def then_do_def db_run_def db_delete_membership_def
      db_revoke_user_tenant_refresh_tokens_def revoke_where_def)

section \<open>The last owner\<close>

lemma count_update_one:
  assumes "distinct (map key t)" and "\<And>x. x \<in> set t \<Longrightarrow> P x \<Longrightarrow> key x = k"
  shows "count_where Q t \<le> Suc (count_where Q (update_where P f t))"
  using assms
proof (induction t)
  case Nil
  then show ?case by (simp add: count_where_def)
next
  case (Cons x t)
  show ?case
  proof (cases "P x")
    case True
    have "\<not> P y" if "y \<in> set t" for y
    proof
      assume "P y"
      then have "key y = key x" using Cons.prems(2) [of y] Cons.prems(2) [of x] True that by simp
      then show False using Cons.prems(1) that by (metis distinct.simps(2) imageI list.map(2) set_map)
    qed
    then have "update_where P f t = t" by (rule update_where_no_match)
    then show ?thesis by (simp add: count_where_def update_where_def)
  next
    case False
    then show ?thesis using Cons by (simp add: count_where_def update_where_def)
  qed
qed

lemma count_update_other:
  "(\<And>x. x \<in> set t \<Longrightarrow> P x \<Longrightarrow> \<not> Q x \<or> Q (f x)) \<Longrightarrow> count_where Q t \<le> count_where Q (update_where P f t)"
  by (induction t) (auto simp: count_where_def update_where_def le_SucI)

lemma count_delete_one:
  assumes "distinct (map key t)" and "\<And>x. x \<in> set t \<Longrightarrow> P x \<Longrightarrow> key x = k"
  shows "count_where Q t \<le> Suc (count_where Q (delete_where P t))"
  using assms
proof (induction t)
  case Nil
  then show ?case by (simp add: count_where_def)
next
  case (Cons x t)
  show ?case
  proof (cases "P x")
    case True
    have "\<not> P y" if "y \<in> set t" for y
    proof
      assume "P y"
      then have "key y = key x" using Cons.prems(2) [of y] Cons.prems(2) [of x] True that by simp
      then show False using Cons.prems(1) that by (metis distinct.simps(2) imageI list.map(2) set_map)
    qed
    then have "delete_where P t = t" by (simp add: delete_where_def filter_id_conv)
    then show ?thesis using True by (simp add: count_where_def delete_where_def)
  next
    case False
    then show ?thesis using Cons by (simp add: count_where_def delete_where_def)
  qed
qed

lemma count_delete_other:
  "(\<And>x. x \<in> set t \<Longrightarrow> P x \<Longrightarrow> \<not> Q x) \<Longrightarrow> count_where Q (delete_where P t) = count_where Q t"
  by (induction t) (auto simp: count_where_def delete_where_def)

lemma member_row_key:
  "is_member_row tenant user m \<Longrightarrow> (mb_tenant_id m, mb_user_id m) = (tenant, user)"
  by (simp add: is_member_row_def)

lemma member_row_unique:
  assumes "wf_members d" and "x \<in> set (memberships d)" "y \<in> set (memberships d)"
    and "is_member_row tenant user x" "is_member_row tenant user y"
  shows "x = y"
proof -
  have "inj_on (\<lambda>m. (mb_tenant_id m, mb_user_id m)) (set (memberships d))"
    using assms(1) by (simp add: wf_members_def distinct_map)
  then show ?thesis
    by (rule inj_onD) (use assms member_row_key in \<open>simp_all add: is_member_row_def\<close>)
qed

lemma role_write_wf: "wf_members d \<Longrightarrow> memberships d' = role_write d tenant target role \<Longrightarrow> wf_members d'"
  by (simp add: wf_members_def role_write_def map_key_update_where)

text \<open>The checks leave an owner to every tenant.\<close>

lemma update_role_keeps_owner:
  assumes wf: "wf_members (w_db w)" and own: "0 < db_count_tenant_owners t (w_db w)"
    and run: "svc_update_member_role aid now tenant actor_role actor target new_role w = (r, w')"
  shows "wf_members (w_db w') \<and> 0 < db_count_tenant_owners t (w_db w')"
proof (cases "update_role_check tenant actor_role target new_role w")
  case (Pair res v)
  then have v: "v = w" using update_role_check_snd [of tenant actor_role target new_role w] by simp
  show ?thesis
  proof (cases res)
    case (Inl e)
    then show ?thesis using Pair v run wf own by (auto simp: svc_update_member_role_def then_do_def)
  next
    case (Inr current)
    note ck = update_role_check_Inr [OF Pair [unfolded Inr]]
    have rows: "memberships (w_db w') = role_write (w_db w) tenant target new_role"
      using run Pair Inr v update_role_write_rows [of aid now tenant actor target new_role current w]
      by (simp add: svc_update_member_role_def then_do_def)
    let ?P = "\<lambda>m. is_member_row tenant target m \<and> user_exists (w_db w) target"
    from ck(2) obtain m where m: "m \<in> set (memberships (w_db w))" "is_member_row tenant target m"
      "mb_role m = role_str current" by blast
    have "0 < count_where (is_owner_of t) (role_write (w_db w) tenant target new_role)"
    proof (cases "t = tenant \<and> current = Owner \<and> new_role \<noteq> Owner")
      case True
      then have "1 < count_where (is_owner_of t) (memberships (w_db w))"
        using ck(4) by (simp add: db_count_tenant_owners_def)
      moreover have "count_where (is_owner_of t) (memberships (w_db w)) \<le>
          Suc (count_where (is_owner_of t) (role_write (w_db w) tenant target new_role))"
        unfolding role_write_def
        by (rule count_update_one [OF wf [unfolded wf_members_def]]) (use member_row_key in blast)
      ultimately show ?thesis by simp
    next
      case False
      have "count_where (is_owner_of t) (memberships (w_db w)) \<le>
          count_where (is_owner_of t) (role_write (w_db w) tenant target new_role)"
        unfolding role_write_def
      proof (rule count_update_other)
        fix x assume x: "x \<in> set (memberships (w_db w))" "?P x"
        then have "x = m" using member_row_unique [OF wf x(1) m(1) _ m(2)] by blast
        with False m(2,3) show "\<not> is_owner_of t x \<or> is_owner_of t (set_role (role_str new_role) x)"
          by (cases current; cases new_role) (auto simp: is_owner_of_def is_member_row_def)
      qed
      with own show ?thesis by (simp add: db_count_tenant_owners_def)
    qed
    then show ?thesis
      using role_write_wf [OF wf rows] by (simp add: db_count_tenant_owners_def rows)
  qed
qed

lemma remove_member_keeps_owner:
  assumes wf: "wf_members (w_db w)" and own: "0 < db_count_tenant_owners t (w_db w)"
    and run: "svc_remove_member aid now tenant actor_role actor target w = (r, w')"
  shows "wf_members (w_db w') \<and> 0 < db_count_tenant_owners t (w_db w')"
proof (cases "remove_member_check tenant actor_role target w")
  case (Pair res v)
  then have v: "v = w" using remove_member_check_snd [of tenant actor_role target w] by simp
  show ?thesis
  proof (cases res)
    case (Inl e)
    then show ?thesis using Pair v run wf own by (auto simp: svc_remove_member_def then_do_def)
  next
    case (Inr current)
    note ck = remove_member_check_Inr [OF Pair [unfolded Inr]]
    let ?ms = "delete_where (is_member_row tenant target) (memberships (w_db w))"
    have rows: "memberships (w_db w') = ?ms"
      using run Pair Inr v remove_member_write_rows [of aid now tenant actor target current w]
      by (simp add: svc_remove_member_def then_do_def)
    from ck(2) obtain m where m: "m \<in> set (memberships (w_db w))" "is_member_row tenant target m"
      "mb_role m = role_str current" by blast
    have "0 < count_where (is_owner_of t) ?ms"
    proof (cases "t = tenant \<and> current = Owner")
      case True
      then have "1 < count_where (is_owner_of t) (memberships (w_db w))"
        using ck(4) by (simp add: db_count_tenant_owners_def)
      moreover have "count_where (is_owner_of t) (memberships (w_db w)) \<le> Suc (count_where (is_owner_of t) ?ms)"
        by (rule count_delete_one [OF wf [unfolded wf_members_def]]) (use member_row_key in blast)
      ultimately show ?thesis by simp
    next
      case False
      have "count_where (is_owner_of t) ?ms = count_where (is_owner_of t) (memberships (w_db w))"
      proof (rule count_delete_other)
        fix x assume x: "x \<in> set (memberships (w_db w))" "is_member_row tenant target x"
        then have "x = m" using member_row_unique [OF wf x(1) m(1) _ m(2)] by blast
        with False m(2,3) show "\<not> is_owner_of t x"
          by (cases current) (auto simp: is_owner_of_def is_member_row_def)
      qed
      with own show ?thesis by (simp add: db_count_tenant_owners_def)
    qed
    then show ?thesis
      using wf by (simp add: db_count_tenant_owners_def rows wf_members_def distinct_map_delete_where)
  qed
qed

text \<open>The other operations only ever add memberships.\<close>

lemma add_member_keeps_owner:
  assumes "memberships d' = memberships d \<or> (\<exists>m. memberships d' = memberships d @ [m] \<and>
      (mb_tenant_id m, mb_user_id m) \<notin> (\<lambda>m. (mb_tenant_id m, mb_user_id m)) ` set (memberships d))"
    and "wf_members d" and "0 < db_count_tenant_owners t d"
  shows "wf_members d' \<and> 0 < db_count_tenant_owners t d'"
  using assms by (auto simp: wf_members_def db_count_tenant_owners_def image_iff)

lemma db_accept_invitation_Inr:
  assumes "db_accept_invitation now tenant h user email d = Inr (m, d')"
  obtains v where "v \<in> set (invitations d)" "iv_tenant_id v = tenant" "iv_token_hash v = h"
    "unanswered v" "now < iv_expires_at v" "eq_ignore_ascii_case (iv_email v) email"
    "invitations d' = update_where (\<lambda>v. iv_tenant_id v = tenant \<and> iv_token_hash v = h \<and> unanswered v \<and>
       now < iv_expires_at v) (\<lambda>v. v\<lparr>iv_accepted_at := Some now\<rparr>) (invitations d)"
    "memberships d' = memberships d @
       [\<lparr>mb_tenant_id = tenant, mb_user_id = user, mb_role = iv_role v, mb_created_at = now\<rparr>]"
    "(tenant, user) \<notin> (\<lambda>m. (mb_tenant_id m, mb_user_id m)) ` set (memberships d)"
    "mr_role m = iv_role v" "mr_user_id m = user" "mr_tenant_id m = tenant"
    "users d' = users d" "tenants d' = tenants d"
  using assms
  by (auto simp: db_accept_invitation_def Let_def try_then_Inr insert_row_Inr split: if_splits
      dest!: update_returning_InrD)

lemma svc_accept_rows:
  assumes "svc_accept_invitation e aid now tenant user token w = (r, w')"
  shows "memberships (w_db w') = memberships (w_db w) \<and> invitations (w_db w') = invitations (w_db w) \<and> (\<exists>err. r = Inl err) \<or>
    (\<exists>u m d. r = Inr m \<and> db_get_user_by_id user (w_db w) = Inr u \<and>
       db_accept_invitation now tenant (sha256_hex e token) (us_id u) (us_email u) (w_db w) = Inr (m, d) \<and>
       memberships (w_db w') = memberships d \<and> invitations (w_db w') = invitations d \<and>
       users (w_db w') = users d \<and> tenants (w_db w') = tenants d)"
proof (cases "db_get_user_by_id user (w_db w)")
  case (Inl err)
  with assms show ?thesis by (auto simp: svc_accept_invitation_def then_do_def)
next
  case (Inr u)
  show ?thesis
  proof (cases "db_accept_invitation now tenant (sha256_hex e token) (us_id u) (us_email u) (w_db w)")
    case (Inl err)
    with assms Inr \<open>db_get_user_by_id user (w_db w) = Inr u\<close> show ?thesis
      by (auto simp: svc_accept_invitation_def then_do_def db_run_def)
  next
    case (Inr y)
    obtain m d where y: "y = (m, d)" by (cases y)
    have "then_do (db_try (db_get_user_by_id user)) f w = f u w" for f :: "user_record \<Rightarrow> membership_record app"
      using \<open>db_get_user_by_id user (w_db w) = Inr u\<close> by simp
    with assms Inr y have "(r, w') = (Inr m, snd (record_event aid now (Some tenant) (Some user) ''membership''
        (Some user) ''invitation.accepted'' (JObject [(''role'', JString (mr_role m))]) (w\<lparr>w_db := d\<rparr>)))"
      by (simp add: svc_accept_invitation_def)
    with Inr y \<open>db_get_user_by_id user (w_db w) = Inr u\<close> show ?thesis by auto
  qed
qed

inductive member_step :: "env \<Rightarrow> world \<Rightarrow> world \<Rightarrow> bool" for e where
  invite: "member_step e w (snd (svc_create_invitation e i nid aid token now tenant actor_role actor email role w))"
| revoke: "member_step e w (snd (svc_revoke_invitation aid now tenant actor i w))"
| accept: "member_step e w (snd (svc_accept_invitation e aid now tenant user token w))"
| change_role: "member_step e w (snd (svc_update_member_role aid now tenant actor_role actor target new_role w))"
| remove: "member_step e w (snd (svc_remove_member aid now tenant actor_role actor target w))"
| sign_up: "member_step e w (snd (db_run (db_create_user_with_tenant uid tid now email h name) w))"

inductive_cases member_stepE: "member_step e w w'"

lemma then_do_logged [simp]: "then_do (logged m) f w = f () (snd (m w))"
  by (simp add: then_do_def logged_eq)

lemma enqueue_same [simp]:
  "memberships (w_db (snd (db_run (db_enqueue_notification nid now n k) w))) = memberships (w_db w)"
  "invitations (w_db (snd (db_run (db_enqueue_notification nid now n k) w))) = invitations (w_db w)"
  "users (w_db (snd (db_run (db_enqueue_notification nid now n k) w))) = users (w_db w)"
  "tenants (w_db (snd (db_run (db_enqueue_notification nid now n k) w))) = tenants (w_db w)"
  "user_tokens (w_db (snd (db_run (db_enqueue_notification nid now n k) w))) = user_tokens (w_db w)"
  using enqueue_frame [of nid now n k w] by auto

lemma svc_create_invitation_cases:
  assumes run: "svc_create_invitation e i nid aid token now tenant actor_role actor email role w = (r, w')"
  shows "(\<exists>err. r = Inl err \<and> w' = w) \<or>
    (\<exists>v d ttl. r = Inr \<lparr>ci_invitation = v, ci_token = token\<rparr> \<and> invite_role_check actor_role role = Inr () \<and>
       db_create_invitation i now tenant email (role_str role) (sha256_hex e token) (now + ttl) actor
         (w_db w) = Inr (v, d) \<and> chrono_from_std (invitation_ttl (cfg e)) ''invalid invitation ttl'' = Inr ttl \<and>
       memberships (w_db w') = memberships (w_db w) \<and> invitations (w_db w') = invitations d \<and>
       users (w_db w') = users (w_db w) \<and> tenants (w_db w') = tenants (w_db w))"
proof -
  let ?check = "invite_role_check actor_role role"
  let ?mem = "case db_get_user_by_email email (w_db w) of None \<Rightarrow> False
      | Some u \<Rightarrow> db_get_membership (us_id u) tenant (w_db w) \<noteq> None"
  let ?ttl = "chrono_from_std (invitation_ttl (cfg e)) ''invalid invitation ttl''"
  show ?thesis
  proof (cases ?check)
    case (Inl err)
    with run show ?thesis by (auto simp: svc_create_invitation_def then_do_def)
  next
    case (Inr u)
    then have ck: "?check = Inr ()" by simp
    show ?thesis
    proof (cases ?mem)
      case True
      with run ck show ?thesis by (simp add: svc_create_invitation_def) (auto simp: then_do_def)
    next
      case False
      show ?thesis
      proof (cases ?ttl)
        case (Inl err)
        with run ck False show ?thesis by (simp add: svc_create_invitation_def) (auto simp: then_do_def)
      next
        case (Inr ttl)
        let ?db = "db_create_invitation i now tenant email (role_str role) (sha256_hex e token) (now + ttl) actor"
        show ?thesis
        proof (cases "?db (w_db w)")
          case (Inl err)
          with run ck False \<open>?ttl = Inr ttl\<close> show ?thesis
            by (simp add: svc_create_invitation_def) (auto simp: then_do_def db_run_def map_err_def)
        next
          case (Inr y)
          obtain v d where y: "y = (v, d)" by (cases y)
          have d: "memberships d = memberships (w_db w)" "users d = users (w_db w)" "tenants d = tenants (w_db w)"
            using Inr y by (auto simp: db_create_invitation_def Let_def try_then_Inr split: if_splits)
          have "then_do (\<lambda>w. map_prod (map_err invitation_conflict) id (db_run ?db w)) f w = f v (w\<lparr>w_db := d\<rparr>)"
            for f :: "invitation_record \<Rightarrow> created_invitation app"
            using Inr y by (simp add: then_do_def db_run_def map_err_def)
          with run ck False \<open>?ttl = Inr ttl\<close> have "r = Inr \<lparr>ci_invitation = v, ci_token = token\<rparr> \<and>
              memberships (w_db w') = memberships d \<and> invitations (w_db w') = invitations d \<and>
              users (w_db w') = users d \<and> tenants (w_db w') = tenants d"
            by (simp add: svc_create_invitation_def) auto
          with Inr y ck d \<open>?ttl = Inr ttl\<close> show ?thesis by auto
        qed
      qed
    qed
  qed
qed

lemma invite_rows: "memberships (w_db (snd (svc_create_invitation e i nid aid token now tenant actor_role
    actor email role w))) = memberships (w_db w)"
  using svc_create_invitation_cases [OF prod.collapse [symmetric],
      of e i nid aid token now tenant actor_role actor email role w] by auto

lemma revoke_rows: "memberships (w_db (snd (svc_revoke_invitation aid now tenant actor i w))) = memberships (w_db w)"
  by (auto simp: svc_revoke_invitation_def then_do_def db_run_def db_revoke_invitation_def Let_def
      split: if_splits)

lemma sign_up_rows:
  "memberships (w_db (snd (db_run (db_create_user_with_tenant uid tid now email h name) w))) = memberships (w_db w) \<or>
   (\<exists>m. memberships (w_db (snd (db_run (db_create_user_with_tenant uid tid now email h name) w))) = memberships (w_db w) @ [m] \<and>
      (mb_tenant_id m, mb_user_id m) \<notin> (\<lambda>m. (mb_tenant_id m, mb_user_id m)) ` set (memberships (w_db w)))"
proof (cases "db_create_user_with_tenant uid tid now email h name (w_db w)")
  case (Inl err)
  then show ?thesis by (simp add: db_run_def)
next
  case (Inr y)
  obtain x d where y: "y = (x, d)" by (cases y)
  from Inr y have "\<exists>m. memberships d = memberships (w_db w) @ [m] \<and>
      (mb_tenant_id m, mb_user_id m) \<notin> (\<lambda>m. (mb_tenant_id m, mb_user_id m)) ` set (memberships (w_db w))"
    by (auto simp: db_create_user_with_tenant_def Let_def try_then_Inr insert_row_Inr)
  with Inr y show ?thesis by (simp add: db_run_def)
qed

lemma accept_rows:
  "memberships (w_db (snd (svc_accept_invitation e aid now tenant user token w))) = memberships (w_db w) \<or>
   (\<exists>m. memberships (w_db (snd (svc_accept_invitation e aid now tenant user token w))) = memberships (w_db w) @ [m] \<and>
      (mb_tenant_id m, mb_user_id m) \<notin> (\<lambda>m. (mb_tenant_id m, mb_user_id m)) ` set (memberships (w_db w)))"
  using svc_accept_rows [OF prod.collapse [symmetric], of e aid now tenant user token w]
proof (elim disjE conjE exE)
  fix u m d
  assume a: "db_accept_invitation now tenant (sha256_hex e token) (us_id u) (us_email u) (w_db w) = Inr (m, d)"
    and rows: "memberships (w_db (snd (svc_accept_invitation e aid now tenant user token w))) = memberships d"
  from a show ?thesis by (rule db_accept_invitation_Inr) (simp add: rows)
qed simp

text \<open>C4. As long as the operations on members and invitations run one after the other, whoever calls
  them with whatever arguments and however each ends, a tenant that has an owner keeps at least one.\<close>

theorem last_owner_kept:
  assumes "wf_members (w_db w)" and "0 < db_count_tenant_owners t (w_db w)" and "(member_step e)\<^sup>*\<^sup>* w w'"
  shows "0 < db_count_tenant_owners t (w_db w')"
proof -
  from assms(3) have "wf_members (w_db w') \<and> 0 < db_count_tenant_owners t (w_db w')"
  proof (induction rule: rtranclp_induct)
    case base
    show ?case using assms(1,2) by simp
  next
    case (step y z)
    note ih = step.IH [THEN conjunct1] step.IH [THEN conjunct2]
    from step.hyps(2) show ?case
    proof (cases rule: member_step.cases)
      case invite
      then show ?thesis using ih by (auto intro!: add_member_keeps_owner [OF _ ih] simp: invite_rows)
    next
      case revoke
      then show ?thesis by (auto intro!: add_member_keeps_owner [OF _ ih] simp: revoke_rows)
    next
      case accept
      then show ?thesis by (simp only:) (rule add_member_keeps_owner [OF accept_rows ih])
    next
      case change_role
      then show ?thesis using update_role_keeps_owner [OF ih prod.collapse [symmetric]] by simp
    next
      case remove
      then show ?thesis using remove_member_keeps_owner [OF ih prod.collapse [symmetric]] by simp
    next
      case sign_up
      then show ?thesis by (simp only:) (rule add_member_keeps_owner [OF sign_up_rows ih])
    qed
  qed
  then show ?thesis by simp
qed

section \<open>A concrete tenant\<close>

definition demo_member :: "uuid \<Rightarrow> string \<Rightarrow> membership_row" where
  "demo_member u role = \<lparr>mb_tenant_id = 5, mb_user_id = u, mb_role = role, mb_created_at = 0\<rparr>"

definition demo_invitation :: invitation_record where
  "demo_invitation = \<lparr>iv_id = 30, iv_tenant_id = 5, iv_email = ''c@b.c'', iv_role = ''admin'',
     iv_token_hash = ''tok'', iv_expires_at = 100, iv_accepted_at = None, iv_revoked_at = None,
     iv_created_by = 1, iv_created_at = 0\<rparr>"

definition demo_members_world :: world where
  "demo_members_world = demo_world\<lparr>w_db := demo_db\<lparr>
     users := [demo_user, demo_user\<lparr>us_id := 2, us_email := ''b@b.c''\<rparr>,
               demo_user\<lparr>us_id := 3, us_email := ''C@b.c''\<rparr>],
     memberships := [demo_member 1 ''owner'', demo_member 2 ''owner''],
     invitations := [demo_invitation]\<rparr>\<rparr>"

lemmas demo_members_simps = demo_members_world_def demo_world_def demo_simps demo_member_def
  demo_invitation_def

lemma demo_members_wf: "wf_members (w_db demo_members_world)"
  by (simp add: wf_members_def demo_members_simps)

theorem last_owner_kept_witness:
  "0 < db_count_tenant_owners 5 (w_db (snd (svc_remove_member 91 8 5 Owner 2 2
     (snd (svc_update_member_role 90 7 5 Owner 1 1 Member demo_members_world)))))"
proof (rule last_owner_kept [OF demo_members_wf])
  show "0 < db_count_tenant_owners 5 (w_db demo_members_world)"
    by (simp add: db_count_tenant_owners_def count_where_def is_owner_of_def demo_members_simps)
  let ?w = "snd (svc_update_member_role 90 7 5 Owner 1 1 Member demo_members_world)"
  show "(member_step sample_env)\<^sup>*\<^sup>* demo_members_world (snd (svc_remove_member 91 8 5 Owner 2 2 ?w))"
    by (rule rtranclp.rtrancl_into_rtrancl [OF r_into_rtranclp])
      (rule member_step.change_role member_step.remove)+
qed

section \<open>Two role changes at once\<close>

text \<open>
  Without the order that \<open>last_owner_kept\<close> supposes: two owners demote each other in two
  concurrent requests. Both count two owners before either writes, and the tenant is left with none.
\<close>

lemma update_role_write_ran:
  assumes "snd (update_role_write aid now tenant actor target new_role current w) = v"
  shows "memberships (w_db v) = role_write (w_db w) tenant target new_role \<and> users (w_db v) = users (w_db w)"
  unfolding assms [symmetric]
  by (cases "fst (db_update_membership_role tenant target new_role (w_db w))")
    (simp_all add: update_role_write_def db_run_def db_update_membership_role_def Let_def role_write_def
      then_do_simps split: prod.splits)

lemma concurrent_demotions_leave_no_owner:
  obtains w1 w2 where
    "update_role_check 5 Owner 2 Member demo_members_world = (Inr Owner, demo_members_world)"
    "update_role_check 5 Owner 1 Member demo_members_world = (Inr Owner, demo_members_world)"
    "w1 = snd (update_role_write 90 7 5 1 2 Member Owner demo_members_world)"
    "w2 = snd (update_role_write 91 7 5 2 1 Member Owner w1)"
    "db_count_tenant_owners 5 (w_db w2) = 0"
proof -
  let ?w = demo_members_world
  define w1 where "w1 = snd (update_role_write 90 7 5 1 2 Member Owner ?w)"
  define w2 where "w2 = snd (update_role_write 91 7 5 2 1 Member Owner w1)"
  have owner: "role_from_str ''owner'' = Inr Owner" using role_enum.parse_as_str [of Owner] by simp
  note check = update_role_check_def member_role_of_def then_do_def db_get_tenant_member_def
    select_where_def is_member_row_def join_user_def owner is_admin_role_def db_count_tenant_owners_def
    count_where_def is_owner_of_def demo_members_simps
  have "update_role_check 5 Owner 2 Member ?w = (Inr Owner, ?w)" by (simp add: check)
  moreover have "update_role_check 5 Owner 1 Member ?w = (Inr Owner, ?w)" by (simp add: check)
  moreover note w1_def w2_def
  moreover have "db_count_tenant_owners 5 (w_db w2) = 0"
    using update_role_write_ran [OF w1_def [symmetric]] update_role_write_ran [OF w2_def [symmetric]]
    by (simp add: role_write_def user_exists_def row_exists_def db_count_tenant_owners_def count_where_def
        is_owner_of_def update_where_def is_member_row_def demo_members_simps)
  ultimately show ?thesis by (rule that)
qed

section \<open>Privileges\<close>

definition is_privileged_row :: "membership_row \<Rightarrow> bool" where
  "is_privileged_row m \<longleftrightarrow> mb_role m \<noteq> ''member''"

text \<open>The three calls of a caller who is not an owner.\<close>

lemma update_role_by_admin:
  assumes wf: "wf_members (w_db w)" and actor: "actor_role \<noteq> Owner"
  shows "memberships (w_db (snd (svc_update_member_role aid now tenant actor_role actor target new_role w))) =
    memberships (w_db w)"
proof (cases "update_role_check tenant actor_role target new_role w")
  case (Pair res v)
  then have v: "v = w" using update_role_check_snd [of tenant actor_role target new_role w] by simp
  show ?thesis
  proof (cases res)
    case (Inl err)
    with Pair v show ?thesis by (simp add: svc_update_member_role_def then_do_def)
  next
    case (Inr current)
    note ck = update_role_check_Inr [OF Pair [unfolded Inr]]
    have roles: "current = Member" "new_role = Member" using ck(3) [OF actor] by simp_all
    from ck(2) obtain m where m: "m \<in> set (memberships (w_db w))" "is_member_row tenant target m"
      "mb_role m = ''member''" using roles by auto
    have "set_role ''member'' x = x" if "x \<in> set (memberships (w_db w))" "is_member_row tenant target x" for x
      using member_row_unique [OF wf that(1) m(1) that(2) m(2)] m(3) by (simp add: set_role_def)
    then have "role_write (w_db w) tenant target Member = memberships (w_db w)"
      by (auto simp: role_write_def update_where_def intro: map_idI)
    with Pair Inr v roles show ?thesis
      by (simp add: svc_update_member_role_def then_do_def update_role_write_rows)
  qed
qed

lemma remove_member_by_admin:
  assumes wf: "wf_members (w_db w)" and actor: "actor_role \<noteq> Owner"
  shows "filter is_privileged_row (memberships (w_db (snd (svc_remove_member aid now tenant actor_role actor target w)))) =
    filter is_privileged_row (memberships (w_db w))"
proof (cases "remove_member_check tenant actor_role target w")
  case (Pair res v)
  then have v: "v = w" using remove_member_check_snd [of tenant actor_role target w] by simp
  show ?thesis
  proof (cases res)
    case (Inl err)
    with Pair v show ?thesis by (simp add: svc_remove_member_def then_do_def)
  next
    case (Inr current)
    note ck = remove_member_check_Inr [OF Pair [unfolded Inr]]
    from ck(2) ck(3) [OF actor] obtain m where m: "m \<in> set (memberships (w_db w))"
      "is_member_row tenant target m" "mb_role m = ''member''" by auto
    have "\<not> is_privileged_row x" if "x \<in> set (memberships (w_db w))" "is_member_row tenant target x" for x
      using member_row_unique [OF wf that(1) m(1) that(2) m(2)] m(3) by (simp add: is_privileged_row_def)
    then have "filter is_privileged_row (delete_where (is_member_row tenant target) (memberships (w_db w))) =
        filter is_privileged_row (memberships (w_db w))"
      by (auto simp: delete_where_def filter_filter intro: filter_cong)
    with Pair Inr v show ?thesis by (simp add: svc_remove_member_def then_do_def remove_member_write_rows)
  qed
qed

lemma invite_by_admin:
  assumes "actor_role \<noteq> Owner"
    and "svc_create_invitation e i nid aid token now tenant actor_role actor email role w = (Inr c, w')"
  shows "iv_role (ci_invitation c) = ''member''"
  using svc_create_invitation_cases [OF assms(2)] assms(1)
  by (cases role) (auto simp: invite_role_check_def db_create_invitation_def Let_def try_then_Inr split: if_splits)

text \<open>C16. Only an owner changes who the owners and the admins of a tenant are: whatever an admin
  or a member asks for, changing a role leaves every membership row as it was, removing a member
  leaves every owner and admin row, and an invitation it creates is for the role of a member.\<close>

theorem privileges_need_owner:
  assumes wf: "wf_members (w_db w)" and actor: "actor_role \<noteq> Owner"
  shows "memberships (w_db (snd (svc_update_member_role aid now tenant actor_role actor target new_role w))) =
      memberships (w_db w) \<and>
    filter is_privileged_row (memberships (w_db (snd (svc_remove_member aid now tenant actor_role actor target w)))) =
      filter is_privileged_row (memberships (w_db w)) \<and>
    (\<forall>c w'. svc_create_invitation e i nid aid token now tenant actor_role actor email role w = (Inr c, w') \<longrightarrow>
      iv_role (ci_invitation c) = ''member'')"
  by (intro conjI allI impI update_role_by_admin [OF assms] remove_member_by_admin [OF assms] invite_by_admin [OF actor])

theorem privileges_need_owner_witness:
  "memberships (w_db (snd (svc_update_member_role 90 7 5 Admin 3 2 Member demo_members_world))) =
     memberships (w_db demo_members_world) \<and>
   filter is_privileged_row (memberships (w_db (snd (svc_remove_member 90 7 5 Admin 3 2 demo_members_world)))) =
     filter is_privileged_row (memberships (w_db demo_members_world))"
  using privileges_need_owner [OF demo_members_wf, of Admin 90 7 5 3 2 Member] by simp

section \<open>Invitations\<close>

text \<open>An accepted invitation is not accepted again: its token names no other, and it has its answer.\<close>

lemma accepted_is_answered:
  assumes keys: "distinct (map iv_token_hash vs)" and v: "v \<in> set vs" "iv_tenant_id v = tenant" "iv_token_hash v = h"
      "unanswered v" "now < iv_expires_at v"
    and x: "x \<in> set (update_where (\<lambda>v. iv_tenant_id v = tenant \<and> iv_token_hash v = h \<and> unanswered v \<and>
        now < iv_expires_at v) (\<lambda>v. v\<lparr>iv_accepted_at := Some now\<rparr>) vs)" "iv_token_hash x = h"
  shows "\<not> unanswered x"
proof -
  from x(1) consider "x \<in> set vs" "\<not> (iv_tenant_id x = tenant \<and> iv_token_hash x = h \<and> unanswered x \<and> now < iv_expires_at x)"
    | y where "x = y\<lparr>iv_accepted_at := Some now\<rparr>"
    by (auto simp: in_update_where)
  then show ?thesis
  proof cases
    case 1
    have "x = v" by (rule key_unique [OF keys 1(1) v(1)]) (simp add: x(2) v(3))
    with 1 v show ?thesis by blast
  qed (simp add: unanswered_def)
qed

lemma answered_token_refused:
  assumes "\<And>x. x \<in> set (invitations (w_db w)) \<Longrightarrow> iv_token_hash x = sha256_hex e token \<Longrightarrow> \<not> unanswered x"
  shows "\<exists>err. fst (svc_accept_invitation e aid now tenant user token w) = Inl err"
proof (cases "fst (svc_accept_invitation e aid now tenant user token w)")
  case (Inr m)
  then have "svc_accept_invitation e aid now tenant user token w =
      (Inr m, snd (svc_accept_invitation e aid now tenant user token w))" by (metis prod.collapse)
  from svc_accept_rows [OF this] obtain u :: user_record and d m' where
    "db_accept_invitation now tenant (sha256_hex e token) (us_id u) (us_email u) (w_db w) = Inr (m', d)" by blast
  then show ?thesis by (rule db_accept_invitation_Inr) (use assms in blast)
qed simp

text \<open>C17. Accepting an invitation succeeds only for an invitation of that tenant that is neither
  answered nor expired, whose hash is the hash of the token presented and whose e-mail address is
  the caller's up to the case of its letters; it then adds one membership, the caller's, with the
  role of the invitation, and the same token is refused to everybody at any later time. A call that
  fails changes neither the invitations nor the memberships.\<close>

theorem accept_invitation_exact:
  assumes run: "svc_accept_invitation e aid now tenant user token w = (r, w')"
    and keys: "distinct (map iv_token_hash (invitations (w_db w)))"
  shows "case r of
      Inl err \<Rightarrow> memberships (w_db w') = memberships (w_db w) \<and> invitations (w_db w') = invitations (w_db w)
    | Inr m \<Rightarrow> \<exists>v u. v \<in> set (invitations (w_db w)) \<and> iv_tenant_id v = tenant \<and>
        iv_token_hash v = sha256_hex e token \<and> unanswered v \<and> now < iv_expires_at v \<and>
        db_get_user_by_id user (w_db w) = Inr u \<and> eq_ignore_ascii_case (iv_email v) (us_email u) \<and>
        memberships (w_db w') = memberships (w_db w) @
          [\<lparr>mb_tenant_id = tenant, mb_user_id = user, mb_role = iv_role v, mb_created_at = now\<rparr>] \<and>
        (\<forall>aid' now' user'. \<exists>err. fst (svc_accept_invitation e aid' now' tenant user' token w') = Inl err)"
  using svc_accept_rows [OF run]
proof (elim disjE conjE exE)
  fix err assume "r = Inl err" "memberships (w_db w') = memberships (w_db w)"
    "invitations (w_db w') = invitations (w_db w)"
  then show ?thesis by simp
next
  fix u m d
  assume r: "r = Inr m" and u: "db_get_user_by_id user (w_db w) = Inr u"
    and acc: "db_accept_invitation now tenant (sha256_hex e token) (us_id u) (us_email u) (w_db w) = Inr (m, d)"
    and w': "memberships (w_db w') = memberships d" "invitations (w_db w') = invitations d"
  have uid: "us_id u = user"
    using u by (auto simp: db_get_user_by_id_def dest!: fetch_optional_SomeD)
  from acc show ?thesis
  proof (rule db_accept_invitation_Inr)
    fix v
    assume v: "v \<in> set (invitations (w_db w))" "iv_tenant_id v = tenant" "iv_token_hash v = sha256_hex e token"
      "unanswered v" "now < iv_expires_at v" "eq_ignore_ascii_case (iv_email v) (us_email u)"
      and ivs: "invitations d = update_where (\<lambda>v. iv_tenant_id v = tenant \<and> iv_token_hash v = sha256_hex e token \<and>
        unanswered v \<and> now < iv_expires_at v) (\<lambda>v. v\<lparr>iv_accepted_at := Some now\<rparr>) (invitations (w_db w))"
      and ms: "memberships d = memberships (w_db w) @
        [\<lparr>mb_tenant_id = tenant, mb_user_id = us_id u, mb_role = iv_role v, mb_created_at = now\<rparr>]"
    have "\<not> unanswered x" if "x \<in> set (invitations (w_db w'))" "iv_token_hash x = sha256_hex e token" for x
      using accepted_is_answered [OF keys v(1-5)] that unfolding w'(2) ivs by blast
    then have "\<exists>err. fst (svc_accept_invitation e aid' now' tenant user' token w') = Inl err" for aid' now' user'
      by (rule answered_token_refused)
    then show ?thesis using r v u ms w' uid by auto
  qed
qed

theorem accept_invitation_exact_witness:
  "\<exists>w'. svc_accept_invitation sample_env 90 50 5 3 ''tok'' demo_members_world =
      (Inr \<lparr>mr_tenant_id = 5, mr_tenant_name = ''T'', mr_user_id = 3, mr_role = ''admin'', mr_created_at = 50\<rparr>, w') \<and>
    memberships (w_db w') = [demo_member 1 ''owner'', demo_member 2 ''owner'',
      (demo_member 3 ''admin'')\<lparr>mb_created_at := 50\<rparr>]"
proof -
  let ?m = "\<lparr>mr_tenant_id = 5, mr_tenant_name = ''T'', mr_user_id = 3, mr_role = ''admin'', mr_created_at = 50\<rparr>"
  have same: "eq_ignore_ascii_case ''c@b.c'' ''C@b.c''" by code_simp
  have hash: "sha256_hex sample_env ''tok'' = ''tok''" by (simp add: sample_env_def)
  have "\<exists>d. db_accept_invitation 50 5 ''tok'' 3 ''C@b.c'' (w_db demo_members_world) = Inr (?m, d)"
    by (simp add: demo_members_simps db_accept_invitation_def update_returning_def returning_def same
        unanswered_def insert_row_def row_exists_def tenant_exists_def user_exists_def fetch_optional_def Let_def)
  then obtain d where acc: "db_accept_invitation 50 5 ''tok'' 3 ''C@b.c'' (w_db demo_members_world) = Inr (?m, d)" ..
  have user: "db_get_user_by_id 3 (w_db demo_members_world) = Inr (demo_user\<lparr>us_id := 3, us_email := ''C@b.c''\<rparr>)"
    by (simp add: db_get_user_by_id_def fetch_optional_def demo_members_simps)
  have "fst (svc_accept_invitation sample_env 90 50 5 3 ''tok'' demo_members_world) = Inr ?m"
    using acc by (simp add: svc_accept_invitation_def user hash)
  then obtain w' where run: "svc_accept_invitation sample_env 90 50 5 3 ''tok'' demo_members_world = (Inr ?m, w')"
    by (metis prod.collapse)
  have "distinct (map iv_token_hash (invitations (w_db demo_members_world)))"
    by (simp add: demo_members_simps)
  from accept_invitation_exact [OF run this] run show ?thesis
    by (auto simp: demo_members_simps)
qed

text \<open>
  An invitation that expired unanswered is not in the list of pending invitations, yet it keeps its
  address from being invited again: the unique index does not look at the expiry.
\<close>

lemma expired_invitation_blocks:
  assumes v: "v \<in> set (invitations d)" "unanswered v" "iv_tenant_id v = tenant" "iv_email v = email"
    and expired: "iv_expires_at v \<le> now" and fresh: "i \<notin> iv_id ` set (invitations d)"
    "h \<notin> iv_token_hash ` set (invitations d)" and role: "role = ''admin'' \<or> role = ''member''"
  shows "v \<notin> set (db_list_pending_invitations now tenant d) \<and>
    db_create_invitation i now tenant email role h x actor d = Inl (from_sqlx UniqueViolation)"
proof -
  have "row_exists (\<lambda>v. unanswered v \<and> iv_tenant_id v = tenant \<and> iv_email v = email) (invitations d)"
    using v by (auto simp: row_exists_iff)
  then show ?thesis
    using expired role fresh by (auto simp: db_list_pending_invitations_def select_where_def
        db_create_invitation_def Let_def insert_row_fresh require_check_def)
qed

end
