(* ===== verification/Auth.thy ===== *)
theory Auth
  imports Memberships
begin

text \<open>
  \<open>src/auth.rs\<close>: password hashes and signed tokens. Argon2 is a pair of functions of the
  environment; the \<open>jsonwebtoken\<close> crate is the record \<open>jwt\<close> of its two functions, with the laws
  \<open>jwt_ok\<close>: a token decodes to the claims it was made from until sixty seconds (the default
  \<open>leeway\<close> of \<open>Validation::new\<close>) after its expiry, and to nothing else at any time.
\<close>

section \<open>Passwords\<close>

definition hash_password :: "env \<Rightarrow> string \<Rightarrow> string \<Rightarrow> string result" where
  "hash_password e salt password =
     ok_or (argon2_hash e salt password) (Internal ''failed to hash password'')"

definition verify_password :: "env \<Rightarrow> string \<Rightarrow> string \<Rightarrow> unit result" where
  "verify_password e password password_hash =
     try_then (ok_or (argon2_verify e password_hash password) (Unauthorized ''invalid password hash'')) (\<lambda>matches.
     ensure matches (Unauthorized ''invalid credentials''))"

lemma verify_password_Inr [simp]: "verify_password e p h = Inr u \<longleftrightarrow> argon2_verify e h p = Some True"
  by (auto simp: verify_password_def try_then_Inr)

text \<open>Verifying a password against its own hash succeeds, as the crate documents.\<close>

definition argon2_ok :: "env \<Rightarrow> bool" where
  "argon2_ok e \<longleftrightarrow> (\<forall>salt p q h. argon2_hash e salt p = Some h \<longrightarrow> argon2_verify e h q = Some (p = q))"

section \<open>Claims\<close>

record token_claims =
  tc_sub :: string
  tc_tenant_id :: string
  tc_role :: string
  tc_token_type :: string
  tc_jti :: string
  tc_iat :: int
  tc_exp :: int

record token_pair =
  tp_access_token :: string
  tp_refresh_token :: string
  tp_expires_in_seconds :: nat

record jwt =
  jwt_encode :: "string \<Rightarrow> token_claims \<Rightarrow> string option"
  jwt_decode :: "string \<Rightarrow> int \<Rightarrow> string \<Rightarrow> token_claims option"

definition jwt_leeway :: int where "jwt_leeway = 60"

definition jwt_ok :: "jwt \<Rightarrow> bool" where
  "jwt_ok j \<longleftrightarrow>
     (\<forall>key c s now. jwt_encode j key c = Some s \<longrightarrow>
        jwt_decode j key now s = (if tc_exp c < now - jwt_leeway then None else Some c)) \<and>
     (\<forall>key s now later c c2. jwt_decode j key now s = Some c \<longrightarrow> jwt_decode j key later s = Some c2 \<longrightarrow> c = c2)"

definition encode_token :: "jwt \<Rightarrow> env \<Rightarrow> token_claims \<Rightarrow> string result" where
  "encode_token j e claims = ok_or (jwt_encode j (jwt_secret (cfg e)) claims) (Unauthorized ''token error'')"

text \<open>\<open>access_jti\<close> is the fresh identifier of the access token.\<close>

definition issue_token_pair ::
  "jwt \<Rightarrow> env \<Rightarrow> uuid \<Rightarrow> time \<Rightarrow> user_record \<Rightarrow> membership_record \<Rightarrow> uuid \<Rightarrow> token_pair result" where
  "issue_token_pair j e access_jti now user membership refresh_token_id =
     try_then (chrono_from_std (access_token_ttl (cfg e)) ''invalid access token ttl'') (\<lambda>access_ttl.
     try_then (chrono_from_std (refresh_token_ttl (cfg e)) ''invalid refresh token ttl'') (\<lambda>refresh_ttl.
     let access_claims = \<lparr>tc_sub = uuid_str e (us_id user), tc_tenant_id = uuid_str e (mr_tenant_id membership),
           tc_role = mr_role membership, tc_token_type = ''access'', tc_jti = uuid_str e access_jti,
           tc_iat = timestamp now, tc_exp = timestamp (now + access_ttl)\<rparr>;
         refresh_claims = \<lparr>tc_sub = uuid_str e (us_id user), tc_tenant_id = uuid_str e (mr_tenant_id membership),
           tc_role = mr_role membership, tc_token_type = ''refresh'', tc_jti = uuid_str e refresh_token_id,
           tc_iat = timestamp now, tc_exp = timestamp (now + refresh_ttl)\<rparr>
     in
       try_then (encode_token j e access_claims) (\<lambda>access_token.
       try_then (encode_token j e refresh_claims) (\<lambda>refresh_token.
       Inr \<lparr>tp_access_token = access_token, tp_refresh_token = refresh_token,
            tp_expires_in_seconds = access_token_ttl (cfg e)\<rparr>))))"

definition decode_token :: "jwt \<Rightarrow> env \<Rightarrow> time \<Rightarrow> string \<Rightarrow> string \<Rightarrow> token_claims result" where
  "decode_token j e now expected_type token =
     try_then (ok_or (jwt_decode j (jwt_secret (cfg e)) (timestamp now) token) (Unauthorized ''token error'')) (\<lambda>claims.
     if tc_token_type claims \<noteq> expected_type
     then Inl (Unauthorized (''expected '' @ expected_type @ '' token''))
     else Inr claims)"

definition decode_access_token :: "jwt \<Rightarrow> env \<Rightarrow> time \<Rightarrow> string \<Rightarrow> token_claims result" where
  "decode_access_token j e now token = decode_token j e now ''access'' token"

definition decode_refresh_token :: "jwt \<Rightarrow> env \<Rightarrow> time \<Rightarrow> string \<Rightarrow> token_claims result" where
  "decode_refresh_token j e now token = decode_token j e now ''refresh'' token"

lemmas decode_defs = decode_access_token_def decode_refresh_token_def decode_token_def

lemma decode_token_Inr:
  "decode_token j e now ty token = Inr c \<longleftrightarrow>
     jwt_decode j (jwt_secret (cfg e)) (timestamp now) token = Some c \<and> tc_token_type c = ty"
  by (auto simp: decode_token_def try_then_Inr)

lemma decode_token_Inl: "decode_token j e now ty token = Inl err \<Longrightarrow> \<exists>m. err = Unauthorized m"
  by (cases "jwt_decode j (jwt_secret (cfg e)) (timestamp now) token")
    (auto simp: decode_token_def split: if_splits)

lemma decode_unique:
  assumes "jwt_ok j" and "decode_token j e now ty token = Inr c" and "decode_token j e later ty2 token = Inr c2"
  shows "c = c2"
proof -
  have "jwt_decode j (jwt_secret (cfg e)) (timestamp now) token = Some c"
    "jwt_decode j (jwt_secret (cfg e)) (timestamp later) token = Some c2"
    using assms(2,3) by (simp_all add: decode_token_Inr)
  with assms(1) show ?thesis unfolding jwt_ok_def by blast
qed

text \<open>What a pair just issued decodes to, and until when.\<close>

lemma issued_pair_decodes:
  assumes ok: "jwt_ok j" and p: "issue_token_pair j e aj now u m rid = Inr p"
  obtains ca cr at rt where
    "chrono_from_std (access_token_ttl (cfg e)) ''invalid access token ttl'' = Inr at"
    "chrono_from_std (refresh_token_ttl (cfg e)) ''invalid refresh token ttl'' = Inr rt"
    "\<And>t. decode_access_token j e t (tp_access_token p) =
       (if tc_exp ca < timestamp t - jwt_leeway then Inl (Unauthorized ''token error'') else Inr ca)"
    "\<And>t. decode_refresh_token j e t (tp_refresh_token p) =
       (if tc_exp cr < timestamp t - jwt_leeway then Inl (Unauthorized ''token error'') else Inr cr)"
    "ca = \<lparr>tc_sub = uuid_str e (us_id u), tc_tenant_id = uuid_str e (mr_tenant_id m), tc_role = mr_role m,
       tc_token_type = ''access'', tc_jti = uuid_str e aj, tc_iat = timestamp now, tc_exp = timestamp (now + at)\<rparr>"
    "cr = \<lparr>tc_sub = uuid_str e (us_id u), tc_tenant_id = uuid_str e (mr_tenant_id m), tc_role = mr_role m,
       tc_token_type = ''refresh'', tc_jti = uuid_str e rid, tc_iat = timestamp now, tc_exp = timestamp (now + rt)\<rparr>"
proof -
  from p obtain at rt where t: "chrono_from_std (access_token_ttl (cfg e)) ''invalid access token ttl'' = Inr at"
    "chrono_from_std (refresh_token_ttl (cfg e)) ''invalid refresh token ttl'' = Inr rt"
    by (auto simp: issue_token_pair_def try_then_Inr)
  define ca where ca: "ca = \<lparr>tc_sub = uuid_str e (us_id u), tc_tenant_id = uuid_str e (mr_tenant_id m),
    tc_role = mr_role m, tc_token_type = ''access'', tc_jti = uuid_str e aj, tc_iat = timestamp now,
    tc_exp = timestamp (now + at)\<rparr>"
  define cr where cr: "cr = \<lparr>tc_sub = uuid_str e (us_id u), tc_tenant_id = uuid_str e (mr_tenant_id m),
    tc_role = mr_role m, tc_token_type = ''refresh'', tc_jti = uuid_str e rid, tc_iat = timestamp now,
    tc_exp = timestamp (now + rt)\<rparr>"
  from p t have enc: "jwt_encode j (jwt_secret (cfg e)) ca = Some (tp_access_token p)"
    "jwt_encode j (jwt_secret (cfg e)) cr = Some (tp_refresh_token p)"
    by (auto simp: issue_token_pair_def Let_def try_then_Inr encode_token_def ca cr)
  have dec: "jwt_decode j (jwt_secret (cfg e)) s (tp_access_token p) = (if tc_exp ca < s - jwt_leeway then None else Some ca)"
    "jwt_decode j (jwt_secret (cfg e)) s (tp_refresh_token p) = (if tc_exp cr < s - jwt_leeway then None else Some cr)" for s
    using ok enc unfolding jwt_ok_def by blast+
  have ty: "tc_token_type ca = ''access''" "tc_token_type cr = ''refresh''" by (simp_all add: ca cr)
  show ?thesis
    by (rule that [OF t _ _ ca cr]) (simp_all add: decode_defs dec ty)
qed

section \<open>A concrete token format\<close>

text \<open>
  A codec that has the laws: each text is preceded by its length in unary, so the fields can be read
  back, and the key is the first field.
\<close>

definition put_text :: "string \<Rightarrow> string" where
  "put_text s = replicate (length s) CHR ''1'' @ CHR ''0'' # s"

definition get_text :: "string \<Rightarrow> string \<times> string" where
  "get_text t =
     (let n = length (takeWhile (\<lambda>c. c = CHR ''1'') t); r = drop (Suc n) t in (take n r, drop n r))"

lemma get_put_text [simp]: "get_text (put_text s @ r) = (s, r)"
proof -
  have "takeWhile (\<lambda>c. c = CHR ''1'') (replicate n CHR ''1'' @ CHR ''0'' # t) = replicate n CHR ''1''" for n t
    by (induction n) auto
  then show ?thesis by (simp add: get_text_def put_text_def Let_def)
qed

lemma get_put_text_last [simp]: "get_text (put_text s) = (s, [])"
  using get_put_text [of s "[]"] by simp

definition read_int :: "string \<Rightarrow> int" where
  "read_int s = (case s of [] \<Rightarrow> 0 | c # r \<Rightarrow> if c = CHR ''p'' then int (length r) else - int (length r))"

lemma read_unary_int [simp]: "read_int (unary_int n) = n"
  by (simp add: read_int_def unary_int_def)

definition sample_encode :: "string \<Rightarrow> token_claims \<Rightarrow> string option" where
  "sample_encode key c = Some (put_text key @ put_text (tc_sub c) @ put_text (tc_tenant_id c) @
     put_text (tc_role c) @ put_text (tc_token_type c) @ put_text (tc_jti c) @
     put_text (unary_int (tc_iat c)) @ put_text (unary_int (tc_exp c)) @ [])"

definition sample_decode :: "string \<Rightarrow> int \<Rightarrow> string \<Rightarrow> token_claims option" where
  "sample_decode key now s =
     (let (k, s) = get_text s; (sub, s) = get_text s; (tenant, s) = get_text s; (role, s) = get_text s;
          (ty, s) = get_text s; (jti, s) = get_text s; (iat, s) = get_text s; (exp, s) = get_text s
      in if k \<noteq> key \<or> read_int exp < now - jwt_leeway then None
         else Some \<lparr>tc_sub = sub, tc_tenant_id = tenant, tc_role = role, tc_token_type = ty, tc_jti = jti,
           tc_iat = read_int iat, tc_exp = read_int exp\<rparr>)"

definition sample_jwt :: jwt where
  "sample_jwt = \<lparr>jwt_encode = sample_encode, jwt_decode = sample_decode\<rparr>"

lemma sample_jwt_ok: "jwt_ok sample_jwt"
proof -
  have "sample_decode key now s = (if tc_exp c < now - jwt_leeway then None else Some c)"
    if "sample_encode key c = Some s" for key c s now
    using that by (auto simp: sample_encode_def sample_decode_def Let_def)
  moreover have "c = c2" if "sample_decode key now s = Some c" "sample_decode key later s = Some c2"
    for key now later s c c2
    using that by (auto simp: sample_decode_def Let_def split: prod.splits if_splits)
  ultimately show ?thesis unfolding jwt_ok_def sample_jwt_def jwt.simps by blast
qed

lemma sample_argon2_ok: "argon2_ok sample_env"
  by (auto simp: argon2_ok_def sample_env_def)

end
