(* ===== verification/Account.thy ===== *)
theory Account
  imports Auth Notifications
begin

text \<open>
  \<open>src/services/account.rs\<close>: verification of e-mail addresses, password resets, changes of
  credentials, profile and notification preferences. \<open>token\<close> is the text a call draws with
  \<open>generate_token\<close>; \<open>ti\<close>, \<open>nid\<close> and \<open>aid\<close> are the fresh identifiers of the token's row, of the
  notification and of the audit event.
\<close>

section \<open>Operations\<close>

definition create_and_enqueue_token ::
  "env \<Rightarrow> uuid \<Rightarrow> uuid \<Rightarrow> string \<Rightarrow> time \<Rightarrow> user_record \<Rightarrow> string \<Rightarrow> string \<Rightarrow> nat \<Rightarrow> unit app" where
  "create_and_enqueue_token e ti nid token now user token_kind notification_kind ttl =
     then_do (lift_result (chrono_from_std ttl ''invalid token ttl'')) (\<lambda>ttl.
     then_do (db_run (db_create_user_token ti now (us_id user) token_kind (sha256_hex e token) (now + ttl))) (\<lambda>_.
     then_do (db_run (db_enqueue_notification nid now
       \<lparr>nn_tenant_id = None, nn_user_id = Some (us_id user), nn_kind = notification_kind,
        nn_recipient = us_email user,
        nn_payload = JObject [(''token'', JString token), (''expires_at'', JString (rfc3339 e (now + ttl)))],
        nn_dedupe_key = None\<rparr> (max_job_attempts (cfg e)))) (\<lambda>_.
     ret ())))"

definition send_verification_email ::
  "env \<Rightarrow> uuid \<Rightarrow> uuid \<Rightarrow> string \<Rightarrow> time \<Rightarrow> user_record \<Rightarrow> unit app" where
  "send_verification_email e ti nid token now user =
     (if us_email_verified_at user \<noteq> None then ret ()
      else logged (create_and_enqueue_token e ti nid token now user ''email_verification''
        ''email_verification'' (email_verification_ttl (cfg e))))"

definition svc_verify_email :: "env \<Rightarrow> uuid \<Rightarrow> time \<Rightarrow> string \<Rightarrow> unit app" where
  "svc_verify_email e aid now token =
     then_do (db_run (db_consume_user_token now ''email_verification'' (sha256_hex e token))) (\<lambda>record.
     then_do (db_run (db_mark_user_email_verified now (ut_user_id record))) (\<lambda>user.
     record_event aid now None (Some (us_id user)) ''user'' (Some (us_id user)) ''account.email_verified''
       (JObject [])))"

definition svc_resend_verification :: "env \<Rightarrow> uuid \<Rightarrow> uuid \<Rightarrow> string \<Rightarrow> time \<Rightarrow> string \<Rightarrow> unit app" where
  "svc_resend_verification e ti nid token now email =
     then_do (db_read (db_get_user_by_email email)) (\<lambda>u.
     case u of None \<Rightarrow> ret () | Some user \<Rightarrow> send_verification_email e ti nid token now user)"

definition svc_request_password_reset :: "env \<Rightarrow> uuid \<Rightarrow> uuid \<Rightarrow> string \<Rightarrow> time \<Rightarrow> string \<Rightarrow> unit app" where
  "svc_request_password_reset e ti nid token now email =
     then_do (db_read (db_get_user_by_email email)) (\<lambda>u.
     case u of None \<Rightarrow> ret ()
     | Some user \<Rightarrow> logged (create_and_enqueue_token e ti nid token now user ''password_reset''
         ''password_reset'' (password_reset_ttl (cfg e))))"

definition svc_confirm_password_reset :: "env \<Rightarrow> uuid \<Rightarrow> string \<Rightarrow> time \<Rightarrow> string \<Rightarrow> string \<Rightarrow> unit app" where
  "svc_confirm_password_reset e aid salt now token new_password =
     then_do (db_run (db_consume_user_token now ''password_reset'' (sha256_hex e token))) (\<lambda>record.
     then_do (lift_result (hash_password e salt new_password)) (\<lambda>password_hash.
     then_do (db_run (db_update_user_password (ut_user_id record) password_hash)) (\<lambda>user.
     then_do (db_run (\<lambda>d. Inr ((), db_revoke_all_user_refresh_tokens now (us_id user) d))) (\<lambda>_.
     record_event aid now None (Some (us_id user)) ''user'' (Some (us_id user))
       ''account.password_reset_completed'' (JObject [])))))"

definition current_password_check :: "env \<Rightarrow> string \<Rightarrow> user_record \<Rightarrow> unit result" where
  "current_password_check e current_password user =
     map_err (\<lambda>_. Unauthorized ''current password is incorrect'')
       (verify_password e current_password (us_password_hash user))"

definition svc_change_password :: "env \<Rightarrow> uuid \<Rightarrow> string \<Rightarrow> time \<Rightarrow> uuid \<Rightarrow> string \<Rightarrow> string \<Rightarrow> unit app" where
  "svc_change_password e aid salt now user_id current_password new_password =
     then_do (db_try (db_get_user_by_id user_id)) (\<lambda>user.
     then_do (lift_result (current_password_check e current_password user)) (\<lambda>_.
     then_do (lift_result (hash_password e salt new_password)) (\<lambda>password_hash.
     then_do (db_run (db_update_user_password (us_id user) password_hash)) (\<lambda>_.
     then_do (db_run (\<lambda>d. Inr ((), db_revoke_all_user_refresh_tokens now (us_id user) d))) (\<lambda>_.
     record_event aid now None (Some (us_id user)) ''user'' (Some (us_id user))
       ''account.password_changed'' (JObject []))))))"

definition svc_change_email ::
  "env \<Rightarrow> uuid \<Rightarrow> uuid \<Rightarrow> uuid \<Rightarrow> string \<Rightarrow> time \<Rightarrow> uuid \<Rightarrow> string \<Rightarrow> string \<Rightarrow> user_record app" where
  "svc_change_email e ti nid aid token now user_id current_password new_email =
     then_do (db_try (db_get_user_by_id user_id)) (\<lambda>user.
     then_do (lift_result (current_password_check e current_password user)) (\<lambda>_.
     then_do (db_run (db_update_user_email (us_id user) new_email)) (\<lambda>updated.
     then_do (send_verification_email e ti nid token now updated) (\<lambda>_.
     then_do (record_event aid now None (Some (us_id user)) ''user'' (Some (us_id user))
       ''account.email_changed'' (JObject [])) (\<lambda>_.
     ret updated)))))"

definition max_display_name_length :: nat where "max_display_name_length = 100"

definition check_display_name :: "string option \<Rightarrow> string option result" where
  "check_display_name display_name =
     (case display_name of
        None \<Rightarrow> Inr None
      | Some name \<Rightarrow>
          let name = trim name in
          if name = [] then Inl (Validation ''display_name must not be blank; send null to clear it'')
          else if max_display_name_length < char_count name
          then Inl (Validation ''display_name must be at most 100 characters'')
          else Inr (Some name))"

definition svc_update_profile :: "uuid \<Rightarrow> time \<Rightarrow> uuid \<Rightarrow> uuid \<Rightarrow> string option \<Rightarrow> user_record app" where
  "svc_update_profile aid now tenant user_id display_name =
     then_do (lift_result (check_display_name display_name)) (\<lambda>display_name.
     then_do (db_run (db_update_user_display_name user_id display_name)) (\<lambda>updated.
     then_do (record_event aid now (Some tenant) (Some user_id) ''user'' (Some user_id)
       ''account.profile_updated'' (JObject [(''display_name_set'', JBool (us_display_name updated \<noteq> None))])) (\<lambda>_.
     ret updated)))"

definition svc_get_notification_preferences :: "uuid \<Rightarrow> notification_preferences_response app" where
  "svc_get_notification_preferences user_id =
     db_read (\<lambda>d. preferences_from_disabled_kinds (db_list_disabled_notification_kinds user_id d))"

fun apply_preferences :: "time \<Rightarrow> uuid \<Rightarrow> (string \<times> bool option) list \<Rightarrow> (string \<times> json) list app" where
  "apply_preferences now user [] = ret []"
| "apply_preferences now user ((kind, None) # changes) = apply_preferences now user changes"
| "apply_preferences now user ((kind, Some enabled) # changes) =
     then_do (db_run (db_set_notification_preference now user kind enabled)) (\<lambda>_.
     then_do (apply_preferences now user changes) (\<lambda>applied.
     ret ((kind, JBool enabled) # applied)))"

definition svc_update_notification_preferences ::
  "uuid \<Rightarrow> time \<Rightarrow> uuid \<Rightarrow> uuid \<Rightarrow> bool option \<Rightarrow> bool option \<Rightarrow> bool option \<Rightarrow>
   notification_preferences_response app" where
  "svc_update_notification_preferences aid now tenant user task_due_soon task_overdue task_commented =
     (let changes = [(''task_due_soon'', task_due_soon), (''task_overdue'', task_overdue),
                     (''task_commented'', task_commented)]
      in if list_all (\<lambda>(_, enabled). enabled = None) changes
         then fail (Validation ''at least one notification preference must be provided'')
         else
           then_do (apply_preferences now user changes) (\<lambda>applied.
           then_do (record_event aid now (Some tenant) (Some user) ''user'' (Some user)
             ''account.notification_preferences_updated'' (JObject [(''changes'', JObject applied)])) (\<lambda>_.
           svc_get_notification_preferences user)))"

section \<open>Effects\<close>

lemma users_by_id_unique:
  assumes "distinct (map us_id (users d))" "u \<in> set (users d)" "us_id u = i"
  shows "db_get_user_by_id i d = Inr u"
  unfolding db_get_user_by_id_def
  using fetch_optional_Some_key [of us_id "users d" "\<lambda>u. us_id u = i" i u] assms by simp

lemma db_get_user_by_id_InrD: "db_get_user_by_id i d = Inr u \<Longrightarrow> u \<in> set (users d) \<and> us_id u = i"
  by (auto simp: db_get_user_by_id_def dest: fetch_optional_SomeD)

lemma update_user_Inr:
  assumes "update_user i f d = Inr (u, d')"
  shows "\<exists>q \<in> set (users d). us_id q = i \<and> u = f q"
    and "d' = d\<lparr>users := update_where (\<lambda>u. us_id u = i) f (users d)\<rparr>"
  using assms by (auto simp: update_user_def try_then_Inr dest: update_returning_InrD)

lemma record_event_tables [simp]:
  "user_tokens (w_db (snd (record_event i now t a st si et payload w))) = user_tokens (w_db w)"
  "notifications (w_db (snd (record_event i now t a st si et payload w))) = notifications (w_db w)"
  "preferences (w_db (snd (record_event i now t a st si et payload w))) = preferences (w_db w)"
  "oauth_accounts (w_db (snd (record_event i now t a st si et payload w))) = oauth_accounts (w_db w)"
  "w_redis (snd (record_event i now t a st si et payload w)) = w_redis w"
  "w_files (snd (record_event i now t a st si et payload w)) = w_files w"
  using record_event_effect [of i now t a st si et payload w] by auto

lemma enqueue_tables [simp]:
  "refresh_tokens (w_db (snd (db_run (db_enqueue_notification nid now n k) w))) = refresh_tokens (w_db w)"
  "w_redis (snd (db_run (db_enqueue_notification nid now n k) w)) = w_redis w"
  using enqueue_frame [of nid now n k w] by auto

lemma create_user_token_frame:
  "users (w_db (snd (db_run (db_create_user_token ti now u kind h x) w))) = users (w_db w)"
  "refresh_tokens (w_db (snd (db_run (db_create_user_token ti now u kind h x) w))) = refresh_tokens (w_db w)"
  "memberships (w_db (snd (db_run (db_create_user_token ti now u kind h x) w))) = memberships (w_db w)"
  "tenants (w_db (snd (db_run (db_create_user_token ti now u kind h x) w))) = tenants (w_db w)"
  by (auto simp: db_run_def db_create_user_token_def Let_def try_then_def split: sum.splits)

lemma create_and_enqueue_frame [simp]:
  "users (w_db (snd (create_and_enqueue_token e ti nid token now user k n ttl w))) = users (w_db w)"
  "refresh_tokens (w_db (snd (create_and_enqueue_token e ti nid token now user k n ttl w))) = refresh_tokens (w_db w)"
  "memberships (w_db (snd (create_and_enqueue_token e ti nid token now user k n ttl w))) = memberships (w_db w)"
  "tenants (w_db (snd (create_and_enqueue_token e ti nid token now user k n ttl w))) = tenants (w_db w)"
  by (auto simp: create_and_enqueue_token_def then_do_def ret_def create_user_token_frame
      enqueue_tables [THEN sym] split: sum.splits prod.splits dest!: arg_cong [where f = snd])

section \<open>Properties\<close>

text \<open>What a password reset that succeeds has done.\<close>

lemma confirm_password_reset_run:
  assumes "svc_confirm_password_reset e aid salt now token pw w = (Inr (), w')"
  obtains r d h where "db_consume_user_token now ''password_reset'' (sha256_hex e token) (w_db w) = Inr (r, d)"
    "argon2_hash e salt pw = Some h"
    "users (w_db w') = update_where (\<lambda>u. us_id u = ut_user_id r) (\<lambda>u. u\<lparr>us_password_hash := h\<rparr>) (users (w_db w))"
    "\<exists>u \<in> set (users (w_db w)). us_id u = ut_user_id r"
    "refresh_tokens (w_db w') = update_where (\<lambda>t. rt_user_id t = ut_user_id r \<and> rt_revoked_at t = None)
       (revoke_row now) (refresh_tokens (w_db w))"
    "user_tokens (w_db w') = user_tokens d"
proof -
  from assms obtain r d u h d2 where c: "db_consume_user_token now ''password_reset'' (sha256_hex e token) (w_db w) = Inr (r, d)"
    and h: "argon2_hash e salt pw = Some h"
    and up: "db_update_user_password (ut_user_id r) h d = Inr (u, d2)"
    and w': "w' = snd (record_event aid now None (Some (us_id u)) ''user'' (Some (us_id u))
       ''account.password_reset_completed'' (JObject []) (w\<lparr>w_db := db_revoke_all_user_refresh_tokens now (us_id u) d2\<rparr>))"
    by (auto simp: svc_confirm_password_reset_def then_do_Inr db_run_Inr hash_password_def)
  note d = consume_user_token_Inr(2) [OF c]
  note u = update_user_Inr [OF up [unfolded db_update_user_password_def]]
  from u(1) d have uid: "us_id u = ut_user_id r" "\<exists>q \<in> set (users (w_db w)). us_id q = ut_user_id r" by auto
  show ?thesis
    by (rule that [OF c h _ uid(2)])
      (simp_all add: w' db_revoke_all_user_refresh_tokens_def revoke_where_def u(2) uid(1), simp_all add: d)
qed

lemma password_reset_exact_parts:
  assumes run: "svc_confirm_password_reset e aid salt now token pw w = (Inr (), w')"
    and inv: "user_token_inv (w_db w)" and argon2: "argon2_ok e"
  shows "\<exists>r h. r \<in> set (user_tokens (w_db w)) \<and> token_usable now ''password_reset'' (sha256_hex e token) r \<and>
      argon2_verify e h pw = Some True \<and>
      users (w_db w') = update_where (\<lambda>u. us_id u = ut_user_id r) (\<lambda>u. u\<lparr>us_password_hash := h\<rparr>) (users (w_db w)) \<and>
      (\<forall>t \<in> set (refresh_tokens (w_db w')). rt_user_id t = ut_user_id r \<longrightarrow> rt_revoked_at t \<noteq> None) \<and>
      filter (\<lambda>t. rt_user_id t \<noteq> ut_user_id r) (refresh_tokens (w_db w')) =
        filter (\<lambda>t. rt_user_id t \<noteq> ut_user_id r) (refresh_tokens (w_db w))"
    and "user_token_step\<^sup>*\<^sup>* (w_db w') (w_db v) \<Longrightarrow>
      \<exists>err. svc_confirm_password_reset e aid2 salt2 later token pw2 v = (Inl err, v)"
proof -
  from run obtain r d h where c: "db_consume_user_token now ''password_reset'' (sha256_hex e token) (w_db w) = Inr (r, d)"
    and h: "argon2_hash e salt pw = Some h"
    and us: "users (w_db w') = update_where (\<lambda>u. us_id u = ut_user_id r) (\<lambda>u. u\<lparr>us_password_hash := h\<rparr>) (users (w_db w))"
    and rts: "refresh_tokens (w_db w') = update_where (\<lambda>t. rt_user_id t = ut_user_id r \<and> rt_revoked_at t = None)
       (revoke_row now) (refresh_tokens (w_db w))"
    and uts: "user_tokens (w_db w') = user_tokens d"
    by (rule confirm_password_reset_run)
  from consume_user_token_Inr(1) [OF c] obtain q where q: "q \<in> set (user_tokens (w_db w))"
    "token_usable now ''password_reset'' (sha256_hex e token) q" "r = mark_used now q" by blast
  have uid: "ut_user_id r = ut_user_id q" by (simp add: q(3) mark_used_def)
  have "argon2_verify e h pw = Some True" using argon2 h by (simp add: argon2_ok_def)
  moreover have "filter (\<lambda>t. rt_user_id t \<noteq> ut_user_id q) (refresh_tokens (w_db w')) =
      filter (\<lambda>t. rt_user_id t \<noteq> ut_user_id q) (refresh_tokens (w_db w))"
    unfolding rts uid by (rule filter_update_where_other) (simp_all add: revoke_row_def)
  moreover have "\<forall>t \<in> set (refresh_tokens (w_db w')). rt_user_id t = ut_user_id q \<longrightarrow> rt_revoked_at t \<noteq> None"
    unfolding rts uid by (auto simp: in_update_where revoke_row_def split: option.splits)
  ultimately show "\<exists>r h. r \<in> set (user_tokens (w_db w)) \<and>
      token_usable now ''password_reset'' (sha256_hex e token) r \<and> argon2_verify e h pw = Some True \<and>
      users (w_db w') = update_where (\<lambda>u. us_id u = ut_user_id r) (\<lambda>u. u\<lparr>us_password_hash := h\<rparr>) (users (w_db w)) \<and>
      (\<forall>t \<in> set (refresh_tokens (w_db w')). rt_user_id t = ut_user_id r \<longrightarrow> rt_revoked_at t \<noteq> None) \<and>
      filter (\<lambda>t. rt_user_id t \<noteq> ut_user_id r) (refresh_tokens (w_db w')) =
        filter (\<lambda>t. rt_user_id t \<noteq> ut_user_id r) (refresh_tokens (w_db w))"
    using q(1,2) us uid by (intro exI [of _ q] exI [of _ h]) simp
  assume "user_token_step\<^sup>*\<^sup>* (w_db w') (w_db v)"
  moreover have "user_token_step d (w_db w')" by (rule user_token_step.other) (rule uts)
  ultimately have "user_token_step\<^sup>*\<^sup>* d (w_db v)" by (rule converse_rtranclp_into_rtranclp [rotated])
  with user_token_use.consumed_once [OF inv, of now "(''password_reset'', sha256_hex e token)" r d "w_db v" later] c
  obtain err where "db_consume_user_token later ''password_reset'' (sha256_hex e token) (w_db v) = Inl err" by auto
  then show "\<exists>err. svc_confirm_password_reset e aid2 salt2 later token pw2 v = (Inl err, v)"
    by (simp add: svc_confirm_password_reset_def)
qed

text \<open>C18. A password reset that succeeds was asked for with the text of an unused, unexpired reset
  token; it sets the password of the user of that token, and of nobody else, to one that verifies,
  leaves that user no refresh token that still works and the refresh tokens of the other users as
  they were; and the same token never resets a password again, whatever the program does to the
  tokens in between.\<close>

theorem password_reset_exact:
  assumes run: "svc_confirm_password_reset e aid salt now token pw w = (Inr (), w')"
    and inv: "user_token_inv (w_db w)" and argon2: "argon2_ok e"
  shows "(\<exists>r h. r \<in> set (user_tokens (w_db w)) \<and> token_usable now ''password_reset'' (sha256_hex e token) r \<and>
      argon2_verify e h pw = Some True \<and>
      users (w_db w') = update_where (\<lambda>u. us_id u = ut_user_id r) (\<lambda>u. u\<lparr>us_password_hash := h\<rparr>) (users (w_db w)) \<and>
      (\<forall>t \<in> set (refresh_tokens (w_db w')). rt_user_id t = ut_user_id r \<longrightarrow> rt_revoked_at t \<noteq> None) \<and>
      filter (\<lambda>t. rt_user_id t \<noteq> ut_user_id r) (refresh_tokens (w_db w')) =
        filter (\<lambda>t. rt_user_id t \<noteq> ut_user_id r) (refresh_tokens (w_db w))) \<and>
    (\<forall>v aid2 salt2 later pw2. user_token_step\<^sup>*\<^sup>* (w_db w') (w_db v) \<longrightarrow>
      (\<exists>err. svc_confirm_password_reset e aid2 salt2 later token pw2 v = (Inl err, v)))"
  using password_reset_exact_parts(1) [OF run inv argon2] password_reset_exact_parts(2) [OF run inv argon2]
  by (intro conjI allI impI)

definition demo_reset_world :: world where
  "demo_reset_world = demo_world\<lparr>w_db := demo_db\<lparr>
     user_tokens := [\<lparr>ut_id = 40, ut_user_id = 1, ut_kind = ''password_reset'', ut_token_hash = ''tok'',
       ut_expires_at = 100, ut_used_at = None, ut_created_at = 0\<rparr>],
     refresh_tokens := [new_refresh_row 41 1 5 1000 0]\<rparr>\<rparr>"

lemmas demo_reset_simps = demo_reset_world_def demo_world_def demo_simps new_refresh_row_def

lemma demo_reset_runs:
  "fst (svc_confirm_password_reset sample_env 90 ''salt'' 50 ''tok'' ''new'' demo_reset_world) = Inr ()"
  by (simp add: svc_confirm_password_reset_def then_do_def db_run_def db_consume_user_token_def
      update_returning_def returning_def token_usable_def demo_reset_simps sample_env_def hash_password_def
      db_update_user_password_def update_user_def record_event_ok)

theorem password_reset_exact_witness:
  "(\<exists>r h. r \<in> set (user_tokens (w_db demo_reset_world)) \<and> token_usable 50 ''password_reset'' ''tok'' r \<and>
      argon2_verify sample_env h ''new'' = Some True \<and> ut_user_id r = 1) \<and>
   (\<exists>err. fst (svc_confirm_password_reset sample_env 91 ''salt'' 60 ''tok'' ''newer''
      (snd (svc_confirm_password_reset sample_env 90 ''salt'' 50 ''tok'' ''new'' demo_reset_world))) = Inl err)"
proof -
  obtain w' where run: "svc_confirm_password_reset sample_env 90 ''salt'' 50 ''tok'' ''new'' demo_reset_world =
      (Inr (), w')" using demo_reset_runs by (metis prod.collapse)
  have inv: "user_token_inv (w_db demo_reset_world)" by (simp add: user_token_inv_def demo_reset_simps)
  have hash: "sha256_hex sample_env ''tok'' = ''tok''" by (simp add: sample_env_def)
  note exact = password_reset_exact [OF run inv sample_argon2_ok, THEN conjunct1]
    password_reset_exact [OF run inv sample_argon2_ok, THEN conjunct2, rule_format]
  have "ut_user_id r = 1" if "r \<in> set (user_tokens (w_db demo_reset_world))" for r
    using that by (simp add: demo_reset_simps)
  with exact(1) exact(2) [OF rtranclp.rtrancl_refl, of 91 "''salt''" 60 "''newer''"] run hash show ?thesis by auto
qed

text \<open>
  Two requests whose outcome depends on nothing the caller could learn an account from: they succeed
  for every address. For an address with an account, exactly one token of that kind is left usable,
  and the mail that carries its text goes to the account's own address.
\<close>

lemma create_and_enqueue_ok:
  assumes "user \<in> set (users (w_db w))"
    and "chrono_from_std ttl ''invalid token ttl'' = Inr t"
    and "ti \<notin> ut_id ` set (user_tokens (w_db w))" and "sha256_hex e token \<notin> ut_token_hash ` set (user_tokens (w_db w))"
    and "nid \<notin> nt_id ` set (notifications (w_db w))"
    and "k = ''email_verification'' \<or> k = ''password_reset''"
  shows "\<exists>w'. create_and_enqueue_token e ti nid token now user k n ttl w = (Inr (), w') \<and>
    user_tokens (w_db w') = update_where (\<lambda>r. ut_user_id r = us_id user \<and> ut_kind r = k \<and> ut_used_at r = None)
      (mark_used now) (user_tokens (w_db w)) @
      [\<lparr>ut_id = ti, ut_user_id = us_id user, ut_kind = k, ut_token_hash = sha256_hex e token,
        ut_expires_at = now + t, ut_used_at = None, ut_created_at = now\<rparr>] \<and>
    notifications (w_db w') = notifications (w_db w) @ [notification_row nid now (max_job_attempts (cfg e))
      \<lparr>nn_tenant_id = None, nn_user_id = Some (us_id user), nn_kind = n, nn_recipient = us_email user,
       nn_payload = JObject [(''token'', JString token), (''expires_at'', JString (rfc3339 e (now + t)))],
       nn_dedupe_key = None\<rparr>]"
proof -
  let ?P = "\<lambda>r. ut_user_id r = us_id user \<and> ut_kind r = k \<and> ut_used_at r = None"
  let ?t = "update_where ?P (mark_used now) (user_tokens (w_db w))"
  have user: "user_exists (w_db w) (us_id user)" using assms(1) by (auto simp: user_exists_def row_exists_iff)
  have keys: "ut_id ` set ?t = ut_id ` set (user_tokens (w_db w))"
    "ut_token_hash ` set ?t = ut_token_hash ` set (user_tokens (w_db w))"
    using arg_cong [OF map_key_update_where [of ut_id "mark_used now" ?P "user_tokens (w_db w)"], of set]
      arg_cong [OF mark_used_hash [of ?P now "user_tokens (w_db w)"], of set] by (simp_all add: mark_used_def)
  have mark: "ut_used_at_update (\<lambda>_. Some now) = mark_used now"
    by (rule ext) (simp add: mark_used_def)
  have "\<exists>r d. db_create_user_token ti now (us_id user) k (sha256_hex e token) (now + t) (w_db w) = Inr (r, d) \<and>
      d = (w_db w)\<lparr>user_tokens := ?t @ [\<lparr>ut_id = ti, ut_user_id = us_id user, ut_kind = k,
        ut_token_hash = sha256_hex e token, ut_expires_at = now + t, ut_used_at = None, ut_created_at = now\<rparr>]\<rparr>"
    using assms(3,4,6) user
    by (auto simp: db_create_user_token_def Let_def insert_row_fresh keys mark require_check_def)
  then obtain r d where cr: "db_create_user_token ti now (us_id user) k (sha256_hex e token) (now + t) (w_db w) = Inr (r, d)"
    and d: "d = (w_db w)\<lparr>user_tokens := ?t @ [\<lparr>ut_id = ti, ut_user_id = us_id user, ut_kind = k,
        ut_token_hash = sha256_hex e token, ut_expires_at = now + t, ut_used_at = None, ut_created_at = now\<rparr>]\<rparr>"
    by blast
  have "user_exists d (us_id user)" using user by (simp add: d user_exists_def)
  then show ?thesis
    using cr assms(2,5) d
    by (simp add: create_and_enqueue_token_def then_do_def db_run_def db_enqueue_notification_def
        insert_row_fresh notification_row_def)
qed

text \<open>Asking for a password reset answers the same for every address. It does nothing for an
  address without an account; for one with an account it leaves exactly one unused reset token of
  that account, the new one, and queues one mail, with the text of that token, to that address.\<close>

theorem reset_request_exact:
  assumes run: "svc_request_password_reset e ti nid token now email w = (r, w')"
    and ttl: "chrono_from_std (password_reset_ttl (cfg e)) ''invalid token ttl'' = Inr t"
    and fresh: "ti \<notin> ut_id ` set (user_tokens (w_db w))"
      "sha256_hex e token \<notin> ut_token_hash ` set (user_tokens (w_db w))"
      "nid \<notin> nt_id ` set (notifications (w_db w))"
  shows "r = Inr () \<and>
    (case db_get_user_by_email email (w_db w) of
       None \<Rightarrow> w' = w
     | Some u \<Rightarrow>
         filter (\<lambda>r. ut_user_id r = us_id u \<and> ut_kind r = ''password_reset'' \<and> ut_used_at r = None)
             (user_tokens (w_db w')) =
           [\<lparr>ut_id = ti, ut_user_id = us_id u, ut_kind = ''password_reset'',
             ut_token_hash = sha256_hex e token, ut_expires_at = now + t, ut_used_at = None, ut_created_at = now\<rparr>] \<and>
         map (\<lambda>n. (nt_recipient n, json_get (nt_payload n) ''token'', nt_status n)) (notifications (w_db w')) =
           map (\<lambda>n. (nt_recipient n, json_get (nt_payload n) ''token'', nt_status n)) (notifications (w_db w)) @
             [(email, Some (JString token), ''pending'')])"
proof (cases "db_get_user_by_email email (w_db w)")
  case None
  with run show ?thesis by (simp add: svc_request_password_reset_def then_do_def)
next
  case (Some u)
  then have u: "u \<in> set (users (w_db w))" "us_email u = email"
    by (auto simp: db_get_user_by_email_def dest: fetch_optional_SomeD)
  from create_and_enqueue_ok [OF u(1) ttl fresh, of "''password_reset''" now "''password_reset''"]
  obtain v where c: "create_and_enqueue_token e ti nid token now u ''password_reset'' ''password_reset''
      (password_reset_ttl (cfg e)) w = (Inr (), v)"
    and ut: "user_tokens (w_db v) = update_where (\<lambda>r. ut_user_id r = us_id u \<and> ut_kind r = ''password_reset'' \<and>
        ut_used_at r = None) (mark_used now) (user_tokens (w_db w)) @
      [\<lparr>ut_id = ti, ut_user_id = us_id u, ut_kind = ''password_reset'', ut_token_hash = sha256_hex e token,
        ut_expires_at = now + t, ut_used_at = None, ut_created_at = now\<rparr>]"
    and ns: "notifications (w_db v) = notifications (w_db w) @ [notification_row nid now (max_job_attempts (cfg e))
      \<lparr>nn_tenant_id = None, nn_user_id = Some (us_id u), nn_kind = ''password_reset'', nn_recipient = us_email u,
       nn_payload = JObject [(''token'', JString token), (''expires_at'', JString (rfc3339 e (now + t)))],
       nn_dedupe_key = None\<rparr>]" by blast
  have none: "filter (\<lambda>r. ut_user_id r = us_id u \<and> ut_kind r = ''password_reset'' \<and> ut_used_at r = None)
      (update_where (\<lambda>r. ut_user_id r = us_id u \<and> ut_kind r = ''password_reset'' \<and> ut_used_at r = None)
        (mark_used now) (user_tokens (w_db w))) = []"
    by (auto simp: filter_empty_conv in_update_where mark_used_def)
  have "(r, w') = (Inr (), v)" using run Some c by (simp add: svc_request_password_reset_def then_do_def logged_eq)
  with Some ut ns u(2) show ?thesis by (simp add: none notification_row_def)
qed

theorem reset_request_exact_witness:
  "\<exists>w'. svc_request_password_reset sample_env 42 43 ''text'' 60 ''a@b.c'' demo_reset_world = (Inr (), w') \<and>
     map nt_recipient (notifications (w_db w')) = [''a@b.c'']"
proof -
  obtain r w' where run: "svc_request_password_reset sample_env 42 43 ''text'' 60 ''a@b.c'' demo_reset_world = (r, w')"
    by fastforce
  have ttl: "chrono_from_std (password_reset_ttl (cfg sample_env)) ''invalid token ttl'' = Inr (seconds 3600)"
    by (simp add: chrono_from_std_def password_reset_ttl_def i64_mul_as_u64_def sample_env_def default_cli_def)
  have user: "db_get_user_by_email ''a@b.c'' (w_db demo_reset_world) = Some demo_user"
    by (simp add: db_get_user_by_email_def fetch_optional_def demo_reset_simps)
  let ?f = "\<lambda>n. (nt_recipient n, json_get (nt_payload n) ''token'', nt_status n)"
  have hash: "sha256_hex sample_env ''text'' = ''text''" by (simp add: sample_env_def)
  have rows: "ut_id ` set (user_tokens (w_db demo_reset_world)) = {40}"
    "ut_token_hash ` set (user_tokens (w_db demo_reset_world)) = {''tok''}"
    "notifications (w_db demo_reset_world) = []"
    by (simp_all add: demo_reset_simps)
  have r: "r = Inr ()" and ns: "map ?f (notifications (w_db w')) = [(''a@b.c'', Some (JString ''text''), ''pending'')]"
    using reset_request_exact [OF run ttl] unfolding user rows hash by simp_all
  have "map nt_recipient (notifications (w_db w')) = map fst (map ?f (notifications (w_db w')))" by simp
  also note ns
  finally have "map nt_recipient (notifications (w_db w')) = map fst [(''a@b.c'', Some (JString ''text''), ''pending'')]" .
  then have "map nt_recipient (notifications (w_db w')) = [''a@b.c'']" by (simp only: list.map fst_conv)
  then show ?thesis using run unfolding r by (intro exI [of _ w'] conjI)
qed

text \<open>
  Two edges. A reset whose new password cannot be hashed has already spent its token; and changing
  the address of an account leaves the reset tokens mailed to the old address as they were.
\<close>

lemma failed_hash_spends_token:
  assumes "db_consume_user_token now ''password_reset'' (sha256_hex e token) (w_db w) = Inr (r, d)"
    and "argon2_hash e salt pw = None"
  shows "svc_confirm_password_reset e aid salt now token pw w =
    (Inl (Internal ''failed to hash password''), w\<lparr>w_db := d\<rparr>)"
  using assms by (simp add: svc_confirm_password_reset_def then_do_def hash_password_def)

lemma create_user_token_other_kind:
  assumes "k2 \<noteq> k"
  shows "filter (\<lambda>r. ut_kind r = k2) (user_tokens (w_db (snd (db_run (db_create_user_token ti now u k h x) w)))) =
    filter (\<lambda>r. ut_kind r = k2) (user_tokens (w_db w))"
proof (cases "db_create_user_token ti now u k h x (w_db w)")
  case (Inr y)
  obtain r d where y: "y = (r, d)" by (cases y)
  note c = create_user_token_Inr [OF Inr [unfolded y]]
  have "filter (\<lambda>r. ut_kind r = k2) (update_where (\<lambda>r. ut_user_id r = u \<and> ut_kind r = k \<and> ut_used_at r = None)
      (mark_used now) (user_tokens (w_db w))) = filter (\<lambda>r. ut_kind r = k2) (user_tokens (w_db w))"
    by (rule filter_update_where_other) (use assms in \<open>auto simp: mark_used_def\<close>)
  then show ?thesis using Inr y c(1,5) assms by simp
qed (simp add: db_run_def)

lemma change_email_keeps_reset_tokens:
  "filter (\<lambda>r. ut_kind r = ''password_reset'')
     (user_tokens (w_db (snd (svc_change_email e ti nid aid token now user pw new_email w)))) =
   filter (\<lambda>r. ut_kind r = ''password_reset'') (user_tokens (w_db w))"
proof -
  let ?T = "\<lambda>w. filter (\<lambda>r. ut_kind r = ''password_reset'') (user_tokens (w_db w))"
  have create: "?T (snd (db_run (db_create_user_token ti now u ''email_verification'' h x) v)) = ?T v" for u h x v
    by (rule create_user_token_other_kind) simp
  have "?T (snd (create_and_enqueue_token e ti nid token now u ''email_verification'' k ttl v)) = ?T v" for u k ttl v
    unfolding create_and_enqueue_token_def
    by (intro then_do_keeps [where T = ?T] create) (simp_all add: enqueue_same(5))
  then have send: "?T (snd (send_verification_email e ti nid token now u v)) = ?T v" for u v
    by (simp add: send_verification_email_def logged_eq)
  have up: "?T (snd (db_run (db_update_user_email i m) v)) = ?T v" for i m v
    by (auto simp: db_run_def db_update_user_email_def update_user_def try_then_def split: sum.splits)
  show ?thesis
    unfolding svc_change_email_def
    by (intro then_do_keeps [where T = ?T] up send) simp_all
qed

end
