(* ===== verification/Sessions.thy ===== *)
theory Sessions
  imports Account
begin

text \<open>
  \<open>src/services/auth.rs\<close>: registration, login, the rotation of refresh tokens, logout and the
  list of sessions. \<open>fresh\<close> holds what a request draws at random: the identifiers of the rows it
  may create, the salt of a password hash and the text of a mailed token.
\<close>

section \<open>Sessions\<close>

record auth_session =
  as_access_token :: string
  as_refresh_token :: string
  as_expires_in_seconds :: nat
  as_user :: user_record
  as_membership :: membership_record

record current_user_profile =
  cp_user :: user_record
  cp_membership :: membership_record

record fresh =
  f_user :: uuid
  f_tenant :: uuid
  f_token :: uuid
  f_notification :: uuid
  f_audit :: uuid
  f_refresh :: uuid
  f_access :: uuid
  f_salt :: string
  f_text :: string

definition refresh_expiry :: "env \<Rightarrow> time \<Rightarrow> time result" where
  "refresh_expiry e now =
     map_ok (\<lambda>ttl. now + ttl) (chrono_from_std (refresh_token_ttl (cfg e)) ''invalid refresh token ttl'')"

definition session_of :: "token_pair \<Rightarrow> user_record \<Rightarrow> membership_record \<Rightarrow> auth_session" where
  "session_of tokens user membership =
     \<lparr>as_access_token = tp_access_token tokens, as_refresh_token = tp_refresh_token tokens,
      as_expires_in_seconds = tp_expires_in_seconds tokens, as_user = user, as_membership = membership\<rparr>"

definition issue_session ::
  "jwt \<Rightarrow> env \<Rightarrow> uuid \<Rightarrow> time \<Rightarrow> user_record \<Rightarrow> membership_record \<Rightarrow> uuid \<Rightarrow> auth_session app" where
  "issue_session j e access_jti now user membership refresh_token_id =
     then_do (lift_result (refresh_expiry e now)) (\<lambda>expires_at.
     then_do (db_run (db_create_refresh_token now refresh_token_id (us_id user) (mr_tenant_id membership) expires_at)) (\<lambda>_.
     then_do (lift_result (issue_token_pair j e access_jti now user membership refresh_token_id)) (\<lambda>tokens.
     ret (session_of tokens user membership))))"

definition resolve_membership :: "uuid \<Rightarrow> uuid option \<Rightarrow> membership_record app" where
  "resolve_membership user tenant =
     (case tenant of
        Some tenant \<Rightarrow> db_try (\<lambda>d. ok_or (db_get_membership user tenant d) (Unauthorized ''membership not found''))
      | None \<Rightarrow> db_try (\<lambda>d. ok_or (db_get_default_membership user d) (Unauthorized ''membership not found'')))"

definition ensure_email_verified :: "env \<Rightarrow> user_record \<Rightarrow> unit result" where
  "ensure_email_verified e user =
     ensure (\<not> (require_email_verification (cfg e) \<and> us_email_verified_at user = None))
       (Forbidden ''email address is not verified'')"

definition parse_uuid :: "env \<Rightarrow> string \<Rightarrow> string \<Rightarrow> uuid result" where
  "parse_uuid e value label = ok_or (parse_uuid_str e value) (Unauthorized (''invalid '' @ label))"

definition workspace_name :: "string \<Rightarrow> string option \<Rightarrow> string" where
  "workspace_name email tenant_name =
     (let default = hd (split_on CHR ''@'' email) @ '' Workspace''
      in case tenant_name of None \<Rightarrow> default
         | Some value \<Rightarrow> if trim value \<noteq> [] then value else default)"

definition svc_register ::
  "jwt \<Rightarrow> env \<Rightarrow> fresh \<Rightarrow> time \<Rightarrow> string \<Rightarrow> string \<Rightarrow> string option \<Rightarrow> auth_session app" where
  "svc_register j e f now email password tenant_name =
     then_do (lift_result (hash_password e (f_salt f) password)) (\<lambda>password_hash.
     then_do (db_run (db_create_user_with_tenant (f_user f) (f_tenant f) now email password_hash
       (workspace_name email tenant_name))) (\<lambda>(user, membership).
     then_do (send_verification_email e (f_token f) (f_notification f) (f_text f) now user) (\<lambda>_.
     then_do (record_event (f_audit f) now (Some (mr_tenant_id membership)) (Some (us_id user)) ''user''
       (Some (us_id user)) ''user.registered'' (JObject [])) (\<lambda>_.
     issue_session j e (f_access f) now user membership (f_refresh f)))))"

definition svc_login ::
  "jwt \<Rightarrow> env \<Rightarrow> fresh \<Rightarrow> time \<Rightarrow> string \<Rightarrow> string \<Rightarrow> uuid option \<Rightarrow> auth_session app" where
  "svc_login j e f now email password tenant =
     then_do (db_read (db_get_user_by_email email)) (\<lambda>u.
     case u of
       None \<Rightarrow>
         then_do (record_event (f_audit f) now None None ''user'' None ''auth.login_failed''
           (JObject [(''reason'', JString ''unknown_email'')])) (\<lambda>_.
         fail (Unauthorized ''invalid credentials''))
     | Some user \<Rightarrow>
         (case verify_password e password (us_password_hash user) of
            Inl error \<Rightarrow>
              then_do (record_event (f_audit f) now None (Some (us_id user)) ''user'' (Some (us_id user))
                ''auth.login_failed'' (JObject [(''reason'', JString ''invalid_password'')])) (\<lambda>_.
              fail error)
          | Inr _ \<Rightarrow>
              then_do (lift_result (ensure_email_verified e user)) (\<lambda>_.
              then_do (resolve_membership (us_id user) tenant) (\<lambda>membership.
              then_do (record_event (f_audit f) now (Some (mr_tenant_id membership)) (Some (us_id user)) ''user''
                (Some (us_id user)) ''auth.login_succeeded'' (JObject [])) (\<lambda>_.
              issue_session j e (f_access f) now user membership (f_refresh f))))))"

definition svc_refresh :: "jwt \<Rightarrow> env \<Rightarrow> fresh \<Rightarrow> time \<Rightarrow> string \<Rightarrow> uuid option \<Rightarrow> auth_session app" where
  "svc_refresh j e f now refresh_token tenant =
     then_do (lift_result (decode_refresh_token j e now refresh_token)) (\<lambda>claims.
     then_do (lift_result (parse_uuid e (tc_jti claims) ''refresh token id'')) (\<lambda>refresh_token_id.
     then_do (lift_result (parse_uuid e (tc_sub claims) ''user id'')) (\<lambda>user_id.
     then_do (db_try (\<lambda>d. ok_or (db_get_refresh_token refresh_token_id d) (Unauthorized ''refresh token not found''))) (\<lambda>recorded.
     if rt_revoked_at recorded \<noteq> None \<or> rt_expires_at recorded \<le> now
     then fail (Unauthorized ''refresh token is expired or revoked'')
     else
       then_do (db_try (db_get_user_by_id user_id)) (\<lambda>user.
       then_do (lift_result (ensure_email_verified e user)) (\<lambda>_.
       then_do (resolve_membership (us_id user) (case tenant of None \<Rightarrow> Some (rt_tenant_id recorded) | Some t \<Rightarrow> Some t)) (\<lambda>membership.
       then_do (lift_result (refresh_expiry e now)) (\<lambda>expires_at.
       then_do (db_run (db_rotate_refresh_token now refresh_token_id (f_refresh f) (us_id user)
         (mr_tenant_id membership) expires_at)) (\<lambda>_.
       then_do (lift_result (issue_token_pair j e (f_access f) now user membership (f_refresh f))) (\<lambda>tokens.
       then_do (record_event (f_audit f) now (Some (mr_tenant_id membership)) (Some (us_id user)) ''user''
         (Some (us_id user)) ''auth.token_refreshed'' (JObject [])) (\<lambda>_.
       ret (session_of tokens user membership))))))))))))"

definition svc_deny_access_token :: "jwt \<Rightarrow> env \<Rightarrow> time \<Rightarrow> string \<Rightarrow> unit app" where
  "svc_deny_access_token j e now access_token =
     (case decode_access_token j e now access_token of
        Inl _ \<Rightarrow> ret ()
      | Inr claims \<Rightarrow>
          let remaining_seconds = tc_exp claims - timestamp now in
          if remaining_seconds \<le> 0 then ret ()
          else cache_run (deny_access_token now (tc_jti claims) (nat remaining_seconds)))"

definition svc_logout :: "jwt \<Rightarrow> env \<Rightarrow> uuid \<Rightarrow> time \<Rightarrow> string \<Rightarrow> string option \<Rightarrow> unit app" where
  "svc_logout j e aid now refresh_token access_token =
     then_do (lift_result (decode_refresh_token j e now refresh_token)) (\<lambda>claims.
     then_do (lift_result (parse_uuid e (tc_jti claims) ''refresh token id'')) (\<lambda>refresh_token_id.
     let user_id = parse_uuid_str e (tc_sub claims) in
     then_do (db_run (\<lambda>d. Inr ((), db_revoke_refresh_token now refresh_token_id d))) (\<lambda>_.
     then_do (record_event aid now None user_id ''user'' user_id ''auth.logged_out'' (JObject [])) (\<lambda>_.
     case access_token of None \<Rightarrow> ret () | Some token \<Rightarrow> svc_deny_access_token j e now token))))"

definition svc_switch_tenant :: "jwt \<Rightarrow> env \<Rightarrow> fresh \<Rightarrow> time \<Rightarrow> uuid \<Rightarrow> uuid \<Rightarrow> auth_session app" where
  "svc_switch_tenant j e f now user_id tenant =
     then_do (db_try (db_get_user_by_id user_id)) (\<lambda>user.
     then_do (db_try (\<lambda>d. ok_or (db_get_membership user_id tenant d) (NotFound ''tenant membership not found''))) (\<lambda>membership.
     issue_session j e (f_access f) now user membership (f_refresh f)))"

definition svc_me :: "uuid \<Rightarrow> uuid \<Rightarrow> current_user_profile app" where
  "svc_me user_id tenant =
     then_do (db_try (db_get_user_by_id user_id)) (\<lambda>user.
     then_do (db_try (\<lambda>d. ok_or (db_get_membership user_id tenant d) (Unauthorized ''membership not found''))) (\<lambda>membership.
     ret \<lparr>cp_user = user, cp_membership = membership\<rparr>))"

definition svc_list_tenants :: "uuid \<Rightarrow> membership_record list app" where
  "svc_list_tenants user_id = db_read (db_list_memberships user_id)"

definition svc_list_sessions :: "time \<Rightarrow> uuid \<Rightarrow> refresh_token_record list app" where
  "svc_list_sessions now user_id = db_read (db_list_active_refresh_tokens now user_id)"

definition svc_revoke_session :: "uuid \<Rightarrow> time \<Rightarrow> uuid \<Rightarrow> uuid \<Rightarrow> uuid \<Rightarrow> unit app" where
  "svc_revoke_session aid now tenant user_id session_id =
     then_do (db_run (\<lambda>d. Inr (db_revoke_user_refresh_token now user_id session_id d))) (\<lambda>revoked.
     if \<not> revoked then fail (NotFound ''session not found'')
     else record_event aid now (Some tenant) (Some user_id) ''user'' (Some user_id) ''auth.session_revoked''
       (JObject [(''session_id'', JUuid session_id)]))"

definition svc_logout_all :: "jwt \<Rightarrow> env \<Rightarrow> uuid \<Rightarrow> time \<Rightarrow> uuid \<Rightarrow> uuid \<Rightarrow> string \<Rightarrow> unit app" where
  "svc_logout_all j e aid now tenant user_id access_token =
     then_do (db_run (\<lambda>d. Inr ((), db_revoke_all_user_refresh_tokens now user_id d))) (\<lambda>_.
     then_do (svc_deny_access_token j e now access_token) (\<lambda>_.
     record_event aid now (Some tenant) (Some user_id) ''user'' (Some user_id)
       ''auth.logged_out_everywhere'' (JObject [])))"

definition svc_list_tenant_members :: "env \<Rightarrow> uuid \<Rightarrow> uuid \<Rightarrow> tenant_member_record list app" where
  "svc_list_tenant_members e active_tenant requested_tenant =
     (if active_tenant \<noteq> requested_tenant then fail (NotFound ''tenant not found'')
      else db_read (db_list_tenant_members e requested_tenant))"

section \<open>What a call does\<close>

lemma db_get_membership_SomeD:
  assumes "db_get_membership user tenant d = Some m"
  shows "\<exists>r \<in> set (memberships d). mb_user_id r = user \<and> mb_tenant_id r = tenant \<and> mb_role r = mr_role m"
    and "mr_user_id m = user" and "mr_tenant_id m = tenant"
proof -
  from assms have "m \<in> set (concat (map (join_tenant d)
      (select_where (\<lambda>m. mb_user_id m = user \<and> mb_tenant_id m = tenant) (memberships d))))"
    unfolding db_get_membership_def by (rule first_row_SomeD)
  then show "\<exists>r \<in> set (memberships d). mb_user_id r = user \<and> mb_tenant_id r = tenant \<and> mb_role r = mr_role m"
    "mr_user_id m = user" "mr_tenant_id m = tenant"
    by (auto simp: select_where_def join_tenant_def)
qed

lemma db_get_default_membership_SomeD:
  assumes "db_get_default_membership user d = Some m"
  shows "\<exists>r \<in> set (memberships d). mb_user_id r = user \<and> mb_tenant_id r = mr_tenant_id m \<and> mb_role r = mr_role m"
proof -
  from assms have "m \<in> set (db_list_memberships user d)"
    unfolding db_get_default_membership_def by (rule first_row_SomeD)
  then show ?thesis by (auto simp: db_list_memberships_def select_where_def join_tenant_def)
qed

lemma resolve_membership_Inr:
  assumes "resolve_membership user tenant w = (Inr m, w')"
  shows "w' = w" and "\<exists>r \<in> set (memberships (w_db w)). mb_user_id r = user \<and>
      mb_tenant_id r = mr_tenant_id m \<and> mb_role r = mr_role m"
    and "\<And>t. tenant = Some t \<Longrightarrow> mr_tenant_id m = t"
  using assms db_get_membership_SomeD [of user "the tenant" "w_db w" m]
    db_get_default_membership_SomeD [of user "w_db w" m]
  by (auto simp: resolve_membership_def split: option.splits)

lemma issue_session_Inr:
  assumes "issue_session j e aj now u m rid w = (Inr s, w')"
  obtains x p where "refresh_expiry e now = Inr x" "issue_token_pair j e aj now u m rid = Inr p"
    "s = session_of p u m" "rid \<notin> rt_id ` set (refresh_tokens (w_db w))"
    "w' = w\<lparr>w_db := (w_db w)\<lparr>refresh_tokens := refresh_tokens (w_db w) @
       [new_refresh_row rid (us_id u) (mr_tenant_id m) x now]\<rparr>\<rparr>"
  using assms
  by (auto simp: issue_session_def then_do_Inr db_run_Inr db_create_refresh_token_def try_then_Inr
      insert_row_Inr new_refresh_row_def)

lemma svc_refresh_Inr:
  assumes "svc_refresh j e f now token tenant w = (Inr s, w')"
  obtains c i ui r u m x d p where
    "decode_refresh_token j e now token = Inr c" "parse_uuid_str e (tc_jti c) = Some i"
    "parse_uuid_str e (tc_sub c) = Some ui" "db_get_refresh_token i (w_db w) = Some r" "refresh_live now r"
    "db_get_user_by_id ui (w_db w) = Inr u" "ensure_email_verified e u = Inr ()"
    "resolve_membership (us_id u) (case tenant of None \<Rightarrow> Some (rt_tenant_id r) | Some t \<Rightarrow> Some t) w = (Inr m, w)"
    "refresh_expiry e now = Inr x"
    "db_rotate_refresh_token now i (f_refresh f) (us_id u) (mr_tenant_id m) x (w_db w) = Inr ((), d)"
    "issue_token_pair j e (f_access f) now u m (f_refresh f) = Inr p" "s = session_of p u m"
    "w' = snd (record_event (f_audit f) now (Some (mr_tenant_id m)) (Some (us_id u)) ''user''
         (Some (us_id u)) ''auth.token_refreshed'' (JObject []) (w\<lparr>w_db := d\<rparr>))"
proof -
  from assms obtain c i ui r u m v x d p where 1: "decode_refresh_token j e now token = Inr c"
    "parse_uuid_str e (tc_jti c) = Some i" "parse_uuid_str e (tc_sub c) = Some ui"
    "db_get_refresh_token i (w_db w) = Some r" "refresh_live now r" "db_get_user_by_id ui (w_db w) = Inr u"
    "ensure_email_verified e u = Inr ()"
    "resolve_membership (us_id u) (case tenant of None \<Rightarrow> Some (rt_tenant_id r) | Some t \<Rightarrow> Some t) w = (Inr m, v)"
    "refresh_expiry e now = Inr x"
    "db_rotate_refresh_token now i (f_refresh f) (us_id u) (mr_tenant_id m) x (w_db v) = Inr ((), d)"
    "issue_token_pair j e (f_access f) now u m (f_refresh f) = Inr p" "s = session_of p u m"
    "w' = snd (record_event (f_audit f) now (Some (mr_tenant_id m)) (Some (us_id u)) ''user''
         (Some (us_id u)) ''auth.token_refreshed'' (JObject []) (v\<lparr>w_db := d\<rparr>))"
    by (auto simp: svc_refresh_def then_do_Inr parse_uuid_def refresh_live_def db_run_Inr split: if_splits)
  moreover from 1(8) have "v = w" by (rule resolve_membership_Inr(1))
  ultimately show ?thesis by (intro that) simp_all
qed

lemma deny_access_token_db [simp]: "w_db (snd (svc_deny_access_token j e now token w)) = w_db w"
  by (auto simp: svc_deny_access_token_def Let_def cache_run_def deny_access_token_def split: sum.splits)

lemma deny_access_token_ok: "fst (svc_deny_access_token j e now token w) = Inr ()"
  by (auto simp: svc_deny_access_token_def Let_def cache_run_def deny_access_token_def split: sum.splits)

end
