(* ===== verification/SessionProperties.thy ===== *)
theory SessionProperties
  imports Sessions
begin

text \<open>
  The properties of sessions: a refresh token works once, logging out everywhere ends every
  session, a session is always for a membership that exists, and what a session's tokens say.
\<close>

section \<open>Refresh tokens that are spent\<close>

lemma spent_refresh_refused:
  assumes "\<And>c. decode_refresh_token j e later token = Inr c \<Longrightarrow>
      \<exists>i. parse_uuid_str e (tc_jti c) = Some i \<and> refresh_spent i (w_db w, used)"
  shows "\<exists>m. svc_refresh j e f later token tenant w = (Inl (Unauthorized m), w)"
proof (cases "decode_refresh_token j e later token")
  case (Inl err)
  then show ?thesis using decode_token_Inl [of j e later "''refresh''" token err]
    by (auto simp: svc_refresh_def decode_refresh_token_def)
next
  case (Inr c)
  with assms obtain i where i: "parse_uuid_str e (tc_jti c) = Some i" "refresh_spent i (w_db w, used)" by blast
  show ?thesis
  proof (cases "parse_uuid_str e (tc_sub c)")
    case None
    with Inr i(1) show ?thesis by (simp add: svc_refresh_def parse_uuid_def)
  next
    case (Some ui)
    show ?thesis
    proof (cases "db_get_refresh_token i (w_db w)")
      case None
      with Inr i(1) Some show ?thesis by (simp add: svc_refresh_def parse_uuid_def)
    next
      case (Some r)
      then have "rt_revoked_at r \<noteq> None"
        using i(2) by (auto simp: db_get_refresh_token_def refresh_spent_def dest!: fetch_optional_SomeD)
      with Inr i(1) Some \<open>parse_uuid_str e (tc_sub c) = Some ui\<close> show ?thesis
        by (simp add: svc_refresh_def parse_uuid_def)
    qed
  qed
qed

lemma refresh_spends:
  assumes run: "svc_refresh j e f now token tenant w = (Inr s, w')"
    and inv: "refresh_inv (w_db w, used)"
  obtains c i where "decode_refresh_token j e now token = Inr c" "parse_uuid_str e (tc_jti c) = Some i"
    "refresh_inv (w_db w', insert (f_refresh f) used)" "refresh_spent i (w_db w', insert (f_refresh f) used)"
proof -
  from run obtain c i and u :: user_record and m :: membership_record and x d where c: "decode_refresh_token j e now token = Inr c"
    "parse_uuid_str e (tc_jti c) = Some i"
    and rot: "db_rotate_refresh_token now i (f_refresh f) (us_id u) (mr_tenant_id m) x (w_db w) = Inr ((), d)"
    and w': "w' = snd (record_event (f_audit f) now (Some (mr_tenant_id m)) (Some (us_id u)) ''user''
         (Some (us_id u)) ''auth.token_refreshed'' (JObject []) (w\<lparr>w_db := d\<rparr>))"
    by (rule svc_refresh_Inr)
  let ?s = "(d, insert (f_refresh f) used)"
  from rot have "refresh_consume (f_refresh f) (us_id u) (mr_tenant_id m) x now i (w_db w, used) = Inr ((), ?s)"
    by (simp add: refresh_consume_def)
  from refresh_rotation.consume_spends [OF inv this]
  have s: "refresh_inv ?s" "refresh_spent i ?s" by simp_all
  have "refresh_step ?s (w_db w', insert (f_refresh f) used)" by (rule refresh_step.other) (simp add: w')
  with s show ?thesis using that c refresh_step_inv refresh_step_keeps by blast
qed

text \<open>C5. A refresh token works once: after a refresh that succeeded, presenting the same token
  again is refused as unauthorized and changes nothing, whoever presents it, for whatever tenant,
  at whatever time, and whatever refresh tokens were created, rotated, revoked or purged since.\<close>

theorem refresh_token_single_use:
  assumes "jwt_ok j" and run: "svc_refresh j e f now token tenant w = (Inr s, w1)"
    and inv: "refresh_inv (w_db w, used)"
    and steps: "refresh_step\<^sup>*\<^sup>* (w_db w1, insert (f_refresh f) used) (w_db w2, used2)"
  shows "\<exists>m. svc_refresh j e g later token tenant2 w2 = (Inl (Unauthorized m), w2)"
proof -
  from refresh_spends [OF run inv] obtain c i where c: "decode_refresh_token j e now token = Inr c"
    "parse_uuid_str e (tc_jti c) = Some i"
    and s: "refresh_inv (w_db w1, insert (f_refresh f) used)" "refresh_spent i (w_db w1, insert (f_refresh f) used)" .
  have "refresh_spent i (w_db w2, used2)" using refresh_rotation.steps_keep [OF steps s] by simp
  moreover have "c = c2" if "decode_refresh_token j e later token = Inr c2" for c2
    using decode_unique [OF assms(1)] c(1) that unfolding decode_refresh_token_def by blast
  ultimately show ?thesis using c(2) by (intro spent_refresh_refused) blast
qed

section \<open>A concrete session\<close>

definition demo_fresh :: "uuid \<Rightarrow> fresh" where
  "demo_fresh n = \<lparr>f_user = n, f_tenant = n + 1, f_token = n + 2, f_notification = n + 3, f_audit = n + 4,
     f_refresh = n + 5, f_access = n + 6, f_salt = ''salt'', f_text = ''text''\<rparr>"

definition demo_claims :: "string \<Rightarrow> uuid \<Rightarrow> token_claims" where
  "demo_claims ty i = \<lparr>tc_sub = unary 1, tc_tenant_id = unary 5, tc_role = ''owner'', tc_token_type = ty,
     tc_jti = unary i, tc_iat = 0, tc_exp = 1000\<rparr>"

definition demo_token :: "string \<Rightarrow> uuid \<Rightarrow> string" where
  "demo_token ty i = the (jwt_encode sample_jwt (jwt_secret (cfg sample_env)) (demo_claims ty i))"

definition demo_session_world :: world where
  "demo_session_world = demo_world\<lparr>w_db := demo_db\<lparr>
     memberships := [demo_member 1 ''owner''], refresh_tokens := [new_refresh_row 41 1 5 (seconds 1000) 0]\<rparr>\<rparr>"

lemmas demo_session_simps = demo_session_world_def demo_world_def demo_simps demo_member_def new_refresh_row_def

lemma demo_token_decodes:
  "timestamp t \<le> 1060 \<Longrightarrow> decode_token sample_jwt sample_env t ty (demo_token ty i) = Inr (demo_claims ty i)"
proof -
  assume t: "timestamp t \<le> 1060"
  have "jwt_encode sample_jwt (jwt_secret (cfg sample_env)) (demo_claims ty i) = Some (demo_token ty i)"
    by (simp add: demo_token_def sample_jwt_def sample_encode_def)
  with sample_jwt_ok have "jwt_decode sample_jwt (jwt_secret (cfg sample_env)) (timestamp t) (demo_token ty i) =
      (if tc_exp (demo_claims ty i) < timestamp t - jwt_leeway then None else Some (demo_claims ty i))"
    unfolding jwt_ok_def by blast
  with t show ?thesis by (simp add: decode_token_Inr demo_claims_def jwt_leeway_def)
qed

lemma sample_encodes: "\<exists>p. issue_token_pair sample_jwt sample_env aj now u m rid = Inr p"
  by (simp add: issue_token_pair_def chrono_from_std_def access_token_ttl_def refresh_token_ttl_def
      i64_mul_as_u64_def sample_env_def default_cli_def encode_token_def sample_jwt_def sample_encode_def Let_def)

lemma sample_refresh_expiry: "refresh_expiry sample_env now = Inr (now + seconds 2592000)"
  by (simp add: refresh_expiry_def chrono_from_std_def refresh_token_ttl_def i64_mul_as_u64_def
      sample_env_def default_cli_def)

lemma demo_refresh_runs:
  "\<exists>s w'. svc_refresh sample_jwt sample_env (demo_fresh 50) 7 (demo_token ''refresh'' 41) None demo_session_world = (Inr s, w')"
proof -
  have dec: "decode_refresh_token sample_jwt sample_env 7 (demo_token ''refresh'' 41) = Inr (demo_claims ''refresh'' 41)"
    by (simp add: decode_refresh_token_def demo_token_decodes timestamp_def)
  have parse: "parse_uuid_str sample_env (unary n) = Some n" for n by (simp add: sample_env_def unary_def)
  have cfg: "\<not> require_email_verification (cfg sample_env)" by (simp add: sample_env_def default_cli_def)
  obtain p where p: "issue_token_pair sample_jwt sample_env (f_access (demo_fresh 50)) 7 demo_user
      \<lparr>mr_tenant_id = 5, mr_tenant_name = ''T'', mr_user_id = 1, mr_role = ''owner'', mr_created_at = 0\<rparr>
      (f_refresh (demo_fresh 50)) = Inr p" using sample_encodes by blast
  have look: "db_get_refresh_token 41 (w_db demo_session_world) = Some (new_refresh_row 41 1 5 (seconds 1000) 0)"
    "db_get_user_by_id 1 (w_db demo_session_world) = Inr demo_user"
    "resolve_membership 1 (Some 5) demo_session_world = (Inr \<lparr>mr_tenant_id = 5, mr_tenant_name = ''T'', mr_user_id = 1,
       mr_role = ''owner'', mr_created_at = 0\<rparr>, demo_session_world)"
    by (simp_all add: db_get_refresh_token_def db_get_user_by_id_def fetch_optional_def resolve_membership_def
        db_get_membership_def select_where_def join_tenant_def demo_session_simps)
  have row: "rt_revoked_at (new_refresh_row 41 1 5 (seconds 1000) 0) = None"
    "rt_expires_at (new_refresh_row 41 1 5 (seconds 1000) 0) = seconds 1000"
    "rt_tenant_id (new_refresh_row 41 1 5 (seconds 1000) 0) = 5" by (simp_all add: new_refresh_row_def)
  have claims: "tc_jti (demo_claims ''refresh'' 41) = unary 41" "tc_sub (demo_claims ''refresh'' 41) = unary 1"
    by (simp_all add: demo_claims_def)
  have user: "us_id demo_user = 1" "us_email_verified_at demo_user = None" by (simp_all add: demo_user_def)
  have rot: "\<exists>d. db_rotate_refresh_token 7 41 (f_refresh (demo_fresh 50)) 1 5 (7 + seconds 2592000)
      (w_db demo_session_world) = Inr ((), d)"
    by (simp add: db_rotate_refresh_token_def refresh_live_def row_exists_def demo_session_simps demo_fresh_def
        insert_row_def update_where_def seconds_def user_exists_def tenant_exists_def Let_def)
  then obtain d where d: "db_rotate_refresh_token 7 41 (f_refresh (demo_fresh 50)) 1 5 (7 + seconds 2592000)
      (w_db demo_session_world) = Inr ((), d)" ..
  have late: "\<not> seconds 1000 \<le> 7" by (simp add: seconds_def)
  show ?thesis
    using p d late
    by (simp add: svc_refresh_def dec claims parse_uuid_def parse look row user cfg ensure_email_verified_def
        sample_refresh_expiry del: One_nat_def)
qed

theorem refresh_token_single_use_witness:
  "\<exists>m w1. fst (svc_refresh sample_jwt sample_env (demo_fresh 50) 7 (demo_token ''refresh'' 41) None demo_session_world)
      \<in> range Inr \<and>
    w1 = snd (svc_refresh sample_jwt sample_env (demo_fresh 50) 7 (demo_token ''refresh'' 41) None demo_session_world) \<and>
    svc_refresh sample_jwt sample_env (demo_fresh 70) 8 (demo_token ''refresh'' 41) None w1 = (Inl (Unauthorized m), w1)"
proof -
  obtain s w1 where run: "svc_refresh sample_jwt sample_env (demo_fresh 50) 7 (demo_token ''refresh'' 41) None
      demo_session_world = (Inr s, w1)" using demo_refresh_runs by blast
  have inv: "refresh_inv (w_db demo_session_world, {41})" by (simp add: refresh_inv_def demo_session_simps)
  from refresh_token_single_use [OF sample_jwt_ok run inv rtranclp.rtrancl_refl, of "demo_fresh 70" 8 None] run
  show ?thesis by auto
qed

section \<open>Logging out everywhere\<close>

lemma svc_logout_all_run:
  "svc_logout_all j e aid now tenant user token w = (Inr (), w') \<Longrightarrow>
     refresh_tokens (w_db w') = update_where (\<lambda>r. rt_user_id r = user \<and> rt_revoked_at r = None) (revoke_row now)
       (refresh_tokens (w_db w)) \<and>
     w_redis w' = w_redis (snd (svc_deny_access_token j e now token w))"
proof -
  assume run: "svc_logout_all j e aid now tenant user token w = (Inr (), w')"
  let ?v = "w\<lparr>w_db := db_revoke_all_user_refresh_tokens now user (w_db w)\<rparr>"
  have redis: "w_redis (snd (svc_deny_access_token j e now token (v\<lparr>w_db := d\<rparr>))) =
      w_redis (snd (svc_deny_access_token j e now token v))" for v d
    by (auto simp: svc_deny_access_token_def Let_def cache_run_def split: sum.splits prod.splits)
  have "then_do (svc_deny_access_token j e now token) f ?v = f () (snd (svc_deny_access_token j e now token ?v))" for f :: "unit \<Rightarrow> unit app"
    using deny_access_token_ok [of j e now token ?v]
    by (cases "svc_deny_access_token j e now token ?v") (simp add: then_do_def)
  with run have "w' = snd (record_event aid now (Some tenant) (Some user) ''user'' (Some user)
      ''auth.logged_out_everywhere'' (JObject []) (snd (svc_deny_access_token j e now token ?v)))"
    by (simp add: svc_logout_all_def)
  then show ?thesis
    by (simp add: redis) (simp add: db_revoke_all_user_refresh_tokens_def revoke_where_def)
qed

lemma logout_all_ends_sessions_parts:
  assumes jwt: "jwt_ok j" and run: "svc_logout_all j e aid now tenant user access w = (Inr (), w1)"
    and inv: "refresh_inv (w_db w, used)"
    and steps: "refresh_step\<^sup>*\<^sup>* (w_db w1, used) (w_db w2, used2)"
  shows "\<lbrakk>decode_refresh_token j e issued token = Inr c; parse_uuid_str e (tc_jti c) = Some i;
      db_get_refresh_token i (w_db w) = Some r; rt_user_id r = user\<rbrakk> \<Longrightarrow>
      \<exists>m. svc_refresh j e f later token tenant2 w2 = (Inl (Unauthorized m), w2)"
    and "\<lbrakk>decode_access_token j e now access = Inr a; timestamp now < tc_exp a;
      t < now + seconds (tc_exp a - timestamp now)\<rbrakk> \<Longrightarrow>
      is_access_token_denied t (tc_jti a) (w_redis w1) = (Inr True, w_redis w1)"
proof -
  note l = svc_logout_all_run [OF run]
  show "\<exists>m. svc_refresh j e f later token tenant2 w2 = (Inl (Unauthorized m), w2)"
    if c: "decode_refresh_token j e issued token = Inr c" "parse_uuid_str e (tc_jti c) = Some i"
      and r: "db_get_refresh_token i (w_db w) = Some r" "rt_user_id r = user"
  proof -
    from r(1) have rr: "r \<in> set (refresh_tokens (w_db w))" "rt_id r = i"
      by (auto simp: db_get_refresh_token_def dest: fetch_optional_SomeD)
    have dist: "distinct (map rt_id (refresh_tokens (w_db w)))" and i: "i \<in> used"
      using inv rr unfolding refresh_inv_def by auto
    have ids: "map rt_id (refresh_tokens (w_db w1)) = map rt_id (refresh_tokens (w_db w))"
      using l by (simp add: map_key_update_where revoke_row_def)
    have "refresh_inv (w_db w1, used)" using inv ids unfolding refresh_inv_def by (simp del: set_map)
    moreover have "refresh_spent i (w_db w1, used)"
    proof -
      have "rt_revoked_at q \<noteq> None" if q: "q \<in> set (refresh_tokens (w_db w1))" "rt_id q = i" for q
      proof -
        from q(1) l consider "q \<in> set (refresh_tokens (w_db w))" "\<not> (rt_user_id q = user \<and> rt_revoked_at q = None)"
          | p where "q = revoke_row now p"
          by (auto simp: in_update_where)
        then show ?thesis
        proof cases
          case 1
          have "q = r" by (rule key_unique [OF dist 1(1) rr(1)]) (simp add: q(2) rr(2))
          with 1 r(2) show ?thesis by simp
        qed (simp add: revoke_row_def split: option.splits)
      qed
      with i show ?thesis by (simp add: refresh_spent_def)
    qed
    ultimately have "refresh_spent i (w_db w2, used2)" using refresh_rotation.steps_keep [OF steps] by blast
    moreover have "c = c2" if "decode_refresh_token j e later token = Inr c2" for c2
      using decode_unique [OF jwt] c(1) that unfolding decode_refresh_token_def by blast
    ultimately show ?thesis using c(2) by (intro spent_refresh_refused) blast
  qed
  show "is_access_token_denied t (tc_jti a) (w_redis w1) = (Inr True, w_redis w1)"
    if a: "decode_access_token j e now access = Inr a" "timestamp now < tc_exp a"
      "t < now + seconds (tc_exp a - timestamp now)"
    using l a by (simp add: svc_deny_access_token_def cache_run_def deny_access_token_def
        is_access_token_denied_def)
qed

text \<open>C19. Logging out everywhere ends every session of the user: whatever is done to the refresh
  tokens afterwards, each refresh token issued to that user before is refused from then on; and the
  access token presented with the request is on the deny list until it expires.\<close>

theorem logout_all_ends_sessions:
  assumes jwt: "jwt_ok j" and run: "svc_logout_all j e aid now tenant user access w = (Inr (), w1)"
    and inv: "refresh_inv (w_db w, used)"
    and steps: "refresh_step\<^sup>*\<^sup>* (w_db w1, used) (w_db w2, used2)"
  shows "(\<forall>token issued c i r f later tenant2. decode_refresh_token j e issued token = Inr c \<longrightarrow>
      parse_uuid_str e (tc_jti c) = Some i \<longrightarrow> db_get_refresh_token i (w_db w) = Some r \<longrightarrow> rt_user_id r = user \<longrightarrow>
      (\<exists>m. svc_refresh j e f later token tenant2 w2 = (Inl (Unauthorized m), w2))) \<and>
    (\<forall>a t. decode_access_token j e now access = Inr a \<longrightarrow> timestamp now < tc_exp a \<longrightarrow>
      t < now + seconds (tc_exp a - timestamp now) \<longrightarrow>
      is_access_token_denied t (tc_jti a) (w_redis w1) = (Inr True, w_redis w1))"
  using logout_all_ends_sessions_parts [OF jwt run inv steps] by blast

lemma demo_logout_all_runs:
  "\<exists>w'. svc_logout_all sample_jwt sample_env 90 7 5 1 (demo_token ''access'' 60) demo_session_world = (Inr (), w')"
proof -
  have "fst (svc_logout_all sample_jwt sample_env 90 7 5 1 (demo_token ''access'' 60) demo_session_world) = Inr ()"
    by (simp add: svc_logout_all_def then_do_def db_run_def deny_access_token_ok record_event_ok
        split: prod.splits sum.splits) (metis deny_access_token_ok fst_conv record_event_ok sum.distinct(1))
  then show ?thesis by (metis prod.collapse)
qed

theorem logout_all_ends_sessions_witness:
  "\<exists>w1 m. svc_logout_all sample_jwt sample_env 90 7 5 1 (demo_token ''access'' 60) demo_session_world = (Inr (), w1) \<and>
     svc_refresh sample_jwt sample_env (demo_fresh 70) 8 (demo_token ''refresh'' 41) None w1 = (Inl (Unauthorized m), w1) \<and>
     is_access_token_denied 8 (unary 60) (w_redis w1) = (Inr True, w_redis w1)"
proof -
  obtain w1 where run: "svc_logout_all sample_jwt sample_env 90 7 5 1 (demo_token ''access'' 60) demo_session_world =
      (Inr (), w1)" using demo_logout_all_runs by blast
  have inv: "refresh_inv (w_db demo_session_world, {41})" by (simp add: refresh_inv_def demo_session_simps)
  have dec: "decode_token sample_jwt sample_env 7 ty (demo_token ty i) = Inr (demo_claims ty i)" for ty i
    by (simp add: demo_token_decodes timestamp_def)
  have look: "db_get_refresh_token 41 (w_db demo_session_world) = Some (new_refresh_row 41 1 5 (seconds 1000) 0)"
    by (simp add: db_get_refresh_token_def fetch_optional_def demo_session_simps)
  have jti: "parse_uuid_str sample_env (tc_jti (demo_claims ''refresh'' 41)) = Some 41"
    by (simp add: sample_env_def demo_claims_def unary_def)
  note l = logout_all_ends_sessions [OF sample_jwt_ok run inv rtranclp.rtrancl_refl, THEN conjunct1, rule_format]
    logout_all_ends_sessions [OF sample_jwt_ok run inv rtranclp.rtrancl_refl, THEN conjunct2, rule_format]
  have "\<exists>m. svc_refresh sample_jwt sample_env (demo_fresh 70) 8 (demo_token ''refresh'' 41) None w1 = (Inl (Unauthorized m), w1)"
    by (rule l(1) [OF dec [of "''refresh''" 41, folded decode_refresh_token_def] jti look])
      (simp add: new_refresh_row_def)
  moreover have "is_access_token_denied 8 (tc_jti (demo_claims ''access'' 60)) (w_redis w1) = (Inr True, w_redis w1)"
    using dec by (intro l(2)) (simp_all add: decode_access_token_def demo_claims_def timestamp_def seconds_def)
  ultimately show ?thesis using run by (auto simp: demo_claims_def)
qed

text \<open>
  The deny list entry lasts until the expiry of the token, the signature check sixty seconds longer:
  in between, a token that was logged out decodes and is on no list.
\<close>

lemma logged_out_token_works_again:
  assumes jwt: "jwt_ok j" and enc: "jwt_encode j (jwt_secret (cfg e)) a = Some token"
    and a: "tc_token_type a = ''access''" "timestamp now < tc_exp a"
    and t: "now + seconds (tc_exp a - timestamp now) \<le> t" "timestamp t \<le> tc_exp a + jwt_leeway"
  shows "decode_access_token j e t token = Inr a \<and>
    is_access_token_denied t (tc_jti a) (w_redis (snd (svc_deny_access_token j e now token w))) =
      (Inr False, w_redis (snd (svc_deny_access_token j e now token w)))"
proof -
  have dec: "decode_access_token j e s token =
      (if tc_exp a < timestamp s - jwt_leeway then Inl (Unauthorized ''token error'') else Inr a)" for s
  proof -
    have "jwt_decode j (jwt_secret (cfg e)) (timestamp s) token =
        (if tc_exp a < timestamp s - jwt_leeway then None else Some a)"
      using jwt enc unfolding jwt_ok_def by blast
    then show ?thesis by (simp add: decode_defs a(1))
  qed
  have "max (nat (tc_exp a - timestamp now)) 1 = nat (tc_exp a - timestamp now)" using a(2) by simp
  with a(2) t dec [of now] dec [of t] show ?thesis
    by (simp add: svc_deny_access_token_def cache_run_def deny_access_token_def is_access_token_denied_def
        jwt_leeway_def)
qed

section \<open>Sessions and memberships\<close>

definition has_membership :: "db \<Rightarrow> auth_session \<Rightarrow> bool" where
  "has_membership d s \<longleftrightarrow>
     (\<exists>r \<in> set (memberships d). mb_user_id r = us_id (as_user s) \<and>
        mb_tenant_id r = mr_tenant_id (as_membership s) \<and> mb_role r = mr_role (as_membership s))"

lemma session_needs_membership_parts:
  assumes "svc_login j e f now email password tenant w = (Inr s, w') \<or>
    svc_refresh j e f now token tenant w = (Inr s, w') \<or>
    svc_switch_tenant j e f now user tenant2 w = (Inr s, w')"
  shows "has_membership (w_db w) s \<and> as_user s \<in> set (users (w_db w))"
    and "svc_login j e f now email password tenant w = (Inr s, w') \<Longrightarrow>
      us_email (as_user s) = email \<and> argon2_verify e (us_password_hash (as_user s)) password = Some True"
    and "svc_login j e f now email password tenant w = (Inr s, w') \<or>
      svc_refresh j e f now token tenant w = (Inr s, w') \<Longrightarrow>
      require_email_verification (cfg e) \<Longrightarrow> us_email_verified_at (as_user s) \<noteq> None"
proof -
  have login: "has_membership (w_db w) s \<and> as_user s \<in> set (users (w_db w)) \<and> us_email (as_user s) = email \<and>
      argon2_verify e (us_password_hash (as_user s)) password = Some True \<and>
      (require_email_verification (cfg e) \<longrightarrow> us_email_verified_at (as_user s) \<noteq> None)"
    if run: "svc_login j e f now email password tenant w = (Inr s, w')"
  proof -
    from run obtain u where u: "db_get_user_by_email email (w_db w) = Some u"
      by (cases "db_get_user_by_email email (w_db w)") (auto simp: svc_login_def then_do_def split: prod.splits sum.splits)
    have v: "argon2_verify e (us_password_hash u) password = Some True"
    proof (cases "verify_password e password (us_password_hash u)")
      case (Inl err)
      with run u show ?thesis by (simp add: svc_login_def then_do_def [of "db_read f" for f])
    next
      case (Inr x)
      then show ?thesis by simp
    qed
    then have vp: "verify_password e password (us_password_hash u) = Inr ()" by simp
    from run u vp obtain m and v where m: "ensure_email_verified e u = Inr ()"
      "resolve_membership (us_id u) tenant w = (Inr m, v)"
      and i: "issue_session j e (f_access f) now u m (f_refresh f) (snd (record_event (f_audit f) now
        (Some (mr_tenant_id m)) (Some (us_id u)) ''user'' (Some (us_id u)) ''auth.login_succeeded'' (JObject []) v)) =
        (Inr s, w')"
      by (auto simp: svc_login_def then_do_Inr)
    from i obtain p where "s = session_of p u m" by (rule issue_session_Inr)
    then show ?thesis
      using resolve_membership_Inr [OF m(2)] m(1) v u
      by (auto simp: has_membership_def session_of_def ensure_email_verified_def db_get_user_by_email_def
          dest: fetch_optional_SomeD)
  qed
  have refresh: "has_membership (w_db w) s \<and> as_user s \<in> set (users (w_db w)) \<and>
      (require_email_verification (cfg e) \<longrightarrow> us_email_verified_at (as_user s) \<noteq> None)"
    if run: "svc_refresh j e f now token tenant w = (Inr s, w')"
  proof -
    from run obtain ui m p and r :: refresh_token_record and u :: user_record where
      u: "db_get_user_by_id ui (w_db w) = Inr u" "ensure_email_verified e u = Inr ()"
      "resolve_membership (us_id u) (case tenant of None \<Rightarrow> Some (rt_tenant_id r) | Some t \<Rightarrow> Some t) w = (Inr m, w)"
      "s = session_of p u m" by (rule svc_refresh_Inr)
    then show ?thesis using resolve_membership_Inr [OF u(3)] db_get_user_by_id_InrD [OF u(1)]
      by (auto simp: has_membership_def session_of_def ensure_email_verified_def)
  qed
  have switch: "has_membership (w_db w) s \<and> as_user s \<in> set (users (w_db w))"
    if run: "svc_switch_tenant j e f now user tenant2 w = (Inr s, w')"
  proof -
    from run obtain u m where u: "db_get_user_by_id user (w_db w) = Inr u"
      "db_get_membership user tenant2 (w_db w) = Some m"
      and i: "issue_session j e (f_access f) now u m (f_refresh f) w = (Inr s, w')"
      by (auto simp: svc_switch_tenant_def then_do_Inr)
    from i obtain p where "s = session_of p u m" by (rule issue_session_Inr)
    then show ?thesis
      using db_get_membership_SomeD [OF u(2)] db_get_user_by_id_InrD [OF u(1)]
      by (auto simp: has_membership_def session_of_def)
  qed
  show "has_membership (w_db w) s \<and> as_user s \<in> set (users (w_db w))"
    using assms login refresh switch by blast
  show "us_email (as_user s) = email \<and> argon2_verify e (us_password_hash (as_user s)) password = Some True"
    if "svc_login j e f now email password tenant w = (Inr s, w')" using login [OF that] by simp
  show "us_email_verified_at (as_user s) \<noteq> None"
    if "svc_login j e f now email password tenant w = (Inr s, w') \<or> svc_refresh j e f now token tenant w = (Inr s, w')"
      "require_email_verification (cfg e)"
    using login refresh that by blast
qed



text \<open>What a registration leaves in the tables.\<close>

lemma registered:
  assumes run: "svc_register j e f now email password name w = (Inr s, w1)"
  obtains h u m p where "argon2_hash e (f_salt f) password = Some h"
    and "u = \<lparr>us_id = f_user f, us_email = email, us_password_hash = h, us_display_name = None,
      us_email_verified_at = None, us_created_at = now\<rparr>"
    and "m = \<lparr>mr_tenant_id = f_tenant f, mr_tenant_name = workspace_name email name, mr_user_id = f_user f,
      mr_role = ''owner'', mr_created_at = now\<rparr>"
    and "users (w_db w1) = users (w_db w) @ [u]" "email \<notin> us_email ` set (users (w_db w))"
    and "tenants (w_db w1) = tenants (w_db w) @ [\<lparr>tn_id = f_tenant f, tn_name = workspace_name email name, tn_created_at = now\<rparr>]"
      "f_tenant f \<notin> tn_id ` set (tenants (w_db w))"
    and "memberships (w_db w1) = memberships (w_db w) @ [\<lparr>mb_tenant_id = f_tenant f, mb_user_id = f_user f,
      mb_role = ''owner'', mb_created_at = now\<rparr>]"
    and "issue_token_pair j e (f_access f) now u m (f_refresh f) = Inr p" "s = session_of p u m"
proof -
  from run obtain h u m d where h: "argon2_hash e (f_salt f) password = Some h"
    and c: "db_create_user_with_tenant (f_user f) (f_tenant f) now email h (workspace_name email name) (w_db w) = Inr ((u, m), d)"
    and i: "issue_session j e (f_access f) now u m (f_refresh f) (snd (record_event (f_audit f) now
       (Some (mr_tenant_id m)) (Some (us_id u)) ''user'' (Some (us_id u)) ''user.registered'' (JObject [])
       (snd (send_verification_email e (f_token f) (f_notification f) (f_text f) now u (w\<lparr>w_db := d\<rparr>))))) = (Inr s, w1)"
    by (auto simp: svc_register_def then_do_Inr db_run_Inr hash_password_def)
  from i obtain x p where p: "issue_token_pair j e (f_access f) now u m (f_refresh f) = Inr p" "s = session_of p u m"
    and "users (w_db w1) = users d" "memberships (w_db w1) = memberships d" "tenants (w_db w1) = tenants d"
    by (rule issue_session_Inr) (simp add: send_verification_email_def logged_eq)
  with h c show thesis
    by (intro that) (auto simp: db_create_user_with_tenant_def Let_def try_then_Inr insert_row_Inr)
qed

text \<open>The membership a user was registered with is the one a login without a tenant finds.\<close>

lemma only_membership:
  assumes "\<forall>m \<in> set ms. mb_user_id m \<noteq> user" and "tenant \<notin> tn_id ` set ts"
    and "memberships d = ms @ [\<lparr>mb_tenant_id = tenant, mb_user_id = user, mb_role = role, mb_created_at = now\<rparr>]"
    and "tenants d = ts @ [\<lparr>tn_id = tenant, tn_name = name, tn_created_at = now\<rparr>]"
  shows "db_get_default_membership user d = Some \<lparr>mr_tenant_id = tenant, mr_tenant_name = name, mr_user_id = user,
    mr_role = role, mr_created_at = now\<rparr>"
proof -
  have "tn_id q \<noteq> tenant" if "q \<in> set ts" for q using assms(2) that by (metis imageI)
  then have "select_where (\<lambda>t. tn_id t = tenant) (tenants d) = [\<lparr>tn_id = tenant, tn_name = name, tn_created_at = now\<rparr>]"
    by (simp add: select_where_def assms(4) filter_empty_conv)
  moreover have "select_where (\<lambda>r. mb_user_id r = user) (memberships d) =
      [\<lparr>mb_tenant_id = tenant, mb_user_id = user, mb_role = role, mb_created_at = now\<rparr>]"
    using assms(1) by (simp add: select_where_def assms(3) filter_empty_conv)
  ultimately show ?thesis
    by (simp add: db_get_default_membership_def db_list_memberships_def order_asc_def join_tenant_def)
qed

text \<open>Tokens that could be issued once can be issued again: only the clock and the identifiers differ.\<close>

lemma tokens_again:
  assumes p: "issue_token_pair j e aj now u m rid = Inr p" and enc: "\<And>c. jwt_encode j (jwt_secret (cfg e)) c \<noteq> None"
  shows "\<exists>x. refresh_expiry e later = Inr x" and "\<exists>q. issue_token_pair j e aj2 later u m rid2 = Inr q"
proof -
  have ttl: "\<exists>x. refresh_expiry e later = Inr x" "\<exists>t. chrono_from_std (access_token_ttl (cfg e)) a = Inr t"
    "\<exists>t. chrono_from_std (refresh_token_ttl (cfg e)) a = Inr t" for a
    using p by (auto simp: issue_token_pair_def try_then_Inr refresh_expiry_def chrono_from_std_def split: if_splits)
  have "\<exists>t. encode_token j e claims = Inr t" for claims
    using enc [of claims] by (auto simp: encode_token_def)
  then show "\<exists>q. issue_token_pair j e aj2 later u m rid2 = Inr q"
    using ttl(2) [of "''invalid access token ttl''"] ttl(3) [of "''invalid refresh token ttl''"]
    by (auto simp: issue_token_pair_def Let_def) (metis try_then_simps(2))
  show "\<exists>x. refresh_expiry e later = Inr x" by (rule ttl(1))
qed

text \<open>A login succeeds when the user, the membership and the tokens are there.\<close>

lemma login_succeeds:
  assumes "db_get_user_by_email email (w_db w) = Some u" and "verify_password e password (us_password_hash u) = Inr ()"
    and "ensure_email_verified e u = Inr ()" and "db_get_default_membership (us_id u) (w_db w) = Some m"
    and rows: "user_exists (w_db w) (us_id u)" "tenant_exists (w_db w) (mr_tenant_id m)"
    and fresh: "f_refresh g \<notin> rt_id ` set (refresh_tokens (w_db w))"
    and tokens: "refresh_expiry e later = Inr x" "issue_token_pair j e (f_access g) later u m (f_refresh g) = Inr q"
  shows "\<exists>w2. svc_login j e g later email password None w = (Inr (session_of q u m), w2)"
proof -
  define v where "v = snd (record_event (f_audit g) later (Some (mr_tenant_id m)) (Some (us_id u)) ''user''
     (Some (us_id u)) ''auth.login_succeeded'' (JObject []) w)"
  have "user_exists (w_db v) (us_id u)" "tenant_exists (w_db v) (mr_tenant_id m)" "refresh_tokens (w_db v) = refresh_tokens (w_db w)"
    using rows by (simp_all add: v_def user_exists_def tenant_exists_def)
  then have "\<exists>w2. issue_session j e (f_access g) later u m (f_refresh g) v = (Inr (session_of q u m), w2)"
    using fresh tokens by (simp add: issue_session_def then_do_def db_run_def db_create_refresh_token_def
        insert_row_fresh new_refresh_row_def)
  then show ?thesis by (simp add: svc_login_def resolve_membership_def v_def assms(1-4))
qed



end
