(* ===== verification/OAuth.thy ===== *)
theory OAuth
  imports SessionProperties Jobs
begin

text \<open>
  Sign-in with an external provider: \<open>src/services/oauth.rs\<close> and \<open>src/db/oauth_accounts.rs\<close>. The
  provider's two HTTP endpoints are functions: what a token request and a request for a document
  with an access token get back, a failure to send or a status with the JSON of its body.
\<close>

section \<open>Linked accounts\<close>

definition db_get_oauth_account_user :: "string \<Rightarrow> string \<Rightarrow> db \<Rightarrow> uuid option" where
  "db_get_oauth_account_user provider subject d =
     map_option oa_user_id (fetch_optional (\<lambda>a. oa_provider a = provider \<and> oa_provider_subject a = subject) (oauth_accounts d))"

definition db_link_oauth_account :: "uuid \<Rightarrow> time \<Rightarrow> uuid \<Rightarrow> string \<Rightarrow> string \<Rightarrow> unit dbop" where
  "db_link_oauth_account i now user provider subject d =
     (if row_exists (\<lambda>a. oa_provider a = provider \<and> oa_provider_subject a = subject) (oauth_accounts d)
      then Inl (Conflict ''this provider account is already linked'')
      else
        try_then (insert_row oa_id \<lparr>oa_id = i, oa_user_id = user, oa_provider = provider,
          oa_provider_subject = subject, oa_created_at = now\<rparr> (oauth_accounts d)) (\<lambda>t.
        try_then (require_fk (user_exists d user)) (\<lambda>_.
        Inr ((), d\<lparr>oauth_accounts := t\<rparr>))))"

record oauth_account_record =
  oar_provider :: string
  oar_created_at :: time

definition db_list_oauth_accounts :: "env \<Rightarrow> uuid \<Rightarrow> db \<Rightarrow> oauth_account_record list" where
  "db_list_oauth_accounts e user d =
     map (\<lambda>a. \<lparr>oar_provider = oa_provider a, oar_created_at = oa_created_at a\<rparr>)
       (order_asc (\<lambda>a. collation_key e (oa_provider a)) (select_where (\<lambda>a. oa_user_id a = user) (oauth_accounts d)))"

definition db_unlink_oauth_account :: "uuid \<Rightarrow> string \<Rightarrow> db \<Rightarrow> bool \<times> db" where
  "db_unlink_oauth_account user provider d =
     (let P = (\<lambda>a. oa_user_id a = user \<and> oa_provider a = provider)
      in (row_exists P (oauth_accounts d), d\<lparr>oauth_accounts := delete_where P (oauth_accounts d)\<rparr>))"

section \<open>The provider\<close>

datatype http_reply = SendFailed | Replied nat "json option"

record provider_http =
  post_form :: "string \<Rightarrow> (string \<times> string) list \<Rightarrow> http_reply"
  get_bearer :: "string \<Rightarrow> string \<Rightarrow> http_reply"

record oauth_identity =
  oi_subject :: string
  oi_email :: string
  oi_email_verified :: bool

definition is_success :: "nat \<Rightarrow> bool" where "is_success status \<longleftrightarrow> 200 \<le> status \<and> status < 300"

text \<open>\<open>payload[key].as_str().filter(non-empty)\<close>.\<close>

definition json_index :: "json \<Rightarrow> string \<Rightarrow> json" where
  "json_index v k = (case json_get v k of None \<Rightarrow> JNull | Some x \<Rightarrow> x)"

definition non_empty :: "string option \<Rightarrow> string option" where
  "non_empty x = (case x of None \<Rightarrow> None | Some s \<Rightarrow> if s = [] then None else Some s)"

definition exchange_code :: "provider_http \<Rightarrow> oauth_provider_settings \<Rightarrow> string \<Rightarrow> string \<Rightarrow> string result" where
  "exchange_code h settings code redirect_uri =
     (case post_form h (op_token_url settings)
        [(''grant_type'', ''authorization_code''), (''code'', code), (''redirect_uri'', redirect_uri),
         (''client_id'', op_client_id settings), (''client_secret'', op_client_secret settings)] of
        SendFailed \<Rightarrow> Inl (Internal ''OAuth token request failed'')
      | Replied status body \<Rightarrow>
          if \<not> is_success status then Inl (Unauthorized ''the OAuth provider rejected the authorization code'')
          else
            try_then (ok_or body (Internal ''invalid OAuth token response'')) (\<lambda>payload.
            ok_or (non_empty (json_as_str (json_index payload ''access_token'')))
              (Unauthorized ''the OAuth provider did not return an access token'')))"

definition fetch_userinfo_json :: "provider_http \<Rightarrow> string \<Rightarrow> string \<Rightarrow> json result" where
  "fetch_userinfo_json h url access_token =
     (case get_bearer h url access_token of
        SendFailed \<Rightarrow> Inl (Internal ''OAuth userinfo request failed'')
      | Replied status body \<Rightarrow>
          if \<not> is_success status then Inl (Unauthorized ''the OAuth provider rejected the access token'')
          else ok_or body (Internal ''invalid OAuth userinfo response''))"

definition google_identity :: "json \<Rightarrow> oauth_identity result" where
  "google_identity payload =
     try_then (ok_or (non_empty (json_as_str (json_index payload ''sub'')))
       (Unauthorized ''the OAuth provider did not return a subject'')) (\<lambda>subject.
     try_then (ok_or (non_empty (json_as_str (json_index payload ''email'')))
       (Forbidden ''the google account does not expose an email address'')) (\<lambda>email.
     Inr \<lparr>oi_subject = subject, oi_email = email,
       oi_email_verified = (case json_index payload ''email_verified'' of
         JBool b \<Rightarrow> b | JString s \<Rightarrow> s = ''true'' | _ \<Rightarrow> False)\<rparr>))"

definition int_text :: "int \<Rightarrow> string" where
  "int_text n = (if n < 0 then CHR ''-'' # nat_text (nat (- n)) else nat_text (nat n))"

definition json_true :: "json \<Rightarrow> string \<Rightarrow> bool" where
  "json_true v k = (case json_index v k of JBool b \<Rightarrow> b | _ \<Rightarrow> False)"

definition json_entries :: "json \<Rightarrow> json list" where
  "json_entries v = (case v of JArray xs \<Rightarrow> xs | _ \<Rightarrow> [])"

definition trim_end_slashes :: "string \<Rightarrow> string" where
  "trim_end_slashes s = rev (dropWhile (\<lambda>c. c = CHR ''/'') (rev s))"

text \<open>A JSON number that is an integer; its text is the decimal one.\<close>

definition github_identity :: "provider_http \<Rightarrow> oauth_provider_settings \<Rightarrow> string \<Rightarrow> json \<Rightarrow> oauth_identity result" where
  "github_identity h settings access_token payload =
     try_then (case json_index payload ''id'' of
         JNumber n \<Rightarrow> Inr (int_text n)
       | JString s \<Rightarrow> if s = [] then Inl (Unauthorized ''the OAuth provider did not return a subject'') else Inr s
       | _ \<Rightarrow> Inl (Unauthorized ''the OAuth provider did not return a subject'')) (\<lambda>subject.
     try_then (fetch_userinfo_json h (trim_end_slashes (op_userinfo_url settings) @ ''/emails'') access_token) (\<lambda>emails.
     let entries = json_entries emails;
         chosen = (case find (\<lambda>v. json_true v ''primary'' \<and> json_true v ''verified'') entries of
                     Some v \<Rightarrow> Some v | None \<Rightarrow> find (\<lambda>v. json_true v ''verified'') entries)
     in case non_empty (Option.bind chosen (\<lambda>v. json_as_str (json_index v ''email''))) of
          Some email \<Rightarrow> Inr \<lparr>oi_subject = subject, oi_email = email, oi_email_verified = True\<rparr>
        | None \<Rightarrow> Inl (Forbidden ''the github account has no verified email address'')))"

definition fetch_identity ::
  "provider_http \<Rightarrow> string \<Rightarrow> oauth_provider_settings \<Rightarrow> string \<Rightarrow> oauth_identity result" where
  "fetch_identity h provider settings access_token =
     try_then (fetch_userinfo_json h (op_userinfo_url settings) access_token) (\<lambda>payload.
     if provider = ''google'' then google_identity payload
     else if provider = ''github'' then github_identity h settings access_token payload
     else Inl (Internal ''unsupported OAuth provider''))"

definition normalize_identity_email :: "string \<Rightarrow> string result" where
  "normalize_identity_email email =
     (let email = to_ascii_lowercase (trim email)
      in if CHR ''@'' \<notin> set email then Inl (Unauthorized ''the OAuth provider returned an invalid email address'')
         else Inr email)"

section \<open>Sign-in\<close>

definition supported_oauth_providers :: "string list" where
  "supported_oauth_providers = [''google'', ''github'']"

definition record_login_audit :: "uuid \<Rightarrow> time \<Rightarrow> uuid \<Rightarrow> uuid \<Rightarrow> string \<Rightarrow> unit app" where
  "record_login_audit aid now tenant user provider =
     record_event aid now (Some tenant) (Some user) ''user'' (Some user) ''auth.login_succeeded''
       (JObject [(''method'', JString ''oauth''), (''provider'', JString provider)])"

text \<open>The identity of the caller and its normalised address, before anything is read or written.\<close>

definition oauth_identify ::
  "provider_http \<Rightarrow> env \<Rightarrow> string \<Rightarrow> string \<Rightarrow> string \<Rightarrow> (oauth_identity \<times> string) result" where
  "oauth_identify h e provider code redirect_uri =
     (if provider \<notin> set supported_oauth_providers
      then Inl (Validation ''unsupported OAuth provider; supported providers: google, github'')
      else
        try_then (ok_or (oauth_provider (cfg e) provider)
          (Validation (''the '' @ provider @ '' OAuth provider is not configured''))) (\<lambda>settings.
        try_then (exchange_code h settings code redirect_uri) (\<lambda>access_token.
        try_then (fetch_identity h provider settings access_token) (\<lambda>identity.
        try_then (normalize_identity_email (oi_email identity)) (\<lambda>email.
        Inr (identity, email))))))"

text \<open>\<open>f\<close> holds the identifiers drawn (\<open>f_token\<close> for the link), \<open>aid2\<close> that of a second audit event.\<close>

definition svc_oauth_login ::
  "jwt \<Rightarrow> provider_http \<Rightarrow> env \<Rightarrow> fresh \<Rightarrow> uuid \<Rightarrow> time \<Rightarrow> string \<Rightarrow> string \<Rightarrow> string \<Rightarrow> uuid option \<Rightarrow>
   string option \<Rightarrow> auth_session app" where
  "svc_oauth_login j h e f aid2 now provider code redirect_uri tenant tenant_name =
     then_do (lift_result (oauth_identify h e provider code redirect_uri)) (\<lambda>(identity, email).
     then_do (db_read (db_get_oauth_account_user provider (oi_subject identity))) (\<lambda>linked.
     case linked of
       Some user_id \<Rightarrow>
         then_do (db_try (db_get_user_by_id user_id)) (\<lambda>user.
         then_do (if oi_email_verified identity \<and> us_email user = email
           then db_run (db_mark_user_email_verified now (us_id user)) else ret user) (\<lambda>user.
         then_do (lift_result (ensure_email_verified e user)) (\<lambda>_.
         then_do (resolve_membership (us_id user) tenant) (\<lambda>membership.
         then_do (record_login_audit (f_audit f) now (mr_tenant_id membership) (us_id user) provider) (\<lambda>_.
         issue_session j e (f_access f) now user membership (f_refresh f))))))
     | None \<Rightarrow>
         if \<not> oi_email_verified identity
         then fail (Forbidden (''the '' @ provider @ '' account email address is not verified''))
         else
           then_do (db_read (db_get_user_by_email email)) (\<lambda>known.
           case known of
             Some user \<Rightarrow>
               then_do (db_run (db_link_oauth_account (f_token f) now (us_id user) provider (oi_subject identity))) (\<lambda>_.
               then_do (db_run (db_mark_user_email_verified now (us_id user))) (\<lambda>user.
               then_do (resolve_membership (us_id user) tenant) (\<lambda>membership.
               then_do (record_event aid2 now (Some (mr_tenant_id membership)) (Some (us_id user)) ''user''
                 (Some (us_id user)) ''auth.oauth_linked'' (JObject [(''provider'', JString provider)])) (\<lambda>_.
               then_do (record_login_audit (f_audit f) now (mr_tenant_id membership) (us_id user) provider) (\<lambda>_.
               issue_session j e (f_access f) now user membership (f_refresh f))))))
           | None \<Rightarrow>
               then_do (lift_result (hash_password e (f_salt f) (f_text f))) (\<lambda>password_hash.
               then_do (db_run (db_create_user_with_tenant (f_user f) (f_tenant f) now email password_hash
                 (workspace_name email tenant_name))) (\<lambda>(user, membership).
               then_do (db_run (db_link_oauth_account (f_token f) now (us_id user) provider (oi_subject identity))) (\<lambda>_.
               then_do (db_run (db_mark_user_email_verified now (us_id user))) (\<lambda>user.
               then_do (record_event aid2 now (Some (mr_tenant_id membership)) (Some (us_id user)) ''user''
                 (Some (us_id user)) ''user.registered''
                 (JObject [(''method'', JString ''oauth''), (''provider'', JString provider)])) (\<lambda>_.
               then_do (record_login_audit (f_audit f) now (mr_tenant_id membership) (us_id user) provider) (\<lambda>_.
               issue_session j e (f_access f) now user membership (f_refresh f))))))))))"

definition svc_list_oauth_accounts :: "env \<Rightarrow> uuid \<Rightarrow> oauth_account_record list app" where
  "svc_list_oauth_accounts e user = db_read (db_list_oauth_accounts e user)"

definition svc_unlink_oauth_account :: "uuid \<Rightarrow> time \<Rightarrow> uuid \<Rightarrow> uuid \<Rightarrow> string \<Rightarrow> unit app" where
  "svc_unlink_oauth_account aid now tenant user provider =
     (if provider \<notin> set supported_oauth_providers
      then fail (Validation ''unsupported OAuth provider; supported providers: google, github'')
      else
        then_do (db_run (\<lambda>d. Inr (db_unlink_oauth_account user provider d))) (\<lambda>removed.
        if \<not> removed then fail (NotFound (''no '' @ provider @ '' account is linked to this user''))
        else record_event aid now (Some tenant) (Some user) ''user'' (Some user) ''auth.oauth_unlinked''
          (JObject [(''provider'', JString provider)])))"

section \<open>Who gets in\<close>

lemma then_do_record_login_audit [simp]:
  "then_do (record_login_audit i now t u p) f w = f () (snd (record_login_audit i now t u p w))"
  by (simp add: record_login_audit_def)

lemma record_login_audit_tables [simp]:
  "users (w_db (snd (record_login_audit i now t u p w))) = users (w_db w)"
  "oauth_accounts (w_db (snd (record_login_audit i now t u p w))) = oauth_accounts (w_db w)"
  "memberships (w_db (snd (record_login_audit i now t u p w))) = memberships (w_db w)"
  by (simp_all add: record_login_audit_def)

lemma mark_verified_Inr:
  assumes "db_mark_user_email_verified now i d = Inr (u, d')"
  shows "us_id u = i" and "us_email_verified_at u \<noteq> None"
    and "\<exists>q \<in> set (users d). us_id q = i \<and> us_email u = us_email q \<and> us_password_hash u = us_password_hash q"
    and "oauth_accounts d' = oauth_accounts d" and "memberships d' = memberships d"
  using update_user_Inr [OF assms [unfolded db_mark_user_email_verified_def]] by (auto split: option.splits)

lemma link_Inr:
  assumes "db_link_oauth_account i now user provider subject d = Inr (x, d')"
  shows "db_get_oauth_account_user provider subject d' = Some user" and "users d' = users d"
    and "memberships d' = memberships d"
proof -
  from assms have no: "\<forall>a \<in> set (oauth_accounts d). \<not> (oa_provider a = provider \<and> oa_provider_subject a = subject)"
    and d': "d' = d\<lparr>oauth_accounts := oauth_accounts d @ [\<lparr>oa_id = i, oa_user_id = user, oa_provider = provider,
      oa_provider_subject = subject, oa_created_at = now\<rparr>]\<rparr>"
    by (auto simp: db_link_oauth_account_def try_then_Inr insert_row_Inr row_exists_iff split: if_splits)
  show "db_get_oauth_account_user provider subject d' = Some user"
    using no by (simp add: db_get_oauth_account_user_def d' fetch_optional_last)
  show "users d' = users d" "memberships d' = memberships d" by (simp_all add: d')
qed

text \<open>The three ways a sign-in can succeed, each with what it read and wrote.\<close>

lemma oauth_linked:
  assumes run: "svc_oauth_login j h e f aid2 now provider code uri tenant name w = (Inr s, w')"
    and i: "oauth_identify h e provider code uri = Inr (identity, email)"
    and l: "db_get_oauth_account_user provider (oi_subject identity) (w_db w) = Some u"
  shows "us_id (as_user s) = u \<and> db_get_oauth_account_user provider (oi_subject identity) (w_db w') = Some u"
proof -
  from run i l obtain user where u: "db_get_user_by_id u (w_db w) = Inr user"
    by (cases "db_get_user_by_id u (w_db w)") (auto simp: svc_oauth_login_def)
  have uid: "us_id user = u" using db_get_user_by_id_InrD [OF u] by simp
  let ?mark = "if oi_email_verified identity \<and> us_email user = email
     then db_run (db_mark_user_email_verified now (us_id user)) else ret user"
  from run i l u obtain user2 w2 membership w3 where m: "?mark w = (Inr user2, w2)"
    and r: "resolve_membership (us_id user2) tenant w2 = (Inr membership, w3)"
    and iss: "issue_session j e (f_access f) now user2 membership (f_refresh f)
      (snd (record_login_audit (f_audit f) now (mr_tenant_id membership) (us_id user2) provider w3)) = (Inr s, w')"
    by (auto simp: svc_oauth_login_def then_do_Inr split: if_splits)
  from m have two: "us_id user2 = u" "oauth_accounts (w_db w2) = oauth_accounts (w_db w)"
    using uid by (auto simp: db_run_Inr dest: mark_verified_Inr(1,4) split: if_splits)
  from iss obtain p where "s = session_of p user2 membership"
    "oauth_accounts (w_db w') = oauth_accounts (w_db w3)"
    by (rule issue_session_Inr) simp
  with two resolve_membership_Inr(1) [OF r] l show ?thesis
    by (simp add: session_of_def db_get_oauth_account_user_def)
qed

lemma oauth_unverified:
  assumes "oauth_identify h e provider code uri = Inr (identity, email)"
    and "db_get_oauth_account_user provider (oi_subject identity) (w_db w) = None"
    and "\<not> oi_email_verified identity"
  shows "svc_oauth_login j h e f aid2 now provider code uri tenant name w =
    (Inl (Forbidden (''the '' @ provider @ '' account email address is not verified'')), w)"
  using assms by (simp add: svc_oauth_login_def)

lemma oauth_not_identified:
  "oauth_identify h e provider code uri = Inl err \<Longrightarrow>
     svc_oauth_login j h e f aid2 now provider code uri tenant name w = (Inl err, w)"
  by (simp add: svc_oauth_login_def)

lemma oauth_known_email:
  assumes run: "svc_oauth_login j h e f aid2 now provider code uri tenant name w = (Inr s, w')"
    and i: "oauth_identify h e provider code uri = Inr (identity, email)"
    and l: "db_get_oauth_account_user provider (oi_subject identity) (w_db w) = None"
    and v: "oi_email_verified identity"
    and k: "db_get_user_by_email email (w_db w) = Some user"
  shows "us_id (as_user s) = us_id user \<and> us_email_verified_at (as_user s) \<noteq> None \<and>
    db_get_oauth_account_user provider (oi_subject identity) (w_db w') = Some (us_id user) \<and>
    (\<exists>q \<in> set (users (w_db w)). us_id q = us_id user \<and> us_password_hash (as_user s) = us_password_hash q)"
proof -
  from run i l v k obtain d user2 d2 membership w3 where
    link: "db_link_oauth_account (f_token f) now (us_id user) provider (oi_subject identity) (w_db w) = Inr ((), d)"
    and mark: "db_mark_user_email_verified now (us_id user) d = Inr (user2, d2)"
    and r: "resolve_membership (us_id user2) tenant (w\<lparr>w_db := d2\<rparr>) = (Inr membership, w3)"
    and iss: "issue_session j e (f_access f) now user2 membership (f_refresh f)
      (snd (record_login_audit (f_audit f) now (mr_tenant_id membership) (us_id user2) provider
        (snd (record_event aid2 now (Some (mr_tenant_id membership)) (Some (us_id user2)) ''user''
          (Some (us_id user2)) ''auth.oauth_linked'' (JObject [(''provider'', JString provider)]) w3)))) = (Inr s, w')"
    by (auto simp: svc_oauth_login_def then_do_Inr db_run_Inr)
  from iss obtain p where s: "s = session_of p user2 membership"
    and o: "oauth_accounts (w_db w') = oauth_accounts (w_db w3)"
    by (rule issue_session_Inr) simp
  have "oauth_accounts (w_db w') = oauth_accounts d"
    using o resolve_membership_Inr(1) [OF r] mark_verified_Inr(4) [OF mark] by simp
  moreover have "\<exists>q \<in> set (users (w_db w)). us_id q = us_id user \<and> us_password_hash user2 = us_password_hash q"
    using mark_verified_Inr(3) [OF mark] by (auto simp: link_Inr(2) [OF link])
  ultimately show ?thesis using s mark_verified_Inr(1,2) [OF mark] link_Inr(1) [OF link]
    by (simp add: session_of_def db_get_oauth_account_user_def)
qed

lemma oauth_new_user:
  assumes run: "svc_oauth_login j h e f aid2 now provider code uri tenant name w = (Inr s, w')"
    and i: "oauth_identify h e provider code uri = Inr (identity, email)"
    and l: "db_get_oauth_account_user provider (oi_subject identity) (w_db w) = None"
    and v: "oi_email_verified identity"
    and k: "db_get_user_by_email email (w_db w) = None"
  shows "us_id (as_user s) = f_user f \<and> us_email (as_user s) = email \<and> us_email_verified_at (as_user s) \<noteq> None \<and>
    mr_role (as_membership s) = ''owner'' \<and>
    db_get_oauth_account_user provider (oi_subject identity) (w_db w') = Some (f_user f)"
proof -
  from run i l v k obtain hash user membership d1 d user2 d2 where
    create: "db_create_user_with_tenant (f_user f) (f_tenant f) now email hash (workspace_name email name) (w_db w) =
      Inr ((user, membership), d1)"
    and link: "db_link_oauth_account (f_token f) now (us_id user) provider (oi_subject identity) d1 = Inr ((), d)"
    and mark: "db_mark_user_email_verified now (us_id user) d = Inr (user2, d2)"
    and iss: "issue_session j e (f_access f) now user2 membership (f_refresh f)
      (snd (record_login_audit (f_audit f) now (mr_tenant_id membership) (us_id user2) provider
        (snd (record_event aid2 now (Some (mr_tenant_id membership)) (Some (us_id user2)) ''user''
          (Some (us_id user2)) ''user.registered''
          (JObject [(''method'', JString ''oauth''), (''provider'', JString provider)]) (w\<lparr>w_db := d2\<rparr>))))) = (Inr s, w')"
    by (auto simp: svc_oauth_login_def then_do_Inr db_run_Inr)
  from create have user: "us_id user = f_user f" "us_email user = email" "mr_role membership = ''owner''"
    and us: "users d1 = users (w_db w) @ [user]" "f_user f \<notin> us_id ` set (users (w_db w))"
    by (auto simp: db_create_user_with_tenant_def Let_def try_then_Inr insert_row_Inr)
  from iss obtain p where s: "s = session_of p user2 membership"
    and o: "oauth_accounts (w_db w') = oauth_accounts d2"
    by (rule issue_session_Inr) simp
  have "us_email user2 = email"
  proof -
    from mark_verified_Inr(3) [OF mark] obtain q where q: "q \<in> set (users d1)" "us_id q = us_id user" "us_email user2 = us_email q"
      by (auto simp: link_Inr(2) [OF link])
    then have "q = user" using us user(1) by (auto simp: image_iff)
    with q(3) user(2) show ?thesis by simp
  qed
  moreover have "oauth_accounts (w_db w') = oauth_accounts d" using o mark_verified_Inr(4) [OF mark] by simp
  ultimately show ?thesis
    using s user mark_verified_Inr(1,2) [OF mark] link_Inr(1) [OF link]
    by (simp add: session_of_def db_get_oauth_account_user_def)
qed


section \<open>A concrete sign-in\<close>

definition demo_oauth_env :: env where
  "demo_oauth_env = sample_env\<lparr>cfg := default_cli\<lparr>oauth_google_client_id := Some ''id'',
     oauth_google_client_secret := Some ''secret''\<rparr>\<rparr>"

definition demo_http :: provider_http where
  "demo_http = \<lparr>post_form = (\<lambda>url form. Replied 200 (Some (JObject [(''access_token'', JString ''t'')]))),
     get_bearer = (\<lambda>url token. Replied 200 (Some (JObject [(''sub'', JString ''s1''),
       (''email'', JString '' A@b.c''), (''email_verified'', JBool False)])))\<rparr>"

definition demo_oauth_world :: world where
  "demo_oauth_world = demo_world\<lparr>w_db := demo_db\<lparr>memberships := [demo_member 1 ''owner''],
     oauth_accounts := [\<lparr>oa_id = 60, oa_user_id = 1, oa_provider = ''google'', oa_provider_subject = ''s1'',
       oa_created_at = 0\<rparr>]\<rparr>\<rparr>"

lemma demo_identify:
  "oauth_identify demo_http demo_oauth_env ''google'' ''code'' ''uri'' =
     Inr (\<lparr>oi_subject = ''s1'', oi_email = '' A@b.c'', oi_email_verified = False\<rparr>, ''a@b.c'')"
proof -
  have "non_blank (Some ''id'') = Some ''id''" "non_blank (Some ''secret'') = Some ''secret''" by code_simp+
  moreover have "normalize_identity_email '' A@b.c'' = Inr ''a@b.c''" by code_simp
  ultimately show ?thesis
    by (simp add: oauth_identify_def supported_oauth_providers_def demo_oauth_env_def default_cli_def oauth_provider_def
        exchange_code_def demo_http_def is_success_def json_index_def non_empty_def
        fetch_identity_def fetch_userinfo_json_def google_identity_def)
qed

lemma demo_oauth_encodes: "\<exists>p. issue_token_pair sample_jwt demo_oauth_env aj now u m rid = Inr p"
  by (simp add: issue_token_pair_def chrono_from_std_def access_token_ttl_def refresh_token_ttl_def
      i64_mul_as_u64_def demo_oauth_env_def default_cli_def encode_token_def sample_jwt_def sample_encode_def Let_def)

lemma demo_oauth_runs:
  "\<exists>s w'. svc_oauth_login sample_jwt demo_http demo_oauth_env (demo_fresh 70) 80 7 ''google'' ''code'' ''uri'' None None
     demo_oauth_world = (Inr s, w')"
proof -
  let ?m = "\<lparr>mr_tenant_id = 5, mr_tenant_name = ''T'', mr_user_id = 1, mr_role = ''owner'', mr_created_at = 0\<rparr>"
  obtain p where p: "issue_token_pair sample_jwt demo_oauth_env (f_access (demo_fresh 70)) 7 demo_user ?m
      (f_refresh (demo_fresh 70)) = Inr p" using demo_oauth_encodes by blast
  have look: "db_get_oauth_account_user ''google'' ''s1'' (w_db demo_oauth_world) = Some 1"
    "db_get_user_by_id 1 (w_db demo_oauth_world) = Inr demo_user"
    "resolve_membership 1 None demo_oauth_world = (Inr ?m, demo_oauth_world)"
    by (simp_all add: db_get_oauth_account_user_def db_get_user_by_id_def fetch_optional_def resolve_membership_def
        db_get_default_membership_def db_list_memberships_def first_row_def select_where_def join_tenant_def demo_oauth_world_def demo_world_def demo_simps
        demo_member_def order_asc_def)
  have user: "us_id demo_user = 1" by (simp add: demo_user_def)
  have cfg: "\<not> require_email_verification (cfg demo_oauth_env)" by (simp add: demo_oauth_env_def default_cli_def)
  have x: "refresh_expiry demo_oauth_env 7 = Inr (7 + seconds 2592000)"
    by (simp add: refresh_expiry_def chrono_from_std_def refresh_token_ttl_def i64_mul_as_u64_def
        demo_oauth_env_def default_cli_def)
  have "\<exists>d. db_create_refresh_token 7 (f_refresh (demo_fresh 70)) 1 5 (7 + seconds 2592000)
      (w_db (snd (record_login_audit (f_audit (demo_fresh 70)) 7 5 1 ''google'' demo_oauth_world))) = Inr ((), d)"
    by (simp add: db_create_refresh_token_def insert_row_def row_exists_def user_exists_def tenant_exists_def
        record_login_audit_def demo_oauth_world_def demo_world_def demo_simps)
  then obtain d where d: "db_create_refresh_token 7 (f_refresh (demo_fresh 70)) 1 5 (7 + seconds 2592000)
      (w_db (snd (record_login_audit (f_audit (demo_fresh 70)) 7 5 1 ''google'' demo_oauth_world))) = Inr ((), d)" ..
  show ?thesis
    by (simp add: svc_oauth_login_def demo_identify look user ensure_email_verified_def cfg issue_session_def x d p
        del: One_nat_def)
qed


section \<open>Linking keeps the old password\<close>

text \<open>An account that somebody registered with an address they never verified is linked to the first
  provider identity with that address: it becomes verified and keeps the password of the registration.\<close>

lemma linking_keeps_registered_password:
  assumes run: "svc_oauth_login j h e f aid2 now provider code uri tenant name w = (Inr s, w')"
    and "oauth_identify h e provider code uri = Inr (identity, email)"
    and "db_get_oauth_account_user provider (oi_subject identity) (w_db w) = None"
    and "db_get_user_by_email email (w_db w) = Some user" and "us_email_verified_at user = None"
    and "distinct (map us_id (users (w_db w)))"
  shows "as_user s \<noteq> user \<and> us_email_verified_at (as_user s) \<noteq> None \<and>
    us_password_hash (as_user s) = us_password_hash user"
proof -
  have v: "oi_email_verified identity"
    using run oauth_unverified [OF assms(2,3), of j f aid2 now tenant name] by (intro ccontr [of "oi_email_verified identity"]) simp
  note k = oauth_known_email [OF run assms(2,3) v assms(4)]
  then obtain q where q: "q \<in> set (users (w_db w))" "us_id q = us_id user" "us_password_hash (as_user s) = us_password_hash q"
    by blast
  have "user \<in> set (users (w_db w))" using assms(4) by (auto simp: db_get_user_by_email_def dest: fetch_optional_SomeD)
  then have "q = user" using key_unique [OF assms(6) q(1)] q(2) by blast
  with q k assms(5) show ?thesis by auto
qed

end
