(* ===== verification/OwnedRecords.thy ===== *)
theory OwnedRecords
  imports TaskProperties Accounts
begin

text \<open>
  What comments and attachments have in common: rows under a task, each owned by the user who
  made it, which its owner and the tenant's owners and admins may remove. The locale states the
  contract of the removal service and proves that a plain member only ever removes rows of their
  own.
\<close>

text \<open>A request to remove a row, with the fresh identifier of its audit row and the clock reading.\<close>

record removal_request =
  rq_audit_id :: uuid
  rq_now :: time
  rq_tenant :: uuid
  rq_task :: uuid
  rq_id :: uuid
  rq_actor :: uuid
  rq_role :: membership_role

locale owned_records =
  fixes rows :: "db \<Rightarrow> 'r list"
    and ident :: "'r \<Rightarrow> uuid" and owner :: "'r \<Rightarrow> uuid"
    and in_task :: "uuid \<Rightarrow> uuid \<Rightarrow> 'r \<Rightarrow> bool"
    and remove :: "removal_request \<Rightarrow> unit app"
  assumes remove_ok: "remove q w = (Inr u, w') \<Longrightarrow>
      \<exists>r \<in> set (rows (w_db w)). ident r = rq_id q \<and> in_task (rq_tenant q) (rq_task q) r \<and>
        (owner r = rq_actor q \<or> is_admin_role (rq_role q)) \<and>
        rows (w_db w') = delete_where (\<lambda>x. ident x = rq_id q \<and> in_task (rq_tenant q) (rq_task q) x)
          (rows (w_db w))"
    and remove_err: "remove q w = (Inl e, w') \<Longrightarrow> rows (w_db w') = rows (w_db w)"
begin

lemma rows_shrink: "set (rows (w_db (snd (remove q w)))) \<subseteq> set (rows (w_db w))"
proof (cases "remove q w")
  case (Pair res w')
  then show ?thesis
    by (cases res) (auto dest!: remove_ok remove_err)
qed

lemma distinct_after:
  "distinct (map ident (rows (w_db w))) \<Longrightarrow> distinct (map ident (rows (w_db (snd (remove q w)))))"
proof (cases "remove q w")
  case (Pair res w')
  assume "distinct (map ident (rows (w_db w)))"
  with Pair show ?thesis
    by (cases res) (auto simp: distinct_map_delete_where dest!: remove_ok remove_err)
qed

lemma kept_by_others:
  assumes dist: "distinct (map ident (rows (w_db w)))" and r: "r \<in> set (rows (w_db w))"
    and no: "rq_actor q \<noteq> owner r" "\<not> is_admin_role (rq_role q)"
  shows "r \<in> set (rows (w_db (snd (remove q w))))"
proof (cases "remove q w")
  case (Pair res w')
  show ?thesis
  proof (cases res)
    case (Inl e)
    with Pair r show ?thesis by (simp add: remove_err)
  next
    case (Inr u)
    from remove_ok [OF Pair [unfolded Inr]] obtain x where x: "x \<in> set (rows (w_db w))"
      "ident x = rq_id q" "owner x = rq_actor q \<or> is_admin_role (rq_role q)"
      and rows: "rows (w_db w') = delete_where
        (\<lambda>x. ident x = rq_id q \<and> in_task (rq_tenant q) (rq_task q) x) (rows (w_db w))" by blast
    have "ident r \<noteq> rq_id q"
    proof
      assume "ident r = rq_id q"
      with dist r x(1,2) have "r = x" unfolding distinct_map inj_on_def by force
      with x(3) no show False by simp
    qed
    with rows r Pair show ?thesis by simp
  qed
qed

text \<open>Whatever removals other plain members ask for, in any number and order, the row stays.\<close>

lemma survives_other_members:
  assumes "distinct (map ident (rows (w_db w)))" and "r \<in> set (rows (w_db w))"
    and "\<And>q. q \<in> set qs \<Longrightarrow> rq_actor q \<noteq> owner r \<and> \<not> is_admin_role (rq_role q)"
  shows "r \<in> set (rows (w_db (fold (\<lambda>q w. snd (remove q w)) qs w)))"
  using assms
proof (induction qs arbitrary: w)
  case Nil
  then show ?case by simp
next
  case (Cons q qs)
  have "r \<in> set (rows (w_db (snd (remove q w))))"
    using kept_by_others [OF Cons.prems(1,2)] Cons.prems(3) [of q] by simp
  with Cons.IH [OF distinct_after [OF Cons.prems(1)]] Cons.prems(3) show ?case by simp
qed

end

end
