(* ===== verification/Attachments.thy ===== *)
theory Attachments
  imports OwnedRecords
begin

text \<open>
  Attachments: \<open>src/db/attachments.rs\<close> and \<open>src/services/attachments.rs\<close>. The row is in the
  database and the bytes are in the artifact store, under a key made of the three identifiers; an
  upload stores the bytes first and deletes them again when the row cannot be inserted.
\<close>

section \<open>Database\<close>

definition db_create_attachment ::
  "uuid \<Rightarrow> uuid \<Rightarrow> time \<Rightarrow> uuid \<Rightarrow> uuid \<Rightarrow> uuid \<Rightarrow> string \<Rightarrow> string \<Rightarrow> int \<Rightarrow> string \<Rightarrow>
   attachment_record dbop" where
  "db_create_attachment aid i now tenant task uploaded_by file_name content_type size_bytes storage_key d =
     (let row = \<lparr>at_id = i, at_task_id = task, at_tenant_id = tenant, at_uploaded_by = uploaded_by,
                 at_file_name = file_name, at_content_type = content_type, at_size_bytes = size_bytes,
                 at_storage_key = storage_key, at_created_at = now\<rparr>
      in
        try_then (insert_row at_id row (attachments d)) (\<lambda>t.
        try_then (require_fk (task_exists d task \<and> tenant_exists d tenant \<and> user_exists d uploaded_by)) (\<lambda>_.
        try_then (insert_task_audit (task_audit_row aid now task tenant uploaded_by
          ''task_attachment_added'' (JObject
            [(''attachment_id'', JUuid i), (''file_name'', JString file_name),
             (''size_bytes'', JNumber size_bytes)])) (d\<lparr>attachments := t\<rparr>)) (\<lambda>(_, d').
        Inr (row, d')))))"

definition attachment_of :: "uuid \<Rightarrow> uuid \<Rightarrow> attachment_record \<Rightarrow> bool" where
  "attachment_of tenant task a \<longleftrightarrow> at_tenant_id a = tenant \<and> at_task_id a = task"

definition db_list_task_attachments :: "uuid \<Rightarrow> uuid \<Rightarrow> db \<Rightarrow> attachment_record list" where
  "db_list_task_attachments tenant task d =
     order_desc (\<lambda>a. (at_created_at a, at_id a)) (select_where (attachment_of tenant task) (attachments d))"

definition db_count_task_attachments :: "uuid \<Rightarrow> uuid \<Rightarrow> db \<Rightarrow> nat" where
  "db_count_task_attachments tenant task d = count_where (attachment_of tenant task) (attachments d)"

definition db_get_attachment :: "uuid \<Rightarrow> uuid \<Rightarrow> uuid \<Rightarrow> db \<Rightarrow> attachment_record result" where
  "db_get_attachment tenant task i d =
     ok_or (fetch_optional (\<lambda>a. at_id a = i \<and> attachment_of tenant task a) (attachments d))
       (NotFound ''attachment not found'')"

definition db_delete_attachment ::
  "uuid \<Rightarrow> time \<Rightarrow> uuid \<Rightarrow> uuid \<Rightarrow> uuid \<Rightarrow> uuid \<Rightarrow> attachment_record dbop" where
  "db_delete_attachment aid now tenant task i actor d =
     try_then (delete_returning (\<lambda>a. at_id a = i \<and> attachment_of tenant task a)
       (NotFound ''attachment not found'') (attachments d)) (\<lambda>(a, t).
     try_then (insert_task_audit (task_audit_row aid now task tenant actor
       ''task_attachment_deleted'' (JObject
         [(''attachment_id'', JUuid (at_id a)), (''file_name'', JString (at_file_name a))]))
       (d\<lparr>attachments := t\<rparr>)) (\<lambda>(_, d').
     Inr (a, d')))"

section \<open>Services\<close>

definition max_attachments_per_task :: nat where "max_attachments_per_task = 20"

definition attachment_key :: "env \<Rightarrow> uuid \<Rightarrow> uuid \<Rightarrow> uuid \<Rightarrow> string" where
  "attachment_key e tenant task i =
     join_with ''/'' [''attachments'', uuid_str e tenant, uuid_str e task, uuid_str e i]"

definition svc_list_attachments :: "uuid \<Rightarrow> uuid \<Rightarrow> attachment_record list app" where
  "svc_list_attachments tenant task =
     then_do (svc_get_task tenant task) (\<lambda>_. db_read (db_list_task_attachments tenant task))"

text \<open>The upload is its two halves: the checks, then the writes under a fresh identifier.\<close>

definition upload_check :: "uuid \<Rightarrow> uuid \<Rightarrow> unit app" where
  "upload_check tenant task =
     then_do (svc_get_task tenant task) (\<lambda>_.
     then_do (db_read (db_count_task_attachments tenant task)) (\<lambda>count.
     if max_attachments_per_task \<le> count
     then fail (Validation ''a task can have at most 20 attachments'') else ret ()))"

definition upload_write ::
  "env \<Rightarrow> uuid \<Rightarrow> uuid \<Rightarrow> time \<Rightarrow> uuid \<Rightarrow> uuid \<Rightarrow> uuid \<Rightarrow> string \<Rightarrow> string \<Rightarrow> string \<Rightarrow>
   attachment_record app" where
  "upload_write e i aid now tenant task actor file_name content_type bytes =
     (let key = attachment_key e tenant task i
      in
        then_do (store_put key bytes) (\<lambda>_.
        then_do (attempt (db_run (db_create_attachment aid i now tenant task actor file_name
          content_type (int (length bytes)) key))) (\<lambda>r.
        case r of
          Inr a \<Rightarrow> ret a
        | Inl err \<Rightarrow> then_do (logged (store_delete key)) (\<lambda>_. fail err))))"

definition svc_upload_attachment ::
  "env \<Rightarrow> uuid \<Rightarrow> uuid \<Rightarrow> time \<Rightarrow> uuid \<Rightarrow> uuid \<Rightarrow> uuid \<Rightarrow> string \<Rightarrow> string \<Rightarrow> string \<Rightarrow>
   attachment_record app" where
  "svc_upload_attachment e i aid now tenant task actor file_name content_type bytes =
     then_do (upload_check tenant task) (\<lambda>_.
     upload_write e i aid now tenant task actor file_name content_type bytes)"

definition svc_download_attachment ::
  "uuid \<Rightarrow> uuid \<Rightarrow> uuid \<Rightarrow> (attachment_record \<times> string) app" where
  "svc_download_attachment tenant task i =
     then_do (svc_get_task tenant task) (\<lambda>_.
     then_do (db_try (db_get_attachment tenant task i)) (\<lambda>a.
     then_do (store_get (at_storage_key a)) (\<lambda>bytes.
     then_do (lift_result (ok_or bytes (NotFound ''attachment content is no longer available''))) (\<lambda>bytes.
     ret (a, bytes)))))"

definition svc_delete_attachment ::
  "uuid \<Rightarrow> time \<Rightarrow> uuid \<Rightarrow> uuid \<Rightarrow> uuid \<Rightarrow> uuid \<Rightarrow> membership_role \<Rightarrow> unit app" where
  "svc_delete_attachment aid now tenant task i actor role =
     then_do (svc_get_task tenant task) (\<lambda>_.
     then_do (db_try (db_get_attachment tenant task i)) (\<lambda>a.
     if at_uploaded_by a \<noteq> actor \<and> \<not> is_admin_role role
     then fail (Forbidden ''only the uploader or an owner/admin can delete an attachment'')
     else
       then_do (db_run (db_delete_attachment aid now tenant task i actor)) (\<lambda>deleted.
       logged (store_delete (at_storage_key deleted)))))"

section \<open>Keys\<close>

lemma attachments_segment: "\<not> bad_segment ''attachments''"
  by (simp add: bad_segment_def segment_char_def is_alnum_ascii_def is_upper_ascii_def
      is_lower_ascii_def is_digit_ascii_def byte_def)

lemma attachment_key_valid:
  "uuid_text_ok e \<Longrightarrow> validate_key (attachment_key e tenant task i) = Inr ()"
  unfolding attachment_key_def
  by (rule validate_key_join) (auto simp: uuid_text_segment attachments_segment)

lemma attachment_key_inj:
  assumes "uuid_text_ok e"
  shows "attachment_key e t k i = attachment_key e t' k' i' \<longleftrightarrow> t = t' \<and> k = k' \<and> i = i'"
proof -
  have no: "CHR ''/'' \<notin> set (uuid_str e u)" for u
    using uuid_text_segment [OF assms, of u] segment_char_no_slash by (auto simp: bad_segment_def)
  have "split_on CHR ''/'' (attachment_key e t k i) =
      [''attachments'', uuid_str e t, uuid_str e k, uuid_str e i]" for t k i
    unfolding attachment_key_def by (rule split_on_join) (auto simp: no)
  then show ?thesis using uuid_text_inj [OF assms] by (metis list.inject)
qed

section \<open>Effects\<close>

definition uploaded_row ::
  "env \<Rightarrow> uuid \<Rightarrow> time \<Rightarrow> uuid \<Rightarrow> uuid \<Rightarrow> uuid \<Rightarrow> string \<Rightarrow> string \<Rightarrow> string \<Rightarrow> attachment_record" where
  "uploaded_row e i now tenant task actor file_name content_type bytes =
     \<lparr>at_id = i, at_task_id = task, at_tenant_id = tenant, at_uploaded_by = actor,
      at_file_name = file_name, at_content_type = content_type, at_size_bytes = int (length bytes),
      at_storage_key = attachment_key e tenant task i, at_created_at = now\<rparr>"

lemma task_audit_row_id [simp]: "ta_id (task_audit_row aid now task tenant actor event payload) = aid"
  by (simp add: task_audit_row_def)

lemma upload_write_Inr:
  assumes "uuid_text_ok e"
    and "upload_write e i aid now tenant task actor fname ctype bytes w = (Inr a, w')"
  obtains au where "a = uploaded_row e i now tenant task actor fname ctype bytes"
    "i \<notin> at_id ` set (attachments (w_db w))" "ta_id au = aid"
    "w' = w\<lparr>w_files := (w_files w)(attachment_key e tenant task i := Some bytes),
       w_db := (w_db w)\<lparr>attachments := attachments (w_db w) @ [a], task_audit := task_audit (w_db w) @ [au]\<rparr>\<rparr>"
proof -
  let ?au = "task_audit_row aid now task tenant actor ''task_attachment_added'' (JObject
      [(''attachment_id'', JUuid i), (''file_name'', JString fname),
       (''size_bytes'', JNumber (int (length bytes)))])"
  from assms(2) have "a = uploaded_row e i now tenant task actor fname ctype bytes"
    "i \<notin> at_id ` set (attachments (w_db w))"
    "w' = w\<lparr>w_files := (w_files w)(attachment_key e tenant task i := Some bytes),
       w_db := (w_db w)\<lparr>attachments := attachments (w_db w) @ [a], task_audit := task_audit (w_db w) @ [?au]\<rparr>\<rparr>"
    by (auto simp: upload_write_def Let_def then_do_def store_put_def attachment_key_valid [OF assms(1)]
        attempt_def db_run_def logged_eq db_create_attachment_def try_then_Inr insert_row_Inr
        insert_task_audit_Inr uploaded_row_def split: sum.splits prod.splits)
  then show ?thesis by (intro that [of ?au]) simp_all
qed

lemma upload_write_Inl:
  assumes "uuid_text_ok e"
    and "upload_write e i aid now tenant task actor fname ctype bytes w = (Inl err, w')"
  shows "w' = w\<lparr>w_files := (w_files w)(attachment_key e tenant task i := None)\<rparr>"
  using assms(2)
  by (auto simp: upload_write_def Let_def then_do_def store_put_def attachment_key_valid [OF assms(1)]
      attempt_def db_run_def logged_eq store_delete_def split: sum.splits prod.splits)

lemma upload_check_eq:
  "upload_check tenant task w = (Inr u, w') \<longleftrightarrow> w' = w \<and> db_get_task tenant task (w_db w) \<noteq> None \<and>
     db_count_task_attachments tenant task (w_db w) < 20"
  by (auto simp: upload_check_def then_do_Inr svc_get_task_Inr max_attachments_per_task_def split: if_splits)

lemma upload_check_Inl: "upload_check tenant task w = (Inl e, w') \<Longrightarrow> w' = w"
  by (auto simp: upload_check_def then_do_def svc_get_task_def split: sum.splits prod.splits if_splits)

lemma svc_upload_cases:
  assumes "svc_upload_attachment e i aid now tenant task actor fname ctype bytes w = (r, w')"
  shows "upload_check tenant task w = (Inr (), w) \<and>
      upload_write e i aid now tenant task actor fname ctype bytes w = (r, w') \<or>
    (\<exists>err. r = Inl err \<and> w' = w)"
proof (cases "upload_check tenant task w")
  case (Pair res v)
  show ?thesis
  proof (cases res)
    case (Inl err)
    with Pair have "upload_check tenant task w = (Inl err, v)" by simp
    with upload_check_Inl [OF this] assms show ?thesis
      by (auto simp: svc_upload_attachment_def then_do_def)
  next
    case (Inr u)
    with Pair have c: "upload_check tenant task w = (Inr (), v)" by simp
    then have "v = w" by (simp add: upload_check_eq)
    with c assms show ?thesis by (simp add: svc_upload_attachment_def then_do_def)
  qed
qed

lemma svc_delete_attachment_Inr:
  assumes "svc_delete_attachment aid now tenant task i actor role w = (Inr u, w')"
  obtains a au where "a \<in> set (attachments (w_db w))" "at_id a = i" "attachment_of tenant task a"
    "at_uploaded_by a = actor \<or> is_admin_role role"
    "attachments (w_db w') = delete_where (\<lambda>a. at_id a = i \<and> attachment_of tenant task a) (attachments (w_db w))"
    "tasks (w_db w') = tasks (w_db w)"
    "w_files w' = (if validate_key (at_storage_key a) = Inr () then (w_files w)(at_storage_key a := None)
       else w_files w)"
proof -
  from assms obtain c a d where c: "db_get_attachment tenant task i (w_db w) = Inr c"
    and auth: "at_uploaded_by c = actor \<or> is_admin_role role"
    and del: "db_delete_attachment aid now tenant task i actor (w_db w) = Inr (a, d)"
    and w': "w' = snd (store_delete (at_storage_key a) (w\<lparr>w_db := d\<rparr>))"
    by (auto simp: svc_delete_attachment_def then_do_Inr svc_get_task_Inr db_run_Inr logged_eq
        split: if_splits)
  let ?P = "\<lambda>a. at_id a = i \<and> attachment_of tenant task a"
  from del have dr: "filter ?P (attachments (w_db w)) \<noteq> []" "a = hd (filter ?P (attachments (w_db w)))"
    "attachments d = delete_where ?P (attachments (w_db w))" "tasks d = tasks (w_db w)"
    by (auto simp: db_delete_attachment_def try_then_Inr insert_task_audit_Inr delete_returning_def
        split: list.splits)
  have "find P xs = (case filter P xs of [] \<Rightarrow> None | x # _ \<Rightarrow> Some x)" for P :: "attachment_record \<Rightarrow> bool" and xs
    by (induction xs) auto
  with c dr(1,2) have "c = a"
    by (auto simp: db_get_attachment_def fetch_optional_def split: list.splits)
  moreover have "a \<in> set (attachments (w_db w)) \<and> ?P a"
    using dr(1,2) list.set_sel(1) [OF dr(1)] by simp
  ultimately show ?thesis
    using that auth dr w' by (auto simp: store_delete_def split: sum.splits)
qed

lemma svc_delete_attachment_Inl:
  "svc_delete_attachment aid now tenant task i actor role w = (Inl e, w') \<Longrightarrow> w' = w"
  by (auto simp: svc_delete_attachment_def then_do_def svc_get_task_def db_run_def logged_eq
      split: if_splits sum.splits prod.splits option.splits)

definition remove_attachment :: "removal_request \<Rightarrow> unit app" where
  "remove_attachment q =
     svc_delete_attachment (rq_audit_id q) (rq_now q) (rq_tenant q) (rq_task q) (rq_id q) (rq_actor q) (rq_role q)"

interpretation attachment_removals:
  owned_records attachments at_id at_uploaded_by attachment_of remove_attachment
proof unfold_locales
  fix q u and w w' :: world
  assume "remove_attachment q w = (Inr u, w')"
  then show "\<exists>r \<in> set (attachments (w_db w)). at_id r = rq_id q \<and>
      attachment_of (rq_tenant q) (rq_task q) r \<and>
      (at_uploaded_by r = rq_actor q \<or> is_admin_role (rq_role q)) \<and>
      attachments (w_db w') = delete_where
        (\<lambda>x. at_id x = rq_id q \<and> attachment_of (rq_tenant q) (rq_task q) x) (attachments (w_db w))"
    unfolding remove_attachment_def
    by (rule svc_delete_attachment_Inr) (rule bexI, simp_all)
next
  fix q e and w w' :: world
  assume "remove_attachment q w = (Inl e, w')"
  then show "attachments (w_db w') = attachments (w_db w)"
    unfolding remove_attachment_def by (auto dest: svc_delete_attachment_Inl)
qed

section \<open>Properties\<close>

text \<open>Every attachment row has its bytes in the store, under its own key, with its size.\<close>

definition wf_attachments :: "env \<Rightarrow> world \<Rightarrow> bool" where
  "wf_attachments e w \<longleftrightarrow> distinct (map at_id (attachments (w_db w))) \<and>
     (\<forall>a \<in> set (attachments (w_db w)).
        at_storage_key a = attachment_key e (at_tenant_id a) (at_task_id a) (at_id a) \<and>
        (\<exists>bytes. w_files w (at_storage_key a) = Some bytes \<and> int (length bytes) = at_size_bytes a)) \<and>
     (\<forall>tenant task. db_count_task_attachments tenant task (w_db w) \<le> 20)"

lemma upload_wf:
  assumes ok: "uuid_text_ok e" and wf: "wf_attachments e w"
    and new: "i \<notin> at_id ` set (attachments (w_db w))"
    and run: "svc_upload_attachment e i aid now tenant task actor fname ctype bytes w = (r, w')"
  shows "wf_attachments e w'"
proof -
  let ?key = "attachment_key e tenant task i"
  have other: "at_storage_key a \<noteq> ?key" if "a \<in> set (attachments (w_db w))" for a
    using that wf new attachment_key_inj [OF ok] by (auto simp: wf_attachments_def)
  from svc_upload_cases [OF run] show ?thesis
  proof (elim disjE exE conjE)
    assume c: "upload_check tenant task w = (Inr (), w)"
      and u: "upload_write e i aid now tenant task actor fname ctype bytes w = (r, w')"
    show ?thesis
    proof (cases r)
      case (Inl err)
      with upload_write_Inl [OF ok] u have "w' = w\<lparr>w_files := (w_files w)(?key := None)\<rparr>" by blast
      then show ?thesis using wf other by (auto simp: wf_attachments_def)
    next
      case (Inr a)
      from u [unfolded Inr] obtain au where a: "a = uploaded_row e i now tenant task actor fname ctype bytes"
        and w': "w' = w\<lparr>w_files := (w_files w)(?key := Some bytes),
          w_db := (w_db w)\<lparr>attachments := attachments (w_db w) @ [a], task_audit := task_audit (w_db w) @ [au]\<rparr>\<rparr>"
        by (rule upload_write_Inr [OF ok])
      have "db_count_task_attachments t k (w_db w') \<le> 20" for t k
        using wf c by (auto simp: wf_attachments_def upload_check_eq w' a db_count_task_attachments_def
            count_where_def attachment_of_def uploaded_row_def Suc_le_eq)
      then show ?thesis
        using wf new other by (auto simp: wf_attachments_def w' a uploaded_row_def)
    qed
  next
    fix err
    assume "w' = w"
    with wf show ?thesis by simp
  qed
qed

lemma delete_attachment_wf:
  assumes ok: "uuid_text_ok e" and wf: "wf_attachments e w"
    and run: "svc_delete_attachment aid now tenant task i actor role w = (r, w')"
  shows "wf_attachments e w'"
proof (cases r)
  case (Inl err)
  with run wf show ?thesis by (auto dest: svc_delete_attachment_Inl)
next
  case (Inr u)
  let ?P = "\<lambda>a. at_id a = i \<and> attachment_of tenant task a"
  from run [unfolded Inr] obtain a where a: "a \<in> set (attachments (w_db w))" "?P a"
    and rows: "attachments (w_db w') = delete_where ?P (attachments (w_db w))"
    and files: "w_files w' = (if validate_key (at_storage_key a) = Inr ()
       then (w_files w)(at_storage_key a := None) else w_files w)"
    by (rule svc_delete_attachment_Inr) blast
  have one: "?P x" if "x \<in> set (attachments (w_db w))" "at_storage_key x = at_storage_key a" for x
    using that a wf attachment_key_inj [OF ok] by (auto simp: wf_attachments_def attachment_of_def)
  have count: "db_count_task_attachments t k (w_db w') \<le> db_count_task_attachments t k (w_db w)" for t k
    unfolding db_count_task_attachments_def rows by (rule count_where_delete)
  then have "db_count_task_attachments t k (w_db w') \<le> 20" for t k
    using wf le_trans by (fastforce simp: wf_attachments_def)
  moreover have "w_files w' (at_storage_key x) = w_files w (at_storage_key x)"
    if "x \<in> set (attachments (w_db w'))" for x
    using that one by (auto simp: files rows)
  ultimately show ?thesis
    using wf rows by (auto simp: wf_attachments_def distinct_map_delete_where)
qed

text \<open>Uploads under fresh identifiers and deletions, each run to its end, whatever its outcome.\<close>

inductive attachment_step :: "env \<Rightarrow> world \<Rightarrow> world \<Rightarrow> bool" for e where
  upload: "i \<notin> at_id ` set (attachments (w_db w)) \<Longrightarrow>
     attachment_step e w (snd (svc_upload_attachment e i aid now tenant task actor fname ctype bytes w))"
| delete: "attachment_step e w (snd (svc_delete_attachment aid now tenant task i actor role w))"

inductive_cases attachment_stepE: "attachment_step e w w'"




lemma demo_upload_runs:
  "fst (svc_upload_attachment sample_env 80 90 7 5 10 1 ''f'' ''text/plain'' ''abc'' demo_world) =
     Inr (uploaded_row sample_env 80 7 5 10 1 ''f'' ''text/plain'' ''abc'')"
  by (simp add: svc_upload_attachment_def upload_check_def upload_write_def then_do_def svc_get_task_def
      db_get_task_def fetch_optional_def demo_world_def demo_simps db_count_task_attachments_def
      count_where_def max_attachments_per_task_def store_put_def attachment_key_valid sample_env_uuid_text
      attempt_def db_run_def db_create_attachment_def insert_row_def row_exists_def task_exists_def
      tenant_exists_def user_exists_def insert_task_audit_def task_audit_row_def uploaded_row_def Let_def)


section \<open>Two uploads at once\<close>

definition nineteen :: "attachment_record list" where
  "nineteen = map (\<lambda>k. uploaded_row sample_env k 0 5 10 1 ''f'' ''t'' []) [100..<119]"

definition full_but_one :: world where
  "full_but_one = demo_world\<lparr>w_db := demo_db\<lparr>attachments := nineteen\<rparr>\<rparr>"

lemma nineteen_rows:
  "count_where (attachment_of 5 10) nineteen = 19" "x \<in> set nineteen \<Longrightarrow> 100 \<le> at_id x"
proof -
  have "count_where (attachment_of 5 10)
      (map (\<lambda>k. uploaded_row sample_env k 0 5 10 1 ''f'' ''t'' []) xs) = length xs" for xs
    by (induction xs) (auto simp: count_where_def attachment_of_def uploaded_row_def)
  then show "count_where (attachment_of 5 10) nineteen = 19" by (simp only: nineteen_def length_upt)
  have "100 \<le> at_id x" if "x \<in> set (map (\<lambda>k. uploaded_row sample_env k 0 5 10 1 ''f'' ''t'' []) xs)"
    "\<And>k. k \<in> set xs \<Longrightarrow> 100 \<le> k" for xs using that by (auto simp: uploaded_row_def)
  then show "100 \<le> at_id x" if "x \<in> set nineteen"
    using that unfolding nineteen_def by (metis atLeastLessThan_iff set_upt)
qed

lemma upload_write_adds:
  assumes "uuid_text_ok e" and "i \<notin> at_id ` set (attachments (w_db w))"
    and "au \<notin> ta_id ` set (task_audit (w_db w))"
    and "task_exists (w_db w) task" "tenant_exists (w_db w) tenant" "user_exists (w_db w) actor"
  shows "fst (upload_write e i au now tenant task actor fname ctype bytes w) =
    Inr (uploaded_row e i now tenant task actor fname ctype bytes)"
  using assms
  by (simp add: upload_write_def Let_def then_do_def store_put_def attachment_key_valid attempt_def
      db_run_def db_create_attachment_def insert_row_fresh insert_task_audit_def task_audit_row_def
      uploaded_row_def task_exists_def tenant_exists_def user_exists_def)

lemma upload_write_ran:
  assumes "uuid_text_ok e"
    and "upload_write e i au now tenant task actor fname ctype bytes w = (Inr a, w')"
  shows "attachments (w_db w') = attachments (w_db w) @ [a] \<and> tasks (w_db w') = tasks (w_db w) \<and>
    tenants (w_db w') = tenants (w_db w) \<and> users (w_db w') = users (w_db w) \<and>
    ta_id ` set (task_audit (w_db w')) = insert au (ta_id ` set (task_audit (w_db w)))"
  using assms(2) by (rule upload_write_Inr [OF assms(1)]) simp

text \<open>
  The limit of twenty holds for uploads one after the other only: the check and the insert are
  separate statements. Two uploads to a task with nineteen attachments that both check before
  either writes leave it with twenty-one.
\<close>

lemma attachment_limit_race:
  obtains w1 w2 a b where "upload_check 5 10 full_but_one = (Inr (), full_but_one)"
    "upload_write sample_env 80 90 7 5 10 1 ''f'' ''t'' ''a'' full_but_one = (Inr a, w1)"
    "upload_write sample_env 81 91 7 5 10 1 ''g'' ''t'' ''b'' w1 = (Inr b, w2)"
    "db_count_task_attachments 5 10 (w_db w2) = 21"
proof -
  have fks: "task_exists (w_db full_but_one) 10" "tenant_exists (w_db full_but_one) 5"
    "user_exists (w_db full_but_one) 1" "task_audit (w_db full_but_one) = []"
    "attachments (w_db full_but_one) = nineteen"
    by (simp_all add: full_but_one_def demo_simps task_exists_def tenant_exists_def user_exists_def
        row_exists_def)
  have check: "upload_check 5 10 full_but_one = (Inr (), full_but_one)"
    by (simp add: upload_check_eq full_but_one_def demo_world_def db_count_task_attachments_def
        nineteen_rows demo_simps db_get_task_def fetch_optional_def)
  have new: "80 \<notin> at_id ` set nineteen" "81 \<notin> at_id ` set nineteen" using nineteen_rows(2) by force+
  let ?a = "uploaded_row sample_env 80 7 5 10 1 ''f'' ''t'' ''a''"
  let ?b = "uploaded_row sample_env 81 7 5 10 1 ''g'' ''t'' ''b''"
  obtain w1 where 1: "upload_write sample_env 80 90 7 5 10 1 ''f'' ''t'' ''a'' full_but_one = (Inr ?a, w1)"
    using upload_write_adds [OF sample_env_uuid_text, of 80 full_but_one 90 10 5 1 7 "''f''" "''t''" "''a''"]
      fks new by (metis empty_iff image_empty list.set(1) prod.collapse)
  note ran1 = upload_write_ran [OF sample_env_uuid_text 1]
  have fks1: "task_exists (w_db w1) 10" "tenant_exists (w_db w1) 5" "user_exists (w_db w1) 1"
    "91 \<notin> ta_id ` set (task_audit (w_db w1))" "attachments (w_db w1) = nineteen @ [?a]"
    using ran1 fks by (simp_all add: task_exists_def tenant_exists_def user_exists_def)
  have "81 \<notin> at_id ` set (attachments (w_db w1))" using fks1(5) new(2) by (simp add: uploaded_row_def)
  from upload_write_adds [OF sample_env_uuid_text this fks1(4,1,2,3), of 7 "''g''" "''t''" "''b''"]
  obtain w2 where 2: "upload_write sample_env 81 91 7 5 10 1 ''g'' ''t'' ''b'' w1 = (Inr ?b, w2)"
    by (metis prod.collapse)
  have "attachments (w_db w2) = nineteen @ [?a, ?b]"
    using upload_write_ran [OF sample_env_uuid_text 2] fks1(5) by simp
  then have "db_count_task_attachments 5 10 (w_db w2) = 21"
    by (simp add: db_count_task_attachments_def nineteen_rows)
      (simp add: count_where_def attachment_of_def uploaded_row_def)
  then show ?thesis using that check 1 2 by blast
qed

end
