(* ===== verification/Comments.thy ===== *)
theory Comments
  imports OwnedRecords Notifications
begin

text \<open>
  Comments on tasks: \<open>src/db/comments.rs\<close> and \<open>src/services/comments.rs\<close>. A comment by someone
  else than the assignee queues a mail to the assignee, whose failure does not undo the comment.
\<close>

section \<open>Database\<close>

definition db_create_comment ::
  "uuid \<Rightarrow> uuid \<Rightarrow> time \<Rightarrow> uuid \<Rightarrow> uuid \<Rightarrow> uuid \<Rightarrow> string \<Rightarrow> comment_record dbop" where
  "db_create_comment i aid now tenant task author body d =
     (let row = \<lparr>cm_id = i, cm_task_id = task, cm_tenant_id = tenant, cm_author_id = author,
                 cm_body = body, cm_created_at = now, cm_updated_at = now\<rparr>
      in
        try_then (insert_row cm_id row (comments d)) (\<lambda>t.
        try_then (require_fk (task_exists d task \<and> tenant_exists d tenant \<and> user_exists d author)) (\<lambda>_.
        try_then (insert_task_audit (task_audit_row aid now task tenant author ''task_comment_added''
          (JObject [(''comment_id'', JUuid i)])) (d\<lparr>comments := t\<rparr>)) (\<lambda>(_, d').
        Inr (row, d')))))"

definition comment_cursor_of :: "comment_record \<Rightarrow> cursor" where
  "comment_cursor_of c = (cm_created_at c, cm_id c)"

definition comment_of :: "uuid \<Rightarrow> uuid \<Rightarrow> comment_record \<Rightarrow> bool" where
  "comment_of tenant task c \<longleftrightarrow> cm_tenant_id c = tenant \<and> cm_task_id c = task"

definition task_comment_rows :: "uuid \<Rightarrow> uuid \<Rightarrow> db \<Rightarrow> comment_record list" where
  "task_comment_rows tenant task d = select_where (comment_of tenant task) (comments d)"

definition db_list_task_comments ::
  "uuid \<Rightarrow> uuid \<Rightarrow> db \<Rightarrow> cursor option \<Rightarrow> nat \<Rightarrow> comment_record list \<times> cursor option" where
  "db_list_task_comments tenant task d c limit =
     keyset_page comment_cursor_of (task_comment_rows tenant task d) c limit"

definition db_get_comment :: "uuid \<Rightarrow> uuid \<Rightarrow> uuid \<Rightarrow> db \<Rightarrow> comment_record result" where
  "db_get_comment tenant task i d =
     ok_or (fetch_optional (\<lambda>c. cm_id c = i \<and> comment_of tenant task c) (comments d))
       (NotFound ''comment not found'')"

definition db_update_comment ::
  "time \<Rightarrow> uuid \<Rightarrow> uuid \<Rightarrow> uuid \<Rightarrow> string \<Rightarrow> comment_record dbop" where
  "db_update_comment now tenant task i body d =
     try_then (update_returning (\<lambda>c. cm_id c = i \<and> comment_of tenant task c)
       (\<lambda>c. c\<lparr>cm_body := body, cm_updated_at := now\<rparr>) (NotFound ''comment not found'') (comments d))
       (\<lambda>(c, t). Inr (c, d\<lparr>comments := t\<rparr>))"

definition db_delete_comment ::
  "uuid \<Rightarrow> time \<Rightarrow> uuid \<Rightarrow> uuid \<Rightarrow> uuid \<Rightarrow> uuid \<Rightarrow> unit dbop" where
  "db_delete_comment aid now tenant task i actor d =
     try_then (delete_returning (\<lambda>c. cm_id c = i \<and> comment_of tenant task c)
       (NotFound ''comment not found'') (comments d)) (\<lambda>(c, t).
     insert_task_audit (task_audit_row aid now task tenant actor ''task_comment_deleted''
       (JObject [(''comment_id'', JUuid (cm_id c))])) (d\<lparr>comments := t\<rparr>))"

interpretation comment_listing: keyset_listing comment_cursor_of "task_comment_rows tenant task"
  "db_list_task_comments tenant task" for tenant task
  by (rule keyset_listing_of_page) (simp add: db_list_task_comments_def)

section \<open>Services\<close>

definition svc_list_comments ::
  "uuid \<Rightarrow> uuid \<Rightarrow> cursor option \<Rightarrow> nat \<Rightarrow> (comment_record list \<times> cursor option) app" where
  "svc_list_comments tenant task c limit =
     then_do (svc_get_task tenant task) (\<lambda>_. db_read (\<lambda>d. db_list_task_comments tenant task d c limit))"

definition comment_notification ::
  "uuid \<Rightarrow> task_record \<Rightarrow> comment_record \<Rightarrow> user_record \<Rightarrow> new_notification" where
  "comment_notification tenant t c assignee =
     \<lparr>nn_tenant_id = Some tenant, nn_user_id = Some (us_id assignee), nn_kind = ''task_commented'',
      nn_recipient = us_email assignee,
      nn_payload = JObject [(''task_id'', JUuid (cm_task_id c)), (''title'', JString (tk_title t)),
        (''comment_id'', JUuid (cm_id c)), (''body'', JString (cm_body c))],
      nn_dedupe_key = None\<rparr>"

definition notify_assignee ::
  "env \<Rightarrow> uuid \<Rightarrow> time \<Rightarrow> uuid \<Rightarrow> uuid \<Rightarrow> task_record \<Rightarrow> comment_record \<Rightarrow> unit app" where
  "notify_assignee e nid now tenant author t c =
     (case tk_assignee_id t of
        None \<Rightarrow> ret ()
      | Some assignee \<Rightarrow>
          if assignee = author then ret ()
          else
            then_do (db_read (db_is_notification_kind_enabled assignee ''task_commented'')) (\<lambda>wants.
            if \<not> wants then ret ()
            else
              then_do (db_read (db_get_user_by_id assignee)) (\<lambda>r.
              case r of
                Inl _ \<Rightarrow> ret ()
              | Inr u \<Rightarrow> logged (db_run (db_enqueue_notification nid now (comment_notification tenant t c u)
                  (max_job_attempts (cfg e)))))))"

definition svc_create_comment ::
  "env \<Rightarrow> uuid \<Rightarrow> uuid \<Rightarrow> uuid \<Rightarrow> time \<Rightarrow> uuid \<Rightarrow> uuid \<Rightarrow> uuid \<Rightarrow> string \<Rightarrow> comment_record app" where
  "svc_create_comment e i aid nid now tenant task author body =
     then_do (svc_get_task tenant task) (\<lambda>t.
     then_do (db_run (db_create_comment i aid now tenant task author body)) (\<lambda>c.
     then_do (notify_assignee e nid now tenant author t c) (\<lambda>_.
     ret c)))"

definition svc_update_comment ::
  "time \<Rightarrow> uuid \<Rightarrow> uuid \<Rightarrow> uuid \<Rightarrow> uuid \<Rightarrow> string \<Rightarrow> comment_record app" where
  "svc_update_comment now tenant task i actor body =
     then_do (svc_get_task tenant task) (\<lambda>_.
     then_do (db_try (db_get_comment tenant task i)) (\<lambda>c.
     if cm_author_id c \<noteq> actor
     then fail (Forbidden ''only the comment author can edit a comment'')
     else db_run (db_update_comment now tenant task i body)))"

definition svc_delete_comment ::
  "uuid \<Rightarrow> time \<Rightarrow> uuid \<Rightarrow> uuid \<Rightarrow> uuid \<Rightarrow> uuid \<Rightarrow> membership_role \<Rightarrow> unit app" where
  "svc_delete_comment aid now tenant task i actor role =
     then_do (svc_get_task tenant task) (\<lambda>_.
     then_do (db_try (db_get_comment tenant task i)) (\<lambda>c.
     if cm_author_id c \<noteq> actor \<and> \<not> is_admin_role role
     then fail (Forbidden ''only the comment author or an owner/admin can delete a comment'')
     else db_run (db_delete_comment aid now tenant task i actor)))"

section \<open>Laws\<close>

definition remove_comment :: "removal_request \<Rightarrow> unit app" where
  "remove_comment q =
     svc_delete_comment (rq_audit_id q) (rq_now q) (rq_tenant q) (rq_task q) (rq_id q) (rq_actor q) (rq_role q)"

lemma svc_delete_comment_Inr:
  assumes "svc_delete_comment aid now tenant task i actor role w = (Inr u, w')"
  obtains c a where "c \<in> set (comments (w_db w))" "cm_id c = i" "comment_of tenant task c"
    "cm_author_id c = actor \<or> is_admin_role role"
    "w' = w\<lparr>w_db := (w_db w)\<lparr>comments := delete_where (\<lambda>c. cm_id c = i \<and> comment_of tenant task c)
       (comments (w_db w)), task_audit := task_audit (w_db w) @ [a]\<rparr>\<rparr>"
    "ta_event_type a = ''task_comment_deleted''"
  using assms
  by (auto simp: svc_delete_comment_def then_do_Inr svc_get_task_Inr db_get_comment_def db_run_Inr
      db_delete_comment_def try_then_Inr insert_task_audit_Inr task_audit_row_def
      split: if_splits dest!: fetch_optional_SomeD delete_returning_InrD)

lemma svc_delete_comment_Inl:
  "svc_delete_comment aid now tenant task i actor role w = (Inl e, w') \<Longrightarrow> w' = w"
  by (auto simp: svc_delete_comment_def then_do_def svc_get_task_def db_run_def
      split: if_splits sum.splits prod.splits option.splits)

interpretation comment_removals: owned_records comments cm_id cm_author_id comment_of remove_comment
proof unfold_locales
  fix q u and w w' :: world
  assume "remove_comment q w = (Inr u, w')"
  then show "\<exists>r \<in> set (comments (w_db w)). cm_id r = rq_id q \<and> comment_of (rq_tenant q) (rq_task q) r \<and>
      (cm_author_id r = rq_actor q \<or> is_admin_role (rq_role q)) \<and>
      comments (w_db w') = delete_where (\<lambda>x. cm_id x = rq_id q \<and> comment_of (rq_tenant q) (rq_task q) x)
        (comments (w_db w))"
    unfolding remove_comment_def
    by (rule svc_delete_comment_Inr) (rule bexI, simp_all)
next
  fix q e and w w' :: world
  assume "remove_comment q w = (Inl e, w')"
  then show "comments (w_db w') = comments (w_db w)"
    unfolding remove_comment_def by (auto dest: svc_delete_comment_Inl)
qed

section \<open>Properties\<close>

definition demo_comment :: "uuid \<Rightarrow> uuid \<Rightarrow> comment_record" where
  "demo_comment i author = \<lparr>cm_id = i, cm_task_id = 10, cm_tenant_id = 5, cm_author_id = author,
     cm_body = ''hi'', cm_created_at = 0, cm_updated_at = 0\<rparr>"

definition demo_comment_world :: world where
  "demo_comment_world = demo_world\<lparr>w_db := demo_db\<lparr>
     users := [demo_user, demo_user\<lparr>us_id := 2, us_email := ''b@b.c''\<rparr>],
     tasks := [demo_task 10 5 ''open'' 3\<lparr>tk_assignee_id := Some 2\<rparr>],
     comments := [demo_comment 50 1, demo_comment 51 2]\<rparr>\<rparr>"

text \<open>A comment survives every deletion that users other than its author and the owners and
  admins of the tenant ask for, however many such requests are made and in whatever order, for the
  comments of any task.\<close>

theorem comment_survives_other_members:
  fixes qs :: "removal_request list"
  assumes "distinct (map cm_id (comments (w_db w)))" and "c \<in> set (comments (w_db w))"
    and "\<And>q. q \<in> set qs \<Longrightarrow> rq_actor q \<noteq> cm_author_id c \<and> rq_role q = Member"
  shows "c \<in> set (comments (w_db (fold (\<lambda>q w. snd (svc_delete_comment (rq_audit_id q) (rq_now q)
    (rq_tenant q) (rq_task q) (rq_id q) (rq_actor q) (rq_role q) w)) qs w)))"
  using comment_removals.survives_other_members [OF assms(1,2), of qs] assms(3)
  by (simp add: remove_comment_def is_admin_role_def)

theorem comment_survives_other_members_witness:
  "demo_comment 50 1 \<in> set (comments (w_db (fold (\<lambda>q w. snd (svc_delete_comment (rq_audit_id q)
     (rq_now q) (rq_tenant q) (rq_task q) (rq_id q) (rq_actor q) (rq_role q) w))
     [\<lparr>rq_audit_id = 90, rq_now = 7, rq_tenant = 5, rq_task = 10, rq_id = 50, rq_actor = 2, rq_role = Member\<rparr>,
      \<lparr>rq_audit_id = 91, rq_now = 8, rq_tenant = 5, rq_task = 10, rq_id = 51, rq_actor = 2, rq_role = Member\<rparr>]
     demo_comment_world)))"
  by (rule comment_survives_other_members)
    (auto simp: demo_comment_world_def demo_comment_def demo_world_def)

text \<open>C13. Creating a comment appends exactly that comment, and queues exactly one mail, to the
  e-mail address of the task's assignee, if the assignee is someone else, has a user row and has
  not turned the mails off; otherwise no mail. Nothing that can go wrong with the mail makes the
  call fail or loses the comment.\<close>

theorem comment_notifies_assignee:
  assumes run: "svc_create_comment e i aid nid now tenant task author body w = (Inr c, w')"
    and fresh: "nid \<notin> nt_id ` set (notifications (w_db w))"
  shows "comments (w_db w') = comments (w_db w) @ [c] \<and> cm_body c = body \<and> cm_author_id c = author \<and>
    (\<exists>t. db_get_task tenant task (w_db w) = Some t \<and>
      notifications (w_db w') = notifications (w_db w) @
        (case tk_assignee_id t of None \<Rightarrow> []
         | Some a \<Rightarrow>
             if a \<noteq> author \<and> db_is_notification_kind_enabled a ''task_commented'' (w_db w)
             then (case db_get_user_by_id a (w_db w) of Inl _ \<Rightarrow> []
                   | Inr u \<Rightarrow> [notification_row nid now (max_job_attempts (cfg e))
                       (comment_notification tenant t c u)])
             else []))"
proof -
  from run obtain t d a where t: "db_get_task tenant task (w_db w) = Some t"
    and c: "c = \<lparr>cm_id = i, cm_task_id = task, cm_tenant_id = tenant, cm_author_id = author,
       cm_body = body, cm_created_at = now, cm_updated_at = now\<rparr>"
    and d: "d = (w_db w)\<lparr>comments := comments (w_db w) @ [c], task_audit := task_audit (w_db w) @ [a]\<rparr>"
    and tenant: "tenant_exists (w_db w) tenant"
    and n: "notify_assignee e nid now tenant author t c (w\<lparr>w_db := d\<rparr>) = (Inr (), w')"
    by (auto simp: svc_create_comment_def then_do_Inr svc_get_task_Inr db_run_Inr db_create_comment_def
        Let_def try_then_Inr insert_row_Inr insert_task_audit_Inr)
  have same: "db_is_notification_kind_enabled u k d = db_is_notification_kind_enabled u k (w_db w)"
    "db_get_user_by_id u d = db_get_user_by_id u (w_db w)" "tenant_exists d tenant" for u k
    using tenant by (simp_all add: d db_is_notification_kind_enabled_def db_get_user_by_id_def tenant_exists_def)
  have enq: "db_enqueue_notification nid now (comment_notification tenant t c u) m d =
      Inr (True, d\<lparr>notifications := notifications d @ [notification_row nid now m (comment_notification tenant t c u)]\<rparr>)"
    if u: "db_get_user_by_id a d = Inr u" for u a m
  proof -
    from u have "user_exists d (us_id u)"
      by (auto simp: db_get_user_by_id_def user_exists_def row_exists_iff dest: fetch_optional_SomeD)
    then show ?thesis
      using fresh same(3) by (simp add: db_enqueue_notification_def comment_notification_def
          insert_row_def row_exists_iff notification_row_def image_iff d) (auto simp: d)
  qed
  have nc: "notifications d = notifications (w_db w)" "comments d = comments (w_db w) @ [c]"
    by (simp_all add: d)
  have c': "cm_body c = body" "cm_author_id c = author" by (simp_all add: c)
  show ?thesis
    using n t c' unfolding notify_assignee_def
    by (auto simp: same nc then_do_def logged_eq db_run_def enq split: option.splits if_splits sum.splits)
qed

text \<open>The audit row's task, the comment and the assignee's mail in one concrete run.\<close>

lemma demo_create_comment_runs:
  "fst (svc_create_comment sample_env 60 90 91 7 5 10 1 ''hello'' demo_comment_world) =
    Inr \<lparr>cm_id = 60, cm_task_id = 10, cm_tenant_id = 5, cm_author_id = 1, cm_body = ''hello'',
      cm_created_at = 7, cm_updated_at = 7\<rparr>"
  by (simp add: svc_create_comment_def then_do_def svc_get_task_def db_get_task_def fetch_optional_def
      demo_comment_world_def demo_world_def demo_simps demo_comment_def db_run_def db_create_comment_def
      insert_row_def row_exists_def task_exists_def tenant_exists_def user_exists_def
      insert_task_audit_def task_audit_row_def notify_assignee_def logged_eq
      db_is_notification_kind_enabled_def db_get_user_by_id_def Let_def)

theorem comment_notifies_assignee_witness:
  "\<exists>c w'. svc_create_comment sample_env 60 90 91 7 5 10 1 ''hello'' demo_comment_world = (Inr c, w') \<and>
    cm_body c = ''hello'' \<and> length (notifications (w_db w')) = 1 \<and>
    nt_recipient (hd (notifications (w_db w'))) = ''b@b.c''"
proof -
  obtain c w' where run: "svc_create_comment sample_env 60 90 91 7 5 10 1 ''hello'' demo_comment_world =
      (Inr c, w')"
    using demo_create_comment_runs by (metis prod.collapse)
  have "91 \<notin> nt_id ` set (notifications (w_db demo_comment_world))"
    by (simp add: demo_comment_world_def demo_simps)
  from comment_notifies_assignee [OF run this] run show ?thesis
    by (simp add: demo_comment_world_def demo_simps db_get_task_def fetch_optional_def
        db_is_notification_kind_enabled_def db_get_user_by_id_def notification_row_def
        comment_notification_def)
qed

end
