(* ===== verification/Labels.thy ===== *)
theory Labels
  imports TaskProperties "HOL-Library.List_Lexorder"
begin

text \<open>
  Labels: \<open>src/db/labels.rs\<close> and \<open>src/services/labels.rs\<close>. \<open>LOWER\<close> and the collation of
  \<open>ORDER BY LOWER(name)\<close> are PostgreSQL's (\<open>pg_lower\<close>; \<open>collation_key\<close> is the sort key of a
  text, compared as bytes). The unique index is on the tenant and the lower-cased name.
\<close>

section \<open>Database\<close>

definition label_name_key :: "env \<Rightarrow> label_record \<Rightarrow> uuid \<times> string" where
  "label_name_key e l = (lb_tenant_id l, pg_lower e (lb_name l))"

definition label_order :: "env \<Rightarrow> label_record \<Rightarrow> nat list \<times> uuid" where
  "label_order e l = (collation_key e (pg_lower e (lb_name l)), lb_id l)"

definition db_create_label ::
  "env \<Rightarrow> uuid \<Rightarrow> time \<Rightarrow> uuid \<Rightarrow> uuid \<Rightarrow> create_label_input \<Rightarrow> label_record dbop" where
  "db_create_label e i now tenant actor input d =
     (let row = \<lparr>lb_id = i, lb_tenant_id = tenant, lb_name = cl_name input, lb_color = cl_color input,
                 lb_created_by = actor, lb_updated_by = actor, lb_created_at = now,
                 lb_updated_at = now\<rparr>
      in
        try_then (insert_row lb_id row (labels d)) (\<lambda>_.
        try_then (insert_row (label_name_key e) row (labels d)) (\<lambda>t.
        try_then (require_fk (tenant_exists d tenant \<and> user_exists d actor)) (\<lambda>_.
        Inr (row, d\<lparr>labels := t\<rparr>)))))"

definition db_list_labels :: "env \<Rightarrow> uuid \<Rightarrow> db \<Rightarrow> label_record list" where
  "db_list_labels e tenant d =
     order_asc (label_order e) (select_where (\<lambda>l. lb_tenant_id l = tenant) (labels d))"

definition apply_label_update ::
  "time \<Rightarrow> uuid \<Rightarrow> update_label_input \<Rightarrow> label_record \<Rightarrow> label_record" where
  "apply_label_update now actor input l =
     l\<lparr>lb_name := coalesce (ul_name input) (lb_name l),
       lb_color := coalesce (ul_color input) (lb_color l),
       lb_updated_by := actor, lb_updated_at := now\<rparr>"

text \<open>A renamed label must not take the lower-cased name of another one of its tenant.\<close>

definition label_names_clash :: "env \<Rightarrow> label_record \<Rightarrow> label_record list \<Rightarrow> bool" where
  "label_names_clash e l t \<longleftrightarrow>
     row_exists (\<lambda>x. lb_id x \<noteq> lb_id l \<and> label_name_key e x = label_name_key e l) t"

definition db_update_label ::
  "env \<Rightarrow> time \<Rightarrow> uuid \<Rightarrow> uuid \<Rightarrow> uuid \<Rightarrow> update_label_input \<Rightarrow> label_record dbop" where
  "db_update_label e now tenant i actor input d =
     try_then (update_returning (\<lambda>l. lb_tenant_id l = tenant \<and> lb_id l = i)
       (apply_label_update now actor input) (NotFound ''label not found'') (labels d)) (\<lambda>(l, t).
     if label_names_clash e l (labels d) then Inl (from_sqlx UniqueViolation)
     else if \<not> user_exists d actor then Inl (from_sqlx ForeignKeyViolation)
     else Inr (l, d\<lparr>labels := t\<rparr>))"

text \<open>Deleting a label deletes its rows of \<open>task_labels\<close> (\<open>ON DELETE CASCADE\<close>).\<close>

definition db_delete_label :: "uuid \<Rightarrow> uuid \<Rightarrow> label_record dbop" where
  "db_delete_label tenant i d =
     try_then (delete_returning (\<lambda>l. lb_tenant_id l = tenant \<and> lb_id l = i)
       (NotFound ''label not found'') (labels d)) (\<lambda>(l, t).
     Inr (l, d\<lparr>labels := t,
       task_labels := delete_where (\<lambda>tl. tl_label_id tl = lb_id l) (task_labels d)\<rparr>))"

definition db_list_task_labels :: "env \<Rightarrow> uuid \<Rightarrow> uuid \<Rightarrow> db \<Rightarrow> label_record list" where
  "db_list_task_labels e tenant task d =
     order_asc (label_order e)
       (map fst (select_where
          (\<lambda>(l, tl). tl_label_id tl = lb_id l \<and> lb_tenant_id l = tenant \<and> tl_task_id tl = task)
          (List.product (labels d) (task_labels d))))"

text \<open>\<open>INSERT .. SELECT $1, UNNEST($2) ON CONFLICT DO NOTHING\<close>.\<close>

fun insert_pairs :: "uuid \<Rightarrow> uuid list \<Rightarrow> task_label_row list \<Rightarrow> task_label_row list" where
  "insert_pairs task [] t = t"
| "insert_pairs task (i # is) t =
     (let row = \<lparr>tl_task_id = task, tl_label_id = i\<rparr>
      in insert_pairs task is (if row \<in> set t then t else t @ [row]))"

definition db_set_task_labels ::
  "env \<Rightarrow> uuid \<Rightarrow> time \<Rightarrow> uuid \<Rightarrow> uuid \<Rightarrow> uuid \<Rightarrow> uuid list \<Rightarrow> label_record list dbop" where
  "db_set_task_labels e aid now tenant task actor label_ids d =
     (let found = order_asc (label_order e)
            (select_where (\<lambda>l. lb_tenant_id l = tenant \<and> lb_id l \<in> set label_ids) (labels d))
      in if length found \<noteq> length label_ids
         then Inl (NotFound ''one or more labels not found'')
         else
           let kept = delete_where (\<lambda>tl. tl_task_id tl = task \<and> tl_label_id tl \<notin> set label_ids)
                 (task_labels d)
           in
             try_then (require_fk (label_ids = [] \<or> task_exists d task)) (\<lambda>_.
             try_then (insert_task_audit (task_audit_row aid now task tenant actor
               ''task_labels_updated'' (JObject
                 [(''label_ids'', JArray (map JUuid label_ids)),
                  (''labels'', JArray (map (\<lambda>l. JString (lb_name l)) found))]))
               (d\<lparr>task_labels := insert_pairs task label_ids kept\<rparr>)) (\<lambda>(_, d').
             Inr (found, d'))))"

section \<open>Services\<close>

definition svc_list_labels :: "env \<Rightarrow> uuid \<Rightarrow> label_record list app" where
  "svc_list_labels e tenant = db_read (db_list_labels e tenant)"

definition svc_create_label ::
  "env \<Rightarrow> uuid \<Rightarrow> uuid \<Rightarrow> time \<Rightarrow> uuid \<Rightarrow> uuid \<Rightarrow> create_label_input \<Rightarrow> label_record app" where
  "svc_create_label e i aid now tenant actor input =
     then_do (db_run (db_create_label e i now tenant actor input)) (\<lambda>l.
     then_do (record_event aid now (Some tenant) (Some actor) ''label'' (Some (lb_id l))
       ''label.created'' (JObject [(''name'', JString (lb_name l)),
         (''color'', json_opt JString (lb_color l))])) (\<lambda>_.
     ret l))"

definition svc_update_label ::
  "env \<Rightarrow> uuid \<Rightarrow> time \<Rightarrow> uuid \<Rightarrow> uuid \<Rightarrow> uuid \<Rightarrow> update_label_input \<Rightarrow> label_record app" where
  "svc_update_label e aid now tenant i actor input =
     then_do (db_run (db_update_label e now tenant i actor input)) (\<lambda>l.
     then_do (record_event aid now (Some tenant) (Some actor) ''label'' (Some (lb_id l))
       ''label.updated'' (JObject [(''name'', JString (lb_name l)),
         (''color'', json_opt JString (lb_color l))])) (\<lambda>_.
     ret l))"

definition svc_delete_label :: "uuid \<Rightarrow> time \<Rightarrow> uuid \<Rightarrow> uuid \<Rightarrow> uuid \<Rightarrow> unit app" where
  "svc_delete_label aid now tenant i actor =
     then_do (db_run (db_delete_label tenant i)) (\<lambda>l.
     then_do (cache_run (bump_tenant_cache_version now tenant)) (\<lambda>_.
     then_do (record_event aid now (Some tenant) (Some actor) ''label'' (Some i)
       ''label.deleted'' (JObject [(''name'', JString (lb_name l))])) (\<lambda>_.
     ret ())))"

definition svc_list_task_labels :: "env \<Rightarrow> uuid \<Rightarrow> uuid \<Rightarrow> label_record list app" where
  "svc_list_task_labels e tenant task =
     then_do (svc_get_task tenant task) (\<lambda>_. db_read (db_list_task_labels e tenant task))"

definition svc_set_task_labels ::
  "env \<Rightarrow> uuid \<Rightarrow> time \<Rightarrow> uuid \<Rightarrow> uuid \<Rightarrow> uuid \<Rightarrow> uuid list \<Rightarrow> label_record list app" where
  "svc_set_task_labels e aid now tenant task actor ids =
     then_do (lift_result (validate_task_label_ids ids)) (\<lambda>label_ids.
     then_do (svc_get_task tenant task) (\<lambda>_.
     then_do (db_run (db_set_task_labels e aid now tenant task actor label_ids)) (\<lambda>ls.
     then_do (cache_run (bump_tenant_cache_version now tenant)) (\<lambda>_.
     ret ls))))"

section \<open>Laws\<close>

definition wf_labels :: "env \<Rightarrow> db \<Rightarrow> bool" where
  "wf_labels e d \<longleftrightarrow>
     distinct (map lb_id (labels d)) \<and> distinct (map (label_name_key e) (labels d)) \<and>
     distinct (task_labels d) \<and>
     (\<forall>tl \<in> set (task_labels d). \<exists>t \<in> set (tasks d). \<exists>l \<in> set (labels d).
        tk_id t = tl_task_id tl \<and> lb_id l = tl_label_id tl \<and> lb_tenant_id l = tk_tenant_id t)"

lemma insert_pairs_effect:
  "distinct t \<Longrightarrow> distinct (insert_pairs task ids t) \<and>
     set (insert_pairs task ids t) = set t \<union> {\<lparr>tl_task_id = task, tl_label_id = i\<rparr> |i. i \<in> set ids}"
proof (induction ids arbitrary: t)
  case Nil
  then show ?case by simp
next
  case (Cons i ids)
  let ?row = "\<lparr>tl_task_id = task, tl_label_id = i\<rparr>"
  let ?t = "if ?row \<in> set t then t else t @ [?row]"
  have "distinct ?t" using Cons.prems by simp
  from Cons.IH [OF this] show ?case by (auto simp: Let_def)
qed

text \<open>Joined with a table that holds a pair at most once, a label appears at most once.\<close>

lemma join_once:
  assumes "distinct tls"
  shows "map fst (filter (\<lambda>(l, tl). tl_label_id tl = lb_id l \<and> lb_tenant_id l = tenant \<and> tl_task_id tl = task)
      (List.product ls tls)) =
    filter (\<lambda>l. lb_tenant_id l = tenant \<and> \<lparr>tl_task_id = task, tl_label_id = lb_id l\<rparr> \<in> set tls) ls"
proof (induction ls)
  case Nil
  show ?case by simp
next
  case (Cons l ls)
  let ?row = "\<lparr>tl_task_id = task, tl_label_id = lb_id l\<rparr>"
  have one: "filter (\<lambda>tl. tl_label_id tl = lb_id l \<and> lb_tenant_id l = tenant \<and> tl_task_id tl = task) tls =
      (if lb_tenant_id l = tenant \<and> ?row \<in> set tls then [?row] else [])"
    using assms
  proof (induction tls)
    case Nil
    show ?case by simp
  next
    case (Cons tl tls)
    have "tl_label_id tl = lb_id l \<and> tl_task_id tl = task \<longleftrightarrow> tl = ?row" by (cases tl) auto
    with Cons show ?case by auto
  qed
  have "filter (\<lambda>(l, tl). tl_label_id tl = lb_id l \<and> lb_tenant_id l = tenant \<and> tl_task_id tl = task)
      (map (Pair l) tls) = map (Pair l)
        (filter (\<lambda>tl. tl_label_id tl = lb_id l \<and> lb_tenant_id l = tenant \<and> tl_task_id tl = task) tls)"
    by (simp add: filter_map comp_def)
  then show ?case using Cons one by simp
qed

lemma list_task_labels_eq:
  "distinct (task_labels d) \<Longrightarrow> db_list_task_labels e tenant task d =
     order_asc (label_order e) (filter (\<lambda>l. lb_tenant_id l = tenant \<and>
       \<lparr>tl_task_id = task, tl_label_id = lb_id l\<rparr> \<in> set (task_labels d)) (labels d))"
  by (simp add: db_list_task_labels_def select_where_def join_once)

lemma set_task_labels_Inr:
  assumes "db_set_task_labels e aid now tenant task actor ids d = Inr (ls, d')"
    and dist: "distinct (map lb_id (labels d))" "distinct ids" "distinct (task_labels d)"
  obtains a where "ls = order_asc (label_order e)
      (filter (\<lambda>l. lb_tenant_id l = tenant \<and> lb_id l \<in> set ids) (labels d))"
    "lb_id ` set ls = set ids"
    "d' = d\<lparr>task_labels := insert_pairs task ids
      (delete_where (\<lambda>tl. tl_task_id tl = task \<and> tl_label_id tl \<notin> set ids) (task_labels d)),
      task_audit := task_audit d @ [a]\<rparr>"
    "ta_event_type a = ''task_labels_updated''" "ta_task_id a = Some task"
proof -
  let ?f = "filter (\<lambda>l. lb_tenant_id l = tenant \<and> lb_id l \<in> set ids) (labels d)"
  from assms(1) have ls: "ls = order_asc (label_order e) ?f" and len: "length ls = length ids"
    and d': "\<exists>a. d' = d\<lparr>task_labels := insert_pairs task ids
      (delete_where (\<lambda>tl. tl_task_id tl = task \<and> tl_label_id tl \<notin> set ids) (task_labels d)),
      task_audit := task_audit d @ [a]\<rparr> \<and> ta_event_type a = ''task_labels_updated'' \<and> ta_task_id a = Some task"
    by (auto simp: db_set_task_labels_def Let_def try_then_Inr insert_task_audit_Inr select_where_def
        task_audit_row_def split: if_splits)
  have sub: "lb_id ` set ls \<subseteq> set ids" by (auto simp: ls)
  have "distinct (map lb_id ls)"
    using distinct_map_filter [OF dist(1)] by (auto simp: ls order_asc_def distinct_map)
  then have "card (lb_id ` set ls) = card (set ids)"
    using len dist(2) by (metis distinct_card length_map set_map)
  then have "lb_id ` set ls = set ids" using sub by (simp add: card_subset_eq)
  with ls d' that show ?thesis by blast
qed

lemma create_label_wf:
  "wf_labels e d \<Longrightarrow> db_create_label e i now tenant actor input d = Inr (l, d') \<Longrightarrow> wf_labels e d'"
  by (fastforce simp: db_create_label_def wf_labels_def Let_def try_then_Inr insert_row_Inr)

lemma update_label_wf:
  assumes wf: "wf_labels e d" and u: "db_update_label e now tenant i actor input d = Inr (l, d')"
  shows "wf_labels e d'"
proof -
  let ?P = "\<lambda>l. lb_tenant_id l = tenant \<and> lb_id l = i"
  let ?f = "apply_label_update now actor input"
  have ids: "distinct (map lb_id (labels d))" and keys: "distinct (map (label_name_key e) (labels d))"
    using wf by (simp_all add: wf_labels_def)
  have keep: "lb_id (?f x) = lb_id x" "lb_tenant_id (?f x) = lb_tenant_id x" for x
    by (simp_all add: apply_label_update_def)
  from u obtain q where q: "q \<in> set (labels d)" "?P q" "l = ?f q"
    and d': "d' = d\<lparr>labels := update_where ?P ?f (labels d)\<rparr>"
    and nc: "\<not> label_names_clash e l (labels d)"
    by (auto simp: db_update_label_def try_then_Inr split: if_splits dest!: update_returning_InrD)
  have other: "label_name_key e x \<noteq> label_name_key e l" if "x \<in> set (labels d)" "lb_id x \<noteq> i" for x
    using nc that q(2,3) keep by (auto simp: label_names_clash_def row_exists_iff)
  have one: "x = q" if "x \<in> set (labels d)" "lb_id x = i" for x
    using ids that q(1,2) unfolding distinct_map inj_on_def by blast
  have "inj_on (\<lambda>x. label_name_key e (if ?P x then ?f x else x)) (set (labels d))"
  proof (rule inj_onI)
    fix x y assume x: "x \<in> set (labels d)" and y: "y \<in> set (labels d)"
      and eq: "label_name_key e (if ?P x then ?f x else x) = label_name_key e (if ?P y then ?f y else y)"
    have Px: "?P x \<longleftrightarrow> lb_id x = i" and Py: "?P y \<longleftrightarrow> lb_id y = i"
      using one [OF x] one [OF y] q(2) by blast+
    consider "lb_id x = i" "lb_id y = i" | "lb_id x = i" "lb_id y \<noteq> i"
      | "lb_id x \<noteq> i" "lb_id y = i" | "lb_id x \<noteq> i" "lb_id y \<noteq> i" by blast
    then show "x = y"
    proof cases
      case 1
      then show ?thesis using one x y by blast
    next
      case 2
      then show ?thesis using eq Px Py other [OF y] one [OF x] q(3) by simp
    next
      case 3
      then show ?thesis using eq Px Py other [OF x] one [OF y] q(3) by simp
    next
      case 4
      then have "label_name_key e x = label_name_key e y" using eq by simp
      with keys x y show ?thesis unfolding distinct_map inj_on_def by blast
    qed
  qed
  then have keys': "distinct (map (label_name_key e) (labels d'))"
    using ids by (simp add: d' update_where_def distinct_map comp_def)
  have "\<exists>t \<in> set (tasks d'). \<exists>l \<in> set (labels d').
      tk_id t = tl_task_id tl \<and> lb_id l = tl_label_id tl \<and> lb_tenant_id l = tk_tenant_id t"
    if "tl \<in> set (task_labels d')" for tl
  proof -
    from that wf obtain t l0 where "t \<in> set (tasks d)" "l0 \<in> set (labels d)" "tk_id t = tl_task_id tl"
      "lb_id l0 = tl_label_id tl" "lb_tenant_id l0 = tk_tenant_id t"
      by (auto simp: wf_labels_def d')
    then show ?thesis
      by (intro bexI [of _ t] bexI [of _ "if ?P l0 then ?f l0 else l0"])
        (auto simp: d' keep update_where_def)
  qed
  then show ?thesis
    using wf keys' by (simp add: wf_labels_def d' map_key_update_where keep)
qed

lemma delete_label_wf:
  assumes wf: "wf_labels e d" and u: "db_delete_label tenant i d = Inr (l, d')"
  shows "wf_labels e d'"
proof -
  let ?P = "\<lambda>l. lb_tenant_id l = tenant \<and> lb_id l = i"
  from u have l: "l \<in> set (labels d)" "?P l"
    and d': "d' = d\<lparr>labels := delete_where ?P (labels d),
      task_labels := delete_where (\<lambda>tl. tl_label_id tl = i) (task_labels d)\<rparr>"
    by (auto simp: db_delete_label_def try_then_Inr dest!: delete_returning_InrD)
  have pair: "\<exists>t \<in> set (tasks d'). \<exists>l \<in> set (labels d').
      tk_id t = tl_task_id tl \<and> lb_id l = tl_label_id tl \<and> lb_tenant_id l = tk_tenant_id t"
    if tl: "tl \<in> set (task_labels d')" for tl
  proof -
    from tl have "tl \<in> set (task_labels d)" "tl_label_id tl \<noteq> i" by (auto simp: d')
    with wf obtain t l0 where "t \<in> set (tasks d)" "l0 \<in> set (labels d)" "tk_id t = tl_task_id tl"
      "lb_id l0 = tl_label_id tl" "lb_tenant_id l0 = tk_tenant_id t" by (auto simp: wf_labels_def)
    with \<open>tl_label_id tl \<noteq> i\<close> show ?thesis
      by (intro bexI [of _ t] bexI [of _ l0]) (auto simp: d')
  qed
  have "distinct (task_labels d')" using wf by (simp add: wf_labels_def d' delete_where_def)
  then show ?thesis
    using wf pair by (simp add: wf_labels_def d' distinct_map_delete_where)
qed

lemma set_task_labels_wf:
  assumes wf: "wf_labels e d" and dist: "distinct ids"
    and t: "t \<in> set (tasks d)" "tk_id t = task" "tk_tenant_id t = tenant"
    and u: "db_set_task_labels e aid now tenant task actor ids d = Inr (ls, d')"
  shows "wf_labels e d'"
proof -
  let ?kept = "delete_where (\<lambda>tl. tl_task_id tl = task \<and> tl_label_id tl \<notin> set ids) (task_labels d)"
  from wf have w: "distinct (map lb_id (labels d))" "distinct (task_labels d)"
    by (simp_all add: wf_labels_def)
  from set_task_labels_Inr [OF u w(1) dist w(2)] obtain a where
    ls: "ls = order_asc (label_order e)
      (filter (\<lambda>l. lb_tenant_id l = tenant \<and> lb_id l \<in> set ids) (labels d))" "lb_id ` set ls = set ids"
    and d': "d' = d\<lparr>task_labels := insert_pairs task ids ?kept, task_audit := task_audit d @ [a]\<rparr>"
    by blast
  have "distinct ?kept" using w(2) by (simp add: delete_where_def)
  note ins = insert_pairs_effect [OF this, of task ids]
  have "\<exists>l \<in> set (labels d). lb_id l = i \<and> lb_tenant_id l = tenant" if "i \<in> set ids" for i
    using that ls by (force simp del: set_map)
  then show ?thesis
    using wf ins t unfolding wf_labels_def d' by fastforce
qed

section \<open>Properties\<close>

definition demo_label :: "uuid \<Rightarrow> string \<Rightarrow> label_record" where
  "demo_label i name = \<lparr>lb_id = i, lb_tenant_id = 5, lb_name = name, lb_color = None, lb_created_by = 1,
     lb_updated_by = 1, lb_created_at = 0, lb_updated_at = 0\<rparr>"

definition demo_label_world :: world where
  "demo_label_world = demo_world\<lparr>w_db := demo_db\<lparr>labels := [demo_label 20 ''Bug'', demo_label 21 ''api''],
     task_labels := [\<lparr>tl_task_id = 10, tl_label_id = 20\<rparr>, \<lparr>tl_task_id = 11, tl_label_id = 20\<rparr>]\<rparr>\<rparr>"

text \<open>C12. Setting the labels of a task replaces its label set by exactly the requested one: the
  labels returned are those, in the order of the listing, and reading the task's labels afterwards
  returns the same list; the labels of every other task stay, every label of a task still belongs
  to the task's tenant, and the tenant's cache version has moved on.\<close>

theorem task_labels_replaced:
  assumes wf: "wf_labels e (w_db w)" and wr: "wf_redis (w_redis w)"
    and run: "svc_set_task_labels e aid now tenant task actor ids w = (Inr ls, w')"
  shows "set (map lb_id ls) = set ids \<and> svc_list_task_labels e tenant task w' = (Inr ls, w') \<and>
    (\<forall>t other. other \<noteq> task \<longrightarrow>
       db_list_task_labels e t other (w_db w') = db_list_task_labels e t other (w_db w)) \<and>
    wf_labels e (w_db w') \<and> version_of (w_redis w') tenant = version_of (w_redis w) tenant + 1"
proof -
  from run obtain out t d r where v: "validate_task_label_ids ids = Inr out"
    and t: "db_get_task tenant task (w_db w) = Some t"
    and s: "db_set_task_labels e aid now tenant task actor out (w_db w) = Inr (ls, d)"
    and b: "bump_tenant_cache_version now tenant (w_redis w) = r"
    and w': "w' = w\<lparr>w_db := d, w_redis := snd r\<rparr>"
    by (auto simp: svc_set_task_labels_def then_do_Inr svc_get_task_Inr db_run_Inr cache_run_eq)
  from validate_task_label_ids_Inr [OF v] have out: "distinct out" "set out = set ids" by auto
  from wf have w: "distinct (map lb_id (labels (w_db w)))" "distinct (task_labels (w_db w))"
    by (simp_all add: wf_labels_def)
  let ?kept = "delete_where (\<lambda>tl. tl_task_id tl = task \<and> tl_label_id tl \<notin> set out) (task_labels (w_db w))"
  from set_task_labels_Inr [OF s w(1) out(1) w(2)] obtain a where
    ls: "ls = order_asc (label_order e)
      (filter (\<lambda>l. lb_tenant_id l = tenant \<and> lb_id l \<in> set out) (labels (w_db w)))" "lb_id ` set ls = set out"
    and d: "d = (w_db w)\<lparr>task_labels := insert_pairs task out ?kept, task_audit := task_audit (w_db w) @ [a]\<rparr>"
    by blast
  have "distinct ?kept" using w(2) by (simp add: delete_where_def)
  note ins = insert_pairs_effect [OF this, of task out]
  note td = db_get_task_SomeD [OF t]
  have wfd: "wf_labels e d"
    by (rule set_task_labels_wf [OF wf out(1) _ _ _ s, of t]) (use td in simp_all)
  then have dist: "distinct (task_labels d)" by (simp add: wf_labels_def)
  have mine: "\<lparr>tl_task_id = task, tl_label_id = i\<rparr> \<in> set (task_labels d) \<longleftrightarrow> i \<in> set out" for i
    using ins by (auto simp: d)
  have others: "\<lparr>tl_task_id = o', tl_label_id = i\<rparr> \<in> set (task_labels d) \<longleftrightarrow>
      \<lparr>tl_task_id = o', tl_label_id = i\<rparr> \<in> set (task_labels (w_db w))" if "o' \<noteq> task" for o' i
    using ins that by (auto simp: d)
  have "labels d = labels (w_db w)" "tasks d = tasks (w_db w)" by (simp_all add: d)
  then have "db_list_task_labels e tenant task d = ls" "db_get_task tenant task d = Some t"
    using list_task_labels_eq [OF dist, of e tenant task] ls mine t by (simp_all add: db_get_task_def)
  then have "svc_list_task_labels e tenant task w' = (Inr ls, w')"
    by (simp add: svc_list_task_labels_def svc_get_task_def then_do_def w')
  moreover have "db_list_task_labels e t o' d = db_list_task_labels e t o' (w_db w)" if "o' \<noteq> task" for t o'
    using list_task_labels_eq [OF dist] list_task_labels_eq [OF w(2)] others [OF that] d by simp
  ultimately show ?thesis
    using ls(2) out(2) wfd w' bump_eq [OF wr, of now tenant] b by auto
qed

lemma demo_set_labels_runs:
  "fst (svc_set_task_labels sample_env 90 7 5 10 1 [21, 21] demo_label_world) = Inr [demo_label 21 ''api'']"
  by (simp add: svc_set_task_labels_def then_do_def validate_task_label_ids_def svc_get_task_def
      db_get_task_def fetch_optional_def demo_label_world_def demo_world_def demo_simps empty_world_def
      db_run_def db_set_task_labels_def demo_label_def Let_def select_where_def order_asc_def
      delete_where_def insert_task_audit_def task_audit_row_def task_exists_def tenant_exists_def
      user_exists_def row_exists_def insert_row_def cache_run_def bump_tenant_cache_version_def
      empty_redis_def redis_get_def live_entry_def)

lemma demo_labels_wf: "wf_labels sample_env (w_db demo_label_world)"
  by (simp add: wf_labels_def demo_label_world_def demo_simps demo_label_def label_name_key_def
      sample_env_def to_ascii_lowercase_def lower_char_def is_upper_ascii_def byte_def)

theorem task_labels_replaced_witness:
  "\<exists>ls w'. svc_set_task_labels sample_env 90 7 5 10 1 [21, 21] demo_label_world = (Inr ls, w') \<and>
    set (map lb_id ls) = {21} \<and> svc_list_task_labels sample_env 5 10 w' = (Inr ls, w') \<and>
    version_of (w_redis w') 5 = version_of (w_redis demo_label_world) 5 + 1"
proof -
  obtain w' where run: "svc_set_task_labels sample_env 90 7 5 10 1 [21, 21] demo_label_world =
      (Inr [demo_label 21 ''api''], w')"
    using demo_set_labels_runs by (metis prod.collapse)
  have "wf_redis (w_redis demo_label_world)"
    by (simp add: demo_label_world_def demo_world_def empty_world_def wf_redis_empty)
  from task_labels_replaced [OF demo_labels_wf this run] run show ?thesis by fastforce
qed

end
