(* ===== verification/Wire.thy ===== *)
theory Wire
  imports OAuth Attachments Comments Labels Notifications Webhooks
begin

text \<open>
  What the HTTP API sends and receives: the response types of \<open>src/domain\<close> and \<open>src/http/dto.rs\<close>
  as the JSON their derived serialisation gives, and the request types of \<open>src/http/dto.rs\<close> as
  records. A request body that does not deserialise is refused by the framework before the handler
  runs, so the handlers of the model start from the deserialised values; a field that may be absent,
  null or present is an option of an option.
\<close>

section \<open>Responses of the domain\<close>

definition membership_response_json :: "membership_record \<Rightarrow> json result" where
  "membership_response_json m =
     try_then (role_from_str (mr_role m)) (\<lambda>role.
     Inr (JObject [(''tenant_id'', JUuid (mr_tenant_id m)), (''tenant_name'', JString (mr_tenant_name m)),
       (''role'', JString (role_str role)), (''created_at'', JTime (mr_created_at m))]))"

definition user_response_json :: "user_record \<Rightarrow> json" where
  "user_response_json u = JObject
     [(''id'', JUuid (us_id u)), (''email'', JString (us_email u)),
      (''display_name'', json_opt JString (us_display_name u)),
      (''email_verified'', JBool (us_email_verified_at u \<noteq> None)), (''created_at'', JTime (us_created_at u))]"

definition member_response_json :: "tenant_member_record \<Rightarrow> json result" where
  "member_response_json m =
     try_then (role_from_str (tm_role m)) (\<lambda>role.
     Inr (JObject [(''user_id'', JUuid (tm_user_id m)), (''email'', JString (tm_email m)),
       (''display_name'', json_opt JString (tm_display_name m)), (''role'', JString (role_str role)),
       (''joined_at'', JTime (tm_joined_at m))]))"

definition invitation_response_json :: "invitation_record \<Rightarrow> json result" where
  "invitation_response_json v =
     try_then (role_from_str (iv_role v)) (\<lambda>role.
     Inr (JObject [(''id'', JUuid (iv_id v)), (''tenant_id'', JUuid (iv_tenant_id v)),
       (''email'', JString (iv_email v)), (''role'', JString (role_str role)),
       (''expires_at'', JTime (iv_expires_at v)), (''created_at'', JTime (iv_created_at v))]))"

definition attachment_response_json :: "env \<Rightarrow> attachment_record \<Rightarrow> json" where
  "attachment_response_json e a = JObject
     [(''id'', JUuid (at_id a)), (''task_id'', JUuid (at_task_id a)), (''uploaded_by'', JUuid (at_uploaded_by a)),
      (''file_name'', JString (at_file_name a)), (''content_type'', JString (at_content_type a)),
      (''size_bytes'', JNumber (at_size_bytes a)),
      (''download_path'', JString (''/v1/tasks/'' @ uuid_str e (at_task_id a) @ ''/attachments/'' @
         uuid_str e (at_id a) @ ''/download'')),
      (''created_at'', JTime (at_created_at a))]"

definition comment_response_json :: "comment_record \<Rightarrow> json" where
  "comment_response_json c = JObject
     [(''id'', JUuid (cm_id c)), (''task_id'', JUuid (cm_task_id c)), (''author_id'', JUuid (cm_author_id c)),
      (''body'', JString (cm_body c)), (''created_at'', JTime (cm_created_at c)),
      (''updated_at'', JTime (cm_updated_at c))]"

definition job_response_json :: "background_job_record \<Rightarrow> json result" where
  "job_response_json j =
     try_then (job_type_from_str (jb_job_type j)) (\<lambda>ty.
     try_then (job_status_from_str (jb_status j)) (\<lambda>status.
     Inr (JObject [(''id'', JUuid (jb_id j)), (''tenant_id'', json_opt JUuid (jb_tenant_id j)),
       (''job_type'', JString (job_type_str ty)), (''status'', JString (job_status_str status)),
       (''attempts'', JNumber (jb_attempts j)), (''max_attempts'', JNumber (jb_max_attempts j)),
       (''scheduled_at'', JTime (jb_scheduled_at j)), (''started_at'', json_opt JTime (jb_started_at j)),
       (''finished_at'', json_opt JTime (jb_finished_at j)), (''payload'', jb_payload j),
       (''result_payload'', json_opt (\<lambda>v. v) (jb_result_payload j)),
       (''last_error'', json_opt JString (jb_last_error j))])))"

definition job_result_json :: "job_result_response \<Rightarrow> json" where
  "job_result_json r = JObject
     [(''job_id'', JUuid (jx_job_id r)), (''job_type'', JString (job_type_str (jx_job_type r))),
      (''finished_at'', json_opt JTime (jx_finished_at r)), (''result'', jx_result r)]"

definition label_response_json :: "label_record \<Rightarrow> json" where
  "label_response_json l = JObject
     [(''id'', JUuid (lb_id l)), (''tenant_id'', JUuid (lb_tenant_id l)), (''name'', JString (lb_name l)),
      (''color'', json_opt JString (lb_color l)), (''created_by'', JUuid (lb_created_by l)),
      (''updated_by'', JUuid (lb_updated_by l)), (''created_at'', JTime (lb_created_at l)),
      (''updated_at'', JTime (lb_updated_at l))]"

definition feed_item_json :: "feed_item \<Rightarrow> json" where
  "feed_item_json i = JObject
     [(''id'', JUuid (fi_id i)), (''kind'', JString (fi_kind i)), (''payload'', fi_payload i),
      (''read_at'', json_opt JTime (fi_read_at i)), (''created_at'', JTime (fi_created_at i))]"

definition feed_response_json :: "feed_response \<Rightarrow> json" where
  "feed_response_json r = JObject
     [(''data'', JArray (map feed_item_json (fr_data r))), (''next_cursor'', json_opt JString (fr_next_cursor r)),
      (''unread_count'', JNumber (int (fr_unread_count r)))]"

definition preferences_json :: "notification_preferences_response \<Rightarrow> json" where
  "preferences_json p = JObject
     [(''task_due_soon'', JBool (npr_task_due_soon p)), (''task_overdue'', JBool (npr_task_overdue p)),
      (''task_commented'', JBool (npr_task_commented p))]"

definition audit_event_json :: "audit_event_response \<Rightarrow> json" where
  "audit_event_json v = JObject
     [(''id'', JUuid (ar_id v)), (''actor_user_id'', json_opt JUuid (ar_actor_user_id v)),
      (''subject_type'', JString (ar_subject_type v)), (''subject_id'', json_opt JUuid (ar_subject_id v)),
      (''event_type'', JString (ar_event_type v)), (''payload'', ar_payload v), (''created_at'', JTime (ar_created_at v))]"

definition project_response_json :: "project_record \<Rightarrow> json" where
  "project_response_json p = JObject
     [(''id'', JUuid (pj_id p)), (''tenant_id'', JUuid (pj_tenant_id p)), (''name'', JString (pj_name p)),
      (''description'', json_opt JString (pj_description p)), (''created_by'', JUuid (pj_created_by p)),
      (''updated_by'', JUuid (pj_updated_by p)), (''created_at'', JTime (pj_created_at p)),
      (''updated_at'', JTime (pj_updated_at p))]"

definition project_summary_json :: "project_summary \<Rightarrow> json" where
  "project_summary_json s = JObject
     [(''project_id'', JUuid (ps_project_id s)), (''project_name'', JString (ps_project_name s)),
      (''open_task_count'', JNumber (int (ps_open_task_count s))),
      (''in_progress_task_count'', JNumber (int (ps_in_progress_task_count s))),
      (''done_task_count'', JNumber (int (ps_done_task_count s))),
      (''overdue_task_count'', JNumber (int (ps_overdue_task_count s))),
      (''recent_activity_count'', JNumber (int (ps_recent_activity_count s)))]"

definition dashboard_summary_json :: "dashboard_summary \<Rightarrow> json" where
  "dashboard_summary_json s = JObject
     [(''open_task_count'', JNumber (int (ds_open_task_count s))),
      (''in_progress_task_count'', JNumber (int (ds_in_progress_task_count s))),
      (''done_task_count'', JNumber (int (ds_done_task_count s))),
      (''overdue_task_count'', JNumber (int (ds_overdue_task_count s))),
      (''recent_activity_count'', JNumber (int (ds_recent_activity_count s)))]"

definition task_audit_json :: "task_audit_record \<Rightarrow> json" where
  "task_audit_json a = JObject
     [(''id'', JUuid (ta_id a)), (''task_id'', json_opt JUuid (ta_task_id a)), (''tenant_id'', JUuid (ta_tenant_id a)),
      (''actor_user_id'', JUuid (ta_actor_user_id a)), (''event_type'', JString (ta_event_type a)),
      (''payload'', ta_payload a), (''created_at'', JTime (ta_created_at a))]"

definition webhook_response_json :: "webhook_response \<Rightarrow> json" where
  "webhook_response_json w = JObject
     [(''id'', JUuid (wr_id w)), (''tenant_id'', JUuid (wr_tenant_id w)), (''url'', JString (wr_url w)),
      (''events'', JArray (map JString (wr_events w))), (''is_active'', JBool (wr_is_active w)),
      (''created_by'', JUuid (wr_created_by w)), (''created_at'', JTime (wr_created_at w)),
      (''updated_at'', JTime (wr_updated_at w))]"

definition delivery_response_json :: "webhook_delivery_record \<Rightarrow> json" where
  "delivery_response_json v = JObject
     [(''id'', JUuid (wd_id v)), (''webhook_id'', JUuid (wd_webhook_id v)), (''event_type'', JString (wd_event_type v)),
      (''payload'', wd_payload v), (''status'', JString (wd_status v)), (''attempts'', JNumber (wd_attempts v)),
      (''delivered_at'', json_opt JTime (wd_delivered_at v)), (''last_error'', json_opt JString (wd_last_error v)),
      (''created_at'', JTime (wd_created_at v))]"

section \<open>Responses of the API\<close>

definition health_response_json :: "string \<Rightarrow> json" where
  "health_response_json status = JObject [(''status'', JString status)]"

definition auth_response_json :: "auth_session \<Rightarrow> json result" where
  "auth_response_json s =
     try_then (membership_response_json (as_membership s)) (\<lambda>active_tenant.
     Inr (JObject [(''access_token'', JString (as_access_token s)), (''refresh_token'', JString (as_refresh_token s)),
       (''expires_in_seconds'', JNumber (int (as_expires_in_seconds s))),
       (''user'', user_response_json (as_user s)), (''active_tenant'', active_tenant)]))"

definition me_response_json :: "current_user_profile \<Rightarrow> json result" where
  "me_response_json p =
     try_then (membership_response_json (cp_membership p)) (\<lambda>active_tenant.
     Inr (JObject [(''user'', user_response_json (cp_user p)), (''active_tenant'', active_tenant)]))"

definition oauth_account_json :: "oauth_account_record \<Rightarrow> json" where
  "oauth_account_json a = JObject
     [(''provider'', JString (oar_provider a)), (''linked_at'', JTime (oar_created_at a))]"

definition session_response_json :: "refresh_token_record \<Rightarrow> json" where
  "session_response_json r = JObject
     [(''id'', JUuid (rt_id r)), (''tenant_id'', JUuid (rt_tenant_id r)), (''created_at'', JTime (rt_created_at r)),
      (''expires_at'', JTime (rt_expires_at r))]"

definition invitation_create_json :: "created_invitation \<Rightarrow> json result" where
  "invitation_create_json c =
     try_then (invitation_response_json (ci_invitation c)) (\<lambda>invitation.
     Inr (JObject [(''invitation'', invitation), (''token'', JString (ci_token c))]))"

definition bulk_status_json :: "task_record list \<Rightarrow> json result" where
  "bulk_status_json ts =
     try_then (collect_results task_response ts) (\<lambda>rs.
     Inr (JObject [(''updated'', JNumber (int (length ts))), (''data'', JArray (map task_response_json rs))]))"

definition read_all_json :: "nat \<Rightarrow> json" where
  "read_all_json n = JObject [(''updated'', JNumber (int n))]"

definition webhook_create_json :: "webhook_record \<Rightarrow> json" where
  "webhook_create_json w = JObject
     [(''webhook'', webhook_response_json (webhook_response w)), (''secret'', JString (wh_secret w))]"

text \<open>\<open>TaskListResponse\<close>, \<open>TaskAuditListResponse\<close>, \<open>CommentListResponse\<close>, \<open>WebhookDeliveryListResponse\<close> and
  \<open>PaginatedAuditEvents\<close>.\<close>

definition page_json :: "json list \<Rightarrow> string option \<Rightarrow> json" where
  "page_json data next = JObject [(''data'', JArray data), (''next_cursor'', json_opt JString next)]"

section \<open>Requests\<close>

record register_request =
  rr_email :: string
  rr_password :: string
  rr_tenant_name :: "string option"

record login_request =
  lr_email :: string
  lr_password :: string
  lr_tenant_id :: "uuid option"

record oauth_login_request =
  ol_code :: string
  ol_redirect_uri :: string
  ol_tenant_id :: "uuid option"
  ol_tenant_name :: "string option"

record refresh_request =
  rf_refresh_token :: string
  rf_tenant_id :: "uuid option"

record logout_request =
  lo_refresh_token :: string
  lo_access_token :: "string option"

record invitation_create_payload =
  ic_email :: string
  ic_role :: string

record task_payload =
  tp_project_id :: "uuid option"
  tp_title :: string
  tp_description :: "string option"
  tp_status :: "string option"
  tp_priority :: "string option"
  tp_assignee_id :: "uuid option"
  tp_due_at :: "time option"

record task_patch_payload =
  tq_project_id :: "uuid option option"
  tq_title :: "string option"
  tq_description :: "string option option"
  tq_status :: "string option"
  tq_priority :: "string option"
  tq_assignee_id :: "uuid option option"
  tq_due_at :: "time option option"

record bulk_task_status_payload =
  bs_task_ids :: "uuid list"
  bs_status :: string

record task_list_query =
  ql_limit :: "nat option"
  ql_cursor :: "string option"
  ql_status :: "string option"
  ql_priority :: "string option"
  ql_project_id :: "uuid option"
  ql_assignee_id :: "uuid option"
  ql_label_id :: "uuid option"
  ql_due_before :: "string option"
  ql_due_after :: "string option"
  ql_updated_after :: "string option"
  ql_q :: "string option"

record export_request =
  xr_status :: "string option"
  xr_priority :: "string option"
  xr_project_id :: "uuid option"
  xr_assignee_id :: "uuid option"
  xr_label_id :: "uuid option"
  xr_due_before :: "string option"
  xr_due_after :: "string option"
  xr_updated_after :: "string option"
  xr_q :: "string option"
  xr_format :: "string option"

record password_reset_confirm_payload =
  pc_token :: string
  pc_new_password :: string

record change_password_payload =
  pw_current_password :: string
  pw_new_password :: string

record change_email_payload =
  pe_current_password :: string
  pe_new_email :: string

record preferences_payload =
  pf_task_due_soon :: "bool option"
  pf_task_overdue :: "bool option"
  pf_task_commented :: "bool option"

text \<open>\<open>AuditListQuery\<close>, \<open>TaskAuditQuery\<close>, \<open>CommentListQuery\<close> and \<open>WebhookDeliveryListQuery\<close>.\<close>

record page_query =
  pq_limit :: "nat option"
  pq_cursor :: "string option"

record notification_list_query =
  nq_limit :: "nat option"
  nq_cursor :: "string option"
  nq_unread :: "bool option"

record project_payload =
  pp_name :: string
  pp_description :: "string option"

record project_patch_payload =
  pt_name :: "string option"
  pt_description :: "string option option"

record label_payload =
  lp_name :: string
  lp_color :: "string option"

record label_patch_payload =
  lq_name :: "string option"
  lq_color :: "string option option"

record webhook_payload =
  wp_url :: string
  wp_events :: "string list"

record webhook_patch_payload =
  wq_url :: "string option"
  wq_events :: "string list option"
  wq_is_active :: "bool option"

section \<open>From query strings to filters\<close>

definition parse_optional_datetime :: "env \<Rightarrow> string option \<Rightarrow> string \<Rightarrow> time option result" where
  "parse_optional_datetime e v label =
     transpose_opt (\<lambda>s. ok_or (parse_rfc3339 e (trim s)) (Validation (label @ '' must be an RFC3339 timestamp''))) v"

definition search_text :: "string option \<Rightarrow> string option" where
  "search_text q = (case q of None \<Rightarrow> None | Some s \<Rightarrow> if trim s = [] then None else Some s)"

definition query_into_filters :: "env \<Rightarrow> task_list_query \<Rightarrow> task_filters result" where
  "query_into_filters e q =
     try_then (transpose_opt task_status_from_str (normalize_optional_choice (ql_status q))) (\<lambda>status.
     try_then (transpose_opt task_priority_from_str (normalize_optional_choice (ql_priority q))) (\<lambda>priority.
     try_then (parse_optional_datetime e (ql_due_before q) ''due_before'') (\<lambda>due_before.
     try_then (parse_optional_datetime e (ql_due_after q) ''due_after'') (\<lambda>due_after.
     try_then (parse_optional_datetime e (ql_updated_after q) ''updated_after'') (\<lambda>updated_after.
     Inr \<lparr>tf_status = status, tf_priority = priority, tf_project_id = ql_project_id q,
       tf_assignee_id = ql_assignee_id q, tf_label_id = ql_label_id q, tf_due_before = due_before,
       tf_due_after = due_after, tf_updated_after = updated_after, tf_q = search_text (ql_q q)\<rparr>)))))"

definition export_format_of :: "export_request \<Rightarrow> export_format result" where
  "export_format_of x =
     (case normalize_optional_choice (xr_format x) of Some v \<Rightarrow> export_format_from_str v | None \<Rightarrow> Inr FmtJson)"

definition export_into_filters :: "env \<Rightarrow> export_request \<Rightarrow> task_filters result" where
  "export_into_filters e x =
     try_then (transpose_opt task_status_from_str (normalize_optional_choice (xr_status x))) (\<lambda>status.
     try_then (transpose_opt task_priority_from_str (normalize_optional_choice (xr_priority x))) (\<lambda>priority.
     try_then (parse_optional_datetime e (xr_due_before x) ''due_before'') (\<lambda>due_before.
     try_then (parse_optional_datetime e (xr_due_after x) ''due_after'') (\<lambda>due_after.
     try_then (parse_optional_datetime e (xr_updated_after x) ''updated_after'') (\<lambda>updated_after.
     Inr \<lparr>tf_status = status, tf_priority = priority, tf_project_id = xr_project_id x,
       tf_assignee_id = xr_assignee_id x, tf_label_id = xr_label_id x, tf_due_before = due_before,
       tf_due_after = due_after, tf_updated_after = updated_after, tf_q = search_text (xr_q x)\<rparr>)))))"

end
