(* ===== verification/Http.thy ===== *)
theory Http
  imports Wire
begin

text \<open>
  What stands between a connection and a handler: \<open>src/http/helpers.rs\<close>, \<open>src/http/middleware.rs\<close> and the
  idempotent part every creating handler of \<open>src/http/handlers.rs\<close> repeats. A request carries the
  headers whose value is text, the path and the peer's address; a responder answers it and changes the
  stores. Tracing, metrics, CORS, compression and time limits belong to libraries the sources configure.
\<close>

section \<open>Requests and responses\<close>

record inbound =
  in_path :: string
  in_headers :: "string \<Rightarrow> string option"
  in_peer :: "string option"

datatype body = Json json | Raw string | NoBody

record response =
  rp_status :: nat
  rp_headers :: "(string \<times> string) list"
  rp_body :: body

record auth_user =
  au_user_id :: uuid
  au_tenant_id :: uuid
  au_role :: membership_role

type_synonym responder = "world \<Rightarrow> response \<times> world"

definition json_reply :: "nat \<Rightarrow> json \<Rightarrow> response" where
  "json_reply status v = \<lparr>rp_status = status, rp_headers = [], rp_body = Json v\<rparr>"

definition empty_reply :: "nat \<Rightarrow> response" where
  "empty_reply status = \<lparr>rp_status = status, rp_headers = [], rp_body = NoBody\<rparr>"

definition insert_header :: "string \<Rightarrow> string \<Rightarrow> response \<Rightarrow> response" where
  "insert_header k v r = r\<lparr>rp_headers := filter (\<lambda>h. fst h \<noteq> k) (rp_headers r) @ [(k, v)]\<rparr>"

text \<open>\<open>AppError::into_response\<close>.\<close>

definition error_response :: "app_error \<Rightarrow> response" where
  "error_response err = json_reply (error_status err)
     (JObject [(''error'', JObject [(''code'', JString (error_code err)), (''message'', JString (error_text err))])])"

definition answer :: "response app \<Rightarrow> responder" where
  "answer m w = (case m w of (Inl err, w') \<Rightarrow> (error_response err, w') | (Inr r, w') \<Rightarrow> (r, w'))"

section \<open>Helpers\<close>

definition ensure_active_tenant :: "uuid \<Rightarrow> uuid \<Rightarrow> unit result" where
  "ensure_active_tenant active requested = ensure (active = requested) (NotFound ''tenant not found'')"

definition required_idempotency_key :: "inbound \<Rightarrow> string result" where
  "required_idempotency_key req =
     ok_or (case in_headers req ''idempotency-key'' of None \<Rightarrow> None
        | Some v \<Rightarrow> if trim v = [] then None else Some v)
       (Validation ''Idempotency-Key header is required'')"

definition strip_prefix :: "string \<Rightarrow> string \<Rightarrow> string option" where
  "strip_prefix p s = (if take (length p) s = p then Some (drop (length p) s) else None)"

definition bearer_token :: "inbound \<Rightarrow> string result" where
  "bearer_token req =
     try_then (ok_or (in_headers req ''authorization'') (Unauthorized ''missing authorization header'')) (\<lambda>v.
     ok_or (strip_prefix ''Bearer '' v) (Unauthorized ''expected bearer token''))"

definition client_identifier :: "inbound \<Rightarrow> string" where
  "client_identifier req =
     (case in_headers req ''x-forwarded-for'' of
        Some v \<Rightarrow> trim (hd (split_on CHR '','' v))
      | None \<Rightarrow> (case in_peer req of Some ip \<Rightarrow> ip | None \<Rightarrow> ''unknown''))"

definition http_parse_uuid :: "env \<Rightarrow> string \<Rightarrow> string \<Rightarrow> uuid result" where
  "http_parse_uuid e v label = ok_or (parse_uuid_str e v) (Unauthorized (''invalid '' @ label))"

definition attach_rate_limit_headers :: "rate_limit_decision \<Rightarrow> response \<Rightarrow> response" where
  "attach_rate_limit_headers d r =
     insert_header ''retry-after'' (nat_text (retry_after_header d))
       (insert_header ''x-ratelimit-remaining'' (nat_text (rd_remaining_tokens d)) r)"

definition rate_limit_response :: "rate_limit_decision \<Rightarrow> response" where
  "rate_limit_response d = attach_rate_limit_headers d (error_response (RateLimited ''rate limit exceeded''))"

section \<open>Middleware\<close>

text \<open>\<open>next.run(request)\<close>: the rest of the stack answers, whatever its outcome.\<close>

definition run_next :: "responder \<Rightarrow> response app" where
  "run_next next w = (case next w of (r, w') \<Rightarrow> (Inr r, w'))"

definition limited :: "time \<Rightarrow> int \<Rightarrow> redis_key \<Rightarrow> nat \<Rightarrow> nat \<Rightarrow> responder \<Rightarrow> response app" where
  "limited now now_ms k capacity refill next =
     then_do (cache_run (rate_limit now now_ms k capacity refill 1)) (\<lambda>decision.
     if \<not> rd_allowed decision then ret (rate_limit_response decision)
     else
       then_do (run_next next) (\<lambda>response.
       ret (attach_rate_limit_headers decision response)))"

definition auth_rate_limit_middleware :: "env \<Rightarrow> time \<Rightarrow> int \<Rightarrow> inbound \<Rightarrow> responder \<Rightarrow> responder" where
  "auth_rate_limit_middleware e now now_ms req next =
     answer (limited now now_ms (KAuthLimit (in_path req) (client_identifier req))
       (auth_rate_limit_capacity (cfg e)) (auth_rate_limit_refill_per_sec (cfg e)) next)"

text \<open>The caller of a protected route, or why there is none.\<close>

definition authenticate :: "jwt \<Rightarrow> env \<Rightarrow> time \<Rightarrow> inbound \<Rightarrow> auth_user app" where
  "authenticate j e now req =
     then_do (lift_result (bearer_token req)) (\<lambda>token.
     then_do (lift_result (decode_access_token j e now token)) (\<lambda>claims.
     then_do (cache_run (is_access_token_denied now (tc_jti claims))) (\<lambda>denied.
     if denied then fail (Unauthorized ''access token has been revoked'')
     else
       then_do (lift_result (http_parse_uuid e (tc_sub claims) ''user id'')) (\<lambda>user.
       then_do (lift_result (http_parse_uuid e (tc_tenant_id claims) ''tenant id'')) (\<lambda>tenant.
       then_do (db_try (\<lambda>d. ok_or (db_get_membership user tenant d) (Unauthorized ''membership not found''))) (\<lambda>membership.
       then_do (lift_result (role_from_str (mr_role membership))) (\<lambda>role.
       ret \<lparr>au_user_id = user, au_tenant_id = tenant, au_role = role\<rparr>)))))))"

definition protected_middleware ::
  "jwt \<Rightarrow> env \<Rightarrow> time \<Rightarrow> int \<Rightarrow> inbound \<Rightarrow> (auth_user \<Rightarrow> responder) \<Rightarrow> responder" where
  "protected_middleware j e now now_ms req next =
     answer (then_do (authenticate j e now req) (\<lambda>user.
       limited now now_ms (KAppLimit (au_tenant_id user) (au_user_id user) (client_identifier req))
         (app_rate_limit_capacity (cfg e)) (app_rate_limit_refill_per_sec (cfg e)) (next user)))"

section \<open>Idempotent requests\<close>

definition replay_idempotent :: "time \<Rightarrow> redis_key \<Rightarrow> (nat \<times> json) option app" where
  "replay_idempotent now k =
     then_do (cache_run (idempotency_state now k)) (\<lambda>s.
     case s of
       IdemReady r \<Rightarrow>
         if 100 \<le> sr_status r \<and> sr_status r < 1000 then ret (Some (sr_status r, sr_body r))
         else fail (Internal ''invalid stored status code'')
     | _ \<Rightarrow> ret None)"

text \<open>The opening of a creating handler: a stored response, or the key claimed for this request.\<close>

definition claim_or_replay :: "env \<Rightarrow> time \<Rightarrow> redis_key \<Rightarrow> (nat \<times> json) option app" where
  "claim_or_replay e now k =
     then_do (replay_idempotent now k) (\<lambda>stored.
     case stored of
       Some r \<Rightarrow> ret (Some r)
     | None \<Rightarrow>
         then_do (cache_run (claim_idempotency_key now k (idempotency_ttl (cfg e)))) (\<lambda>claimed.
         if claimed then ret None
         else
           then_do (replay_idempotent now k) (\<lambda>stored.
           case stored of
             Some r \<Rightarrow> ret (Some r)
           | None \<Rightarrow> fail (Conflict ''request with this idempotency key is still in progress''))))"

text \<open>The close of one: the response is stored under the key, a failed service call gives the key up.\<close>

definition store_outcome ::
  "env \<Rightarrow> time \<Rightarrow> redis_key \<Rightarrow> nat \<Rightarrow> ('a \<Rightarrow> json result) \<Rightarrow> 'a app \<Rightarrow> (nat \<times> json) app" where
  "store_outcome e now k status to_body act =
     then_do (attempt act) (\<lambda>outcome.
     case outcome of
       Inr x \<Rightarrow>
         then_do (lift_result (to_body x)) (\<lambda>body.
         then_do (cache_run (store_idempotency_response now k \<lparr>sr_status = status, sr_body = body\<rparr>
           (idempotency_ttl (cfg e)))) (\<lambda>_.
         ret (status, body)))
     | Inl err \<Rightarrow>
         then_do (cache_run (delete_key k)) (\<lambda>_.
         fail err))"

definition created_reply :: "nat \<times> json \<Rightarrow> response" where
  "created_reply r = json_reply (fst r) (snd r)"

text \<open>\<open>checked\<close> is what the handler validates between the claim and the service call; its error leaves
  the claim in place.\<close>

definition idempotent ::
  "env \<Rightarrow> time \<Rightarrow> redis_key \<Rightarrow> 'b result \<Rightarrow> nat \<Rightarrow> ('a \<Rightarrow> json result) \<Rightarrow> ('b \<Rightarrow> 'a app) \<Rightarrow> response app" where
  "idempotent e now k checked status to_body act =
     then_do (claim_or_replay e now k) (\<lambda>stored.
     case stored of
       Some r \<Rightarrow> ret (created_reply r)
     | None \<Rightarrow>
         then_do (lift_result checked) (\<lambda>input.
         then_do (store_outcome e now k status to_body (act input)) (\<lambda>r.
         ret (created_reply r))))"

end
