(* ===== verification/ApiContract.thy ===== *)
theory ApiContract
  imports OpenApiSchemas Http
begin

text \<open>
  What it means for a JSON value to conform to a schema of the OpenAPI document, and that the values the
  handlers answer with, made by \<open>src/domain\<close> and \<open>src/http/dto.rs\<close>, conform to the schemas of
  \<open>src/openapi.rs\<close> that carry their names.
\<close>

section \<open>Conformance\<close>

text \<open>The keywords the document uses for responses. An identifier and a time are strings with a format; a
  \<open>oneOf\<close> is read as "at least one".\<close>

definition keyword :: "json \<Rightarrow> string \<Rightarrow> string option" where
  "keyword s k = Option.bind (json_get s k) json_as_str"

definition texts_of :: "json option \<Rightarrow> string list" where
  "texts_of v = (case v of Some (JArray vs) \<Rightarrow> List.map_filter json_as_str vs | _ \<Rightarrow> [])"

definition entries_of :: "json option \<Rightarrow> (string \<times> json) list" where
  "entries_of v = (case v of Some (JObject kvs) \<Rightarrow> kvs | _ \<Rightarrow> [])"

definition items_of :: "json option \<Rightarrow> json list" where
  "items_of v = (case v of Some (JArray vs) \<Rightarrow> vs | _ \<Rightarrow> [])"

definition string_conforms :: "json \<Rightarrow> json \<Rightarrow> bool" where
  "string_conforms s v =
     (case keyword s ''format'' of
        Some f \<Rightarrow>
          (case v of
             JUuid _ \<Rightarrow> f = ''uuid''
           | JTime _ \<Rightarrow> f = ''date-time''
           | _ \<Rightarrow> False)
      | None \<Rightarrow>
          (case v of
             JString t \<Rightarrow> (json_get s ''enum'' = None \<or> t \<in> set (texts_of (json_get s ''enum'')))
           | _ \<Rightarrow> False))"

definition integer_conforms :: "json \<Rightarrow> json \<Rightarrow> bool" where
  "integer_conforms s v =
     (case v of
        JNumber n \<Rightarrow> (case json_get s ''minimum'' of Some (JNumber m) \<Rightarrow> m \<le> n | _ \<Rightarrow> True)
      | _ \<Rightarrow> False)"

text \<open>One level of a schema; \<open>f\<close> is the conformance to the schemas inside.\<close>

definition typed :: "(json \<Rightarrow> json \<Rightarrow> bool) \<Rightarrow> json \<Rightarrow> json \<Rightarrow> bool" where
  "typed f s v =
     (case keyword s ''type'' of
        None \<Rightarrow> True
      | Some t \<Rightarrow>
          if t = ''object'' then
            (case v of
               JObject kvs \<Rightarrow>
                 list_all (\<lambda>k. map_of kvs k \<noteq> None) (texts_of (json_get s ''required'')) \<and>
                 list_all (\<lambda>(k, p). case map_of kvs k of None \<Rightarrow> True | Some x \<Rightarrow> f p x)
                   (entries_of (json_get s ''properties''))
             | _ \<Rightarrow> False)
          else if t = ''array'' then
            (case v of
               JArray vs \<Rightarrow> (case json_get s ''items'' of None \<Rightarrow> True | Some i \<Rightarrow> list_all (f i) vs)
             | _ \<Rightarrow> False)
          else if t = ''string'' then string_conforms s v
          else if t = ''integer'' then integer_conforms s v
          else if t = ''boolean'' then (case v of JBool _ \<Rightarrow> True | _ \<Rightarrow> False)
          else False)"

definition schema_of :: "string \<Rightarrow> json option" where
  "schema_of r =
     (let base = ''#/components/schemas/''
      in if take (length base) r = base then map_of doc_schemas (drop (length base) r) else None)"

text \<open>\<open>n\<close> bounds the nesting of schemas and references; the deepest response of the document needs seven.\<close>

primrec conforms :: "nat \<Rightarrow> json \<Rightarrow> json \<Rightarrow> bool" where
  "conforms 0 s v = False"
| "conforms (Suc n) s v =
     (json_get s ''nullable'' = Some (JBool True) \<and> v = JNull \<or>
      (case keyword s ''$ref'' of
         Some r \<Rightarrow> (case schema_of r of Some t \<Rightarrow> conforms n t v | None \<Rightarrow> False)
       | None \<Rightarrow>
           (case json_get s ''oneOf'' of
              Some (JArray alternatives) \<Rightarrow> list_ex (\<lambda>t. conforms n t v) alternatives
            | _ \<Rightarrow> typed (conforms n) s v)))"

lemma schema_of_ref: "schema_of (''#/components/schemas/'' @ name) = map_of doc_schemas name"
  by (simp add: schema_of_def)

lemma conforms_ref:
  "map_of doc_schemas name = Some t \<Longrightarrow> conforms (Suc n) (doc_schema_ref name) v \<longleftrightarrow> conforms n t v"
  using schema_of_ref [of name] by (simp add: doc_schema_ref_def keyword_def)

lemma conforms_null: "json_get s ''nullable'' = Some (JBool True) \<Longrightarrow> conforms (Suc n) s JNull"
  by simp

lemma conforms_typed:
  "keyword s ''$ref'' = None \<Longrightarrow> json_get s ''oneOf'' = None \<Longrightarrow> typed (conforms n) s v \<Longrightarrow> conforms (Suc n) s v"
  by simp

text \<open>The keywords of the schemas the document builds with functions.\<close>

lemma conforms_plain:
  "conforms (Suc n) doc_string_schema (JString a)" "conforms (Suc n) doc_uuid_schema (JUuid u)"
  "conforms (Suc n) doc_date_time_schema (JTime t)" "conforms (Suc n) doc_int32_schema (JNumber i)"
  "conforms (Suc n) doc_int64_schema (JNumber i)"
  by (simp_all add: doc_string_schema_def doc_uuid_schema_def doc_date_time_schema_def doc_int32_schema_def
      doc_int64_schema_def keyword_def typed_def string_conforms_def integer_conforms_def)

lemma conforms_array: "conforms (Suc n) (doc_array_schema i) (JArray vs) \<longleftrightarrow> list_all (conforms n i) vs"
  by (simp add: doc_array_schema_def keyword_def typed_def)

lemma conforms_nullable_opt:
  "conforms (Suc n) (doc_nullable doc_string_schema) (json_opt JString a)"
  "conforms (Suc n) (doc_nullable doc_uuid_schema) (json_opt JUuid b)"
  "conforms (Suc n) (doc_nullable doc_date_time_schema) (json_opt JTime c)"
  by (auto simp: doc_nullable_def doc_string_schema_def doc_uuid_schema_def doc_date_time_schema_def keyword_def typed_def
      string_conforms_def json_opt_def split: option.split)

text \<open>An object, field by field.\<close>

lemma conforms_object:
  assumes fields: "list_all2 (\<lambda>(k, p) (k', x). k' = k \<and> conforms n p x) ps kvs" and "distinct (map fst ps)"
    and required: "list_all (\<lambda>r. case json_as_str r of None \<Rightarrow> True | Some k \<Rightarrow> k \<in> set (map fst ps)) ks"
  shows "conforms (Suc n) (JObject [(''type'', JString ''object''), (''required'', JArray ks), (''properties'', JObject ps)])
    (JObject kvs)"
proof -
  have keys: "map fst kvs = map fst ps" using fields by (induction rule: list_all2_induct) auto
  have found: "(case map_of kvs k of None \<Rightarrow> True | Some x \<Rightarrow> conforms n p x)" if "(k, p) \<in> set ps" for k p
    using fields assms(2) that
  proof (induction rule: list_all2_induct)
    case (Cons a as b bs)
    then show ?case by (cases a; cases b) (auto simp: rev_image_eqI split: option.split)
  qed simp
  have "map_of kvs k \<noteq> None" if "k \<in> set (texts_of (Some (JArray ks)))" for k
  proof -
    from that required have "k \<in> fst ` set ps"
      by (auto simp: texts_of_def List.map_filter_def list_all_iff)
    then have "k \<in> set (map fst kvs)" unfolding keys by simp
    then show ?thesis by (simp add: map_of_eq_None_iff)
  qed
  with found show ?thesis by (auto simp: keyword_def typed_def entries_of_def list_all_iff)
qed

text \<open>The schemas of the responses, by name.\<close>

lemma response_schemas:
  "map_of doc_schemas ''ErrorEnvelope'' = Some schema_ErrorEnvelope"
  "map_of doc_schemas ''ErrorBody'' = Some schema_ErrorBody"
  "map_of doc_schemas ''HealthResponse'' = Some schema_HealthResponse"
  "map_of doc_schemas ''MembershipRole'' = Some schema_MembershipRole"
  "map_of doc_schemas ''TaskStatus'' = Some schema_TaskStatus"
  "map_of doc_schemas ''TaskPriority'' = Some schema_TaskPriority"
  "map_of doc_schemas ''JobStatus'' = Some schema_JobStatus"
  "map_of doc_schemas ''JobType'' = Some schema_JobType"
  "map_of doc_schemas ''UserResponse'' = Some schema_UserResponse"
  "map_of doc_schemas ''TenantMembershipResponse'' = Some schema_TenantMembershipResponse"
  "map_of doc_schemas ''TenantMemberResponse'' = Some schema_TenantMemberResponse"
  "map_of doc_schemas ''AttachmentResponse'' = Some schema_AttachmentResponse"
  "map_of doc_schemas ''CommentResponse'' = Some schema_CommentResponse"
  "map_of doc_schemas ''CommentListResponse'' = Some schema_CommentListResponse"
  "map_of doc_schemas ''LabelResponse'' = Some schema_LabelResponse"
  "map_of doc_schemas ''WebhookResponse'' = Some schema_WebhookResponse"
  "map_of doc_schemas ''WebhookCreateResponse'' = Some schema_WebhookCreateResponse"
  "map_of doc_schemas ''WebhookDeliveryResponse'' = Some schema_WebhookDeliveryResponse"
  "map_of doc_schemas ''WebhookDeliveryListResponse'' = Some schema_WebhookDeliveryListResponse"
  "map_of doc_schemas ''ProjectResponse'' = Some schema_ProjectResponse"
  "map_of doc_schemas ''ProjectSummary'' = Some schema_ProjectSummary"
  "map_of doc_schemas ''OAuthAccountResponse'' = Some schema_OAuthAccountResponse"
  "map_of doc_schemas ''SessionResponse'' = Some schema_SessionResponse"
  "map_of doc_schemas ''NotificationPreferencesResponse'' = Some schema_NotificationPreferencesResponse"
  "map_of doc_schemas ''NotificationFeedItemResponse'' = Some schema_NotificationFeedItemResponse"
  "map_of doc_schemas ''NotificationFeedResponse'' = Some schema_NotificationFeedResponse"
  "map_of doc_schemas ''NotificationsReadAllResponse'' = Some schema_NotificationsReadAllResponse"
  "map_of doc_schemas ''AuditEventResponse'' = Some schema_AuditEventResponse"
  "map_of doc_schemas ''AuditListResponse'' = Some schema_AuditListResponse"
  "map_of doc_schemas ''InvitationResponse'' = Some schema_InvitationResponse"
  "map_of doc_schemas ''InvitationCreateResponse'' = Some schema_InvitationCreateResponse"
  "map_of doc_schemas ''AuthResponse'' = Some schema_AuthResponse"
  "map_of doc_schemas ''MeResponse'' = Some schema_MeResponse"
  "map_of doc_schemas ''DashboardSummary'' = Some schema_DashboardSummary"
  "map_of doc_schemas ''BulkTaskStatusResponse'' = Some schema_BulkTaskStatusResponse"
  "map_of doc_schemas ''TaskResponse'' = Some schema_TaskResponse"
  "map_of doc_schemas ''TaskListResponse'' = Some schema_TaskListResponse"
  "map_of doc_schemas ''TaskAuditResponse'' = Some schema_TaskAuditResponse"
  "map_of doc_schemas ''TaskAuditListResponse'' = Some schema_TaskAuditListResponse"
  "map_of doc_schemas ''JobResponse'' = Some schema_JobResponse"
  "map_of doc_schemas ''JobResultResponse'' = Some schema_JobResultResponse"
  "map_of doc_schemas ''FreeformObject'' = Some schema_FreeformObject"
  by (simp_all add: doc_schemas_def)

lemmas conforms_refs = response_schemas [THEN conforms_ref]

lemma conforms_keywords:
  "conforms (Suc n) (JObject [(''type'', JString ''boolean'')]) (JBool b)"
  "conforms (Suc n) (JObject [(''type'', JString ''string'')]) (JString s)"
  "conforms (Suc n) (JObject [(''type'', JString ''string''), (''description'', d)]) (JString s)"
  "conforms (Suc n) (JObject [(''type'', JString ''integer'')]) (JNumber i)"
  "conforms (Suc n) (JObject [(''type'', JString ''integer''), (''format'', f)]) (JNumber i)"
  "conforms (Suc n) (JObject [(''type'', JString ''integer''), (''minimum'', JNumber 0)]) (JNumber (int k))"
  "conforms (Suc n) (JObject [(''type'', JString ''integer''), (''minimum'', JNumber 0), (''description'', d)]) (JNumber (int k))"
  "conforms (Suc n) (JObject [(''description'', d)]) v"
  by (simp_all add: keyword_def typed_def string_conforms_def integer_conforms_def)

lemma conforms_enum:
  "conforms (Suc n) (JObject [(''type'', JString ''string''), (''enum'', JArray ts)]) (JString t) \<longleftrightarrow>
     t \<in> set (texts_of (Some (JArray ts)))"
  by (simp add: keyword_def typed_def string_conforms_def)

declare conforms.simps [simp del]

lemma role_conforms: "conforms (Suc n) schema_MembershipRole (JString (role_str r))"
  by (cases r) (simp_all add: schema_MembershipRole_def conforms_enum texts_of_def List.map_filter_def)

lemma task_status_conforms: "conforms (Suc n) schema_TaskStatus (JString (task_status_str r))"
  by (cases r) (simp_all add: schema_TaskStatus_def conforms_enum texts_of_def List.map_filter_def)

lemma task_priority_conforms: "conforms (Suc n) schema_TaskPriority (JString (task_priority_str r))"
  by (cases r) (simp_all add: schema_TaskPriority_def conforms_enum texts_of_def List.map_filter_def)

lemma job_status_conforms: "conforms (Suc n) schema_JobStatus (JString (job_status_str r))"
  by (cases r) (simp_all add: schema_JobStatus_def conforms_enum texts_of_def List.map_filter_def)

lemmas conforms_rules = conforms_object conforms_refs conforms_plain conforms_nullable_opt conforms_keywords conforms_array
  role_conforms task_status_conforms task_priority_conforms job_status_conforms

section \<open>The values of the handlers\<close>

named_theorems conforming

lemma error_conforms [conforming]: "rp_body (error_response err) = Json v \<Longrightarrow> conforms (Suc (Suc (Suc (Suc (Suc n))))) (doc_schema_ref ''ErrorEnvelope'') v"
  by (auto simp: error_response_def json_reply_def schema_ErrorEnvelope_def schema_ErrorBody_def conforms_rules)

lemma health_conforms [conforming]: "conforms (Suc (Suc n)) schema_HealthResponse (health_response_json s)"
  by (simp add: schema_HealthResponse_def health_response_json_def conforms_rules)

lemma user_conforms [conforming]: "conforms (Suc (Suc n)) schema_UserResponse (user_response_json u)"
  by (simp add: schema_UserResponse_def user_response_json_def conforms_rules)

lemma membership_conforms [conforming]:
  "membership_response_json m = Inr v \<Longrightarrow> conforms (Suc (Suc (Suc n))) schema_TenantMembershipResponse v"
  by (auto simp: schema_TenantMembershipResponse_def membership_response_json_def try_then_Inr conforms_rules)

lemma member_conforms [conforming]:
  "member_response_json m = Inr v \<Longrightarrow> conforms (Suc (Suc (Suc n))) schema_TenantMemberResponse v"
  by (auto simp: schema_TenantMemberResponse_def member_response_json_def try_then_Inr conforms_rules)

lemma invitation_conforms [conforming]:
  "invitation_response_json m = Inr v \<Longrightarrow> conforms (Suc (Suc (Suc n))) schema_InvitationResponse v"
  by (auto simp: schema_InvitationResponse_def invitation_response_json_def try_then_Inr conforms_rules)

lemma created_invitation_conforms [conforming]:
  "invitation_create_json m = Inr v \<Longrightarrow> conforms (Suc (Suc (Suc (Suc (Suc n))))) schema_InvitationCreateResponse v"
  by (auto simp: schema_InvitationCreateResponse_def invitation_create_json_def try_then_Inr conforms_rules conforming)

lemma auth_conforms [conforming]:
  "auth_response_json m = Inr v \<Longrightarrow> conforms (Suc (Suc (Suc (Suc (Suc n))))) schema_AuthResponse v"
  by (auto simp: schema_AuthResponse_def auth_response_json_def try_then_Inr conforms_rules conforming)

lemma me_conforms [conforming]:
  "me_response_json m = Inr v \<Longrightarrow> conforms (Suc (Suc (Suc (Suc (Suc n))))) schema_MeResponse v"
  by (auto simp: schema_MeResponse_def me_response_json_def try_then_Inr conforms_rules conforming)

lemma session_conforms [conforming]: "conforms (Suc (Suc n)) schema_SessionResponse (session_response_json r)"
  by (simp add: schema_SessionResponse_def session_response_json_def conforms_rules)

lemma preferences_conforms [conforming]: "conforms (Suc (Suc n)) schema_NotificationPreferencesResponse (preferences_json r)"
  by (simp add: schema_NotificationPreferencesResponse_def preferences_json_def conforms_rules)

lemma read_all_conforms [conforming]: "conforms (Suc (Suc n)) schema_NotificationsReadAllResponse (read_all_json k)"
  by (simp add: schema_NotificationsReadAllResponse_def read_all_json_def conforms_rules)

lemma dashboard_conforms [conforming]: "conforms (Suc (Suc n)) schema_DashboardSummary (dashboard_summary_json d)"
  by (simp add: schema_DashboardSummary_def dashboard_summary_json_def conforms_rules)

lemma project_conforms [conforming]: "conforms (Suc (Suc n)) schema_ProjectResponse (project_response_json p)"
  by (simp add: schema_ProjectResponse_def project_response_json_def conforms_rules)

lemma project_summary_conforms [conforming]: "conforms (Suc (Suc n)) schema_ProjectSummary (project_summary_json p)"
  by (simp add: schema_ProjectSummary_def project_summary_json_def conforms_rules)

lemma label_conforms [conforming]: "conforms (Suc (Suc n)) schema_LabelResponse (label_response_json l)"
  by (simp add: schema_LabelResponse_def label_response_json_def conforms_rules)

lemma comment_conforms [conforming]: "conforms (Suc (Suc n)) schema_CommentResponse (comment_response_json c)"
  by (simp add: schema_CommentResponse_def comment_response_json_def conforms_rules)

lemma attachment_conforms [conforming]: "conforms (Suc (Suc n)) schema_AttachmentResponse (attachment_response_json e a)"
  by (simp add: schema_AttachmentResponse_def attachment_response_json_def conforms_rules)

lemma task_conforms [conforming]: "conforms (Suc (Suc (Suc n))) schema_TaskResponse (task_response_json t)"
  by (simp add: schema_TaskResponse_def task_response_json_def conforms_rules)

lemma webhook_conforms [conforming]: "conforms (Suc (Suc (Suc n))) schema_WebhookResponse (webhook_response_json w)"
  by (simp add: schema_WebhookResponse_def webhook_response_json_def conforms_rules list_all_iff)

lemma created_webhook_conforms [conforming]:
  "conforms (Suc (Suc (Suc (Suc (Suc n))))) schema_WebhookCreateResponse (webhook_create_json w)"
  by (simp add: schema_WebhookCreateResponse_def webhook_create_json_def conforms_rules conforming)

subsection \<open>Lists and pages\<close>

lemma page_conforms:
  assumes "list_all (conforms n i) vs"
  shows "conforms (Suc (Suc n)) (JObject [(''type'', JString ''object''),
      (''required'', JArray [JString ''data'', JString ''next_cursor'']),
      (''properties'', JObject [(''data'', doc_array_schema i), (''next_cursor'', doc_nullable doc_string_schema)])])
    (page_json vs next)"
  using assms by (simp add: page_json_def conforms_rules)

lemma pages_conform [conforming]:
  "conforms (Suc (Suc (Suc (Suc (Suc (Suc n)))))) schema_TaskListResponse (page_json (map task_response_json ts) next)"
  "conforms (Suc (Suc (Suc (Suc (Suc (Suc n)))))) schema_CommentListResponse (page_json (map comment_response_json cs) next)"
  by (simp_all add: schema_TaskListResponse_def schema_CommentListResponse_def conforms_rules conforming list_all_iff page_conforms)

lemma bulk_conforms [conforming]:
  "bulk_status_json ts = Inr v \<Longrightarrow> conforms (Suc (Suc (Suc (Suc (Suc (Suc n)))))) schema_BulkTaskStatusResponse v"
  by (auto simp: schema_BulkTaskStatusResponse_def bulk_status_json_def try_then_Inr conforms_rules conforming list_all_iff)

lemma collected_conform:
  assumes "collect_results f xs = Inr vs" and "\<And>x v. f x = Inr v \<Longrightarrow> conforms n i v"
  shows "conforms (Suc n) (doc_array_schema i) (JArray vs)"
proof -
  have "list_all (conforms n i) vs" using assms
    by (induction xs arbitrary: vs) (auto split: sum.splits)
  then show ?thesis by (simp add: conforms_array)
qed

subsection \<open>Stored JSON\<close>

text \<open>What the document promises of a stored payload is that it is an object.\<close>

lemma freeform_schema: "is_object v \<Longrightarrow> conforms (Suc n) schema_FreeformObject v"
  by (cases v) (auto simp: is_object_def schema_FreeformObject_def keyword_def typed_def texts_of_def entries_of_def
      intro!: conforms_typed)

lemma freeform_conforms: "is_object v \<Longrightarrow> conforms (Suc (Suc n)) (doc_schema_ref ''FreeformObject'') v"
  by (simp add: conforms_refs freeform_schema)

lemma audit_event_conforms [conforming]:
  "is_object (ar_payload v) \<Longrightarrow> conforms (Suc (Suc (Suc n))) schema_AuditEventResponse (audit_event_json v)"
  by (simp add: schema_AuditEventResponse_def audit_event_json_def conforms_rules freeform_schema)

lemma task_audit_conforms [conforming]:
  "is_object (ta_payload v) \<Longrightarrow> conforms (Suc (Suc (Suc n))) schema_TaskAuditResponse (task_audit_json v)"
  by (simp add: schema_TaskAuditResponse_def task_audit_json_def conforms_rules freeform_schema)

lemma feed_item_conforms [conforming]:
  "is_object (fi_payload v) \<Longrightarrow> fi_kind v \<in> {''task_due_soon'', ''task_overdue'', ''task_commented''} \<Longrightarrow>
   conforms (Suc (Suc (Suc n))) schema_NotificationFeedItemResponse (feed_item_json v)"
  by (simp add: schema_NotificationFeedItemResponse_def feed_item_json_def conforms_rules conforms_enum texts_of_def
      List.map_filter_def freeform_schema)

lemma delivery_conforms [conforming]:
  "wd_status v \<in> {''pending'', ''delivered'', ''dead_letter''} \<Longrightarrow>
   conforms (Suc (Suc (Suc n))) schema_WebhookDeliveryResponse (delivery_response_json v)"
  by (simp add: schema_WebhookDeliveryResponse_def delivery_response_json_def conforms_rules conforms_enum texts_of_def
      List.map_filter_def)

lemma oauth_account_conforms [conforming]:
  "oar_provider v \<in> {''google'', ''github''} \<Longrightarrow> conforms (Suc (Suc n)) schema_OAuthAccountResponse (oauth_account_json v)"
  by (simp add: schema_OAuthAccountResponse_def oauth_account_json_def conforms_rules conforms_enum texts_of_def
      List.map_filter_def)

text \<open>The document knows two types of jobs; the third is never shown to a tenant.\<close>

lemma job_type_conforms: "t \<noteq> RetentionSweep \<Longrightarrow> conforms (Suc n) schema_JobType (JString (job_type_str t))"
  by (cases t) (simp_all add: schema_JobType_def conforms_enum texts_of_def List.map_filter_def)

lemma conforms_one_of: "t \<in> set ts \<Longrightarrow> conforms n t v \<Longrightarrow> conforms (Suc n) (JObject [(''oneOf'', JArray ts)]) v"
  "t \<in> set ts \<Longrightarrow> conforms n t v \<Longrightarrow> conforms (Suc n) (JObject [(''oneOf'', JArray ts), (''nullable'', b)]) v"
  by (auto simp: conforms.simps(2) keyword_def list_ex_iff)

lemma job_payload_conforms:
  assumes "is_object v"
  shows "conforms (Suc (Suc (Suc n))) doc_job_payload_schema v" and "conforms (Suc (Suc (Suc n))) doc_job_result_payload_schema v"
  using freeform_conforms [OF assms] unfolding doc_job_payload_schema_def doc_job_result_payload_schema_def
  by (auto intro!: conforms_one_of(1) [where t = "doc_schema_ref ''FreeformObject''"])

lemma job_outcome_conforms:
  assumes "list_all is_object (case w of None \<Rightarrow> [] | Some x \<Rightarrow> [x])"
  shows "conforms (Suc (Suc (Suc n))) (doc_nullable doc_job_result_payload_schema) (json_opt (\<lambda>x. x) w)"
proof (cases w)
  case None
  have "json_get (doc_nullable doc_job_result_payload_schema) ''nullable'' = Some (JBool True)"
    by (simp add: doc_job_result_payload_schema_def doc_nullable_def)
  with None show ?thesis by (simp add: conforms_null json_opt_def)
next
  case (Some x)
  with assms have "is_object x" by simp
  from freeform_conforms [OF this] Some show ?thesis
    unfolding doc_job_result_payload_schema_def doc_nullable_def
    by (auto simp: json_opt_def intro!: conforms_one_of(2) [where t = "doc_schema_ref ''FreeformObject''"])
qed

lemmas job_json_conforms = job_payload_conforms job_outcome_conforms

lemma job_conforms [conforming]:
  assumes "job_response_json j = Inr v" and "is_object (jb_payload j)" and "jb_job_type j \<noteq> ''retention_sweep''"
    and "list_all is_object (case jb_result_payload j of None \<Rightarrow> [] | Some x \<Rightarrow> [x])"
  shows "conforms (Suc (Suc (Suc (Suc n)))) schema_JobResponse v"
proof -
  from assms(1) obtain t q where t: "job_type_from_str (jb_job_type j) = Inr t" and q: "job_status_from_str (jb_status j) = Inr q"
    by (auto simp: job_response_json_def try_then_Inr)
  from t assms(3) have "t \<noteq> RetentionSweep" by (auto simp: job_type_enum.parse_iff)
  then show ?thesis using assms(1,2,4) t q
    by (auto simp: schema_JobResponse_def job_response_json_def conforms_rules job_json_conforms job_type_conforms)
qed

lemma job_result_conforms [conforming]:
  "is_object (jx_result r) \<Longrightarrow> jx_job_type r \<noteq> RetentionSweep \<Longrightarrow>
   conforms (Suc (Suc (Suc (Suc n)))) schema_JobResultResponse (job_result_json r)"
  by (simp add: schema_JobResultResponse_def job_result_json_def conforms_rules job_type_conforms job_json_conforms)

end
