(* ===== verification/Handlers.thy ===== *)
theory Handlers
  imports Http
begin

text \<open>
  The handlers of \<open>src/http/handlers.rs\<close>, one definition each. What a handler draws or reads from
  outside (its clock, identifiers, random text, the configuration and the third-party functions) is the
  context \<open>x\<close>; the caller of a protected route is \<open>u\<close>.
\<close>

record ctx =
  cx_env :: env
  cx_jwt :: jwt
  cx_uri :: host_parser
  cx_http :: provider_http
  cx_now :: time
  cx_fresh :: fresh
  cx_id :: uuid
  cx_ids :: "nat \<Rightarrow> uuid"
  cx_grid :: "uuid \<Rightarrow> nat \<Rightarrow> uuid"

definition json_ok :: "json \<Rightarrow> response app" where "json_ok v = ret (json_reply 200 v)"

text \<open>\<open>query.limit.unwrap_or(default).clamp(1, max)\<close>.\<close>

definition clamp_limit :: "nat \<Rightarrow> nat \<Rightarrow> nat option \<Rightarrow> nat" where
  "clamp_limit standard most limit = min (max (case limit of Some n \<Rightarrow> n | None \<Rightarrow> standard) 1) most"

definition decode_cursor :: "ctx \<Rightarrow> string option \<Rightarrow> cursor option result" where
  "decode_cursor x token = transpose_opt (cursor_decode (codec (cx_env x))) token"

definition encode_next :: "ctx \<Rightarrow> cursor option \<Rightarrow> string option result" where
  "encode_next x next = transpose_opt (cursor_encode (codec (cx_env x))) next"

definition json_list :: "('a \<Rightarrow> json) \<Rightarrow> 'a list \<Rightarrow> response app" where
  "json_list f xs = json_ok (JArray (map f xs))"

section \<open>Health\<close>

definition http_healthz :: "response app" where "http_healthz = json_ok (health_response_json ''ok'')"

definition http_readyz :: "response app" where "http_readyz = json_ok (health_response_json ''ready'')"

text \<open>The bytes are compared without an early exit: \<open>diff\<close> collects the differing bits.\<close>

fun diff_bytes :: "8 word \<Rightarrow> 8 word list \<Rightarrow> 8 word list \<Rightarrow> 8 word" where
  "diff_bytes diff (a # as) (b # bs) = diff_bytes (or diff (xor a b)) as bs"
| "diff_bytes diff _ _ = diff"

definition constant_time_eq :: "8 word list \<Rightarrow> 8 word list \<Rightarrow> bool" where
  "constant_time_eq left right = (if length left \<noteq> length right then False else diff_bytes 0 left right = 0)"

definition as_bytes :: "string \<Rightarrow> 8 word list" where "as_bytes s = map (\<lambda>c. word_of_nat (byte c)) s"

definition http_metrics :: "ctx \<Rightarrow> string \<Rightarrow> inbound \<Rightarrow> response app" where
  "http_metrics x rendered req =
     then_do (case metrics_auth_token (cfg (cx_env x)) of
         None \<Rightarrow> ret ()
       | Some expected \<Rightarrow>
           then_do (lift_result (bearer_token req)) (\<lambda>provided.
           if constant_time_eq (as_bytes provided) (as_bytes expected) then ret ()
           else fail (Unauthorized ''invalid metrics token''))) (\<lambda>_.
     ret \<lparr>rp_status = 200, rp_headers = [(''content-type'', ''text/plain; version=0.0.4'')], rp_body = Raw rendered\<rparr>)"

section \<open>Accounts and sessions\<close>

definition auth_reply :: "nat \<Rightarrow> auth_session \<Rightarrow> response app" where
  "auth_reply status s = then_do (lift_result (auth_response_json s)) (\<lambda>v. ret (json_reply status v))"

definition http_register :: "ctx \<Rightarrow> register_request \<Rightarrow> response app" where
  "http_register x p =
     then_do (lift_result (normalize_email (rr_email p))) (\<lambda>email.
     then_do (lift_result (validate_password (rr_password p))) (\<lambda>_.
     then_do (svc_register (cx_jwt x) (cx_env x) (cx_fresh x) (cx_now x) email (rr_password p) (rr_tenant_name p)) (\<lambda>s.
     auth_reply 201 s)))"

definition http_login :: "ctx \<Rightarrow> login_request \<Rightarrow> response app" where
  "http_login x p =
     then_do (lift_result (normalize_email (lr_email p))) (\<lambda>email.
     then_do (svc_login (cx_jwt x) (cx_env x) (cx_fresh x) (cx_now x) email (lr_password p) (lr_tenant_id p)) (\<lambda>s.
     auth_reply 200 s))"

definition http_oauth_login :: "ctx \<Rightarrow> string \<Rightarrow> oauth_login_request \<Rightarrow> response app" where
  "http_oauth_login x provider p =
     (let provider = to_ascii_lowercase (trim provider)
      in if trim (ol_code p) = [] then fail (Validation ''code must not be empty'')
         else if trim (ol_redirect_uri p) = [] then fail (Validation ''redirect_uri must not be empty'')
         else
           then_do (svc_oauth_login (cx_jwt x) (cx_http x) (cx_env x) (cx_fresh x) (cx_id x) (cx_now x) provider
             (trim (ol_code p)) (trim (ol_redirect_uri p)) (ol_tenant_id p) (ol_tenant_name p)) (\<lambda>s.
           auth_reply 200 s))"

definition http_refresh :: "ctx \<Rightarrow> refresh_request \<Rightarrow> response app" where
  "http_refresh x p =
     then_do (svc_refresh (cx_jwt x) (cx_env x) (cx_fresh x) (cx_now x) (rf_refresh_token p) (rf_tenant_id p)) (\<lambda>s.
     auth_reply 200 s)"

definition http_logout :: "ctx \<Rightarrow> inbound \<Rightarrow> logout_request \<Rightarrow> response app" where
  "http_logout x req p =
     (let header_access_token = (case bearer_token req of Inr t \<Rightarrow> Some t | Inl _ \<Rightarrow> None);
          access_token = (case lo_access_token p of Some t \<Rightarrow> Some t | None \<Rightarrow> header_access_token)
      in then_do (svc_logout (cx_jwt x) (cx_env x) (f_audit (cx_fresh x)) (cx_now x) (lo_refresh_token p) access_token) (\<lambda>_.
         ret (empty_reply 204)))"

definition http_verify_email :: "ctx \<Rightarrow> string \<Rightarrow> response app" where
  "http_verify_email x payload_token =
     (let token = trim payload_token
      in if token = [] then fail (Validation ''token must not be empty'')
         else
           then_do (svc_verify_email (cx_env x) (f_audit (cx_fresh x)) (cx_now x) token) (\<lambda>_.
           ret (empty_reply 204)))"

definition http_resend_verification :: "ctx \<Rightarrow> string \<Rightarrow> response app" where
  "http_resend_verification x payload_email =
     then_do (lift_result (normalize_email payload_email)) (\<lambda>email.
     then_do (svc_resend_verification (cx_env x) (f_token (cx_fresh x)) (f_notification (cx_fresh x)) (f_text (cx_fresh x))
       (cx_now x) email) (\<lambda>_.
     ret (empty_reply 202)))"

definition http_request_password_reset :: "ctx \<Rightarrow> string \<Rightarrow> response app" where
  "http_request_password_reset x payload_email =
     then_do (lift_result (normalize_email payload_email)) (\<lambda>email.
     then_do (svc_request_password_reset (cx_env x) (f_token (cx_fresh x)) (f_notification (cx_fresh x)) (f_text (cx_fresh x))
       (cx_now x) email) (\<lambda>_.
     ret (empty_reply 202)))"

definition http_confirm_password_reset :: "ctx \<Rightarrow> password_reset_confirm_payload \<Rightarrow> response app" where
  "http_confirm_password_reset x p =
     (let token = trim (pc_token p)
      in if token = [] then fail (Validation ''token must not be empty'')
         else
           then_do (lift_result (validate_password (pc_new_password p))) (\<lambda>_.
           then_do (svc_confirm_password_reset (cx_env x) (f_audit (cx_fresh x)) (f_salt (cx_fresh x)) (cx_now x) token
             (pc_new_password p)) (\<lambda>_.
           ret (empty_reply 204))))"

definition http_change_password :: "ctx \<Rightarrow> auth_user \<Rightarrow> change_password_payload \<Rightarrow> response app" where
  "http_change_password x u p =
     then_do (lift_result (validate_password (pw_new_password p))) (\<lambda>_.
     then_do (svc_change_password (cx_env x) (f_audit (cx_fresh x)) (f_salt (cx_fresh x)) (cx_now x) (au_user_id u)
       (pw_current_password p) (pw_new_password p)) (\<lambda>_.
     ret (empty_reply 204)))"

definition http_change_email :: "ctx \<Rightarrow> auth_user \<Rightarrow> change_email_payload \<Rightarrow> response app" where
  "http_change_email x u p =
     then_do (lift_result (normalize_email (pe_new_email p))) (\<lambda>email.
     then_do (svc_change_email (cx_env x) (f_token (cx_fresh x)) (f_notification (cx_fresh x)) (f_audit (cx_fresh x))
       (f_text (cx_fresh x)) (cx_now x) (au_user_id u) (pe_current_password p) email) (\<lambda>updated.
     json_ok (user_response_json updated)))"

definition http_switch_tenant :: "ctx \<Rightarrow> auth_user \<Rightarrow> uuid \<Rightarrow> response app" where
  "http_switch_tenant x u tenant =
     then_do (svc_switch_tenant (cx_jwt x) (cx_env x) (cx_fresh x) (cx_now x) (au_user_id u) tenant) (\<lambda>s.
     auth_reply 200 s)"

definition http_me :: "auth_user \<Rightarrow> response app" where
  "http_me u =
     then_do (svc_me (au_user_id u) (au_tenant_id u)) (\<lambda>profile.
     then_do (lift_result (me_response_json profile)) json_ok)"

definition http_update_profile :: "ctx \<Rightarrow> auth_user \<Rightarrow> string option option \<Rightarrow> response app" where
  "http_update_profile x u display_name =
     (case display_name of
        None \<Rightarrow> fail (Validation ''at least one profile field must be provided'')
      | Some display_name \<Rightarrow>
          then_do (svc_update_profile (f_audit (cx_fresh x)) (cx_now x) (au_tenant_id u) (au_user_id u) display_name) (\<lambda>updated.
          json_ok (user_response_json updated)))"

definition http_list_my_tenants :: "auth_user \<Rightarrow> response app" where
  "http_list_my_tenants u =
     then_do (svc_list_tenants (au_user_id u)) (\<lambda>memberships.
     then_do (lift_result (collect_results membership_response_json memberships)) (\<lambda>vs. json_ok (JArray vs)))"

definition http_list_oauth_accounts :: "ctx \<Rightarrow> auth_user \<Rightarrow> response app" where
  "http_list_oauth_accounts x u =
     then_do (svc_list_oauth_accounts (cx_env x) (au_user_id u)) (\<lambda>accounts. json_list oauth_account_json accounts)"

definition http_unlink_oauth_account :: "ctx \<Rightarrow> auth_user \<Rightarrow> string \<Rightarrow> response app" where
  "http_unlink_oauth_account x u provider =
     then_do (svc_unlink_oauth_account (f_audit (cx_fresh x)) (cx_now x) (au_tenant_id u) (au_user_id u)
       (to_ascii_lowercase (trim provider))) (\<lambda>_.
     ret (empty_reply 204))"

definition http_list_sessions :: "ctx \<Rightarrow> auth_user \<Rightarrow> response app" where
  "http_list_sessions x u =
     then_do (svc_list_sessions (cx_now x) (au_user_id u)) (\<lambda>sessions. json_list session_response_json sessions)"

definition http_revoke_session :: "ctx \<Rightarrow> auth_user \<Rightarrow> uuid \<Rightarrow> response app" where
  "http_revoke_session x u session =
     then_do (svc_revoke_session (f_audit (cx_fresh x)) (cx_now x) (au_tenant_id u) (au_user_id u) session) (\<lambda>_.
     ret (empty_reply 204))"

definition http_logout_all_sessions :: "ctx \<Rightarrow> auth_user \<Rightarrow> inbound \<Rightarrow> response app" where
  "http_logout_all_sessions x u req =
     then_do (lift_result (bearer_token req)) (\<lambda>access_token.
     then_do (svc_logout_all (cx_jwt x) (cx_env x) (f_audit (cx_fresh x)) (cx_now x) (au_tenant_id u) (au_user_id u)
       access_token) (\<lambda>_.
     ret (empty_reply 204)))"

end
