(* ===== verification/ResourceHandlers.thy ===== *)
theory ResourceHandlers
  imports Handlers
begin

text \<open>
  The handlers of \<open>src/http/handlers.rs\<close> for what belongs to a tenant: members, invitations, projects,
  labels, webhooks, comments, attachments, tasks, exports and jobs, the audit log and the feed.
\<close>

definition with_key :: "auth_user \<Rightarrow> string \<Rightarrow> inbound \<Rightarrow> (redis_key \<Rightarrow> response app) \<Rightarrow> response app" where
  "with_key u route req f =
     then_do (lift_result (required_idempotency_key req)) (\<lambda>key. f (KIdempotency (au_tenant_id u) route key))"

definition guard :: "unit result \<Rightarrow> 'a app \<Rightarrow> 'a app" where
  "guard r m = then_do (lift_result r) (\<lambda>_. m)"

section \<open>Audit log and feed\<close>

definition http_list_audit_events :: "ctx \<Rightarrow> auth_user \<Rightarrow> page_query \<Rightarrow> response app" where
  "http_list_audit_events x u q =
     guard (ensure_admin_role (au_role u))
       (then_do (lift_result (decode_cursor x (pq_cursor q))) (\<lambda>c.
        then_do (svc_list_events (cx_env x) (au_tenant_id u) c (clamp_limit 50 200 (pq_limit q))) (\<lambda>(data, next).
        json_ok (page_json (map audit_event_json data) next))))"

definition http_get_notification_preferences :: "auth_user \<Rightarrow> response app" where
  "http_get_notification_preferences u =
     then_do (svc_get_notification_preferences (au_user_id u)) (\<lambda>p. json_ok (preferences_json p))"

definition http_update_notification_preferences :: "ctx \<Rightarrow> auth_user \<Rightarrow> preferences_payload \<Rightarrow> response app" where
  "http_update_notification_preferences x u p =
     then_do (svc_update_notification_preferences (f_audit (cx_fresh x)) (cx_now x) (au_tenant_id u) (au_user_id u)
       (pf_task_due_soon p) (pf_task_overdue p) (pf_task_commented p)) (\<lambda>r.
     json_ok (preferences_json r))"

definition http_list_my_notifications :: "ctx \<Rightarrow> auth_user \<Rightarrow> notification_list_query \<Rightarrow> response app" where
  "http_list_my_notifications x u q =
     then_do (lift_result (decode_cursor x (nq_cursor q))) (\<lambda>c.
     then_do (svc_list_feed (cx_env x) (au_tenant_id u) (au_user_id u)
       (case nq_unread q of Some b \<Rightarrow> b | None \<Rightarrow> False) c (clamp_limit 50 200 (nq_limit q))) (\<lambda>feed.
     json_ok (feed_response_json feed)))"

definition http_mark_notification_read :: "ctx \<Rightarrow> auth_user \<Rightarrow> uuid \<Rightarrow> response app" where
  "http_mark_notification_read x u i =
     then_do (svc_mark_read (cx_now x) (au_tenant_id u) (au_user_id u) i) (\<lambda>_. ret (empty_reply 204))"

definition http_mark_all_notifications_read :: "ctx \<Rightarrow> auth_user \<Rightarrow> response app" where
  "http_mark_all_notifications_read x u =
     then_do (svc_mark_all_read (cx_now x) (au_tenant_id u) (au_user_id u)) (\<lambda>n. json_ok (read_all_json n))"

section \<open>Members and invitations\<close>

definition http_list_tenant_members :: "ctx \<Rightarrow> auth_user \<Rightarrow> uuid \<Rightarrow> response app" where
  "http_list_tenant_members x u tenant =
     then_do (svc_list_tenant_members (cx_env x) (au_tenant_id u) tenant) (\<lambda>members.
     then_do (lift_result (collect_results member_response_json members)) (\<lambda>vs. json_ok (JArray vs)))"

definition http_create_invitation ::
  "ctx \<Rightarrow> auth_user \<Rightarrow> uuid \<Rightarrow> inbound \<Rightarrow> invitation_create_payload \<Rightarrow> response app" where
  "http_create_invitation x u tenant req p =
     guard (ensure_active_tenant (au_tenant_id u) tenant)
       (guard (ensure_admin_role (au_role u))
         (then_do (lift_result (normalize_email (ic_email p))) (\<lambda>email.
          then_do (lift_result (role_from_str (to_ascii_lowercase (trim (ic_role p))))) (\<lambda>role.
          then_do (lift_result (required_idempotency_key req)) (\<lambda>key.
          idempotent (cx_env x) (cx_now x) (KIdempotency tenant ''invitations:create'' key) (Inr ()) 201
            invitation_create_json
            (\<lambda>_. svc_create_invitation (cx_env x) (cx_id x) (f_notification (cx_fresh x)) (f_audit (cx_fresh x))
               (f_text (cx_fresh x)) (cx_now x) tenant (au_role u) (au_user_id u) email role))))))"

definition http_list_invitations :: "ctx \<Rightarrow> auth_user \<Rightarrow> uuid \<Rightarrow> response app" where
  "http_list_invitations x u tenant =
     guard (ensure_active_tenant (au_tenant_id u) tenant)
       (guard (ensure_admin_role (au_role u))
         (then_do (svc_list_invitations (cx_now x) tenant) (\<lambda>vs.
          then_do (lift_result (collect_results invitation_response_json vs)) (\<lambda>vs. json_ok (JArray vs)))))"

definition http_revoke_invitation :: "ctx \<Rightarrow> auth_user \<Rightarrow> uuid \<Rightarrow> uuid \<Rightarrow> response app" where
  "http_revoke_invitation x u tenant i =
     guard (ensure_active_tenant (au_tenant_id u) tenant)
       (guard (ensure_admin_role (au_role u))
         (then_do (svc_revoke_invitation (f_audit (cx_fresh x)) (cx_now x) tenant (au_user_id u) i) (\<lambda>_.
          ret (empty_reply 204))))"

definition http_accept_invitation :: "ctx \<Rightarrow> auth_user \<Rightarrow> uuid \<Rightarrow> string \<Rightarrow> response app" where
  "http_accept_invitation x u tenant payload_token =
     (let token = trim payload_token
      in if token = [] then fail (Validation ''token must not be empty'')
         else
           then_do (svc_accept_invitation (cx_env x) (f_audit (cx_fresh x)) (cx_now x) tenant (au_user_id u) token) (\<lambda>m.
           then_do (lift_result (membership_response_json m)) json_ok))"

definition http_update_member_role :: "ctx \<Rightarrow> auth_user \<Rightarrow> uuid \<Rightarrow> uuid \<Rightarrow> string \<Rightarrow> response app" where
  "http_update_member_role x u tenant member role =
     guard (ensure_active_tenant (au_tenant_id u) tenant)
       (guard (ensure_admin_role (au_role u))
         (then_do (lift_result (role_from_str (to_ascii_lowercase (trim role)))) (\<lambda>role.
          then_do (svc_update_member_role (f_audit (cx_fresh x)) (cx_now x) tenant (au_role u) (au_user_id u) member role) (\<lambda>m.
          then_do (lift_result (member_response_json m)) json_ok))))"

definition http_remove_member :: "ctx \<Rightarrow> auth_user \<Rightarrow> uuid \<Rightarrow> uuid \<Rightarrow> response app" where
  "http_remove_member x u tenant member =
     guard (ensure_active_tenant (au_tenant_id u) tenant)
       (guard (ensure_admin_role (au_role u))
         (then_do (svc_remove_member (f_audit (cx_fresh x)) (cx_now x) tenant (au_role u) (au_user_id u) member) (\<lambda>_.
          ret (empty_reply 204))))"

section \<open>Projects\<close>

definition http_list_projects :: "auth_user \<Rightarrow> response app" where
  "http_list_projects u = then_do (db_read (db_list_projects (au_tenant_id u))) (\<lambda>ps. json_list project_response_json ps)"

definition http_create_project :: "ctx \<Rightarrow> auth_user \<Rightarrow> inbound \<Rightarrow> project_payload \<Rightarrow> response app" where
  "http_create_project x u req p =
     guard (ensure_admin_role (au_role u))
       (then_do (lift_result (validate_create_project \<lparr>cp_name = pp_name p, cp_description = pp_description p\<rparr>)) (\<lambda>input.
        with_key u ''projects:create'' req (\<lambda>k.
        idempotent (cx_env x) (cx_now x) k (Inr ()) 201 (\<lambda>p. Inr (project_response_json p))
          (\<lambda>_. svc_create_project (cx_id x) (f_audit (cx_fresh x)) (cx_now x) (au_tenant_id u) (au_user_id u) input))))"

definition http_get_project :: "auth_user \<Rightarrow> uuid \<Rightarrow> response app" where
  "http_get_project u i = then_do (svc_get_project (au_tenant_id u) i) (\<lambda>p. json_ok (project_response_json p))"

definition http_get_project_summary :: "ctx \<Rightarrow> auth_user \<Rightarrow> uuid \<Rightarrow> response app" where
  "http_get_project_summary x u i =
     then_do (svc_project_summary (cx_now x) (au_tenant_id u) i) (\<lambda>s. json_ok (project_summary_json s))"

text \<open>The listing \<open>list_tasks\<close> and \<open>list_project_tasks\<close> share.\<close>

definition list_tasks_page :: "ctx \<Rightarrow> auth_user \<Rightarrow> task_list_query \<Rightarrow> response app" where
  "list_tasks_page x u q =
     then_do (lift_result (query_into_filters (cx_env x) q)) (\<lambda>filters.
     then_do (lift_result (decode_cursor x (ql_cursor q))) (\<lambda>c.
     then_do (svc_list_tasks_cached (cx_env x) (cx_now x) (au_tenant_id u) filters (ql_cursor q) c
       (clamp_limit 20 100 (ql_limit q))) (\<lambda>page.
     json_ok (page_json (map task_response_json (pg_data page)) (pg_next_cursor page)))))"

definition http_list_project_tasks :: "ctx \<Rightarrow> auth_user \<Rightarrow> uuid \<Rightarrow> task_list_query \<Rightarrow> response app" where
  "http_list_project_tasks x u i q =
     then_do (svc_get_project (au_tenant_id u) i) (\<lambda>_. list_tasks_page x u (q\<lparr>ql_project_id := Some i\<rparr>))"

definition http_update_project :: "ctx \<Rightarrow> auth_user \<Rightarrow> uuid \<Rightarrow> project_patch_payload \<Rightarrow> response app" where
  "http_update_project x u i p =
     guard (ensure_admin_role (au_role u))
       (then_do (lift_result (validate_update_project \<lparr>ud_name = pt_name p, ud_description = pt_description p\<rparr>)) (\<lambda>input.
        then_do (svc_update_project (f_audit (cx_fresh x)) (cx_now x) (au_tenant_id u) i (au_user_id u) input) (\<lambda>p.
        json_ok (project_response_json p))))"

definition http_delete_project :: "ctx \<Rightarrow> auth_user \<Rightarrow> uuid \<Rightarrow> response app" where
  "http_delete_project x u i =
     guard (ensure_admin_role (au_role u))
       (then_do (svc_archive_project (f_audit (cx_fresh x)) (cx_now x) (au_tenant_id u) (au_user_id u) i) (\<lambda>_.
        ret (empty_reply 204)))"

definition http_restore_project :: "ctx \<Rightarrow> auth_user \<Rightarrow> uuid \<Rightarrow> response app" where
  "http_restore_project x u i =
     guard (ensure_admin_role (au_role u))
       (then_do (svc_restore_project (f_audit (cx_fresh x)) (cx_now x) (au_tenant_id u) (au_user_id u) i) (\<lambda>p.
        json_ok (project_response_json p)))"

section \<open>Labels\<close>

definition http_list_labels :: "ctx \<Rightarrow> auth_user \<Rightarrow> response app" where
  "http_list_labels x u = then_do (svc_list_labels (cx_env x) (au_tenant_id u)) (\<lambda>ls. json_list label_response_json ls)"

definition http_create_label :: "ctx \<Rightarrow> auth_user \<Rightarrow> inbound \<Rightarrow> label_payload \<Rightarrow> response app" where
  "http_create_label x u req p =
     guard (ensure_admin_role (au_role u))
       (then_do (lift_result (validate_create_label \<lparr>cl_name = lp_name p, cl_color = lp_color p\<rparr>)) (\<lambda>input.
        with_key u ''labels:create'' req (\<lambda>k.
        idempotent (cx_env x) (cx_now x) k (Inr ()) 201 (\<lambda>l. Inr (label_response_json l))
          (\<lambda>_. svc_create_label (cx_env x) (cx_id x) (f_audit (cx_fresh x)) (cx_now x) (au_tenant_id u) (au_user_id u) input))))"

definition http_update_label :: "ctx \<Rightarrow> auth_user \<Rightarrow> uuid \<Rightarrow> label_patch_payload \<Rightarrow> response app" where
  "http_update_label x u i p =
     guard (ensure_admin_role (au_role u))
       (then_do (lift_result (validate_update_label \<lparr>ul_name = lq_name p, ul_color = lq_color p\<rparr>)) (\<lambda>input.
        then_do (svc_update_label (cx_env x) (f_audit (cx_fresh x)) (cx_now x) (au_tenant_id u) i (au_user_id u) input) (\<lambda>l.
        json_ok (label_response_json l))))"

definition http_delete_label :: "ctx \<Rightarrow> auth_user \<Rightarrow> uuid \<Rightarrow> response app" where
  "http_delete_label x u i =
     guard (ensure_admin_role (au_role u))
       (then_do (svc_delete_label (f_audit (cx_fresh x)) (cx_now x) (au_tenant_id u) i (au_user_id u)) (\<lambda>_.
        ret (empty_reply 204)))"

definition http_get_task_labels :: "ctx \<Rightarrow> auth_user \<Rightarrow> uuid \<Rightarrow> response app" where
  "http_get_task_labels x u task =
     then_do (svc_list_task_labels (cx_env x) (au_tenant_id u) task) (\<lambda>ls. json_list label_response_json ls)"

definition http_put_task_labels :: "ctx \<Rightarrow> auth_user \<Rightarrow> uuid \<Rightarrow> uuid list \<Rightarrow> response app" where
  "http_put_task_labels x u task ids =
     guard (ensure_task_write_role (au_role u))
       (then_do (svc_set_task_labels (cx_env x) (f_audit (cx_fresh x)) (cx_now x) (au_tenant_id u) task (au_user_id u) ids) (\<lambda>ls.
        json_list label_response_json ls))"

section \<open>Webhooks\<close>

definition http_list_webhooks :: "auth_user \<Rightarrow> response app" where
  "http_list_webhooks u =
     guard (ensure_admin_role (au_role u))
       (then_do (db_read (db_list_webhooks (au_tenant_id u))) (\<lambda>ws.
        json_list (\<lambda>w. webhook_response_json (webhook_response w)) ws))"

definition http_create_webhook :: "ctx \<Rightarrow> auth_user \<Rightarrow> inbound \<Rightarrow> webhook_payload \<Rightarrow> response app" where
  "http_create_webhook x u req p =
     guard (ensure_admin_role (au_role u))
       (with_key u ''webhooks:create'' req (\<lambda>k.
        idempotent (cx_env x) (cx_now x) k (Inr ()) 201 (\<lambda>w. Inr (webhook_create_json w))
          (\<lambda>_. svc_create_webhook (cx_env x) (cx_uri x) (cx_id x) (cx_now x) (f_text (cx_fresh x)) (au_tenant_id u)
             (au_user_id u) (wp_url p) (wp_events p))))"

definition http_update_webhook :: "ctx \<Rightarrow> auth_user \<Rightarrow> uuid \<Rightarrow> webhook_patch_payload \<Rightarrow> response app" where
  "http_update_webhook x u i p =
     guard (ensure_admin_role (au_role u))
       (then_do (svc_update_webhook (cx_env x) (cx_uri x) (cx_now x) (au_tenant_id u) i (wq_url p) (wq_events p)
          (wq_is_active p)) (\<lambda>w.
        json_ok (webhook_response_json (webhook_response w))))"

definition http_delete_webhook :: "auth_user \<Rightarrow> uuid \<Rightarrow> response app" where
  "http_delete_webhook u i =
     guard (ensure_admin_role (au_role u))
       (then_do (svc_delete_webhook (au_tenant_id u) i) (\<lambda>_. ret (empty_reply 204)))"

definition http_list_webhook_deliveries :: "ctx \<Rightarrow> auth_user \<Rightarrow> uuid \<Rightarrow> page_query \<Rightarrow> response app" where
  "http_list_webhook_deliveries x u webhook q =
     guard (ensure_admin_role (au_role u))
       (then_do (lift_result (decode_cursor x (pq_cursor q))) (\<lambda>c.
        then_do (svc_list_webhook_deliveries (au_tenant_id u) webhook c (clamp_limit 20 100 (pq_limit q))) (\<lambda>(vs, next).
        then_do (lift_result (encode_next x next)) (\<lambda>next.
        json_ok (page_json (map delivery_response_json vs) next)))))"

definition http_redeliver_webhook_delivery :: "ctx \<Rightarrow> auth_user \<Rightarrow> uuid \<Rightarrow> uuid \<Rightarrow> response app" where
  "http_redeliver_webhook_delivery x u webhook delivery =
     guard (ensure_admin_role (au_role u))
       (then_do (svc_redeliver_webhook_delivery (cx_now x) (au_tenant_id u) webhook delivery) (\<lambda>v.
        ret (json_reply 202 (delivery_response_json v))))"

end
