(* ===== verification/TaskHandlers.thy ===== *)
theory TaskHandlers
  imports ResourceHandlers
begin

text \<open>
  The handlers of \<open>src/http/handlers.rs\<close> for tasks, their comments and attachments, and for exports and
  jobs.
\<close>

section \<open>Comments\<close>

definition http_list_task_comments :: "ctx \<Rightarrow> auth_user \<Rightarrow> uuid \<Rightarrow> page_query \<Rightarrow> response app" where
  "http_list_task_comments x u task q =
     then_do (lift_result (decode_cursor x (pq_cursor q))) (\<lambda>c.
     then_do (svc_list_comments (au_tenant_id u) task c (clamp_limit 20 100 (pq_limit q))) (\<lambda>(cs, next).
     then_do (lift_result (encode_next x next)) (\<lambda>next.
     json_ok (page_json (map comment_response_json cs) next))))"

definition http_create_task_comment :: "ctx \<Rightarrow> auth_user \<Rightarrow> uuid \<Rightarrow> inbound \<Rightarrow> string \<Rightarrow> response app" where
  "http_create_task_comment x u task req payload_body =
     guard (ensure_task_write_role (au_role u))
       (then_do (lift_result (validate_comment_body payload_body)) (\<lambda>text.
        with_key u ''comments:create'' req (\<lambda>k.
        idempotent (cx_env x) (cx_now x) k (Inr ()) 201 (\<lambda>c. Inr (comment_response_json c))
          (\<lambda>_. svc_create_comment (cx_env x) (cx_id x) (f_audit (cx_fresh x)) (f_notification (cx_fresh x)) (cx_now x)
             (au_tenant_id u) task (au_user_id u) text))))"

definition http_update_task_comment :: "ctx \<Rightarrow> auth_user \<Rightarrow> uuid \<Rightarrow> uuid \<Rightarrow> string \<Rightarrow> response app" where
  "http_update_task_comment x u task comment payload_body =
     guard (ensure_task_write_role (au_role u))
       (then_do (lift_result (validate_comment_body payload_body)) (\<lambda>text.
        then_do (svc_update_comment (cx_now x) (au_tenant_id u) task comment (au_user_id u) text) (\<lambda>c.
        json_ok (comment_response_json c))))"

definition http_delete_task_comment :: "ctx \<Rightarrow> auth_user \<Rightarrow> uuid \<Rightarrow> uuid \<Rightarrow> response app" where
  "http_delete_task_comment x u task comment =
     then_do (svc_delete_comment (f_audit (cx_fresh x)) (cx_now x) (au_tenant_id u) task comment (au_user_id u)
       (au_role u)) (\<lambda>_.
     ret (empty_reply 204))"

section \<open>Attachments\<close>

definition http_list_task_attachments :: "ctx \<Rightarrow> auth_user \<Rightarrow> uuid \<Rightarrow> response app" where
  "http_list_task_attachments x u task =
     then_do (svc_list_attachments (au_tenant_id u) task) (\<lambda>as. json_list (attachment_response_json (cx_env x)) as)"

definition check_upload :: "ctx \<Rightarrow> string \<Rightarrow> unit result" where
  "check_upload x bytes =
     (if bytes = [] then Inl (Validation ''attachment body must not be empty'')
      else if max_attachment_size_bytes (cfg (cx_env x)) < length bytes
      then Inl (PayloadTooLarge (''attachment exceeds the maximum size of '' @
        nat_text (max_attachment_size_bytes (cfg (cx_env x))) @ '' bytes''))
      else Inr ())"

definition http_upload_task_attachment :: "ctx \<Rightarrow> auth_user \<Rightarrow> uuid \<Rightarrow> string \<Rightarrow> inbound \<Rightarrow> string \<Rightarrow> response app" where
  "http_upload_task_attachment x u task query_file_name req bytes =
     guard (ensure_task_write_role (au_role u))
       (then_do (lift_result (validate_attachment_file_name query_file_name)) (\<lambda>file_name.
        guard (check_upload x bytes)
          (with_key u ''attachments:create'' req (\<lambda>k.
           idempotent (cx_env x) (cx_now x) k (Inr ()) 201 (\<lambda>a. Inr (attachment_response_json (cx_env x) a))
             (\<lambda>_. svc_upload_attachment (cx_env x) (cx_id x) (f_audit (cx_fresh x)) (cx_now x) (au_tenant_id u) task
                (au_user_id u) file_name (normalize_attachment_content_type (in_headers req ''content-type'')) bytes)))))"

text \<open>A character that is not printable ASCII becomes an underscore; \<open>is_continuation\<close> skips the rest of it.\<close>

definition replace_chars :: "(char \<Rightarrow> bool) \<Rightarrow> string \<Rightarrow> string" where
  "replace_chars keep s =
     concat (map (\<lambda>c. if keep c then [c] else if is_continuation c then [] else ''_'') s)"

definition safe_name :: "string \<Rightarrow> string" where
  "safe_name = replace_chars (\<lambda>c. is_graphic_ascii c \<or> c = CHR '' '')"

definition file_reply :: "string \<Rightarrow> string \<Rightarrow> string \<Rightarrow> response" where
  "file_reply content_type name bytes =
     \<lparr>rp_status = 200, rp_headers = [(''content-type'', content_type),
        (''content-disposition'', ''attachment; filename='' @ [CHR 0x22] @ name @ [CHR 0x22])],
      rp_body = Raw bytes\<rparr>"

definition http_download_task_attachment :: "auth_user \<Rightarrow> uuid \<Rightarrow> uuid \<Rightarrow> response app" where
  "http_download_task_attachment u task i =
     then_do (svc_download_attachment (au_tenant_id u) task i) (\<lambda>(a, bytes).
     ret (file_reply (at_content_type a) (safe_name (at_file_name a)) bytes))"

definition http_delete_task_attachment :: "ctx \<Rightarrow> auth_user \<Rightarrow> uuid \<Rightarrow> uuid \<Rightarrow> response app" where
  "http_delete_task_attachment x u task i =
     then_do (svc_delete_attachment (f_audit (cx_fresh x)) (cx_now x) (au_tenant_id u) task i (au_user_id u)
       (au_role u)) (\<lambda>_.
     ret (empty_reply 204))"

section \<open>Tasks\<close>

definition http_dashboard_summary :: "ctx \<Rightarrow> auth_user \<Rightarrow> response app" where
  "http_dashboard_summary x u =
     then_do (svc_dashboard_summary (cx_now x) (au_tenant_id u)) (\<lambda>s. json_ok (dashboard_summary_json s))"

definition http_list_tasks :: "ctx \<Rightarrow> auth_user \<Rightarrow> task_list_query \<Rightarrow> response app" where
  "http_list_tasks x u q = list_tasks_page x u q"

definition create_task_input_of :: "task_payload \<Rightarrow> create_task_input result" where
  "create_task_input_of p =
     try_then (transpose_opt task_status_from_str (normalize_optional_choice (tp_status p))) (\<lambda>status.
     try_then (transpose_opt task_priority_from_str (normalize_optional_choice (tp_priority p))) (\<lambda>priority.
     validate_create_task \<lparr>ct_project_id = tp_project_id p, ct_title = tp_title p, ct_description = tp_description p,
       ct_status = status, ct_priority = priority, ct_assignee_id = tp_assignee_id p, ct_due_at = tp_due_at p\<rparr>))"

definition http_create_task :: "ctx \<Rightarrow> auth_user \<Rightarrow> inbound \<Rightarrow> task_payload \<Rightarrow> response app" where
  "http_create_task x u req p =
     guard (ensure_task_write_role (au_role u))
       (with_key u ''tasks:create'' req (\<lambda>k.
        idempotent (cx_env x) (cx_now x) k (create_task_input_of p) 201 (\<lambda>t. map_ok task_response_json (task_response t))
          (\<lambda>input. svc_create_task (cx_id x) (f_audit (cx_fresh x)) (cx_ids x) (cx_now x) (au_tenant_id u) (au_user_id u) input)))"

definition http_get_task :: "ctx \<Rightarrow> auth_user \<Rightarrow> uuid \<Rightarrow> response app" where
  "http_get_task x u i =
     then_do (svc_get_task_cached (cx_env x) (cx_now x) (au_tenant_id u) i) (\<lambda>t. json_ok (task_response_json t))"

definition http_list_task_audit :: "ctx \<Rightarrow> auth_user \<Rightarrow> uuid \<Rightarrow> page_query \<Rightarrow> response app" where
  "http_list_task_audit x u task q =
     then_do (lift_result (decode_cursor x (pq_cursor q))) (\<lambda>c.
     then_do (svc_list_task_audit (au_tenant_id u) task c (clamp_limit 20 100 (pq_limit q))) (\<lambda>(es, next).
     then_do (lift_result (encode_next x next)) (\<lambda>next.
     json_ok (page_json (map task_audit_json es) next))))"

definition update_task_input_of :: "task_patch_payload \<Rightarrow> update_task_input result" where
  "update_task_input_of p =
     try_then (transpose_opt task_status_from_str (normalize_optional_choice (tq_status p))) (\<lambda>status.
     try_then (transpose_opt task_priority_from_str (normalize_optional_choice (tq_priority p))) (\<lambda>priority.
     validate_update_task \<lparr>up_project_id = tq_project_id p, up_title = tq_title p, up_description = tq_description p,
       up_status = status, up_priority = priority, up_assignee_id = tq_assignee_id p, up_due_at = tq_due_at p\<rparr>))"

definition task_reply :: "task_record \<Rightarrow> response app" where
  "task_reply t = then_do (lift_result (task_response t)) (\<lambda>r. json_ok (task_response_json r))"

definition http_update_task :: "ctx \<Rightarrow> auth_user \<Rightarrow> uuid \<Rightarrow> task_patch_payload \<Rightarrow> response app" where
  "http_update_task x u i p =
     guard (ensure_task_write_role (au_role u))
       (then_do (lift_result (update_task_input_of p)) (\<lambda>input.
        then_do (svc_update_task (f_audit (cx_fresh x)) (cx_ids x) (cx_now x) (au_tenant_id u) i (au_user_id u) input)
          task_reply))"

definition http_bulk_update_task_status :: "ctx \<Rightarrow> auth_user \<Rightarrow> bulk_task_status_payload \<Rightarrow> response app" where
  "http_bulk_update_task_status x u p =
     guard (ensure_task_write_role (au_role u))
       (then_do (lift_result (task_status_from_str (trim (bs_status p)))) (\<lambda>status.
        then_do (svc_bulk_update_task_status (cx_ids x) (cx_grid x) (cx_now x) (au_tenant_id u) (au_user_id u)
          (bs_task_ids p) status) (\<lambda>ts.
        then_do (lift_result (bulk_status_json ts)) json_ok)))"

definition http_delete_task :: "ctx \<Rightarrow> auth_user \<Rightarrow> uuid \<Rightarrow> response app" where
  "http_delete_task x u i =
     guard (ensure_admin_role (au_role u))
       (then_do (svc_archive_task (f_audit (cx_fresh x)) (cx_ids x) (cx_now x) (au_tenant_id u) i (au_user_id u)) (\<lambda>_.
        ret (empty_reply 204)))"

definition http_restore_task :: "ctx \<Rightarrow> auth_user \<Rightarrow> uuid \<Rightarrow> response app" where
  "http_restore_task x u i =
     guard (ensure_task_write_role (au_role u))
       (then_do (svc_restore_task (f_audit (cx_fresh x)) (cx_ids x) (cx_now x) (au_tenant_id u) i (au_user_id u))
          task_reply)"

section \<open>Exports and jobs\<close>

definition http_create_export :: "ctx \<Rightarrow> auth_user \<Rightarrow> inbound \<Rightarrow> export_request \<Rightarrow> response app" where
  "http_create_export x u req p =
     guard (ensure_admin_role (au_role u))
       (with_key u ''exports:create'' req (\<lambda>k.
        idempotent (cx_env x) (cx_now x) k
          (try_then (export_format_of p) (\<lambda>format.
           try_then (export_into_filters (cx_env x) p) (\<lambda>filters. Inr (format, filters)))) 202 job_response_json
          (\<lambda>(format, filters). svc_create_export_job (cx_env x) (cx_id x) (cx_now x) (au_tenant_id u) (au_user_id u)
             filters format)))"

definition http_get_job :: "auth_user \<Rightarrow> uuid \<Rightarrow> response app" where
  "http_get_job u i =
     then_do (svc_get_tenant_job i (au_tenant_id u)) (\<lambda>j. then_do (lift_result (job_response_json j)) json_ok)"

definition http_get_job_result :: "auth_user \<Rightarrow> uuid \<Rightarrow> response app" where
  "http_get_job_result u i =
     then_do (svc_get_tenant_job_result i (au_tenant_id u)) (\<lambda>r. json_ok (job_result_json r))"

text \<open>The last segment of a key, its characters restricted.\<close>

definition download_name :: "string \<Rightarrow> string" where
  "download_name key =
     (let name = replace_chars (\<lambda>c. is_alnum_ascii c \<or> c = CHR ''.'' \<or> c = CHR ''_'' \<or> c = CHR ''-'')
        (last (split_on CHR ''/'' key))
      in if name = [] then ''export'' else name)"

definition http_download_job_artifact :: "auth_user \<Rightarrow> uuid \<Rightarrow> response app" where
  "http_download_job_artifact u i =
     then_do (svc_get_tenant_job_result i (au_tenant_id u)) (\<lambda>r.
     then_do (lift_result (ok_or (json_get (jx_result r) ''artifact'') (NotFound ''job has no artifact''))) (\<lambda>artifact.
     then_do (lift_result (ok_or (Option.bind (json_get artifact ''key'') json_as_str) (NotFound ''job has no artifact''))) (\<lambda>key.
     let content_type = (case Option.bind (json_get artifact ''content_type'') json_as_str of
           Some t \<Rightarrow> t | None \<Rightarrow> ''application/octet-stream'')
     in then_do (store_get key) (\<lambda>bytes.
        then_do (lift_result (ok_or bytes (NotFound ''artifact is no longer available''))) (\<lambda>bytes.
        ret (file_reply content_type (download_name key) bytes))))))"

end
