(* ===== verification/Router.thy ===== *)
theory Router
  imports TaskHandlers
begin

text \<open>
  The router of \<open>src/http.rs\<close>: the public routes behind the rate limit of the caller's address, the
  protected ones behind the authentication, and the three unversioned ones. A route carries the path
  parameters and the deserialised body or query; the protected ones are grouped by resource.
\<close>

datatype public_route =
    Register register_request
  | Login login_request
  | OAuthLogin string oauth_login_request
  | Refresh refresh_request
  | Logout logout_request
  | VerifyEmail string
  | ResendVerification string
  | RequestPasswordReset string
  | ConfirmPasswordReset password_reset_confirm_payload

datatype own_route =
    SwitchTenant uuid
  | Dashboard
  | Me
  | UpdateProfile "string option option"
  | GetPreferences
  | UpdatePreferences preferences_payload
  | ListMyNotifications notification_list_query
  | MarkAllNotificationsRead
  | MarkNotificationRead uuid
  | ListMyTenants

datatype session_route =
    ListOAuthAccounts
  | UnlinkOAuthAccount string
  | ListSessions
  | LogoutAllSessions
  | RevokeSession uuid
  | ChangePassword change_password_payload
  | ChangeEmail change_email_payload

datatype tenant_route =
    ListAuditEvents page_query
  | ListMembers uuid
  | UpdateMemberRole uuid uuid string
  | RemoveMember uuid uuid
  | ListInvitations uuid
  | CreateInvitation uuid invitation_create_payload
  | AcceptInvitation uuid string
  | RevokeInvitation uuid uuid

datatype project_route =
    ListProjects
  | CreateProject project_payload
  | GetProject uuid
  | UpdateProject uuid project_patch_payload
  | DeleteProject uuid
  | RestoreProject uuid
  | GetProjectSummary uuid
  | ListProjectTasks uuid task_list_query

datatype label_route =
    ListLabels
  | CreateLabel label_payload
  | UpdateLabel uuid label_patch_payload
  | DeleteLabel uuid
  | GetTaskLabels uuid
  | PutTaskLabels uuid "uuid list"

datatype webhook_route =
    ListWebhooks
  | CreateWebhook webhook_payload
  | UpdateWebhook uuid webhook_patch_payload
  | DeleteWebhook uuid
  | ListDeliveries uuid page_query
  | Redeliver uuid uuid

datatype task_route =
    ListTasks task_list_query
  | CreateTask task_payload
  | BulkTaskStatus bulk_task_status_payload
  | GetTask uuid
  | UpdateTask uuid task_patch_payload
  | DeleteTask uuid
  | RestoreTask uuid
  | ListTaskAudit uuid page_query

datatype note_route =
    ListComments uuid page_query
  | CreateComment uuid string
  | UpdateComment uuid uuid string
  | DeleteComment uuid uuid
  | ListAttachments uuid
  | UploadAttachment uuid string string
  | DeleteAttachment uuid uuid
  | DownloadAttachment uuid uuid

datatype job_route =
    CreateExport export_request
  | GetJob uuid
  | GetJobResult uuid
  | DownloadArtifact uuid

datatype protected_route =
    Own own_route
  | Session session_route
  | Tenant tenant_route
  | Project project_route
  | Label label_route
  | Webhook webhook_route
  | Task task_route
  | Note note_route
  | Job job_route

datatype request_route = Healthz | Readyz | Metrics string | Public public_route | Protected protected_route

primrec public_handler :: "ctx \<Rightarrow> inbound \<Rightarrow> public_route \<Rightarrow> response app" where
  "public_handler x req (Register p) = http_register x p"
| "public_handler x req (Login p) = http_login x p"
| "public_handler x req (OAuthLogin provider p) = http_oauth_login x provider p"
| "public_handler x req (Refresh p) = http_refresh x p"
| "public_handler x req (Logout p) = http_logout x req p"
| "public_handler x req (VerifyEmail token) = http_verify_email x token"
| "public_handler x req (ResendVerification email) = http_resend_verification x email"
| "public_handler x req (RequestPasswordReset email) = http_request_password_reset x email"
| "public_handler x req (ConfirmPasswordReset p) = http_confirm_password_reset x p"

primrec own_handler :: "ctx \<Rightarrow> inbound \<Rightarrow> auth_user \<Rightarrow> own_route \<Rightarrow> response app" where
  "own_handler x req u (SwitchTenant t) = http_switch_tenant x u t"
| "own_handler x req u Dashboard = http_dashboard_summary x u"
| "own_handler x req u Me = http_me u"
| "own_handler x req u (UpdateProfile p) = http_update_profile x u p"
| "own_handler x req u GetPreferences = http_get_notification_preferences u"
| "own_handler x req u (UpdatePreferences p) = http_update_notification_preferences x u p"
| "own_handler x req u (ListMyNotifications q) = http_list_my_notifications x u q"
| "own_handler x req u MarkAllNotificationsRead = http_mark_all_notifications_read x u"
| "own_handler x req u (MarkNotificationRead i) = http_mark_notification_read x u i"
| "own_handler x req u ListMyTenants = http_list_my_tenants u"

primrec session_handler :: "ctx \<Rightarrow> inbound \<Rightarrow> auth_user \<Rightarrow> session_route \<Rightarrow> response app" where
  "session_handler x req u ListOAuthAccounts = http_list_oauth_accounts x u"
| "session_handler x req u (UnlinkOAuthAccount p) = http_unlink_oauth_account x u p"
| "session_handler x req u ListSessions = http_list_sessions x u"
| "session_handler x req u LogoutAllSessions = http_logout_all_sessions x u req"
| "session_handler x req u (RevokeSession i) = http_revoke_session x u i"
| "session_handler x req u (ChangePassword p) = http_change_password x u p"
| "session_handler x req u (ChangeEmail p) = http_change_email x u p"

primrec tenant_handler :: "ctx \<Rightarrow> inbound \<Rightarrow> auth_user \<Rightarrow> tenant_route \<Rightarrow> response app" where
  "tenant_handler x req u (ListAuditEvents q) = http_list_audit_events x u q"
| "tenant_handler x req u (ListMembers t) = http_list_tenant_members x u t"
| "tenant_handler x req u (UpdateMemberRole t m r) = http_update_member_role x u t m r"
| "tenant_handler x req u (RemoveMember t m) = http_remove_member x u t m"
| "tenant_handler x req u (ListInvitations t) = http_list_invitations x u t"
| "tenant_handler x req u (CreateInvitation t p) = http_create_invitation x u t req p"
| "tenant_handler x req u (AcceptInvitation t token) = http_accept_invitation x u t token"
| "tenant_handler x req u (RevokeInvitation t i) = http_revoke_invitation x u t i"

primrec project_handler :: "ctx \<Rightarrow> inbound \<Rightarrow> auth_user \<Rightarrow> project_route \<Rightarrow> response app" where
  "project_handler x req u ListProjects = http_list_projects u"
| "project_handler x req u (CreateProject p) = http_create_project x u req p"
| "project_handler x req u (GetProject i) = http_get_project u i"
| "project_handler x req u (UpdateProject i p) = http_update_project x u i p"
| "project_handler x req u (DeleteProject i) = http_delete_project x u i"
| "project_handler x req u (RestoreProject i) = http_restore_project x u i"
| "project_handler x req u (GetProjectSummary i) = http_get_project_summary x u i"
| "project_handler x req u (ListProjectTasks i q) = http_list_project_tasks x u i q"

primrec label_handler :: "ctx \<Rightarrow> inbound \<Rightarrow> auth_user \<Rightarrow> label_route \<Rightarrow> response app" where
  "label_handler x req u ListLabels = http_list_labels x u"
| "label_handler x req u (CreateLabel p) = http_create_label x u req p"
| "label_handler x req u (UpdateLabel i p) = http_update_label x u i p"
| "label_handler x req u (DeleteLabel i) = http_delete_label x u i"
| "label_handler x req u (GetTaskLabels i) = http_get_task_labels x u i"
| "label_handler x req u (PutTaskLabels i ids) = http_put_task_labels x u i ids"

primrec webhook_handler :: "ctx \<Rightarrow> inbound \<Rightarrow> auth_user \<Rightarrow> webhook_route \<Rightarrow> response app" where
  "webhook_handler x req u ListWebhooks = http_list_webhooks u"
| "webhook_handler x req u (CreateWebhook p) = http_create_webhook x u req p"
| "webhook_handler x req u (UpdateWebhook i p) = http_update_webhook x u i p"
| "webhook_handler x req u (DeleteWebhook i) = http_delete_webhook u i"
| "webhook_handler x req u (ListDeliveries i q) = http_list_webhook_deliveries x u i q"
| "webhook_handler x req u (Redeliver i v) = http_redeliver_webhook_delivery x u i v"

primrec task_handler :: "ctx \<Rightarrow> inbound \<Rightarrow> auth_user \<Rightarrow> task_route \<Rightarrow> response app" where
  "task_handler x req u (ListTasks q) = http_list_tasks x u q"
| "task_handler x req u (CreateTask p) = http_create_task x u req p"
| "task_handler x req u (BulkTaskStatus p) = http_bulk_update_task_status x u p"
| "task_handler x req u (GetTask i) = http_get_task x u i"
| "task_handler x req u (UpdateTask i p) = http_update_task x u i p"
| "task_handler x req u (DeleteTask i) = http_delete_task x u i"
| "task_handler x req u (RestoreTask i) = http_restore_task x u i"
| "task_handler x req u (ListTaskAudit i q) = http_list_task_audit x u i q"

primrec note_handler :: "ctx \<Rightarrow> inbound \<Rightarrow> auth_user \<Rightarrow> note_route \<Rightarrow> response app" where
  "note_handler x req u (ListComments i q) = http_list_task_comments x u i q"
| "note_handler x req u (CreateComment i b) = http_create_task_comment x u i req b"
| "note_handler x req u (UpdateComment i c b) = http_update_task_comment x u i c b"
| "note_handler x req u (DeleteComment i c) = http_delete_task_comment x u i c"
| "note_handler x req u (ListAttachments i) = http_list_task_attachments x u i"
| "note_handler x req u (UploadAttachment i name b) = http_upload_task_attachment x u i name req b"
| "note_handler x req u (DeleteAttachment i a) = http_delete_task_attachment x u i a"
| "note_handler x req u (DownloadAttachment i a) = http_download_task_attachment u i a"

primrec job_handler :: "ctx \<Rightarrow> inbound \<Rightarrow> auth_user \<Rightarrow> job_route \<Rightarrow> response app" where
  "job_handler x req u (CreateExport p) = http_create_export x u req p"
| "job_handler x req u (GetJob i) = http_get_job u i"
| "job_handler x req u (GetJobResult i) = http_get_job_result u i"
| "job_handler x req u (DownloadArtifact i) = http_download_job_artifact u i"

primrec protected_handler :: "ctx \<Rightarrow> inbound \<Rightarrow> auth_user \<Rightarrow> protected_route \<Rightarrow> response app" where
  "protected_handler x req u (Own r) = own_handler x req u r"
| "protected_handler x req u (Session r) = session_handler x req u r"
| "protected_handler x req u (Tenant r) = tenant_handler x req u r"
| "protected_handler x req u (Project r) = project_handler x req u r"
| "protected_handler x req u (Label r) = label_handler x req u r"
| "protected_handler x req u (Webhook r) = webhook_handler x req u r"
| "protected_handler x req u (Task r) = task_handler x req u r"
| "protected_handler x req u (Note r) = note_handler x req u r"
| "protected_handler x req u (Job r) = job_handler x req u r"

text \<open>\<open>now_ms\<close> is the clock the rate limit reads.\<close>

primrec serve :: "ctx \<Rightarrow> int \<Rightarrow> inbound \<Rightarrow> request_route \<Rightarrow> responder" where
  "serve x now_ms req Healthz = answer http_healthz"
| "serve x now_ms req Readyz = answer http_readyz"
| "serve x now_ms req (Metrics rendered) = answer (http_metrics x rendered req)"
| "serve x now_ms req (Public r) =
     auth_rate_limit_middleware (cx_env x) (cx_now x) now_ms req (answer (public_handler x req r))"
| "serve x now_ms req (Protected r) =
     protected_middleware (cx_jwt x) (cx_env x) (cx_now x) now_ms req (\<lambda>u. answer (protected_handler x req u r))"

end
