(* ===== verification/ApiReplies.thy ===== *)
theory ApiReplies
  imports ApiContract Router
begin

text \<open>
  What an operation of the OpenAPI document promises, what it means for a reply to meet it, and what the
  stores have to hold for that: stored payloads are objects, and a response kept for an idempotency key is one
  of the route that kept it. \<open>yields\<close> says of a service what its results satisfy.
\<close>

section \<open>Answers\<close>

text \<open>What the document says of a success: no content, a JSON value of a schema, or bytes.\<close>

datatype answer = NoContent | JsonAnswer json | Bytes

section \<open>Yields\<close>

text \<open>Run in a world \<open>I\<close> holds of, a service that succeeds returns a value \<open>P\<close> holds of.\<close>

definition yields :: "(world \<Rightarrow> bool) \<Rightarrow> ('a \<Rightarrow> bool) \<Rightarrow> 'a app \<Rightarrow> bool" where
  "yields I P m \<longleftrightarrow> (\<forall>w. I w \<longrightarrow> (case fst (m w) of Inl _ \<Rightarrow> True | Inr x \<Rightarrow> P x))"

lemma yieldsI: "(\<And>w x v. I w \<Longrightarrow> m w = (Inr x, v) \<Longrightarrow> P x) \<Longrightarrow> yields I P m"
  by (auto simp: yields_def split: sum.split) (metis prod.collapse)

lemma yieldsD: "yields I P m \<Longrightarrow> I w \<Longrightarrow> m w = (Inr x, v) \<Longrightarrow> P x"
  by (fastforce simp: yields_def)

lemma yields_any: "yields (\<lambda>_. True) P m \<Longrightarrow> yields I P m"
  by (simp add: yields_def)

lemma yields_True: "yields I (\<lambda>_. True) m"
  by (simp add: yields_def split: sum.split)

lemma yields_attempt: "yields I Q m \<Longrightarrow> yields I (case_sum (\<lambda>_. True) Q) (attempt m)"
  by (auto simp: yields_def attempt_def split: sum.splits prod.split)

lemma yields_ret: "P x \<Longrightarrow> yields I P (ret x)"
  by (simp add: yields_def ret_def)

lemma yields_fail: "yields I P (fail e)"
  by (simp add: yields_def fail_def)

lemma yields_from: "yields I Q m \<Longrightarrow> (\<And>x. Q x \<Longrightarrow> yields (\<lambda>_. True) P (f x)) \<Longrightarrow> yields I P (then_do m f)"
  by (rule yieldsI) (auto simp: then_do_Inr dest!: yieldsD)

lemma yields_then: "(\<And>x. yields (\<lambda>_. True) P (f x)) \<Longrightarrow> yields I P (then_do m f)"
  by (rule yields_from [where Q = "\<lambda>_. True"]) (simp_all add: yields_def split: sum.split)

lemma yields_lift: "(\<And>x. r = Inr x \<Longrightarrow> yields I P (f x)) \<Longrightarrow> yields I P (then_do (lift_result r) f)"
  by (cases r) (simp_all add: yields_def then_do_def lift_result_def)

lemma yields_guard: "yields I P m \<Longrightarrow> yields I P (guard r m)"
  unfolding guard_def by (rule yields_lift)

lemma yields_if: "yields I P m \<Longrightarrow> yields I P n \<Longrightarrow> yields I P (if b then m else n)"
  by simp

lemma yields_option: "yields I P m \<Longrightarrow> (\<And>x. yields I P (f x)) \<Longrightarrow> yields I P (case v of None \<Rightarrow> m | Some x \<Rightarrow> f x)"
  by (cases v) simp_all

lemma yields_pair: "(\<And>a b. v = (a, b) \<Longrightarrow> yields I P (f a b)) \<Longrightarrow> yields I P (case v of (a, b) \<Rightarrow> f a b)"
  by (cases v) simp

lemmas yields_rules = yields_guard yields_lift yields_then yields_if yields_option yields_pair yields_fail yields_ret

section \<open>Meeting a promise\<close>

definition depth :: nat where "depth = 8"

lemma depth_Suc: "depth = Suc (Suc (Suc (Suc (Suc (Suc (Suc (Suc 0)))))))"
  by (simp add: depth_def)

definition fits :: "answer \<Rightarrow> body \<Rightarrow> bool" where
  "fits a b =
     (case a of
        NoContent \<Rightarrow> b = NoBody
      | Bytes \<Rightarrow> (case b of Raw _ \<Rightarrow> True | _ \<Rightarrow> False)
      | JsonAnswer s \<Rightarrow> (case b of Json v \<Rightarrow> conforms depth s v | _ \<Rightarrow> False))"

definition meets :: "nat \<times> answer \<Rightarrow> response \<Rightarrow> bool" where
  "meets p resp \<longleftrightarrow> rp_status resp = fst p \<and> fits (snd p) (rp_body resp)"

lemma meets_json: "conforms depth s v \<Longrightarrow> meets (st, JsonAnswer s) (json_reply st v)"
  by (simp add: meets_def fits_def json_reply_def)

lemma meets_empty: "meets (st, NoContent) (empty_reply st)"
  by (simp add: meets_def fits_def empty_reply_def)

lemma meets_file: "meets (200, Bytes) (file_reply ct name bytes)"
  by (simp add: meets_def fits_def file_reply_def)

lemma yields_json_ok: "conforms depth s v \<Longrightarrow> yields I (meets (200, JsonAnswer s)) (json_ok v)"
  unfolding json_ok_def by (intro yields_ret meets_json)

lemma yields_json_list:
  "(\<And>x. x \<in> set xs \<Longrightarrow> conforms (Suc (Suc (Suc (Suc (Suc (Suc (Suc 0))))))) i (f x)) \<Longrightarrow>
     yields I (meets (200, JsonAnswer (doc_array_schema i))) (json_list f xs)"
  unfolding json_list_def by (rule yields_json_ok) (simp add: depth_Suc conforms_array list_all_iff)

lemma yields_collected:
  "(\<And>x v. f x = Inr v \<Longrightarrow> conforms (Suc (Suc (Suc (Suc (Suc (Suc (Suc 0))))))) i v) \<Longrightarrow>
     yields I (meets (200, JsonAnswer (doc_array_schema i))) (then_do (lift_result (collect_results f xs)) (\<lambda>vs. json_ok (JArray vs)))"
  by (intro yields_lift yields_json_ok) (simp add: depth_Suc, erule collected_conform, blast)

lemma yields_auth: "yields I (meets (st, JsonAnswer (doc_schema_ref ''AuthResponse''))) (auth_reply st s)"
  unfolding auth_reply_def
  by (intro yields_lift yields_ret meets_json) (simp add: depth_Suc conforms_refs conforming)

lemmas at_depth = depth_Suc conforms_refs conforming

section \<open>Presentable stores\<close>

text \<open>The routes that keep an idempotency record, under the name they keep it, and the promise each makes.\<close>

definition creations :: "(string \<times> (nat \<times> answer)) list" where
  "creations =
     [(''invitations:create'', (201, JsonAnswer (doc_schema_ref ''InvitationCreateResponse''))),
      (''projects:create'', (201, JsonAnswer (doc_schema_ref ''ProjectResponse''))),
      (''labels:create'', (201, JsonAnswer (doc_schema_ref ''LabelResponse''))),
      (''webhooks:create'', (201, JsonAnswer (doc_schema_ref ''WebhookCreateResponse''))),
      (''comments:create'', (201, JsonAnswer (doc_schema_ref ''CommentResponse''))),
      (''attachments:create'', (201, JsonAnswer (doc_schema_ref ''AttachmentResponse''))),
      (''tasks:create'', (201, JsonAnswer (doc_schema_ref ''TaskResponse''))),
      (''exports:create'', (202, JsonAnswer (doc_schema_ref ''JobResponse'')))]"

definition stored_ok :: "redis \<Rightarrow> bool" where
  "stored_ok r \<longleftrightarrow> (\<forall>t route q s z p. kv r (KIdempotency t route q) = Some (RStored s, z) \<longrightarrow>
     map_of creations route = Some p \<longrightarrow> meets p (json_reply (sr_status s) (sr_body s)))"

text \<open>A job a tenant can see is an export or a sweep of reminders, its payload and its result are objects.\<close>

definition job_presentable :: "background_job_record \<Rightarrow> bool" where
  "job_presentable j \<longleftrightarrow> is_object (jb_payload j) \<and> (jb_tenant_id j = None \<or> jb_job_type j \<noteq> ''retention_sweep'') \<and>
     (case jb_result_payload j of None \<Rightarrow> True | Some v \<Rightarrow> is_object v)"

definition presentable_db :: "db \<Rightarrow> bool" where
  "presentable_db d \<longleftrightarrow>
     list_all (\<lambda>a. is_object (ta_payload a)) (task_audit d) \<and> list_all (\<lambda>a. is_object (ae_payload a)) (audit_log d) \<and>
     list_all (\<lambda>n. is_object (nt_payload n)) (notifications d) \<and>
     list_all (\<lambda>v. wd_status v \<in> {''pending'', ''delivered'', ''dead_letter''}) (deliveries d) \<and>
     list_all (\<lambda>a. oa_provider a \<in> {''google'', ''github''}) (oauth_accounts d) \<and>
     list_all job_presentable (background_jobs d)"

definition presentable :: "world \<Rightarrow> bool" where
  "presentable w \<longleftrightarrow> presentable_db (w_db w) \<and> stored_ok (w_redis w)"

lemma export_job_yields:
  "yields I (\<lambda>j. is_object (jb_payload j) \<and> jb_job_type j = ''task_export'' \<and> jb_result_payload j = None)
     (svc_create_export_job e i now t a f format)"
  by (rule yieldsI) (auto simp: svc_create_export_job_def then_do_Inr db_run_def db_create_job_def try_then_Inr new_job_def
      export_job_json_def is_object_def ret_def split: sum.splits)

end
