(* ===== verification/Frames.thy ===== *)
theory Frames
  imports ApiReplies
begin

text \<open>
  What a request may touch. \<open>frame\<close> is the contract of a relation between the stores before and after a
  call that every combinator of services respects; \<open>spares A t\<close>, its instance, says that the content of
  the tenant \<open>t\<close>, its cache and the rate limit buckets are as before, that the task table keeps its
  invariant, that what the stores hold stays presentable and that the URLs of new webhooks are ones \<open>A\<close> holds of. The rest of the theory shows it of every operation a request can reach.
\<close>

section \<open>Frames\<close>

locale frame =
  fixes R :: "world \<Rightarrow> world \<Rightarrow> bool"
  assumes same: "R w w"
    and chain: "R v w \<Longrightarrow> R w z \<Longrightarrow> R v z"
begin

definition keeps :: "'a app \<Rightarrow> bool" where "keeps m \<longleftrightarrow> (\<forall>w. R w (snd (m w)))"

lemma keepsI: "(\<And>w. R w (snd (m w))) \<Longrightarrow> keeps m"
  by (simp add: keeps_def)

lemma keepsD: "keeps m \<Longrightarrow> R w (snd (m w))"
  by (simp add: keeps_def)

lemma pure: "keeps (ret x)" "keeps (fail e)" "keeps (lift_result r)" "keeps (db_read g)" "keeps (db_try h)"
  by (simp_all add: keeps_def same)

lemma then_do_rule: "keeps m \<Longrightarrow> (\<And>x. keeps (f x)) \<Longrightarrow> keeps (then_do m f)"
proof (rule keepsI)
  fix w assume m: "keeps m" and f: "\<And>x. keeps (f x)"
  obtain r v where mw: "m w = (r, v)" by fastforce
  with keepsD [OF m, of w] have "R w v" by simp
  then show "R w (snd (then_do m f w))"
    using mw chain keepsD [OF f] by (cases r) (auto simp: then_do_def)
qed

lemma yields_rule: "keeps m \<Longrightarrow> yields (\<lambda>_. True) Q m \<Longrightarrow> (\<And>x. Q x \<Longrightarrow> keeps (f x)) \<Longrightarrow> keeps (then_do m f)"
proof (rule keepsI)
  fix w assume m: "keeps m" and Q: "yields (\<lambda>_. True) Q m" and f: "\<And>x. Q x \<Longrightarrow> keeps (f x)"
  obtain r v where mw: "m w = (r, v)" by fastforce
  with keepsD [OF m, of w] have "R w v" by simp
  then show "R w (snd (then_do m f w))"
    using mw chain keepsD [OF f] yieldsD [OF Q _ mw [THEN trans]] yieldsD [OF Q TrueI, of w] by (cases r) (auto simp: then_do_def)
qed

lemma lift_then_rule: "(\<And>x. r = Inr x \<Longrightarrow> keeps (f x)) \<Longrightarrow> keeps (then_do (lift_result r) f)"
  by (cases r) (simp_all add: keeps_def then_do_def same)

lemma attempt_rule: "keeps m \<Longrightarrow> keeps (attempt m)"
  by (simp add: keeps_def attempt_def case_prod_unfold)

lemma logged_rule: "keeps m \<Longrightarrow> keeps (logged m)"
  by (simp add: keeps_def logged_eq)

lemma map_rule: "keeps m \<Longrightarrow> keeps (\<lambda>w. map_prod g id (m w))"
  by (simp add: keeps_def)

lemma for_each_rule: "(\<And>x. keeps (f x)) \<Longrightarrow> keeps (for_each f xs)"
  by (induction xs) (auto intro: pure then_do_rule)

lemma if_rule: "(b \<Longrightarrow> keeps m) \<Longrightarrow> (\<not> b \<Longrightarrow> keeps n) \<Longrightarrow> keeps (if b then m else n)"
  by simp

lemma option_rule: "keeps m \<Longrightarrow> (\<And>x. keeps (f x)) \<Longrightarrow> keeps (case v of None \<Rightarrow> m | Some x \<Rightarrow> f x)"
  by (cases v) simp_all

lemma sum_rule: "(\<And>x. keeps (f x)) \<Longrightarrow> (\<And>x. keeps (g x)) \<Longrightarrow> keeps (case v of Inl x \<Rightarrow> f x | Inr x \<Rightarrow> g x)"
  by (cases v) simp_all

lemma pair_rule: "(\<And>a b. keeps (f a b)) \<Longrightarrow> keeps (case v of (a, b) \<Rightarrow> f a b)"
  by (cases v) simp

lemma status_rule:
  "keeps a \<Longrightarrow> keeps b \<Longrightarrow> keeps c \<Longrightarrow> keeps d \<Longrightarrow>
     keeps (case s of JQueued \<Rightarrow> a | JRunning \<Rightarrow> b | JCompleted \<Rightarrow> c | JDeadLetter \<Rightarrow> d)"
  by (cases s) simp_all

lemma idem_rule:
  "keeps a \<Longrightarrow> keeps b \<Longrightarrow> (\<And>r. keeps (c r)) \<Longrightarrow>
     keeps (case s of IdemEmpty \<Rightarrow> a | IdemPending \<Rightarrow> b | IdemReady r \<Rightarrow> c r)"
  by (cases s) simp_all

lemma guard_rule: "(r = Inr () \<Longrightarrow> keeps m) \<Longrightarrow> keeps (guard r m)"
  unfolding guard_def by (rule lift_then_rule) simp

lemma answer_rule: "keeps m \<Longrightarrow> R w (snd (answer m w))"
  using keepsD [of m w] by (cases "m w") (auto simp: answer_def split: sum.split)

lemmas rules =
  pure lift_then_rule then_do_rule attempt_rule logged_rule map_rule for_each_rule if_rule option_rule
  sum_rule pair_rule status_rule idem_rule guard_rule

end

section \<open>The frame of a tenant\<close>

text \<open>The rows a tenant owns, table by table.\<close>

definition content :: "uuid \<Rightarrow> db \<Rightarrow> project_record list \<times> task_record list \<times> task_audit_record list \<times>
    label_record list \<times> comment_record list \<times> attachment_record list \<times> webhook_record list \<times>
    background_job_record list" where
  "content t d =
     (filter (\<lambda>r. pj_tenant_id r = t) (projects d), filter (\<lambda>r. tk_tenant_id r = t) (tasks d),
      filter (\<lambda>r. ta_tenant_id r = t) (task_audit d), filter (\<lambda>r. lb_tenant_id r = t) (labels d),
      filter (\<lambda>r. cm_tenant_id r = t) (comments d), filter (\<lambda>r. at_tenant_id r = t) (attachments d),
      filter (\<lambda>r. wh_tenant_id r = t) (webhooks d), filter (\<lambda>r. jb_tenant_id r = Some t) (background_jobs d))"

text \<open>The Redis keys of a tenant's cache and idempotency records, and those of every rate limit bucket.\<close>

fun tenant_key :: "uuid \<Rightarrow> redis_key \<Rightarrow> bool" where
  "tenant_key t (KTenantVersion s) = (s = t)"
| "tenant_key t (KTaskList s _ _) = (s = t)"
| "tenant_key t (KTaskDetail s _ _) = (s = t)"
| "tenant_key t (KIdempotency s _ _) = (s = t)"
| "tenant_key t _ = False"

fun bucket_key :: "redis_key \<Rightarrow> bool" where
  "bucket_key (KAuthLimit _ _) = True"
| "bucket_key (KAppLimit _ _ _) = True"
| "bucket_key _ = False"

text \<open>A webhook's URL is one that was there or one \<open>A\<close> holds of.\<close>

definition known_urls :: "(string \<Rightarrow> bool) \<Rightarrow> db \<Rightarrow> db \<Rightarrow> bool" where
  "known_urls A d d' \<longleftrightarrow> (\<forall>h \<in> set (webhooks d'). A (wh_url h) \<or> wh_url h \<in> wh_url ` set (webhooks d))"

definition spares_db :: "(string \<Rightarrow> bool) \<Rightarrow> uuid \<Rightarrow> db \<Rightarrow> db \<Rightarrow> bool" where
  "spares_db A t d d' \<longleftrightarrow> content t d' = content t d \<and> (wf_tasks d \<longrightarrow> wf_tasks d') \<and>
     (presentable_db d \<longrightarrow> presentable_db d') \<and> known_urls A d d'"

lemma known_urls_same: "webhooks d' = webhooks d \<Longrightarrow> known_urls A d d'"
  by (simp add: known_urls_def)

lemma known_urls_trans: "known_urls A c d \<Longrightarrow> known_urls A d d' \<Longrightarrow> known_urls A c d'"
  unfolding known_urls_def by (metis imageE)

definition spares_redis :: "uuid \<Rightarrow> redis \<Rightarrow> redis \<Rightarrow> bool" where
  "spares_redis t r r' \<longleftrightarrow> (\<forall>k. tenant_key t k \<or> bucket_key k \<longrightarrow> kv r' k = kv r k) \<and> (stored_ok r \<longrightarrow> stored_ok r')"

definition spares :: "(string \<Rightarrow> bool) \<Rightarrow> uuid \<Rightarrow> world \<Rightarrow> world \<Rightarrow> bool" where
  "spares A t w w' \<longleftrightarrow> spares_db A t (w_db w) (w_db w') \<and> spares_redis t (w_redis w) (w_redis w')"

interpretation outside: frame "spares A t" for A t
  by unfold_locales (auto simp: spares_def spares_db_def spares_redis_def known_urls_same intro: known_urls_trans)

text \<open>What a task row refers to: users, tenants and projects that may only grow.\<close>

lemma exists_image:
  "user_exists d x = (x \<in> us_id ` set (users d))" "tenant_exists d x = (x \<in> tn_id ` set (tenants d))"
  "project_exists d x = (x \<in> pj_id ` set (projects d))"
  by (auto simp: user_exists_def tenant_exists_def project_exists_def row_exists_iff image_iff eq_commute)

lemma wf_tasks_grow:
  assumes "wf_tasks d" and "tasks d' = tasks d" and "us_id ` set (users d) \<subseteq> us_id ` set (users d')"
    and "tn_id ` set (tenants d) \<subseteq> tn_id ` set (tenants d')"
    and "pj_id ` set (projects d) \<subseteq> pj_id ` set (projects d')"
  shows "wf_tasks d'"
proof -
  have "task_fks d' r" if "task_fks d r" for r
    using that assms(3-5) unfolding task_fks_def exists_image fk_opt_def by (auto split: option.splits)
  then show ?thesis using assms(1,2) by (auto simp: wf_tasks_def)
qed

lemma spares_db_grow:
  "content t d' = content t d \<Longrightarrow> tasks d' = tasks d \<Longrightarrow> us_id ` set (users d) \<subseteq> us_id ` set (users d') \<Longrightarrow>
     tn_id ` set (tenants d) \<subseteq> tn_id ` set (tenants d') \<Longrightarrow>
     pj_id ` set (projects d) \<subseteq> pj_id ` set (projects d') \<Longrightarrow> known_urls A d d' \<Longrightarrow>
     (presentable_db d \<Longrightarrow> presentable_db d') \<Longrightarrow> spares_db A t d d'"
  unfolding spares_db_def by (intro conjI impI) (assumption, rule wf_tasks_grow, assumption+)

lemma keys_update_where: "(\<And>r. key (f r) = key r) \<Longrightarrow> key ` set (update_where P f t) = key ` set t"
  by (metis list.set_map map_key_update_where)

lemma run_rule:
  "(\<And>d x d'. f d = Inr (x, d') \<Longrightarrow> spares_db A t d d') \<Longrightarrow> outside.keeps A t (db_run f)"
  by (rule outside.keepsI)
    (auto simp: db_run_def spares_def spares_db_def spares_redis_def known_urls_same split: sum.split prod.split)

lemma cache_rule:
  "(\<And>r. spares_redis t r (snd (f r))) \<Longrightarrow> outside.keeps A t (cache_run f)"
  by (rule outside.keepsI) (auto simp: cache_run_def spares_def spares_db_def known_urls_same case_prod_unfold)

lemma store_rules: "outside.keeps A t (store_put k v)" "outside.keeps A t (store_get k)" "outside.keeps A t (store_delete k)"
  by (auto intro!: outside.keepsI simp: store_put_def store_get_def store_delete_def spares_def spares_db_def
      spares_redis_def known_urls_same split: sum.split)

section \<open>Database operations\<close>

lemma filter_append_other: "\<not> Q r \<Longrightarrow> filter Q (xs @ [r]) = filter Q xs"
  by simp

lemma filter_delete_other: "(\<And>r. P r \<Longrightarrow> \<not> Q r) \<Longrightarrow> filter Q (delete_where P xs) = filter Q xs"
  unfolding delete_where_def filter_filter by (rule filter_cong) auto

text \<open>What is stored stays presentable when a row is changed, when rows go, and when a presentable one comes.\<close>

lemma kept_rows: "list_all P xs \<Longrightarrow> (\<And>r. P r \<Longrightarrow> P (f r)) \<Longrightarrow> list_all P (update_where Q f xs)"
  "list_all P xs \<Longrightarrow> list_all P (delete_where Q xs)"
  by (auto simp: list_all_iff update_where_def delete_where_def)

lemma presentable_free:
  "presentable_db (d\<lparr>users := x0\<rparr>) = presentable_db d"
  "presentable_db (d\<lparr>tenants := x1\<rparr>) = presentable_db d"
  "presentable_db (d\<lparr>memberships := x2\<rparr>) = presentable_db d"
  "presentable_db (d\<lparr>refresh_tokens := x3\<rparr>) = presentable_db d"
  "presentable_db (d\<lparr>user_tokens := x4\<rparr>) = presentable_db d"
  "presentable_db (d\<lparr>invitations := x5\<rparr>) = presentable_db d"
  "presentable_db (d\<lparr>projects := x6\<rparr>) = presentable_db d"
  "presentable_db (d\<lparr>tasks := x7\<rparr>) = presentable_db d"
  "presentable_db (d\<lparr>labels := x8\<rparr>) = presentable_db d"
  "presentable_db (d\<lparr>task_labels := x9\<rparr>) = presentable_db d"
  "presentable_db (d\<lparr>comments := x10\<rparr>) = presentable_db d"
  "presentable_db (d\<lparr>attachments := x11\<rparr>) = presentable_db d"
  "presentable_db (d\<lparr>webhooks := x12\<rparr>) = presentable_db d"
  "presentable_db (d\<lparr>preferences := x13\<rparr>) = presentable_db d"
  by (simp_all add: presentable_db_def)

lemma presentable_rows:
  "presentable_db d \<Longrightarrow> list_all (\<lambda>a. is_object (ta_payload a)) (task_audit d)"
  "presentable_db d \<Longrightarrow> list_all (\<lambda>a. is_object (ae_payload a)) (audit_log d)"
  "presentable_db d \<Longrightarrow> list_all (\<lambda>n. is_object (nt_payload n)) (notifications d)"
  "presentable_db d \<Longrightarrow> list_all (\<lambda>v. wd_status v = ''pending'' \<or> wd_status v = ''delivered'' \<or> wd_status v = ''dead_letter'') (deliveries d)"
  "presentable_db d \<Longrightarrow> list_all (\<lambda>a. oa_provider a = ''google'' \<or> oa_provider a = ''github'') (oauth_accounts d)"
  "presentable_db d \<Longrightarrow> list_all job_presentable (background_jobs d)"
  by (simp_all add: presentable_db_def)

lemma presentable_table:
  "presentable_db d \<Longrightarrow> presentable_db (d\<lparr>task_audit := x0\<rparr>) = list_all (\<lambda>a. is_object (ta_payload a)) x0"
  "presentable_db d \<Longrightarrow> presentable_db (d\<lparr>audit_log := x1\<rparr>) = list_all (\<lambda>a. is_object (ae_payload a)) x1"
  "presentable_db d \<Longrightarrow> presentable_db (d\<lparr>notifications := x2\<rparr>) = list_all (\<lambda>n. is_object (nt_payload n)) x2"
  "presentable_db d \<Longrightarrow> presentable_db (d\<lparr>deliveries := x3\<rparr>) = list_all (\<lambda>v. wd_status v = ''pending'' \<or> wd_status v = ''delivered'' \<or> wd_status v = ''dead_letter'') x3"
  "presentable_db d \<Longrightarrow> presentable_db (d\<lparr>oauth_accounts := x4\<rparr>) = list_all (\<lambda>a. oa_provider a = ''google'' \<or> oa_provider a = ''github'') x4"
  "presentable_db d \<Longrightarrow> presentable_db (d\<lparr>background_jobs := x5\<rparr>) = list_all job_presentable x5"
  by (simp_all add: presentable_db_def)

lemma is_object_JObject: "is_object (JObject kvs)"
  by (simp add: is_object_def)

lemmas returning_dests = update_returning_InrD delete_returning_InrD

lemmas op_simps = content_def known_urls_same try_then_Inr insert_row_Inr insert_task_audit_Inr Let_def presentable_free presentable_rows presentable_table is_object_JObject

text \<open>Operations on tables no task row refers to and the tenants' content leaves out.\<close>

lemma account_ops:
  "outside.keeps A t (db_run (db_create_refresh_token now i user s x))"
  "outside.keeps A t (db_run (db_rotate_refresh_token now i n user s x))"
  "outside.keeps A t (db_run (\<lambda>d. Inr ((), db_revoke_refresh_token now i d)))"
  "outside.keeps A t (db_run (\<lambda>d. Inr ((), db_revoke_user_tenant_refresh_tokens now user s d)))"
  "outside.keeps A t (db_run (\<lambda>d. Inr ((), db_revoke_all_user_refresh_tokens now user d)))"
  "outside.keeps A t (db_run (\<lambda>d. Inr (db_revoke_user_refresh_token now user i d)))"
  "outside.keeps A t (db_run (db_create_user_token i now user k h x))"
  "outside.keeps A t (db_run (db_consume_user_token now k h))"
  "outside.keeps A t (db_run (db_create_invitation i now s m role h x c))"
  "outside.keeps A t (db_run (db_revoke_invitation now s i))"
  "outside.keeps A t (db_run (db_accept_invitation now s h user m))"
  "outside.keeps A t (db_run (\<lambda>d. Inr (db_update_membership_role s user role2 d)))"
  "outside.keeps A t (db_run (\<lambda>d. Inr (db_delete_membership s user d)))"
  "p \<in> {''google'', ''github''} \<Longrightarrow> outside.keeps A t (db_run (db_link_oauth_account i now user p sub))"
  "outside.keeps A t (db_run (\<lambda>d. Inr (db_unlink_oauth_account user p d)))"
  by (rule run_rule, rule spares_db_grow;
      auto simp: op_simps db_create_refresh_token_def db_rotate_refresh_token_def db_revoke_refresh_token_def
        db_revoke_user_tenant_refresh_tokens_def db_revoke_all_user_refresh_tokens_def revoke_where_def
        db_revoke_user_refresh_token_def db_create_user_token_def db_consume_user_token_def db_create_invitation_def
        db_revoke_invitation_def db_accept_invitation_def db_update_membership_role_def db_delete_membership_def
        db_link_oauth_account_def db_unlink_oauth_account_def intro!: kept_rows split: if_splits)+

lemma insert_deliveries_rows:
  "insert_deliveries ids k now event payload hs ds = Inr xs \<Longrightarrow> list_all P ds \<Longrightarrow>
     (\<And>i h. P (delivery_row i now event payload h)) \<Longrightarrow> list_all P xs"
  by (induction hs arbitrary: k ds) (auto simp: try_then_Inr insert_row_Inr)

lemma message_ops:
  "is_object p \<Longrightarrow> outside.keeps A t (db_run (db_record_audit_event i now tn a st si ty p))"
  "is_object (nn_payload n) \<Longrightarrow> outside.keeps A t (db_run (db_enqueue_notification i now n m))"
  "outside.keeps A t (db_run (db_set_notification_preference now user k b))"
  "outside.keeps A t (db_run (\<lambda>d. Inr (db_mark_notification_read now s user i ks d)))"
  "outside.keeps A t (db_run (\<lambda>d. Inr (db_mark_all_notifications_read now s user ks d)))"
  "outside.keeps A t (db_run (db_enqueue_webhook_deliveries ids now s event payload))"
  "outside.keeps A t (db_run (db_redeliver_webhook_delivery now s h v))"
  by (rule run_rule, rule spares_db_grow;
      auto simp: op_simps db_record_audit_event_def db_enqueue_notification_def db_set_notification_preference_def
        db_mark_notification_read_def db_mark_all_notifications_read_def db_enqueue_webhook_deliveries_def
        db_redeliver_webhook_delivery_def notification_row_def
        delivery_row_def intro!: kept_rows elim!: insert_deliveries_rows split: if_splits list.splits)+

lemma user_ops:
  "outside.keeps A t (db_run (db_mark_user_email_verified now i))"
  "outside.keeps A t (db_run (db_update_user_password i h))"
  "outside.keeps A t (db_run (db_update_user_email i m))"
  "outside.keeps A t (db_run (db_update_user_display_name i n))"
  "outside.keeps A t (db_run (db_create_user_with_tenant user s now m h n2))"
  by (rule run_rule, rule spares_db_grow;
      auto simp: op_simps db_mark_user_email_verified_def db_update_user_password_def db_update_user_email_def
        db_update_user_display_name_def update_user_def db_create_user_with_tenant_def keys_update_where
        dest!: update_returning_InrD split: if_splits)+

text \<open>Operations on the content of the tenant \<open>s\<close>.\<close>

lemma foreign_update:
  "(\<And>r. owner (f r) = owner r) \<Longrightarrow> (\<And>r. P r \<Longrightarrow> owner r \<noteq> t) \<Longrightarrow>
     filter (\<lambda>r. owner r = t) (update_where P f xs) = filter (\<lambda>r. owner r = t) xs"
  by (rule filter_update_where_other) auto

lemma foreign_delete:
  "(\<And>r. P r \<Longrightarrow> owner r \<noteq> t) \<Longrightarrow>
     filter (\<lambda>r. owner r = t) (delete_where P xs) = filter (\<lambda>r. owner r = t) xs"
  by (rule filter_delete_other) auto

lemma project_ops:
  assumes "s \<noteq> t"
  shows "outside.keeps A t (db_run (db_create_project i now s a cp))"
    "outside.keeps A t (db_run (db_update_project now s i a up))"
    "outside.keeps A t (db_run (db_archive_project now s i a))"
    "outside.keeps A t (db_run (db_restore_project now s i a))"
  using assms
  by (rule_tac [!] run_rule, rule_tac [!] spares_db_grow)
    (auto simp: op_simps db_create_project_def db_update_project_def db_archive_project_def db_restore_project_def
        apply_project_update_def live_project_def keys_update_where
        intro!: foreign_update foreign_delete
        dest!: update_returning_InrD split: if_splits)

lemma note_ops:
  assumes "s \<noteq> t"
  shows "outside.keeps A t (db_run (db_create_label e i now s a cl))"
    "outside.keeps A t (db_run (db_update_label e now s i a ul))"
    "outside.keeps A t (db_run (db_delete_label s i))"
    "outside.keeps A t (db_run (db_set_task_labels e aid now s task a ids))"
    "outside.keeps A t (db_run (db_create_comment i aid now s task a b))"
    "outside.keeps A t (db_run (db_update_comment now s task i b))"
    "outside.keeps A t (db_run (db_delete_comment aid now s task i a))"
    "outside.keeps A t (db_run (db_create_attachment aid i now s task a n ct sz k))"
    "outside.keeps A t (db_run (db_delete_attachment aid now s task i a))"
  using assms
  by (rule_tac [!] run_rule, rule_tac [!] spares_db_grow)
    (auto simp: op_simps task_audit_row_def db_create_label_def db_update_label_def apply_label_update_def db_delete_label_def
        db_set_task_labels_def db_create_comment_def db_update_comment_def db_delete_comment_def comment_of_def
        db_create_attachment_def db_delete_attachment_def attachment_of_def
        intro!: foreign_update foreign_delete kept_rows dest!: returning_dests split: if_splits)

lemma webhook_job_ops:
  assumes "s \<noteq> t"
  shows "A url \<Longrightarrow> outside.keeps A t (db_run (db_create_webhook i now s a url sec evs))"
    "(\<And>v. u2 = Some v \<Longrightarrow> A v) \<Longrightarrow> outside.keeps A t (db_run (db_update_webhook now s i u2 ev2 act))"
    "outside.keeps A t (db_run (db_delete_webhook s i))"
    "is_object payload \<Longrightarrow> ty \<noteq> ''retention_sweep'' \<Longrightarrow>
       outside.keeps A t (db_run (db_create_job i now (Some s) ty payload mx))"
proof -
  note rules = run_rule spares_db_grow
  show "outside.keeps A t (db_run (db_create_webhook i now s a url sec evs))" if "A url"
    using assms that by (intro rules) (auto simp: op_simps db_create_webhook_def known_urls_def split: if_splits)
  show "outside.keeps A t (db_run (db_update_webhook now s i u2 ev2 act))" if "\<And>v. u2 = Some v \<Longrightarrow> A v"
    using assms that by (intro rules) (auto simp: op_simps db_update_webhook_def known_urls_def in_update_where coalesce_def
        intro!: foreign_update split: if_splits list.splits option.splits)
  show "outside.keeps A t (db_run (db_delete_webhook s i))"
    using assms by (intro rules) (auto simp: op_simps db_delete_webhook_def known_urls_def intro!: foreign_delete kept_rows split: if_splits)
  show "outside.keeps A t (db_run (db_create_job i now (Some s) ty payload mx))" if "is_object payload" "ty \<noteq> ''retention_sweep''"
    using assms that by (intro rules) (auto simp: op_simps db_create_job_def new_job_def job_presentable_def split: if_splits)
qed

text \<open>The task writes, with the invariant of the table.\<close>

lemma task_rule:
  "(\<And>d x d'. f d = Inr (x, d') \<Longrightarrow> content t d' = content t d \<and> webhooks d' = webhooks d \<and>
     (presentable_db d \<longrightarrow> presentable_db d')) \<Longrightarrow>
     (\<And>d x d'. wf_tasks d \<Longrightarrow> f d = Inr (x, d') \<Longrightarrow> wf_tasks d') \<Longrightarrow> outside.keeps A t (db_run f)"
  by (rule run_rule) (simp add: spares_db_def known_urls_same)

lemma payload_objects: "is_object (update_task_payload up)" "is_object (archive_payload q)"
  by (simp_all add: is_object_def update_task_payload_def archive_payload_def)

lemma task_ops:
  assumes "s \<noteq> t"
  shows "outside.keeps A t (db_run (db_create_task i aid now s a ct))"
    "outside.keeps A t (db_run (db_update_task aid now s i a up))"
    "outside.keeps A t (db_run (db_bulk_update_task_status aids now s a ids st))"
    "outside.keeps A t (db_run (db_archive_task aid now now2 s i a))"
    "outside.keeps A t (db_run (db_restore_task aid now now2 s i a))"
proof -
  have content: "content t d' = content t d \<and> webhooks d' = webhooks d \<and> (presentable_db d \<longrightarrow> presentable_db d')"
    if "db_create_task i aid now s a ct d = Inr (x, d') \<or> db_update_task aid now s i a up d = Inr (x, d') \<or>
      db_archive_task aid now now2 s i a d = Inr (x, d') \<or> db_restore_task aid now now2 s i a d = Inr (x, d')" for d x d'
    using that assms
    by (elim disjE) (auto simp: op_simps task_audit_row_def new_task_row_def db_create_task_def db_update_task_def
        db_archive_task_def db_restore_task_def apply_task_update_def set_task_status_def payload_objects
        intro!: foreign_update dest!: update_returning_InrD split: if_splits)
  have bulk: "content t d' = content t d \<and> webhooks d' = webhooks d \<and> (presentable_db d \<longrightarrow> presentable_db d')" if "db_bulk_update_task_status aids now s a ids st d = Inr (x, d')" for d x d'
    using that assms
    by (auto simp: op_simps task_audit_row_def db_bulk_update_task_status_def set_task_status_def filter_empty_conv
list.pred_map comp_def case_prod_unfold list.pred_True
        intro!: foreign_update dest!: insert_task_audits_Inr split: if_splits)
  show "outside.keeps A t (db_run (db_create_task i aid now s a ct))"
    by (rule task_rule [OF content [OF disjI1] create_task_wf])
  show "outside.keeps A t (db_run (db_update_task aid now s i a up))"
    by (rule task_rule [OF content [OF disjI2, OF disjI1] update_task_wf])
  show "outside.keeps A t (db_run (db_bulk_update_task_status aids now s a ids st))"
    by (rule task_rule [OF bulk bulk_update_wf])
  show "outside.keeps A t (db_run (db_archive_task aid now now2 s i a))"
    by (rule task_rule [OF content [OF disjI2, OF disjI2, OF disjI1] archive_restore_wf [OF _ disjI1]])
  show "outside.keeps A t (db_run (db_restore_task aid now now2 s i a))"
    by (rule task_rule [OF content [OF disjI2, OF disjI2, OF disjI2] archive_restore_wf [OF _ disjI2]])
qed

lemma stored_put:
  "stored_ok r \<Longrightarrow> (\<And>t route q s p. k = KIdempotency t route q \<Longrightarrow> v = RStored s \<Longrightarrow> map_of creations route = Some p \<Longrightarrow>
     meets p (json_reply (sr_status s) (sr_body s))) \<Longrightarrow> stored_ok (r\<lparr>kv := (kv r)(k \<mapsto> (v, z))\<rparr>)"
  by (auto simp: stored_ok_def)

lemma stored_del: "stored_ok r \<Longrightarrow> stored_ok (r\<lparr>kv := (kv r)(k := None)\<rparr>)"
  by (auto simp: stored_ok_def)

lemma stored_queue: "stored_ok (r\<lparr>queue := q\<rparr>) = stored_ok r"
  by (simp add: stored_ok_def)

text \<open>What an idempotent route may store.\<close>

definition storable :: "redis_key \<Rightarrow> stored_response \<Rightarrow> bool" where
  "storable k s \<longleftrightarrow> (\<forall>t route q p. k = KIdempotency t route q \<longrightarrow> map_of creations route = Some p \<longrightarrow>
     meets p (json_reply (sr_status s) (sr_body s)))"

lemma cache_ops:
  "\<not> tenant_key t k \<Longrightarrow> \<not> bucket_key k \<Longrightarrow> (\<And>s. v \<noteq> RStored s) \<Longrightarrow> outside.keeps A t (cache_run (set_json now k v ttl))"
  "\<not> tenant_key t k \<Longrightarrow> \<not> bucket_key k \<Longrightarrow> outside.keeps A t (cache_run (claim_idempotency_key now k ttl))"
  "\<not> tenant_key t k \<Longrightarrow> \<not> bucket_key k \<Longrightarrow> storable k rs \<Longrightarrow>
     outside.keeps A t (cache_run (store_idempotency_response now k rs ttl))"
  "\<not> tenant_key t k \<Longrightarrow> \<not> bucket_key k \<Longrightarrow> outside.keeps A t (cache_run (delete_key k))"
  "outside.keeps A t (cache_run (get_json dec now k))"
  "outside.keeps A t (cache_run (idempotency_state now k))"
  "outside.keeps A t (cache_run (tenant_cache_version now s))"
  "s \<noteq> t \<Longrightarrow> outside.keeps A t (cache_run (bump_tenant_cache_version now s))"
  "outside.keeps A t (cache_run (enqueue_job j))"
  "outside.keeps A t (cache_run (deny_access_token now jti n))"
  "outside.keeps A t (cache_run (is_access_token_denied now jti))"
  by (rule cache_rule;
      auto simp: spares_redis_def redis_ops redis_put_def redis_del_def stored_queue storable_def
        intro!: stored_put stored_del split: option.split redis_value.split)+

end
