(* ===== verification/RequestFrames.thy ===== *)
theory RequestFrames
  imports Frames
begin

text \<open>
  \<open>outside.keeps A t\<close> of every service and handler a request reaches: they leave the tenant \<open>t\<close> alone when
  they act for another one. A service is unfolded once and its calls are discharged by the rules of the
  frame and the facts about the operations.
\<close>

section \<open>Services\<close>

text \<open>The payloads services build are objects.\<close>

lemma built_payloads:
  "is_object (JObject kvs)"
  "is_object (nn_payload \<lparr>nn_tenant_id = a, nn_user_id = b, nn_kind = c, nn_recipient = d, nn_payload = JObject kvs, nn_dedupe_key = e\<rparr>)"
  "is_object (nn_payload (comment_notification s task comment user))"
  by (simp_all add: is_object_JObject comment_notification_def)

lemmas free_ops = built_payloads outside.rules account_ops message_ops user_ops cache_ops(5-7,9-11) store_rules

lemma json_ok_keeps: "outside.keeps A t (json_ok v)"
  unfolding json_ok_def by (rule outside.pure)

lemma task_reply_keeps: "outside.keeps A t (task_reply r)"
  unfolding task_reply_def by (intro outside.rules json_ok_keeps)

lemma record_event_keeps: "is_object p \<Longrightarrow> outside.keeps A t (record_event i now s a st si ty p)"
  unfolding record_event_def by (intro free_ops)

lemma token_services:
  "outside.keeps A t (create_and_enqueue_token e ti nid token now user k n ttl)"
  "outside.keeps A t (send_verification_email e ti nid token now user)"
  unfolding create_and_enqueue_token_def send_verification_email_def by (intro free_ops)+

lemma session_services:
  "outside.keeps A t (issue_session j e jti now user m i)"
  "outside.keeps A t (resolve_membership uid s)"
  "outside.keeps A t (svc_deny_access_token j e now token)"
  unfolding issue_session_def resolve_membership_def svc_deny_access_token_def Let_def by (intro free_ops)+

lemmas helper_keeps = free_ops json_ok_keeps task_reply_keeps record_event_keeps token_services session_services

lemma known_provider: "oauth_identify h e provider code uri = Inr x \<Longrightarrow> provider \<in> {''google'', ''github''}"
  by (auto simp: oauth_identify_def supported_oauth_providers_def split: if_splits)

lemma oauth_service: "outside.keeps A t (svc_oauth_login j h e f aid now provider code uri s name)"
  unfolding svc_oauth_login_def record_login_audit_def
  by (intro helper_keeps; erule known_provider)

lemma public_services:
  "outside.keeps A t (svc_register j e f now email password name)"
  "outside.keeps A t (svc_login j e f now email password s)"
  "outside.keeps A t (svc_refresh j e f now token s)"
  "outside.keeps A t (svc_logout j e aid now token access)"
  "outside.keeps A t (svc_verify_email e aid now token)"
  "outside.keeps A t (svc_resend_verification e ti nid token now email)"
  "outside.keeps A t (svc_request_password_reset e ti nid token now email)"
  "outside.keeps A t (svc_confirm_password_reset e aid salt now token password)"
  unfolding svc_register_def svc_login_def svc_refresh_def svc_logout_def svc_verify_email_def Let_def
    svc_resend_verification_def svc_request_password_reset_def svc_confirm_password_reset_def
  by (intro helper_keeps)+

lemma apply_preferences_keeps: "outside.keeps A t (apply_preferences now user changes)"
  by (induction now user changes rule: apply_preferences.induct) (auto simp only: apply_preferences.simps intro!: helper_keeps)

lemma own_services:
  "outside.keeps A t (svc_change_password e aid salt now user old new)"
  "outside.keeps A t (svc_change_email e ti nid aid token now user old email)"
  "outside.keeps A t (svc_update_profile aid now s user name)"
  "outside.keeps A t (svc_get_notification_preferences user)"
  "outside.keeps A t (svc_update_notification_preferences aid now s user a b c)"
  "outside.keeps A t (svc_list_feed e s user unread c2 limit)"
  "outside.keeps A t (svc_mark_read now s user i)"
  "outside.keeps A t (svc_mark_all_read now s user)"
  "outside.keeps A t (svc_switch_tenant j e f now user s)"
  "outside.keeps A t (svc_me user s)"
  "outside.keeps A t (svc_list_tenants user)"
  "outside.keeps A t (svc_list_sessions now user)"
  "outside.keeps A t (svc_revoke_session aid now s user i)"
  "outside.keeps A t (svc_logout_all j e aid now s user access)"
  "outside.keeps A t (svc_list_oauth_accounts e user)"
  "outside.keeps A t (svc_unlink_oauth_account aid now s user p)"
  unfolding svc_change_password_def svc_change_email_def svc_update_profile_def Let_def
    svc_get_notification_preferences_def svc_update_notification_preferences_def svc_list_feed_def svc_mark_read_def
    svc_mark_all_read_def svc_switch_tenant_def svc_me_def svc_list_tenants_def svc_list_sessions_def
    svc_revoke_session_def svc_logout_all_def svc_list_oauth_accounts_def svc_unlink_oauth_account_def
  by (intro helper_keeps apply_preferences_keeps)+

lemma member_services:
  "outside.keeps A t (svc_list_events e s c limit)"
  "outside.keeps A t (svc_list_tenant_members e a s)"
  "outside.keeps A t (svc_create_invitation e i nid aid token now s ar actor email new)"
  "outside.keeps A t (svc_list_invitations now s)"
  "outside.keeps A t (svc_revoke_invitation aid now s actor i)"
  "outside.keeps A t (svc_accept_invitation e aid now s user token)"
  "outside.keeps A t (svc_update_member_role aid now s ar actor target new)"
  "outside.keeps A t (svc_remove_member aid now s ar actor target)"
  unfolding svc_list_events_def svc_list_tenant_members_def svc_create_invitation_def svc_list_invitations_def
    svc_revoke_invitation_def svc_accept_invitation_def svc_update_member_role_def svc_remove_member_def
    update_role_check_def update_role_write_def remove_member_check_def remove_member_write_def member_role_of_def
  by (intro helper_keeps)+

lemma emit_keeps: "outside.keeps A t (emit_task_webhook ids now s event task)"
  unfolding emit_task_webhook_def emit_task_event_def by (intro helper_keeps)

lemma task_reads:
  "outside.keeps A t (svc_get_task s i)"
  "outside.keeps A t (svc_get_project s i)"
  "outside.keeps A t (svc_project_summary now s i)"
  "outside.keeps A t (ensure_project_belongs_to_tenant s p)"
  "outside.keeps A t (svc_dashboard_summary now s)"
  "outside.keeps A t (svc_get_job i)"
  "outside.keeps A t (svc_get_tenant_job i s)"
  "outside.keeps A t (svc_get_tenant_job_result i s)"
  "outside.keeps A t (svc_list_labels e s)"
  unfolding svc_get_task_def svc_get_project_def svc_project_summary_def ensure_project_belongs_to_tenant_def
    svc_dashboard_summary_def svc_get_job_def svc_get_tenant_job_def svc_get_tenant_job_result_def svc_list_labels_def
  by (intro helper_keeps)+

lemma task_lists:
  "outside.keeps A t (svc_list_task_audit s i c limit)"
  "outside.keeps A t (svc_list_task_labels e s i)"
  "outside.keeps A t (svc_list_comments s i c limit)"
  "outside.keeps A t (svc_list_attachments s i)"
  "outside.keeps A t (svc_download_attachment s i a)"
  "outside.keeps A t (svc_list_webhook_deliveries s h c limit)"
  "outside.keeps A t (svc_redeliver_webhook_delivery now s h v)"
  "outside.keeps A t (notify_assignee e nid now s author task comment)"
  unfolding svc_list_task_audit_def svc_list_task_labels_def svc_list_comments_def svc_list_attachments_def
    svc_download_attachment_def svc_list_webhook_deliveries_def svc_redeliver_webhook_delivery_def notify_assignee_def
  by (intro helper_keeps task_reads)+

lemmas tenant_ops = project_ops note_ops webhook_job_ops task_ops cache_ops(8)
lemmas reader_keeps = helper_keeps emit_keeps task_reads task_lists

lemma cached_reads:
  assumes "s \<noteq> t"
  shows "outside.keeps A t (svc_list_tasks_cached e now s f token c limit)"
    "outside.keeps A t (svc_get_task_cached e now s i)"
  unfolding svc_list_tasks_cached_def svc_get_task_cached_def Let_def page_key_def
  by (intro reader_keeps cache_ops(1); use assms in simp)+

lemma task_writes:
  assumes "s \<noteq> t"
  shows "outside.keeps A t (svc_create_task i aid wids now s a ct)"
    "outside.keeps A t (svc_update_task aid wids now s i a up)"
    "outside.keeps A t (svc_bulk_update_task_status aids grid now s a ids st)"
    "outside.keeps A t (svc_archive_task aid wids now s i a)"
    "outside.keeps A t (svc_restore_task aid wids now s i a)"
  unfolding svc_create_task_def svc_update_task_def svc_bulk_update_task_status_def svc_archive_task_def
    svc_restore_task_def Let_def
  by (intro reader_keeps tenant_ops assms)+

lemma export_payload: "is_object (export_job_json s a f format)" "job_type_str TaskExport \<noteq> ''retention_sweep''"
  by (simp_all add: export_job_json_def is_object_def)

lemma resource_writes:
  assumes "s \<noteq> t"
  shows "outside.keeps A t (svc_create_project i aid now s a cp)"
    "outside.keeps A t (svc_update_project aid now s i a pu)"
    "outside.keeps A t (svc_archive_project aid now s a i)"
    "outside.keeps A t (svc_restore_project aid now s a i)"
    "outside.keeps A t (svc_create_label e i aid now s a cl)"
    "outside.keeps A t (svc_update_label e aid now s i a ul)"
    "outside.keeps A t (svc_delete_label aid now s i a)"
    "outside.keeps A t (svc_set_task_labels e aid now s i a ids)"
    "outside.keeps A t (svc_delete_webhook s i)"
    "outside.keeps A t (svc_create_export_job e i now s a f format)"
  unfolding svc_create_project_def svc_update_project_def svc_archive_project_def svc_restore_project_def
    svc_create_label_def svc_update_label_def svc_delete_label_def svc_set_task_labels_def svc_delete_webhook_def svc_create_export_job_def
  by (intro reader_keeps tenant_ops assms export_payload)+

lemma transpose_opt_Some: "transpose_opt f x = Inr (Some v) \<Longrightarrow> \<exists>y. x = Some y \<and> f y = Inr v"
  by (cases x) (auto simp: map_ok_Inr)

text \<open>\<open>checks\<close>: every URL the code accepts with this parser and this setting satisfies \<open>A\<close>.\<close>

definition checks :: "(string \<Rightarrow> bool) \<Rightarrow> host_parser \<Rightarrow> env \<Rightarrow> bool" where
  "checks A uri e \<longleftrightarrow>
     (\<forall>u out. validate_webhook_url uri u (webhook_allow_private_urls (cfg e)) = Inr out \<longrightarrow> A out)"

lemma webhook_writes:
  assumes "s \<noteq> t" and "checks A uri e"
  shows "outside.keeps A t (svc_create_webhook e uri i now secret s a url evs)"
    "outside.keeps A t (svc_update_webhook e uri now s i u2 ev2 act)"
proof -
  have A: "A out" if "validate_webhook_url uri u (webhook_allow_private_urls (cfg e)) = Inr out" for u out
    using assms(2) that by (auto simp: checks_def)
  show "outside.keeps A t (svc_create_webhook e uri i now secret s a url evs)"
    unfolding svc_create_webhook_def by (intro outside.rules webhook_job_ops assms(1)) (erule A)
  show "outside.keeps A t (svc_update_webhook e uri now s i u2 ev2 act)"
    unfolding svc_update_webhook_def
    by (intro outside.rules webhook_job_ops assms(1)) (auto dest!: transpose_opt_Some intro: A)
qed

lemma note_writes:
  assumes "s \<noteq> t"
  shows "outside.keeps A t (svc_create_comment e i aid nid now s task a b)"
    "outside.keeps A t (svc_update_comment now s task i a b)"
    "outside.keeps A t (svc_delete_comment aid now s task i a r)"
    "outside.keeps A t (svc_upload_attachment e i aid now s task a n ct bytes)"
    "outside.keeps A t (svc_delete_attachment aid now s task i a r)"
  unfolding svc_create_comment_def svc_update_comment_def svc_delete_comment_def svc_upload_attachment_def
    upload_check_def upload_write_def svc_delete_attachment_def Let_def
  by (intro reader_keeps tenant_ops assms)+

section \<open>Handlers\<close>

lemmas reply_defs = json_list_def auth_reply_def with_key_def

lemma public_handler_keeps: "outside.keeps A t (public_handler x req r)"
  by (cases r; simp only: public_handler.simps http_register_def http_login_def http_oauth_login_def http_refresh_def
        http_logout_def http_verify_email_def http_resend_verification_def http_request_password_reset_def
        http_confirm_password_reset_def Let_def reply_defs)
    (intro helper_keeps public_services oauth_service)+

lemma own_handler_keeps: "outside.keeps A t (own_handler x req u r)"
  by (cases r; simp only: own_handler.simps http_switch_tenant_def http_dashboard_summary_def http_me_def
        http_update_profile_def http_get_notification_preferences_def http_update_notification_preferences_def
        http_list_my_notifications_def http_mark_all_notifications_read_def http_mark_notification_read_def
        http_list_my_tenants_def Let_def reply_defs)
    (intro reader_keeps own_services)+

lemma session_handler_keeps: "outside.keeps A t (session_handler x req u r)"
  by (cases r; simp only: session_handler.simps http_list_oauth_accounts_def http_unlink_oauth_account_def
        http_list_sessions_def http_logout_all_sessions_def http_revoke_session_def http_change_password_def
        http_change_email_def Let_def reply_defs)
    (intro helper_keeps own_services)+

lemma idempotent_keeps:
  fixes act :: "'a \<Rightarrow> 'b app"
  assumes "\<not> tenant_key t k" and "\<not> bucket_key k" and "\<And>y. outside.keeps A t (act y)"
    and "\<And>y. yields (\<lambda>_. True) Q (act y)" and "\<And>x b. Q x \<Longrightarrow> to_body x = Inr b \<Longrightarrow> storable k \<lparr>sr_status = status, sr_body = b\<rparr>"
  shows "outside.keeps A t (idempotent e now k checked status to_body act)"
proof -
  have "outside.keeps A t (store_outcome e now k status to_body (act y))" for y
    unfolding store_outcome_def
  proof (rule outside.yields_rule [OF outside.attempt_rule yields_attempt])
    fix outcome :: "'b result" assume "case outcome of Inl _ \<Rightarrow> True | Inr x \<Rightarrow> Q x"
    then show "outside.keeps A t (case outcome of
        Inl err \<Rightarrow> then_do (cache_run (delete_key k)) (\<lambda>_. fail err)
      | Inr x \<Rightarrow> then_do (lift_result (to_body x)) (\<lambda>body.
          then_do (cache_run (store_idempotency_response now k \<lparr>sr_status = status, sr_body = body\<rparr> (idempotency_ttl (cfg e)))) (\<lambda>_.
          ret (status, body))))"
      by (cases outcome) (auto intro!: free_ops cache_ops assms(1,2) simp: assms(5))
  qed (rule assms(3,4))+
  then show ?thesis
    unfolding idempotent_def claim_or_replay_def replay_idempotent_def by (intro free_ops cache_ops assms(1,2))
qed

lemma storable_creation:
  "map_of creations route = Some (st, JsonAnswer s) \<Longrightarrow> conforms depth s b \<Longrightarrow>
     storable (KIdempotency t route q) \<lparr>sr_status = st, sr_body = b\<rparr>"
  by (simp add: storable_def meets_json)

text \<open>What the creating routes store is what they promise.\<close>

lemma stored_bodies:
  "invitation_create_json i = Inr b \<Longrightarrow> storable (KIdempotency t ''invitations:create'' q) \<lparr>sr_status = 201, sr_body = b\<rparr>"
  "Inr (project_response_json p) = Inr b \<Longrightarrow> storable (KIdempotency t ''projects:create'' q) \<lparr>sr_status = 201, sr_body = b\<rparr>"
  "Inr (label_response_json l) = Inr b \<Longrightarrow> storable (KIdempotency t ''labels:create'' q) \<lparr>sr_status = 201, sr_body = b\<rparr>"
  "Inr (webhook_create_json w) = Inr b \<Longrightarrow> storable (KIdempotency t ''webhooks:create'' q) \<lparr>sr_status = 201, sr_body = b\<rparr>"
  "Inr (comment_response_json c) = Inr b \<Longrightarrow> storable (KIdempotency t ''comments:create'' q) \<lparr>sr_status = 201, sr_body = b\<rparr>"
  "Inr (attachment_response_json e a) = Inr b \<Longrightarrow> storable (KIdempotency t ''attachments:create'' q) \<lparr>sr_status = 201, sr_body = b\<rparr>"
  "map_ok task_response_json k = Inr b \<Longrightarrow> storable (KIdempotency t ''tasks:create'' q) \<lparr>sr_status = 201, sr_body = b\<rparr>"
  "is_object (jb_payload j) \<and> jb_job_type j = ''task_export'' \<and> jb_result_payload j = None \<Longrightarrow> job_response_json j = Inr b \<Longrightarrow>
     storable (KIdempotency t ''exports:create'' q) \<lparr>sr_status = 202, sr_body = b\<rparr>"
  by (auto intro!: storable_creation simp: creations_def at_depth map_ok_Inr)

lemmas creating = idempotent_keeps [OF _ _ _ yields_True]
lemmas exporting = idempotent_keeps [where Q = "\<lambda>j. is_object (jb_payload j) \<and> jb_job_type j = ''task_export'' \<and> jb_result_payload j = None"]

lemma own_key: "s \<noteq> t \<Longrightarrow> \<not> tenant_key t (KIdempotency s route key)" "\<not> bucket_key (KIdempotency s route key)"
  by simp_all

lemma ensure_tenant: "ensure_active_tenant a s = Inr () \<Longrightarrow> a \<noteq> t \<Longrightarrow> s \<noteq> t"
  by (simp add: ensure_active_tenant_def)

lemma tenant_handler_keeps:
  assumes "au_tenant_id u \<noteq> t"
  shows "outside.keeps A t (tenant_handler x req u r)"
  by (cases r; simp only: tenant_handler.simps http_list_audit_events_def http_list_tenant_members_def
        http_update_member_role_def http_remove_member_def http_list_invitations_def http_create_invitation_def
        http_accept_invitation_def http_revoke_invitation_def Let_def reply_defs)
    (intro helper_keeps member_services creating own_key ensure_tenant [OF _ assms] | assumption | erule stored_bodies)+

lemma project_handler_keeps:
  assumes "au_tenant_id u \<noteq> t"
  shows "outside.keeps A t (project_handler x req u r)"
  by (cases r; simp only: project_handler.simps http_list_projects_def http_create_project_def http_get_project_def
        http_update_project_def http_delete_project_def http_restore_project_def http_get_project_summary_def
        http_list_project_tasks_def list_tasks_page_def Let_def reply_defs)
    (intro reader_keeps cached_reads resource_writes creating own_key assms | erule stored_bodies)+

lemma label_handler_keeps:
  assumes "au_tenant_id u \<noteq> t"
  shows "outside.keeps A t (label_handler x req u r)"
  by (cases r; simp only: label_handler.simps http_list_labels_def http_create_label_def http_update_label_def
        http_delete_label_def http_get_task_labels_def http_put_task_labels_def reply_defs)
    (intro reader_keeps resource_writes creating own_key assms | erule stored_bodies)+

lemma webhook_handler_keeps:
  assumes "au_tenant_id u \<noteq> t" and "checks A (cx_uri x) (cx_env x)"
  shows "outside.keeps A t (webhook_handler x req u r)"
  by (cases r; simp only: webhook_handler.simps http_list_webhooks_def http_create_webhook_def http_update_webhook_def
        http_delete_webhook_def http_list_webhook_deliveries_def http_redeliver_webhook_delivery_def reply_defs)
    (intro reader_keeps resource_writes webhook_writes creating own_key assms | erule stored_bodies)+

lemma task_handler_keeps:
  assumes "au_tenant_id u \<noteq> t"
  shows "outside.keeps A t (task_handler x req u r)"
  by (cases r; simp only: task_handler.simps http_list_tasks_def list_tasks_page_def http_create_task_def
        http_bulk_update_task_status_def http_get_task_def http_update_task_def http_delete_task_def
        http_restore_task_def http_list_task_audit_def reply_defs)
    (intro reader_keeps cached_reads task_writes creating own_key assms | erule stored_bodies)+

lemma note_handler_keeps:
  assumes "au_tenant_id u \<noteq> t"
  shows "outside.keeps A t (note_handler x req u r)"
  by (cases r; simp only: note_handler.simps http_list_task_comments_def http_create_task_comment_def
        http_update_task_comment_def http_delete_task_comment_def http_list_task_attachments_def
        http_upload_task_attachment_def http_delete_task_attachment_def http_download_task_attachment_def reply_defs)
    (intro reader_keeps note_writes creating own_key assms | erule stored_bodies)+

lemma job_handler_keeps:
  assumes "au_tenant_id u \<noteq> t"
  shows "outside.keeps A t (job_handler x req u r)"
  by (cases r; simp only: job_handler.simps http_create_export_def http_get_job_def http_get_job_result_def
        http_download_job_artifact_def Let_def reply_defs)
    (intro reader_keeps resource_writes exporting yields_pair export_job_yields own_key assms | erule (1) stored_bodies)+

lemma protected_handler_keeps:
  "au_tenant_id u \<noteq> t \<Longrightarrow> checks A (cx_uri x) (cx_env x) \<Longrightarrow> outside.keeps A t (protected_handler x req u r)"
  by (cases r) (simp_all add: own_handler_keeps session_handler_keeps tenant_handler_keeps project_handler_keeps
      label_handler_keeps webhook_handler_keeps task_handler_keeps note_handler_keeps job_handler_keeps)

end
