(* ===== verification/AccessControl.thy ===== *)
theory AccessControl
  imports Router
begin

text \<open>
  Who may do what through the HTTP API: a protected route runs for the member a live access token names,
  with the role the database has at that moment, and the routes of administrators refuse everybody else.
\<close>

section \<open>The caller\<close>

lemma authenticate_reads: "snd (authenticate j e now req w) = w"
  by (auto simp: authenticate_def then_do_def lift_result_def cache_run_def is_access_token_denied_def fail_def ret_def
      split: sum.splits prod.splits)

lemma authenticate_Inr:
  assumes "authenticate j e now req w = (Inr u, w')"
  obtains token c m where "w' = w" "bearer_token req = Inr token" "decode_access_token j e now token = Inr c"
    "redis_get now (KDenylist (tc_jti c)) (w_redis w) = None"
    "parse_uuid_str e (tc_sub c) = Some (au_user_id u)" "parse_uuid_str e (tc_tenant_id c) = Some (au_tenant_id u)"
    "m \<in> set (memberships (w_db w))" "mb_user_id m = au_user_id u" "mb_tenant_id m = au_tenant_id u"
    "role_from_str (mb_role m) = Inr (au_role u)"
proof -
  have w': "w' = w" using authenticate_reads [of j e now req w] assms by simp
  from assms obtain token c user tenant r where a: "bearer_token req = Inr token" "decode_access_token j e now token = Inr c"
    "redis_get now (KDenylist (tc_jti c)) (w_redis w) = None" "parse_uuid_str e (tc_sub c) = Some user"
    "parse_uuid_str e (tc_tenant_id c) = Some tenant" "db_get_membership user tenant (w_db w) = Some r"
    and role: "role_from_str (mr_role r) = Inr (au_role u)" and u: "au_user_id u = user" "au_tenant_id u = tenant"
    by (auto simp: authenticate_def then_do_Inr cache_run_eq is_access_token_denied_def http_parse_uuid_def
        lift_result_def fail_def ret_def split: if_splits)
  from db_get_membership_SomeD(1) [OF a(6)] obtain m where m: "m \<in> set (memberships (w_db w))" "mb_user_id m = user"
    "mb_tenant_id m = tenant" "mb_role m = mr_role r" by blast
  show thesis by (rule that [OF w' a(1-3), of m]) (simp_all add: a(4,5) m u role)
qed

lemma strip_prefix_Some: "strip_prefix p s = Some t \<longleftrightarrow> s = p @ t"
  by (auto simp: strip_prefix_def) (metis append_take_drop_id)

lemma bearer_token_Inr:
  "bearer_token req = Inr token \<longleftrightarrow> in_headers req ''authorization'' = Some (''Bearer '' @ token)"
  by (auto simp: bearer_token_def try_then_Inr strip_prefix_Some)

section \<open>Responses\<close>

lemma error_response_status [simp]: "rp_status (error_response err) = error_status err"
  by (simp add: error_response_def json_reply_def)

lemma insert_header_status [simp]: "rp_status (insert_header k v r) = rp_status r" "rp_body (insert_header k v r) = rp_body r"
  by (simp_all add: insert_header_def)

lemma limit_headers_status [simp]:
  "rp_status (attach_rate_limit_headers d r) = rp_status r" "rp_body (attach_rate_limit_headers d r) = rp_body r"
  by (simp_all add: attach_rate_limit_headers_def)

lemma rate_limit_response_status [simp]: "rp_status (rate_limit_response d) = 429"
  by (simp add: rate_limit_response_def)

text \<open>A protected route: refused before the handler, or the handler's answer with two more headers.\<close>

lemma rate_limit_answers: "\<exists>d r'. rate_limit now now_ms k capacity refill cost r = (Inr d, r')"
  by (simp add: rate_limit_def Let_def split: prod.split)

definition charged :: "env \<Rightarrow> time \<Rightarrow> int \<Rightarrow> inbound \<Rightarrow> auth_user \<Rightarrow> world \<Rightarrow> rate_limit_decision \<times> world" where
  "charged e now now_ms req u w =
     (case rate_limit now now_ms (KAppLimit (au_tenant_id u) (au_user_id u) (client_identifier req))
        (app_rate_limit_capacity (cfg e)) (app_rate_limit_refill_per_sec (cfg e)) 1 (w_redis w) of
        (Inr d, r) \<Rightarrow> (d, w\<lparr>w_redis := r\<rparr>))"

lemma charged_frame: "w_db (snd (charged e now now_ms req u w)) = w_db w" "w_files (snd (charged e now now_ms req u w)) = w_files w"
  by (auto simp: charged_def rate_limit_def Let_def split: prod.splits)

lemma protected_cases:
  assumes "protected_middleware j e now now_ms req next w = (resp, w')"
  obtains (refused) err where "authenticate j e now req w = (Inl err, w)" "resp = error_response err" "w' = w"
  | (limited) u d where "authenticate j e now req w = (Inr u, w)" "charged e now now_ms req u w = (d, w')"
      "\<not> rd_allowed d" "resp = rate_limit_response d"
  | (served) u d v r where "authenticate j e now req w = (Inr u, w)" "charged e now now_ms req u w = (d, v)"
      "rd_allowed d" "next u v = (r, w')" "resp = attach_rate_limit_headers d r"
proof (cases "authenticate j e now req w")
  case (Pair a w2)
  have w2: "w2 = w" using authenticate_reads [of j e now req w] Pair by simp
  show thesis
  proof (cases a)
    case (Inl err)
    with Pair w2 assms have "resp = error_response err" "w' = w" by (auto simp: protected_middleware_def answer_def)
    with refused Pair Inl w2 show thesis by simp
  next
    case (Inr u)
    let ?k = "KAppLimit (au_tenant_id u) (au_user_id u) (client_identifier req)"
    obtain d r where d: "rate_limit now now_ms ?k (app_rate_limit_capacity (cfg e)) (app_rate_limit_refill_per_sec (cfg e)) 1
        (w_redis w) = (Inr d, r)" using rate_limit_answers by blast
    let ?v = "w\<lparr>w_redis := r\<rparr>"
    have c: "charged e now now_ms req u w = (d, ?v)" by (simp add: charged_def d del: One_nat_def)
    from assms Pair Inr w2 d have m: "answer (\<lambda>_. (if \<not> rd_allowed d then ret (rate_limit_response d)
        else then_do (run_next (next u)) (\<lambda>response. ret (attach_rate_limit_headers d response))) ?v) w = (resp, w')"
      by (simp add: protected_middleware_def limited_def answer_def del: One_nat_def)
    show thesis
    proof (cases "rd_allowed d")
      case True
      obtain q w3 where n: "next u ?v = (q, w3)" by (cases "next u ?v")
      with m True have "resp = attach_rate_limit_headers d q" "w' = w3" by (simp_all add: answer_def run_next_def ret_def)
      with served Pair Inr w2 c True n show thesis by simp
    next
      case False
      with m have "resp = rate_limit_response d" "w' = ?v" by (simp_all add: answer_def ret_def)
      with limited Pair Inr w2 c False show thesis by simp
    qed
  qed
qed

lemma error_status_ge: "400 \<le> error_status err"
  by (cases err) simp_all

text \<open>C2. A protected route that answers with anything but an error, or changes anything, was called
  with an access token that decodes and is not denied, by a user who is a member of the token's tenant at
  that moment; its handler, if the rate limit admits the call, runs for that user and tenant with the role
  the database has, and its answer is sent.\<close>

theorem protected_needs_session:
  assumes run: "serve x now_ms req (Protected r) w = (resp, w')" and effect: "w' \<noteq> w \<or> rp_status resp < 400"
  shows "\<exists>token c m u d v.
    in_headers req ''authorization'' = Some (''Bearer '' @ token) \<and>
    decode_access_token (cx_jwt x) (cx_env x) (cx_now x) token = Inr c \<and>
    redis_get (cx_now x) (KDenylist (tc_jti c)) (w_redis w) = None \<and>
    m \<in> set (memberships (w_db w)) \<and> parse_uuid_str (cx_env x) (tc_sub c) = Some (mb_user_id m) \<and>
    parse_uuid_str (cx_env x) (tc_tenant_id c) = Some (mb_tenant_id m) \<and>
    au_user_id u = mb_user_id m \<and> au_tenant_id u = mb_tenant_id m \<and> role_from_str (mb_role m) = Inr (au_role u) \<and>
    charged (cx_env x) (cx_now x) now_ms req u w = (d, v) \<and>
    (if rd_allowed d then \<exists>q. answer (protected_handler x req u r) v = (q, w') \<and> resp = attach_rate_limit_headers d q
     else w' = v \<and> rp_status resp = 429)"
proof -
  from run [simplified] show ?thesis
  proof (cases rule: protected_cases)
    case (refused err)
    with effect error_status_ge [of err] show ?thesis by simp
  next
    case (limited u d)
    from limited(1) show ?thesis
      by (rule authenticate_Inr) (use limited in \<open>auto simp: bearer_token_Inr intro!: exI\<close>)
  next
    case (served u d v q)
    from served(1) show ?thesis
      by (rule authenticate_Inr) (use served in \<open>auto simp: bearer_token_Inr intro!: exI\<close>)
  qed
qed

section \<open>Administration\<close>

definition admin_only :: "protected_route \<Rightarrow> bool" where
  "admin_only r =
     (case r of
        Tenant (ListMembers _) \<Rightarrow> False
      | Tenant (AcceptInvitation _ _) \<Rightarrow> False
      | Tenant _ \<Rightarrow> True
      | Project (CreateProject _) \<Rightarrow> True
      | Project (UpdateProject _ _) \<Rightarrow> True
      | Project (DeleteProject _) \<Rightarrow> True
      | Project (RestoreProject _) \<Rightarrow> True
      | Label (CreateLabel _) \<Rightarrow> True
      | Label (UpdateLabel _ _) \<Rightarrow> True
      | Label (DeleteLabel _) \<Rightarrow> True
      | Webhook _ \<Rightarrow> True
      | Task (DeleteTask _) \<Rightarrow> True
      | Job (CreateExport _) \<Rightarrow> True
      | _ \<Rightarrow> False)"

lemma guard_simps [simp]:
  "guard (Inl err) m w = (Inl err, w)" "guard (Inr ()) m w = m w"
  by (simp_all add: guard_def then_do_def lift_result_def)

lemma member_is_no_admin [simp]: "ensure_admin_role Member = Inl (Forbidden ''owner or admin role required for this action'')"
  by (simp add: ensure_admin_role_def)

lemma tenant_guard_refuses:
  "guard (ensure_active_tenant a t) (guard (Inl err) m) w = (Inl (if a = t then err else NotFound ''tenant not found''), w)"
  by (simp add: ensure_active_tenant_def ensure_def)

lemma admin_handler_refuses:
  assumes "au_role u = Member" and "admin_only r"
  shows "\<exists>err. protected_handler x req u r w = (Inl err, w) \<and> error_status err \<in> {403, 404}"
proof (cases r)
  case (Tenant t)
  with assms show ?thesis
    by (cases t) (simp_all add: admin_only_def http_list_audit_events_def http_update_member_role_def http_remove_member_def
        http_list_invitations_def http_create_invitation_def http_revoke_invitation_def tenant_guard_refuses)
next
  case (Project t)
  with assms show ?thesis
    by (cases t) (simp_all add: admin_only_def http_create_project_def http_update_project_def http_delete_project_def
        http_restore_project_def)
next
  case (Label t)
  with assms show ?thesis
    by (cases t) (simp_all add: admin_only_def http_create_label_def http_update_label_def http_delete_label_def)
next
  case (Webhook t)
  with assms show ?thesis
    by (cases t) (simp_all add: http_list_webhooks_def http_create_webhook_def http_update_webhook_def
        http_delete_webhook_def http_list_webhook_deliveries_def http_redeliver_webhook_delivery_def)
next
  case (Task t)
  with assms show ?thesis by (cases t) (simp_all add: admin_only_def http_delete_task_def)
next
  case (Job t)
  with assms show ?thesis by (cases t) (simp_all add: admin_only_def http_create_export_def)
qed (use assms in \<open>simp_all add: admin_only_def\<close>)

text \<open>C3. Whatever a plain member asks of a route of administrators (the audit log, roles, invitations,
  projects, labels, webhooks, archiving a task, exports), the answer is an error, forbidden, not found or
  too many requests, and neither the database nor the files nor the dispatch queue change.\<close>

theorem members_cannot_administer:
  assumes auth: "authenticate (cx_jwt x) (cx_env x) (cx_now x) req w = (Inr u, w)" and "au_role u = Member"
    and "admin_only r" and run: "serve x now_ms req (Protected r) w = (resp, w')"
  shows "rp_status resp \<in> {403, 404, 429} \<and> w_db w' = w_db w \<and> w_files w' = w_files w \<and>
    queue (w_redis w') = queue (w_redis w)"
proof -
  have q: "queue (w_redis v) = queue (w_redis w)" if "charged (cx_env x) (cx_now x) now_ms req u w = (d, v)" for d v
    using that by (auto simp: charged_def rate_limit_def Let_def split: prod.splits)
  from run [simplified] show ?thesis
  proof (cases rule: protected_cases)
    case (refused err)
    with auth show ?thesis by simp
  next
    case (limited u2 d)
    with auth q [of d w'] charged_frame [of "cx_env x" "cx_now x" now_ms req u w] show ?thesis by auto
  next
    case (served u2 d v a)
    with auth have u: "u2 = u" by simp
    from admin_handler_refuses [OF assms(2,3), of x req v] obtain err where
      h: "protected_handler x req u r v = (Inl err, v)" "error_status err \<in> {403, 404}" by blast
    with served(4) u have a: "a = error_response err" "w' = v" by (simp_all add: answer_def)
    with served(2,5) u q [of d v] charged_frame [of "cx_env x" "cx_now x" now_ms req u w] h(2) show ?thesis by auto
  qed
qed

section \<open>Concrete requests\<close>

definition demo_ctx :: "uuid \<Rightarrow> time \<Rightarrow> ctx" where
  "demo_ctx n now = \<lparr>cx_env = sample_env, cx_jwt = sample_jwt, cx_uri = (\<lambda>_. None), cx_http = demo_http, cx_now = now,
     cx_fresh = demo_fresh n, cx_id = n + 9, cx_ids = (\<lambda>k. n + 10 + k), cx_grid = (\<lambda>i k. n + 10 + k)\<rparr>"

definition demo_request :: inbound where
  "demo_request = \<lparr>in_path = ''/v1'', in_headers = (\<lambda>_. None)(''authorization'' := Some (''Bearer '' @ demo_token ''access'' 60),
     ''idempotency-key'' := Some ''k''), in_peer = Some ''10.0.0.1''\<rparr>"

definition demo_role_world :: "string \<Rightarrow> world" where
  "demo_role_world role = demo_world\<lparr>w_db := demo_db\<lparr>memberships := [demo_member 1 role]\<rparr>\<rparr>"

lemma demo_ctx_simps [simp]:
  "cx_env (demo_ctx n now) = sample_env" "cx_jwt (demo_ctx n now) = sample_jwt" "cx_now (demo_ctx n now) = now"
  "cx_id (demo_ctx n now) = n + 9" "cx_fresh (demo_ctx n now) = demo_fresh n" "cx_ids (demo_ctx n now) = (\<lambda>k. n + 10 + k)"
  by (simp_all add: demo_ctx_def)

lemma demo_authenticates:
  assumes "role_from_str text = Inr role"
  shows "authenticate sample_jwt sample_env 7 demo_request (demo_role_world text) =
    (Inr \<lparr>au_user_id = 1, au_tenant_id = 5, au_role = role\<rparr>, demo_role_world text)"
proof -
  have bearer: "bearer_token demo_request = Inr (demo_token ''access'' 60)" by (simp add: bearer_token_Inr demo_request_def)
  have dec: "decode_access_token sample_jwt sample_env 7 (demo_token ''access'' 60) = Inr (demo_claims ''access'' 60)"
    by (simp add: decode_access_token_def demo_token_decodes timestamp_def)
  have deny: "is_access_token_denied 7 jti (w_redis (demo_role_world text)) = (Inr False, w_redis (demo_role_world text))" for jti
    by (simp add: is_access_token_denied_def demo_role_world_def demo_world_def demo_simps redis_get_def live_entry_def
        empty_world_def empty_redis_def)
  have ids: "http_parse_uuid sample_env (tc_sub (demo_claims ''access'' 60)) l = Inr 1"
    "http_parse_uuid sample_env (tc_tenant_id (demo_claims ''access'' 60)) l = Inr 5" for l
    by (simp_all add: http_parse_uuid_def sample_env_def demo_claims_def unary_def)
  have "db_get_membership 1 5 (w_db (demo_role_world text)) = Some \<lparr>mr_tenant_id = 5, mr_tenant_name = ''T'',
      mr_user_id = 1, mr_role = text, mr_created_at = 0\<rparr>"
    by (simp add: db_get_membership_def select_where_def join_tenant_def demo_role_world_def demo_world_def demo_simps
        demo_member_def)
  then show ?thesis
    by (simp add: authenticate_def bearer dec ids deny then_do_def lift_result_def assms ret_def del: One_nat_def)
qed

lemma demo_admitted: "\<exists>d v. charged sample_env 7 0 demo_request u (demo_role_world text) = (d, v) \<and> rd_allowed d"
  by (simp add: charged_def rate_limit_def demo_role_world_def demo_world_def demo_simps redis_get_def live_entry_def
      empty_world_def empty_redis_def rate_limit_call_def rate_script_def refilled_def sample_env_def default_cli_def Let_def)

lemma demo_dashboard_ok:
  "rp_status (fst (serve (demo_ctx 70 7) 0 demo_request (Protected (Own Dashboard)) (demo_role_world ''member''))) = 200"
proof -
  let ?w = "demo_role_world ''member''" and ?u = "\<lparr>au_user_id = 1, au_tenant_id = 5, au_role = Member\<rparr>"
  obtain resp w' where run: "serve (demo_ctx 70 7) 0 demo_request (Protected (Own Dashboard)) ?w = (resp, w')" by fastforce
  have auth: "authenticate sample_jwt sample_env 7 demo_request ?w = (Inr ?u, ?w)"
    by (rule demo_authenticates) (simp add: role_from_str_def)
  from run [simplified] have "rp_status resp = 200"
  proof (cases rule: protected_cases)
    case (served u d v r)
    then show ?thesis
      by (auto simp: answer_def http_dashboard_summary_def svc_dashboard_summary_def json_ok_def json_reply_def ret_def)
  qed (use auth demo_admitted [of ?u "''member''"] in auto)
  with run show ?thesis by simp
qed

theorem protected_needs_session_witness:
  "\<exists>resp w' c. serve (demo_ctx 70 7) 0 demo_request (Protected (Own Dashboard)) (demo_role_world ''member'') = (resp, w') \<and>
     rp_status resp = 200 \<and> decode_access_token sample_jwt sample_env 7 (demo_token ''access'' 60) = Inr c"
proof -
  obtain resp w' where run: "serve (demo_ctx 70 7) 0 demo_request (Protected (Own Dashboard)) (demo_role_world ''member'') = (resp, w')"
    by fastforce
  with demo_dashboard_ok have "rp_status resp = 200" by simp
  with protected_needs_session [OF run] run show ?thesis by (auto simp: demo_request_def)
qed

theorem members_cannot_administer_witness:
  "\<exists>resp w'. serve (demo_ctx 70 7) 0 demo_request (Protected (Task (DeleteTask 10))) (demo_role_world ''member'') = (resp, w') \<and>
     rp_status resp \<in> {403, 404, 429} \<and> w_db w' = w_db (demo_role_world ''member'')"
proof -
  let ?w = "demo_role_world ''member''" and ?u = "\<lparr>au_user_id = 1, au_tenant_id = 5, au_role = Member\<rparr>"
  obtain resp w' where run: "serve (demo_ctx 70 7) 0 demo_request (Protected (Task (DeleteTask 10))) ?w = (resp, w')" by fastforce
  have "authenticate (cx_jwt (demo_ctx 70 7)) (cx_env (demo_ctx 70 7)) (cx_now (demo_ctx 70 7)) demo_request ?w = (Inr ?u, ?w)"
    unfolding demo_ctx_simps by (rule demo_authenticates) (simp add: role_from_str_def)
  from members_cannot_administer [OF this _ _ run] run show ?thesis by (simp add: admin_only_def)
qed

end
