(* ===== verification/Idempotency.thy ===== *)
theory Idempotency
  imports AccessControl
begin

text \<open>
  Idempotency keys: a creating request that is repeated with its key is answered with the first
  response and creates nothing. The ledger of a key is an interface, with its laws, that
  \<open>src/cache.rs\<close> provides; that a key's work is finished at most once follows from the laws alone.
\<close>

section \<open>The ledger of a key\<close>

text \<open>
  \<open>entry\<close> is what the ledger shows: nothing, a claim, or a stored response. Times are those of one
  window, in which no entry expires.
\<close>

locale ledger =
  fixes ok :: "'s \<Rightarrow> bool" and window :: "'t \<Rightarrow> bool" and entry :: "'s \<Rightarrow> 'r option option"
    and claim :: "'t \<Rightarrow> 's \<Rightarrow> bool \<times> 's" and store :: "'t \<Rightarrow> 'r \<Rightarrow> 's \<Rightarrow> 's" and release :: "'s \<Rightarrow> 's"
  assumes claim_free: "ok s \<Longrightarrow> window t \<Longrightarrow> entry s = None \<Longrightarrow>
      \<exists>s'. claim t s = (True, s') \<and> ok s' \<and> entry s' = Some None"
    and claim_taken: "ok s \<Longrightarrow> window t \<Longrightarrow> entry s \<noteq> None \<Longrightarrow> claim t s = (False, s)"
    and store_entry: "ok s \<Longrightarrow> window t \<Longrightarrow> ok (store t r s) \<and> entry (store t r s) = Some (Some r)"
    and release_entry: "ok s \<Longrightarrow> ok (release s) \<and> entry (release s) = None"
begin

text \<open>
  Requests with the key, in any interleaving: each claims first; one whose claim succeeds works, and then
  stores its response or gives the key up. The state counts the requests at work and those that finished.
\<close>

inductive ledger_step :: "'s \<times> nat \<times> nat \<Rightarrow> 's \<times> nat \<times> nat \<Rightarrow> bool" where
  claimed: "window t \<Longrightarrow> claim t s = (True, s') \<Longrightarrow> ledger_step (s, working, finished) (s', Suc working, finished)"
| refused: "window t \<Longrightarrow> claim t s = (False, s') \<Longrightarrow> ledger_step (s, working, finished) (s', working, finished)"
| stored: "window t \<Longrightarrow> ledger_step (s, Suc working, finished) (store t r s, working, Suc finished)"
| released: "ledger_step (s, Suc working, finished) (release s, working, finished)"

definition ledger_inv :: "'s \<times> nat \<times> nat \<Rightarrow> bool" where
  "ledger_inv c \<longleftrightarrow>
     (case c of (s, working, finished) \<Rightarrow> ok s \<and>
        (case entry s of
           None \<Rightarrow> working = 0 \<and> finished = 0
         | Some None \<Rightarrow> working = 1 \<and> finished = 0
         | Some (Some r) \<Rightarrow> working = 0 \<and> finished = 1))"

lemma ledger_step_inv: "ledger_step c c' \<Longrightarrow> ledger_inv c \<Longrightarrow> ledger_inv c'"
proof (induction rule: ledger_step.induct)
  case (claimed t s s' working finished)
  have ok: "ok s" using claimed.prems by (simp add: ledger_inv_def)
  then have "entry s = None" using claim_taken [OF ok claimed.hyps(1)] claimed.hyps(2) by fastforce
  with claim_free [OF ok claimed.hyps(1)] claimed.hyps(2) claimed.prems show ?case by (auto simp: ledger_inv_def)
next
  case (refused t s s' working finished)
  have ok: "ok s" using refused.prems by (simp add: ledger_inv_def)
  then have "entry s \<noteq> None" using claim_free [OF ok refused.hyps(1)] refused.hyps(2) by fastforce
  with claim_taken [OF ok refused.hyps(1)] refused.hyps(2) refused.prems show ?case by simp
next
  case (stored t s working finished r)
  have ok: "ok s" using stored.prems by (simp add: ledger_inv_def)
  with stored.prems store_entry [OF ok stored.hyps, of r] show ?case
    by (auto simp: ledger_inv_def split: option.splits)
next
  case (released s working finished)
  have ok: "ok s" using released.prems by (simp add: ledger_inv_def)
  with released.prems release_entry [OF ok] show ?case by (auto simp: ledger_inv_def split: option.splits)
qed

lemma finished_at_most_once:
  assumes "ok s" and "entry s = None" and "ledger_step\<^sup>*\<^sup>* (s, 0, 0) (s', working, finished)"
  shows "working + finished \<le> 1 \<and> (finished = 1 \<longleftrightarrow> (\<exists>r. entry s' = Some (Some r)))"
proof -
  have "ledger_inv c \<Longrightarrow> ledger_inv c'" if "ledger_step\<^sup>*\<^sup>* c c'" for c c'
    using that by induction (auto intro: ledger_step_inv)
  moreover have "ledger_inv (s, 0, 0)" using assms(1,2) by (simp add: ledger_inv_def)
  ultimately have "ledger_inv (s', working, finished)" using assms(3) by blast
  then show ?thesis by (auto simp: ledger_inv_def split: option.splits)
qed

end

section \<open>Redis keeps the ledger\<close>

definition key_entry :: "redis_key \<Rightarrow> redis \<Rightarrow> stored_response option option" where
  "key_entry k r =
     (case kv r k of None \<Rightarrow> None | Some (RStored s, _) \<Rightarrow> Some (Some s) | Some _ \<Rightarrow> Some None)"

definition key_lives :: "redis_key \<Rightarrow> time \<Rightarrow> redis \<Rightarrow> bool" where
  "key_lives k until r \<longleftrightarrow> (case kv r k of None \<Rightarrow> True | Some (_, None) \<Rightarrow> True | Some (_, Some x) \<Rightarrow> until \<le> x)"

definition claim_step :: "redis_key \<Rightarrow> nat \<Rightarrow> time \<Rightarrow> redis \<Rightarrow> bool \<times> redis" where
  "claim_step k ttl now r = (case claim_idempotency_key now k ttl r of (Inr b, r') \<Rightarrow> (b, r') | (Inl _, r') \<Rightarrow> (False, r'))"

definition store_step :: "redis_key \<Rightarrow> nat \<Rightarrow> time \<Rightarrow> stored_response \<Rightarrow> redis \<Rightarrow> redis" where
  "store_step k ttl now s r = snd (store_idempotency_response now k s ttl r)"

definition release_step :: "redis_key \<Rightarrow> redis \<Rightarrow> redis" where
  "release_step k r = snd (delete_key k r)"

lemma redis_get_lives:
  "key_lives k until r \<Longrightarrow> now < until \<Longrightarrow> redis_get now k r = map_option fst (kv r k)"
  by (auto simp: key_lives_def redis_get_def live_entry_def split: option.splits prod.splits)

interpretation key_ledger: ledger "key_lives k until" "\<lambda>t. t < until \<and> until \<le> t + seconds (int ttl)" "key_entry k"
  "claim_step k ttl" "store_step k ttl" "release_step k" for k until ttl
proof (unfold_locales, goal_cases)
  case (1 s t)
  then have "redis_get t k s = None" by (auto simp: redis_get_lives key_entry_def split: option.splits prod.splits redis_value.splits)
  moreover have "ttl \<noteq> 0" using 1 by (auto simp: seconds_def)
  ultimately show ?case using 1
    by (auto simp: claim_step_def claim_idempotency_key_def key_lives_def key_entry_def redis_put_def)
next
  case (2 s t)
  then have "redis_get t k s \<noteq> None" by (auto simp: redis_get_lives key_entry_def split: option.splits)
  then show ?case by (auto simp: claim_step_def claim_idempotency_key_def)
next
  case (3 s t r)
  then have "ttl \<noteq> 0" by (auto simp: seconds_def)
  with 3 show ?case
    by (auto simp: store_step_def store_idempotency_response_def set_json_def key_lives_def key_entry_def redis_put_def)
next
  case (4 s)
  then show ?case by (simp add: release_step_def delete_key_def redis_del_def key_lives_def key_entry_def)
qed

text \<open>
  The operations of \<open>cache.rs\<close> on a key, by any number of requests, at times from which the key lives until
  \<open>until\<close>: the counts are of the requests that hold the claim and of those that stored a response.
\<close>

inductive key_step :: "redis_key \<Rightarrow> nat \<Rightarrow> time \<Rightarrow> redis \<times> nat \<times> nat \<Rightarrow> redis \<times> nat \<times> nat \<Rightarrow> bool"
  for k ttl until where
  claimed: "t < until \<Longrightarrow> until \<le> t + seconds (int ttl) \<Longrightarrow> claim_idempotency_key t k ttl r = (Inr True, r') \<Longrightarrow>
     key_step k ttl until (r, working, finished) (r', Suc working, finished)"
| refused: "t < until \<Longrightarrow> until \<le> t + seconds (int ttl) \<Longrightarrow> claim_idempotency_key t k ttl r = (Inr False, r') \<Longrightarrow>
     key_step k ttl until (r, working, finished) (r', working, finished)"
| stored: "t < until \<Longrightarrow> until \<le> t + seconds (int ttl) \<Longrightarrow> store_idempotency_response t k s ttl r = (Inr (), r') \<Longrightarrow>
     key_step k ttl until (r, Suc working, finished) (r', working, Suc finished)"
| released: "delete_key k r = (Inr (), r') \<Longrightarrow>
     key_step k ttl until (r, Suc working, finished) (r', working, finished)"

lemma key_step_ledger: "key_step k ttl until c c' \<Longrightarrow> key_ledger.ledger_step until ttl k c c'"
proof (induction rule: key_step.induct)
  case (claimed t r r' working finished)
  then show ?case by (intro key_ledger.ledger_step.claimed [of t]) (simp_all add: claim_step_def)
next
  case (refused t r r' working finished)
  then show ?case by (intro key_ledger.ledger_step.refused [of t]) (simp_all add: claim_step_def)
next
  case (stored t s r r' working finished)
  then have "r' = store_step k ttl t s r" by (simp add: store_step_def)
  with key_ledger.ledger_step.stored [of t until ttl k r working finished s] stored show ?case by simp
next
  case (released r r' working finished)
  then have "r' = release_step k r" by (simp add: release_step_def)
  then show ?case by (auto intro: key_ledger.ledger_step.released)
qed

text \<open>C30. However many requests carry the same idempotency key, and however their steps interleave within
  the life of the key, at most one of them is at work at a time, at most one ever finishes, and the key
  holds a response exactly when one has.\<close>

theorem key_finishes_once:
  assumes "kv r k = None" and steps: "(key_step k ttl until)\<^sup>*\<^sup>* (r, 0, 0) (r', working, finished)"
  shows "working + finished \<le> 1 \<and> (finished = 1 \<longleftrightarrow> (\<exists>s x. kv r' k = Some (RStored s, x)))"
proof -
  have "(key_ledger.ledger_step until ttl k)\<^sup>*\<^sup>* (r, 0, 0) (r', working, finished)"
    using steps by (rule mono_rtranclp [rule_format, rotated]) (rule key_step_ledger)
  moreover have "key_lives k until r" "key_entry k r = None"
    using assms(1) by (simp_all add: key_lives_def key_entry_def)
  ultimately have "working + finished \<le> 1 \<and> (finished = 1 \<longleftrightarrow> (\<exists>s. key_entry k r' = Some (Some s)))"
    using key_ledger.finished_at_most_once by blast
  moreover have "(\<exists>s. key_entry k r' = Some (Some s)) \<longleftrightarrow> (\<exists>s x. kv r' k = Some (RStored s, x))"
    by (auto simp: key_entry_def split: option.splits prod.splits redis_value.splits)
  ultimately show ?thesis by simp
qed

theorem key_finishes_once_witness:
  "\<exists>r1 r2. claim_idempotency_key 5 (KIdempotency 1 ''tasks:create'' ''k'') 60 empty_redis = (Inr True, r1) \<and>
     claim_idempotency_key 6 (KIdempotency 1 ''tasks:create'' ''k'') 60 r1 = (Inr False, r1) \<and>
     store_idempotency_response 7 (KIdempotency 1 ''tasks:create'' ''k'') \<lparr>sr_status = 201, sr_body = JNull\<rparr> 60 r1 = (Inr (), r2) \<and>
     (\<exists>s x. kv r2 (KIdempotency 1 ''tasks:create'' ''k'') = Some (RStored s, x))"
proof -
  let ?k = "KIdempotency 1 ''tasks:create'' ''k''" and ?s = "\<lparr>sr_status = 201, sr_body = JNull\<rparr>"
  obtain r1 where c: "claim_idempotency_key 5 ?k 60 empty_redis = (Inr True, r1)"
    "claim_idempotency_key 6 ?k 60 r1 = (Inr False, r1)"
    by (simp add: claim_idempotency_key_def redis_get_def live_entry_def empty_redis_def redis_put_def seconds_def)
  obtain r2 where s: "store_idempotency_response 7 ?k ?s 60 r1 = (Inr (), r2)"
    by (simp add: store_idempotency_response_def set_json_def)
  have "(key_step ?k 60 60000000)\<^sup>*\<^sup>* (empty_redis, 0, 0) (r2, 0, Suc 0)"
    using key_step.claimed [OF _ _ c(1), of 60000000 0 0] key_step.refused [OF _ _ c(2), of 60000000 "Suc 0" 0]
      key_step.stored [OF _ _ s, of 60000000 0 0]
    by (auto simp: seconds_def intro: rtranclp.rtrancl_into_rtrancl)
  from key_finishes_once [OF _ this] c s show ?thesis by (simp add: empty_redis_def)
qed

section \<open>A repeated request\<close>

lemma claim_or_replay_ready:
  assumes "redis_get now k (w_redis w) = Some (RStored s)" and "100 \<le> sr_status s" and "sr_status s < 1000"
  shows "claim_or_replay e now k w = (Inr (Some (sr_status s, sr_body s)), w)"
  using assms by (simp add: claim_or_replay_def replay_idempotent_def then_do_def cache_run_def idempotency_state_def ret_def)

lemma claim_or_replay_pending:
  assumes "redis_get now k (w_redis w) = Some (RText ''__pending__'')"
  shows "claim_or_replay e now k w = (Inl (Conflict ''request with this idempotency key is still in progress''), w)"
  using assms by (simp add: claim_or_replay_def replay_idempotent_def then_do_def cache_run_def idempotency_state_def
      claim_idempotency_key_def ret_def fail_def)

lemma claim_or_replay_free:
  assumes "redis_get now k (w_redis w) = None" and "idempotency_ttl (cfg e) \<noteq> 0"
  shows "claim_or_replay e now k w = (Inr None, w\<lparr>w_redis := redis_put k (RText ''__pending__'')
    (Some (now + seconds (int (idempotency_ttl (cfg e))))) (w_redis w)\<rparr>)"
  using assms by (simp add: claim_or_replay_def replay_idempotent_def then_do_def cache_run_def idempotency_state_def
      claim_idempotency_key_def ret_def)

lemma store_outcome_Inr:
  assumes "store_outcome e now k status to_body act w = (Inr (st, v), w')"
  shows "st = status \<and> kv (w_redis w') k = Some (RStored \<lparr>sr_status = status, sr_body = v\<rparr>,
    Some (now + seconds (int (idempotency_ttl (cfg e)))))"
proof -
  obtain outcome w1 where "act w = (outcome, w1)" by (cases "act w")
  with assms show ?thesis
    by (auto simp: store_outcome_def then_do_Inr lift_result_def cache_run_eq store_idempotency_response_def set_json_def
        fail_def ret_def redis_put_def split: sum.splits if_splits)
qed

lemma idempotent_retry:
  assumes run: "idempotent e now k checked status to_body act w = (Inr resp, w1)"
    and free: "redis_get now k (w_redis w) = None" and status: "100 \<le> status" "status < 1000"
    and same: "kv (w_redis w2) k = kv (w_redis w1) k" and soon: "later < now + seconds (int (idempotency_ttl (cfg e)))"
  shows "idempotent e later k checked2 status2 to_body2 act2 w2 = (Inr resp, w2)"
proof -
  from free obtain w0 where "claim_or_replay e now k w = (Inr None, w0)"
    by (simp add: claim_or_replay_def replay_idempotent_def then_do_def cache_run_def idempotency_state_def
        claim_idempotency_key_def ret_def)
  with run obtain input v r where "store_outcome e now k status to_body (act input) v = (Inr r, w1)" and resp: "resp = created_reply r"
    by (auto simp: idempotent_def then_do_Inr lift_result_def ret_def)
  with store_outcome_Inr [of e now k status to_body "act input" v "fst r" "snd r" w1]
  have r: "fst r = status" and kv: "kv (w_redis w1) k = Some (RStored \<lparr>sr_status = status, sr_body = snd r\<rparr>,
      Some (now + seconds (int (idempotency_ttl (cfg e)))))" by simp_all
  then have "redis_get later k (w_redis w2) = Some (RStored \<lparr>sr_status = status, sr_body = snd r\<rparr>)"
    using same soon by (simp add: redis_get_def live_entry_def)
  from claim_or_replay_ready [OF this, of e] status r resp show ?thesis
    by (simp add: idempotent_def created_reply_def ret_def)
qed

text \<open>The key of a creating request, from its route and its header.\<close>

definition creating_key :: "auth_user \<Rightarrow> inbound \<Rightarrow> protected_route \<Rightarrow> redis_key option" where
  "creating_key u req r =
     (case required_idempotency_key req of
        Inl _ \<Rightarrow> None
      | Inr key \<Rightarrow>
          (case r of
             Tenant (CreateInvitation t _) \<Rightarrow> Some (KIdempotency t ''invitations:create'' key)
           | Project (CreateProject _) \<Rightarrow> Some (KIdempotency (au_tenant_id u) ''projects:create'' key)
           | Label (CreateLabel _) \<Rightarrow> Some (KIdempotency (au_tenant_id u) ''labels:create'' key)
           | Webhook (CreateWebhook _) \<Rightarrow> Some (KIdempotency (au_tenant_id u) ''webhooks:create'' key)
           | Note (CreateComment _ _) \<Rightarrow> Some (KIdempotency (au_tenant_id u) ''comments:create'' key)
           | Note (UploadAttachment _ _ _) \<Rightarrow> Some (KIdempotency (au_tenant_id u) ''attachments:create'' key)
           | Task (CreateTask _) \<Rightarrow> Some (KIdempotency (au_tenant_id u) ''tasks:create'' key)
           | Job (CreateExport _) \<Rightarrow> Some (KIdempotency (au_tenant_id u) ''exports:create'' key)
           | _ \<Rightarrow> None))"

lemma with_key_eq: "required_idempotency_key req = Inr key \<Longrightarrow> with_key u route req f = f (KIdempotency (au_tenant_id u) route key)"
  by (rule ext) (simp add: with_key_def then_do_def lift_result_def)

lemma guard_Inr: "guard r m w = (Inr y, w') \<longleftrightarrow> r = Inr () \<and> m w = (Inr y, w')"
  by (cases r) (auto simp: guard_def then_do_def lift_result_def)

lemma lift_then: "then_do (lift_result r) f w = (Inr y, w') \<longleftrightarrow> (\<exists>v. r = Inr v \<and> f v w = (Inr y, w'))"
  by (cases r) (auto simp: then_do_def lift_result_def)

lemmas creating_defs = http_create_invitation_def http_create_project_def http_create_label_def http_create_webhook_def
  http_create_task_comment_def http_upload_task_attachment_def http_create_task_def http_create_export_def check_upload_def

lemma creating_cases:
  assumes "creating_key u req r = Some k"
  obtains key where "required_idempotency_key req = Inr key"
    "(\<exists>t p. r = Tenant (CreateInvitation t p) \<and> k = KIdempotency t ''invitations:create'' key) \<or>
     (\<exists>p. r = Project (CreateProject p) \<and> k = KIdempotency (au_tenant_id u) ''projects:create'' key) \<or>
     (\<exists>p. r = Label (CreateLabel p) \<and> k = KIdempotency (au_tenant_id u) ''labels:create'' key) \<or>
     (\<exists>p. r = Webhook (CreateWebhook p) \<and> k = KIdempotency (au_tenant_id u) ''webhooks:create'' key) \<or>
     (\<exists>t b. r = Note (CreateComment t b) \<and> k = KIdempotency (au_tenant_id u) ''comments:create'' key) \<or>
     (\<exists>t n b. r = Note (UploadAttachment t n b) \<and> k = KIdempotency (au_tenant_id u) ''attachments:create'' key) \<or>
     (\<exists>p. r = Task (CreateTask p) \<and> k = KIdempotency (au_tenant_id u) ''tasks:create'' key) \<or>
     (\<exists>p. r = Job (CreateExport p) \<and> k = KIdempotency (au_tenant_id u) ''exports:create'' key)"
  using assms unfolding creating_key_def
  by (auto split: sum.splits protected_route.splits tenant_route.splits project_route.splits label_route.splits
      webhook_route.splits note_route.splits task_route.splits job_route.splits)

text \<open>C31. A creating request that succeeded, when it is sent again by the same user with the same key
  within the life of the key, is answered with the same status and the same body, whatever identifiers
  and times the second call draws, and changes nothing: what it creates is created once.\<close>

theorem retry_replays:
  assumes "creating_key u req r = Some k" and run: "protected_handler x req u r w = (Inr resp, w1)"
    and free: "redis_get (cx_now x) k (w_redis w) = None" and e: "cx_env y = cx_env x"
    and same: "kv (w_redis w2) k = kv (w_redis w1) k"
    and soon: "cx_now y < cx_now x + seconds (int (idempotency_ttl (cfg (cx_env x))))"
  shows "protected_handler y req u r w2 = (Inr resp, w2)"
proof -
  from assms(1) obtain key where "required_idempotency_key req = Inr key" and route:
    "(\<exists>t p. r = Tenant (CreateInvitation t p) \<and> k = KIdempotency t ''invitations:create'' key) \<or>
     (\<exists>p. r = Project (CreateProject p) \<and> k = KIdempotency (au_tenant_id u) ''projects:create'' key) \<or>
     (\<exists>p. r = Label (CreateLabel p) \<and> k = KIdempotency (au_tenant_id u) ''labels:create'' key) \<or>
     (\<exists>p. r = Webhook (CreateWebhook p) \<and> k = KIdempotency (au_tenant_id u) ''webhooks:create'' key) \<or>
     (\<exists>t b. r = Note (CreateComment t b) \<and> k = KIdempotency (au_tenant_id u) ''comments:create'' key) \<or>
     (\<exists>t n b. r = Note (UploadAttachment t n b) \<and> k = KIdempotency (au_tenant_id u) ''attachments:create'' key) \<or>
     (\<exists>p. r = Task (CreateTask p) \<and> k = KIdempotency (au_tenant_id u) ''tasks:create'' key) \<or>
     (\<exists>p. r = Job (CreateExport p) \<and> k = KIdempotency (au_tenant_id u) ''exports:create'' key)"
    by (rule creating_cases)
  with run show ?thesis
    by (elim disjE exE conjE)
      (clarsimp simp: creating_defs guard_Inr lift_then with_key_eq e split: if_splits,
        rule idempotent_retry, assumption, use free in simp, simp, simp, use same in simp, use soon in simp)+
qed

lemma idempotent_runs:
  assumes "redis_get now k (w_redis w) = None" and "idempotency_ttl (cfg e) \<noteq> 0"
    and "act i (w\<lparr>w_redis := redis_put k (RText ''__pending__'') (Some (now + seconds (int (idempotency_ttl (cfg e)))))
      (w_redis w)\<rparr>) = (Inr a, v)" and "to_body a = Inr body"
  shows "\<exists>w'. idempotent e now k (Inr i) status to_body act w = (Inr (json_reply status body), w')"
  using assms by (simp add: idempotent_def claim_or_replay_free lift_result_def store_outcome_def attempt_def
      then_do_def store_idempotency_response_def set_json_def cache_run_def created_reply_def ret_def)

definition demo_owner :: auth_user where "demo_owner = \<lparr>au_user_id = 1, au_tenant_id = 5, au_role = Owner\<rparr>"

abbreviation demo_new_project :: protected_route where
  "demo_new_project \<equiv> Project (CreateProject \<lparr>pp_name = ''P'', pp_description = None\<rparr>)"

lemma demo_key: "required_idempotency_key demo_request = Inr ''k''"
proof -
  have "trim ''k'' = ''k''" by code_simp
  then show ?thesis by (simp add: required_idempotency_key_def demo_request_def)
qed

lemma demo_ttl: "idempotency_ttl (cfg sample_env) = 3600"
  by (simp add: idempotency_ttl_def sample_env_def default_cli_def)

lemma demo_role_simps [simp]:
  "redis_get t k (w_redis (demo_role_world role)) = None" "kv (w_redis (demo_role_world role)) k = None"
  "projects (w_db (demo_role_world role)) = []"
  "tenant_exists (w_db (demo_role_world role)) 5" "user_exists (w_db (demo_role_world role)) 1"
  by (simp_all add: demo_role_world_def demo_world_def empty_world_def empty_redis_def redis_get_def live_entry_def
      demo_simps tenant_exists_def user_exists_def row_exists_def)

lemma demo_project_created:
  "\<exists>resp w1. protected_handler (demo_ctx 70 7) demo_request demo_owner demo_new_project (demo_role_world ''owner'') = (Inr resp, w1)"
proof -
  let ?w = "demo_role_world ''owner''" and ?in = "\<lparr>cp_name = ''P'', cp_description = None\<rparr>"
  have valid: "validate_create_project ?in = Inr ?in" by code_simp
  have "\<exists>a v. svc_create_project 79 74 7 5 1 ?in (?w\<lparr>w_redis := redis_put (KIdempotency 5 ''projects:create'' ''k'')
      (RText ''__pending__'') (Some (7 + seconds (int (idempotency_ttl (cfg sample_env))))) (w_redis ?w)\<rparr>) = (Inr a, v)"
    by (simp add: svc_create_project_def db_create_project_def insert_row_fresh then_do_def db_run_def cache_run_def
        bump_tenant_cache_version_def logged_eq ret_def record_event_def Let_def del: One_nat_def)
  then obtain a v where act: "svc_create_project 79 74 7 5 1 ?in (?w\<lparr>w_redis := redis_put (KIdempotency 5 ''projects:create'' ''k'')
      (RText ''__pending__'') (Some (7 + seconds (int (idempotency_ttl (cfg sample_env))))) (w_redis ?w)\<rparr>) = (Inr a, v)" by blast
  have "\<exists>w'. idempotent sample_env 7 (KIdempotency 5 ''projects:create'' ''k'') (Inr ()) 201 (\<lambda>p. Inr (project_response_json p))
      (\<lambda>_. svc_create_project 79 74 7 5 1 ?in) ?w = (Inr (json_reply 201 (project_response_json a)), w')"
    by (rule idempotent_runs [where act = "\<lambda>_. svc_create_project 79 74 7 5 1 ?in", OF _ _ act]) (simp_all add: demo_ttl)
  then show ?thesis
    by (auto simp: http_create_project_def demo_owner_def ensure_admin_role_def valid with_key_eq [OF demo_key]
        lift_then demo_fresh_def simp del: One_nat_def)
qed

theorem retry_replays_witness:
  "\<exists>resp w1. protected_handler (demo_ctx 70 7) demo_request demo_owner demo_new_project (demo_role_world ''owner'') = (Inr resp, w1) \<and>
     protected_handler (demo_ctx 90 50) demo_request demo_owner demo_new_project w1 = (Inr resp, w1)"
proof -
  obtain resp w1 where run: "protected_handler (demo_ctx 70 7) demo_request demo_owner demo_new_project
      (demo_role_world ''owner'') = (Inr resp, w1)" using demo_project_created by blast
  have "creating_key demo_owner demo_request demo_new_project = Some (KIdempotency 5 ''projects:create'' ''k'')"
    by (simp add: creating_key_def demo_key demo_owner_def)
  from retry_replays [OF this run, of "demo_ctx 90 50" w1] run show ?thesis by (simp add: demo_ttl seconds_def)
qed

section \<open>A request that fails\<close>

lemma store_outcome_Inl:
  assumes "store_outcome e now k status (\<lambda>a. Inr (f a)) act w = (Inl err, w')" and "idempotency_ttl (cfg e) \<noteq> 0"
  shows "kv (w_redis w') k = None"
proof -
  obtain outcome w1 where a: "act w = (outcome, w1)" by (cases "act w")
  with assms show ?thesis
    by (cases outcome) (auto simp: store_outcome_def attempt_def then_do_def lift_result_def cache_run_def delete_key_def
        store_idempotency_response_def set_json_def fail_def ret_def redis_del_def)
qed

lemma idempotent_Inl:
  assumes run: "idempotent e now k (Inr i) status (\<lambda>a. Inr (f a)) act w = (Inl err, w1)"
    and free: "redis_get now k (w_redis w) = None" and ttl: "idempotency_ttl (cfg e) \<noteq> 0"
  shows "redis_get now k (w_redis w1) = None"
proof -
  from run have "\<exists>v. store_outcome e now k status (\<lambda>a. Inr (f a)) (act i) v = (Inl err, w1)"
    by (auto simp: idempotent_def claim_or_replay_free [OF free ttl] then_do_def lift_result_def ret_def
        split: prod.splits sum.splits)
  then have "kv (w_redis w1) k = None" using store_outcome_Inl [OF _ ttl] by blast
  then show ?thesis by (simp add: redis_get_def live_entry_def)
qed

lemma guard_Inl: "guard r m w = (Inl y, w') \<longleftrightarrow> r = Inl y \<and> w' = w \<or> r = Inr () \<and> m w = (Inl y, w')"
  by (cases r) (auto simp: guard_def then_do_def lift_result_def)

lemma lift_then_Inl:
  "then_do (lift_result r) f w = (Inl y, w') \<longleftrightarrow> r = Inl y \<and> w' = w \<or> (\<exists>v. r = Inr v \<and> f v w = (Inl y, w'))"
  by (cases r) (auto simp: then_do_def lift_result_def)


definition demo_stranger :: auth_user where "demo_stranger = \<lparr>au_user_id = 99, au_tenant_id = 5, au_role = Owner\<rparr>"

lemma demo_project_fails:
  "\<exists>err w1. protected_handler (demo_ctx 70 7) demo_request demo_stranger demo_new_project (demo_role_world ''owner'') = (Inl err, w1)"
proof -
  let ?w = "demo_role_world ''owner''" and ?in = "\<lparr>cp_name = ''P'', cp_description = None\<rparr>"
  have valid: "validate_create_project ?in = Inr ?in" by code_simp
  have "\<not> user_exists (w_db ?w) 99"
    by (simp add: demo_role_world_def demo_world_def demo_simps user_exists_def row_exists_def)
  then have act: "fst (svc_create_project 79 74 7 5 99 ?in (?w\<lparr>w_redis := r\<rparr>)) =
      Inl (from_sqlx ForeignKeyViolation)" for r
    by (simp add: svc_create_project_def db_create_project_def insert_row_fresh then_do_def db_run_def Let_def require_fk_def)
  show ?thesis
    using act [of "redis_put (KIdempotency 5 ''projects:create'' ''k'') (RText ''__pending__'')
      (Some (7 + seconds (int (idempotency_ttl (cfg sample_env))))) (w_redis ?w)"]
    by (auto simp: http_create_project_def demo_stranger_def ensure_admin_role_def valid with_key_eq [OF demo_key]
        guard_Inl lift_then_Inl demo_fresh_def idempotent_def claim_or_replay_free demo_ttl store_outcome_def attempt_def
        then_do_def cache_run_def delete_key_def fail_def lift_result_def split: prod.splits simp del: One_nat_def)
qed


section \<open>Where the keys fall short\<close>

text \<open>Creating a task claims the key before the body is validated, and the error of the validation leaves
  the claim: the corrected request is refused as in progress until the key expires.\<close>

lemma invalid_create_blocks_key:
  assumes bad: "create_task_input_of p = Inl err" and key: "required_idempotency_key req = Inr key"
    and free: "redis_get (cx_now x) (KIdempotency (au_tenant_id u) ''tasks:create'' key) (w_redis w) = None"
    and ttl: "idempotency_ttl (cfg (cx_env x)) \<noteq> 0"
  shows "\<exists>w1. http_create_task x u req p w = (Inl err, w1) \<and>
    (\<forall>y q. cx_now y < cx_now x + seconds (int (idempotency_ttl (cfg (cx_env x)))) \<longrightarrow>
       http_create_task y u req q w1 =
         (Inl (Conflict ''request with this idempotency key is still in progress''), w1))"
proof -
  let ?k = "KIdempotency (au_tenant_id u) ''tasks:create'' key"
  let ?w1 = "w\<lparr>w_redis := redis_put ?k (RText ''__pending__'')
    (Some (cx_now x + seconds (int (idempotency_ttl (cfg (cx_env x)))))) (w_redis w)\<rparr>"
  have may: "ensure_task_write_role (au_role u) = Inr ()" by (simp add: ensure_task_write_role_def split: membership_role.split)
  have "http_create_task x u req p w = (Inl err, ?w1)"
    by (simp add: http_create_task_def may with_key_eq [OF key] idempotent_def claim_or_replay_free [OF free ttl] bad
        lift_result_def)
  moreover have "http_create_task y u req q ?w1 = (Inl (Conflict ''request with this idempotency key is still in progress''), ?w1)"
    if "cx_now y < cx_now x + seconds (int (idempotency_ttl (cfg (cx_env x))))" for y q
    using that by (simp add: http_create_task_def may with_key_eq [OF key] idempotent_def claim_or_replay_pending)
  ultimately show ?thesis by blast
qed

text \<open>The key of a comment does not name its task: a comment on another task with a key that was used is
  not written, and its caller gets the comment of the first task.\<close>

lemma comment_key_ignores_task:
  assumes "http_create_task_comment x u task req b w = (Inr resp, w1)" and key: "required_idempotency_key req = Inr key"
    and free: "redis_get (cx_now x) (KIdempotency (au_tenant_id u) ''comments:create'' key) (w_redis w) = None"
    and soon: "cx_now y < cx_now x + seconds (int (idempotency_ttl (cfg (cx_env x))))" and e: "cx_env y = cx_env x"
    and valid: "validate_comment_body other = Inr text"
  shows "http_create_task_comment y u task2 req other w1 = (Inr resp, w1)"
proof -
  have may: "ensure_task_write_role (au_role u) = Inr ()" by (simp add: ensure_task_write_role_def split: membership_role.split)
  from assms(1) show ?thesis
    by (auto simp: http_create_task_comment_def may lift_then with_key_eq [OF key] valid e
        intro: idempotent_retry [OF _ free _ _ refl soon])
qed

end
