(* ===== verification/TenantIsolation.thy ===== *)
theory TenantIsolation
  imports RequestFrames Idempotency
begin

text \<open>
  Two facts about every request the API can serve, from the frames of its handlers: what changes for a
  tenant was asked for by a member of it, and it keeps the invariant of the task table and what the stores may hold.
\<close>

section \<open>Requests\<close>

lemma rate_limit_touches:
  "rate_limit now now_ms k cap refill cost r = (x, r') \<Longrightarrow> q \<noteq> k \<Longrightarrow> kv r' q = kv r q"
  by (auto simp: rate_limit_def Let_def redis_put_def split: prod.splits)

lemma public_cases:
  assumes "serve x now_ms req (Public p) w = (resp, w')"
  obtains d r where "rate_limit (cx_now x) now_ms (KAuthLimit (in_path req) (client_identifier req))
      (auth_rate_limit_capacity (cfg (cx_env x))) (auth_rate_limit_refill_per_sec (cfg (cx_env x))) 1 (w_redis w) = (Inr d, r)"
    and "w' = (if rd_allowed d then snd (answer (public_handler x req p) (w\<lparr>w_redis := r\<rparr>)) else w\<lparr>w_redis := r\<rparr>)"
proof -
  let ?k = "KAuthLimit (in_path req) (client_identifier req)"
  obtain d r where d: "rate_limit (cx_now x) now_ms ?k (auth_rate_limit_capacity (cfg (cx_env x)))
      (auth_rate_limit_refill_per_sec (cfg (cx_env x))) 1 (w_redis w) = (Inr d, r)"
    using rate_limit_answers by blast
  obtain q v where h: "answer (public_handler x req p) (w\<lparr>w_redis := r\<rparr>) = (q, v)" by fastforce
  from assms d h show ?thesis
    by (intro that [OF d]) (auto simp: auth_rate_limit_middleware_def limited_def answer_def run_next_def then_do_def ret_def
        simp del: One_nat_def split: if_splits sum.splits prod.splits)
qed

lemma handler_spares:
  "spares A t v (snd (answer (public_handler x req p) v))"
  "au_tenant_id u \<noteq> t \<Longrightarrow> checks A (cx_uri x) (cx_env x) \<Longrightarrow> spares A t v (snd (answer (protected_handler x req u q) v))"
  by (simp_all add: outside.answer_rule public_handler_keeps protected_handler_keeps)

lemma open_routes:
  "snd (serve x now_ms req Healthz w) = w" "snd (serve x now_ms req Readyz w) = w" "snd (serve x now_ms req (Metrics m) w) = w"
  by (simp_all add: http_healthz_def http_readyz_def http_metrics_def answer_def json_ok_def then_do_def ret_def fail_def
      lift_result_def split: option.split sum.split)

text \<open>The part of the frame that survives the rate limit: the buckets are charged.\<close>

definition leaves :: "(string \<Rightarrow> bool) \<Rightarrow> uuid \<Rightarrow> world \<Rightarrow> world \<Rightarrow> bool" where
  "leaves A t w w' \<longleftrightarrow> spares_db A t (w_db w) (w_db w') \<and> (\<forall>k. tenant_key t k \<longrightarrow> kv (w_redis w') k = kv (w_redis w) k) \<and>
     (stored_ok (w_redis w) \<longrightarrow> stored_ok (w_redis w'))"

lemma checks_any: "checks (\<lambda>_. True) uri e"
  by (simp add: checks_def)

lemma open_leaves:
  "serve x now_ms req r w = (resp, w') \<Longrightarrow> (\<forall>p. r \<noteq> Public p) \<Longrightarrow> (\<forall>p. r \<noteq> Protected p) \<Longrightarrow> leaves A t w w'"
  using open_routes [where x = x and now_ms = now_ms and req = req and w = w]
  by (cases r) (auto simp: leaves_def spares_db_def known_urls_same dest!: arg_cong [where f = snd] simp del: serve.simps)

lemma leaves_charge:
  assumes "rate_limit now now_ms k cap refill cost (w_redis w) = (z, r)" and "bucket_key k"
  shows "leaves A t w (w\<lparr>w_redis := r\<rparr>)" and "spares A t (w\<lparr>w_redis := r\<rparr>) w' \<Longrightarrow> leaves A t w w'"
proof -
  have kv: "kv r q = kv (w_redis w) q" if "\<not> bucket_key q" for q
    using rate_limit_touches [OF assms(1)] assms(2) that by metis
  have "\<forall>q. tenant_key t q \<longrightarrow> kv r q = kv (w_redis w) q" by (intro allI impI kv) (erule tenant_key.elims; simp)
  moreover have "stored_ok r = stored_ok (w_redis w)" by (simp add: stored_ok_def kv)
  ultimately show "leaves A t w (w\<lparr>w_redis := r\<rparr>)" "spares A t (w\<lparr>w_redis := r\<rparr>) w' \<Longrightarrow> leaves A t w w'"
    by (auto simp: leaves_def spares_def spares_db_def spares_redis_def known_urls_same)
qed

lemma charged_limit:
  assumes "charged e now now_ms req u w = (d, v)"
  obtains r where "rate_limit now now_ms (KAppLimit (au_tenant_id u) (au_user_id u) (client_identifier req))
      (app_rate_limit_capacity (cfg e)) (app_rate_limit_refill_per_sec (cfg e)) 1 (w_redis w) = (Inr d, r)" "v = w\<lparr>w_redis := r\<rparr>"
proof -
  obtain d2 r where "rate_limit now now_ms (KAppLimit (au_tenant_id u) (au_user_id u) (client_identifier req))
      (app_rate_limit_capacity (cfg e)) (app_rate_limit_refill_per_sec (cfg e)) 1 (w_redis w) = (Inr d2, r)"
    using rate_limit_answers by blast
  with assms that show ?thesis by (simp add: charged_def del: One_nat_def)
qed

lemma public_leaves: "serve x now_ms req (Public p) w = (resp, w') \<Longrightarrow> leaves A t w w'"
  by (erule public_cases) (use leaves_charge handler_spares(1) in \<open>auto split: if_splits\<close>)

lemma unprotected_leaves:
  assumes run: "serve x now_ms req r w = (resp, w')" and "\<And>p. r \<noteq> Protected p"
  shows "leaves A t w w'"
proof (cases r)
  case (Public p)
  with run show ?thesis by (simp only: public_leaves)
qed (use assms open_leaves [OF run] in auto)

lemma protected_leaves:
  assumes "serve x now_ms req (Protected p) w = (resp, w')"
    and other: "\<And>u. authenticate (cx_jwt x) (cx_env x) (cx_now x) req w = (Inr u, w) \<Longrightarrow> au_tenant_id u \<noteq> t"
    and checks: "checks A (cx_uri x) (cx_env x)"
  shows "leaves A t w w'"
  using assms(1) [simplified]
proof (cases rule: protected_cases)
  case (refused err)
  then show ?thesis by (simp add: leaves_def spares_db_def known_urls_same)
next
  case (limited u d)
  from limited(2) show ?thesis by (rule charged_limit) (auto dest: leaves_charge(1))
next
  case (served u d v r)
  from served(4) have "w' = snd (answer (protected_handler x req u p) v)" by simp
  with handler_spares(2) checks other [OF served(1)] have "spares A t v w'" by blast
  with served(2) show ?thesis by (elim charged_limit) (auto dest: leaves_charge(2))
qed

section \<open>Isolation\<close>

text \<open>C1. If serving a request changes the projects, tasks, task history, labels, comments, attachments,
  webhooks or jobs of a tenant, or an entry of its cache or of its idempotency records, then the request is
  one of a protected route, made with a valid access token of that tenant by a user who is a member of it
  at that moment. No request of another tenant, and no anonymous one, can touch them.\<close>

theorem changes_need_a_member:
  assumes run: "serve x now_ms req r w = (resp, w')"
    and change: "content t (w_db w') \<noteq> content t (w_db w) \<or>
      (\<exists>k. tenant_key t k \<and> kv (w_redis w') k \<noteq> kv (w_redis w) k)"
  shows "\<exists>p u m. r = Protected p \<and> authenticate (cx_jwt x) (cx_env x) (cx_now x) req w = (Inr u, w) \<and>
    m \<in> set (memberships (w_db w)) \<and> mb_user_id m = au_user_id u \<and> mb_tenant_id m = t \<and>
    role_from_str (mb_role m) = Inr (au_role u)"
proof -
  have no: "\<not> leaves (\<lambda>_. True) t w w'" using change by (auto simp: leaves_def spares_db_def)
  obtain p where p: "r = Protected p"
    using unprotected_leaves [OF run, of "\<lambda>_. True" t] no by auto
  with run protected_leaves [OF _ _ checks_any] no obtain u where
    u: "authenticate (cx_jwt x) (cx_env x) (cx_now x) req w = (Inr u, w)" "au_tenant_id u = t" by blast
  from u(1) obtain m where "m \<in> set (memberships (w_db w))" "mb_user_id m = au_user_id u" "mb_tenant_id m = au_tenant_id u"
    "role_from_str (mb_role m) = Inr (au_role u)" by (rule authenticate_Inr)
  with p u show ?thesis by blast
qed

lemma demo_get_task:
  assumes "w_db v = w_db (demo_role_world role)" and "\<And>k. tenant_key 5 k \<Longrightarrow> kv (w_redis v) k = None" and "au_tenant_id u = 5"
  shows "kv (w_redis (snd (protected_handler (demo_ctx 70 7) req u (Task (GetTask 10)) v))) (KTaskDetail 5 0 10) \<noteq> None"
proof -
  have r: "redis_get 7 k (w_redis v) = None" if "tenant_key 5 k" for k
    using assms(2) [OF that] by (simp add: redis_get_def live_entry_def)
  have t: "db_get_task 5 10 (w_db v) = Some (demo_task 10 5 ''open'' 3)"
    by (simp add: assms(1) demo_role_world_def demo_world_def demo_db_def db_get_task_def fetch_optional_def demo_task_def)
  have "wf_task (demo_task 10 5 ''open'' 3)" by (simp add: wf_task_def demo_task_def)
  then obtain q where "task_response (demo_task 10 5 ''open'' 3) = Inr q" using task_response_total by blast
  then show ?thesis
    by (simp add: http_get_task_def svc_get_task_cached_def assms(3) then_do_def tenant_cache_version_def get_json_def r
        svc_get_task_def t lift_result_def set_json_def cache_ttl_def sample_env_def default_cli_def json_ok_def ret_def
        cache_run_def redis_put_def)
qed

theorem changes_need_a_member_witness:
  "\<exists>resp w'. serve (demo_ctx 70 7) 0 demo_request (Protected (Task (GetTask 10))) (demo_role_world ''owner'') = (resp, w') \<and>
     kv (w_redis w') (KTaskDetail 5 0 10) \<noteq> None \<and> list_ex (\<lambda>m. mb_tenant_id m = 5) (memberships (w_db (demo_role_world ''owner'')))"
proof -
  let ?w = "demo_role_world ''owner''" and ?u = "\<lparr>au_user_id = 1, au_tenant_id = 5, au_role = Owner\<rparr>"
  obtain resp w' where run: "serve (demo_ctx 70 7) 0 demo_request (Protected (Task (GetTask 10))) ?w = (resp, w')" by fastforce
  have auth: "authenticate sample_jwt sample_env 7 demo_request ?w = (Inr ?u, ?w)"
    by (rule demo_authenticates) (simp add: role_from_str_def)
  from run [simplified] have kv: "kv (w_redis w') (KTaskDetail 5 0 10) \<noteq> None"
  proof (cases rule: protected_cases)
    case (served u d v q)
    with auth have u: "u = ?u" by simp
    from served(2) obtain r where r: "rate_limit 7 0 (KAppLimit (au_tenant_id u) (au_user_id u) (client_identifier demo_request))
        (app_rate_limit_capacity (cfg sample_env)) (app_rate_limit_refill_per_sec (cfg sample_env)) 1 (w_redis ?w) = (Inr d, r)"
      and v: "v = ?w\<lparr>w_redis := r\<rparr>" unfolding demo_ctx_simps by (rule charged_limit)
    have "kv (w_redis v) k = None" if "tenant_key 5 k" for k
    proof -
      from that have "k \<noteq> KAppLimit (au_tenant_id u) (au_user_id u) (client_identifier demo_request)" by auto
      with rate_limit_touches [OF r] v show ?thesis by simp
    qed
    from demo_get_task [OF _ this, of "''owner''" ?u demo_request] v served(4) u show ?thesis
      by (cases "protected_handler (demo_ctx 70 7) demo_request ?u (Task (GetTask 10)) v") (auto simp: answer_def split: sum.splits)
  qed (use auth demo_admitted [of ?u "''owner''"] in auto)
  then have "\<exists>k. tenant_key 5 k \<and> kv (w_redis w') k \<noteq> kv (w_redis ?w) k" by (intro exI [of _ "KTaskDetail 5 0 10"]) simp
  with changes_need_a_member [OF run, of 5] run kv show ?thesis by (auto simp: list_ex_iff)
qed

section \<open>The task table\<close>

text \<open>A run of the API: requests served one after another, each with its context and clocks.\<close>

type_synonym call = "ctx \<times> int \<times> inbound \<times> request_route"

definition serve_call :: "call \<Rightarrow> world \<Rightarrow> world" where
  "serve_call c w = (case c of (x, now_ms, req, r) \<Rightarrow> snd (serve x now_ms req r w))"

primrec serve_all :: "call list \<Rightarrow> world \<Rightarrow> world" where
  "serve_all [] w = w"
| "serve_all (c # cs) w = serve_all cs (serve_call c w)"

text \<open>Every request leaves some tenant alone, whoever makes it.\<close>

lemma serve_leaves:
  assumes "checks A (cx_uri (fst c)) (cx_env (fst c))"
  shows "\<exists>t. leaves A t w (serve_call c w)"
proof -
  obtain x now_ms req r where c: "c = (x, now_ms, req, r)" by (cases c)
  obtain resp w' where run: "serve x now_ms req r w = (resp, w')" by fastforce
  have "\<exists>t. leaves A t w w'"
  proof (cases "\<exists>p. r = Protected p")
    case True
    then obtain p where p: "r = Protected p" by blast
    obtain t where "\<And>u. authenticate (cx_jwt x) (cx_env x) (cx_now x) req w = (Inr u, w) \<Longrightarrow> au_tenant_id u \<noteq> t"
      by (cases "authenticate (cx_jwt x) (cx_env x) (cx_now x) req w", case_tac a) (auto, metis n_not_Suc_n)
    with run p protected_leaves assms c show ?thesis by fastforce
  next
    case False
    then show ?thesis using unprotected_leaves [OF run] by blast
  qed
  with run c show ?thesis by (simp add: serve_call_def)
qed

lemma serve_presentable: "presentable w \<Longrightarrow> presentable (serve_call c w)"
  using serve_leaves [where c = c and w = w, OF checks_any] by (auto simp: leaves_def spares_db_def presentable_def)

lemma serve_wf: "wf_tasks (w_db w) \<Longrightarrow> wf_tasks (w_db (serve_call c w))"
  using serve_leaves [where c = c and w = w, OF checks_any] by (auto simp: leaves_def spares_db_def)

end
