(* ===== verification/RateProperties.thy ===== *)
theory RateProperties
  imports TenantIsolation
begin

text \<open>
  How many requests the rate limit lets through: the token bucket of \<open>RateLimit\<close>, its Redis entry with
  its expiry, and the whole API around it, where other requests come between those of one caller.
\<close>

section \<open>The entry of a bucket\<close>

text \<open>The tokens a call at \<open>ms\<close> finds, and the shape of an entry written at the server's time \<open>s\<close>.\<close>

definition level :: "nat \<Rightarrow> nat \<Rightarrow> (redis_value \<times> time option) option \<Rightarrow> int \<Rightarrow> int" where
  "level cap refill e ms =
     refilled (int (cap * 1000)) (int refill) ms (case e of Some (RBucket tokens ts, _) \<Rightarrow> Some (tokens, ts) | _ \<Rightarrow> None)"

definition bucket_entry :: "nat \<Rightarrow> nat \<Rightarrow> (redis_value \<times> time option) option \<Rightarrow> bool" where
  "bucket_entry cap refill e \<longleftrightarrow> e = None \<or>
     (\<exists>tokens s. e = Some (RBucket tokens (s div 1000), Some (s + int (bucket_ttl_ms cap refill) * 1000)) \<and>
        0 \<le> tokens \<and> tokens \<le> int (cap * 1000))"

lemma level_le_cap: "level cap refill e ms \<le> int (cap * 1000)"
  by (auto simp: level_def refilled_def split: option.splits)

lemma level_later:
  assumes "ms \<le> ms2"
  shows "level cap refill e ms2 \<le> level cap refill e ms + (ms2 - ms) * int refill"
proof -
  have gain: "max 0 (ms2 - ts) * int refill \<le> max 0 (ms - ts) * int refill + (ms2 - ms) * int refill" for ts
  proof -
    have "max 0 (ms2 - ts) \<le> max 0 (ms - ts) + (ms2 - ms)" using assms by simp
    from mult_right_mono [OF this, of "int refill"] show ?thesis by (simp add: distrib_right)
  qed
  have "0 \<le> (ms2 - ms) * int refill" using assms by simp
  then have "min c (a + y) \<le> min c (a + x) + (ms2 - ms) * int refill" if "y \<le> x + (ms2 - ms) * int refill" for a x y c
    using that by linarith
  with gain \<open>0 \<le> _\<close> show ?thesis by (auto simp: level_def refilled_def split: option.split)
qed

text \<open>An entry that has expired counts like the one still there: the bucket would be full.\<close>

lemma level_read:
  assumes "bucket_entry cap refill (kv r k)" and "0 < refill" and "ms = now div 1000"
  shows "refilled (int (cap * 1000)) (int refill) ms
      (case redis_get now k r of Some (RBucket tokens ts) \<Rightarrow> Some (tokens, ts) | _ \<Rightarrow> None) = level cap refill (kv r k) ms"
proof (cases "kv r k")
  case None
  then show ?thesis by (simp add: redis_get_def live_entry_def level_def)
next
  case (Some p)
  with assms(1) obtain tokens s where e: "kv r k = Some (RBucket tokens (s div 1000), Some (s + int (bucket_ttl_ms cap refill) * 1000))"
    and t: "0 \<le> tokens" "tokens \<le> int (cap * 1000)" by (auto simp: bucket_entry_def)
  show ?thesis
  proof (cases "now < s + int (bucket_ttl_ms cap refill) * 1000")
    case True
    with e show ?thesis by (simp add: redis_get_def live_entry_def level_def)
  next
    case False
    then have "(s + int (bucket_ttl_ms cap refill) * 1000) div 1000 \<le> ms"
      unfolding assms(3) by (intro zdiv_mono1) simp_all
    then have "s div 1000 + int (bucket_ttl_ms cap refill) \<le> ms" by simp
    from expired_is_full [OF assms(2) _ this, of tokens] t e False show ?thesis
      by (simp add: redis_get_def live_entry_def level_def bucket_ok_def)
  qed
qed

lemma limit_step:
  assumes "bucket_entry cap refill (kv r k)" and "0 < refill" and "ms = now div 1000"
    and run: "rate_limit now ms k cap refill 1 r = (Inr d, r')"
  shows "bucket_entry cap refill (kv r' k)"
    and "level cap refill (kv r' k) ms = level cap refill (kv r k) ms - (if rd_allowed d then 1000 else 0)"
    and "rd_allowed d \<Longrightarrow> 1000 \<le> level cap refill (kv r k) ms"
proof -
  let ?L = "level cap refill (kv r k) ms"
  have pos: "0 \<le> ?L"
    using assms(1) by (auto simp: bucket_entry_def level_def refilled_def)
  have e: "kv r' k = Some (RBucket (?L - (if rd_allowed d then 1000 else 0)) ms, Some (now + int (bucket_ttl_ms cap refill) * 1000))"
    and a: "rd_allowed d = (1000 \<le> ?L)"
    using run level_read [OF assms(1-3)]
    by (auto simp: rate_limit_def rate_limit_call_def rate_script_def redis_put_def Let_def simp del: One_nat_def split: if_splits)
  show "rd_allowed d \<Longrightarrow> 1000 \<le> ?L" using a by simp
  show "bucket_entry cap refill (kv r' k)"
    unfolding e bucket_entry_def using a pos level_le_cap [of cap refill "kv r k" ms] assms(3) by auto
  show "level cap refill (kv r' k) ms = ?L - (if rd_allowed d then 1000 else 0)"
    unfolding e level_def [of _ _ "Some _"] using level_le_cap [of cap refill "kv r k" ms] a by (auto simp: refilled_def)
qed

section \<open>Calls of one caller\<close>

abbreviation call_ms :: "call \<Rightarrow> int" where "call_ms c \<equiv> cx_now (fst c) div 1000"

definition asks :: "string \<Rightarrow> string \<Rightarrow> call \<Rightarrow> bool" where
  "asks path client c =
     (case c of (x, now_ms, req, r) \<Rightarrow> in_path req = path \<and> client_identifier req = client \<and>
        (case r of Public _ \<Rightarrow> True | _ \<Rightarrow> False))"

definition let_through :: "string \<Rightarrow> string \<Rightarrow> call \<Rightarrow> world \<Rightarrow> bool" where
  "let_through path client c w =
     (case c of (x, now_ms, req, r) \<Rightarrow>
        (case rate_limit (cx_now x) now_ms (KAuthLimit path client) (auth_rate_limit_capacity (cfg (cx_env x)))
           (auth_rate_limit_refill_per_sec (cfg (cx_env x))) 1 (w_redis w) of
           (Inr d, _) \<Rightarrow> rd_allowed d | _ \<Rightarrow> False))"

primrec passed :: "string \<Rightarrow> string \<Rightarrow> call list \<Rightarrow> world \<Rightarrow> nat" where
  "passed path client [] w = 0"
| "passed path client (c # cs) w =
     (if asks path client c \<and> let_through path client c w then 1 else 0) + passed path client cs (serve_call c w)"

lemma spares_buckets: "spares A t v w \<Longrightarrow> bucket_key k \<Longrightarrow> kv (w_redis w) k = kv (w_redis v) k"
  by (simp add: spares_def spares_redis_def)

lemma other_calls:
  assumes "\<not> asks path client c"
  shows "kv (w_redis (serve_call c w)) (KAuthLimit path client) = kv (w_redis w) (KAuthLimit path client)"
proof -
  let ?k = "KAuthLimit path client"
  obtain x now_ms req r where c: "c = (x, now_ms, req, r)" by (cases c)
  obtain resp w' where run: "serve x now_ms req r w = (resp, w')" by fastforce
  have "kv (w_redis w') ?k = kv (w_redis w) ?k"
  proof (cases r)
    case (Public p)
    with assms c have k: "?k \<noteq> KAuthLimit (in_path req) (client_identifier req)" by (auto simp: asks_def)
    from run [unfolded Public] show ?thesis
      by (rule public_cases) (use rate_limit_touches [OF _ k] spares_buckets [OF handler_spares(1), of ?k] in
          \<open>auto split: if_splits\<close>)
  next
    case (Protected p)
    from run [unfolded Protected, simplified] show ?thesis
    proof (cases rule: protected_cases)
      case (limited u d)
      then show ?thesis by (elim charged_limit) (auto dest: rate_limit_touches [where q = ?k])
    next
      case (served u d v q)
      from served(4) have "w' = snd (answer (protected_handler x req u p) v)" by simp
      with handler_spares(2) [where u = u and t = "Suc (au_tenant_id u)", OF _ checks_any] have "kv (w_redis w') ?k = kv (w_redis v) ?k"
        by (intro spares_buckets) auto
      with served(2) show ?thesis by (elim charged_limit) (auto dest: rate_limit_touches [where q = ?k])
    qed simp
  qed (use run open_routes [where w = w and x = x and now_ms = now_ms and req = req] in
      \<open>auto dest!: arg_cong [where f = snd] simp del: serve.simps\<close>)
  with run c show ?thesis by (simp add: serve_call_def)
qed

lemma own_call:
  assumes "asks path client c" and "cx_env (fst c) = e" and "fst (snd c) = call_ms c"
  obtains d r where "rate_limit (cx_now (fst c)) (call_ms c) (KAuthLimit path client) (auth_rate_limit_capacity (cfg e))
      (auth_rate_limit_refill_per_sec (cfg e)) 1 (w_redis w) = (Inr d, r)"
    "let_through path client c w = rd_allowed d"
    "kv (w_redis (serve_call c w)) (KAuthLimit path client) = kv r (KAuthLimit path client)"
proof -
  obtain x req q where c: "c = (x, call_ms c, req, Public q)" and k: "in_path req = path" "client_identifier req = client"
    using assms(1,3) by (cases c) (auto simp: asks_def split: request_route.splits)
  then have x: "x = fst c" by (metis fst_conv)
  obtain resp w' where run: "serve x (call_ms c) req (Public q) w = (resp, w')" by fastforce
  then show ?thesis
  proof (rule public_cases)
    fix d r
    assume d: "rate_limit (cx_now x) (call_ms c) (KAuthLimit (in_path req) (client_identifier req))
        (auth_rate_limit_capacity (cfg (cx_env x))) (auth_rate_limit_refill_per_sec (cfg (cx_env x))) 1 (w_redis w) = (Inr d, r)"
      and w': "w' = (if rd_allowed d then snd (answer (public_handler x req q) (w\<lparr>w_redis := r\<rparr>)) else w\<lparr>w_redis := r\<rparr>)"
    have "kv (w_redis w') (KAuthLimit path client) = kv r (KAuthLimit path client)"
      unfolding w' using spares_buckets [OF handler_spares(1), of "KAuthLimit path client"] by simp
    moreover have "serve_call c w = w'" by (subst c) (simp only: serve_call_def prod.case run snd_conv)
    moreover have "let_through path client c w = rd_allowed d"
      by (subst c) (simp only: let_through_def prod.case k [symmetric] d sum.case)
    ultimately show ?thesis using that d assms(2) k x by simp
  qed
qed

section \<open>The bound\<close>

text \<open>Calls served with the configuration \<open>e\<close>, in the order of their clocks, which the servers share.\<close>

definition clocked :: "env \<Rightarrow> call list \<Rightarrow> bool" where
  "clocked e cs \<longleftrightarrow> list_all (\<lambda>c. cx_env (fst c) = e \<and> fst (snd c) = call_ms c) cs \<and> sorted (map (\<lambda>c. cx_now (fst c)) cs)"

text \<open>One call, of the caller or not, and what it costs the bucket.\<close>

lemma call_step:
  assumes refill: "0 < refill" "refill = auth_rate_limit_refill_per_sec (cfg e)" "cap = auth_rate_limit_capacity (cfg e)"
    and c: "cx_env (fst c) = e" "fst (snd c) = call_ms c"
    and entry: "bucket_entry cap refill (kv (w_redis w) (KAuthLimit path client))"
  defines "spent \<equiv> if asks path client c \<and> let_through path client c w then 1000 else 0"
    and "b \<equiv> kv (w_redis w) (KAuthLimit path client)"
    and "b2 \<equiv> kv (w_redis (serve_call c w)) (KAuthLimit path client)"
  shows "bucket_entry cap refill b2 \<and> level cap refill b2 (call_ms c) = level cap refill b (call_ms c) - spent \<and>
    spent \<le> level cap refill b (call_ms c)"
proof (cases "asks path client c")
  case True
  obtain d r where d: "rate_limit (cx_now (fst c)) (call_ms c) (KAuthLimit path client) cap refill 1 (w_redis w) = (Inr d, r)"
    "let_through path client c w = rd_allowed d" "b2 = kv r (KAuthLimit path client)"
    by (rule own_call [OF True c, of w]) (use refill in \<open>auto simp: b2_def\<close>)
  note step = limit_step [OF entry refill(1) refl d(1)]
  have "0 \<le> level cap refill b (call_ms c)"
    using entry by (auto simp: b_def bucket_entry_def level_def refilled_def)
  with step d(2,3) True show ?thesis by (simp add: spent_def b_def)
next
  case False
  have "0 \<le> level cap refill b (call_ms c)"
    using entry by (auto simp: b_def bucket_entry_def level_def refilled_def)
  with other_calls [OF False, of w] False entry show ?thesis by (simp add: spent_def b_def b2_def)
qed

lemma passed_bound:
  assumes refill: "0 < refill" "refill = auth_rate_limit_refill_per_sec (cfg e)" "cap = auth_rate_limit_capacity (cfg e)"
    and "clocked e (c # cs)" and "bucket_entry cap refill (kv (w_redis w) (KAuthLimit path client))"
  shows "1000 * int (passed path client (c # cs) w) \<le> level cap refill (kv (w_redis w) (KAuthLimit path client)) (call_ms c) +
    (call_ms (last (c # cs)) - call_ms c) * int refill"
  using assms(4,5)
proof (induction cs arbitrary: c w)
  case Nil
  then have "cx_env (fst c) = e" "fst (snd c) = call_ms c" by (simp_all add: clocked_def)
  from call_step [OF refill this Nil.prems(2)] show ?case by (auto split: if_splits)
next
  case (Cons c2 cs)
  let ?k = "KAuthLimit path client" and ?w = "serve_call c w"
  have le: "call_ms c \<le> call_ms c2" and clock: "clocked e (c2 # cs)" and e: "cx_env (fst c) = e" "fst (snd c) = call_ms c"
    using Cons.prems(1) by (auto simp: clocked_def intro: zdiv_mono1)
  note step = call_step [OF refill e Cons.prems(2)]
  have "1000 * int (passed path client (c2 # cs) ?w) \<le> level cap refill (kv (w_redis ?w) ?k) (call_ms c2) +
      (call_ms (last (c2 # cs)) - call_ms c2) * int refill"
    using step by (intro Cons.IH clock) simp
  also have "\<dots> \<le> level cap refill (kv (w_redis ?w) ?k) (call_ms c) + (call_ms (last (c # c2 # cs)) - call_ms c) * int refill"
    using level_later [OF le, of cap refill "kv (w_redis ?w) ?k"] by (simp add: left_diff_distrib)
  finally show ?case using step by (auto split: if_splits)
qed

text \<open>C34. In any run of the API, whatever else it serves in between, the requests of one client to one
  public route, logging in for one, that the rate limit lets through number at most the capacity of the
  bucket plus the refill rate times the seconds from the first call to the last.\<close>

theorem public_calls_bounded:
  assumes "cs \<noteq> []" and "clocked e cs" and "0 < auth_rate_limit_refill_per_sec (cfg e)"
    and "kv (w_redis w) (KAuthLimit path client) = None"
  shows "1000 * int (passed path client cs w) \<le> 1000 * int (auth_rate_limit_capacity (cfg e)) +
    (call_ms (last cs) - call_ms (hd cs)) * int (auth_rate_limit_refill_per_sec (cfg e))"
proof -
  obtain c ds where cs: "cs = c # ds" using assms(1) by (cases cs) auto
  have "bucket_entry (auth_rate_limit_capacity (cfg e)) (auth_rate_limit_refill_per_sec (cfg e)) (kv (w_redis w) (KAuthLimit path client))"
    using assms(4) by (simp add: bucket_entry_def)
  from passed_bound [OF assms(3) refl refl assms(2) [unfolded cs] this] show ?thesis
    using level_le_cap [of "auth_rate_limit_capacity (cfg e)" "auth_rate_limit_refill_per_sec (cfg e)"
        "kv (w_redis w) (KAuthLimit path client)" "call_ms c"]
    unfolding cs by simp
qed

theorem public_calls_bounded_witness:
  "int (passed ''/v1/auth/login'' ''10.0.0.1'' (replicate 40 (demo_ctx 70 7000000, 7000,
       demo_request\<lparr>in_path := ''/v1/auth/login''\<rparr>, Public (VerifyEmail ''t''))) demo_world) \<le> 10"
proof -
  let ?cs = "replicate 40 (demo_ctx 70 7000000, 7000 :: int, demo_request\<lparr>in_path := ''/v1/auth/login''\<rparr>, Public (VerifyEmail ''t''))"
  have "clocked sample_env ?cs" by (simp add: clocked_def list_all_iff)
  moreover have "cfg sample_env = default_cli" by (simp add: sample_env_def)
  moreover have "kv (w_redis demo_world) k = None" for k by (simp add: demo_world_def empty_world_def empty_redis_def)
  ultimately have "1000 * int (passed ''/v1/auth/login'' ''10.0.0.1'' ?cs demo_world) \<le> 1000 * 10 +
      (call_ms (last ?cs) - call_ms (hd ?cs)) * 2"
    using public_calls_bounded [of ?cs sample_env demo_world "''/v1/auth/login''" "''10.0.0.1''"] by (simp add: default_cli_def)
  then show ?thesis by (simp add: last_replicate)
qed

end
