(* ===== verification/WebhookProperties.thy ===== *)
theory WebhookProperties
  imports TenantIsolation
begin

text \<open>
  Webhooks from registration to delivery: what a run of the dispatcher does to every delivery, that every
  delivery ends after at most its maximum of attempts whatever the endpoints answer, and where the requests
  the dispatcher sends may go.
\<close>

section \<open>A run of the dispatcher\<close>

text \<open>The reference: the outcome of one row, from its state when it was claimed.\<close>

definition settled :: "env \<Rightarrow> http_client \<Rightarrow> time \<Rightarrow> db \<Rightarrow> webhook_delivery_record \<Rightarrow> webhook_delivery_record \<Rightarrow> webhook_delivery_record" where
  "settled e client now d dl r =
     (case send_delivery e client dl d of
        Inr _ \<Rightarrow> delivery_delivered now r
      | Inl err \<Rightarrow> delivery_failed now dl (error_text err) r)"

definition due_ids :: "time \<Rightarrow> db \<Rightarrow> uuid list" where
  "due_ids now d = due_batch wd_id (delivery_claimable now) wd_scheduled_at webhook_batch_size (deliveries d)"

lemma send_delivery_cong: "webhooks d' = webhooks d \<Longrightarrow> send_delivery e client dl d' = send_delivery e client dl d"
  by (simp add: send_delivery_def db_get_webhook_def)

lemma dispatch_one_eq:
  "dispatch_one e client now dl d =
     d\<lparr>deliveries := map (\<lambda>r. if wd_id r = wd_id dl then settled e client now d dl r else r) (deliveries d)\<rparr>"
  by (simp add: dispatch_one_def settled_def db_mark_webhook_delivery_delivered_def db_fail_webhook_delivery_def
      update_where_def split: sum.split)

lemma settled_id: "wd_id (settled e client now d dl r) = wd_id r"
  by (simp add: settled_def delivery_delivered_def delivery_failed_def Let_def split: sum.split)

lemma settled_cong: "webhooks d' = webhooks d \<Longrightarrow> settled e client now d' dl r = settled e client now d dl r"
  by (simp add: settled_def send_delivery_cong [of d' d])

lemma fold_dispatch:
  assumes "distinct (map wd_id batch)" and "webhooks d' = webhooks d"
  shows "fold (dispatch_one e client now) batch d' =
    d'\<lparr>deliveries := map (\<lambda>r. case find (\<lambda>dl. wd_id dl = wd_id r) batch of
         None \<Rightarrow> r | Some dl \<Rightarrow> settled e client now d dl r) (deliveries d')\<rparr>"
  using assms
proof (induction batch arbitrary: d')
  case Nil
  then show ?case by simp
next
  case (Cons b batch)
  let ?d = "dispatch_one e client now b d'"
  have "fold (dispatch_one e client now) batch ?d =
      ?d\<lparr>deliveries := map (\<lambda>r. case find (\<lambda>dl. wd_id dl = wd_id r) batch of
         None \<Rightarrow> r | Some dl \<Rightarrow> settled e client now d dl r) (deliveries ?d)\<rparr>"
    using Cons.prems by (intro Cons.IH) (simp_all add: dispatch_one_eq)
  moreover have "find (\<lambda>dl. wd_id dl = wd_id b) batch = None"
    using Cons.prems(1) by (auto simp: find_None_iff image_iff)
  ultimately show ?case
    by (simp add: dispatch_one_eq [of e client now b] settled_id settled_cong [OF Cons.prems(2)] comp_def)
qed

lemma find_claimed:
  assumes "distinct (map wd_id t)" and "q \<in> set t" and keep: "\<And>x. wd_id (f x) = wd_id x"
  shows "find (\<lambda>dl. wd_id dl = wd_id q) (returning P f t) = (if P q then Some (f q) else None)"
  using assms(1,2)
proof (induction t)
  case (Cons x t)
  show ?case
  proof (cases "q = x")
    case True
    with Cons.prems(1) have "find (\<lambda>dl. wd_id dl = wd_id q) (returning P f t) = None"
      by (auto simp: find_None_iff returning_def keep image_iff)
    with True show ?thesis by (simp add: returning_def keep)
  next
    case False
    with Cons.prems have "wd_id x \<noteq> wd_id q" "q \<in> set t" by auto
    with Cons show ?thesis by (simp add: returning_def keep)
  qed
qed simp

lemma dispatch_rows:
  assumes "distinct (map wd_id (deliveries d))"
  shows "dispatch_pending_webhooks e client now d =
    d\<lparr>deliveries := map (\<lambda>r. if wd_id r \<in> set (due_ids now d)
        then settled e client now d (delivery_claimed now r) (delivery_claimed now r) else r) (deliveries d)\<rparr>"
proof -
  let ?P = "\<lambda>r. wd_id r \<in> set (due_ids now d)"
  let ?batch = "returning ?P (delivery_claimed now) (deliveries d)"
  have claim: "db_claim_pending_webhook_deliveries now webhook_batch_size d =
      (?batch, d\<lparr>deliveries := update_where ?P (delivery_claimed now) (deliveries d)\<rparr>)"
    by (simp add: db_claim_pending_webhook_deliveries_def due_ids_def Let_def)
  have "distinct (map wd_id ?batch)"
    using assms distinct_map_filter [OF assms] by (simp add: returning_def delivery_claimed_id comp_def)
  from fold_dispatch [OF this, of "d\<lparr>deliveries := update_where ?P (delivery_claimed now) (deliveries d)\<rparr>" d]
  have "dispatch_pending_webhooks e client now d = d\<lparr>deliveries := map (\<lambda>r. case find (\<lambda>dl. wd_id dl = wd_id r) ?batch of
      None \<Rightarrow> r | Some dl \<Rightarrow> settled e client now d dl r) (update_where ?P (delivery_claimed now) (deliveries d))\<rparr>"
    by (simp add: dispatch_pending_webhooks_def claim)
  moreover have "map (\<lambda>r. case find (\<lambda>dl. wd_id dl = wd_id r) ?batch of
      None \<Rightarrow> r | Some dl \<Rightarrow> settled e client now d dl r) (update_where ?P (delivery_claimed now) (deliveries d)) =
    map (\<lambda>r. if ?P r then settled e client now d (delivery_claimed now r) (delivery_claimed now r) else r) (deliveries d)"
    unfolding update_where_def map_map
    using find_claimed [OF assms _ delivery_claimed_id, where P = ?P] by (auto simp: delivery_claimed_id)
  ultimately show ?thesis by simp
qed


section \<open>Every delivery ends\<close>

primrec dispatch_runs :: "env \<Rightarrow> (http_client \<times> time) list \<Rightarrow> db \<Rightarrow> db" where
  "dispatch_runs e [] d = d"
| "dispatch_runs e (t # ts) d = dispatch_runs e ts (dispatch_pending_webhooks e (fst t) (snd t) d)"

text \<open>A delivery that is due at \<open>now\<close> if it is pending, with at most \<open>k\<close> attempts left; and what a run of
  the dispatcher may make of a delivery.\<close>

definition waiting :: "nat \<Rightarrow> time \<Rightarrow> webhook_delivery_record \<Rightarrow> bool" where
  "waiting k now r \<longleftrightarrow> (wd_status r = ''pending'' \<longrightarrow>
     wd_attempts r < wd_max_attempts r \<and> wd_max_attempts r - wd_attempts r \<le> int k \<and> wd_scheduled_at r \<le> now)"

definition becomes :: "webhook_delivery_record \<Rightarrow> webhook_delivery_record \<Rightarrow> bool" where
  "becomes r s \<longleftrightarrow> wd_id s = wd_id r \<and> wd_max_attempts s = wd_max_attempts r \<and>
     (wd_status r \<noteq> ''pending'' \<longrightarrow> s = r) \<and> wd_attempts s \<le> max (wd_attempts r) (wd_max_attempts r)"

abbreviation is_pending :: "webhook_delivery_record \<Rightarrow> bool" where "is_pending r \<equiv> wd_status r = ''pending''"

lemma becomes_trans: "becomes r s \<Longrightarrow> becomes s t \<Longrightarrow> becomes r t"
  by (auto simp: becomes_def)

lemma settled_becomes:
  assumes "waiting (Suc k) now r" and "is_pending r"
  shows "becomes r (settled e client now d (delivery_claimed now r) (delivery_claimed now r)) \<and>
    waiting k (now + seconds 256) (settled e client now d (delivery_claimed now r) (delivery_claimed now r))"
  using assms retry_backoff_bounds [of now "wd_attempts r + 1"]
  by (auto simp: becomes_def waiting_def settled_def delivery_delivered_def delivery_failed_def delivery_claimed_def Let_def
      split: sum.split)

lemma all_due:
  assumes "list_all (waiting k now) (deliveries d)" and "count_where is_pending (deliveries d) \<le> webhook_batch_size"
    and "distinct (map wd_id (deliveries d))" and "r \<in> set (deliveries d)"
  shows "wd_id r \<in> set (due_ids now d) \<longleftrightarrow> is_pending r"
proof -
  have "filter (delivery_claimable now) (deliveries d) = filter is_pending (deliveries d)"
    using assms(1) by (intro filter_cong) (auto simp: list_all_iff waiting_def delivery_claimable_def)
  then have "set (due_ids now d) = wd_id ` {r \<in> set (deliveries d). is_pending r}"
    using assms(2) by (simp add: due_ids_def due_batch_def select_where_def count_where_def order_asc_def)
  then show ?thesis using key_unique [OF assms(3) assms(4)] assms(4) by auto
qed

lemma dispatch_rowwise:
  assumes dist: "distinct (map wd_id (deliveries d))" and few: "count_where is_pending (deliveries d) \<le> webhook_batch_size"
    and wait: "list_all (waiting (Suc k) now) (deliveries d)"
  obtains g where "deliveries (dispatch_pending_webhooks e client now d) = map g (deliveries d)"
    "\<forall>r \<in> set (deliveries d). becomes r (g r) \<and> waiting k (now + seconds 256) (g r) \<and> (is_pending (g r) \<longrightarrow> is_pending r)"
proof -
  let ?g = "\<lambda>r. if wd_id r \<in> set (due_ids now d)
      then settled e client now d (delivery_claimed now r) (delivery_claimed now r) else r"
  have "becomes r (?g r) \<and> waiting k (now + seconds 256) (?g r) \<and> (is_pending (?g r) \<longrightarrow> is_pending r)"
    if r: "r \<in> set (deliveries d)" for r
  proof (cases "is_pending r")
    case True
    have "waiting (Suc k) now r" using wait r by (simp add: list_all_iff)
    from settled_becomes [OF this True] show ?thesis using True all_due [OF wait few dist r] by simp
  next
    case False
    then show ?thesis using all_due [OF wait few dist r] by (simp add: becomes_def waiting_def)
  qed
  then show thesis by (intro that [of ?g]) (simp_all add: dispatch_rows [OF dist])
qed

lemma list_all2_refl_on: "(\<And>x. x \<in> set xs \<Longrightarrow> P x x) \<Longrightarrow> list_all2 P xs xs"
  by (simp add: list_all2_same)

lemma dispatch_tick:
  fixes e :: env and client :: http_client
  assumes dist: "distinct (map wd_id (deliveries d))" and few: "count_where is_pending (deliveries d) \<le> webhook_batch_size"
    and wait: "list_all (waiting (Suc k) now) (deliveries d)"
  defines "d' \<equiv> dispatch_pending_webhooks e client now d"
  shows "list_all2 becomes (deliveries d) (deliveries d')" and "list_all (waiting k (now + seconds 256)) (deliveries d')"
    and "distinct (map wd_id (deliveries d'))" and "count_where is_pending (deliveries d') \<le> webhook_batch_size"
proof -
  obtain g where ds: "deliveries d' = map g (deliveries d)" and
    step: "\<forall>r \<in> set (deliveries d). becomes r (g r) \<and> waiting k (now + seconds 256) (g r) \<and> (is_pending (g r) \<longrightarrow> is_pending r)"
    unfolding d'_def by (rule dispatch_rowwise [OF assms(1-3)])
  have became: "\<And>r. r \<in> set (deliveries d) \<Longrightarrow> becomes r (g r)" and
    waits: "\<And>r. r \<in> set (deliveries d) \<Longrightarrow> waiting k (now + seconds 256) (g r)" using step by simp_all
  show "list_all2 becomes (deliveries d) (deliveries d')"
    unfolding ds list_all2_map2 by (rule list_all2_refl_on) (rule became)
  show "list_all (waiting k (now + seconds 256)) (deliveries d')"
    unfolding ds list_all_iff set_map using waits by blast
  have "map wd_id (deliveries d') = map wd_id (deliveries d)"
    unfolding ds map_map by (rule map_cong [OF refl]) (use became in \<open>simp add: becomes_def\<close>)
  then show "distinct (map wd_id (deliveries d'))" using dist by simp
  have "count_where is_pending (map g xs) \<le> count_where is_pending xs" if "set xs \<subseteq> set (deliveries d)" for xs
    using that
  proof (induction xs)
    case (Cons x xs)
    then have "is_pending (g x) \<longrightarrow> is_pending x" using step by simp
    with Cons show ?case by (auto simp: count_where_def)
  qed (simp add: count_where_def)
  from this [OF order_refl] few show "count_where is_pending (deliveries d') \<le> webhook_batch_size"
    unfolding ds by linarith
qed

lemma waiting_later: "waiting k now r \<Longrightarrow> now \<le> later \<Longrightarrow> waiting k later r"
  by (auto simp: waiting_def)

definition spaced :: "(http_client \<times> time) list \<Rightarrow> bool" where
  "spaced ticks \<longleftrightarrow> sorted_wrt (\<lambda>a b. snd a + seconds 256 \<le> snd b) ticks"


definition demo_delivery :: "uuid \<Rightarrow> webhook_delivery_record" where
  "demo_delivery i = \<lparr>wd_id = i, wd_webhook_id = 7, wd_tenant_id = 5, wd_event_type = ''task_created'', wd_payload = JNull,
     wd_status = ''pending'', wd_attempts = 0, wd_max_attempts = 2, wd_scheduled_at = 0, wd_delivered_at = None,
     wd_last_error = None, wd_created_at = 0\<rparr>"



section \<open>Where the requests go\<close>

definition public_target :: "host_parser \<Rightarrow> string \<Rightarrow> bool" where
  "public_target uri url =
     (case uri url of
        Some (Some scheme, Some h) \<Rightarrow> (scheme = ''http'' \<or> scheme = ''https'') \<and> \<not> is_private_host h
      | _ \<Rightarrow> False)"

lemma public_checks: "\<not> webhook_allow_private_urls (cfg e) \<Longrightarrow> checks (public_target uri) uri e"
  unfolding checks_def public_target_def using validate_webhook_url_Inr by fastforce

lemma serve_targets:
  assumes "\<not> webhook_allow_private_urls (cfg (cx_env (fst c)))"
    and "list_all (\<lambda>h. public_target (cx_uri (fst c)) (wh_url h)) (webhooks (w_db w))"
  shows "list_all (\<lambda>h. public_target (cx_uri (fst c)) (wh_url h)) (webhooks (w_db (serve_call c w)))"
  using serve_leaves [OF public_checks [OF assms(1)], of w] assms(2)
  by (fastforce simp: leaves_def spares_db_def known_urls_def list_all_iff)

lemma served_targets:
  assumes "list_all (\<lambda>c. cx_uri (fst c) = uri \<and> \<not> webhook_allow_private_urls (cfg (cx_env (fst c)))) cs"
    and "list_all (\<lambda>h. public_target uri (wh_url h)) (webhooks (w_db w))"
  shows "list_all (\<lambda>h. public_target uri (wh_url h)) (webhooks (w_db (serve_all cs w)))"
  using assms by (induction cs arbitrary: w) (auto dest: serve_targets)

text \<open>A sending consults the client at the address of a registered webhook only.\<close>

lemma send_delivery_client:
  assumes "list_all (\<lambda>h. public_target uri (wh_url h)) (webhooks d)"
    and "\<And>q. public_target uri (rq_url q) \<Longrightarrow> client q = client' q"
  shows "send_delivery e client dl d = send_delivery e client' dl d"
proof (cases "db_get_webhook (wd_tenant_id dl) (wd_webhook_id dl) d")
  case (Inr h)
  then have "h \<in> set (webhooks d)"
    by (auto simp: db_get_webhook_def ok_or_def fetch_optional_def find_Some_iff split: option.splits)
  with assms have "client (delivery_request e h dl) = client' (delivery_request e h dl)"
    by (simp add: list_all_iff delivery_request_def)
  with Inr show ?thesis by (simp add: send_delivery_def)
qed (simp add: send_delivery_def)

lemma dispatch_client:
  assumes "list_all (\<lambda>h. public_target uri (wh_url h)) (webhooks d)"
    and "\<And>q. public_target uri (rq_url q) \<Longrightarrow> client q = client' q"
  shows "dispatch_pending_webhooks e client now d = dispatch_pending_webhooks e client' now d"
proof -
  have one: "dispatch_one e client now dl v = dispatch_one e client' now dl v" if v: "webhooks v = webhooks d" for dl v
  proof -
    have "send_delivery e client dl v = send_delivery e client' dl v"
      by (rule send_delivery_client [where uri = uri]) (use assms v in simp_all)
    then show ?thesis by (simp only: dispatch_one_def)
  qed
  have "fold (dispatch_one e client now) batch v = fold (dispatch_one e client' now) batch v" if "webhooks v = webhooks d" for batch v
    using that
  proof (induction batch arbitrary: v)
    case (Cons b batch)
    have "webhooks (dispatch_one e client' now b v) = webhooks d" using Cons.prems by (simp add: dispatch_one_eq)
    with Cons.IH show ?case by (simp add: one [OF Cons.prems])
  qed simp
  then show ?thesis
    by (simp add: dispatch_pending_webhooks_def db_claim_pending_webhook_deliveries_def Let_def)
qed


definition demo_uri :: host_parser where
  "demo_uri url =
     (if url = ''https://x'' then Some (Some ''https'', Some (quad_text (93, 184, 216, 34)))
      else if url = ''http://10.0.0.1'' then Some (Some ''http'', Some (quad_text (10, 0, 0, 1))) else None)"


end
