(* ===== verification/Grpc.thy ===== *)
theory Grpc
  imports TaskHandlers "HOL-Library.Log_Nat"
begin

text \<open>
  The internal gRPC API: \<open>src/grpc/auth.rs\<close>, \<open>src/grpc/parsing.rs\<close>, \<open>src/grpc/mapping.rs\<close> and the two
  services of \<open>src/grpc/services\<close>. Requests and replies are the messages of \<open>proto/internal.proto\<close>; every
  string of a message is present, and an empty one means absent. The transport is a library, and so is the
  detail it appends to the message of a malformed identifier or time, which is left out.
\<close>

unbundle bit_operations_syntax

section \<open>Statuses and calls\<close>

datatype rpc_status =
    InvalidArgument string
  | Unauthenticated string
  | PermissionDenied string
  | RpcNotFound string
  | AlreadyExists string
  | ResourceExhausted string
  | RpcInternal string

fun status_from_error :: "app_error \<Rightarrow> rpc_status" where
  "status_from_error (Validation m) = InvalidArgument m"
| "status_from_error (Unauthorized m) = Unauthenticated m"
| "status_from_error (Forbidden m) = PermissionDenied m"
| "status_from_error (NotFound m) = RpcNotFound m"
| "status_from_error (Conflict m) = AlreadyExists m"
| "status_from_error (PayloadTooLarge m) = InvalidArgument m"
| "status_from_error (RateLimited m) = ResourceExhausted m"
| "status_from_error (Internal m) = RpcInternal m"

type_synonym 'a rpc = "world \<Rightarrow> (rpc_status + 'a) \<times> world"

definition rpc_result :: "'a result \<Rightarrow> rpc_status + 'a" where
  "rpc_result r = (case r of Inl err \<Rightarrow> Inl (status_from_error err) | Inr x \<Rightarrow> Inr x)"

definition rpc_try :: "(rpc_status + 'a) \<Rightarrow> ('a \<Rightarrow> rpc_status + 'b) \<Rightarrow> rpc_status + 'b" where
  "rpc_try r f = (case r of Inl s \<Rightarrow> Inl s | Inr x \<Rightarrow> f x)"

definition rpc_do :: "(rpc_status + 'a) \<Rightarrow> ('a \<Rightarrow> 'b rpc) \<Rightarrow> 'b rpc" where
  "rpc_do r f w = (case r of Inl s \<Rightarrow> (Inl s, w) | Inr x \<Rightarrow> f x w)"

definition rpc_call :: "'a app \<Rightarrow> ('a \<Rightarrow> 'b rpc) \<Rightarrow> 'b rpc" where
  "rpc_call m f w = (case m w of (Inl err, w') \<Rightarrow> (Inl (status_from_error err), w') | (Inr x, w') \<Rightarrow> f x w')"

definition rpc_reply :: "'a \<Rightarrow> 'a rpc" where "rpc_reply x w = (Inr x, w)"

section \<open>The shared token\<close>

text \<open>\<open>SharedTokenInterceptor::call\<close>: \<open>authorization\<close> is the metadata entry, if it is text.\<close>

definition shared_token_check :: "string \<Rightarrow> string option \<Rightarrow> rpc_status + unit" where
  "shared_token_check expected authorization =
     (case Option.bind authorization (strip_prefix ''Bearer '') of
        None \<Rightarrow> Inl (Unauthenticated ''missing bearer token'')
      | Some provided \<Rightarrow>
          if constant_time_eq (as_bytes provided) (as_bytes expected) then Inr ()
          else Inl (Unauthenticated ''invalid bearer token''))"

section \<open>Parsing\<close>

definition option_string :: "string \<Rightarrow> string option" where
  "option_string v = (let trimmed = trim v in if trimmed = [] then None else Some trimmed)"

definition rpc_parse_uuid :: "env \<Rightarrow> string \<Rightarrow> string \<Rightarrow> rpc_status + uuid" where
  "rpc_parse_uuid e v label =
     (case parse_uuid_str e v of None \<Rightarrow> Inl (InvalidArgument (''invalid '' @ label)) | Some u \<Rightarrow> Inr u)"

definition option_uuid :: "env \<Rightarrow> string \<Rightarrow> rpc_status + uuid option" where
  "option_uuid e v =
     (case option_string v of None \<Rightarrow> Inr None | Some s \<Rightarrow> rpc_try (rpc_parse_uuid e s ''uuid'') (\<lambda>u. Inr (Some u)))"

definition option_datetime :: "env \<Rightarrow> string \<Rightarrow> rpc_status + time option" where
  "option_datetime e v =
     (case option_string v of
        None \<Rightarrow> Inr None
      | Some s \<Rightarrow> (case parse_rfc3339 e s of None \<Rightarrow> Inl (InvalidArgument ''invalid datetime'') | Some t \<Rightarrow> Inr (Some t)))"

text \<open>\<open>TaskFilters::validate\<close>, the last call, returns its argument.\<close>

definition filters_from_parts ::
  "string \<Rightarrow> string \<Rightarrow> uuid option \<Rightarrow> time option \<Rightarrow> time option \<Rightarrow> time option \<Rightarrow> string option \<Rightarrow>
   rpc_status + task_filters" where
  "filters_from_parts status priority assignee_id due_before due_after updated_after q =
     rpc_try (rpc_result (transpose_opt (\<lambda>s. task_status_from_str (to_ascii_lowercase s)) (option_string status))) (\<lambda>status.
     rpc_try (rpc_result (transpose_opt (\<lambda>s. task_priority_from_str (to_ascii_lowercase s)) (option_string priority))) (\<lambda>priority.
     Inr \<lparr>tf_status = status, tf_priority = priority, tf_project_id = None, tf_assignee_id = assignee_id,
       tf_label_id = None, tf_due_before = due_before, tf_due_after = due_after, tf_updated_after = updated_after,
       tf_q = q\<rparr>))"

section \<open>Replies\<close>

record proto_timestamp =
  ts_seconds :: int
  ts_nanos :: int

definition proto_timestamp_of :: "time \<Rightarrow> proto_timestamp" where
  "proto_timestamp_of t = \<lparr>ts_seconds = t div 1000000, ts_nanos = t mod 1000000 * 1000\<rparr>"

text \<open>A protobuf \<open>Struct\<close>; its numbers are 64-bit floats, here the integer a number was rounded to.\<close>

datatype proto_value =
    NullV
  | BoolV bool
  | NumberV int
  | StringV string
  | ListV "proto_value list"
  | StructV "(string \<times> proto_value) list"

text \<open>\<open>as_f64\<close> of an integer: 53 bits, ties to even.\<close>

definition bit_count :: "nat \<Rightarrow> nat" where "bit_count n = (if n = 0 then 0 else floorlog 2 n)"

definition f64_nat :: "nat \<Rightarrow> nat" where
  "f64_nat n =
     (let k = bit_count n - 53; q = n div 2 ^ k; r = 2 * (n mod 2 ^ k)
      in (if r > 2 ^ k \<or> r = 2 ^ k \<and> odd q then q + 1 else q) * 2 ^ k)"

definition f64_int :: "int \<Rightarrow> int" where
  "f64_int n = (if n < 0 then - int (f64_nat (nat (- n))) else int (f64_nat (nat n)))"

fun json_value :: "env \<Rightarrow> json \<Rightarrow> proto_value" where
  "json_value e JNull = NullV"
| "json_value e (JBool b) = BoolV b"
| "json_value e (JNumber n) = NumberV (f64_int n)"
| "json_value e (JString s) = StringV s"
| "json_value e (JUuid u) = StringV (uuid_str e u)"
| "json_value e (JTime t) = StringV (serde_time e t)"
| "json_value e (JArray vs) = ListV (map (json_value e) vs)"
| "json_value e (JObject kvs) = StructV (map (\<lambda>(k, v). (k, json_value e v)) kvs)"

definition struct_from_json :: "env \<Rightarrow> json \<Rightarrow> (string \<times> proto_value) list" where
  "struct_from_json e v =
     (case v of
        JObject kvs \<Rightarrow> map (\<lambda>(k, v). (k, json_value e v)) kvs
      | other \<Rightarrow> [(''value'', json_value e other)])"

record task_message =
  tr_id :: string
  tr_tenant_id :: string
  tr_title :: string
  tr_description :: string
  tr_status :: string
  tr_priority :: string
  tr_assignee_id :: string
  tr_created_by :: string
  tr_updated_by :: string
  tr_due_at :: "proto_timestamp option"
  tr_created_at :: "proto_timestamp option"
  tr_updated_at :: "proto_timestamp option"

definition unwrap_or_default :: "('a \<Rightarrow> string) \<Rightarrow> 'a option \<Rightarrow> string" where
  "unwrap_or_default f v = (case v of None \<Rightarrow> [] | Some x \<Rightarrow> f x)"

definition task_to_proto :: "env \<Rightarrow> task_record \<Rightarrow> task_message" where
  "task_to_proto e t =
     \<lparr>tr_id = uuid_str e (tk_id t), tr_tenant_id = uuid_str e (tk_tenant_id t), tr_title = tk_title t,
      tr_description = unwrap_or_default (\<lambda>s. s) (tk_description t), tr_status = tk_status t,
      tr_priority = tk_priority t, tr_assignee_id = unwrap_or_default (uuid_str e) (tk_assignee_id t),
      tr_created_by = uuid_str e (tk_created_by t), tr_updated_by = uuid_str e (tk_updated_by t),
      tr_due_at = map_option proto_timestamp_of (tk_due_at t),
      tr_created_at = Some (proto_timestamp_of (tk_created_at t)),
      tr_updated_at = Some (proto_timestamp_of (tk_updated_at t))\<rparr>"

record job_reply_message =
  jr_job_id :: string
  jr_tenant_id :: string
  jr_job_type :: string
  jr_status :: string
  jr_attempts :: "32 word"
  jr_max_attempts :: "32 word"
  jr_last_error :: string
  jr_payload :: "(string \<times> proto_value) list"
  jr_result_payload :: "(string \<times> proto_value) list"
  jr_scheduled_at :: "proto_timestamp option"
  jr_started_at :: "proto_timestamp option"
  jr_finished_at :: "proto_timestamp option"

definition job_to_proto :: "env \<Rightarrow> background_job_record \<Rightarrow> job_reply_message" where
  "job_to_proto e j =
     \<lparr>jr_job_id = uuid_str e (jb_id j), jr_tenant_id = unwrap_or_default (uuid_str e) (jb_tenant_id j),
      jr_job_type = jb_job_type j, jr_status = jb_status j, jr_attempts = word_of_int (jb_attempts j),
      jr_max_attempts = word_of_int (jb_max_attempts j), jr_last_error = unwrap_or_default (\<lambda>s. s) (jb_last_error j),
      jr_payload = struct_from_json e (jb_payload j),
      jr_result_payload = struct_from_json e (case jb_result_payload j of None \<Rightarrow> JObject [] | Some v \<Rightarrow> v),
      jr_scheduled_at = Some (proto_timestamp_of (jb_scheduled_at j)),
      jr_started_at = map_option proto_timestamp_of (jb_started_at j),
      jr_finished_at = map_option proto_timestamp_of (jb_finished_at j)\<rparr>"

section \<open>The services\<close>

record export_message =
  em_tenant_id :: string
  em_requested_by :: string
  em_status :: string
  em_priority :: string
  em_assignee_id :: string
  em_due_before :: string
  em_due_after :: string
  em_updated_after :: string
  em_q :: string

definition rpc_enqueue_export :: "env \<Rightarrow> uuid \<Rightarrow> time \<Rightarrow> export_message \<Rightarrow> job_reply_message rpc" where
  "rpc_enqueue_export e i now p =
     rpc_do (rpc_parse_uuid e (em_tenant_id p) ''tenant_id'') (\<lambda>tenant.
     rpc_do (rpc_parse_uuid e (em_requested_by p) ''requested_by'') (\<lambda>requested_by.
     rpc_do (option_uuid e (em_assignee_id p)) (\<lambda>assignee_id.
     rpc_do (option_datetime e (em_due_before p)) (\<lambda>due_before.
     rpc_do (option_datetime e (em_due_after p)) (\<lambda>due_after.
     rpc_do (option_datetime e (em_updated_after p)) (\<lambda>updated_after.
     rpc_do (filters_from_parts (em_status p) (em_priority p) assignee_id due_before due_after updated_after
       (option_string (em_q p))) (\<lambda>filters.
     rpc_call (svc_create_export_job e i now tenant requested_by filters FmtJson) (\<lambda>j.
     rpc_reply (job_to_proto e j)))))))))"

definition rpc_run_due_reminder_sweep :: "env \<Rightarrow> uuid \<Rightarrow> time \<Rightarrow> string \<Rightarrow> job_reply_message rpc" where
  "rpc_run_due_reminder_sweep e i now tenant_id =
     rpc_do (option_uuid e tenant_id) (\<lambda>tenant.
     rpc_call (svc_enqueue_due_reminder_sweep e i now tenant) (\<lambda>maybe_job.
     case maybe_job of
       Some j \<Rightarrow> rpc_reply (job_to_proto e j)
     | None \<Rightarrow> rpc_do (Inl (AlreadyExists ''a due reminder sweep is already queued or running'')) rpc_reply))"

definition rpc_get_job_status :: "env \<Rightarrow> string \<Rightarrow> job_reply_message rpc" where
  "rpc_get_job_status e job_id =
     rpc_do (rpc_parse_uuid e job_id ''job_id'') (\<lambda>i.
     rpc_call (svc_get_job i) (\<lambda>j.
     case j of
       None \<Rightarrow> rpc_do (Inl (RpcNotFound ''job not found'')) rpc_reply
     | Some j \<Rightarrow> rpc_reply (job_to_proto e j)))"

definition rpc_get_task_snapshot :: "env \<Rightarrow> string \<Rightarrow> string \<Rightarrow> task_message rpc" where
  "rpc_get_task_snapshot e tenant_id task_id =
     rpc_do (rpc_parse_uuid e tenant_id ''tenant_id'') (\<lambda>tenant.
     rpc_do (rpc_parse_uuid e task_id ''task_id'') (\<lambda>i.
     rpc_call (svc_get_task tenant i) (\<lambda>t. rpc_reply (task_to_proto e t))))"

record list_message =
  lm_tenant_id :: string
  lm_limit :: "32 word"
  lm_cursor :: string
  lm_status :: string
  lm_priority :: string
  lm_assignee_id :: string
  lm_due_before :: string
  lm_due_after :: string
  lm_updated_after :: string
  lm_q :: string

record task_list_message =
  tl_tasks :: "task_message list"
  tl_next_cursor :: string

definition svc_list_tasks :: "env \<Rightarrow> uuid \<Rightarrow> task_filters \<Rightarrow> cursor option \<Rightarrow> nat \<Rightarrow> (task_record list \<times> cursor option) app" where
  "svc_list_tasks e tenant f c limit = db_read (\<lambda>d. db_list_tasks e tenant f d c limit)"

definition rpc_list_task_summaries :: "env \<Rightarrow> list_message \<Rightarrow> task_list_message rpc" where
  "rpc_list_task_summaries e p =
     rpc_do (rpc_parse_uuid e (lm_tenant_id p) ''tenant_id'') (\<lambda>tenant.
     let limit = unat (min (max (lm_limit p) 1) 100)
     in
       rpc_do (rpc_result (transpose_opt (cursor_decode (codec e)) (option_string (lm_cursor p)))) (\<lambda>c.
       rpc_do (option_uuid e (lm_assignee_id p)) (\<lambda>assignee_id.
       rpc_do (option_datetime e (lm_due_before p)) (\<lambda>due_before.
       rpc_do (option_datetime e (lm_due_after p)) (\<lambda>due_after.
       rpc_do (option_datetime e (lm_updated_after p)) (\<lambda>updated_after.
       rpc_do (filters_from_parts (lm_status p) (lm_priority p) assignee_id due_before due_after updated_after
         (option_string (lm_q p))) (\<lambda>filters.
       rpc_call (svc_list_tasks e tenant filters c limit) (\<lambda>(ts, next).
       rpc_do (rpc_result (transpose_opt (cursor_encode (codec e)) next)) (\<lambda>next_cursor.
       rpc_reply \<lparr>tl_tasks = map (task_to_proto e) ts, tl_next_cursor = unwrap_or_default (\<lambda>s. s) next_cursor\<rparr>)))))))))"

section \<open>The server\<close>

text \<open>Both services stand behind the same interceptor, with the token of the configuration.\<close>

datatype grpc_request =
    EnqueueExport export_message
  | RunDueReminderSweep string
  | GetJobStatus string
  | GetTaskSnapshot string string
  | ListTaskSummaries list_message

datatype grpc_reply =
    JobReply job_reply_message
  | TaskReply task_message
  | TaskListReply task_list_message

definition rpc_map :: "('a \<Rightarrow> 'b) \<Rightarrow> 'a rpc \<Rightarrow> 'b rpc" where
  "rpc_map f m w = (case m w of (Inl s, w') \<Rightarrow> (Inl s, w') | (Inr x, w') \<Rightarrow> (Inr (f x), w'))"

fun grpc_service :: "env \<Rightarrow> uuid \<Rightarrow> time \<Rightarrow> grpc_request \<Rightarrow> grpc_reply rpc" where
  "grpc_service e i now (EnqueueExport p) = rpc_map JobReply (rpc_enqueue_export e i now p)"
| "grpc_service e i now (RunDueReminderSweep tenant_id) = rpc_map JobReply (rpc_run_due_reminder_sweep e i now tenant_id)"
| "grpc_service e i now (GetJobStatus job_id) = rpc_map JobReply (rpc_get_job_status e job_id)"
| "grpc_service e i now (GetTaskSnapshot tenant_id task_id) = rpc_map TaskReply (rpc_get_task_snapshot e tenant_id task_id)"
| "grpc_service e i now (ListTaskSummaries p) = rpc_map TaskListReply (rpc_list_task_summaries e p)"

definition grpc_serve :: "env \<Rightarrow> uuid \<Rightarrow> time \<Rightarrow> string option \<Rightarrow> grpc_request \<Rightarrow> grpc_reply rpc" where
  "grpc_serve e i now authorization r =
     rpc_do (shared_token_check (grpc_auth_token (cfg e)) authorization) (\<lambda>_. grpc_service e i now r)"

end
