(* ===== verification/TokenProperties.thy ===== *)
theory TokenProperties
  imports Grpc AccessControl
begin

text \<open>
  The two shared tokens, of the gRPC services and of the metrics page: the comparison that never stops
  early accepts exactly the token that was configured.
\<close>

section \<open>The comparison\<close>

lemma xor_zero_iff: "xor a b = 0 \<longleftrightarrow> a = (b :: 8 word)"
proof
  assume "xor a b = 0"
  then have "xor (xor a b) b = xor 0 b" by simp
  then show "a = b" by (simp add: xor.assoc)
qed simp

lemma diff_bytes_zero:
  "length l = length r \<Longrightarrow> diff_bytes d l r = 0 \<longleftrightarrow> d = 0 \<and> l = r"
  by (induction d l r rule: diff_bytes.induct) (auto simp: or_eq_0_iff xor_zero_iff)

lemma constant_time_eq_iff: "constant_time_eq l r \<longleftrightarrow> l = r"
  by (auto simp: constant_time_eq_def diff_bytes_zero)

lemma as_bytes_inject: "as_bytes s = as_bytes t \<longleftrightarrow> s = t"
proof -
  have "(word_of_nat (byte c) :: 8 word) = word_of_nat (byte c') \<Longrightarrow> c = c'" for c c'
    by (simp add: word_of_nat_eq_iff take_bit_eq_mod byte_def)
  then have "inj (\<lambda>c. word_of_nat (byte c) :: 8 word)" by (rule injI)
  then show ?thesis by (simp add: as_bytes_def inj_map_eq_map)
qed

lemma shared_token_exact: "shared_token_check expected a = Inr () \<longleftrightarrow> a = Some (''Bearer '' @ expected)"
proof (cases "Option.bind a (strip_prefix ''Bearer '')")
  case None
  have "strip_prefix ''Bearer '' (''Bearer '' @ expected) = Some expected" by (simp only: strip_prefix_Some)
  with None have "a \<noteq> Some (''Bearer '' @ expected)" by (metis Option.bind.bind_lunit option.distinct(1))
  with None show ?thesis by (simp add: shared_token_check_def)
next
  case (Some provided)
  then obtain v where v: "a = Some v" "strip_prefix ''Bearer '' v = Some provided" by (cases a) simp_all
  from v(2) have "v = ''Bearer '' @ provided" by (simp only: strip_prefix_Some)
  then have "a = Some (''Bearer '' @ expected) \<longleftrightarrow> provided = expected" using v(1) by simp
  moreover have "shared_token_check expected a = Inr () \<longleftrightarrow> provided = expected"
    by (simp add: shared_token_check_def Some constant_time_eq_iff as_bytes_inject del: Option.bind_eq_Some_conv)
  ultimately show ?thesis by simp
qed

lemma metrics_exact:
  "rp_status (fst (answer (http_metrics x rendered req) w)) = 200 \<longleftrightarrow>
     (case metrics_auth_token (cfg (cx_env x)) of
        None \<Rightarrow> True | Some expected \<Rightarrow> bearer_token req = Inr expected)"
  by (cases "metrics_auth_token (cfg (cx_env x))"; cases "bearer_token req")
    (use error_status_ge [of "projl (bearer_token req)"] in
      \<open>auto simp: http_metrics_def answer_def then_do_def ret_def fail_def lift_result_def constant_time_eq_iff as_bytes_inject\<close>)

lemma grpc_refused:
  assumes "a \<noteq> Some (''Bearer '' @ grpc_auth_token (cfg e))"
  shows "\<exists>m. grpc_serve e i now a r w = (Inl (Unauthenticated m), w)"
proof -
  from assms have "shared_token_check (grpc_auth_token (cfg e)) a \<noteq> Inr ()" by (simp only: shared_token_exact not_False_eq_True)
  then obtain m where "shared_token_check (grpc_auth_token (cfg e)) a = Inl (Unauthenticated m)"
    by (auto simp: shared_token_check_def split: option.splits if_splits)
  then show ?thesis by (simp add: grpc_serve_def rpc_do_def)
qed

lemma grpc_admitted: "grpc_serve e i now (Some (''Bearer '' @ grpc_auth_token (cfg e))) r w = grpc_service e i now r w"
proof -
  have "shared_token_check (grpc_auth_token (cfg e)) (Some (''Bearer '' @ grpc_auth_token (cfg e))) = Inr ()"
    by (simp only: shared_token_exact)
  then show ?thesis by (simp add: grpc_serve_def rpc_do_def)
qed

text \<open>C37. The tokens are compared without an early exit, and exactly: a gRPC call reaches its service when its
  \<open>authorization\<close> is the text \<open>Bearer\<close>, a space and the configured token, byte for byte, and is refused as
  unauthenticated, with nothing changed, when it is anything else; the metrics are answered to exactly such
  a header with their token, or to everybody when no token is configured.\<close>

theorem shared_tokens_exact:
  "(if a = Some (''Bearer '' @ grpc_auth_token (cfg e)) then grpc_serve e i now a r w = grpc_service e i now r w
    else \<exists>m. grpc_serve e i now a r w = (Inl (Unauthenticated m), w)) \<and>
   (rp_status (fst (answer (http_metrics x rendered req) w)) = 200 \<longleftrightarrow>
     (case metrics_auth_token (cfg (cx_env x)) of
        None \<Rightarrow> True | Some token \<Rightarrow> in_headers req ''authorization'' = Some (''Bearer '' @ token)))"
proof -
  have "if a = Some (''Bearer '' @ grpc_auth_token (cfg e)) then grpc_serve e i now a r w = grpc_service e i now r w
    else \<exists>m. grpc_serve e i now a r w = (Inl (Unauthenticated m), w)"
  proof (cases "a = Some (''Bearer '' @ grpc_auth_token (cfg e))")
    case True
    show ?thesis unfolding True by (simp only: grpc_admitted simp_thms if_True)
  next
    case False
    then show ?thesis by (simp only: grpc_refused [OF False] simp_thms if_False)
  qed
  then show ?thesis unfolding metrics_exact bearer_token_Inr by (intro conjI refl)
qed

end
