(* ===== verification/OpenApiPaths.thy ===== *)
theory OpenApiPaths
  imports OpenApiSchemas
begin

text \<open>
  The paths of the OpenAPI document of \<open>src/openapi.rs\<close>, one definition for each path item, in the order
  of the source.
\<close>

definition path_healthz :: json where
  "path_healthz = JObject [(''get'', JObject [(''tags'', JArray [JString ''system'']), (''operationId'', JString ''getHealth''),
          (''summary'', JString ''Health check''), (''security'', JArray []),
          (''responses'', JObject [(''200'', doc_json_response ''Service is alive.'' (doc_schema_ref ''HealthResponse''))])])]"

definition path_readyz :: json where
  "path_readyz = JObject [(''get'', JObject [(''tags'', JArray [JString ''system'']), (''operationId'', JString ''getReadiness''),
          (''summary'', JString ''Readiness check''), (''security'', JArray []),
          (''responses'', JObject [(''200'', doc_json_response ''Service dependencies are ready.'' (doc_schema_ref ''HealthResponse'')),
              (''500'', doc_error_response ''A dependency is unavailable.'')])])]"

definition path_metrics :: json where
  "path_metrics = JObject [(''get'', JObject [(''tags'', JArray [JString ''system'']), (''operationId'', JString ''getMetrics''),
          (''summary'', JString ''Prometheus metrics''), (''security'', JArray []),
          (''responses'', JObject [(''200'', doc_text_response ''Prometheus metrics in text exposition format.'')])])]"

definition path_auth_register :: json where
  "path_auth_register = JObject [(''post'', JObject [(''tags'', JArray [JString ''auth'']), (''operationId'', JString ''register''),
          (''summary'', JString ''Register a user and bootstrap a tenant''), (''security'', JArray []),
          (''requestBody'', doc_json_request_body (doc_schema_ref ''RegisterRequest'') True),
          (''responses'', JObject [(''201'', doc_json_response ''Registration succeeded.'' (doc_schema_ref ''AuthResponse'')),
              (''400'', doc_error_response ''Invalid registration payload.''),
              (''409'', doc_error_response ''A resource already exists.''),
              (''429'', doc_error_response ''Too many registration attempts.''),
              (''500'', doc_error_response ''Unexpected server error.'')])])]"

definition path_auth_login :: json where
  "path_auth_login = JObject [(''post'', JObject [(''tags'', JArray [JString ''auth'']), (''operationId'', JString ''login''),
          (''summary'', JString ''Authenticate a user''), (''security'', JArray []),
          (''requestBody'', doc_json_request_body (doc_schema_ref ''LoginRequest'') True),
          (''responses'', JObject [(''200'', doc_json_response ''Login succeeded.'' (doc_schema_ref ''AuthResponse'')),
              (''400'', doc_error_response ''Invalid login payload.''),
              (''401'', doc_error_response ''Credentials were rejected.''),
              (''429'', doc_error_response ''Too many login attempts.''),
              (''500'', doc_error_response ''Unexpected server error.'')])])]"

definition path_auth_oauth_provider :: json where
  "path_auth_oauth_provider = JObject [(''post'', JObject [(''tags'', JArray [JString ''auth'']), (''operationId'', JString ''oauthLogin''),
          (''summary'', JString ''Authenticate with an OAuth provider''),
          (''description'', JString ''Exchanges an authorization code with the provider (`google` or `github`) and signs the user in. A first-time identity is linked to an existing account with the same verified email, or a new account and workspace are provisioned. Providers must be configured server-side via OAUTH_<PROVIDER>_CLIENT_ID/SECRET.''),
          (''security'', JArray []),
          (''parameters'', JArray [JObject [(''name'', JString ''provider''), (''in'', JString ''path''), (''required'', JBool True),
                (''description'', JString ''OAuth provider name (google or github).''),
                (''schema'', JObject [(''type'', JString ''string''), (''enum'', JArray [JString ''google'', JString ''github''])])]]),
          (''requestBody'', doc_json_request_body (doc_schema_ref ''OAuthLoginRequest'') True),
          (''responses'', JObject [(''200'', doc_json_response ''Login succeeded.'' (doc_schema_ref ''AuthResponse'')),
              (''400'', doc_error_response ''Unsupported or unconfigured provider, or invalid payload.''),
              (''401'', doc_error_response ''The provider rejected the authorization code or returned an unusable identity.''),
              (''403'', doc_error_response ''The provider email address is not verified.''),
              (''409'', doc_error_response ''The provider identity is already linked.''),
              (''429'', doc_error_response ''Too many login attempts.''),
              (''500'', doc_error_response ''Unexpected server error.'')])])]"

definition path_auth_refresh :: json where
  "path_auth_refresh = JObject [(''post'', JObject [(''tags'', JArray [JString ''auth'']), (''operationId'', JString ''refreshSession''),
          (''summary'', JString ''Rotate access and refresh tokens''), (''security'', JArray []),
          (''requestBody'', doc_json_request_body (doc_schema_ref ''RefreshRequest'') True),
          (''responses'', JObject [(''200'', doc_json_response ''Session refresh succeeded.'' (doc_schema_ref ''AuthResponse'')),
              (''400'', doc_error_response ''Invalid refresh payload.''),
              (''401'', doc_error_response ''Refresh token was invalid or revoked.''),
              (''429'', doc_error_response ''Too many refresh attempts.''),
              (''500'', doc_error_response ''Unexpected server error.'')])])]"

definition path_auth_logout :: json where
  "path_auth_logout = JObject [(''post'', JObject [(''tags'', JArray [JString ''auth'']), (''operationId'', JString ''logout''),
          (''summary'', JString ''Revoke a refresh token and optionally its access token''),
          (''description'', JString ''Revokes the refresh token. If an access token is supplied in the body or via the Authorization header, its `jti` is denylisted for the remainder of its lifetime.''),
          (''security'', JArray []),
          (''requestBody'', doc_json_request_body (doc_schema_ref ''LogoutRequest'') True),
          (''responses'', JObject [(''204'', doc_no_content_response ''Refresh token revoked.''),
              (''400'', doc_error_response ''Invalid logout payload.''),
              (''401'', doc_error_response ''Refresh token was invalid.''),
              (''429'', doc_error_response ''Too many logout attempts.''),
              (''500'', doc_error_response ''Unexpected server error.'')])])]"

definition path_auth_verify_email :: json where
  "path_auth_verify_email = JObject [(''post'', JObject [(''tags'', JArray [JString ''account'']), (''operationId'', JString ''verifyEmail''),
          (''summary'', JString ''Verify an email address with a single-use token''),
          (''security'', JArray []),
          (''requestBody'', doc_json_request_body (doc_schema_ref ''VerifyEmailPayload'') True),
          (''responses'', JObject [(''204'', doc_no_content_response ''Email address verified.''),
              (''400'', doc_error_response ''Invalid verification payload.''),
              (''401'', doc_error_response ''Token was invalid or expired.''),
              (''429'', doc_error_response ''Too many attempts.''),
              (''500'', doc_error_response ''Unexpected server error.'')])])]"

definition path_auth_resend_verification :: json where
  "path_auth_resend_verification = JObject [(''post'', JObject [(''tags'', JArray [JString ''account'']), (''operationId'', JString ''resendVerification''),
          (''summary'', JString ''Re-send the email verification message''),
          (''description'', JString ''Always returns 202 regardless of whether the email exists, to avoid account enumeration.''),
          (''security'', JArray []),
          (''requestBody'', doc_json_request_body (doc_schema_ref ''ResendVerificationPayload'') True),
          (''responses'', JObject [(''202'', doc_no_content_response ''Verification email enqueued if the account exists.''),
              (''400'', doc_error_response ''Invalid payload.''),
              (''429'', doc_error_response ''Too many attempts.''),
              (''500'', doc_error_response ''Unexpected server error.'')])])]"

definition path_auth_password_reset_request :: json where
  "path_auth_password_reset_request = JObject [(''post'', JObject [(''tags'', JArray [JString ''account'']), (''operationId'', JString ''requestPasswordReset''),
          (''summary'', JString ''Request a password reset token''),
          (''description'', JString ''Always returns 202 regardless of whether the email exists, to avoid account enumeration.''),
          (''security'', JArray []),
          (''requestBody'', doc_json_request_body (doc_schema_ref ''PasswordResetRequestPayload'') True),
          (''responses'', JObject [(''202'', doc_no_content_response ''Reset email enqueued if the account exists.''),
              (''400'', doc_error_response ''Invalid payload.''),
              (''429'', doc_error_response ''Too many attempts.''),
              (''500'', doc_error_response ''Unexpected server error.'')])])]"

definition path_auth_password_reset_confirm :: json where
  "path_auth_password_reset_confirm = JObject [(''post'', JObject [(''tags'', JArray [JString ''account'']), (''operationId'', JString ''confirmPasswordReset''),
          (''summary'', JString ''Complete a password reset with a single-use token''),
          (''description'', JString ''Sets the new password and revokes every refresh token the user holds.''),
          (''security'', JArray []),
          (''requestBody'', doc_json_request_body (doc_schema_ref ''PasswordResetConfirmPayload'') True),
          (''responses'', JObject [(''204'', doc_no_content_response ''Password was reset.''),
              (''400'', doc_error_response ''Invalid payload or weak password.''),
              (''401'', doc_error_response ''Token was invalid or expired.''),
              (''429'', doc_error_response ''Too many attempts.''),
              (''500'', doc_error_response ''Unexpected server error.'')])])]"

definition path_auth_switch_tenant :: json where
  "path_auth_switch_tenant = JObject [(''post'', JObject [(''tags'', JArray [JString ''auth'']), (''operationId'', JString ''switchTenant''),
          (''summary'', JString ''Issue a new session scoped to a different tenant''),
          (''requestBody'', doc_json_request_body (doc_schema_ref ''SwitchTenantRequest'') True),
          (''responses'', JObject [(''200'', doc_json_response ''Tenant switch succeeded.'' (doc_schema_ref ''AuthResponse'')),
              (''400'', doc_error_response ''Invalid tenant switch payload.''),
              (''401'', doc_error_response ''Authentication is required.''),
              (''404'', doc_error_response ''Tenant membership was not found.''),
              (''500'', doc_error_response ''Unexpected server error.'')])])]"

definition path_me :: json where
  "path_me = JObject [(''get'', JObject [(''tags'', JArray [JString ''auth'']), (''operationId'', JString ''getCurrentUser''),
          (''summary'', JString ''Get the active user profile''),
          (''responses'', JObject [(''200'', doc_json_response ''Current user profile.'' (doc_schema_ref ''MeResponse'')),
              (''401'', doc_error_response ''Authentication is required.''),
              (''500'', doc_error_response ''Unexpected server error.'')])]),
      (''patch'', JObject [(''tags'', JArray [JString ''account'']), (''operationId'', JString ''updateProfile''),
          (''summary'', JString ''Update the current user's profile''),
          (''description'', JString ''Omitted fields stay unchanged; send `\"display_name\": null` to clear the name.''),
          (''requestBody'', doc_json_request_body (doc_schema_ref ''UpdateProfilePayload'') True),
          (''responses'', JObject [(''200'', doc_json_response ''Updated user profile.'' (doc_schema_ref ''UserResponse'')),
              (''400'', doc_error_response ''Invalid payload.''),
              (''401'', doc_error_response ''Authentication is required.''),
              (''500'', doc_error_response ''Unexpected server error.'')])])]"

definition path_me_notification_preferences :: json where
  "path_me_notification_preferences = JObject [(''get'', JObject [(''tags'', JArray [JString ''account'']), (''operationId'', JString ''getNotificationPreferences''),
          (''summary'', JString ''Get the current user's notification preferences''),
          (''description'', JString ''Delivery switches for optional notification kinds. Security and account mails are always sent.''),
          (''responses'', JObject [(''200'', doc_json_response ''Current notification preferences.'' (doc_schema_ref ''NotificationPreferencesResponse'')),
              (''401'', doc_error_response ''Authentication is required.''),
              (''500'', doc_error_response ''Unexpected server error.'')])]),
      (''patch'', JObject [(''tags'', JArray [JString ''account'']),
          (''operationId'', JString ''updateNotificationPreferences''),
          (''summary'', JString ''Update the current user's notification preferences''),
          (''description'', JString ''Omitted kinds stay unchanged; at least one switch must be provided.''),
          (''requestBody'', doc_json_request_body (doc_schema_ref ''NotificationPreferencesPayload'') True),
          (''responses'', JObject [(''200'', doc_json_response ''Updated notification preferences.'' (doc_schema_ref ''NotificationPreferencesResponse'')),
              (''400'', doc_error_response ''Invalid payload.''),
              (''401'', doc_error_response ''Authentication is required.''),
              (''500'', doc_error_response ''Unexpected server error.'')])])]"

definition path_me_notifications :: json where
  "path_me_notifications = JObject [(''get'', JObject [(''tags'', JArray [JString ''account'']), (''operationId'', JString ''listMyNotifications''),
          (''summary'', JString ''List the current user's in-app notification feed''),
          (''description'', JString ''Task-activity notifications (`task_due_soon`, `task_overdue`, `task_commented`) for the active tenant, newest first. Token-bearing account mails never appear here.''),
          (''parameters'', JArray [doc_limit_query_parameter,
              doc_cursor_query_parameter ''cursor'' ''Opaque cursor returned by a previous notification page.'',
              doc_query_parameter ''unread'' False ''When true, only unread notifications are returned.'' (JObject [(''type'', JString ''boolean'')])]),
          (''responses'', JObject [(''200'', doc_json_response ''Notification feed page.'' (doc_schema_ref ''NotificationFeedResponse'')),
              (''400'', doc_error_response ''Invalid pagination cursor.''),
              (''401'', doc_error_response ''Authentication is required.''),
              (''500'', doc_error_response ''Unexpected server error.'')])])]"

definition path_me_notifications_read_all :: json where
  "path_me_notifications_read_all = JObject [(''post'', JObject [(''tags'', JArray [JString ''account'']), (''operationId'', JString ''markAllNotificationsRead''),
          (''summary'', JString ''Mark all of the current user's notifications as read''),
          (''responses'', JObject [(''200'', doc_json_response ''Number of notifications marked read.'' (doc_schema_ref ''NotificationsReadAllResponse'')),
              (''401'', doc_error_response ''Authentication is required.''),
              (''500'', doc_error_response ''Unexpected server error.'')])])]"

definition path_me_notifications_notification_id_read :: json where
  "path_me_notifications_notification_id_read = JObject [(''post'', JObject [(''tags'', JArray [JString ''account'']), (''operationId'', JString ''markNotificationRead''),
          (''summary'', JString ''Mark one notification as read''),
          (''parameters'', JArray [doc_path_uuid_parameter ''notification_id'' ''Notification identifier.'']),
          (''responses'', JObject [(''204'', doc_no_content_response ''Notification marked read.''),
              (''401'', doc_error_response ''Authentication is required.''),
              (''404'', doc_error_response ''No feed notification with this id belongs to the user.''),
              (''500'', doc_error_response ''Unexpected server error.'')])])]"

definition path_me_tenants :: json where
  "path_me_tenants = JObject [(''get'', JObject [(''tags'', JArray [JString ''auth'']), (''operationId'', JString ''listCurrentUserTenants''),
          (''summary'', JString ''List the current user's tenant memberships''),
          (''responses'', JObject [(''200'', JObject [(''description'', JString ''Tenant memberships for the authenticated user.''),
                  (''content'', JObject [(''application/json'', JObject [(''schema'', doc_array_schema (doc_schema_ref ''TenantMembershipResponse''))])])]),
              (''401'', doc_error_response ''Authentication is required.''),
              (''500'', doc_error_response ''Unexpected server error.'')])])]"

definition path_me_oauth_accounts :: json where
  "path_me_oauth_accounts = JObject [(''get'', JObject [(''tags'', JArray [JString ''account'']), (''operationId'', JString ''listOauthAccounts''),
          (''summary'', JString ''List the current user's linked OAuth accounts''),
          (''responses'', JObject [(''200'', JObject [(''description'', JString ''OAuth provider accounts linked to the authenticated user.''),
                  (''content'', JObject [(''application/json'', JObject [(''schema'', doc_array_schema (doc_schema_ref ''OAuthAccountResponse''))])])]),
              (''401'', doc_error_response ''Authentication is required.''),
              (''500'', doc_error_response ''Unexpected server error.'')])])]"

definition path_me_oauth_accounts_provider :: json where
  "path_me_oauth_accounts_provider = JObject [(''delete'', JObject [(''tags'', JArray [JString ''account'']), (''operationId'', JString ''unlinkOauthAccount''),
          (''summary'', JString ''Unlink an OAuth provider from the current user''),
          (''description'', JString ''Removes the provider link. Password reset remains available, so the account stays recoverable via its verified email.''),
          (''parameters'', JArray [JObject [(''name'', JString ''provider''), (''in'', JString ''path''), (''required'', JBool True),
                (''description'', JString ''OAuth provider name.''),
                (''schema'', JObject [(''type'', JString ''string''), (''enum'', JArray [JString ''google'', JString ''github''])])]]),
          (''responses'', JObject [(''204'', doc_no_content_response ''Provider unlinked.''),
              (''400'', doc_error_response ''Unsupported OAuth provider.''),
              (''401'', doc_error_response ''Authentication is required.''),
              (''404'', doc_error_response ''No account from this provider is linked.''),
              (''500'', doc_error_response ''Unexpected server error.'')])])]"

definition path_me_sessions :: json where
  "path_me_sessions = JObject [(''get'', JObject [(''tags'', JArray [JString ''account'']), (''operationId'', JString ''listSessions''),
          (''summary'', JString ''List the current user's active sessions''),
          (''description'', JString ''Returns active refresh sessions across all tenants, newest first.''),
          (''responses'', JObject [(''200'', JObject [(''description'', JString ''Active refresh sessions for the authenticated user.''),
                  (''content'', JObject [(''application/json'', JObject [(''schema'', doc_array_schema (doc_schema_ref ''SessionResponse''))])])]),
              (''401'', doc_error_response ''Authentication is required.''),
              (''500'', doc_error_response ''Unexpected server error.'')])]),
      (''delete'', JObject [(''tags'', JArray [JString ''account'']), (''operationId'', JString ''logoutAllSessions''),
          (''summary'', JString ''Log out everywhere''),
          (''description'', JString ''Revokes every refresh session for the user and the current access token. Access tokens issued to other devices stay valid until their short TTL expires.''),
          (''responses'', JObject [(''204'', doc_no_content_response ''All sessions revoked.''),
              (''401'', doc_error_response ''Authentication is required.''),
              (''500'', doc_error_response ''Unexpected server error.'')])])]"

definition path_me_sessions_session_id :: json where
  "path_me_sessions_session_id = JObject [(''delete'', JObject [(''tags'', JArray [JString ''account'']), (''operationId'', JString ''revokeSession''),
          (''summary'', JString ''Revoke one of the current user's sessions''),
          (''parameters'', JArray [doc_path_uuid_parameter ''session_id'' ''Refresh session identifier.'']),
          (''responses'', JObject [(''204'', doc_no_content_response ''Session revoked.''),
              (''401'', doc_error_response ''Authentication is required.''),
              (''404'', doc_error_response ''No active session with this id belongs to the user.''),
              (''500'', doc_error_response ''Unexpected server error.'')])])]"

definition path_dashboard_summary :: json where
  "path_dashboard_summary = JObject [(''get'', JObject [(''tags'', JArray [JString ''tasks'']), (''operationId'', JString ''getDashboardSummary''),
          (''summary'', JString ''Get tenant task summary counts''),
          (''responses'', JObject [(''200'', doc_json_response ''Tenant summary counts.'' (doc_schema_ref ''DashboardSummary'')),
              (''401'', doc_error_response ''Authentication is required.''),
              (''500'', doc_error_response ''Unexpected server error.'')])])]"

definition path_me_change_password :: json where
  "path_me_change_password = JObject [(''post'', JObject [(''tags'', JArray [JString ''account'']), (''operationId'', JString ''changePassword''),
          (''summary'', JString ''Change the current user's password''),
          (''description'', JString ''Requires the current password. Revokes all refresh tokens; clients must log in again.''),
          (''requestBody'', doc_json_request_body (doc_schema_ref ''ChangePasswordPayload'') True),
          (''responses'', JObject [(''204'', doc_no_content_response ''Password changed.''),
              (''400'', doc_error_response ''Invalid payload or weak password.''),
              (''401'', doc_error_response ''Current password was incorrect.''),
              (''500'', doc_error_response ''Unexpected server error.'')])])]"

definition path_me_change_email :: json where
  "path_me_change_email = JObject [(''post'', JObject [(''tags'', JArray [JString ''account'']), (''operationId'', JString ''changeEmail''),
          (''summary'', JString ''Change the current user's email address''),
          (''description'', JString ''Requires the current password. The new address starts unverified and receives a verification email.''),
          (''requestBody'', doc_json_request_body (doc_schema_ref ''ChangeEmailPayload'') True),
          (''responses'', JObject [(''200'', doc_json_response ''Updated user profile.'' (doc_schema_ref ''UserResponse'')),
              (''400'', doc_error_response ''Invalid payload.''),
              (''401'', doc_error_response ''Current password was incorrect.''),
              (''409'', doc_error_response ''Email address is already in use.''),
              (''500'', doc_error_response ''Unexpected server error.'')])])]"

definition path_audit :: json where
  "path_audit = JObject [(''get'', JObject [(''tags'', JArray [JString ''audit'']), (''operationId'', JString ''listAuditEvents''),
          (''summary'', JString ''List tenant audit events (admin only)''),
          (''parameters'', JArray [doc_limit_query_parameter,
              doc_cursor_query_parameter ''cursor'' ''Opaque cursor returned by a previous audit page.'']),
          (''responses'', JObject [(''200'', doc_json_response ''Audit events page.'' (doc_schema_ref ''AuditListResponse'')),
              (''401'', doc_error_response ''Authentication is required.''),
              (''403'', doc_error_response ''Admin or owner role is required.''),
              (''500'', doc_error_response ''Unexpected server error.'')])])]"

definition path_tenants_tenant_id_members :: json where
  "path_tenants_tenant_id_members = JObject [(''get'', JObject [(''tags'', JArray [JString ''tenants'']), (''operationId'', JString ''listTenantMembers''),
          (''summary'', JString ''List members of the active tenant''),
          (''parameters'', JArray [doc_path_uuid_parameter ''tenant_id'' ''Tenant identifier.'']),
          (''responses'', JObject [(''200'', JObject [(''description'', JString ''Tenant members.''),
                  (''content'', JObject [(''application/json'', JObject [(''schema'', doc_array_schema (doc_schema_ref ''TenantMemberResponse''))])])]),
              (''401'', doc_error_response ''Authentication is required.''),
              (''404'', doc_error_response ''Tenant was not found for the active membership.''),
              (''500'', doc_error_response ''Unexpected server error.'')])])]"

definition path_tenants_tenant_id_members_member_id :: json where
  "path_tenants_tenant_id_members_member_id = JObject [(''patch'', JObject [(''tags'', JArray [JString ''tenants'']), (''operationId'', JString ''updateTenantMemberRole''),
          (''summary'', JString ''Update a member's role in the active tenant''),
          (''description'', JString ''Requires owner or admin role. Granting or revoking `owner`/`admin` roles requires the owner role. The last owner of a tenant cannot be demoted.''),
          (''parameters'', JArray [doc_path_uuid_parameter ''tenant_id'' ''Tenant identifier.'',
              doc_path_uuid_parameter ''member_id'' ''User identifier of the member.'']),
          (''requestBody'', doc_json_request_body (doc_schema_ref ''MemberRolePayload'') True),
          (''responses'', JObject [(''200'', doc_json_response ''Member role updated.'' (doc_schema_ref ''TenantMemberResponse'')),
              (''400'', doc_error_response ''Invalid role payload.''),
              (''401'', doc_error_response ''Authentication is required.''),
              (''403'', doc_error_response ''Caller role does not permit this role change.''),
              (''404'', doc_error_response ''Tenant or member was not found.''),
              (''409'', doc_error_response ''A tenant must retain at least one owner.''),
              (''500'', doc_error_response ''Unexpected server error.'')])]),
      (''delete'', JObject [(''tags'', JArray [JString ''tenants'']), (''operationId'', JString ''removeTenantMember''),
          (''summary'', JString ''Remove a member from the active tenant''),
          (''description'', JString ''Requires owner or admin role; removing an owner or admin requires the owner role. The last owner cannot be removed. The member's refresh tokens for this tenant are revoked.''),
          (''parameters'', JArray [doc_path_uuid_parameter ''tenant_id'' ''Tenant identifier.'',
              doc_path_uuid_parameter ''member_id'' ''User identifier of the member.'']),
          (''responses'', JObject [(''204'', doc_no_content_response ''Member removed.''),
              (''401'', doc_error_response ''Authentication is required.''),
              (''403'', doc_error_response ''Caller role does not permit removing this member.''),
              (''404'', doc_error_response ''Tenant or member was not found.''),
              (''409'', doc_error_response ''A tenant must retain at least one owner.''),
              (''500'', doc_error_response ''Unexpected server error.'')])])]"

definition path_tenants_tenant_id_invitations :: json where
  "path_tenants_tenant_id_invitations = JObject [(''get'', JObject [(''tags'', JArray [JString ''tenants'']), (''operationId'', JString ''listTenantInvitations''),
          (''summary'', JString ''List pending invitations for the active tenant''),
          (''description'', JString ''Requires owner or admin role.''),
          (''parameters'', JArray [doc_path_uuid_parameter ''tenant_id'' ''Tenant identifier.'']),
          (''responses'', JObject [(''200'', JObject [(''description'', JString ''Pending invitations.''),
                  (''content'', JObject [(''application/json'', JObject [(''schema'', doc_array_schema (doc_schema_ref ''InvitationResponse''))])])]),
              (''401'', doc_error_response ''Authentication is required.''),
              (''403'', doc_error_response ''Owner or admin role is required.''),
              (''404'', doc_error_response ''Tenant was not found for the active membership.''),
              (''500'', doc_error_response ''Unexpected server error.'')])]),
      (''post'', JObject [(''tags'', JArray [JString ''tenants'']), (''operationId'', JString ''createTenantInvitation''),
          (''summary'', JString ''Invite a user to the active tenant''),
          (''description'', JString ''Requires owner or admin role; inviting an admin requires the owner role. The response includes the single-use invitation token exactly once, and an invitation email with the token is queued for the recipient.''),
          (''parameters'', JArray [doc_path_uuid_parameter ''tenant_id'' ''Tenant identifier.'', doc_idempotency_header_parameter]),
          (''requestBody'', doc_json_request_body (doc_schema_ref ''InvitationCreatePayload'') True),
          (''responses'', JObject [(''201'', doc_json_response ''Invitation created.'' (doc_schema_ref ''InvitationCreateResponse'')),
              (''400'', doc_error_response ''Invalid invitation payload.''),
              (''401'', doc_error_response ''Authentication is required.''),
              (''403'', doc_error_response ''Caller role does not permit this invitation.''),
              (''404'', doc_error_response ''Tenant was not found for the active membership.''),
              (''409'', doc_error_response ''User is already a member or already invited.''),
              (''500'', doc_error_response ''Unexpected server error.'')])])]"

definition path_tenants_tenant_id_invitations_accept :: json where
  "path_tenants_tenant_id_invitations_accept = JObject [(''post'', JObject [(''tags'', JArray [JString ''tenants'']), (''operationId'', JString ''acceptTenantInvitation''),
          (''summary'', JString ''Accept an invitation to join a tenant''),
          (''description'', JString ''The invitation must target the authenticated user's email address, be unexpired, and be unused. Returns the new membership.''),
          (''parameters'', JArray [doc_path_uuid_parameter ''tenant_id'' ''Tenant identifier.'']),
          (''requestBody'', doc_json_request_body (doc_schema_ref ''InvitationAcceptPayload'') True),
          (''responses'', JObject [(''200'', doc_json_response ''Invitation accepted.'' (doc_schema_ref ''TenantMembershipResponse'')),
              (''400'', doc_error_response ''Invalid acceptance payload.''),
              (''401'', doc_error_response ''Authentication is required.''),
              (''403'', doc_error_response ''Invitation email does not match the authenticated user.''),
              (''404'', doc_error_response ''Invitation was not found, expired, or already used.''),
              (''409'', doc_error_response ''User is already a member of this tenant.''),
              (''500'', doc_error_response ''Unexpected server error.'')])])]"

definition path_tenants_tenant_id_invitations_invitation_id :: json where
  "path_tenants_tenant_id_invitations_invitation_id = JObject [(''delete'', JObject [(''tags'', JArray [JString ''tenants'']), (''operationId'', JString ''revokeTenantInvitation''),
          (''summary'', JString ''Revoke a pending invitation''),
          (''description'', JString ''Requires owner or admin role.''),
          (''parameters'', JArray [doc_path_uuid_parameter ''tenant_id'' ''Tenant identifier.'',
              doc_path_uuid_parameter ''invitation_id'' ''Invitation identifier.'']),
          (''responses'', JObject [(''204'', doc_no_content_response ''Invitation revoked.''),
              (''401'', doc_error_response ''Authentication is required.''),
              (''403'', doc_error_response ''Owner or admin role is required.''),
              (''404'', doc_error_response ''Tenant or pending invitation was not found.''),
              (''500'', doc_error_response ''Unexpected server error.'')])])]"

definition path_projects :: json where
  "path_projects = JObject [(''get'', JObject [(''tags'', JArray [JString ''projects'']), (''operationId'', JString ''listProjects''),
          (''summary'', JString ''List tenant projects''),
          (''responses'', JObject [(''200'', JObject [(''description'', JString ''Tenant projects.''),
                  (''content'', JObject [(''application/json'', JObject [(''schema'', doc_array_schema (doc_schema_ref ''ProjectResponse''))])])]),
              (''401'', doc_error_response ''Authentication is required.''),
              (''500'', doc_error_response ''Unexpected server error.'')])]),
      (''post'', JObject [(''tags'', JArray [JString ''projects'']), (''operationId'', JString ''createProject''),
          (''summary'', JString ''Create a project''),
          (''parameters'', JArray [doc_idempotency_header_parameter]),
          (''requestBody'', doc_json_request_body (doc_schema_ref ''ProjectPayload'') True),
          (''responses'', JObject [(''201'', doc_json_response ''Project created.'' (doc_schema_ref ''ProjectResponse'')),
              (''400'', doc_error_response ''Invalid project payload.''),
              (''401'', doc_error_response ''Authentication is required.''),
              (''403'', doc_error_response ''The active role cannot create projects.''),
              (''409'', doc_error_response ''A project with this name already exists.''),
              (''500'', doc_error_response ''Unexpected server error.'')])])]"

definition path_projects_project_id :: json where
  "path_projects_project_id = JObject [(''get'', JObject [(''tags'', JArray [JString ''projects'']), (''operationId'', JString ''getProject''),
          (''summary'', JString ''Get a single project''),
          (''parameters'', JArray [doc_path_uuid_parameter ''project_id'' ''Project identifier.'']),
          (''responses'', JObject [(''200'', doc_json_response ''Project detail.'' (doc_schema_ref ''ProjectResponse'')),
              (''401'', doc_error_response ''Authentication is required.''),
              (''404'', doc_error_response ''Project was not found.''),
              (''500'', doc_error_response ''Unexpected server error.'')])]),
      (''patch'', JObject [(''tags'', JArray [JString ''projects'']), (''operationId'', JString ''updateProject''),
          (''summary'', JString ''Update a project''),
          (''parameters'', JArray [doc_path_uuid_parameter ''project_id'' ''Project identifier.'']),
          (''requestBody'', doc_json_request_body (doc_schema_ref ''ProjectPatchPayload'') True),
          (''responses'', JObject [(''200'', doc_json_response ''Updated project detail.'' (doc_schema_ref ''ProjectResponse'')),
              (''400'', doc_error_response ''Invalid project patch payload.''),
              (''401'', doc_error_response ''Authentication is required.''),
              (''403'', doc_error_response ''The active role cannot update projects.''),
              (''404'', doc_error_response ''Project was not found.''),
              (''500'', doc_error_response ''Unexpected server error.'')])]),
      (''delete'', JObject [(''tags'', JArray [JString ''projects'']), (''operationId'', JString ''deleteProject''),
          (''summary'', JString ''Archive a project (soft delete)''),
          (''description'', JString ''Archives the project. Archived projects disappear from listings and their tasks are hidden until the project is restored.''),
          (''parameters'', JArray [doc_path_uuid_parameter ''project_id'' ''Project identifier.'']),
          (''responses'', JObject [(''204'', doc_no_content_response ''Project archived.''),
              (''401'', doc_error_response ''Authentication is required.''),
              (''403'', doc_error_response ''The active role cannot delete projects.''),
              (''404'', doc_error_response ''Project was not found.''),
              (''500'', doc_error_response ''Unexpected server error.'')])])]"

definition path_projects_project_id_restore :: json where
  "path_projects_project_id_restore = JObject [(''post'', JObject [(''tags'', JArray [JString ''projects'']), (''operationId'', JString ''restoreProject''),
          (''summary'', JString ''Restore an archived project''),
          (''parameters'', JArray [doc_path_uuid_parameter ''project_id'' ''Project identifier.'']),
          (''responses'', JObject [(''200'', doc_json_response ''Restored project detail.'' (doc_schema_ref ''ProjectResponse'')),
              (''401'', doc_error_response ''Authentication is required.''),
              (''403'', doc_error_response ''The active role cannot restore projects.''),
              (''404'', doc_error_response ''No archived project with this identifier.''),
              (''500'', doc_error_response ''Unexpected server error.'')])])]"

definition path_projects_project_id_summary :: json where
  "path_projects_project_id_summary = JObject [(''get'', JObject [(''tags'', JArray [JString ''projects'']), (''operationId'', JString ''getProjectSummary''),
          (''summary'', JString ''Get task summary counts for a single project''),
          (''parameters'', JArray [doc_path_uuid_parameter ''project_id'' ''Project identifier.'']),
          (''responses'', JObject [(''200'', doc_json_response ''Project summary counts.'' (doc_schema_ref ''ProjectSummary'')),
              (''401'', doc_error_response ''Authentication is required.''),
              (''404'', doc_error_response ''Project was not found.''),
              (''500'', doc_error_response ''Unexpected server error.'')])])]"

definition path_projects_project_id_tasks :: json where
  "path_projects_project_id_tasks = JObject [(''get'', JObject [(''tags'', JArray [JString ''projects'']), (''operationId'', JString ''listProjectTasks''),
          (''summary'', JString ''List tasks belonging to a project''),
          (''parameters'', JArray [doc_path_uuid_parameter ''project_id'' ''Project identifier.'', doc_limit_query_parameter,
              doc_cursor_query_parameter ''cursor'' ''Opaque cursor from a previous task page.'',
              doc_query_parameter ''status'' False ''Filter by task status.'' (doc_schema_ref ''TaskStatus''),
              doc_query_parameter ''priority'' False ''Filter by task priority.'' (doc_schema_ref ''TaskPriority''),
              doc_query_parameter ''assignee_id'' False ''Filter by assignee.'' doc_uuid_schema,
              doc_query_parameter ''label_id'' False ''Return only tasks carrying this label.'' doc_uuid_schema,
              doc_query_parameter ''due_before'' False ''Return tasks due before this RFC3339 timestamp.'' doc_date_time_schema,
              doc_query_parameter ''due_after'' False ''Return tasks due after this RFC3339 timestamp.'' doc_date_time_schema,
              doc_query_parameter ''updated_after'' False ''Return tasks updated after this RFC3339 timestamp.'' doc_date_time_schema,
              doc_query_parameter ''q'' False ''Search term applied to the task title and description. Terms of three or more characters use full-text (web search) matching on whole words; shorter terms fall back to substring matching.'' doc_string_schema]),
          (''responses'', JObject [(''200'', doc_json_response ''Paginated project task list.'' (doc_schema_ref ''TaskListResponse'')),
              (''400'', doc_error_response ''Invalid query parameters.''),
              (''401'', doc_error_response ''Authentication is required.''),
              (''404'', doc_error_response ''Project was not found.''),
              (''500'', doc_error_response ''Unexpected server error.'')])])]"

definition path_labels :: json where
  "path_labels = JObject [(''get'', JObject [(''tags'', JArray [JString ''labels'']), (''operationId'', JString ''listLabels''),
          (''summary'', JString ''List tenant labels''),
          (''responses'', JObject [(''200'', JObject [(''description'', JString ''Tenant labels ordered by name.''),
                  (''content'', JObject [(''application/json'', JObject [(''schema'', doc_array_schema (doc_schema_ref ''LabelResponse''))])])]),
              (''401'', doc_error_response ''Authentication is required.''),
              (''500'', doc_error_response ''Unexpected server error.'')])]),
      (''post'', JObject [(''tags'', JArray [JString ''labels'']), (''operationId'', JString ''createLabel''),
          (''summary'', JString ''Create a label''),
          (''parameters'', JArray [doc_idempotency_header_parameter]),
          (''requestBody'', doc_json_request_body (doc_schema_ref ''LabelPayload'') True),
          (''responses'', JObject [(''201'', doc_json_response ''Label created.'' (doc_schema_ref ''LabelResponse'')),
              (''400'', doc_error_response ''Invalid label payload.''),
              (''401'', doc_error_response ''Authentication is required.''),
              (''403'', doc_error_response ''The active role cannot manage labels.''),
              (''409'', doc_error_response ''A label with this name already exists.''),
              (''500'', doc_error_response ''Unexpected server error.'')])])]"

definition path_labels_label_id :: json where
  "path_labels_label_id = JObject [(''patch'', JObject [(''tags'', JArray [JString ''labels'']), (''operationId'', JString ''updateLabel''),
          (''summary'', JString ''Rename or recolor a label''),
          (''parameters'', JArray [doc_path_uuid_parameter ''label_id'' ''Label identifier.'']),
          (''requestBody'', doc_json_request_body (doc_schema_ref ''LabelPatchPayload'') True),
          (''responses'', JObject [(''200'', doc_json_response ''Updated label detail.'' (doc_schema_ref ''LabelResponse'')),
              (''400'', doc_error_response ''Invalid label patch payload.''),
              (''401'', doc_error_response ''Authentication is required.''),
              (''403'', doc_error_response ''The active role cannot manage labels.''),
              (''404'', doc_error_response ''Label was not found.''),
              (''409'', doc_error_response ''A label with this name already exists.''),
              (''500'', doc_error_response ''Unexpected server error.'')])]),
      (''delete'', JObject [(''tags'', JArray [JString ''labels'']), (''operationId'', JString ''deleteLabel''),
          (''summary'', JString ''Delete a label''),
          (''description'', JString ''Deletes the label and removes it from every task that carried it.''),
          (''parameters'', JArray [doc_path_uuid_parameter ''label_id'' ''Label identifier.'']),
          (''responses'', JObject [(''204'', doc_no_content_response ''Label deleted.''),
              (''401'', doc_error_response ''Authentication is required.''),
              (''403'', doc_error_response ''The active role cannot manage labels.''),
              (''404'', doc_error_response ''Label was not found.''),
              (''500'', doc_error_response ''Unexpected server error.'')])])]"

definition path_webhooks :: json where
  "path_webhooks = JObject [(''get'', JObject [(''tags'', JArray [JString ''webhooks'']), (''operationId'', JString ''listWebhooks''),
          (''summary'', JString ''List tenant webhooks''),
          (''description'', JString ''Admin/owner only. Signing secrets are never returned after creation.''),
          (''responses'', JObject [(''200'', JObject [(''description'', JString ''Tenant webhooks ordered by newest first.''),
                  (''content'', JObject [(''application/json'', JObject [(''schema'', doc_array_schema (doc_schema_ref ''WebhookResponse''))])])]),
              (''401'', doc_error_response ''Authentication is required.''),
              (''403'', doc_error_response ''The active role cannot manage webhooks.''),
              (''500'', doc_error_response ''Unexpected server error.'')])]),
      (''post'', JObject [(''tags'', JArray [JString ''webhooks'']), (''operationId'', JString ''createWebhook''),
          (''summary'', JString ''Register a webhook''),
          (''description'', JString ''Admin/owner only. Registers an HTTPS/HTTP endpoint for the selected task lifecycle events. The response includes the signing secret exactly once; store it to verify the `X-Fluxa-Signature` header on deliveries. Private-network URLs are rejected unless the deployment enables `WEBHOOK_ALLOW_PRIVATE_URLS`.''),
          (''parameters'', JArray [doc_idempotency_header_parameter]),
          (''requestBody'', doc_json_request_body (doc_schema_ref ''WebhookPayload'') True),
          (''responses'', JObject [(''201'', doc_json_response ''Webhook created; secret shown once.'' (doc_schema_ref ''WebhookCreateResponse'')),
              (''400'', doc_error_response ''Invalid webhook URL, unsupported event, or webhook limit reached.''),
              (''401'', doc_error_response ''Authentication is required.''),
              (''403'', doc_error_response ''The active role cannot manage webhooks.''),
              (''409'', doc_error_response ''A request with this idempotency key is still in progress.''),
              (''500'', doc_error_response ''Unexpected server error.'')])])]"

definition path_webhooks_webhook_id :: json where
  "path_webhooks_webhook_id = JObject [(''patch'', JObject [(''tags'', JArray [JString ''webhooks'']), (''operationId'', JString ''updateWebhook''),
          (''summary'', JString ''Update a webhook''),
          (''description'', JString ''Admin/owner only. Updates the URL, subscribed events, or active flag.''),
          (''parameters'', JArray [doc_path_uuid_parameter ''webhook_id'' ''Webhook identifier.'']),
          (''requestBody'', doc_json_request_body (doc_schema_ref ''WebhookPatchPayload'') True),
          (''responses'', JObject [(''200'', doc_json_response ''Updated webhook detail.'' (doc_schema_ref ''WebhookResponse'')),
              (''400'', doc_error_response ''Invalid webhook patch payload.''),
              (''401'', doc_error_response ''Authentication is required.''),
              (''403'', doc_error_response ''The active role cannot manage webhooks.''),
              (''404'', doc_error_response ''Webhook was not found.''),
              (''500'', doc_error_response ''Unexpected server error.'')])]),
      (''delete'', JObject [(''tags'', JArray [JString ''webhooks'']), (''operationId'', JString ''deleteWebhook''),
          (''summary'', JString ''Delete a webhook''),
          (''description'', JString ''Admin/owner only. Deletes the webhook and its delivery history.''),
          (''parameters'', JArray [doc_path_uuid_parameter ''webhook_id'' ''Webhook identifier.'']),
          (''responses'', JObject [(''204'', doc_no_content_response ''Webhook deleted.''),
              (''401'', doc_error_response ''Authentication is required.''),
              (''403'', doc_error_response ''The active role cannot manage webhooks.''),
              (''404'', doc_error_response ''Webhook was not found.''),
              (''500'', doc_error_response ''Unexpected server error.'')])])]"

definition path_webhooks_webhook_id_deliveries :: json where
  "path_webhooks_webhook_id_deliveries = JObject [(''get'', JObject [(''tags'', JArray [JString ''webhooks'']), (''operationId'', JString ''listWebhookDeliveries''),
          (''summary'', JString ''List webhook deliveries''),
          (''description'', JString ''Admin/owner only. Returns delivery attempts for the webhook, newest first, with cursor pagination.''),
          (''parameters'', JArray [doc_path_uuid_parameter ''webhook_id'' ''Webhook identifier.'', doc_limit_query_parameter,
              doc_cursor_query_parameter ''cursor'' ''Opaque cursor from a previous delivery page.'']),
          (''responses'', JObject [(''200'', doc_json_response ''Webhook delivery page.'' (doc_schema_ref ''WebhookDeliveryListResponse'')),
              (''400'', doc_error_response ''Invalid cursor or limit.''),
              (''401'', doc_error_response ''Authentication is required.''),
              (''403'', doc_error_response ''The active role cannot manage webhooks.''),
              (''404'', doc_error_response ''Webhook was not found.''),
              (''500'', doc_error_response ''Unexpected server error.'')])])]"

definition path_webhooks_webhook_id_deliveries_delivery_id_redeliver :: json where
  "path_webhooks_webhook_id_deliveries_delivery_id_redeliver = JObject [(''post'', JObject [(''tags'', JArray [JString ''webhooks'']), (''operationId'', JString ''redeliverWebhookDelivery''),
          (''summary'', JString ''Redeliver a webhook delivery''),
          (''description'', JString ''Admin/owner only. Requeues a delivered or dead_letter delivery with a fresh attempt budget; the worker retries it on its next dispatch cycle. Pending deliveries cannot be requeued.''),
          (''parameters'', JArray [doc_path_uuid_parameter ''webhook_id'' ''Webhook identifier.'',
              doc_path_uuid_parameter ''delivery_id'' ''Delivery identifier.'']),
          (''responses'', JObject [(''202'', doc_json_response ''Delivery requeued for dispatch.'' (doc_schema_ref ''WebhookDeliveryResponse'')),
              (''401'', doc_error_response ''Authentication is required.''),
              (''403'', doc_error_response ''The active role cannot manage webhooks.''),
              (''404'', doc_error_response ''Webhook or delivery was not found.''),
              (''409'', doc_error_response ''The delivery is already pending.''),
              (''500'', doc_error_response ''Unexpected server error.'')])])]"

definition path_tasks :: json where
  "path_tasks = JObject [(''get'', JObject [(''tags'', JArray [JString ''tasks'']), (''operationId'', JString ''listTasks''),
          (''summary'', JString ''List tasks with cursor pagination and filters''),
          (''parameters'', JArray [doc_limit_query_parameter,
              doc_cursor_query_parameter ''cursor'' ''Opaque cursor from a previous task page.'',
              doc_query_parameter ''status'' False ''Filter by task status.'' (doc_schema_ref ''TaskStatus''),
              doc_query_parameter ''priority'' False ''Filter by task priority.'' (doc_schema_ref ''TaskPriority''),
              doc_query_parameter ''project_id'' False ''Filter by project.'' doc_uuid_schema,
              doc_query_parameter ''assignee_id'' False ''Filter by assignee.'' doc_uuid_schema,
              doc_query_parameter ''label_id'' False ''Return only tasks carrying this label.'' doc_uuid_schema,
              doc_query_parameter ''due_before'' False ''Return tasks due before this RFC3339 timestamp.'' doc_date_time_schema,
              doc_query_parameter ''due_after'' False ''Return tasks due after this RFC3339 timestamp.'' doc_date_time_schema,
              doc_query_parameter ''updated_after'' False ''Return tasks updated after this RFC3339 timestamp.'' doc_date_time_schema,
              doc_query_parameter ''q'' False ''Search term applied to the task title and description. Terms of three or more characters use full-text (web search) matching on whole words; shorter terms fall back to substring matching.'' doc_string_schema]),
          (''responses'', JObject [(''200'', doc_json_response ''Paginated task list.'' (doc_schema_ref ''TaskListResponse'')),
              (''400'', doc_error_response ''Invalid query parameters.''),
              (''401'', doc_error_response ''Authentication is required.''),
              (''500'', doc_error_response ''Unexpected server error.'')])]),
      (''post'', JObject [(''tags'', JArray [JString ''tasks'']), (''operationId'', JString ''createTask''),
          (''summary'', JString ''Create a task''),
          (''parameters'', JArray [doc_idempotency_header_parameter]),
          (''requestBody'', doc_json_request_body (doc_schema_ref ''TaskPayload'') True),
          (''responses'', JObject [(''201'', doc_json_response ''Task created.'' (doc_schema_ref ''TaskResponse'')),
              (''400'', doc_error_response ''Invalid task payload.''),
              (''401'', doc_error_response ''Authentication is required.''),
              (''403'', doc_error_response ''The active role cannot create tasks.''),
              (''409'', doc_error_response ''The idempotency key is in progress or conflicts.''),
              (''500'', doc_error_response ''Unexpected server error.'')])])]"

definition path_tasks_bulk_status :: json where
  "path_tasks_bulk_status = JObject [(''post'', JObject [(''tags'', JArray [JString ''tasks'']), (''operationId'', JString ''bulkUpdateTaskStatus''),
          (''summary'', JString ''Update the status of multiple tasks''),
          (''description'', JString ''Sets the same status on up to 100 tasks in a single all-or-nothing transaction. Duplicate ids are ignored. If any task id is unknown to the tenant, no task is updated and 404 is returned.''),
          (''requestBody'', doc_json_request_body (doc_schema_ref ''BulkTaskStatusPayload'') True),
          (''responses'', JObject [(''200'', doc_json_response ''Updated tasks in request order.'' (doc_schema_ref ''BulkTaskStatusResponse'')),
              (''400'', doc_error_response ''Invalid payload, empty id list, or more than 100 unique ids.''),
              (''401'', doc_error_response ''Authentication is required.''),
              (''403'', doc_error_response ''The active role cannot update tasks.''),
              (''404'', doc_error_response ''One or more tasks were not found.''),
              (''500'', doc_error_response ''Unexpected server error.'')])])]"

definition path_tasks_task_id :: json where
  "path_tasks_task_id = JObject [(''get'', JObject [(''tags'', JArray [JString ''tasks'']), (''operationId'', JString ''getTask''),
          (''summary'', JString ''Get a single task''),
          (''parameters'', JArray [doc_path_uuid_parameter ''task_id'' ''Task identifier.'']),
          (''responses'', JObject [(''200'', doc_json_response ''Task detail.'' (doc_schema_ref ''TaskResponse'')),
              (''401'', doc_error_response ''Authentication is required.''),
              (''404'', doc_error_response ''Task was not found.''),
              (''500'', doc_error_response ''Unexpected server error.'')])]),
      (''patch'', JObject [(''tags'', JArray [JString ''tasks'']), (''operationId'', JString ''updateTask''),
          (''summary'', JString ''Update a task''),
          (''parameters'', JArray [doc_path_uuid_parameter ''task_id'' ''Task identifier.'']),
          (''requestBody'', doc_json_request_body (doc_schema_ref ''TaskPatchPayload'') True),
          (''responses'', JObject [(''200'', doc_json_response ''Updated task detail.'' (doc_schema_ref ''TaskResponse'')),
              (''400'', doc_error_response ''Invalid task patch payload.''),
              (''401'', doc_error_response ''Authentication is required.''),
              (''403'', doc_error_response ''The active role cannot update tasks.''),
              (''404'', doc_error_response ''Task was not found.''),
              (''500'', doc_error_response ''Unexpected server error.'')])]),
      (''delete'', JObject [(''tags'', JArray [JString ''tasks'']), (''operationId'', JString ''deleteTask''),
          (''summary'', JString ''Archive a task (soft delete)''),
          (''description'', JString ''Sets the task status to archived. Archived tasks remain readable by id and can be restored.''),
          (''parameters'', JArray [doc_path_uuid_parameter ''task_id'' ''Task identifier.'']),
          (''responses'', JObject [(''204'', doc_no_content_response ''Task archived.''),
              (''401'', doc_error_response ''Authentication is required.''),
              (''403'', doc_error_response ''The active role cannot delete tasks.''),
              (''404'', doc_error_response ''Task was not found.''),
              (''500'', doc_error_response ''Unexpected server error.'')])])]"

definition path_tasks_task_id_restore :: json where
  "path_tasks_task_id_restore = JObject [(''post'', JObject [(''tags'', JArray [JString ''tasks'']), (''operationId'', JString ''restoreTask''),
          (''summary'', JString ''Restore an archived task''),
          (''description'', JString ''Returns an archived task to open status.''),
          (''parameters'', JArray [doc_path_uuid_parameter ''task_id'' ''Task identifier.'']),
          (''responses'', JObject [(''200'', doc_json_response ''Restored task detail.'' (doc_schema_ref ''TaskResponse'')),
              (''401'', doc_error_response ''Authentication is required.''),
              (''403'', doc_error_response ''The active role cannot restore tasks.''),
              (''404'', doc_error_response ''No archived task with this identifier.''),
              (''500'', doc_error_response ''Unexpected server error.'')])])]"

definition path_tasks_task_id_labels :: json where
  "path_tasks_task_id_labels = JObject [(''get'', JObject [(''tags'', JArray [JString ''labels'']), (''operationId'', JString ''getTaskLabels''),
          (''summary'', JString ''List labels attached to a task''),
          (''parameters'', JArray [doc_path_uuid_parameter ''task_id'' ''Task identifier.'']),
          (''responses'', JObject [(''200'', JObject [(''description'', JString ''Labels attached to the task, ordered by name.''),
                  (''content'', JObject [(''application/json'', JObject [(''schema'', doc_array_schema (doc_schema_ref ''LabelResponse''))])])]),
              (''401'', doc_error_response ''Authentication is required.''),
              (''404'', doc_error_response ''Task was not found.''),
              (''500'', doc_error_response ''Unexpected server error.'')])]),
      (''put'', JObject [(''tags'', JArray [JString ''labels'']), (''operationId'', JString ''setTaskLabels''),
          (''summary'', JString ''Replace the labels attached to a task''),
          (''description'', JString ''Replaces the full label set on the task with the provided label ids and returns the resulting labels.''),
          (''parameters'', JArray [doc_path_uuid_parameter ''task_id'' ''Task identifier.'']),
          (''requestBody'', doc_json_request_body (doc_schema_ref ''TaskLabelsPayload'') True),
          (''responses'', JObject [(''200'', JObject [(''description'', JString ''Labels now attached to the task, ordered by name.''),
                  (''content'', JObject [(''application/json'', JObject [(''schema'', doc_array_schema (doc_schema_ref ''LabelResponse''))])])]),
              (''400'', doc_error_response ''Invalid label assignment payload.''),
              (''401'', doc_error_response ''Authentication is required.''),
              (''403'', doc_error_response ''The active role cannot modify tasks.''),
              (''404'', doc_error_response ''Task or one of the labels was not found.''),
              (''500'', doc_error_response ''Unexpected server error.'')])])]"

definition path_tasks_task_id_comments :: json where
  "path_tasks_task_id_comments = JObject [(''get'', JObject [(''tags'', JArray [JString ''comments'']), (''operationId'', JString ''listTaskComments''),
          (''summary'', JString ''List task comments''),
          (''parameters'', JArray [doc_path_uuid_parameter ''task_id'' ''Task identifier.'', doc_limit_query_parameter,
              doc_cursor_query_parameter ''cursor'' ''Opaque cursor from a previous task comment page.'']),
          (''responses'', JObject [(''200'', doc_json_response ''Paginated task comments, newest first.'' (doc_schema_ref ''CommentListResponse'')),
              (''400'', doc_error_response ''Invalid query parameters.''),
              (''401'', doc_error_response ''Authentication is required.''),
              (''404'', doc_error_response ''Task was not found.''),
              (''500'', doc_error_response ''Unexpected server error.'')])]),
      (''post'', JObject [(''tags'', JArray [JString ''comments'']), (''operationId'', JString ''createTaskComment''),
          (''summary'', JString ''Add a comment to a task''),
          (''description'', JString ''Adds a comment authored by the caller. When the task has an assignee other than the author, a notification is queued for the assignee.''),
          (''parameters'', JArray [doc_path_uuid_parameter ''task_id'' ''Task identifier.'', doc_idempotency_header_parameter]),
          (''requestBody'', doc_json_request_body (doc_schema_ref ''CommentPayload'') True),
          (''responses'', JObject [(''201'', doc_json_response ''Comment created.'' (doc_schema_ref ''CommentResponse'')),
              (''400'', doc_error_response ''Invalid comment payload or missing Idempotency-Key.''),
              (''401'', doc_error_response ''Authentication is required.''),
              (''403'', doc_error_response ''The active role cannot comment on tasks.''),
              (''404'', doc_error_response ''Task was not found.''),
              (''409'', doc_error_response ''The idempotency key is in progress or conflicts.''),
              (''500'', doc_error_response ''Unexpected server error.'')])])]"

definition path_tasks_task_id_comments_comment_id :: json where
  "path_tasks_task_id_comments_comment_id = JObject [(''patch'', JObject [(''tags'', JArray [JString ''comments'']), (''operationId'', JString ''updateTaskComment''),
          (''summary'', JString ''Edit a task comment''),
          (''description'', JString ''Only the comment author can edit a comment.''),
          (''parameters'', JArray [doc_path_uuid_parameter ''task_id'' ''Task identifier.'',
              doc_path_uuid_parameter ''comment_id'' ''Comment identifier.'']),
          (''requestBody'', doc_json_request_body (doc_schema_ref ''CommentPatchPayload'') True),
          (''responses'', JObject [(''200'', doc_json_response ''Updated comment.'' (doc_schema_ref ''CommentResponse'')),
              (''400'', doc_error_response ''Invalid comment payload.''),
              (''401'', doc_error_response ''Authentication is required.''),
              (''403'', doc_error_response ''Only the comment author can edit a comment.''),
              (''404'', doc_error_response ''Task or comment was not found.''),
              (''500'', doc_error_response ''Unexpected server error.'')])]),
      (''delete'', JObject [(''tags'', JArray [JString ''comments'']), (''operationId'', JString ''deleteTaskComment''),
          (''summary'', JString ''Delete a task comment''),
          (''description'', JString ''The comment author or an owner/admin can delete a comment.''),
          (''parameters'', JArray [doc_path_uuid_parameter ''task_id'' ''Task identifier.'',
              doc_path_uuid_parameter ''comment_id'' ''Comment identifier.'']),
          (''responses'', JObject [(''204'', JObject [(''description'', JString ''Comment deleted.'')]),
              (''401'', doc_error_response ''Authentication is required.''),
              (''403'', doc_error_response ''Only the comment author or an owner/admin can delete a comment.''),
              (''404'', doc_error_response ''Task or comment was not found.''),
              (''500'', doc_error_response ''Unexpected server error.'')])])]"

definition path_tasks_task_id_attachments :: json where
  "path_tasks_task_id_attachments = JObject [(''get'', JObject [(''tags'', JArray [JString ''attachments'']), (''operationId'', JString ''listTaskAttachments''),
          (''summary'', JString ''List task attachments''),
          (''parameters'', JArray [doc_path_uuid_parameter ''task_id'' ''Task identifier.'']),
          (''responses'', JObject [(''200'', JObject [(''description'', JString ''Attachments on the task, newest first.''),
                  (''content'', JObject [(''application/json'', JObject [(''schema'', doc_array_schema (doc_schema_ref ''AttachmentResponse''))])])]),
              (''401'', doc_error_response ''Authentication is required.''),
              (''404'', doc_error_response ''Task was not found.''),
              (''500'', doc_error_response ''Unexpected server error.'')])]),
      (''post'', JObject [(''tags'', JArray [JString ''attachments'']), (''operationId'', JString ''uploadTaskAttachment''),
          (''summary'', JString ''Upload a task attachment''),
          (''description'', JString ''Uploads the raw request body as an attachment. The request Content-Type header is stored as the attachment content type. A task can hold at most 20 attachments; the maximum body size is configured by MAX_ATTACHMENT_SIZE_BYTES (default 5 MiB) and larger uploads are rejected with 413.''),
          (''parameters'', JArray [doc_path_uuid_parameter ''task_id'' ''Task identifier.'',
              JObject [(''name'', JString ''file_name''), (''in'', JString ''query''), (''required'', JBool True),
                (''description'', JString ''File name for the attachment (no path separators).''),
                (''schema'', JObject [(''type'', JString ''string''), (''maxLength'', JNumber 255)])],
              doc_idempotency_header_parameter]),
          (''requestBody'', JObject [(''required'', JBool True),
              (''content'', JObject [(''application/octet-stream'', JObject [(''schema'', JObject [(''type'', JString ''string''), (''format'', JString ''binary'')])])])]),
          (''responses'', JObject [(''201'', doc_json_response ''Attachment created.'' (doc_schema_ref ''AttachmentResponse'')),
              (''400'', doc_error_response ''Invalid file name, empty body, attachment limit reached, or missing Idempotency-Key.''),
              (''401'', doc_error_response ''Authentication is required.''),
              (''403'', doc_error_response ''The active role cannot modify tasks.''),
              (''404'', doc_error_response ''Task was not found.''),
              (''409'', doc_error_response ''The idempotency key is in progress or conflicts.''),
              (''413'', doc_error_response ''The upload exceeds the configured size limit.''),
              (''500'', doc_error_response ''Unexpected server error.'')])])]"

definition path_tasks_task_id_attachments_attachment_id :: json where
  "path_tasks_task_id_attachments_attachment_id = JObject [(''delete'', JObject [(''tags'', JArray [JString ''attachments'']), (''operationId'', JString ''deleteTaskAttachment''),
          (''summary'', JString ''Delete a task attachment''),
          (''description'', JString ''The uploader or an owner/admin can delete an attachment; the stored file is removed as well.''),
          (''parameters'', JArray [doc_path_uuid_parameter ''task_id'' ''Task identifier.'',
              doc_path_uuid_parameter ''attachment_id'' ''Attachment identifier.'']),
          (''responses'', JObject [(''204'', JObject [(''description'', JString ''Attachment deleted.'')]),
              (''401'', doc_error_response ''Authentication is required.''),
              (''403'', doc_error_response ''Only the uploader or an owner/admin can delete an attachment.''),
              (''404'', doc_error_response ''Task or attachment was not found.''),
              (''500'', doc_error_response ''Unexpected server error.'')])])]"

definition path_tasks_task_id_attachments_attachment_id_download :: json where
  "path_tasks_task_id_attachments_attachment_id_download = JObject [(''get'', JObject [(''tags'', JArray [JString ''attachments'']), (''operationId'', JString ''downloadTaskAttachment''),
          (''summary'', JString ''Download a task attachment''),
          (''parameters'', JArray [doc_path_uuid_parameter ''task_id'' ''Task identifier.'',
              doc_path_uuid_parameter ''attachment_id'' ''Attachment identifier.'']),
          (''responses'', JObject [(''200'', JObject [(''description'', JString ''The attachment bytes with the stored content type and a content-disposition file name.''),
                  (''content'', JObject [(''application/octet-stream'', JObject [(''schema'', JObject [(''type'', JString ''string''), (''format'', JString ''binary'')])])])]),
              (''401'', doc_error_response ''Authentication is required.''),
              (''404'', doc_error_response ''Task or attachment was not found, or the content is no longer available.''),
              (''500'', doc_error_response ''Unexpected server error.'')])])]"

definition path_tasks_task_id_audit :: json where
  "path_tasks_task_id_audit = JObject [(''get'', JObject [(''tags'', JArray [JString ''tasks'']), (''operationId'', JString ''listTaskAudit''),
          (''summary'', JString ''List task audit events''),
          (''parameters'', JArray [doc_path_uuid_parameter ''task_id'' ''Task identifier.'', doc_limit_query_parameter,
              doc_cursor_query_parameter ''cursor'' ''Opaque cursor from a previous task audit page.'']),
          (''responses'', JObject [(''200'', doc_json_response ''Paginated task audit events.'' (doc_schema_ref ''TaskAuditListResponse'')),
              (''400'', doc_error_response ''Invalid query parameters.''),
              (''401'', doc_error_response ''Authentication is required.''),
              (''404'', doc_error_response ''Task was not found.''),
              (''500'', doc_error_response ''Unexpected server error.'')])])]"

definition path_exports_tasks :: json where
  "path_exports_tasks = JObject [(''post'', JObject [(''tags'', JArray [JString ''jobs'']), (''operationId'', JString ''createTaskExport''),
          (''summary'', JString ''Create a task export job''),
          (''parameters'', JArray [doc_idempotency_header_parameter]),
          (''requestBody'', doc_json_request_body (doc_schema_ref ''ExportRequest'') True),
          (''responses'', JObject [(''202'', doc_json_response ''Export job accepted.'' (doc_schema_ref ''JobResponse'')),
              (''400'', doc_error_response ''Invalid export payload.''),
              (''401'', doc_error_response ''Authentication is required.''),
              (''403'', doc_error_response ''The active role cannot create export jobs.''),
              (''409'', doc_error_response ''The idempotency key is in progress or conflicts.''),
              (''500'', doc_error_response ''Unexpected server error.'')])])]"

definition path_jobs_job_id :: json where
  "path_jobs_job_id = JObject [(''get'', JObject [(''tags'', JArray [JString ''jobs'']), (''operationId'', JString ''getJob''),
          (''summary'', JString ''Get a background job status''),
          (''parameters'', JArray [doc_path_uuid_parameter ''job_id'' ''Job identifier.'']),
          (''responses'', JObject [(''200'', doc_json_response ''Job status detail.'' (doc_schema_ref ''JobResponse'')),
              (''401'', doc_error_response ''Authentication is required.''),
              (''404'', doc_error_response ''Job was not found.''),
              (''500'', doc_error_response ''Unexpected server error.'')])])]"

definition path_jobs_job_id_result :: json where
  "path_jobs_job_id_result = JObject [(''get'', JObject [(''tags'', JArray [JString ''jobs'']), (''operationId'', JString ''getJobResult''),
          (''summary'', JString ''Get the finalized job result payload''),
          (''parameters'', JArray [doc_path_uuid_parameter ''job_id'' ''Job identifier.'']),
          (''responses'', JObject [(''200'', doc_json_response ''Completed job result.'' (doc_schema_ref ''JobResultResponse'')),
              (''401'', doc_error_response ''Authentication is required.''),
              (''404'', doc_error_response ''Job was not found.''),
              (''409'', doc_error_response ''Job result is not available yet.''),
              (''500'', doc_error_response ''Unexpected server error.'')])])]"

definition path_jobs_job_id_artifact :: json where
  "path_jobs_job_id_artifact = JObject [(''get'', JObject [(''tags'', JArray [JString ''jobs'']), (''operationId'', JString ''downloadJobArtifact''),
          (''summary'', JString ''Download the artifact produced by a completed export job''),
          (''description'', JString ''Streams the export file (JSON or CSV) with a Content-Disposition attachment header.''),
          (''parameters'', JArray [doc_path_uuid_parameter ''job_id'' ''Job identifier.'']),
          (''responses'', JObject [(''200'', JObject [(''description'', JString ''Artifact bytes.''),
                  (''content'', JObject [(''application/json'', JObject [(''schema'', JObject [(''type'', JString ''string''), (''format'', JString ''binary'')])]),
                      (''text/csv'', JObject [(''schema'', JObject [(''type'', JString ''string''), (''format'', JString ''binary'')])])])]),
              (''401'', doc_error_response ''Authentication is required.''),
              (''404'', doc_error_response ''Job or artifact was not found.''),
              (''409'', doc_error_response ''Job result is not available yet.''),
              (''500'', doc_error_response ''Unexpected server error.'')])])]"

definition doc_paths :: "(string \<times> json) list" where
  "doc_paths =
     [(''/healthz'', path_healthz), (''/readyz'', path_readyz), (''/metrics'', path_metrics),
      (''/v1/auth/register'', path_auth_register), (''/v1/auth/login'', path_auth_login),
      (''/v1/auth/oauth/{provider}'', path_auth_oauth_provider), (''/v1/auth/refresh'', path_auth_refresh),
      (''/v1/auth/logout'', path_auth_logout), (''/v1/auth/verify-email'', path_auth_verify_email),
      (''/v1/auth/resend-verification'', path_auth_resend_verification),
      (''/v1/auth/password-reset/request'', path_auth_password_reset_request),
      (''/v1/auth/password-reset/confirm'', path_auth_password_reset_confirm),
      (''/v1/auth/switch-tenant'', path_auth_switch_tenant), (''/v1/me'', path_me),
      (''/v1/me/notification-preferences'', path_me_notification_preferences),
      (''/v1/me/notifications'', path_me_notifications),
      (''/v1/me/notifications/read-all'', path_me_notifications_read_all),
      (''/v1/me/notifications/{notification_id}/read'', path_me_notifications_notification_id_read),
      (''/v1/me/tenants'', path_me_tenants), (''/v1/me/oauth-accounts'', path_me_oauth_accounts),
      (''/v1/me/oauth-accounts/{provider}'', path_me_oauth_accounts_provider),
      (''/v1/me/sessions'', path_me_sessions), (''/v1/me/sessions/{session_id}'', path_me_sessions_session_id),
      (''/v1/dashboard/summary'', path_dashboard_summary),
      (''/v1/me/change-password'', path_me_change_password), (''/v1/me/change-email'', path_me_change_email),
      (''/v1/audit'', path_audit), (''/v1/tenants/{tenant_id}/members'', path_tenants_tenant_id_members),
      (''/v1/tenants/{tenant_id}/members/{member_id}'', path_tenants_tenant_id_members_member_id),
      (''/v1/tenants/{tenant_id}/invitations'', path_tenants_tenant_id_invitations),
      (''/v1/tenants/{tenant_id}/invitations/accept'', path_tenants_tenant_id_invitations_accept),
      (''/v1/tenants/{tenant_id}/invitations/{invitation_id}'', path_tenants_tenant_id_invitations_invitation_id),
      (''/v1/projects'', path_projects), (''/v1/projects/{project_id}'', path_projects_project_id),
      (''/v1/projects/{project_id}/restore'', path_projects_project_id_restore),
      (''/v1/projects/{project_id}/summary'', path_projects_project_id_summary),
      (''/v1/projects/{project_id}/tasks'', path_projects_project_id_tasks), (''/v1/labels'', path_labels),
      (''/v1/labels/{label_id}'', path_labels_label_id), (''/v1/webhooks'', path_webhooks),
      (''/v1/webhooks/{webhook_id}'', path_webhooks_webhook_id),
      (''/v1/webhooks/{webhook_id}/deliveries'', path_webhooks_webhook_id_deliveries),
      (''/v1/webhooks/{webhook_id}/deliveries/{delivery_id}/redeliver'', path_webhooks_webhook_id_deliveries_delivery_id_redeliver),
      (''/v1/tasks'', path_tasks), (''/v1/tasks/bulk/status'', path_tasks_bulk_status),
      (''/v1/tasks/{task_id}'', path_tasks_task_id),
      (''/v1/tasks/{task_id}/restore'', path_tasks_task_id_restore),
      (''/v1/tasks/{task_id}/labels'', path_tasks_task_id_labels),
      (''/v1/tasks/{task_id}/comments'', path_tasks_task_id_comments),
      (''/v1/tasks/{task_id}/comments/{comment_id}'', path_tasks_task_id_comments_comment_id),
      (''/v1/tasks/{task_id}/attachments'', path_tasks_task_id_attachments),
      (''/v1/tasks/{task_id}/attachments/{attachment_id}'', path_tasks_task_id_attachments_attachment_id),
      (''/v1/tasks/{task_id}/attachments/{attachment_id}/download'', path_tasks_task_id_attachments_attachment_id_download),
      (''/v1/tasks/{task_id}/audit'', path_tasks_task_id_audit), (''/v1/exports/tasks'', path_exports_tasks),
      (''/v1/jobs/{job_id}'', path_jobs_job_id), (''/v1/jobs/{job_id}/result'', path_jobs_job_id_result),
      (''/v1/jobs/{job_id}/artifact'', path_jobs_job_id_artifact)]"

section \<open>The document\<close>

text \<open>\<open>version\<close> is the version of the package when it was built.\<close>

definition document :: "string \<Rightarrow> json" where
  "document version = JObject
     [(''openapi'', JString ''3.0.3''),
      (''info'', JObject [(''title'', JString ''Fluxa Backend API''), (''version'', JString version),
         (''description'', JString ''Multi-tenant task platform REST API used by the Fluxa web and mobile clients.'')]),
      (''servers'', JArray [JObject [(''url'', JString ''http://127.0.0.1:18080''),
           (''description'', JString ''Local Docker Compose stack'')]]),
      (''tags'', JArray [JObject [(''name'', JString ''system''),
           (''description'', JString ''Operational health and metrics endpoints.'')],
         JObject [(''name'', JString ''auth''),
           (''description'', JString ''Authentication and tenant session endpoints.'')],
         JObject [(''name'', JString ''tenants''), (''description'', JString ''Tenant-scoped membership endpoints.'')],
         JObject [(''name'', JString ''projects''),
           (''description'', JString ''Tenant-scoped project hierarchy endpoints.'')],
         JObject [(''name'', JString ''labels''),
           (''description'', JString ''Tenant-scoped label management and task label assignment.'')],
         JObject [(''name'', JString ''webhooks''),
           (''description'', JString ''Tenant-scoped webhook subscriptions with HMAC-signed deliveries.'')],
         JObject [(''name'', JString ''comments''), (''description'', JString ''Task comment threads.'')],
         JObject [(''name'', JString ''attachments''),
           (''description'', JString ''Task file attachments stored via the artifact storage backend.'')],
         JObject [(''name'', JString ''tasks''),
           (''description'', JString ''Task CRUD, filtering, and audit endpoints.'')],
         JObject [(''name'', JString ''jobs''),
           (''description'', JString ''Background job creation, status, and results.'')],
         JObject [(''name'', JString ''account''),
           (''description'', JString ''Account lifecycle: email verification, password reset, credential changes.'')],
         JObject [(''name'', JString ''audit''), (''description'', JString ''Tenant audit trail endpoints.'')]]),
      (''security'', JArray [JObject [(''bearerAuth'', JArray [])]]),
      (''paths'', JObject doc_paths),
      (''components'', JObject [(''securitySchemes'', JObject [(''bearerAuth'', JObject [(''type'', JString ''http''), (''scheme'', JString ''bearer''),
                 (''bearerFormat'', JString ''JWT'')])]),
         (''schemas'', JObject doc_schemas)])]"

end
