(* ===== verification/ApiRoutes.thy ===== *)
theory ApiRoutes
  imports Router OpenApiPaths
begin

text \<open>
  The paths and methods of the router of \<open>src/http.rs\<close>, route by route, and that they are the operations the
  OpenAPI document of \<open>src/openapi.rs\<close> lists.
\<close>

section \<open>Paths and methods\<close>

text \<open>The path of a route below \<open>/v1\<close>, as it is registered, and its method.\<close>

primrec public_endpoint :: "public_route \<Rightarrow> string \<times> string" where
  "public_endpoint (Register _) = (''/auth/register'', ''post'')"
| "public_endpoint (Login _) = (''/auth/login'', ''post'')"
| "public_endpoint (OAuthLogin _ _) = (''/auth/oauth/:provider'', ''post'')"
| "public_endpoint (Refresh _) = (''/auth/refresh'', ''post'')"
| "public_endpoint (Logout _) = (''/auth/logout'', ''post'')"
| "public_endpoint (VerifyEmail _) = (''/auth/verify-email'', ''post'')"
| "public_endpoint (ResendVerification _) = (''/auth/resend-verification'', ''post'')"
| "public_endpoint (RequestPasswordReset _) = (''/auth/password-reset/request'', ''post'')"
| "public_endpoint (ConfirmPasswordReset _) = (''/auth/password-reset/confirm'', ''post'')"

primrec own_endpoint :: "own_route \<Rightarrow> string \<times> string" where
  "own_endpoint (SwitchTenant _) = (''/auth/switch-tenant'', ''post'')"
| "own_endpoint Dashboard = (''/dashboard/summary'', ''get'')"
| "own_endpoint Me = (''/me'', ''get'')"
| "own_endpoint (UpdateProfile _) = (''/me'', ''patch'')"
| "own_endpoint GetPreferences = (''/me/notification-preferences'', ''get'')"
| "own_endpoint (UpdatePreferences _) = (''/me/notification-preferences'', ''patch'')"
| "own_endpoint (ListMyNotifications _) = (''/me/notifications'', ''get'')"
| "own_endpoint MarkAllNotificationsRead = (''/me/notifications/read-all'', ''post'')"
| "own_endpoint (MarkNotificationRead _) = (''/me/notifications/:notification_id/read'', ''post'')"
| "own_endpoint ListMyTenants = (''/me/tenants'', ''get'')"

primrec session_endpoint :: "session_route \<Rightarrow> string \<times> string" where
  "session_endpoint ListOAuthAccounts = (''/me/oauth-accounts'', ''get'')"
| "session_endpoint (UnlinkOAuthAccount _) = (''/me/oauth-accounts/:provider'', ''delete'')"
| "session_endpoint ListSessions = (''/me/sessions'', ''get'')"
| "session_endpoint LogoutAllSessions = (''/me/sessions'', ''delete'')"
| "session_endpoint (RevokeSession _) = (''/me/sessions/:session_id'', ''delete'')"
| "session_endpoint (ChangePassword _) = (''/me/change-password'', ''post'')"
| "session_endpoint (ChangeEmail _) = (''/me/change-email'', ''post'')"

primrec tenant_endpoint :: "tenant_route \<Rightarrow> string \<times> string" where
  "tenant_endpoint (ListAuditEvents _) = (''/audit'', ''get'')"
| "tenant_endpoint (ListMembers _) = (''/tenants/:tenant_id/members'', ''get'')"
| "tenant_endpoint (UpdateMemberRole _ _ _) = (''/tenants/:tenant_id/members/:member_id'', ''patch'')"
| "tenant_endpoint (RemoveMember _ _) = (''/tenants/:tenant_id/members/:member_id'', ''delete'')"
| "tenant_endpoint (ListInvitations _) = (''/tenants/:tenant_id/invitations'', ''get'')"
| "tenant_endpoint (CreateInvitation _ _) = (''/tenants/:tenant_id/invitations'', ''post'')"
| "tenant_endpoint (AcceptInvitation _ _) = (''/tenants/:tenant_id/invitations/accept'', ''post'')"
| "tenant_endpoint (RevokeInvitation _ _) = (''/tenants/:tenant_id/invitations/:invitation_id'', ''delete'')"

primrec project_endpoint :: "project_route \<Rightarrow> string \<times> string" where
  "project_endpoint ListProjects = (''/projects'', ''get'')"
| "project_endpoint (CreateProject _) = (''/projects'', ''post'')"
| "project_endpoint (GetProject _) = (''/projects/:project_id'', ''get'')"
| "project_endpoint (UpdateProject _ _) = (''/projects/:project_id'', ''patch'')"
| "project_endpoint (DeleteProject _) = (''/projects/:project_id'', ''delete'')"
| "project_endpoint (RestoreProject _) = (''/projects/:project_id/restore'', ''post'')"
| "project_endpoint (GetProjectSummary _) = (''/projects/:project_id/summary'', ''get'')"
| "project_endpoint (ListProjectTasks _ _) = (''/projects/:project_id/tasks'', ''get'')"

primrec label_endpoint :: "label_route \<Rightarrow> string \<times> string" where
  "label_endpoint ListLabels = (''/labels'', ''get'')"
| "label_endpoint (CreateLabel _) = (''/labels'', ''post'')"
| "label_endpoint (UpdateLabel _ _) = (''/labels/:label_id'', ''patch'')"
| "label_endpoint (DeleteLabel _) = (''/labels/:label_id'', ''delete'')"
| "label_endpoint (GetTaskLabels _) = (''/tasks/:task_id/labels'', ''get'')"
| "label_endpoint (PutTaskLabels _ _) = (''/tasks/:task_id/labels'', ''put'')"

primrec webhook_endpoint :: "webhook_route \<Rightarrow> string \<times> string" where
  "webhook_endpoint ListWebhooks = (''/webhooks'', ''get'')"
| "webhook_endpoint (CreateWebhook _) = (''/webhooks'', ''post'')"
| "webhook_endpoint (UpdateWebhook _ _) = (''/webhooks/:webhook_id'', ''patch'')"
| "webhook_endpoint (DeleteWebhook _) = (''/webhooks/:webhook_id'', ''delete'')"
| "webhook_endpoint (ListDeliveries _ _) = (''/webhooks/:webhook_id/deliveries'', ''get'')"
| "webhook_endpoint (Redeliver _ _) = (''/webhooks/:webhook_id/deliveries/:delivery_id/redeliver'', ''post'')"

primrec task_endpoint :: "task_route \<Rightarrow> string \<times> string" where
  "task_endpoint (ListTasks _) = (''/tasks'', ''get'')"
| "task_endpoint (CreateTask _) = (''/tasks'', ''post'')"
| "task_endpoint (BulkTaskStatus _) = (''/tasks/bulk/status'', ''post'')"
| "task_endpoint (GetTask _) = (''/tasks/:task_id'', ''get'')"
| "task_endpoint (UpdateTask _ _) = (''/tasks/:task_id'', ''patch'')"
| "task_endpoint (DeleteTask _) = (''/tasks/:task_id'', ''delete'')"
| "task_endpoint (RestoreTask _) = (''/tasks/:task_id/restore'', ''post'')"
| "task_endpoint (ListTaskAudit _ _) = (''/tasks/:task_id/audit'', ''get'')"

primrec note_endpoint :: "note_route \<Rightarrow> string \<times> string" where
  "note_endpoint (ListComments _ _) = (''/tasks/:task_id/comments'', ''get'')"
| "note_endpoint (CreateComment _ _) = (''/tasks/:task_id/comments'', ''post'')"
| "note_endpoint (UpdateComment _ _ _) = (''/tasks/:task_id/comments/:comment_id'', ''patch'')"
| "note_endpoint (DeleteComment _ _) = (''/tasks/:task_id/comments/:comment_id'', ''delete'')"
| "note_endpoint (ListAttachments _) = (''/tasks/:task_id/attachments'', ''get'')"
| "note_endpoint (UploadAttachment _ _ _) = (''/tasks/:task_id/attachments'', ''post'')"
| "note_endpoint (DeleteAttachment _ _) = (''/tasks/:task_id/attachments/:attachment_id'', ''delete'')"
| "note_endpoint (DownloadAttachment _ _) = (''/tasks/:task_id/attachments/:attachment_id/download'', ''get'')"

primrec job_endpoint :: "job_route \<Rightarrow> string \<times> string" where
  "job_endpoint (CreateExport _) = (''/exports/tasks'', ''post'')"
| "job_endpoint (GetJob _) = (''/jobs/:job_id'', ''get'')"
| "job_endpoint (GetJobResult _) = (''/jobs/:job_id/result'', ''get'')"
| "job_endpoint (DownloadArtifact _) = (''/jobs/:job_id/artifact'', ''get'')"

primrec protected_endpoint :: "protected_route \<Rightarrow> string \<times> string" where
  "protected_endpoint (Own r) = own_endpoint r"
| "protected_endpoint (Session r) = session_endpoint r"
| "protected_endpoint (Tenant r) = tenant_endpoint r"
| "protected_endpoint (Project r) = project_endpoint r"
| "protected_endpoint (Label r) = label_endpoint r"
| "protected_endpoint (Webhook r) = webhook_endpoint r"
| "protected_endpoint (Task r) = task_endpoint r"
| "protected_endpoint (Note r) = note_endpoint r"
| "protected_endpoint (Job r) = job_endpoint r"

definition nest :: "string \<Rightarrow> string \<times> string \<Rightarrow> string \<times> string" where
  "nest base e = (base @ fst e, snd e)"

primrec endpoint :: "request_route \<Rightarrow> string \<times> string" where
  "endpoint Healthz = (''/healthz'', ''get'')"
| "endpoint Readyz = (''/readyz'', ''get'')"
| "endpoint (Metrics _) = (''/metrics'', ''get'')"
| "endpoint (Public r) = nest ''/v1'' (public_endpoint r)"
| "endpoint (Protected r) = nest ''/v1'' (protected_endpoint r)"

section \<open>The documented operations\<close>

text \<open>The document writes a path parameter in braces.\<close>

fun braced :: "string \<Rightarrow> string" where
  "braced (c # s) = (if c = CHR '':'' then ''{'' @ s @ ''}'' else c # s)"
| "braced [] = []"

definition template :: "string \<Rightarrow> string" where
  "template p = join_with ''/'' (map braced (split_on CHR ''/'' p))"

definition needs_token :: "request_route \<Rightarrow> bool" where
  "needs_token r = (case r of Protected _ \<Rightarrow> True | _ \<Rightarrow> False)"

definition offered :: "request_route \<Rightarrow> string \<times> string \<times> bool" where
  "offered r = (template (fst (endpoint r)), snd (endpoint r), needs_token r)"

definition key_values :: "json \<Rightarrow> (string \<times> json) list" where
  "key_values v = (case v of JObject kvs \<Rightarrow> kvs | _ \<Rightarrow> [])"

text \<open>Path, method, and whether the operation inherits the security requirement of the document.\<close>

definition documented :: "json \<Rightarrow> (string \<times> string \<times> bool) list" where
  "documented doc =
     concat (map (\<lambda>(path, item). map (\<lambda>(verb, op). (path, verb, json_get op ''security'' \<noteq> Some (JArray []))) (key_values item))
       (case json_get doc ''paths'' of Some ps \<Rightarrow> key_values ps | None \<Rightarrow> []))"

definition operation_list :: "(string \<times> string \<times> bool) list" where
  "operation_list =
     [(''/healthz'', ''get'', False), (''/readyz'', ''get'', False), (''/metrics'', ''get'', False),
      (''/v1/auth/register'', ''post'', False), (''/v1/auth/login'', ''post'', False),
      (''/v1/auth/oauth/{provider}'', ''post'', False), (''/v1/auth/refresh'', ''post'', False),
      (''/v1/auth/logout'', ''post'', False), (''/v1/auth/verify-email'', ''post'', False),
      (''/v1/auth/resend-verification'', ''post'', False),
      (''/v1/auth/password-reset/request'', ''post'', False),
      (''/v1/auth/password-reset/confirm'', ''post'', False), (''/v1/auth/switch-tenant'', ''post'', True),
      (''/v1/me'', ''get'', True), (''/v1/me'', ''patch'', True),
      (''/v1/me/notification-preferences'', ''get'', True),
      (''/v1/me/notification-preferences'', ''patch'', True), (''/v1/me/notifications'', ''get'', True),
      (''/v1/me/notifications/read-all'', ''post'', True),
      (''/v1/me/notifications/{notification_id}/read'', ''post'', True), (''/v1/me/tenants'', ''get'', True),
      (''/v1/me/oauth-accounts'', ''get'', True), (''/v1/me/oauth-accounts/{provider}'', ''delete'', True),
      (''/v1/me/sessions'', ''get'', True), (''/v1/me/sessions'', ''delete'', True),
      (''/v1/me/sessions/{session_id}'', ''delete'', True), (''/v1/dashboard/summary'', ''get'', True),
      (''/v1/me/change-password'', ''post'', True), (''/v1/me/change-email'', ''post'', True),
      (''/v1/audit'', ''get'', True), (''/v1/tenants/{tenant_id}/members'', ''get'', True),
      (''/v1/tenants/{tenant_id}/members/{member_id}'', ''patch'', True),
      (''/v1/tenants/{tenant_id}/members/{member_id}'', ''delete'', True),
      (''/v1/tenants/{tenant_id}/invitations'', ''get'', True),
      (''/v1/tenants/{tenant_id}/invitations'', ''post'', True),
      (''/v1/tenants/{tenant_id}/invitations/accept'', ''post'', True),
      (''/v1/tenants/{tenant_id}/invitations/{invitation_id}'', ''delete'', True),
      (''/v1/projects'', ''get'', True), (''/v1/projects'', ''post'', True),
      (''/v1/projects/{project_id}'', ''get'', True), (''/v1/projects/{project_id}'', ''patch'', True),
      (''/v1/projects/{project_id}'', ''delete'', True), (''/v1/projects/{project_id}/restore'', ''post'', True),
      (''/v1/projects/{project_id}/summary'', ''get'', True),
      (''/v1/projects/{project_id}/tasks'', ''get'', True), (''/v1/labels'', ''get'', True),
      (''/v1/labels'', ''post'', True), (''/v1/labels/{label_id}'', ''patch'', True),
      (''/v1/labels/{label_id}'', ''delete'', True), (''/v1/webhooks'', ''get'', True),
      (''/v1/webhooks'', ''post'', True), (''/v1/webhooks/{webhook_id}'', ''patch'', True),
      (''/v1/webhooks/{webhook_id}'', ''delete'', True),
      (''/v1/webhooks/{webhook_id}/deliveries'', ''get'', True),
      (''/v1/webhooks/{webhook_id}/deliveries/{delivery_id}/redeliver'', ''post'', True),
      (''/v1/tasks'', ''get'', True), (''/v1/tasks'', ''post'', True),
      (''/v1/tasks/bulk/status'', ''post'', True), (''/v1/tasks/{task_id}'', ''get'', True),
      (''/v1/tasks/{task_id}'', ''patch'', True), (''/v1/tasks/{task_id}'', ''delete'', True),
      (''/v1/tasks/{task_id}/restore'', ''post'', True), (''/v1/tasks/{task_id}/labels'', ''get'', True),
      (''/v1/tasks/{task_id}/labels'', ''put'', True), (''/v1/tasks/{task_id}/comments'', ''get'', True),
      (''/v1/tasks/{task_id}/comments'', ''post'', True),
      (''/v1/tasks/{task_id}/comments/{comment_id}'', ''patch'', True),
      (''/v1/tasks/{task_id}/comments/{comment_id}'', ''delete'', True),
      (''/v1/tasks/{task_id}/attachments'', ''get'', True),
      (''/v1/tasks/{task_id}/attachments'', ''post'', True),
      (''/v1/tasks/{task_id}/attachments/{attachment_id}'', ''delete'', True),
      (''/v1/tasks/{task_id}/attachments/{attachment_id}/download'', ''get'', True),
      (''/v1/tasks/{task_id}/audit'', ''get'', True), (''/v1/exports/tasks'', ''post'', True),
      (''/v1/jobs/{job_id}'', ''get'', True), (''/v1/jobs/{job_id}/result'', ''get'', True),
      (''/v1/jobs/{job_id}/artifact'', ''get'', True)]"

definition route_list :: "request_route list" where
  "route_list =
     [Healthz, Readyz, Metrics undefined, Public (Register undefined), Public (Login undefined),
      Public (OAuthLogin undefined undefined), Public (Refresh undefined), Public (Logout undefined),
      Public (VerifyEmail undefined), Public (ResendVerification undefined),
      Public (RequestPasswordReset undefined), Public (ConfirmPasswordReset undefined),
      Protected (Own (SwitchTenant undefined)), Protected (Own Me), Protected (Own (UpdateProfile undefined)),
      Protected (Own GetPreferences), Protected (Own (UpdatePreferences undefined)),
      Protected (Own (ListMyNotifications undefined)), Protected (Own MarkAllNotificationsRead),
      Protected (Own (MarkNotificationRead undefined)), Protected (Own ListMyTenants),
      Protected (Session ListOAuthAccounts), Protected (Session (UnlinkOAuthAccount undefined)),
      Protected (Session ListSessions), Protected (Session LogoutAllSessions),
      Protected (Session (RevokeSession undefined)), Protected (Own Dashboard),
      Protected (Session (ChangePassword undefined)), Protected (Session (ChangeEmail undefined)),
      Protected (Tenant (ListAuditEvents undefined)), Protected (Tenant (ListMembers undefined)),
      Protected (Tenant (UpdateMemberRole undefined undefined undefined)),
      Protected (Tenant (RemoveMember undefined undefined)), Protected (Tenant (ListInvitations undefined)),
      Protected (Tenant (CreateInvitation undefined undefined)),
      Protected (Tenant (AcceptInvitation undefined undefined)),
      Protected (Tenant (RevokeInvitation undefined undefined)), Protected (Project ListProjects),
      Protected (Project (CreateProject undefined)), Protected (Project (GetProject undefined)),
      Protected (Project (UpdateProject undefined undefined)), Protected (Project (DeleteProject undefined)),
      Protected (Project (RestoreProject undefined)), Protected (Project (GetProjectSummary undefined)),
      Protected (Project (ListProjectTasks undefined undefined)), Protected (Label ListLabels),
      Protected (Label (CreateLabel undefined)), Protected (Label (UpdateLabel undefined undefined)),
      Protected (Label (DeleteLabel undefined)), Protected (Webhook ListWebhooks),
      Protected (Webhook (CreateWebhook undefined)), Protected (Webhook (UpdateWebhook undefined undefined)),
      Protected (Webhook (DeleteWebhook undefined)), Protected (Webhook (ListDeliveries undefined undefined)),
      Protected (Webhook (Redeliver undefined undefined)), Protected (Task (ListTasks undefined)),
      Protected (Task (CreateTask undefined)), Protected (Task (BulkTaskStatus undefined)),
      Protected (Task (GetTask undefined)), Protected (Task (UpdateTask undefined undefined)),
      Protected (Task (DeleteTask undefined)), Protected (Task (RestoreTask undefined)),
      Protected (Label (GetTaskLabels undefined)), Protected (Label (PutTaskLabels undefined undefined)),
      Protected (Note (ListComments undefined undefined)), Protected (Note (CreateComment undefined undefined)),
      Protected (Note (UpdateComment undefined undefined undefined)),
      Protected (Note (DeleteComment undefined undefined)), Protected (Note (ListAttachments undefined)),
      Protected (Note (UploadAttachment undefined undefined undefined)),
      Protected (Note (DeleteAttachment undefined undefined)),
      Protected (Note (DownloadAttachment undefined undefined)),
      Protected (Task (ListTaskAudit undefined undefined)), Protected (Job (CreateExport undefined)),
      Protected (Job (GetJob undefined)), Protected (Job (GetJobResult undefined)),
      Protected (Job (DownloadArtifact undefined))]"

lemma documented_eq: "documented (document version) = operation_list"
proof -
  have "json_get (document version) ''paths'' = Some (JObject doc_paths)" by (simp add: document_def)
  moreover have "concat (map (\<lambda>(path, item). map (\<lambda>(verb, op). (path, verb, json_get op ''security'' \<noteq> Some (JArray []))) (key_values item))
       doc_paths) = operation_list" by code_simp
  ultimately show ?thesis by (simp add: documented_def key_values_def)
qed

lemma offered_list: "map offered route_list = operation_list"
  by code_simp

lemma offered_listed: "offered r \<in> set operation_list"
proof -
  have group: "\<And>q. offered (Public q) \<in> set operation_list" "\<And>q. offered (Protected (Own q)) \<in> set operation_list"
    "\<And>q. offered (Protected (Session q)) \<in> set operation_list" "\<And>q. offered (Protected (Tenant q)) \<in> set operation_list"
    "\<And>q. offered (Protected (Project q)) \<in> set operation_list" "\<And>q. offered (Protected (Label q)) \<in> set operation_list"
    "\<And>q. offered (Protected (Webhook q)) \<in> set operation_list" "\<And>q. offered (Protected (Task q)) \<in> set operation_list"
    "\<And>q. offered (Protected (Note q)) \<in> set operation_list" "\<And>q. offered (Protected (Job q)) \<in> set operation_list"
    by (case_tac [!] q) (simp_all add: offered_def nest_def template_def needs_token_def operation_list_def)
  show ?thesis
  proof (cases r)
    case (Protected q)
    then show ?thesis by (cases q) (simp_all add: group)
  qed (simp_all add: group(1), simp_all add: offered_def nest_def template_def needs_token_def operation_list_def)
qed


end
