(* ===== verification/ApiPromises.thy ===== *)
theory ApiPromises
  imports ApiRoutes ApiReplies
begin

text \<open>
  What the OpenAPI document promises of the success of an operation: the answer it lists for a status, and,
  route by route, the status and the answer of a success.
\<close>

text \<open>The answer of an operation listed under a status. A body of text or of any bytes has a plain string
  schema, whatever its media type.\<close>

definition operation_of :: "json \<Rightarrow> string \<Rightarrow> string \<Rightarrow> json option" where
  "operation_of doc path verb =
     Option.bind (json_get doc ''paths'') (\<lambda>ps. Option.bind (json_get ps path) (\<lambda>item. json_get item verb))"

definition listed_answer :: "json \<Rightarrow> answer" where
  "listed_answer r =
     (case entries_of (json_get r ''content'') of
        [] \<Rightarrow> NoContent
      | (_, media) # _ \<Rightarrow>
          (case json_get media ''schema'' of
             None \<Rightarrow> Bytes
           | Some s \<Rightarrow> if keyword s ''type'' = Some ''string'' then Bytes else JsonAnswer s))"

definition answer_of :: "json \<Rightarrow> string \<Rightarrow> string \<Rightarrow> nat \<Rightarrow> answer option" where
  "answer_of doc path verb status =
     Option.bind (operation_of doc path verb) (\<lambda>op.
     Option.bind (json_get op ''responses'') (\<lambda>rs.
     map_option listed_answer (json_get rs (nat_text status))))"

section \<open>Successes\<close>

primrec public_promise :: "public_route \<Rightarrow> nat \<times> answer" where
  "public_promise (Register _) = (201, JsonAnswer (doc_schema_ref ''AuthResponse''))"
| "public_promise (Login _) = (200, JsonAnswer (doc_schema_ref ''AuthResponse''))"
| "public_promise (OAuthLogin _ _) = (200, JsonAnswer (doc_schema_ref ''AuthResponse''))"
| "public_promise (Refresh _) = (200, JsonAnswer (doc_schema_ref ''AuthResponse''))"
| "public_promise (Logout _) = (204, NoContent)"
| "public_promise (VerifyEmail _) = (204, NoContent)"
| "public_promise (ResendVerification _) = (202, NoContent)"
| "public_promise (RequestPasswordReset _) = (202, NoContent)"
| "public_promise (ConfirmPasswordReset _) = (204, NoContent)"

primrec own_promise :: "own_route \<Rightarrow> nat \<times> answer" where
  "own_promise (SwitchTenant _) = (200, JsonAnswer (doc_schema_ref ''AuthResponse''))"
| "own_promise Dashboard = (200, JsonAnswer (doc_schema_ref ''DashboardSummary''))"
| "own_promise Me = (200, JsonAnswer (doc_schema_ref ''MeResponse''))"
| "own_promise (UpdateProfile _) = (200, JsonAnswer (doc_schema_ref ''UserResponse''))"
| "own_promise GetPreferences = (200, JsonAnswer (doc_schema_ref ''NotificationPreferencesResponse''))"
| "own_promise (UpdatePreferences _) = (200, JsonAnswer (doc_schema_ref ''NotificationPreferencesResponse''))"
| "own_promise (ListMyNotifications _) = (200, JsonAnswer (doc_schema_ref ''NotificationFeedResponse''))"
| "own_promise MarkAllNotificationsRead = (200, JsonAnswer (doc_schema_ref ''NotificationsReadAllResponse''))"
| "own_promise (MarkNotificationRead _) = (204, NoContent)"
| "own_promise ListMyTenants = (200, JsonAnswer (doc_array_schema (doc_schema_ref ''TenantMembershipResponse'')))"

primrec session_promise :: "session_route \<Rightarrow> nat \<times> answer" where
  "session_promise ListOAuthAccounts = (200, JsonAnswer (doc_array_schema (doc_schema_ref ''OAuthAccountResponse'')))"
| "session_promise (UnlinkOAuthAccount _) = (204, NoContent)"
| "session_promise ListSessions = (200, JsonAnswer (doc_array_schema (doc_schema_ref ''SessionResponse'')))"
| "session_promise LogoutAllSessions = (204, NoContent)"
| "session_promise (RevokeSession _) = (204, NoContent)"
| "session_promise (ChangePassword _) = (204, NoContent)"
| "session_promise (ChangeEmail _) = (200, JsonAnswer (doc_schema_ref ''UserResponse''))"

primrec tenant_promise :: "tenant_route \<Rightarrow> nat \<times> answer" where
  "tenant_promise (ListAuditEvents _) = (200, JsonAnswer (doc_schema_ref ''AuditListResponse''))"
| "tenant_promise (ListMembers _) = (200, JsonAnswer (doc_array_schema (doc_schema_ref ''TenantMemberResponse'')))"
| "tenant_promise (UpdateMemberRole _ _ _) = (200, JsonAnswer (doc_schema_ref ''TenantMemberResponse''))"
| "tenant_promise (RemoveMember _ _) = (204, NoContent)"
| "tenant_promise (ListInvitations _) = (200, JsonAnswer (doc_array_schema (doc_schema_ref ''InvitationResponse'')))"
| "tenant_promise (CreateInvitation _ _) = (201, JsonAnswer (doc_schema_ref ''InvitationCreateResponse''))"
| "tenant_promise (AcceptInvitation _ _) = (200, JsonAnswer (doc_schema_ref ''TenantMembershipResponse''))"
| "tenant_promise (RevokeInvitation _ _) = (204, NoContent)"

primrec project_promise :: "project_route \<Rightarrow> nat \<times> answer" where
  "project_promise ListProjects = (200, JsonAnswer (doc_array_schema (doc_schema_ref ''ProjectResponse'')))"
| "project_promise (CreateProject _) = (201, JsonAnswer (doc_schema_ref ''ProjectResponse''))"
| "project_promise (GetProject _) = (200, JsonAnswer (doc_schema_ref ''ProjectResponse''))"
| "project_promise (UpdateProject _ _) = (200, JsonAnswer (doc_schema_ref ''ProjectResponse''))"
| "project_promise (DeleteProject _) = (204, NoContent)"
| "project_promise (RestoreProject _) = (200, JsonAnswer (doc_schema_ref ''ProjectResponse''))"
| "project_promise (GetProjectSummary _) = (200, JsonAnswer (doc_schema_ref ''ProjectSummary''))"
| "project_promise (ListProjectTasks _ _) = (200, JsonAnswer (doc_schema_ref ''TaskListResponse''))"

primrec label_promise :: "label_route \<Rightarrow> nat \<times> answer" where
  "label_promise ListLabels = (200, JsonAnswer (doc_array_schema (doc_schema_ref ''LabelResponse'')))"
| "label_promise (CreateLabel _) = (201, JsonAnswer (doc_schema_ref ''LabelResponse''))"
| "label_promise (UpdateLabel _ _) = (200, JsonAnswer (doc_schema_ref ''LabelResponse''))"
| "label_promise (DeleteLabel _) = (204, NoContent)"
| "label_promise (GetTaskLabels _) = (200, JsonAnswer (doc_array_schema (doc_schema_ref ''LabelResponse'')))"
| "label_promise (PutTaskLabels _ _) = (200, JsonAnswer (doc_array_schema (doc_schema_ref ''LabelResponse'')))"

primrec webhook_promise :: "webhook_route \<Rightarrow> nat \<times> answer" where
  "webhook_promise ListWebhooks = (200, JsonAnswer (doc_array_schema (doc_schema_ref ''WebhookResponse'')))"
| "webhook_promise (CreateWebhook _) = (201, JsonAnswer (doc_schema_ref ''WebhookCreateResponse''))"
| "webhook_promise (UpdateWebhook _ _) = (200, JsonAnswer (doc_schema_ref ''WebhookResponse''))"
| "webhook_promise (DeleteWebhook _) = (204, NoContent)"
| "webhook_promise (ListDeliveries _ _) = (200, JsonAnswer (doc_schema_ref ''WebhookDeliveryListResponse''))"
| "webhook_promise (Redeliver _ _) = (202, JsonAnswer (doc_schema_ref ''WebhookDeliveryResponse''))"

primrec task_promise :: "task_route \<Rightarrow> nat \<times> answer" where
  "task_promise (ListTasks _) = (200, JsonAnswer (doc_schema_ref ''TaskListResponse''))"
| "task_promise (CreateTask _) = (201, JsonAnswer (doc_schema_ref ''TaskResponse''))"
| "task_promise (BulkTaskStatus _) = (200, JsonAnswer (doc_schema_ref ''BulkTaskStatusResponse''))"
| "task_promise (GetTask _) = (200, JsonAnswer (doc_schema_ref ''TaskResponse''))"
| "task_promise (UpdateTask _ _) = (200, JsonAnswer (doc_schema_ref ''TaskResponse''))"
| "task_promise (DeleteTask _) = (204, NoContent)"
| "task_promise (RestoreTask _) = (200, JsonAnswer (doc_schema_ref ''TaskResponse''))"
| "task_promise (ListTaskAudit _ _) = (200, JsonAnswer (doc_schema_ref ''TaskAuditListResponse''))"

primrec note_promise :: "note_route \<Rightarrow> nat \<times> answer" where
  "note_promise (ListComments _ _) = (200, JsonAnswer (doc_schema_ref ''CommentListResponse''))"
| "note_promise (CreateComment _ _) = (201, JsonAnswer (doc_schema_ref ''CommentResponse''))"
| "note_promise (UpdateComment _ _ _) = (200, JsonAnswer (doc_schema_ref ''CommentResponse''))"
| "note_promise (DeleteComment _ _) = (204, NoContent)"
| "note_promise (ListAttachments _) = (200, JsonAnswer (doc_array_schema (doc_schema_ref ''AttachmentResponse'')))"
| "note_promise (UploadAttachment _ _ _) = (201, JsonAnswer (doc_schema_ref ''AttachmentResponse''))"
| "note_promise (DeleteAttachment _ _) = (204, NoContent)"
| "note_promise (DownloadAttachment _ _) = (200, Bytes)"

primrec job_promise :: "job_route \<Rightarrow> nat \<times> answer" where
  "job_promise (CreateExport _) = (202, JsonAnswer (doc_schema_ref ''JobResponse''))"
| "job_promise (GetJob _) = (200, JsonAnswer (doc_schema_ref ''JobResponse''))"
| "job_promise (GetJobResult _) = (200, JsonAnswer (doc_schema_ref ''JobResultResponse''))"
| "job_promise (DownloadArtifact _) = (200, Bytes)"

primrec protected_promise :: "protected_route \<Rightarrow> nat \<times> answer" where
  "protected_promise (Own r) = own_promise r"
| "protected_promise (Session r) = session_promise r"
| "protected_promise (Tenant r) = tenant_promise r"
| "protected_promise (Project r) = project_promise r"
| "protected_promise (Label r) = label_promise r"
| "protected_promise (Webhook r) = webhook_promise r"
| "protected_promise (Task r) = task_promise r"
| "protected_promise (Note r) = note_promise r"
| "protected_promise (Job r) = job_promise r"

primrec promise :: "request_route \<Rightarrow> nat \<times> answer" where
  "promise Healthz = (200, JsonAnswer (doc_schema_ref ''HealthResponse''))"
| "promise Readyz = (200, JsonAnswer (doc_schema_ref ''HealthResponse''))"
| "promise (Metrics _) = (200, Bytes)"
| "promise (Public r) = public_promise r"
| "promise (Protected r) = protected_promise r"

lemma status_texts: "nat_text 200 = ''200''" "nat_text 201 = ''201''" "nat_text 202 = ''202''" "nat_text 204 = ''204''"
  by code_simp+

lemma items_found: "xs = ys \<Longrightarrow> distinct (map fst xs) \<Longrightarrow> list_all (\<lambda>(k, v). map_of xs k = Some v) ys"
  by (auto simp: list_all_iff)

lemma paths_distinct: "distinct (map fst doc_paths)"
  by code_simp

text \<open>The path item of every path.\<close>

lemmas path_items = items_found [OF doc_paths_def paths_distinct, unfolded list.pred_inject prod.case]

lemmas path_item_defs =
  path_healthz_def path_readyz_def path_metrics_def path_auth_register_def path_auth_login_def
  path_auth_oauth_provider_def path_auth_refresh_def path_auth_logout_def path_auth_verify_email_def
  path_auth_resend_verification_def path_auth_password_reset_request_def path_auth_password_reset_confirm_def
  path_auth_switch_tenant_def path_me_def path_me_notification_preferences_def path_me_notifications_def
  path_me_notifications_read_all_def path_me_notifications_notification_id_read_def path_me_tenants_def
  path_me_oauth_accounts_def path_me_oauth_accounts_provider_def path_me_sessions_def
  path_me_sessions_session_id_def path_dashboard_summary_def path_me_change_password_def
  path_me_change_email_def path_audit_def path_tenants_tenant_id_members_def
  path_tenants_tenant_id_members_member_id_def path_tenants_tenant_id_invitations_def
  path_tenants_tenant_id_invitations_accept_def path_tenants_tenant_id_invitations_invitation_id_def
  path_projects_def path_projects_project_id_def path_projects_project_id_restore_def
  path_projects_project_id_summary_def path_projects_project_id_tasks_def path_labels_def
  path_labels_label_id_def path_webhooks_def path_webhooks_webhook_id_def
  path_webhooks_webhook_id_deliveries_def path_webhooks_webhook_id_deliveries_delivery_id_redeliver_def
  path_tasks_def path_tasks_bulk_status_def path_tasks_task_id_def path_tasks_task_id_restore_def
  path_tasks_task_id_labels_def path_tasks_task_id_comments_def path_tasks_task_id_comments_comment_id_def
  path_tasks_task_id_attachments_def path_tasks_task_id_attachments_attachment_id_def
  path_tasks_task_id_attachments_attachment_id_download_def path_tasks_task_id_audit_def
  path_exports_tasks_def path_jobs_job_id_def path_jobs_job_id_result_def path_jobs_job_id_artifact_def

lemmas listing_defs = listed_answer_def entries_of_def keyword_def doc_json_response_def doc_text_response_def
  doc_no_content_response_def doc_schema_ref_def doc_array_schema_def

definition promised :: "request_route \<Rightarrow> bool" where
  "promised r \<longleftrightarrow> Option.bind (map_of doc_paths (template (fst (endpoint r)))) (\<lambda>item.
     Option.bind (json_get item (snd (endpoint r))) (\<lambda>op.
     Option.bind (json_get op ''responses'') (\<lambda>rs.
     map_option listed_answer (json_get rs (nat_text (fst (promise r))))))) = Some (snd (promise r))"

lemmas promised_defs = promised_def nest_def template_def path_items status_texts

lemma public_promised: "promised (Public q)"
  by (cases q; simp add: promised_defs path_item_defs listing_defs)

lemma own_promised: "promised (Protected (Own q))"
  by (cases q; simp add: promised_defs path_item_defs listing_defs)

lemma session_promised: "promised (Protected (Session q))"
  by (cases q; simp add: promised_defs path_item_defs listing_defs)

lemma tenant_promised: "promised (Protected (Tenant q))"
  by (cases q; simp add: promised_defs path_item_defs listing_defs)

lemma project_promised: "promised (Protected (Project q))"
  by (cases q; simp add: promised_defs path_item_defs listing_defs)

lemma label_promised: "promised (Protected (Label q))"
  by (cases q; simp add: promised_defs path_item_defs listing_defs)

lemma webhook_promised: "promised (Protected (Webhook q))"
  by (cases q; simp add: promised_defs path_item_defs listing_defs)

lemma task_promised: "promised (Protected (Task q))"
  by (cases q; simp add: promised_defs path_item_defs listing_defs)

lemma note_promised: "promised (Protected (Note q))"
  by (cases q; simp add: promised_defs path_item_defs listing_defs)

lemma job_promised: "promised (Protected (Job q))"
  by (cases q; simp add: promised_defs path_item_defs listing_defs)

lemmas group_promised = public_promised own_promised session_promised tenant_promised project_promised
  label_promised webhook_promised task_promised note_promised job_promised

lemma promise_listed:
  "answer_of (document version) (template (fst (endpoint r))) (snd (endpoint r)) (fst (promise r)) = Some (snd (promise r))"
proof -
  have "promised r"
  proof (cases r)
    case (Protected q)
    then show ?thesis by (cases q) (simp_all add: group_promised)
  qed (simp_all add: group_promised, simp_all add: promised_defs path_item_defs listing_defs)
  moreover have "json_get (document version) ''paths'' = Some (JObject doc_paths)" by (simp add: document_def)
  ultimately show ?thesis by (simp add: answer_of_def operation_of_def promised_def bind_assoc)
qed

end
