(* ===== verification/ApiAnswers.thy ===== *)
theory ApiAnswers
  imports ApiPromises TenantIsolation
begin

text \<open>
  Every answer of the API is one the OpenAPI document lists: a success has the status and the body the
  operation promises, a failure the error envelope. What the stores hold has to be presentable, which every
  request keeps.
\<close>

lemma stored_meets:
  "presentable w \<Longrightarrow> kv (w_redis w) (KIdempotency t route q) = Some (RStored s, z) \<Longrightarrow> map_of creations route = Some p \<Longrightarrow>
     meets p (json_reply (sr_status s) (sr_body s))"
  unfolding presentable_def stored_ok_def by blast

section \<open>Idempotent handlers\<close>

lemma claim_or_replay_stored:
  assumes "claim_or_replay e now k w = (Inr (Some r), v)"
  shows "\<exists>s z. kv (w_redis w) k = Some (RStored s, z) \<and> r = (sr_status s, sr_body s)"
proof (cases "redis_get now k (w_redis w)")
  case None
  with assms show ?thesis
    by (auto simp: claim_or_replay_def replay_idempotent_def then_do_def cache_run_def idempotency_state_def
        claim_idempotency_key_def ret_def)
next
  case (Some x)
  then obtain z where z: "kv (w_redis w) k = Some (x, z)"
    by (auto simp: redis_get_def live_entry_def split: option.splits if_splits)
  with assms Some show ?thesis
    by (cases x) (auto simp: claim_or_replay_def replay_idempotent_def then_do_def cache_run_def idempotency_state_def
        claim_idempotency_key_def ret_def fail_def split: if_splits)
qed

lemma store_outcome_from:
  assumes "store_outcome e now k status to_body act w = (Inr (st, b), v)"
  shows "\<exists>x u. act w = (Inr x, u) \<and> to_body x = Inr b \<and> st = status"
proof -
  obtain outcome w1 where "act w = (outcome, w1)" by (cases "act w")
  with assms show ?thesis
    by (auto simp: store_outcome_def then_do_Inr attempt_def lift_result_def cache_run_eq fail_def ret_def split: sum.splits)
qed

lemma yields_idempotent:
  assumes stored: "\<And>w s z. I w \<Longrightarrow> kv (w_redis w) k = Some (RStored s, z) \<Longrightarrow> P (json_reply (sr_status s) (sr_body s))"
    and act: "\<And>y. yields (\<lambda>_. True) Q (act y)" and body: "\<And>x b. Q x \<Longrightarrow> to_body x = Inr b \<Longrightarrow> P (json_reply status b)"
  shows "yields I P (idempotent e now k checked status to_body act)"
proof (rule yieldsI)
  fix w resp v assume I: "I w" and run: "idempotent e now k checked status to_body act w = (Inr resp, v)"
  from run obtain r v1 where claim: "claim_or_replay e now k w = (Inr r, v1)" by (auto simp: idempotent_def then_do_Inr)
  show "P resp"
  proof (cases r)
    case None
    with run claim obtain y q u v2 where "store_outcome e now k status to_body (act y) v1 = (Inr (q, u), v2)"
      and resp: "resp = json_reply q u"
      by (auto simp: idempotent_def then_do_Inr lift_result_def ret_def created_reply_def)
    from store_outcome_from [OF this(1)] obtain x v3 where "act y v1 = (Inr x, v3)" "to_body x = Inr u" "q = status" by blast
    with yieldsD [OF act] body resp show ?thesis by blast
  next
    case (Some a)
    with claim_or_replay_stored claim obtain s z where "kv (w_redis w) k = Some (RStored s, z)" "a = (sr_status s, sr_body s)" by blast
    with stored [OF I] run claim Some show ?thesis by (auto simp: idempotent_def then_do_def ret_def created_reply_def)
  qed
qed

lemma yields_keyed:
  assumes "map_of creations route = Some (status, JsonAnswer s)" and "\<And>y. yields (\<lambda>_. True) Q (act y)"
    and "\<And>x b. Q x \<Longrightarrow> to_body x = Inr b \<Longrightarrow> conforms depth s b"
  shows "yields presentable (meets (status, JsonAnswer s)) (idempotent e now (KIdempotency t route key) checked status to_body act)"
  using assms by (intro yields_idempotent [where Q = Q]) (auto dest: stored_meets intro: meets_json)

lemma yields_with_key:
  "(\<And>key. yields I P (f (KIdempotency (au_tenant_id u) route key))) \<Longrightarrow> yields I P (with_key u route req f)"
  unfolding with_key_def by (rule yields_lift)

section \<open>Reads of stored JSON\<close>

lemma keyset_page_rows: "set (fst (keyset_page key rows c n)) \<subseteq> set rows"
  by (auto simp: keyset_page_eq Let_def dest!: in_set_takeD)

lemma yields_read: "(\<And>w. I w \<Longrightarrow> P (f (w_db w))) \<Longrightarrow> yields I P (db_read f)"
  by (simp add: yields_def db_read_def)

lemma yields_after: "(\<And>w. snd (m w) = w) \<Longrightarrow> yields I P n \<Longrightarrow> yields I P (then_do m (\<lambda>_. n))"
  by (rule yieldsI) (auto simp: then_do_Inr dest: yieldsD, metis snd_conv yieldsD)

lemma read_only: "snd (db_try g w) = w" "snd (svc_get_task t i w) = w"
  by (simp_all add: db_try_def svc_get_task_def then_do_def db_read_def lift_result_def split: sum.split)

lemma list_events_yields:
  "yields presentable (\<lambda>p. list_all (\<lambda>v. is_object (ar_payload v)) (fst p)) (svc_list_events e t c n)"
  unfolding svc_list_events_def
proof (rule yields_from)
  show "yields presentable (\<lambda>p. list_all (\<lambda>a. is_object (ae_payload a)) (fst p)) (db_read (\<lambda>d. db_list_audit_events t d c n))"
    by (rule yields_read) (use keyset_page_rows in \<open>fastforce simp: db_list_audit_events_def tenant_audit_rows_def select_where_def
        presentable_def presentable_db_def list_all_iff\<close>)
qed (auto intro!: yields_rules simp: list_all_iff audit_event_response_def)

lemma list_feed_yields:
  "yields presentable (\<lambda>f. list_all (\<lambda>i. is_object (fi_payload i) \<and> fi_kind i \<in> {''task_due_soon'', ''task_overdue'', ''task_commented''})
     (fr_data f)) (svc_list_feed e t u unread c n)"
  unfolding svc_list_feed_def
proof (rule yields_from)
  show "yields presentable (\<lambda>p. list_all (\<lambda>r. is_object (nt_payload r) \<and> nt_kind r \<in> set feed_kinds) (fst p))
      (db_read (\<lambda>d. db_list_notification_feed t u feed_kinds unread d c n))"
    by (rule yields_read) (use keyset_page_rows in \<open>fastforce simp: db_list_notification_feed_def feed_rows_def feed_row_def
        select_where_def presentable_def presentable_db_def list_all_iff\<close>)
qed (intro yields_rules; auto simp: list_all_iff feed_item_of_def feed_kinds_def; blast)

lemma list_task_audit_yields:
  "yields presentable (\<lambda>p. list_all (\<lambda>v. is_object (ta_payload v)) (fst p)) (svc_list_task_audit t i c n)"
  unfolding svc_list_task_audit_def
  by (intro yields_after read_only yields_read) (use keyset_page_rows in \<open>fastforce simp: db_list_task_audit_def task_audit_rows_def
      select_where_def presentable_def presentable_db_def list_all_iff\<close>)

lemma list_deliveries_yields:
  "yields presentable (\<lambda>p. list_all (\<lambda>v. wd_status v \<in> {''pending'', ''delivered'', ''dead_letter''}) (fst p))
     (svc_list_webhook_deliveries t h c n)"
  unfolding svc_list_webhook_deliveries_def
  by (intro yields_after read_only yields_read) (use keyset_page_rows in \<open>fastforce simp: db_list_webhook_deliveries_def
      select_where_def presentable_def presentable_db_def list_all_iff\<close>)

lemma redeliver_yields: "yields I (\<lambda>v. wd_status v = ''pending'') (svc_redeliver_webhook_delivery now t h v)"
  unfolding svc_redeliver_webhook_delivery_def
  by (intro yields_after read_only yieldsI)
    (auto simp: db_run_def db_redeliver_webhook_delivery_def returning_def Let_def split: list.splits if_splits sum.splits
      dest!: map_eq_Cons_D)

lemma oauth_accounts_yields:
  "yields presentable (list_all (\<lambda>a. oar_provider a \<in> {''google'', ''github''})) (svc_list_oauth_accounts e u)"
  unfolding svc_list_oauth_accounts_def
  by (rule yields_read) (auto simp: db_list_oauth_accounts_def select_where_def presentable_def presentable_db_def list_all_iff)

lemma tenant_job_yields:
  "yields presentable (\<lambda>j. job_presentable j \<and> jb_tenant_id j \<noteq> None) (svc_get_tenant_job i t)"
  by (rule yieldsI) (auto simp: svc_get_tenant_job_def svc_get_job_def then_do_Inr db_read_def lift_result_def db_get_job_def
      ok_or_def fetch_optional_def fail_def ret_def find_Some_iff presentable_def presentable_db_def list_all_iff
      split: option.splits if_splits)

lemma job_result_yields:
  "yields presentable (\<lambda>r. is_object (jx_result r) \<and> jx_job_type r \<noteq> RetentionSweep) (svc_get_tenant_job_result i t)"
  unfolding svc_get_tenant_job_result_def
proof (rule yields_from [OF tenant_job_yields])
  fix j assume j: "job_presentable j \<and> jb_tenant_id j \<noteq> None"
  show "yields (\<lambda>_. True) (\<lambda>r. is_object (jx_result r) \<and> jx_job_type r \<noteq> RetentionSweep)
      (then_do (lift_result (job_status_from_str (jb_status j))) (\<lambda>status. case status of
         JCompleted \<Rightarrow> lift_result (job_result_response j)
       | JQueued \<Rightarrow> fail (Conflict ''job result is not ready'')
       | JRunning \<Rightarrow> fail (Conflict ''job result is not ready'')
       | JDeadLetter \<Rightarrow> fail (Conflict ''job did not complete successfully'')))"
  proof (rule yields_lift)
    fix status
    show "yields (\<lambda>_. True) (\<lambda>r. is_object (jx_result r) \<and> jx_job_type r \<noteq> RetentionSweep) (case status of
       JCompleted \<Rightarrow> lift_result (job_result_response j)
     | JQueued \<Rightarrow> fail (Conflict ''job result is not ready'')
     | JRunning \<Rightarrow> fail (Conflict ''job result is not ready'')
     | JDeadLetter \<Rightarrow> fail (Conflict ''job did not complete successfully''))"
      using j by (cases status) (auto intro!: yields_fail yieldsI simp: lift_result_def job_result_response_def try_then_Inr
          ok_or_Inr job_presentable_def job_type_enum.parse_iff)
  qed
qed

section \<open>The handlers\<close>

lemma public_meets: "yields I (meets (public_promise r)) (public_handler x req r)"
  by (cases r; simp only: public_handler.simps public_promise.simps http_register_def http_login_def http_oauth_login_def
        http_refresh_def http_logout_def http_verify_email_def http_resend_verification_def http_request_password_reset_def
        http_confirm_password_reset_def Let_def)
    (intro yields_rules yields_auth meets_empty)+


lemma stored_pages_conform:
  "list_all (\<lambda>v. is_object (ar_payload v)) vs \<Longrightarrow>
     conforms (Suc (Suc (Suc (Suc (Suc (Suc n)))))) schema_AuditListResponse (page_json (map audit_event_json vs) next)"
  "list_all (\<lambda>v. is_object (ta_payload v)) as \<Longrightarrow>
     conforms (Suc (Suc (Suc (Suc (Suc (Suc n)))))) schema_TaskAuditListResponse (page_json (map task_audit_json as) next)"
  "list_all (\<lambda>v. wd_status v \<in> {''pending'', ''delivered'', ''dead_letter''}) ds \<Longrightarrow>
     conforms (Suc (Suc (Suc (Suc (Suc (Suc n)))))) schema_WebhookDeliveryListResponse (page_json (map delivery_response_json ds) next)"
  by (simp_all add: schema_AuditListResponse_def schema_TaskAuditListResponse_def schema_WebhookDeliveryListResponse_def
      page_conforms conforms_refs conforming list_all_iff)

lemma feed_conforms:
  "list_all (\<lambda>i. is_object (fi_payload i) \<and> fi_kind i \<in> {''task_due_soon'', ''task_overdue'', ''task_commented''}) (fr_data f) \<Longrightarrow>
     conforms (Suc (Suc (Suc (Suc (Suc (Suc n)))))) schema_NotificationFeedResponse (feed_response_json f)"
  by (simp add: schema_NotificationFeedResponse_def feed_response_json_def conforms_rules conforming list_all_iff)

lemmas reply_rules = yields_rules yields_json_ok yields_json_list yields_collected yields_auth meets_empty meets_json meets_file

lemma stored_reads_meet:
  "yields presentable (meets (200, JsonAnswer (doc_schema_ref ''AuditListResponse''))) (http_list_audit_events x u q)"
  "yields presentable (meets (200, JsonAnswer (doc_schema_ref ''NotificationFeedResponse''))) (http_list_my_notifications x u nq)"
  "yields presentable (meets (200, JsonAnswer (doc_schema_ref ''TaskAuditListResponse''))) (http_list_task_audit x u i q)"
  "yields presentable (meets (200, JsonAnswer (doc_schema_ref ''WebhookDeliveryListResponse''))) (http_list_webhook_deliveries x u h q)"
  "yields presentable (meets (202, JsonAnswer (doc_schema_ref ''WebhookDeliveryResponse''))) (http_redeliver_webhook_delivery x u h i)"
  "yields presentable (meets (200, JsonAnswer (doc_array_schema (doc_schema_ref ''OAuthAccountResponse'')))) (http_list_oauth_accounts x u)"
  "yields presentable (meets (200, JsonAnswer (doc_schema_ref ''JobResponse''))) (http_get_job u i)"
  "yields presentable (meets (200, JsonAnswer (doc_schema_ref ''JobResultResponse''))) (http_get_job_result u i)"
  unfolding http_list_audit_events_def http_list_my_notifications_def http_list_task_audit_def http_list_webhook_deliveries_def
    http_redeliver_webhook_delivery_def http_list_oauth_accounts_def http_get_job_def http_get_job_result_def
  by ((intro yields_guard yields_lift yields_from [OF list_events_yields] yields_from [OF list_feed_yields]
        yields_from [OF list_task_audit_yields] yields_from [OF list_deliveries_yields] yields_from [OF redeliver_yields]
        yields_from [OF oauth_accounts_yields] yields_from [OF tenant_job_yields] yields_from [OF job_result_yields]
        yields_pair reply_rules;
      auto simp: depth_Suc conforms_refs conforming stored_pages_conform feed_conforms list_all_iff job_presentable_def
        split: option.splits)+)

lemma creations_meet:
  "yields presentable (meets (201, JsonAnswer (doc_schema_ref ''InvitationCreateResponse''))) (http_create_invitation x u t req ip)"
  "yields presentable (meets (201, JsonAnswer (doc_schema_ref ''ProjectResponse''))) (http_create_project x u req pp)"
  "yields presentable (meets (201, JsonAnswer (doc_schema_ref ''LabelResponse''))) (http_create_label x u req lp)"
  "yields presentable (meets (201, JsonAnswer (doc_schema_ref ''WebhookCreateResponse''))) (http_create_webhook x u req wp)"
  "yields presentable (meets (201, JsonAnswer (doc_schema_ref ''CommentResponse''))) (http_create_task_comment x u i req b)"
  "yields presentable (meets (201, JsonAnswer (doc_schema_ref ''AttachmentResponse''))) (http_upload_task_attachment x u i n req b)"
  "yields presentable (meets (201, JsonAnswer (doc_schema_ref ''TaskResponse''))) (http_create_task x u req tp)"
  unfolding http_create_invitation_def http_create_project_def http_create_label_def http_create_webhook_def
    http_create_task_comment_def http_upload_task_attachment_def http_create_task_def
  by ((intro yields_guard yields_lift yields_with_key yields_keyed [OF _ yields_True];
      auto simp: creations_def at_depth map_ok_Inr)+)

lemma create_export_meets:
  "yields presentable (meets (202, JsonAnswer (doc_schema_ref ''JobResponse''))) (http_create_export x u req p)"
  unfolding http_create_export_def
  by (intro yields_guard yields_with_key yields_keyed [where Q = "\<lambda>j. is_object (jb_payload j) \<and>
        jb_job_type j = ''task_export'' \<and> jb_result_payload j = None"] yields_pair export_job_yields)
    (auto simp: creations_def at_depth)

lemma own_meets: "yields presentable (meets (own_promise r)) (own_handler x req u r)"
  by (cases r; simp only: own_handler.simps own_promise.simps http_switch_tenant_def http_dashboard_summary_def http_me_def
        http_update_profile_def http_get_notification_preferences_def http_update_notification_preferences_def
        http_mark_all_notifications_read_def http_mark_notification_read_def http_list_my_tenants_def stored_reads_meet;
      intro reply_rules; simp add: at_depth)

lemma session_meets: "yields presentable (meets (session_promise r)) (session_handler x req u r)"
  by (cases r; simp only: session_handler.simps session_promise.simps stored_reads_meet
        http_unlink_oauth_account_def http_list_sessions_def http_logout_all_sessions_def http_revoke_session_def http_change_password_def http_change_email_def Let_def list_tasks_page_def;
      (intro reply_rules)?; (auto intro!: reply_rules simp: at_depth map_ok_Inr task_reply_def split: option.split)?)

lemma tenant_meets: "yields presentable (meets (tenant_promise r)) (tenant_handler x req u r)"
  by (cases r; simp only: tenant_handler.simps tenant_promise.simps stored_reads_meet creations_meet
        http_list_tenant_members_def http_update_member_role_def http_remove_member_def http_list_invitations_def http_accept_invitation_def http_revoke_invitation_def Let_def list_tasks_page_def;
      (intro reply_rules)?; (auto intro!: reply_rules simp: at_depth map_ok_Inr task_reply_def split: option.split)?)

lemma project_meets: "yields presentable (meets (project_promise r)) (project_handler x req u r)"
  by (cases r; simp only: project_handler.simps project_promise.simps creations_meet
        http_list_projects_def http_get_project_def http_update_project_def http_delete_project_def http_restore_project_def http_get_project_summary_def http_list_project_tasks_def Let_def list_tasks_page_def;
      (intro reply_rules)?; (auto intro!: reply_rules simp: at_depth map_ok_Inr task_reply_def split: option.split)?)

lemma label_meets: "yields presentable (meets (label_promise r)) (label_handler x req u r)"
  by (cases r; simp only: label_handler.simps label_promise.simps creations_meet
        http_list_labels_def http_update_label_def http_delete_label_def http_get_task_labels_def http_put_task_labels_def Let_def list_tasks_page_def;
      (intro reply_rules)?; (auto intro!: reply_rules simp: at_depth map_ok_Inr task_reply_def split: option.split)?)

lemma webhook_meets: "yields presentable (meets (webhook_promise r)) (webhook_handler x req u r)"
  by (cases r; simp only: webhook_handler.simps webhook_promise.simps stored_reads_meet creations_meet
        http_list_webhooks_def http_update_webhook_def http_delete_webhook_def Let_def list_tasks_page_def;
      (intro reply_rules)?; (auto intro!: reply_rules simp: at_depth map_ok_Inr task_reply_def split: option.split)?)

lemma task_meets: "yields presentable (meets (task_promise r)) (task_handler x req u r)"
  by (cases r; simp only: task_handler.simps task_promise.simps stored_reads_meet creations_meet
        http_list_tasks_def http_bulk_update_task_status_def http_get_task_def http_update_task_def http_delete_task_def http_restore_task_def Let_def list_tasks_page_def;
      (intro reply_rules)?; (auto intro!: reply_rules simp: at_depth map_ok_Inr task_reply_def split: option.split)?)

lemma note_meets: "yields presentable (meets (note_promise r)) (note_handler x req u r)"
  by (cases r; simp only: note_handler.simps note_promise.simps creations_meet
        http_list_task_comments_def http_update_task_comment_def http_delete_task_comment_def http_list_task_attachments_def http_delete_task_attachment_def http_download_task_attachment_def Let_def list_tasks_page_def;
      (intro reply_rules)?; (auto intro!: reply_rules simp: at_depth map_ok_Inr task_reply_def split: option.split)?)

lemma job_meets: "yields presentable (meets (job_promise r)) (job_handler x req u r)"
  by (cases r; simp only: job_handler.simps job_promise.simps stored_reads_meet create_export_meets
        http_download_job_artifact_def Let_def list_tasks_page_def;
      (intro reply_rules)?; (auto intro!: reply_rules simp: at_depth map_ok_Inr task_reply_def split: option.split)?)

lemma protected_meets: "yields presentable (meets (protected_promise r)) (protected_handler x req u r)"
  by (cases r; simp only: protected_handler.simps protected_promise.simps)
    (rule own_meets session_meets tenant_meets project_meets label_meets webhook_meets task_meets note_meets job_meets)+

section \<open>Requests\<close>

text \<open>A failure carries the error envelope, a success the answer listed for its status.\<close>

definition as_documented :: "json \<Rightarrow> request_route \<Rightarrow> response \<Rightarrow> bool" where
  "as_documented doc r resp =
     (if rp_status resp < 400 then
        (case answer_of doc (template (fst (endpoint r))) (snd (endpoint r)) (rp_status resp) of
           Some a \<Rightarrow> fits a (rp_body resp)
         | None \<Rightarrow> False)
      else
        (case rp_body resp of
           Json v \<Rightarrow> conforms depth (doc_schema_ref ''ErrorEnvelope'') v
         | _ \<Rightarrow> False))"

lemma met_documented: "meets (promise r) resp \<Longrightarrow> fst (promise r) < 400 \<Longrightarrow> as_documented (document version) r resp"
  using promise_listed [of version r] by (simp add: as_documented_def meets_def)

lemma promise_success: "fst (promise r) < 400"
proof (cases r)
  case (Public q)
  then show ?thesis by (cases q) simp_all
next
  case (Protected q)
  then show ?thesis by (cases q; simp; rename_tac s; case_tac s; simp)
qed simp_all

lemma error_documented: "as_documented doc r (error_response err)"
proof -
  have "400 \<le> rp_status (error_response err)" by (cases err) (simp_all add: error_response_def json_reply_def)
  moreover obtain v where v: "rp_body (error_response err) = Json v" by (simp add: error_response_def json_reply_def)
  moreover have "conforms depth (doc_schema_ref ''ErrorEnvelope'') v" unfolding depth_Suc by (rule error_conforms [OF v])
  ultimately show ?thesis by (simp add: as_documented_def)
qed

lemma headers_same: "rp_status (attach_rate_limit_headers d resp) = rp_status resp" "rp_body (attach_rate_limit_headers d resp) = rp_body resp"
  by (simp_all add: attach_rate_limit_headers_def insert_header_def)

lemma headers_documented: "as_documented doc r (attach_rate_limit_headers d resp) = as_documented doc r resp"
  unfolding as_documented_def headers_same ..

lemma answer_documented:
  "yields I (meets (promise r)) m \<Longrightarrow> I w \<Longrightarrow> as_documented (document version) r (fst (answer m w))"
  by (cases "m w", case_tac a) (auto simp: answer_def error_documented dest!: yieldsD intro: met_documented promise_success)

lemma limited_documented:
  assumes inner: "\<And>v. presentable v \<Longrightarrow> as_documented (document version) r (fst (h v))" and "presentable w" and "bucket_key k"
  shows "as_documented (document version) r (fst (answer (limited now now_ms k cap refill h) w))"
proof -
  obtain d red where run: "rate_limit now now_ms k cap refill 1 (w_redis w) = (Inr d, red)" using rate_limit_answers by blast
  from leaves_charge(1) [OF this assms(3), where A = "\<lambda>_. True" and t = 0] assms(2) have v: "presentable (w\<lparr>w_redis := red\<rparr>)"
    by (simp add: leaves_def spares_db_def presentable_def)
  have "as_documented (document version) r (rate_limit_response d)"
    by (simp add: rate_limit_response_def headers_documented error_documented)
  moreover obtain resp v2 where "h (w\<lparr>w_redis := red\<rparr>) = (resp, v2)" by fastforce
  ultimately show ?thesis
    using run inner [OF v]
    by (auto simp: answer_def limited_def then_do_def ret_def run_next_def headers_documented simp del: One_nat_def)
qed

lemma open_documented:
  "as_documented (document version) Healthz (fst (answer http_healthz w))"
  "as_documented (document version) Readyz (fst (answer http_readyz w))"
  "as_documented (document version) (Metrics m) (fst (answer (http_metrics x m req) w))"
proof -
  have health: "yields (\<lambda>_. True) (meets (promise Healthz)) http_healthz" "yields (\<lambda>_. True) (meets (promise Readyz)) http_readyz"
    by (simp_all add: http_healthz_def http_readyz_def yields_json_ok at_depth)
  have "yields (\<lambda>_. True) (meets (promise (Metrics m))) (http_metrics x m req)"
    unfolding http_metrics_def promise.simps by (intro yields_then yields_ret) (simp add: meets_def fits_def)
  from answer_documented [OF this] answer_documented [OF health(1)] answer_documented [OF health(2)] show
    "as_documented (document version) Healthz (fst (answer http_healthz w))"
    "as_documented (document version) Readyz (fst (answer http_readyz w))"
    "as_documented (document version) (Metrics m) (fst (answer (http_metrics x m req) w))" by simp_all
qed

lemma serve_documented:
  assumes "presentable w"
  shows "as_documented (document version) r (fst (serve x now_ms req r w))"
proof (cases r)
  case (Public p)
  have "yields (\<lambda>_. True) (meets (promise (Public p))) (public_handler x req p)" by (simp add: public_meets)
  with assms Public show ?thesis
    by (simp add: auth_rate_limit_middleware_def) (intro limited_documented answer_documented; simp)
next
  case (Protected p)
  show ?thesis
  proof (cases "authenticate (cx_jwt x) (cx_env x) (cx_now x) req w")
    case (Pair a w2)
    with authenticate_reads [of "cx_jwt x" "cx_env x" "cx_now x" req w] have w2: "w2 = w" by simp
    have "as_documented (document version) (Protected p) (fst (answer (protected_handler x req u p) v))" if "presentable v" for u v
      using that protected_meets by (intro answer_documented [where I = presentable]) simp_all
    then have "as_documented (document version) (Protected p) (fst (answer (limited (cx_now x) now_ms
        (KAppLimit (au_tenant_id u) (au_user_id u) (client_identifier req)) (app_rate_limit_capacity (cfg (cx_env x)))
        (app_rate_limit_refill_per_sec (cfg (cx_env x))) (\<lambda>w. answer (protected_handler x req u p) w)) w))" for u
      using assms by (intro limited_documented) simp_all
    moreover have "fst (serve x now_ms req r w) = (case a of Inl err \<Rightarrow> error_response err
      | Inr u \<Rightarrow> fst (answer (limited (cx_now x) now_ms (KAppLimit (au_tenant_id u) (au_user_id u) (client_identifier req))
          (app_rate_limit_capacity (cfg (cx_env x))) (app_rate_limit_refill_per_sec (cfg (cx_env x)))
          (\<lambda>w. answer (protected_handler x req u p) w)) w))"
      using Pair w2 Protected by (cases a) (simp_all add: protected_middleware_def answer_def then_do_def)
    ultimately show ?thesis using Protected by (cases a) (simp_all only: sum.case error_documented)
  qed
qed (simp_all add: open_documented)

text \<open>The rate limit of the protected routes is not in the document: no operation behind it lists 429.\<close>

lemma rate_limit_unlisted:
  "rp_status (rate_limit_response d) = 429"
  "answer_of (document version) (template (fst (endpoint (Protected (Own Me))))) (snd (endpoint (Protected (Own Me)))) 429 = None"
proof -
  show "rp_status (rate_limit_response d) = 429"
    by (simp add: rate_limit_response_def headers_same error_response_def json_reply_def)
  have "nat_text 429 = ''429''" by code_simp
  moreover have "json_get (document version) ''paths'' = Some (JObject doc_paths)" by (simp add: document_def)
  ultimately show "answer_of (document version) (template (fst (endpoint (Protected (Own Me))))) (snd (endpoint (Protected (Own Me)))) 429 = None"
    by (simp add: answer_of_def operation_of_def nest_def template_def path_items path_me_def)
qed

end
