(* ===== verification/System.thy ===== *)
theory System
  imports ApiAnswers Grpc
begin

text \<open>
  The whole system: requests to the REST API, calls of the gRPC services and ticks of every loop of the
  worker, one after another in any order. What holds of the stores after any such run is proved here, for
  whatever the mailer, the webhook endpoints and the clocks answer.
\<close>

section \<open>Events\<close>

datatype event =
    Served call
  | Called env uuid time "string option" grpc_request
  | Dispatched time
  | Processed env "nat \<Rightarrow> uuid" "nat \<Rightarrow> uuid" time
  | Reaped env time
  | Scheduled env uuid uuid time
  | Mailed env "mail_message \<Rightarrow> unit result" time
  | Posted env http_client time

primrec happen :: "event \<Rightarrow> world \<Rightarrow> world" where
  "happen (Served c) w = serve_call c w"
| "happen (Called e i now authorization r) w = snd (grpc_serve e i now authorization r w)"
| "happen (Dispatched now) w = snd (dispatch_tick now w)"
| "happen (Processed e aids nids now) w = snd (processor_tick e aids nids now w)"
| "happen (Reaped e now) w = snd (reaper_tick e now w)"
| "happen (Scheduled e i k now) w = snd (scheduler_tick e i k now w)"
| "happen (Mailed e send now) w = w\<lparr>w_db := deliver_pending_notifications e send now (w_db w)\<rparr>"
| "happen (Posted e client now) w = w\<lparr>w_db := dispatch_pending_webhooks e client now (w_db w)\<rparr>"

section \<open>What every event keeps\<close>

definition sound :: "world \<Rightarrow> bool" where
  "sound w \<longleftrightarrow> presentable w \<and> wf_tasks (w_db w)"

interpretation sound_frame: frame "\<lambda>w w'. sound w \<longrightarrow> sound w'"
  by unfold_locales auto

lemma sound_run:
  "(\<And>d x d'. f d = Inr (x, d') \<Longrightarrow> presentable_db d \<Longrightarrow> presentable_db d') \<Longrightarrow>
     (\<And>d x d'. f d = Inr (x, d') \<Longrightarrow> tasks d' = tasks d \<and> users d' = users d \<and> tenants d' = tenants d \<and> projects d' = projects d) \<Longrightarrow>
     sound_frame.keeps (db_run f)"
proof (rule sound_frame.keepsI, rule impI)
  fix w assume pres: "\<And>d x d'. f d = Inr (x, d') \<Longrightarrow> presentable_db d \<Longrightarrow> presentable_db d'" and w: "sound w"
    and same: "\<And>d x d'. f d = Inr (x, d') \<Longrightarrow> tasks d' = tasks d \<and> users d' = users d \<and> tenants d' = tenants d \<and> projects d' = projects d"
  show "sound (snd (db_run f w))"
  proof (cases "f (w_db w)")
    case (Inr p)
    then obtain x d' where run: "f (w_db w) = Inr (x, d')" by (cases p) auto
    from same [OF this] w have "wf_tasks d'" unfolding sound_def by (rule_tac wf_tasks_grow [of "w_db w"]) simp_all
    with run pres [OF run] w show ?thesis by (simp add: db_run_def sound_def presentable_def)
  qed (use w in \<open>simp add: db_run_def\<close>)
qed

lemma sound_cache: "(\<And>r. stored_ok r \<Longrightarrow> stored_ok (snd (f r))) \<Longrightarrow> sound_frame.keeps (cache_run f)"
  by (rule sound_frame.keepsI) (simp add: cache_run_def sound_def presentable_def case_prod_unfold)

lemma sound_store: "sound_frame.keeps (store_put k v)"
  by (rule sound_frame.keepsI) (simp add: store_put_def sound_def presentable_def split: option.split sum.split prod.split)

lemma sound_queue: "sound_frame.keeps (cache_run (enqueue_job i))" "sound_frame.keeps (cache_run dequeue_job)"
  by (rule sound_cache; simp add: enqueue_job_def dequeue_job_def stored_queue split: list.split)+

text \<open>The statements of the worker.\<close>

lemma job_statements:
  "sound_frame.keeps (db_run (\<lambda>d. Inr (db_mark_job_running now i d)))"
  "is_object v \<Longrightarrow> sound_frame.keeps (db_run (\<lambda>d. Inr ((), db_complete_job now i v d)))"
  "sound_frame.keeps (db_run (\<lambda>d. Inr ((), db_fail_job now j message d)))"
  "sound_frame.keeps (db_run (db_requeue_stale_jobs now lease))"
  "sound_frame.keeps (db_run (db_ensure_due_reminder_job i now tenant mx))"
  "sound_frame.keeps (db_run (db_ensure_retention_job i now gap mx))"
  "is_object payload \<Longrightarrow> ty \<noteq> ''retention_sweep'' \<Longrightarrow> sound_frame.keeps (db_run (db_create_job i now tenant ty payload mx))"
  by (rule sound_run;
      auto simp: op_simps db_mark_job_running_def db_complete_job_def db_fail_job_def db_requeue_stale_jobs_def
        db_ensure_due_reminder_job_def db_ensure_retention_job_def db_create_job_def new_job_def job_presentable_def
        started_def completed_def failed_def reclaimed_def intro!: kept_rows split: if_splits)+

lemma sweep_statements:
  "sound_frame.keeps (db_run (db_record_due_reminders aids now tenant))"
  "is_object (nn_payload n) \<Longrightarrow> sound_frame.keeps (db_run (db_enqueue_notification i now n mx))"
  "sound_frame.keeps (db_run (\<lambda>d. Inr (db_purge_stale_refresh_tokens now k d)))"
  "sound_frame.keeps (db_run (\<lambda>d. Inr (db_purge_terminal_jobs now k d)))"
  "sound_frame.keeps (db_run (\<lambda>d. Inr (db_purge_terminal_notifications now k d)))"
  "sound_frame.keeps (db_run (\<lambda>d. Inr (db_purge_old_audit_events now k d)))"
  by (rule sound_run;
      auto simp: op_simps db_record_due_reminders_def task_audit_row_def db_enqueue_notification_def notification_row_def
        db_purge_stale_refresh_tokens_def db_purge_terminal_jobs_def db_purge_terminal_notifications_def
        db_purge_old_audit_events_def list.pred_map comp_def case_prod_unfold list.pred_True
        intro!: kept_rows dest!: insert_task_audits_Inr split: if_splits)+

lemmas sound_rules = sound_frame.rules sound_store sound_queue job_statements sweep_statements built_payloads

text \<open>A job's result is an object.\<close>

lemma yields_then_object: "(\<And>x. yields (\<lambda>_. True) is_object (f x)) \<Longrightarrow> yields (\<lambda>_. True) is_object (then_do m f)"
  by (rule yields_then)

lemma job_results: "yields (\<lambda>_. True) is_object (run_claimed_job e aids nids now j ty)"
proof -
  have "yields (\<lambda>_. True) is_object (process_export_job e now j)" "yields (\<lambda>_. True) is_object (process_due_reminder_job e aids nids now j)"
    "yields (\<lambda>_. True) is_object (process_retention_job e now)"
    unfolding process_export_job_def process_due_reminder_job_def process_retention_job_def Let_def
    by (intro yields_then yields_ret is_object_JObject)+
  then show ?thesis by (cases ty) (simp_all add: run_claimed_job_def)
qed

section \<open>The worker\<close>

lemma reminders_kept: "sound_frame.keeps (enqueue_reminders e nids now bucket k cs)"
  by (induction cs arbitrary: k) (auto simp: reminder_notification_def Let_def is_object_JObject intro!: sound_rules)

lemma jobs_kept: "sound_frame.keeps (run_claimed_job e aids nids now j ty)"
proof -
  have "sound_frame.keeps (process_export_job e now j)" "sound_frame.keeps (process_due_reminder_job e aids nids now j)"
    "sound_frame.keeps (process_retention_job e now)"
    unfolding process_export_job_def process_due_reminder_job_def process_retention_job_def
      enqueue_due_reminder_notifications_def Let_def
    by (intro sound_rules reminders_kept)+
  then show ?thesis by (cases ty) (simp_all add: run_claimed_job_def)
qed

lemma outcome_kept: "(case outcome of Inl _ \<Rightarrow> True | Inr v \<Rightarrow> is_object v) \<Longrightarrow> sound_frame.keeps (record_outcome now j outcome)"
  by (cases outcome) (auto simp: record_outcome_def intro: job_statements)

lemma process_kept: "sound_frame.keeps (svc_process_job e aids nids now i)"
  unfolding svc_process_job_def
  by (intro sound_frame.then_do_rule sound_frame.lift_then_rule sound_frame.option_rule job_statements sound_frame.pure
      sound_frame.yields_rule [OF sound_frame.attempt_rule [OF jobs_kept] yields_attempt [OF job_results]] outcome_kept)

lemma ticks_kept:
  "sound_frame.keeps (dispatch_tick now)" "sound_frame.keeps (processor_tick e aids nids now)"
  "sound_frame.keeps (reaper_tick e now)" "sound_frame.keeps (scheduler_tick e i k now)"
  unfolding dispatch_tick_def processor_tick_def reaper_tick_def scheduler_tick_def svc_dispatch_ready_jobs_def
    svc_reap_stale_jobs_def svc_enqueue_due_reminder_sweep_def svc_enqueue_retention_sweep_def enqueue_if_some_def
  by (intro sound_rules process_kept)+

section \<open>The gRPC services\<close>

lemma rpc_kept:
  "(\<And>x. r = Inr x \<Longrightarrow> sound w \<longrightarrow> sound (snd (f x w))) \<Longrightarrow> sound w \<longrightarrow> sound (snd (rpc_do r f w))"
  "sound_frame.keeps m \<Longrightarrow> (\<And>x w. sound w \<longrightarrow> sound (snd (g x w))) \<Longrightarrow> sound w \<longrightarrow> sound (snd (rpc_call m g w))"
  "sound w \<longrightarrow> sound (snd (rpc_reply y w))"
  "sound w \<longrightarrow> sound (snd (h w)) \<Longrightarrow> sound w \<longrightarrow> sound (snd (rpc_map k h w))"
  by (auto simp: rpc_do_def rpc_call_def rpc_reply_def rpc_map_def dest: sound_frame.keepsD split: sum.splits prod.splits)

lemma called_services:
  "sound_frame.keeps (svc_create_export_job e i now tenant u f format)"
  "sound_frame.keeps (svc_enqueue_due_reminder_sweep e i now tenant_id)"
  "sound_frame.keeps (svc_get_job i)" "sound_frame.keeps (svc_get_task tenant i)" "sound_frame.keeps (svc_list_tasks e tenant f c limit)"
  unfolding svc_create_export_job_def svc_enqueue_due_reminder_sweep_def enqueue_if_some_def svc_get_job_def svc_get_task_def
    svc_list_tasks_def
  by (intro sound_rules export_payload)+

lemma rpc_option: "(sound w \<longrightarrow> sound (snd (m w))) \<Longrightarrow> (\<And>x. sound w \<longrightarrow> sound (snd (f x w))) \<Longrightarrow>
    sound w \<longrightarrow> sound (snd ((case v of None \<Rightarrow> m | Some x \<Rightarrow> f x) w))"
  by (cases v) simp_all

lemma rpc_pair: "(\<And>a b. sound w \<longrightarrow> sound (snd (f a b w))) \<Longrightarrow> sound w \<longrightarrow> sound (snd ((case v of (a, b) \<Rightarrow> f a b) w))"
  by (cases v) simp

lemma grpc_kept: "sound w \<longrightarrow> sound (snd (grpc_serve e i now authorization r w))"
proof -
  have "sound w \<longrightarrow> sound (snd (grpc_service e i now r w))"
    by (cases r; simp only: grpc_service.simps rpc_enqueue_export_def rpc_run_due_reminder_sweep_def rpc_get_job_status_def
          rpc_get_task_snapshot_def rpc_list_task_summaries_def Let_def)
      (intro rpc_kept rpc_option rpc_pair called_services)+
  then show ?thesis unfolding grpc_serve_def by (rule rpc_kept(1))
qed

section \<open>The dispatchers of the outboxes\<close>

lemma fold_keeps: "(\<And>x d. P d \<Longrightarrow> P (f x d)) \<Longrightarrow> P d \<Longrightarrow> P (fold f xs d)"
  by (induction xs arbitrary: d) auto

text \<open>Only the rows of an outbox change, and neither payload nor kind of a row.\<close>

definition drained :: "db \<Rightarrow> db \<Rightarrow> bool" where
  "drained d d' \<longleftrightarrow> (presentable_db d \<longrightarrow> presentable_db d') \<and> tasks d' = tasks d \<and> users d' = users d \<and>
     tenants d' = tenants d \<and> projects d' = projects d"

lemma drained_steps:
  "drained d (snd (db_claim_pending_notifications now n d))" "drained d (deliver_one e send now r d)"
  "drained d (snd (db_claim_pending_webhook_deliveries now n d))" "drained d (dispatch_one e client now v d)"
  by (auto simp: drained_def db_claim_pending_notifications_def deliver_one_def db_mark_notification_sent_def
      db_fail_notification_def notification_claimed_def notification_failed_def db_claim_pending_webhook_deliveries_def
      dispatch_one_def db_mark_webhook_delivery_delivered_def db_fail_webhook_delivery_def delivery_claimed_def
      delivery_delivered_def delivery_failed_def Let_def presentable_rows presentable_table intro!: kept_rows split: sum.split if_splits)

lemma drained_fold: "(\<And>x d. drained d (f x d)) \<Longrightarrow> drained d v \<Longrightarrow> drained d (fold f xs v)"
  by (rule fold_keeps) (auto simp: drained_def)

lemma drained_sound: "drained (w_db w) d' \<Longrightarrow> sound w \<Longrightarrow> sound (w\<lparr>w_db := d'\<rparr>)"
  using wf_tasks_grow [of "w_db w" d'] by (auto simp: drained_def sound_def presentable_def)

section \<open>Every run\<close>

lemma served_sound: "sound w \<Longrightarrow> sound (serve_call c w)"
  by (simp add: sound_def serve_presentable serve_wf)

lemma happen_sound: "sound w \<Longrightarrow> sound (happen ev w)"
proof (cases ev)
  case (Mailed e send now)
  assume "sound w"
  moreover have "drained (w_db w) (deliver_pending_notifications e send now (w_db w))"
    using drained_steps(1) [of "w_db w"] by (auto simp: deliver_pending_notifications_def intro!: drained_fold drained_steps split: prod.split)
      (metis snd_conv)
  ultimately show ?thesis using Mailed by (simp add: drained_sound)
next
  case (Posted e client now)
  assume "sound w"
  moreover have "drained (w_db w) (dispatch_pending_webhooks e client now (w_db w))"
    using drained_steps(3) [of "w_db w"] by (auto simp: dispatch_pending_webhooks_def intro!: drained_fold drained_steps split: prod.split)
      (metis snd_conv)
  ultimately show ?thesis using Posted by (simp add: drained_sound)
qed (simp_all add: grpc_kept served_sound ticks_kept [THEN sound_frame.keepsD])

lemma run_sound: "sound w \<Longrightarrow> sound (fold happen es w)"
  by (rule fold_keeps [where P = sound]) (rule happen_sound)

section \<open>Properties of every run\<close>

text \<open>C33. Whatever happens, requests to both APIs by whomever and ticks of every loop of the worker, in whatever
  order and with whatever input, every row of the task table has a status and a priority the code knows, so it
  can be shown; its tenant, its project, its assignee, its creator and its last editor exist; and no two rows
  share an identifier.\<close>

theorem served_tasks_well_typed:
  assumes "sound w"
  shows "list_all (\<lambda>t. (\<exists>r. task_response t = Inr r) \<and> task_fks (w_db (fold happen es w)) t) (tasks (w_db (fold happen es w))) \<and>
    distinct (map tk_id (tasks (w_db (fold happen es w))))"
  using run_sound [OF assms, of es] by (auto simp: sound_def wf_tasks_def list_all_iff task_response_total)

lemma demo_sound: "sound (demo_role_world role)"
proof -
  have "wf_tasks (w_db (demo_role_world role))"
    using wf_tasks_grow [OF demo_wf, of "w_db (demo_role_world role)"] by (simp add: demo_role_world_def)
  then show ?thesis
    by (simp add: sound_def presentable_def presentable_db_def stored_ok_def demo_role_world_def demo_world_def demo_simps
        empty_world_def empty_redis_def)
qed

definition demo_events :: "event list" where
  "demo_events =
     [Served (demo_ctx 70 7, 0, demo_request, Protected (Task (DeleteTask 10))), Scheduled sample_env 100 101 8,
      Processed sample_env (\<lambda>k. 200 + k) (\<lambda>k. 300 + k) 9]"

theorem served_tasks_well_typed_witness:
  "list_all (\<lambda>t. (\<exists>r. task_response t = Inr r) \<and> task_fks (w_db (fold happen demo_events (demo_role_world ''owner''))) t)
     (tasks (w_db (fold happen demo_events (demo_role_world ''owner'')))) \<and>
   distinct (map tk_id (tasks (w_db (fold happen demo_events (demo_role_world ''owner'')))))"
  by (rule served_tasks_well_typed [OF demo_sound])

text \<open>C40. Whatever happened before, requests to both APIs and ticks of every loop of the worker, the answer to a
  request is one the OpenAPI document lists: a success has a status listed for the operation and the content
  listed under it, a JSON body conforming to the schema named there, and a failure carries the error envelope.\<close>

theorem answers_as_documented:
  assumes "sound w"
  shows "as_documented (document version) r (fst (serve x now_ms req r (fold happen es w)))"
  using run_sound [OF assms, of es] unfolding sound_def by (blast intro: serve_documented)

theorem answers_as_documented_witness:
  "rp_status (fst (serve (demo_ctx 70 7) 0 demo_request (Protected (Own Dashboard)) (demo_role_world ''member''))) = 200 \<and>
   as_documented (document ''1.0'') (Protected (Own Dashboard))
     (fst (serve (demo_ctx 70 7) 0 demo_request (Protected (Own Dashboard)) (fold happen demo_events (demo_role_world ''member''))))"
  using answers_as_documented [OF demo_sound] demo_dashboard_ok by blast

end
