(* ===== verification/Coherence.thy ===== *)
theory Coherence
  imports TaskProperties
begin

text \<open>
  The versioned read cache under concurrency. A cached read is four awaits (read the version, look
  the key up, read the database, store the answer under the version read first) and a write two
  (commit, then bump the version), and every interleaving of any number of them is possible. The
  step relation has one constructor per await; \<open>cs_pending\<close> counts the writers that have
  committed and not yet bumped.
\<close>

datatype reader = ReadVersion nat | ReadTask nat task_response

record cache_state =
  cs_db :: db
  cs_redis :: redis
  cs_readers :: "reader list"
  cs_pending :: nat

definition task_view :: "uuid \<Rightarrow> uuid \<Rightarrow> db \<Rightarrow> task_response result" where
  "task_view tenant i d =
     try_then (ok_or (db_get_task tenant i d) (NotFound ''task not found'')) task_response"

inductive cache_step :: "uuid \<Rightarrow> uuid \<Rightarrow> cache_state \<Rightarrow> cache_state \<Rightarrow> bool" for tenant i where
  commit: "task_step tenant (cs_db s) d' \<Longrightarrow>
     cache_step tenant i s (s\<lparr>cs_db := d', cs_pending := cs_pending s + 1\<rparr>)"
| bump: "0 < cs_pending s \<Longrightarrow> bump_tenant_cache_version now tenant (cs_redis s) = (Inr v, r') \<Longrightarrow>
     cache_step tenant i s (s\<lparr>cs_redis := r', cs_pending := cs_pending s - 1\<rparr>)"
| read_version: "tenant_cache_version now tenant (cs_redis s) = (Inr v, r') \<Longrightarrow>
     cache_step tenant i s (s\<lparr>cs_redis := r', cs_readers := ReadVersion v # cs_readers s\<rparr>)"
| read_db: "ReadVersion v \<in> set (cs_readers s) \<Longrightarrow> task_view tenant i (cs_db s) = Inr x \<Longrightarrow>
     cache_step tenant i s (s\<lparr>cs_readers := ReadTask v x # remove1 (ReadVersion v) (cs_readers s)\<rparr>)"
| store: "ReadTask v x \<in> set (cs_readers s) \<Longrightarrow>
     set_json now (KTaskDetail tenant v i) (RTask x) ttl (cs_redis s) = (Inr (), r') \<Longrightarrow>
     cache_step tenant i s (s\<lparr>cs_redis := r', cs_readers := remove1 (ReadTask v x) (cs_readers s)\<rparr>)"
| leave: "rd \<in> set (cs_readers s) \<Longrightarrow>
     cache_step tenant i s (s\<lparr>cs_readers := remove1 rd (cs_readers s)\<rparr>)"

fun reader_version :: "reader \<Rightarrow> nat" where
  "reader_version (ReadVersion v) = v"
| "reader_version (ReadTask v x) = v"

text \<open>
  No reader and no entry is ahead of the version, and what a reader holds or an entry keeps for
  the current version is the current row, unless a committed write has not bumped yet.
\<close>

definition cache_inv :: "uuid \<Rightarrow> uuid \<Rightarrow> cache_state \<Rightarrow> bool" where
  "cache_inv tenant i s \<longleftrightarrow>
     (let V = version_of (cs_redis s) tenant in
      wf_redis (cs_redis s) \<and>
      (\<forall>rd \<in> set (cs_readers s). reader_version rd \<le> V) \<and>
      (\<forall>v y. kv (cs_redis s) (KTaskDetail tenant v i) = Some y \<longrightarrow> v \<le> V \<and> (\<exists>x. fst y = RTask x)) \<and>
      (cs_pending s = 0 \<longrightarrow>
         (\<forall>x. ReadTask V x \<in> set (cs_readers s) \<longrightarrow> task_view tenant i (cs_db s) = Inr x) \<and>
         (\<forall>x e. kv (cs_redis s) (KTaskDetail tenant V i) = Some (RTask x, e) \<longrightarrow>
            task_view tenant i (cs_db s) = Inr x)))"

lemma kv_put_other: "k \<noteq> k' \<Longrightarrow> kv (redis_put k v x r) k' = kv r k'"
  by (simp add: redis_put_def)

lemma kv_put_same: "kv (redis_put k v x r) k = Some (v, x)"
  by (simp add: redis_put_def)

lemma cache_inv_entry:
  assumes "cache_inv tenant i s" and "kv (cs_redis s) (KTaskDetail tenant v i) = Some y"
  shows "v \<le> version_of (cs_redis s) tenant \<and> (\<exists>x. fst y = RTask x)"
  using assms unfolding cache_inv_def Let_def by blast

lemma cache_step_inv:
  assumes "cache_step tenant i s s'" and inv: "cache_inv tenant i s"
  shows "cache_inv tenant i s'"
  using assms(1)
proof (cases rule: cache_step.cases)
  case (commit d')
  then show ?thesis using inv unfolding cache_inv_def Let_def by fastforce
next
  case (bump now v r')
  let ?V = "version_of (cs_redis s) tenant"
  have wf: "wf_redis (cs_redis s)" using inv by (simp add: cache_inv_def Let_def)
  have r': "r' = redis_put (KTenantVersion tenant) (RCounter (?V + 1)) None (cs_redis s)"
    using bump(3) bump_eq [OF wf, of now tenant] by (simp del: One_nat_def add_Suc_right) auto
  have noread: "ReadTask (?V + 1) x \<notin> set (cs_readers s)" for x
  proof
    assume "ReadTask (?V + 1) x \<in> set (cs_readers s)"
    then have "reader_version (ReadTask (?V + 1) x) \<le> ?V"
      using inv unfolding cache_inv_def Let_def by blast
    then show False by simp
  qed
  have noentry: "kv r' (KTaskDetail tenant (?V + 1) i) \<noteq> Some y" for y
  proof
    assume "kv r' (KTaskDetail tenant (?V + 1) i) = Some y"
    then have "kv (cs_redis s) (KTaskDetail tenant (?V + 1) i) = Some y"
      by (simp add: r' kv_put_other)
    from cache_inv_entry [OF inv this] show False by simp
  qed
  have V': "version_of r' tenant = ?V + 1" by (simp add: r')
  have "wf_redis r'" unfolding r' by (rule wf_redis_put [OF wf]) simp
  moreover have "\<forall>rd \<in> set (cs_readers s). reader_version rd \<le> ?V + 1"
    using inv by (auto simp: cache_inv_def Let_def intro: le_SucI)
  moreover have "v \<le> ?V + 1 \<and> (\<exists>x. fst y = RTask x)"
    if "kv r' (KTaskDetail tenant v i) = Some y" for v y
  proof -
    have "kv (cs_redis s) (KTaskDetail tenant v i) = Some y" using that by (simp add: r' kv_put_other)
    from cache_inv_entry [OF inv this] show ?thesis by simp
  qed
  ultimately show ?thesis
    using bump(1) noread noentry unfolding cache_inv_def Let_def
    by (simp add: V' del: One_nat_def add_Suc_right)
next
  case (read_version now v r')
  have wf: "wf_redis (cs_redis s)" using inv by (simp add: cache_inv_def Let_def)
  then have "v = version_of (cs_redis s) tenant" "r' = cs_redis s"
    using read_version(2) version_read [OF wf, of now tenant] by auto
  then show ?thesis using inv unfolding cache_inv_def Let_def read_version(1) by fastforce
next
  case (read_db v x)
  have v: "v \<le> version_of (cs_redis s) tenant"
    using inv read_db(2) unfolding cache_inv_def Let_def by force
  have sub: "set (remove1 (ReadVersion v) (cs_readers s)) \<subseteq> set (cs_readers s)"
    by (rule set_remove1_subset)
  show ?thesis
    using inv v sub read_db(3) unfolding cache_inv_def Let_def read_db(1) by auto
next
  case (store v x now ttl r')
  let ?V = "version_of (cs_redis s) tenant"
  have wf: "wf_redis (cs_redis s)" using inv by (simp add: cache_inv_def Let_def)
  have r': "r' = redis_put (KTaskDetail tenant v i) (RTask x) (Some (now + seconds (int ttl))) (cs_redis s)"
    using store(3) by (simp add: set_json_def split: if_splits)
  have V': "version_of r' tenant = ?V" by (simp add: r')
  have "reader_version (ReadTask v x) \<le> ?V"
    using inv store(2) unfolding cache_inv_def Let_def by blast
  then have v: "v \<le> ?V" by simp
  have view: "task_view tenant i (cs_db s) = Inr x" if "cs_pending s = 0" "v = ?V"
    using inv store(2) that unfolding cache_inv_def Let_def by blast
  have sub: "set (remove1 (ReadTask v x) (cs_readers s)) \<subseteq> set (cs_readers s)"
    by (rule set_remove1_subset)
  have "wf_redis r'" unfolding r' by (rule wf_redis_put [OF wf]) simp
  moreover have "v' \<le> ?V \<and> (\<exists>z. fst y = RTask z)"
    if "kv r' (KTaskDetail tenant v' i) = Some y" for v' y
  proof (cases "v' = v")
    case True
    then show ?thesis using that v by (auto simp: r' kv_put_same)
  next
    case False
    then have "kv (cs_redis s) (KTaskDetail tenant v' i) = Some y" using that by (simp add: r' kv_put_other)
    then show ?thesis by (rule cache_inv_entry [OF inv])
  qed
  moreover have "task_view tenant i (cs_db s) = Inr z"
    if "cs_pending s = 0" "kv r' (KTaskDetail tenant ?V i) = Some (RTask z, e)" for z e
  proof (cases "v = ?V")
    case True
    then show ?thesis using that view by (simp add: r' kv_put_same)
  next
    case False
    then have "kv (cs_redis s) (KTaskDetail tenant ?V i) = Some (RTask z, e)"
      using that by (simp add: r' kv_put_other)
    then show ?thesis using that inv unfolding cache_inv_def Let_def by blast
  qed
  ultimately show ?thesis
    using inv sub unfolding cache_inv_def Let_def store(1) by (auto simp: V')
next
  case (leave rd)
  have "set (remove1 rd (cs_readers s)) \<subseteq> set (cs_readers s)"
    by (rule set_remove1_subset)
  then show ?thesis using inv unfolding cache_inv_def Let_def leave(1) by auto
qed

lemma cache_steps_inv:
  "(cache_step tenant i)\<^sup>*\<^sup>* s s' \<Longrightarrow> cache_inv tenant i s \<Longrightarrow> cache_inv tenant i s'"
  by (induction rule: rtranclp_induct) (auto intro: cache_step_inv)

definition cache_start :: "db \<Rightarrow> cache_state" where
  "cache_start d = \<lparr>cs_db = d, cs_redis = empty_redis, cs_readers = [], cs_pending = 0\<rparr>"

lemma cache_start_inv: "cache_inv tenant i (cache_start d)"
  by (simp add: cache_inv_def cache_start_def wf_redis_empty) (simp add: empty_redis_def)

lemma svc_get_task_cached_hit:
  assumes "wf_redis (w_redis w)"
    and "redis_get now (KTaskDetail tenant (version_of (w_redis w) tenant) i) (w_redis w) = Some (RTask x)"
  shows "fst (svc_get_task_cached e now tenant i w) = Inr x"
  using assms version_read [OF assms(1), of now tenant]
  by (simp add: svc_get_task_cached_def then_do_def cache_run_def get_json_def decode_task_def)

lemma svc_get_task_cached_miss:
  assumes "wf_redis (w_redis w)" and "0 < cache_ttl (cfg e)"
    and "redis_get now (KTaskDetail tenant (version_of (w_redis w) tenant) i) (w_redis w) = None"
  shows "fst (svc_get_task_cached e now tenant i w) = task_view tenant i (w_db w)"
  using assms version_read [OF assms(1), of now tenant]
  by (cases "db_get_task tenant i (w_db w)")
    (auto simp: svc_get_task_cached_def then_do_def cache_run_def get_json_def svc_get_task_def
      task_view_def set_json_def try_then_def split: sum.splits)


lemma demo_cache_run:
  "\<exists>s t. (cache_step 5 10)\<^sup>*\<^sup>* (cache_start demo_db) s \<and> cs_pending s = 0 \<and>
     version_of (cs_redis s) 5 = 1 \<and> db_get_task 5 10 (cs_db s) = Some t \<and> tk_status t = ''archived''"
proof -
  obtain t d' where run: "db_archive_task 90 7 8 5 10 1 demo_db = Inr (t, d')"
    using demo_archive_runs by blast
  have get: "db_get_task 5 10 d' = Some t" "tk_status t = ''archived''"
    using run
  proof (atomize (full), rule db_archive_task_Inr)
    fix q a
    assume q: "q \<in> set (tasks demo_db)" "tk_tenant_id q = 5" "tk_id q = 10" "tk_status q \<noteq> ''archived''"
      and t: "t = set_task_status 7 1 ''archived'' q"
      and d': "d' = task_write demo_db (update_where
        (\<lambda>t. tk_tenant_id t = 5 \<and> tk_id t = 10 \<and> tk_status t \<noteq> ''archived'')
        (set_task_status 7 1 ''archived'') (tasks demo_db)) [a]"
    have "wf_tasks d'" using archive_restore_wf [OF demo_wf] run by blast
    moreover have "t \<in> set (tasks d')" using q t by (auto simp: d' in_update_where)
    moreover have "tk_tenant_id t = 5" "tk_id t = 10" using q t by (simp_all add: set_task_status_def)
    ultimately show "db_get_task 5 10 d' = Some t \<and> tk_status t = ''archived''"
      using archived_lookup t by (simp add: set_task_status_def)
  qed
  let ?s0 = "cache_start demo_db"
  let ?s1 = "?s0\<lparr>cs_db := d', cs_pending := cs_pending ?s0 + 1\<rparr>"
  let ?r = "redis_put (KTenantVersion 5) (RCounter 1) None empty_redis"
  let ?s2 = "?s1\<lparr>cs_redis := ?r, cs_pending := cs_pending ?s1 - 1\<rparr>"
  have "task_step 5 (cs_db ?s0) d'" using task_step.archived [OF run] by (simp add: cache_start_def)
  then have "cache_step 5 10 ?s0 ?s1" by (rule cache_step.commit)
  moreover have "bump_tenant_cache_version 0 5 (cs_redis ?s1) = (Inr 1, ?r)"
    using bump_eq [OF wf_redis_empty, of 0 5]
    by (simp add: cache_start_def version_of_def empty_redis_def)
  then have "cache_step 5 10 ?s1 ?s2" by (intro cache_step.bump) simp_all
  ultimately have "(cache_step 5 10)\<^sup>*\<^sup>* ?s0 ?s2" by simp
  moreover have "cs_pending ?s2 = 0" "cs_db ?s2 = d'" "version_of (cs_redis ?s2) 5 = 1"
    by (simp_all add: cache_start_def)
  ultimately show ?thesis using get by metis
qed


end
