(* ===== verification/JobProperties.thy ===== *)
theory JobProperties
  imports Jobs TaskProperties
begin

text \<open>
  The life of a background job. \<open>job_step\<close> is what the program does to the table of jobs as long as
  a worker that reports the end of a job still holds it; the last section runs a worker that
  does not.
\<close>

section \<open>Well-formed jobs\<close>

definition terminal_job :: "background_job_record \<Rightarrow> bool" where
  "terminal_job j \<longleftrightarrow> jb_status j = ''completed'' \<or> jb_status j = ''dead_letter''"

definition wf_job :: "background_job_record \<Rightarrow> bool" where
  "wf_job j \<longleftrightarrow>
     0 \<le> jb_attempts j \<and> jb_attempts j \<le> jb_max_attempts j \<and>
     (jb_status j = ''queued'' \<and> jb_attempts j < jb_max_attempts j \<or>
      jb_status j = ''running'' \<and> 0 < jb_attempts j \<and> jb_started_at j \<noteq> None \<or>
      terminal_job j \<and> jb_finished_at j \<noteq> None)"

definition wf_jobs :: "db \<Rightarrow> bool" where
  "wf_jobs d \<longleftrightarrow> distinct (map jb_id (background_jobs d)) \<and> (\<forall>j \<in> set (background_jobs d). wf_job j)"

lemma job_ids [simp]:
  "jb_id (started now j) = jb_id j" "jb_id (reclaimed now j) = jb_id j"
  "jb_id (completed now r j) = jb_id j" "jb_id (failed now c m j) = jb_id j"
  by (simp_all add: started_def reclaimed_def completed_def failed_def Let_def)

lemma terminal_not_ready [simp]: "terminal_job j \<Longrightarrow> \<not> job_ready now j"
  by (auto simp: terminal_job_def job_ready_def)

lemma terminal_not_stale [simp]: "terminal_job j \<Longrightarrow> \<not> job_stale now l j"
  by (auto simp: terminal_job_def job_stale_def)

lemma wf_new_job: "0 < m \<Longrightarrow> wf_job (new_job i now t ty p m)"
  by (simp add: wf_job_def new_job_def)

lemma wf_started: "wf_job j \<Longrightarrow> job_ready now j \<Longrightarrow> wf_job (started now j)"
  by (auto simp: wf_job_def started_def job_ready_def terminal_job_def)

lemma wf_reclaimed: "wf_job j \<Longrightarrow> job_stale now l j \<Longrightarrow> wf_job (reclaimed now j)"
  by (auto simp: wf_job_def reclaimed_def job_stale_def terminal_job_def Let_def)

lemma wf_completed: "wf_job j \<Longrightarrow> wf_job (completed now r j)"
  by (auto simp: wf_job_def completed_def terminal_job_def)

lemma wf_failed: "wf_job j \<Longrightarrow> wf_job (failed now j m j)"
  by (auto simp: wf_job_def failed_def terminal_job_def Let_def)

lemma wf_jobs_update:
  assumes "wf_jobs d" and "\<And>j. jb_id (f j) = jb_id j"
    and "\<And>j. j \<in> set (background_jobs d) \<Longrightarrow> P j \<Longrightarrow> wf_job (f j)"
  shows "wf_jobs (d\<lparr>background_jobs := update_where P f (background_jobs d)\<rparr>)"
  using assms by (auto simp: wf_jobs_def map_key_update_where in_update_where)

lemma job_unique: "wf_jobs d \<Longrightarrow> j \<in> set (background_jobs d) \<Longrightarrow> k \<in> set (background_jobs d) \<Longrightarrow>
    jb_id j = jb_id k \<Longrightarrow> j = k"
  unfolding wf_jobs_def by (blast intro: key_unique)

section \<open>Steps\<close>

text \<open>
  The second component is the set of the identifiers drawn so far. A worker's copy \<open>c\<close> of a job is
  current when it is the row itself: \<open>complete\<close> and \<open>fail\<close> are the reports of such workers.
\<close>

inductive job_step :: "db \<times> uuid set \<Rightarrow> db \<times> uuid set \<Rightarrow> bool" where
  create: "i \<notin> used \<Longrightarrow> 0 < m \<Longrightarrow> db_create_job i now t ty p m d = Inr (j, d') \<Longrightarrow> job_step (d, used) (d', insert i used)"
| claim: "job_step (d, used) (snd (db_mark_job_running now i d), used)"
| complete: "c \<in> set (background_jobs d) \<Longrightarrow> jb_status c = ''running'' \<Longrightarrow>
     job_step (d, used) (db_complete_job now (jb_id c) r d, used)"
| fail: "c \<in> set (background_jobs d) \<Longrightarrow> jb_status c = ''running'' \<Longrightarrow>
     job_step (d, used) (db_fail_job now c msg d, used)"
| reap: "db_requeue_stale_jobs now l d = Inr (xs, d') \<Longrightarrow> job_step (d, used) (d', used)"
| purge: "job_step (d, used) (snd (db_purge_terminal_jobs now n d), used)"
| draw: "job_step (d, used) (d, insert i used)"
| other: "background_jobs d' = background_jobs d \<Longrightarrow> job_step (d, used) (d', used)"

inductive_cases job_stepE: "job_step s s'"

definition job_inv :: "db \<times> uuid set \<Rightarrow> bool" where
  "job_inv = (\<lambda>(d, used). wf_jobs d \<and> jb_id ` set (background_jobs d) \<subseteq> used)"

lemma db_create_job_Inr:
  assumes "db_create_job i now t ty p m d = Inr (j, d')"
  shows "background_jobs d' = background_jobs d @ [j]" "j = new_job i now t ty p m"
    "i \<notin> jb_id ` set (background_jobs d)"
  using assms by (auto simp: db_create_job_def try_then_Inr insert_row_Inr new_job_def)

lemma ids_update: "(\<And>j. jb_id (f j) = jb_id j) \<Longrightarrow> jb_id ` set (update_where P f t) = jb_id ` set t"
  using arg_cong [OF map_key_update_where [of jb_id f P t], of set] by simp

lemma wf_update_where_jobs:
  assumes "wf_jobs d" and "background_jobs d' = update_where P f (background_jobs d)"
    and "\<And>j. jb_id (f j) = jb_id j" and "\<And>j. j \<in> set (background_jobs d) \<Longrightarrow> P j \<Longrightarrow> wf_job (f j)"
  shows "wf_jobs d'" and "jb_id ` set (background_jobs d') = jb_id ` set (background_jobs d)"
  using assms by (auto simp: wf_jobs_def map_key_update_where in_update_where ids_update)

lemma job_step_inv: "job_step s s' \<Longrightarrow> job_inv s \<Longrightarrow> job_inv s'"
proof (induction rule: job_step.induct)
  case (create i used m now t ty p d j d')
  note c = db_create_job_Inr [OF create.hyps(3)]
  have "jb_id j = i" "wf_job j" using c(2) create.hyps(2) wf_new_job by (simp_all add: new_job_def)
  with c create.prems show ?case by (auto simp: job_inv_def wf_jobs_def)
next
  case (claim d used now i)
  have "wf_job j" if "j \<in> set (background_jobs d)" for j using claim that by (auto simp: job_inv_def wf_jobs_def)
  with claim show ?case
    using wf_update_where_jobs [of d "snd (db_mark_job_running now i d)" "\<lambda>j. jb_id j = i \<and> job_ready now j" "started now"]
    by (auto simp: job_inv_def db_mark_job_running_def Let_def wf_started simp del: image_iff)
next
  case (complete c d used now r)
  have "wf_job j" if "j \<in> set (background_jobs d)" for j using complete.prems that by (auto simp: job_inv_def wf_jobs_def)
  with complete show ?case
    using wf_update_where_jobs [of d "db_complete_job now (jb_id c) r d" "\<lambda>j. jb_id j = jb_id c" "completed now r"]
    by (auto simp: job_inv_def db_complete_job_def wf_completed)
next
  case (fail c d used now msg)
  have "wf_job (failed now c msg j)" if "j \<in> set (background_jobs d)" "jb_id j = jb_id c" for j
  proof -
    have "wf_jobs d" using fail.prems by (simp add: job_inv_def)
    from job_unique [OF this that(1) fail.hyps(1) that(2)] have "j = c" .
    moreover have "wf_job c" using \<open>wf_jobs d\<close> fail.hyps(1) by (simp add: wf_jobs_def)
    ultimately show ?thesis by (simp add: wf_failed)
  qed
  with fail show ?case
    using wf_update_where_jobs [of d "db_fail_job now c msg d" "\<lambda>j. jb_id j = jb_id c" "failed now c msg"]
    by (auto simp: job_inv_def db_fail_job_def)
next
  case (reap now l d xs d' used)
  have wf: "wf_jobs d" using reap.prems by (simp add: job_inv_def)
  have d': "background_jobs d' = update_where (job_stale now l) (reclaimed now) (background_jobs d)"
    using reap.hyps by (auto simp: db_requeue_stale_jobs_def split: if_splits)
  have "wf_job (reclaimed now j)" if "j \<in> set (background_jobs d)" "job_stale now l j" for j
    using wf that by (simp add: wf_jobs_def wf_reclaimed)
  from wf_update_where_jobs [OF wf d' job_ids(2) this] reap.prems show ?case
    by (simp add: job_inv_def del: image_subset_iff)
next
  case (purge d used now n)
  then show ?case
    by (auto simp: job_inv_def wf_jobs_def db_purge_terminal_jobs_def Let_def distinct_map_delete_where)
next
  case (draw d used i)
  then show ?case by (auto simp: job_inv_def)
next
  case (other d' d used)
  then show ?case by (simp add: job_inv_def wf_jobs_def)
qed

text \<open>A job that has ended stays exactly as it is until it is purged.\<close>

definition ended_as :: "background_job_record \<Rightarrow> db \<times> uuid set \<Rightarrow> bool" where
  "ended_as j = (\<lambda>(d, used). jb_id j \<in> used \<and> (\<forall>r \<in> set (background_jobs d). jb_id r = jb_id j \<longrightarrow> r = j))"

lemma ended_update:
  assumes "\<forall>r \<in> set t. jb_id r = jb_id j \<longrightarrow> r = j" and "\<And>r. jb_id (f r) = jb_id r" and "\<not> P j"
  shows "\<forall>r \<in> set (update_where P f t). jb_id r = jb_id j \<longrightarrow> r = j"
proof (intro ballI impI)
  fix r assume r: "r \<in> set (update_where P f t)" "jb_id r = jb_id j"
  then consider "r \<in> set t" | x where "x \<in> set t" "P x" "r = f x" by (auto simp: in_update_where)
  then show "r = j"
  proof cases
    case 1
    with assms(1) r(2) show ?thesis by blast
  next
    case 2
    then have "x = j" using assms(1,2) r(2) by metis
    with 2 assms(3) show ?thesis by simp
  qed
qed

lemma job_step_ended: "job_step s s' \<Longrightarrow> job_inv s \<Longrightarrow> terminal_job j \<Longrightarrow> ended_as j s \<Longrightarrow> ended_as j s'"
proof (induction rule: job_step.induct)
  case (create i used m now t ty p d k d')
  note c = db_create_job_Inr [OF create.hyps(3)]
  show ?case using create.prems create.hyps(1) c(1,2) by (auto simp: ended_as_def new_job_def)
next
  case (claim d used now i)
  then show ?case
    using ended_update [of "background_jobs d" j "started now" "\<lambda>k. jb_id k = i \<and> job_ready now k"]
    by (simp add: ended_as_def db_mark_job_running_def Let_def)
next
  case (complete c d used now r)
  have "jb_id j \<noteq> jb_id c"
    using complete.prems(2,3) complete.hyps by (auto simp: ended_as_def terminal_job_def)
  with complete.prems show ?case
    using ended_update [of "background_jobs d" j "completed now r" "\<lambda>k. jb_id k = jb_id c"]
    by (simp add: ended_as_def db_complete_job_def)
next
  case (fail c d used now msg)
  have "jb_id j \<noteq> jb_id c"
    using fail.prems(2,3) fail.hyps by (auto simp: ended_as_def terminal_job_def)
  with fail.prems show ?case
    using ended_update [of "background_jobs d" j "failed now c msg" "\<lambda>k. jb_id k = jb_id c"]
    by (simp add: ended_as_def db_fail_job_def)
next
  case (reap now l d xs d' used)
  then show ?case
    using ended_update [of "background_jobs d" j "reclaimed now" "job_stale now l"]
    by (auto simp: ended_as_def db_requeue_stale_jobs_def split: if_splits)
next
  case (purge d used now n)
  then show ?case by (auto simp: ended_as_def db_purge_terminal_jobs_def Let_def)
next
  case (draw d used i)
  then show ?case by (simp add: ended_as_def)
next
  case (other d' d used)
  then show ?case by (simp add: ended_as_def)
qed

lemma job_steps_inv: "job_step\<^sup>*\<^sup>* s s' \<Longrightarrow> job_inv s \<Longrightarrow> job_inv s'"
  by (induction rule: rtranclp_induct) (auto intro: job_step_inv)

lemma job_steps_ended: "job_step\<^sup>*\<^sup>* s s' \<Longrightarrow> job_inv s \<Longrightarrow> terminal_job j \<Longrightarrow> ended_as j s \<Longrightarrow> ended_as j s'"
  by (induction rule: rtranclp_induct) (auto intro: job_step_ended job_steps_inv)

lemma job_lifecycle_parts:
  assumes "wf_jobs d" and "jb_id ` set (background_jobs d) \<subseteq> used" and "job_step\<^sup>*\<^sup>* (d, used) (d', used')"
  shows "\<forall>j \<in> set (background_jobs d'). jb_attempts j \<le> jb_max_attempts j \<and>
      (jb_status j = ''queued'' \<longrightarrow> jb_attempts j < jb_max_attempts j)"
    and "j \<in> set (background_jobs d) \<Longrightarrow> terminal_job j \<Longrightarrow>
      r \<in> set (background_jobs d') \<Longrightarrow> jb_id r = jb_id j \<Longrightarrow> r = j"
proof -
  have inv: "job_inv (d, used)" using assms(1,2) by (simp add: job_inv_def)
  from job_steps_inv [OF assms(3) inv] show "\<forall>j \<in> set (background_jobs d'). jb_attempts j \<le> jb_max_attempts j \<and>
      (jb_status j = ''queued'' \<longrightarrow> jb_attempts j < jb_max_attempts j)"
    by (auto simp: job_inv_def wf_jobs_def wf_job_def terminal_job_def)
  show "r = j" if j: "j \<in> set (background_jobs d)" "terminal_job j"
    and r: "r \<in> set (background_jobs d')" "jb_id r = jb_id j"
  proof -
    have "ended_as j (d, used)" using j(1) assms(1,2) job_unique by (auto simp: ended_as_def)
    from job_steps_ended [OF assms(3) inv j(2) this] r show ?thesis by (simp add: ended_as_def)
  qed
qed


definition demo_jobs_db :: db where
  "demo_jobs_db = demo_db\<lparr>background_jobs :=
     [new_job 80 0 (Some 5) ''task_export'' JNull 2,
      completed 3 JNull (started 1 (new_job 81 0 None ''retention_sweep'' JNull 2))]\<rparr>"

lemmas demo_jobs_simps = demo_jobs_db_def demo_simps new_job_def completed_def started_def

lemma demo_jobs_wf: "wf_jobs demo_jobs_db" "jb_id ` set (background_jobs demo_jobs_db) \<subseteq> {80, 81}"
  by (simp_all add: wf_jobs_def wf_job_def terminal_job_def demo_jobs_simps)


section \<open>Every job settles\<close>

text \<open>
  A job offered to a worker at time \<open>t\<close>: the worker claims it and ends its run in one of three ways.
  A worker that crashes reports nothing; the reaper takes the job back when the lease is over.
\<close>

datatype run_end = Done json | Failed string | Crashed

definition end_run :: "nat \<Rightarrow> time \<Rightarrow> run_end \<Rightarrow> background_job_record \<Rightarrow> db \<Rightarrow> db" where
  "end_run lease t oc c d =
     (case oc of
        Done r \<Rightarrow> db_complete_job t (jb_id c) r d
      | Failed m \<Rightarrow> db_fail_job t c m d
      | Crashed \<Rightarrow> (case db_requeue_stale_jobs (t + seconds (int lease)) lease d of Inl _ \<Rightarrow> d | Inr (_, d') \<Rightarrow> d'))"

definition offer :: "nat \<Rightarrow> uuid \<Rightarrow> time \<Rightarrow> run_end \<Rightarrow> db \<Rightarrow> db" where
  "offer lease i t oc d =
     (case db_mark_job_running t i d of (None, d') \<Rightarrow> d' | (Some c, d') \<Rightarrow> end_run lease t oc c d')"

fun offers :: "nat \<Rightarrow> uuid \<Rightarrow> (time \<times> run_end) list \<Rightarrow> db \<Rightarrow> db" where
  "offers lease i [] d = d"
| "offers lease i ((t, oc) # os) d = offers lease i os (offer lease i t oc d)"

text \<open>The offers are far enough apart for the longest backoff and the lease.\<close>

fun spaced :: "nat \<Rightarrow> time \<Rightarrow> (time \<times> run_end) list \<Rightarrow> bool" where
  "spaced lease due [] = True"
| "spaced lease due ((t, oc) # os) \<longleftrightarrow> due \<le> t \<and> spaced lease (t + seconds (256 + int lease)) os"

lemma updated_in: "r \<in> set t \<Longrightarrow> P r \<Longrightarrow> f r \<in> set (update_where P f t)"
  by (auto simp: in_update_where)

lemma mark_running_one:
  assumes wf: "wf_jobs d" and j: "j \<in> set (background_jobs d)" "job_ready t j"
  shows "db_mark_job_running t (jb_id j) d =
    (Some (started t j), d\<lparr>background_jobs := update_where (\<lambda>k. jb_id k = jb_id j \<and> job_ready t k) (started t) (background_jobs d)\<rparr>)"
proof -
  have "filter (\<lambda>k. jb_id k = jb_id j \<and> job_ready t k) (background_jobs d) = [j]"
    by (rule update_where_one [of jb_id]) (use wf j in \<open>auto simp: wf_jobs_def\<close>)
  then show ?thesis by (simp add: db_mark_job_running_def returning_def)
qed

lemma offer_terminal:
  assumes wf: "wf_jobs d" and j: "j \<in> set (background_jobs d)" "terminal_job j"
  shows "offer lease (jb_id j) t oc d = d"
proof -
  have none: "\<not> (jb_id k = jb_id j \<and> job_ready t k)" if "k \<in> set (background_jobs d)" for k
    using job_unique [OF wf that j(1)] j(2) by auto
  then have "filter (\<lambda>k. jb_id k = jb_id j \<and> job_ready t k) (background_jobs d) = []"
    by (simp add: filter_empty_conv)
  with none show ?thesis
    by (simp add: offer_def db_mark_job_running_def returning_def update_where_no_match)
qed

lemma offer_queued:
  assumes wf: "wf_jobs d" and j: "j \<in> set (background_jobs d)" "job_ready t j"
    and lease: "lease \<le> 9223372036854775"
  obtains k where "wf_jobs (offer lease (jb_id j) t oc d)" "k \<in> set (background_jobs (offer lease (jb_id j) t oc d))"
    "jb_id k = jb_id j" "jb_max_attempts k = jb_max_attempts j" "jb_attempts k = jb_attempts j + 1"
    "terminal_job k \<or> jb_status k = ''queued'' \<and> jb_scheduled_at k \<le> t + seconds (256 + int lease)"
proof -
  let ?P = "\<lambda>k. jb_id k = jb_id j \<and> job_ready t k"
  define d1 where "d1 = d\<lparr>background_jobs := update_where ?P (started t) (background_jobs d)\<rparr>"
  have wj: "wf_job j" using wf j(1) by (simp add: wf_jobs_def)
  have s: "started t j \<in> set (background_jobs d1)" unfolding d1_def using j by (auto simp: in_update_where)
  have ws: "wf_job (started t j)" by (rule wf_started [OF wj j(2)])
  have wf1: "wf_jobs d1" unfolding d1_def
    by (rule wf_jobs_update [OF wf]) (use wf in \<open>auto simp: wf_jobs_def intro: wf_started\<close>)
  have o: "offer lease (jb_id j) t oc d = end_run lease t oc (started t j) d1"
    by (simp add: offer_def mark_running_one [OF wf j] d1_def)
  have run: "jb_status (started t j) = ''running''" "jb_started_at (started t j) = Some t"
    "jb_attempts (started t j) = jb_attempts j + 1" "jb_max_attempts (started t j) = jb_max_attempts j"
    by (simp_all add: started_def)
  have wf2: "wf_jobs (end_run lease t oc (started t j) d1)"
  proof -
    have inv: "job_inv (d1, jb_id ` set (background_jobs d1))" using wf1 by (simp add: job_inv_def)
    have "job_step (d1, jb_id ` set (background_jobs d1)) (end_run lease t oc (started t j) d1, jb_id ` set (background_jobs d1))"
    proof (cases oc)
      case (Done r)
      then show ?thesis using job_step.complete [OF s run(1)] by (simp add: end_run_def)
    next
      case (Failed m)
      then show ?thesis using job_step.fail [OF s run(1)] by (simp add: end_run_def)
    next
      case Crashed
      then show ?thesis
        by (cases "db_requeue_stale_jobs (t + seconds (int lease)) lease d1")
          (auto simp: end_run_def intro: job_step.reap job_step.other)
    qed
    from job_step_inv [OF this inv] show ?thesis by (simp add: job_inv_def)
  qed
  have b: "retry_backoff t a \<le> t + seconds (256 + int lease)" "t \<le> t + seconds (256 + int lease)" for a
    using retry_backoff_bounds [of t a] by (auto simp: seconds_def)
  show ?thesis
  proof (cases oc)
    case (Done r)
    have "completed t r (started t j) \<in> set (background_jobs (offer lease (jb_id j) t oc d))"
      unfolding o using s Done by (simp add: end_run_def db_complete_job_def updated_in)
    then show ?thesis
      by (rule that [OF wf2 [folded o]]) (simp_all add: completed_def started_def terminal_job_def)
  next
    case (Failed m)
    have "failed t (started t j) m (started t j) \<in> set (background_jobs (offer lease (jb_id j) t oc d))"
      unfolding o using s Failed by (simp add: end_run_def db_fail_job_def updated_in)
    then show ?thesis
      by (rule that [OF wf2 [folded o]])
        (use b in \<open>auto simp: failed_def started_def terminal_job_def Let_def\<close>)
  next
    case Crashed
    have "job_stale (t + seconds (int lease)) lease (started t j)" by (simp add: job_stale_def run)
    then have "reclaimed (t + seconds (int lease)) (started t j) \<in> set (background_jobs (offer lease (jb_id j) t oc d))"
      unfolding o using s Crashed lease by (simp add: end_run_def db_requeue_stale_jobs_def updated_in)
    then show ?thesis
      by (rule that [OF wf2 [folded o]])
        (auto simp: reclaimed_def started_def terminal_job_def Let_def seconds_def)
  qed
qed

lemma offers_settle:
  assumes "wf_jobs d" and "j \<in> set (background_jobs d)" and "lease \<le> 9223372036854775"
    and "terminal_job j \<or> jb_status j = ''queued'' \<and> spaced lease (jb_scheduled_at j) os \<and>
      jb_max_attempts j - jb_attempts j \<le> int (length os)"
  shows "\<exists>k \<in> set (background_jobs (offers lease (jb_id j) os d)). jb_id k = jb_id j \<and> terminal_job k \<and>
    jb_attempts k \<le> jb_max_attempts j"
  using assms
proof (induction os arbitrary: d j)
  case Nil
  have "wf_job j" using Nil by (simp add: wf_jobs_def)
  with Nil have "terminal_job j" by (auto simp: wf_job_def terminal_job_def)
  with Nil \<open>wf_job j\<close> show ?case by (auto simp: wf_job_def)
next
  case (Cons x os)
  obtain t oc where x: "x = (t, oc)" by (cases x)
  show ?case
  proof (cases "terminal_job j")
    case True
    have "offer lease (jb_id j) t oc d = d" by (rule offer_terminal [OF Cons.prems(1,2) True])
    with Cons.IH [OF Cons.prems(1,2,3)] True x show ?thesis by simp
  next
    case False
    with Cons.prems(4) x have q: "jb_status j = ''queued''" "jb_scheduled_at j \<le> t"
      and sp: "spaced lease (t + seconds (256 + int lease)) os"
      and len: "jb_max_attempts j - jb_attempts j \<le> int (length os) + 1" by auto
    then have ready: "job_ready t j" by (simp add: job_ready_def)
    obtain k where k: "wf_jobs (offer lease (jb_id j) t oc d)" "k \<in> set (background_jobs (offer lease (jb_id j) t oc d))"
      "jb_id k = jb_id j" "jb_max_attempts k = jb_max_attempts j" "jb_attempts k = jb_attempts j + 1"
      "terminal_job k \<or> jb_status k = ''queued'' \<and> jb_scheduled_at k \<le> t + seconds (256 + int lease)"
      by (rule offer_queued [OF Cons.prems(1,2) ready Cons.prems(3)])
    have "spaced lease (jb_scheduled_at k) os" if "jb_scheduled_at k \<le> t + seconds (256 + int lease)"
      using sp that by (cases os) auto
    with k(6) have "terminal_job k \<or> jb_status k = ''queued'' \<and> spaced lease (jb_scheduled_at k) os \<and>
        jb_max_attempts k - jb_attempts k \<le> int (length os)"
      using len k(4,5) by auto
    from Cons.IH [OF k(1,2) Cons.prems(3) this] show ?thesis using k(3,4) x by simp
  qed
qed



section \<open>A stale worker\<close>

text \<open>
  The reports are unconditional: a worker whose lease was taken away still writes the end of its own
  run over whatever the job has become. A first worker claims a job with a maximum of two attempts
  and stalls; the reaper requeues it and a second worker completes it; the first worker then reports
  its failure, and the completed job is queued again, with its attempts used up, and runs a third time.
\<close>

lemma stale_worker_reruns_completed_job:
  defines "j \<equiv> new_job 80 0 None ''retention_sweep'' JNull 2"
  defines "d1 \<equiv> snd (db_mark_job_running 0 80 (empty_db\<lparr>background_jobs := [j]\<rparr>))"
  defines "d2 \<equiv> snd (projr (db_requeue_stale_jobs (seconds 300) 300 d1))"
  defines "d3 \<equiv> db_complete_job (seconds 301) 80 JNull (snd (db_mark_job_running (seconds 300) 80 d2))"
  defines "d4 \<equiv> db_fail_job (seconds 302) (started 0 j) ''late'' d3"
  defines "d5 \<equiv> snd (db_mark_job_running (seconds 400) 80 d4)"
  shows "map jb_status (background_jobs d3) = [''completed''] \<and>
    map jb_status (background_jobs d4) = [''queued''] \<and>
    map (\<lambda>j. (jb_attempts j, jb_max_attempts j)) (background_jobs d5) = [(3, 2)]"
  by (simp add: assms db_mark_job_running_def db_requeue_stale_jobs_def db_complete_job_def db_fail_job_def
      update_where_def returning_def new_job_def started_def completed_def failed_def reclaimed_def
      job_ready_def job_stale_def seconds_def retry_backoff_def Let_def)

section \<open>The worker\<close>

text \<open>
  One worker process: its loops' ticks, one after the other in any order. \<open>used\<close> holds the
  identifiers drawn so far.
\<close>

inductive worker_step :: "env \<Rightarrow> world \<times> uuid set \<Rightarrow> world \<times> uuid set \<Rightarrow> bool" for e where
  dispatch: "worker_step e (w, used) (snd (dispatch_tick now w), used)"
| process: "worker_step e (w, used) (snd (processor_tick e aids nids now w), used)"
| reap: "worker_step e (w, used) (snd (reaper_tick e now w), used)"
| schedule: "i \<notin> used \<Longrightarrow> k \<notin> used \<Longrightarrow> i \<noteq> k \<Longrightarrow>
     worker_step e (w, used) (snd (scheduler_tick e i k now w), insert k (insert i used))"

lemma for_each_db: "(\<And>x w. w_db (snd (f x w)) = w_db w) \<Longrightarrow> w_db (snd (for_each f xs w)) = w_db w"
proof (induction xs arbitrary: w)
  case (Cons x xs)
  have "w_db (snd (then_do (f x) (\<lambda>_. for_each f xs) w)) = w_db w"
    by (rule then_do_keeps [where T = w_db]) (use Cons in auto)
  then show ?case by simp
qed simp

lemma cache_run_db [simp]: "w_db (snd (cache_run f w)) = w_db w"
  by (simp add: cache_run_def split: prod.splits)

lemma dispatch_tick_db [simp]: "w_db (snd (dispatch_tick now w)) = w_db w"
  by (simp add: dispatch_tick_def logged_eq svc_dispatch_ready_jobs_def then_do_def for_each_db)

lemma reminders_keep_jobs:
  "background_jobs (w_db (snd (enqueue_reminders e nids now b k cs w))) = background_jobs (w_db w)"
proof (induction cs arbitrary: k w)
  case (Cons c cs)
  let ?T = "\<lambda>w. background_jobs (w_db w)"
  have "?T (snd (db_run (db_enqueue_notification i now n m) w)) = ?T w" for i n m w
    using enqueue_frame [of i now n m w] by auto
  with Cons show ?case by (auto intro!: then_do_keeps [where T = ?T])
qed simp

lemma insert_task_audits_jobs: "insert_task_audits rows d = Inr (x, d') \<Longrightarrow> background_jobs d' = background_jobs d"
  by (induction rows arbitrary: d) (auto simp: try_then_Inr insert_task_audit_Inr)

lemma store_put_db [simp]: "w_db (snd (store_put k v w)) = w_db w"
  by (simp add: store_put_def split: sum.splits)

lemma export_keeps_db [simp]: "w_db (snd (process_export_job e now j w)) = w_db w"
  unfolding process_export_job_def Let_def
  by (intro then_do_keeps [where T = w_db]) simp_all

lemma run_claimed_job_jobs:
  "background_jobs (w_db (snd (run_claimed_job e aids nids now j ty w))) = background_jobs (w_db w) \<or>
   background_jobs (w_db (snd (run_claimed_job e aids nids now j ty w))) =
     background_jobs (snd (db_purge_terminal_jobs now (job_retention_days (cfg e)) (w_db w)))"
proof (cases ty)
  case TaskExport
  then show ?thesis by (simp add: run_claimed_job_def)
next
  case DueReminderSweep
  let ?T = "\<lambda>w. background_jobs (w_db w)"
  have "?T (snd (db_run (db_record_due_reminders aids now t) w)) = ?T w" for t w
    by (auto simp: db_run_def db_record_due_reminders_def Let_def try_then_def
        dest: insert_task_audits_jobs split: sum.splits prod.splits)
  moreover have "?T (snd (enqueue_due_reminder_notifications e nids now t w)) = ?T w" for t w
    unfolding enqueue_due_reminder_notifications_def
    by (rule then_do_keeps [where T = ?T]) (simp_all add: reminders_keep_jobs)
  ultimately have "?T (snd (process_due_reminder_job e aids nids now j w)) = ?T w" for w
    unfolding process_due_reminder_job_def Let_def
    by (intro then_do_keeps [where T = ?T]) simp_all
  with DueReminderSweep show ?thesis by (simp add: run_claimed_job_def)
next
  case RetentionSweep
  have "background_jobs (snd (db_purge_terminal_jobs now n (d\<lparr>refresh_tokens := x\<rparr>))) =
      background_jobs (snd (db_purge_terminal_jobs now n d))" for n d x
    by (simp add: db_purge_terminal_jobs_def Let_def)
  with RetentionSweep show ?thesis
    by (simp add: run_claimed_job_def process_retention_job_def then_do_def db_run_def
        db_purge_terminal_notifications_def db_purge_old_audit_events_def db_purge_stale_refresh_tokens_def
        db_purge_terminal_jobs_def Let_def)
qed

lemma job_other: "background_jobs d' = background_jobs d \<Longrightarrow> job_step\<^sup>*\<^sup>* (d, used) (d', used)"
  by (blast intro: job_step.other)

lemma process_job_steps:
  assumes inv: "job_inv (w_db w, used)"
  shows "job_step\<^sup>*\<^sup>* (w_db w, used) (w_db (snd (svc_process_job e aids nids now i w)), used)"
proof -
  obtain c d where mark: "db_mark_job_running now i (w_db w) = (c, d)" by (cases "db_mark_job_running now i (w_db w)")
  have claim: "job_step (w_db w, used) (d, used)"
    using job_step.claim [of "w_db w" used now i] by (simp add: mark)
  let ?w = "w\<lparr>w_db := d\<rparr>"
  show ?thesis
  proof (cases c)
    case None
    with mark claim show ?thesis by (simp add: svc_process_job_def)
  next
    case (Some j)
    show ?thesis
    proof (cases "job_type_from_str (jb_job_type j)")
      case (Inl err)
      with mark claim Some show ?thesis by (simp add: svc_process_job_def)
    next
      case (Inr ty)
      obtain out v where run: "run_claimed_job e aids nids now j ty ?w = (out, v)"
        by (cases "run_claimed_job e aids nids now j ty ?w")
      have res: "snd (svc_process_job e aids nids now i w) = snd (record_outcome now j out v)"
        using mark Some Inr run by (simp add: svc_process_job_def attempt_def then_do_def)
      have j: "j \<in> set (background_jobs d)" "jb_status j = ''running''"
        using mark Some by (auto simp: db_mark_job_running_def Let_def returning_def in_update_where started_def
            dest!: first_row_SomeD)
      have mid: "job_step\<^sup>*\<^sup>* (d, used) (w_db v, used) \<and> j \<in> set (background_jobs (w_db v))"
        using run_claimed_job_jobs [of e aids nids now j ty ?w]
      proof
        assume "background_jobs (w_db (snd (run_claimed_job e aids nids now j ty ?w))) = background_jobs (w_db ?w)"
        with run j(1) show ?thesis by (simp add: job_other)
      next
        assume p: "background_jobs (w_db (snd (run_claimed_job e aids nids now j ty ?w))) =
            background_jobs (snd (db_purge_terminal_jobs now (job_retention_days (cfg e)) (w_db ?w)))"
        have "job_step (d, used) (snd (db_purge_terminal_jobs now (job_retention_days (cfg e)) d), used)"
          by (rule job_step.purge)
        moreover have "job_step\<^sup>*\<^sup>* (snd (db_purge_terminal_jobs now (job_retention_days (cfg e)) d), used) (w_db v, used)"
          by (rule job_other) (use p run in simp)
        moreover have "j \<in> set (background_jobs (w_db v))"
          using p run j by (simp add: db_purge_terminal_jobs_def Let_def)
        ultimately show ?thesis by (simp add: converse_rtranclp_into_rtranclp)
      qed
      have "job_step (w_db v, used) (w_db (snd (record_outcome now j out v)), used)"
        using job_step.complete [of j "w_db v" used now] job_step.fail [of j "w_db v" used now] mid j(2)
        by (cases out) (simp_all add: record_outcome_def db_run_def)
      with claim mid res show ?thesis by (auto intro: rtranclp.rtrancl_into_rtrancl converse_rtranclp_into_rtranclp)
    qed
  qed
qed

lemma ensure_reminder_steps:
  assumes "i \<notin> used" and "0 < m" and "db_ensure_due_reminder_job i now t m d = Inr (x, d')"
  shows "job_step\<^sup>*\<^sup>* (d, used) (d', insert i used)"
proof (cases "d' = d")
  case True
  then show ?thesis using job_step.draw by blast
next
  case False
  with assms(3) obtain ty p j where "db_create_job i now t ty p m d = Inr (j, d')"
    by (auto simp: db_ensure_due_reminder_job_def try_then_Inr split: if_splits)
  from job_step.create [OF assms(1,2) this] show ?thesis by blast
qed

lemma ensure_retention_steps:
  assumes "i \<notin> used" and "0 < m" and "db_ensure_retention_job i now h m d = Inr (x, d')"
  shows "job_step\<^sup>*\<^sup>* (d, used) (d', insert i used)"
proof (cases "d' = d")
  case True
  then show ?thesis using job_step.draw by blast
next
  case False
  with assms(3) obtain t ty p j where "db_create_job i now t ty p m d = Inr (j, d')"
    by (auto simp: db_ensure_retention_job_def try_then_Inr split: if_splits)
  from job_step.create [OF assms(1,2) this] show ?thesis by blast
qed

lemma enqueue_if_some_db: "w_db (snd (enqueue_if_some m w)) = w_db (snd (m w))"
  by (cases "m w") (auto simp: enqueue_if_some_def then_do_def cache_run_def split: sum.splits option.splits prod.splits)

lemma scheduler_steps:
  assumes fresh: "i \<notin> used" "k \<notin> used" "i \<noteq> k" and m: "0 < max_job_attempts (cfg e)"
  shows "job_step\<^sup>*\<^sup>* (w_db w, used) (w_db (snd (scheduler_tick e i k now w)), insert k (insert i used))"
proof -
  let ?m = "max_job_attempts (cfg e)"
  define v where "v = snd (svc_enqueue_due_reminder_sweep e i now None w)"
  have v: "w_db v = w_db (snd (db_run (db_ensure_due_reminder_job i now None ?m) w))"
    by (simp add: v_def svc_enqueue_due_reminder_sweep_def enqueue_if_some_db)
  have 1: "job_step\<^sup>*\<^sup>* (w_db w, used) (w_db v, insert i used)"
  proof (cases "db_ensure_due_reminder_job i now None ?m (w_db w)")
    case (Inl err)
    then show ?thesis using job_step.draw [of "w_db w" used i] by (auto simp: v db_run_def)
  next
    case (Inr y)
    obtain x d where y: "y = (x, d)" by (cases y)
    with Inr have "w_db v = d" by (simp add: v)
    with ensure_reminder_steps [OF fresh(1) m, of now None "w_db w" x d] Inr y show ?thesis by simp
  qed
  define u where "u = snd (svc_enqueue_retention_sweep e k now v)"
  have u: "w_db u = w_db (snd (db_run (db_ensure_retention_job k now (retention_sweep_interval_hours (cfg e)) ?m) v))"
    by (simp add: u_def svc_enqueue_retention_sweep_def enqueue_if_some_db)
  have 2: "job_step\<^sup>*\<^sup>* (w_db v, insert i used) (w_db u, insert k (insert i used))"
  proof (cases "db_ensure_retention_job k now (retention_sweep_interval_hours (cfg e)) ?m (w_db v)")
    case (Inl err)
    then show ?thesis using job_step.draw [of "w_db v" "insert i used" k] by (auto simp: u db_run_def)
  next
    case (Inr y)
    obtain x d where y: "y = (x, d)" by (cases y)
    with Inr have "w_db u = d" by (simp add: u)
    with ensure_retention_steps [of k "insert i used" ?m now "retention_sweep_interval_hours (cfg e)" "w_db v" x d]
      Inr y fresh m show ?thesis by simp
  qed
  have "snd (scheduler_tick e i k now w) = u"
    by (simp add: scheduler_tick_def then_do_def logged_eq v_def u_def)
  with 1 2 show ?thesis by simp
qed

lemma worker_step_jobs:
  assumes "worker_step e s s'" and "0 < max_job_attempts (cfg e)" and "job_inv (w_db (fst s), snd s)"
  shows "job_step\<^sup>*\<^sup>* (w_db (fst s), snd s) (w_db (fst s'), snd s')"
  using assms(1)
proof (cases rule: worker_step.cases)
  case (dispatch w used now)
  then show ?thesis by simp
next
  case (process w used aids nids now)
  obtain x r where q: "dequeue_job (w_redis w) = (x, r)" by (cases "dequeue_job (w_redis w)")
  obtain y where y: "x = Inr y" using q by (auto simp: dequeue_job_def split: list.splits)
  let ?w = "w\<lparr>w_redis := r\<rparr>"
  have inv: "job_inv (w_db ?w, used)" using assms(3) process by simp
  show ?thesis
  proof (cases y)
    case None
    with process q y show ?thesis by (simp add: processor_tick_def)
  next
    case (Some i)
    with process q y process_job_steps [OF inv, of e aids nids now i] show ?thesis
      by (simp add: processor_tick_def logged_eq)
  qed
next
  case (reap w used now)
  show ?thesis
  proof (cases "db_requeue_stale_jobs now (job_lease (cfg e)) (w_db w)")
    case (Inl err)
    with reap show ?thesis by (simp add: reaper_tick_def logged_eq svc_reap_stale_jobs_def)
  next
    case (Inr y)
    obtain xs d where y: "y = (xs, d)" by (cases y)
    with reap Inr job_step.reap [of now "job_lease (cfg e)" "w_db w" xs d used] show ?thesis
      by (auto simp: reaper_tick_def logged_eq svc_reap_stale_jobs_def)
  qed
next
  case (schedule i used k w now)
  then show ?thesis using scheduler_steps [OF schedule(3-5) assms(2)] by simp
qed

text \<open>C25. One worker process, whatever order its loops tick in, whatever its jobs do and however they end,
  takes only the steps of the life of a job: in particular it never runs a job more often than its
  maximum, and never touches a job that has ended, except to purge it.\<close>

theorem worker_refines_lifecycle:
  assumes "(worker_step e)\<^sup>*\<^sup>* (w, used) (w', used')" and "0 < max_job_attempts (cfg e)"
    and "wf_jobs (w_db w)" and "jb_id ` set (background_jobs (w_db w)) \<subseteq> used"
  shows "job_step\<^sup>*\<^sup>* (w_db w, used) (w_db w', used')"
proof -
  have inv: "job_inv (w_db w, used)" using assms(3,4) by (simp add: job_inv_def)
  have "job_step\<^sup>*\<^sup>* (w_db w, used) (w_db (fst s), snd s)" if "(worker_step e)\<^sup>*\<^sup>* (w, used) s" for s
    using that
  proof (induction rule: rtranclp_induct)
    case base
    then show ?case by simp
  next
    case (step y z)
    from worker_step_jobs [OF step.hyps(2) assms(2) job_steps_inv [OF step.IH inv]] step.IH
    show ?case by (rule rtranclp_trans [rotated])
  qed
  from this [OF assms(1)] show ?thesis by simp
qed

theorem worker_refines_lifecycle_witness:
  "job_step\<^sup>*\<^sup>* (w_db (demo_world\<lparr>w_db := demo_jobs_db\<rparr>), {80, 81})
     (w_db (snd (scheduler_tick sample_env 90 91 7 (demo_world\<lparr>w_db := demo_jobs_db\<rparr>))), {90, 91, 80, 81})"
proof -
  let ?w = "demo_world\<lparr>w_db := demo_jobs_db\<rparr>"
  have "(worker_step sample_env)\<^sup>*\<^sup>* (?w, {80, 81}) (snd (scheduler_tick sample_env 90 91 7 ?w), insert 91 (insert 90 {80, 81}))"
    by (intro r_into_rtranclp worker_step.schedule) simp_all
  then have "job_step\<^sup>*\<^sup>* (w_db ?w, {80, 81})
      (w_db (snd (scheduler_tick sample_env 90 91 7 ?w)), insert 91 (insert 90 {80, 81}))"
    by (rule worker_refines_lifecycle) (use demo_jobs_wf in \<open>simp_all add: sample_env_def default_cli_def\<close>)
  then show ?thesis by (simp add: insert_commute)
qed

end
