(* ===== verification/ExportProperties.thy ===== *)
theory ExportProperties
  imports Jobs TaskProperties
begin

text \<open>
  What the jobs produce: the artifact of a task export and the reminders of a sweep.
\<close>

section \<open>The export loop\<close>

lemma export_loop_complete:
  assumes dist: "distinct (map task_cursor_of rows)" and n: "0 < n"
    and "length (filter (\<lambda>r. before_cursor c (task_cursor_of r)) rows) < fuel"
  shows "export_loop (\<lambda>k c. keyset_rows task_cursor_of rows c n) n fuel k c =
    Some (order_desc task_cursor_of (filter (\<lambda>r. before_cursor c (task_cursor_of r)) rows))"
  using assms(3)
proof (induction fuel arbitrary: k c)
  case 0
  then show ?case by simp
next
  case (Suc fuel)
  let ?v = "filter (\<lambda>r. before_cursor c (task_cursor_of r)) rows"
  let ?s = "order_desc task_cursor_of ?v"
  have chunk: "keyset_rows task_cursor_of rows c n = take n ?s"
    by (simp add: keyset_rows_def select_where_def)
  show ?case
  proof (cases "length (take n ?s) = n")
    case False
    then have "length ?s \<le> n" by simp
    with False chunk show ?thesis by simp
  next
    case True
    then obtain m where m: "n = Suc m" "m < length ?v" using n by (cases n) auto
    have last: "last (take n ?s) = ?s ! m" using m by (simp add: take_Suc_conv_app_nth)
    have ne: "take n ?s \<noteq> []" using True n by auto
    let ?c = "Some (task_cursor_of (?s ! m))"
    have rest: "order_desc task_cursor_of (filter (\<lambda>r. before_cursor ?c (task_cursor_of r)) rows) = drop n ?s"
      using rows_after [OF dist m(2) refl] m(1) by simp
    have "length (filter (\<lambda>r. before_cursor ?c (task_cursor_of r)) rows) < fuel"
      using arg_cong [OF rest, of length] Suc.prems m n by simp
    from Suc.IH [OF this] have "export_loop (\<lambda>k c. keyset_rows task_cursor_of rows c n) n fuel (Suc k) ?c = Some (drop n ?s)"
      by (simp only: rest)
    with chunk True ne last show ?thesis by simp
  qed
qed

lemma export_loop_result:
  assumes "wf_tasks d"
  shows "\<exists>ts. export_loop (\<lambda>k c. db_export_tasks e tenant f c export_chunk_size d) export_chunk_size
      (Suc (length (tasks d))) 0 None = Some ts \<and>
    set ts = {t \<in> set (tasks d). tk_tenant_id t = tenant \<and> task_matches e d f t} \<and> distinct ts \<and>
    sorted_wrt (\<lambda>a b. task_cursor_of b < task_cursor_of a) ts"
proof -
  let ?rows = "listed_tasks e tenant f d"
  have "distinct (map tk_id (tasks d))" using assms by (simp add: wf_tasks_def)
  then have "distinct (map task_cursor_of (tasks d))"
    by (rule distinct_keyI) (simp add: task_cursor_of_def)
  then have dist: "distinct (map task_cursor_of ?rows)"
    by (simp add: listed_tasks_def select_where_def distinct_map_filter)
  have "length ?rows < Suc (length (tasks d))"
    by (simp add: listed_tasks_def select_where_def le_imp_less_Suc)
  then have "export_loop (\<lambda>k c. db_export_tasks e tenant f c export_chunk_size d) export_chunk_size
      (Suc (length (tasks d))) 0 None = Some (order_desc task_cursor_of ?rows)"
    using export_loop_complete [OF dist, of export_chunk_size None "Suc (length (tasks d))" 0]
    by (simp add: db_export_tasks_def export_chunk_size_def del: export_loop.simps)
  then show ?thesis
    using dist strict_order_desc [OF dist]
    by (auto simp: listed_tasks_def select_where_def distinct_map simp del: export_loop.simps)
qed



text \<open>
  Between two queries a task may change. A task the loop has not reached yet that is updated meanwhile
  moves to the front of the listing, before the cursor, and is in no later chunk: it is missing from the
  export although it matched the filters the whole time.
\<close>

lemma export_misses_moved_task:
  assumes first: "keyset_rows task_cursor_of rows None n = chunk" "length chunk = n" "0 < n"
    and moved: "task_cursor_of (last chunk) \<le> task_cursor_of t" and "t \<notin> set chunk"
    and dist: "distinct (map task_cursor_of rows2)" and fuel: "length rows2 < fuel"
    and res: "export_loop (\<lambda>k c. keyset_rows task_cursor_of (if k = 0 then rows else rows2) c n) n (Suc fuel) 0 None = Some ts"
  shows "t \<notin> set ts"
proof -
  let ?c = "Some (task_cursor_of (last chunk))"
  have shift: "export_loop (\<lambda>k c. keyset_rows task_cursor_of (if k = 0 then rows else rows2) c n) n g (Suc k) c =
      export_loop (\<lambda>k c. keyset_rows task_cursor_of rows2 c n) n g (Suc k) c" for g k c
    by (induction g arbitrary: k c) (simp_all add: Let_def)
  have few: "length (filter (\<lambda>r. before_cursor ?c (task_cursor_of r)) rows2) < fuel"
    using fuel by (meson le_less_trans length_filter_le)
  have "chunk \<noteq> []" using first(2,3) by auto
  with export_loop_complete [OF dist first(3) few, of 1]
  have "ts = chunk @ order_desc task_cursor_of (filter (\<lambda>r. before_cursor ?c (task_cursor_of r)) rows2)"
    using res first shift [of fuel 0 ?c] by auto
  with assms(4,5) show ?thesis by auto
qed

section \<open>The artifact\<close>

lemma optional_field_json:
  assumes "json_get v k = Some (json_opt g x)" and "\<And>y. g y \<noteq> JNull" and "\<And>y. f (g y) = Some y"
  shows "optional_field f v k = Some x"
  using assms by (cases x) (simp_all add: optional_field_def json_opt_def)

lemma export_payload_parses: "parse_task_filters e (export_payload f) = Some f"
proof -
  let ?v = "export_payload f"
  have get: "json_get ?v ''status'' = Some (json_opt (\<lambda>s. JString (task_status_str s)) (tf_status f))"
    "json_get ?v ''priority'' = Some (json_opt (\<lambda>p. JString (task_priority_str p)) (tf_priority f))"
    "json_get ?v ''project_id'' = Some (json_opt JUuid (tf_project_id f))"
    "json_get ?v ''assignee_id'' = Some (json_opt JUuid (tf_assignee_id f))"
    "json_get ?v ''label_id'' = Some (json_opt JUuid (tf_label_id f))"
    "json_get ?v ''due_before'' = Some (json_opt JTime (tf_due_before f))"
    "json_get ?v ''due_after'' = Some (json_opt JTime (tf_due_after f))"
    "json_get ?v ''updated_after'' = Some (json_opt JTime (tf_updated_after f))"
    "json_get ?v ''q'' = Some (json_opt JString (tf_q f))"
    by (simp_all add: export_payload_def)
  have fields: "optional_field (json_enum task_status_from_str) ?v ''status'' = Some (tf_status f)"
    "optional_field (json_enum task_priority_from_str) ?v ''priority'' = Some (tf_priority f)"
    "optional_field (json_uuid e) ?v ''project_id'' = Some (tf_project_id f)"
    "optional_field (json_uuid e) ?v ''assignee_id'' = Some (tf_assignee_id f)"
    "optional_field (json_uuid e) ?v ''label_id'' = Some (tf_label_id f)"
    "optional_field (json_time e) ?v ''due_before'' = Some (tf_due_before f)"
    "optional_field (json_time e) ?v ''due_after'' = Some (tf_due_after f)"
    "optional_field (json_time e) ?v ''updated_after'' = Some (tf_updated_after f)"
    "optional_field json_as_str ?v ''q'' = Some (tf_q f)"
    by (rule optional_field_json [OF get(1)] optional_field_json [OF get(2)] optional_field_json [OF get(3)]
        optional_field_json [OF get(4)] optional_field_json [OF get(5)] optional_field_json [OF get(6)]
        optional_field_json [OF get(7)] optional_field_json [OF get(8)] optional_field_json [OF get(9)];
        simp add: json_enum_def json_uuid_def json_time_def)+
  have "is_object ?v" by (simp add: is_object_def export_payload_def)
  then show ?thesis by (simp add: parse_task_filters_def fields)
qed

lemma export_job_parses:
  "parse_export_payload e (export_job_json tenant user f format) =
     Some \<lparr>ep_tenant_id = tenant, ep_requested_by = user, ep_filters = f, ep_format = format\<rparr>"
  by (simp add: parse_export_payload_def export_job_json_def json_uuid_def export_payload_parses json_enum_def)

lemma artifact_key_valid:
  assumes "uuid_text_ok e"
  shows "validate_key (artifact_key e tenant job format) = Inr ()"
proof -
  have seg: "\<not> bad_segment (uuid_str e u)" for u by (rule uuid_text_segment [OF assms])
  have "\<not> bad_segment (uuid_str e job @ ''.'' @ export_format_str format)"
  proof -
    have chars: "list_all segment_char (uuid_str e job)" and ne: "uuid_str e job \<noteq> []"
      using seg [of job] by (auto simp: bad_segment_def)
    have ext: "list_all segment_char (''.'' @ export_format_str format)"
      by (cases format) (simp_all add: segment_char_def is_alnum_ascii_def is_upper_ascii_def is_lower_ascii_def
          is_digit_ascii_def byte_def)
    define x where "x = uuid_str e job @ ''.'' @ export_format_str format"
    have "2 < length x" unfolding x_def by (cases format) simp_all
    then have "x \<noteq> []" "x \<noteq> ''.''" "x \<noteq> ''..''" by auto
    moreover have "list_all segment_char x" using chars ext by (simp add: x_def)
    ultimately show ?thesis unfolding x_def [symmetric] by (simp add: bad_segment_def)
  qed
  with seg have "validate_key (join_with ''/'' [uuid_str e tenant, uuid_str e job @ ''.'' @ export_format_str format]) = Inr ()"
    by (intro validate_key_join) auto
  then show ?thesis by (simp add: artifact_key_def)
qed



section \<open>Reminders\<close>

text \<open>
  The key that keeps a reminder from being sent twice names the kind, the task, the assignee and the
  window: two reminders share it only when all four agree.
\<close>

definition digits_value :: "string \<Rightarrow> nat" where
  "digits_value s = foldl (\<lambda>a c. 10 * a + (byte c - 48)) 0 s"

lemma byte_digit: "n < 10 \<Longrightarrow> byte (digit n) = 48 + n"
  by (simp add: byte_def digit_def)

lemma nat_text_digits: "c \<in> set (nat_text n) \<Longrightarrow> is_digit_ascii c"
proof (induction n rule: nat_text.induct)
  case (1 n)
  show ?case
  proof (cases "n < 10")
    case True
    with 1 show ?thesis by (simp add: nat_text.simps [of n] is_digit_ascii_def byte_digit)
  next
    case False
    with 1 show ?thesis by (auto simp: nat_text.simps [of n] is_digit_ascii_def byte_digit)
  qed
qed

lemma digits_value_text: "digits_value (nat_text n) = n"
proof (induction n rule: nat_text.induct)
  case (1 n)
  show ?case
  proof (cases "n < 10")
    case True
    then show ?thesis by (simp add: nat_text.simps [of n] digits_value_def byte_digit)
  next
    case False
    with 1 show ?thesis by (simp add: nat_text.simps [of n] digits_value_def byte_digit)
  qed
qed

lemma dedupe_key_inj:
  assumes e: "uuid_text_ok e" and k: "CHR '':'' \<notin> set kind" "CHR '':'' \<notin> set kind2"
    and eq: "dedupe_key e kind t u b = dedupe_key e kind2 t2 u2 b2"
  shows "kind = kind2 \<and> t = t2 \<and> u = u2 \<and> b = b2"
proof -
  have uuid: "CHR '':'' \<notin> set (uuid_str e i)" for i
  proof -
    have "\<forall>c \<in> set (uuid_str e i). is_alnum_ascii c \<or> c = CHR ''-''" using e by (simp add: uuid_text_ok_def)
    then show ?thesis
      by (auto simp: is_alnum_ascii_def is_upper_ascii_def is_lower_ascii_def is_digit_ascii_def byte_def)
  qed
  have num: "CHR '':'' \<notin> set (nat_text n)" for n
    using nat_text_digits [of "CHR '':''" n] by (auto simp: is_digit_ascii_def byte_def)
  have parts: "split_on CHR '':'' (dedupe_key e kind t u b) = [kind, uuid_str e t, uuid_str e u, nat_text b]"
    if "CHR '':'' \<notin> set kind" for kind t u b
  proof -
    have "dedupe_key e kind t u b = join_with '':'' [kind, uuid_str e t, uuid_str e u, nat_text b]"
      by (simp add: dedupe_key_def)
    then show ?thesis using split_on_join [of "[kind, uuid_str e t, uuid_str e u, nat_text b]" "CHR '':''"] that uuid num
      by auto
  qed
  have "[kind, uuid_str e t, uuid_str e u, nat_text b] = [kind2, uuid_str e t2, uuid_str e u2, nat_text b2]"
    using arg_cong [OF eq, of "split_on CHR '':''"] parts [OF k(1)] parts [OF k(2)] by simp
  then show ?thesis using uuid_text_inj [OF e] digits_value_text by (metis list.inject)
qed

lemma reminder_kind_plain: "CHR '':'' \<notin> set (reminder_kind now due)"
  by (simp add: reminder_kind_def)

definition dedupe_inv :: "db \<Rightarrow> bool" where
  "dedupe_inv d \<longleftrightarrow> (\<forall>k. count_where (\<lambda>n. nt_dedupe_key n = Some k) (notifications d) \<le> 1)"

definition reminder_key :: "env \<Rightarrow> time \<Rightarrow> nat \<Rightarrow> due_reminder_candidate \<Rightarrow> string" where
  "reminder_key e now bucket c =
     dedupe_key e (reminder_kind now (dr_due_at c)) (dr_task_id c) (dr_assignee_id c) bucket"

lemma reminder_notification_key [simp]: "nn_dedupe_key (reminder_notification e now b c) = Some (reminder_key e now b c)"
  by (simp add: reminder_notification_def reminder_key_def Let_def)

lemma db_enqueue_notification_Inr:
  assumes "db_enqueue_notification i now n m d = Inr (b, d')"
  shows "d' = d\<lparr>notifications := notifications d @ (if b then [notification_row i now m n] else [])\<rparr>"
    and "nn_dedupe_key n \<noteq> None \<Longrightarrow> b \<longleftrightarrow> \<not> row_exists (\<lambda>r. nt_dedupe_key r = nn_dedupe_key n) (notifications d)"
  using assms by (auto simp: db_enqueue_notification_def try_then_Inr insert_row_Inr simp del: fk_opt_simps split: if_splits)

lemma enqueue_reminders_Inr:
  assumes "enqueue_reminders e nids now b k cs w = (Inr n, w')" and "dedupe_inv (w_db w)"
  shows "dedupe_inv (w_db w') \<and> (\<exists>new. notifications (w_db w') = notifications (w_db w) @ new \<and> length new = n) \<and>
    (\<forall>c \<in> set cs. count_where (\<lambda>r. nt_dedupe_key r = Some (reminder_key e now b c)) (notifications (w_db w')) = 1)"
  using assms
proof (induction cs arbitrary: k w n)
  case Nil
  then show ?case by simp
next
  case (Cons c cs)
  let ?k = "reminder_key e now b c"
  from Cons.prems(1) obtain ins d n2 where q: "db_enqueue_notification (nids k) now (reminder_notification e now b c)
      (max_job_attempts (cfg e)) (w_db w) = Inr (ins, d)"
    and rest: "enqueue_reminders e nids now b (Suc k) cs (w\<lparr>w_db := d\<rparr>) = (Inr n2, w')"
    and n: "n = (if ins then 1 else 0) + n2"
    by (auto simp: then_do_Inr db_run_Inr)
  note r = db_enqueue_notification_Inr [OF q]
  have key: "nt_dedupe_key (notification_row i now m (reminder_notification e now b c)) = Some ?k" for i m
    by (simp add: notification_row_def)
  have ins: "ins \<longleftrightarrow> count_where (\<lambda>r. nt_dedupe_key r = Some ?k) (notifications (w_db w)) = 0"
    using r(2) by (auto simp: row_exists_iff count_where_def filter_empty_conv)
  have inv: "dedupe_inv d" unfolding dedupe_inv_def
  proof
    fix x
    have "count_where (\<lambda>r. nt_dedupe_key r = Some x) (notifications (w_db w)) \<le> 1"
      using Cons.prems(2) by (simp add: dedupe_inv_def)
    then show "count_where (\<lambda>r. nt_dedupe_key r = Some x) (notifications d) \<le> 1"
      using ins by (cases "x = ?k") (auto simp: r(1) key count_where_def)
  qed
  have one: "1 \<le> count_where (\<lambda>r. nt_dedupe_key r = Some ?k) (notifications d)"
    using ins by (cases ins) (simp_all add: r(1) key count_where_def Suc_le_eq)
  have ih: "dedupe_inv (w_db w') \<and> (\<exists>new. notifications (w_db w') = notifications d @ new \<and> length new = n2) \<and>
      (\<forall>c \<in> set cs. count_where (\<lambda>r. nt_dedupe_key r = Some (reminder_key e now b c)) (notifications (w_db w')) = 1)"
    using Cons.IH [OF rest] inv by simp
  then obtain new where new: "notifications (w_db w') = notifications d @ new" "length new = n2" by blast
  have "count_where (\<lambda>r. nt_dedupe_key r = Some ?k) (notifications (w_db w')) \<le> 1" using ih by (simp add: dedupe_inv_def)
  with one new(1) have "count_where (\<lambda>r. nt_dedupe_key r = Some ?k) (notifications (w_db w')) = 1" by simp
  with ih new n show ?case by (auto simp: r(1))
qed

lemma enqueue_reminders_again:
  assumes "\<And>c. c \<in> set cs \<Longrightarrow> row_exists (\<lambda>r. nt_dedupe_key r = Some (reminder_key e now b c)) (notifications (w_db w))"
  shows "enqueue_reminders e nids now b k cs w = (Inr 0, w)"
  using assms
proof (induction cs arbitrary: k)
  case (Cons c cs)
  have "db_run (db_enqueue_notification i now (reminder_notification e now b c) m) w = (Inr False, w)" for i m
    using Cons.prems by (simp add: db_enqueue_notification_def db_run_def)
  moreover have "enqueue_reminders e nids now b (Suc k) cs w = (Inr 0, w)" using Cons by simp
  ultimately show ?case by (simp add: then_do_def)
qed simp

lemma reminders_sent_once_parts:
  assumes run: "enqueue_due_reminder_notifications e nids now tenant w = (Inr n, w')"
    and inv: "dedupe_inv (w_db w)"
    and cs: "cs = db_list_due_reminder_candidates now (nat (reminder_due_soon_hours (cfg e))) reminder_candidate_limit
      tenant (w_db w)"
  shows "(\<forall>c \<in> set cs. count_where (\<lambda>r. nt_dedupe_key r = Some (reminder_key e now (reminder_bucket e now) c))
        (notifications (w_db w')) = 1) \<and>
      (\<exists>new. notifications (w_db w') = notifications (w_db w) @ new \<and> length new = n) \<and> dedupe_inv (w_db w')"
    and "\<lbrakk>reminder_bucket e later = reminder_bucket e now;
      \<forall>c \<in> set cs. reminder_kind later (dr_due_at c) = reminder_kind now (dr_due_at c)\<rbrakk> \<Longrightarrow>
      enqueue_reminders e nids2 later (reminder_bucket e later) k cs w' = (Inr 0, w')"
proof -
  have r: "enqueue_reminders e nids now (reminder_bucket e now) 0 cs w = (Inr n, w')"
    using run by (simp add: enqueue_due_reminder_notifications_def cs)
  note sent = enqueue_reminders_Inr [OF r inv]
  then show "(\<forall>c \<in> set cs. count_where (\<lambda>r. nt_dedupe_key r = Some (reminder_key e now (reminder_bucket e now) c))
        (notifications (w_db w')) = 1) \<and>
      (\<exists>new. notifications (w_db w') = notifications (w_db w) @ new \<and> length new = n) \<and> dedupe_inv (w_db w')"
    by blast
  assume same: "reminder_bucket e later = reminder_bucket e now"
    "\<forall>c \<in> set cs. reminder_kind later (dr_due_at c) = reminder_kind now (dr_due_at c)"
  show "enqueue_reminders e nids2 later (reminder_bucket e later) k cs w' = (Inr 0, w')"
  proof (rule enqueue_reminders_again)
    fix c assume c: "c \<in> set cs"
    then have "reminder_key e later (reminder_bucket e later) c = reminder_key e now (reminder_bucket e now) c"
      using same by (simp add: reminder_key_def)
    moreover have "0 < count_where (\<lambda>r. nt_dedupe_key r = Some (reminder_key e now (reminder_bucket e now) c)) (notifications (w_db w'))"
      using sent c by simp
    ultimately show "row_exists (\<lambda>r. nt_dedupe_key r = Some (reminder_key e later (reminder_bucket e later) c)) (notifications (w_db w'))"
      by (auto simp: count_where_pos row_exists_iff)
  qed
qed


definition demo_due_world :: world where
  "demo_due_world = demo_world\<lparr>w_db := demo_db\<lparr>tasks :=
     [demo_task 10 5 ''open'' 3\<lparr>tk_assignee_id := Some 1, tk_due_at := Some 2\<rparr>]\<rparr>\<rparr>"


end
